(* ===== verification/Prelude.thy ===== *)
theory Prelude
  imports "HOL-Library.Char_ord" "HOL-Library.List_Lexorder" "HOL-Library.Word"
    "HOL-Library.Multiset"
begin

text \<open>
  What every component of the development shares: the representation of Python's
  strings, bytes and sets, and the state-and-exception programs in which the services
  that touch the database and the file system are written.

  A Python \<open>str\<close> that only ever holds ASCII product text (codes, keys, identifiers) is a
  HOL \<^typ>\<open>string\<close>. Text that comes from a document or a client is a list of code points
  (\<open>ustring\<close>), because the code's checks look at code points beyond Latin-1. A Python
  \<open>set\<close> of strings is a list used as a set: additions go through \<^const>\<open>List.insert\<close> and
  every use of it in the code is a membership test, an emptiness test or \<open>sorted\<close>.
\<close>

section \<open>Text and bytes\<close>

type_synonym ustring = "nat list"
type_synonym byte = "8 word"
type_synonym bytes = "byte list"

named_theorems outcome "facts that describe the result of an operation, branch by branch"
named_theorems keeps_intro "rules that show a program keeps an invariant"

definition u :: "string \<Rightarrow> ustring" where
  "u s = map of_char s"

lemma u_inject [simp]: "u s = u t \<longleftrightarrow> s = t"
  by (auto simp: u_def inj_def intro: map_injective)

lemma u_Nil [simp]: "u [] = []" and u_eq_Nil [simp]: "u s = [] \<longleftrightarrow> s = []"
  by (simp_all add: u_def)

lemma length_u [simp]: "length (u s) = length s"
  by (simp add: u_def)

lemma u_append: "u (s @ t) = u s @ u t"
  by (simp add: u_def)

definition starts_with :: "'a list \<Rightarrow> 'a list \<Rightarrow> bool" where
  "starts_with p s \<longleftrightarrow> take (length p) s = p"

definition ends_with :: "'a list \<Rightarrow> 'a list \<Rightarrow> bool" where
  "ends_with p s \<longleftrightarrow> length p \<le> length s \<and> drop (length s - length p) s = p"

lemma ends_withI: "s = t @ p \<Longrightarrow> ends_with p s"
  by (simp add: ends_with_def)

definition replace_all :: "'a \<Rightarrow> 'a \<Rightarrow> 'a list \<Rightarrow> 'a list" where
  "replace_all a b s = map (\<lambda>c. if c = a then b else c) s"

text \<open>\<open>str.split(sep)\<close> for a one-character separator: never empty, one piece more than
  there are separators.\<close>

fun split_on :: "'a \<Rightarrow> 'a list \<Rightarrow> 'a list list" where
  "split_on sep [] = [[]]"
| "split_on sep (c # cs) =
     (if c = sep then [] # split_on sep cs
      else case split_on sep cs of [] \<Rightarrow> [[c]] | p # ps \<Rightarrow> (c # p) # ps)"

lemma split_on_not_Nil [simp]: "split_on sep s \<noteq> []"
  by (induction s) (auto split: list.splits)

fun join :: "'a list \<Rightarrow> 'a list list \<Rightarrow> 'a list" where
  "join sep [] = []"
| "join sep [p] = p"
| "join sep (p # ps) = p @ sep @ join sep ps"

lemma join_split_on [simp]: "join [sep] (split_on sep s) = s"
proof (induction s)
  case (Cons c cs)
  obtain p ps where "split_on sep cs = p # ps"
    by (cases "split_on sep cs") auto
  with Cons show ?case by (cases ps) auto
qed simp

text \<open>Python's \<open>str.isspace\<close> for one character, and \<open>str.strip()\<close>.\<close>

definition is_space :: "nat \<Rightarrow> bool" where
  "is_space c \<longleftrightarrow> 9 \<le> c \<and> c \<le> 13 \<or> 28 \<le> c \<and> c \<le> 32 \<or> c = 133 \<or> c = 160 \<or> c = 5760 \<or>
     8192 \<le> c \<and> c \<le> 8202 \<or> c = 8232 \<or> c = 8233 \<or> c = 8239 \<or> c = 8287 \<or> c = 12288"

definition strip :: "ustring \<Rightarrow> ustring" where
  "strip s = rev (dropWhile is_space (rev (dropWhile is_space s)))"

text \<open>\<open>PurePath(p).name\<close> for POSIX paths, and \<open>sub in text\<close>.\<close>

definition path_name :: "ustring \<Rightarrow> ustring" where
  "path_name p = (let parts = filter (\<lambda>c. c \<noteq> [] \<and> c \<noteq> [46]) (split_on 47 p) in
     if parts = [] then [] else last parts)"

definition contains :: "'a list \<Rightarrow> 'a list \<Rightarrow> bool" where
  "contains sub s \<longleftrightarrow> list_ex (\<lambda>k. starts_with sub (drop k s)) [0..<Suc (length s)]"

definition hex_digits :: "nat \<Rightarrow> string \<Rightarrow> bool" where
  "hex_digits n s \<longleftrightarrow> length s = n \<and> list_all (\<lambda>c. c \<in> set ''0123456789abcdef'') s"

section \<open>Sets of codes\<close>

definition sorted_codes :: "'a::linorder list \<Rightarrow> 'a list" where
  "sorted_codes xs = sort (remdups xs)"

lemma set_sorted_codes [simp]: "set (sorted_codes xs) = set xs"
  by (simp add: sorted_codes_def)

lemma distinct_sorted_codes [simp]: "distinct (sorted_codes xs)"
  by (simp add: sorted_codes_def)

lemma sorted_sorted_codes [simp]: "sorted (sorted_codes xs)"
  by (simp add: sorted_codes_def)

lemma sorted_codes_eq_Nil [simp]: "sorted_codes xs = [] \<longleftrightarrow> xs = []"
  by (metis set_sorted_codes set_empty)

lemma sorted_codes_cong: "set xs = set ys \<Longrightarrow> sorted_codes xs = sorted_codes ys"
  by (simp add: sorted_codes_def sorted_distinct_set_unique)

lemma sorted_codes_id: "sorted xs \<Longrightarrow> distinct xs \<Longrightarrow> sorted_codes xs = xs"
  by (simp add: sorted_codes_def distinct_remdups_id sorted_sort_id)

lemma sorted_codes_idem [simp]: "sorted_codes (sorted_codes xs) = sorted_codes xs"
  by (simp add: sorted_codes_id)

lemma length_sorted_codes: "length (sorted_codes xs) = card (set xs)"
  by (simp add: sorted_codes_def length_remdups_card_conv)

text \<open>The first error a sequence of checks reports.\<close>

fun first_error :: "('a \<Rightarrow> 'e option) \<Rightarrow> 'a list \<Rightarrow> 'e option" where
  "first_error f [] = None"
| "first_error f (x # xs) = (case f x of None \<Rightarrow> first_error f xs | Some e \<Rightarrow> Some e)"

lemma first_error_None: "first_error f xs = None \<longleftrightarrow> (\<forall>x\<in>set xs. f x = None)"
  by (induction xs) (auto split: option.splits)

section \<open>Programs with state and exceptions\<close>

text \<open>
  A service operation takes the state and returns either an exception or a value,
  together with the state it leaves. \<open>bindE\<close> is the sequence of statements, \<open>catchE\<close> a
  \<open>try/except\<close> whose handler chooses by the exception, \<open>finallyE\<close> a \<open>try/finally\<close>.
\<close>

type_synonym ('w, 'e, 'a) prog = "'w \<Rightarrow> ('e + 'a) \<times> 'w"

definition returnE :: "'a \<Rightarrow> ('w, 'e, 'a) prog" where
  "returnE x w = (Inr x, w)"

definition raiseE :: "'e \<Rightarrow> ('w, 'e, 'a) prog" where
  "raiseE e w = (Inl e, w)"

definition bindE :: "('w, 'e, 'a) prog \<Rightarrow> ('a \<Rightarrow> ('w, 'e, 'b) prog) \<Rightarrow> ('w, 'e, 'b) prog" where
  "bindE m k w = (case m w of (Inl e, w') \<Rightarrow> (Inl e, w') | (Inr x, w') \<Rightarrow> k x w')"

definition catchE ::
  "('w, 'e, 'a) prog \<Rightarrow> ('e \<Rightarrow> ('w, 'e, 'a) prog option) \<Rightarrow> ('w, 'e, 'a) prog" where
  "catchE m h w = (case m w of
     (Inl e, w') \<Rightarrow> (case h e of None \<Rightarrow> (Inl e, w') | Some k \<Rightarrow> k w')
   | (Inr x, w') \<Rightarrow> (Inr x, w'))"

definition finallyE :: "('w, 'e, 'a) prog \<Rightarrow> ('w, 'e, unit) prog \<Rightarrow> ('w, 'e, 'a) prog" where
  "finallyE m f w = (case m w of (r, w') \<Rightarrow>
     (case f w' of (Inl e, w'') \<Rightarrow> (Inl e, w'') | (Inr _, w'') \<Rightarrow> (r, w'')))"

text \<open>The part of a \<open>finally\<close> block that only runs when the body has not finished.\<close>

definition on_errorE :: "('w, 'e, 'a) prog \<Rightarrow> ('w, 'e, unit) prog \<Rightarrow> ('w, 'e, 'a) prog" where
  "on_errorE m f w = (case m w of
     (Inl e, w') \<Rightarrow> (case f w' of (Inl e', w'') \<Rightarrow> (Inl e', w'') | (Inr _, w'') \<Rightarrow> (Inl e, w''))
   | (Inr x, w') \<Rightarrow> (Inr x, w'))"

definition getE :: "('w \<Rightarrow> 'a) \<Rightarrow> ('w, 'e, 'a) prog" where
  "getE f w = (Inr (f w), w)"

definition modifyE :: "('w \<Rightarrow> 'w) \<Rightarrow> ('w, 'e, unit) prog" where
  "modifyE g w = (Inr (), g w)"

definition unlessE :: "bool \<Rightarrow> 'e \<Rightarrow> ('w, 'e, unit) prog" where
  "unlessE b e = (if b then returnE () else raiseE e)"

lemmas prog_defs = returnE_def raiseE_def bindE_def catchE_def finallyE_def on_errorE_def getE_def
  modifyE_def unlessE_def

text \<open>Running a program symbolically, and taking a run apart.\<close>

lemma bind_modify: "bindE (modifyE f) k s = k () (f s)"
  by (simp add: bindE_def modifyE_def)

lemma run_get: "bindE (getE f) k s = k (f s) s"
  by (simp add: bindE_def getE_def)

lemma run_return: "bindE (returnE x) k s = k x s"
  by (simp add: bindE_def returnE_def)

lemma run_assoc: "bindE (bindE m f) k s = bindE m (\<lambda>x. bindE (f x) k) s"
  by (simp add: bindE_def split: prod.split sum.split)

lemma run_if: "bindE (if b then m else n) k s = (if b then bindE m k s else bindE n k s)"
  by simp

lemma run_catch: "catchE m h s = (Inr x, t) \<Longrightarrow> bindE (catchE m h) k s = k x t"
  by (simp add: bindE_def)

lemma return_run: "returnE x s = (Inr x, s)"
  by (simp add: returnE_def)

lemma modify_run: "modifyE f s = (Inr (), f s)"
  by (simp add: modifyE_def)

lemma bind_returns:
  assumes "bindE m k s = (Inr x, t)"
  obtains y v where "m s = (Inr y, v)" "k y v = (Inr x, t)"
  using assms by (auto simp: bindE_def split: prod.splits sum.splits)

subsection \<open>Hoare triples\<close>

text \<open>\<open>triple P m Q E\<close>: started in a state with \<open>P\<close>, the program ends with a value and a
  state in \<open>Q\<close> or with an exception and a state in \<open>E\<close>.\<close>

definition triple ::
  "('w \<Rightarrow> bool) \<Rightarrow> ('w, 'e, 'a) prog \<Rightarrow> ('a \<Rightarrow> 'w \<Rightarrow> bool) \<Rightarrow> ('e \<Rightarrow> 'w \<Rightarrow> bool) \<Rightarrow> bool" where
  "triple P m Q E \<longleftrightarrow>
     (\<forall>w. P w \<longrightarrow> (case m w of (Inl e, w') \<Rightarrow> E e w' | (Inr x, w') \<Rightarrow> Q x w'))"

lemma tripleI: 
  "(\<And>w e w'. P w \<Longrightarrow> m w = (Inl e, w') \<Longrightarrow> E e w') \<Longrightarrow>
   (\<And>w x w'. P w \<Longrightarrow> m w = (Inr x, w') \<Longrightarrow> Q x w') \<Longrightarrow> triple P m Q E"
  by (auto simp: triple_def split: prod.splits sum.splits)

lemma triple_valueD: "triple P m Q E \<Longrightarrow> P w \<Longrightarrow> m w = (Inr x, w') \<Longrightarrow> Q x w'"
  by (force simp: triple_def)

lemma triple_errorD: "triple P m Q E \<Longrightarrow> P w \<Longrightarrow> m w = (Inl e, w') \<Longrightarrow> E e w'"
  by (force simp: triple_def)

lemma triple_weaken:
  assumes m: "triple P m Q E" and "\<And>w. P' w \<Longrightarrow> P w" "\<And>x w. Q x w \<Longrightarrow> Q' x w"
    "\<And>e w. E e w \<Longrightarrow> E' e w"
  shows "triple P' m Q' E'"
  by (rule tripleI) (auto intro: assms triple_valueD [OF m] triple_errorD [OF m])

lemma triple_ex: "(\<And>x. triple (P x) m Q E) \<Longrightarrow> triple (\<lambda>w. \<exists>x. P x w) m Q E"
  by (fastforce simp: triple_def)

lemma triple_if:
  "(b \<Longrightarrow> triple P m Q E) \<Longrightarrow> (\<not> b \<Longrightarrow> triple P n Q E) \<Longrightarrow> triple P (if b then m else n) Q E"
  by simp

lemma triple_option:
  "(x = None \<Longrightarrow> triple P m Q E) \<Longrightarrow> (\<And>y. x = Some y \<Longrightarrow> triple P (k y) Q E) \<Longrightarrow>
   triple P (case x of None \<Rightarrow> m | Some y \<Rightarrow> k y) Q E"
  by (cases x) simp_all

lemma triple_sum:
  "(\<And>a. x = Inl a \<Longrightarrow> triple P (m a) Q E) \<Longrightarrow> (\<And>b. x = Inr b \<Longrightarrow> triple P (k b) Q E) \<Longrightarrow>
   triple P (case x of Inl a \<Rightarrow> m a | Inr b \<Rightarrow> k b) Q E"
  by (cases x) simp_all

lemma triple_pair:
  "(\<And>a b. p = (a, b) \<Longrightarrow> triple P (k a b) Q E) \<Longrightarrow> triple P (case p of (a, b) \<Rightarrow> k a b) Q E"
  by (cases p) simp

lemma triple_return: "(\<And>w. P w \<Longrightarrow> Q x w) \<Longrightarrow> triple P (returnE x) Q E"
  by (simp add: triple_def returnE_def)

lemma triple_raise: "(\<And>w. P w \<Longrightarrow> E e w) \<Longrightarrow> triple P (raiseE e) Q E"
  by (simp add: triple_def raiseE_def)

lemma triple_bind:
  "triple P m R E \<Longrightarrow> (\<And>x. triple (R x) (k x) Q E) \<Longrightarrow> triple P (bindE m k) Q E"
  by (fastforce simp: triple_def bindE_def split: prod.splits sum.splits)

lemma triple_catch:
  assumes m: "triple P m Q F" and h: "\<And>e k. h e = Some k \<Longrightarrow> triple (F e) k Q E"
    and E: "\<And>e w. h e = None \<Longrightarrow> F e w \<Longrightarrow> E e w"
  shows "triple P (catchE m h) Q E"
proof (rule tripleI)
  fix w e w'
  assume w: "P w" and run: "catchE m h w = (Inl e, w')"
  show "E e w'"
  proof (cases "m w")
    case (Pair r v)
    with run obtain e' where e': "m w = (Inl e', v)" by (cases r) (auto simp: catchE_def)
    show ?thesis
    proof (cases "h e'")
      case None
      with run e' have "e' = e" "v = w'" by (auto simp: catchE_def)
      with e' None show ?thesis using triple_errorD [OF m w] E by blast
    next
      case (Some k)
      with run e' have "k v = (Inl e, w')" by (simp add: catchE_def)
      then show ?thesis using triple_errorD [OF h [OF Some] triple_errorD [OF m w e']] by blast
    qed
  qed
next
  fix w x w'
  assume w: "P w" and run: "catchE m h w = (Inr x, w')"
  show "Q x w'"
  proof (cases "m w")
    case (Pair r v)
    show ?thesis
    proof (cases r)
      case (Inl e')
      with Pair run obtain k where k: "h e' = Some k" "k v = (Inr x, w')"
        by (auto simp: catchE_def split: option.splits)
      from Pair Inl have "F e' v" using triple_errorD [OF m w] by blast
      then show ?thesis using triple_valueD [OF h [OF k(1)]] k(2) by blast
    next
      case (Inr y)
      with Pair run show ?thesis using triple_valueD [OF m w] by (simp add: catchE_def)
    qed
  qed
qed

lemma triple_finally:
  assumes m: "triple P m Q F" and Q: "\<And>x. triple (Q x) f (\<lambda>_. Q' x) E"
    and F: "\<And>e. triple (F e) f (\<lambda>_. E e) E"
  shows "triple P (finallyE m f) Q' E"
proof -
  have "case finallyE m f w of (Inl e, w') \<Rightarrow> E e w' | (Inr x, w') \<Rightarrow> Q' x w'" if w: "P w" for w
  proof (cases "m w")
    case (Pair r v)
    show ?thesis
    proof (cases r)
      case (Inl e)
      with Pair have "F e v" using triple_errorD [OF m w] by blast
      then show ?thesis
        using F [of e] Pair Inl by (cases "f v"; cases "fst (f v)") (auto simp: finallyE_def triple_def)
    next
      case (Inr x)
      with Pair have "Q x v" using triple_valueD [OF m w] by blast
      then show ?thesis
        using Q [of x] Pair Inr by (cases "f v"; cases "fst (f v)") (auto simp: finallyE_def triple_def)
    qed
  qed
  then show ?thesis by (simp add: triple_def)
qed

lemma triple_on_error:
  assumes m: "triple P m Q F" and F: "\<And>e. triple (F e) f (\<lambda>_. E e) E"
  shows "triple P (on_errorE m f) Q E"
proof (rule tripleI)
  fix w e w' assume w: "P w" and run: "on_errorE m f w = (Inl e, w')"
  then obtain e' v where v: "m w = (Inl e', v)"
    by (auto simp: on_errorE_def split: prod.splits sum.splits)
  from triple_errorD [OF m w v] have Fv: "F e' v" .
  show "E e w'"
  proof (cases "fst (f v)")
    case (Inl e'')
    with run v have "f v = (Inl e, w')"
      by (auto simp: on_errorE_def split: prod.splits sum.splits)
    then show ?thesis using triple_errorD [OF F Fv] by blast
  next
    case (Inr x)
    with run v have "f v = (Inr (), w')" "e = e'"
      by (auto simp: on_errorE_def split: prod.splits sum.splits)
    then show ?thesis using triple_valueD [OF F Fv] by blast
  qed
next
  fix w x w' assume "P w" "on_errorE m f w = (Inr x, w')"
  then show "Q x w'" using triple_valueD [OF m]
    by (auto simp: on_errorE_def split: prod.splits sum.splits)
qed

lemma triple_unless:
  "(\<And>w. P w \<Longrightarrow> b \<Longrightarrow> Q () w) \<Longrightarrow> (\<And>w. P w \<Longrightarrow> \<not> b \<Longrightarrow> E e w) \<Longrightarrow> triple P (unlessE b e) Q E"
  by (simp add: triple_def unlessE_def returnE_def raiseE_def)

lemma triple_get: "(\<And>w. P w \<Longrightarrow> Q (f w) w) \<Longrightarrow> triple P (getE f) Q E"
  by (simp add: triple_def getE_def)

lemma triple_modify: "(\<And>w. P w \<Longrightarrow> Q () (g w)) \<Longrightarrow> triple P (modifyE g) Q E"
  by (simp add: triple_def modifyE_def)

subsection \<open>Invariants of programs\<close>

definition keeps :: "('w \<Rightarrow> bool) \<Rightarrow> ('w, 'e, 'a) prog \<Rightarrow> bool" where
  "keeps I m \<longleftrightarrow> (\<forall>w. I w \<longrightarrow> I (snd (m w)))"

lemma keepsD: "keeps I m \<Longrightarrow> I w \<Longrightarrow> I (snd (m w))"
  by (simp add: keeps_def)

lemma keeps_triple: "keeps I m \<longleftrightarrow> triple I m (\<lambda>_. I) (\<lambda>_. I)"
proof -
  have "(case m w of (Inl e, w') \<Rightarrow> I w' | (Inr x, w') \<Rightarrow> I w') = I (snd (m w))" for w
    by (cases "m w"; cases "fst (m w)") auto
  then show ?thesis by (simp add: keeps_def triple_def)
qed

lemma keeps_return [keeps_intro]: "keeps I (returnE x)"
  by (simp add: keeps_def returnE_def)

lemma keeps_raise [keeps_intro]: "keeps I (raiseE e)"
  by (simp add: keeps_def raiseE_def)

lemma keeps_get [keeps_intro]: "keeps I (getE f)"
  by (simp add: keeps_def getE_def)

lemma keeps_unless [keeps_intro]: "keeps I (unlessE b e)"
  by (simp add: unlessE_def keeps_intro)

lemma keeps_modify: "(\<And>w. I w \<Longrightarrow> I (g w)) \<Longrightarrow> keeps I (modifyE g)"
  by (simp add: keeps_def modifyE_def)

lemma keeps_bind [keeps_intro]: "keeps I m \<Longrightarrow> (\<And>x. keeps I (k x)) \<Longrightarrow> keeps I (bindE m k)"
  by (fastforce simp: keeps_def bindE_def split: prod.splits sum.splits)

lemma keeps_catch [keeps_intro]:
  "keeps I m \<Longrightarrow> (\<And>e k. h e = Some k \<Longrightarrow> keeps I k) \<Longrightarrow> keeps I (catchE m h)"
  by (fastforce simp: keeps_def catchE_def split: prod.splits sum.splits option.splits)

lemma keeps_finally [keeps_intro]: "keeps I m \<Longrightarrow> keeps I f \<Longrightarrow> keeps I (finallyE m f)"
  by (fastforce simp: keeps_def finallyE_def split: prod.splits sum.splits)

lemma keeps_on_error [keeps_intro]: "keeps I m \<Longrightarrow> keeps I f \<Longrightarrow> keeps I (on_errorE m f)"
  by (fastforce simp: keeps_def on_errorE_def split: prod.splits sum.splits)

lemma keeps_if [keeps_intro]:
  "(b \<Longrightarrow> keeps I m) \<Longrightarrow> (\<not> b \<Longrightarrow> keeps I n) \<Longrightarrow> keeps I (if b then m else n)"
  by simp

lemma keeps_option [keeps_intro]:
  "(x = None \<Longrightarrow> keeps I m) \<Longrightarrow> (\<And>y. x = Some y \<Longrightarrow> keeps I (k y)) \<Longrightarrow>
   keeps I (case x of None \<Rightarrow> m | Some y \<Rightarrow> k y)"
  by (cases x) simp_all

lemma keeps_pair [keeps_intro]:
  "(\<And>a b. p = (a, b) \<Longrightarrow> keeps I (k a b)) \<Longrightarrow> keeps I (case p of (a, b) \<Rightarrow> k a b)"
  by (cases p) simp

subsection \<open>Loops\<close>

fun forE :: "('a \<Rightarrow> ('w, 'e, unit) prog) \<Rightarrow> 'a list \<Rightarrow> ('w, 'e, unit) prog" where
  "forE f [] = returnE ()"
| "forE f (x # xs) = bindE (f x) (\<lambda>_. forE f xs)"

text \<open>A loop whose body says whether to go on (\<open>False\<close> is a \<open>break\<close> or a \<open>return\<close>).\<close>

fun whileE :: "('a \<Rightarrow> ('w, 'e, bool) prog) \<Rightarrow> 'a list \<Rightarrow> ('w, 'e, bool) prog" where
  "whileE f [] = returnE True"
| "whileE f (x # xs) = bindE (f x) (\<lambda>go_on. if go_on then whileE f xs else returnE False)"

definition fromE :: "'e + 'a \<Rightarrow> ('w, 'e, 'a) prog" where
  "fromE r = (case r of Inl e \<Rightarrow> raiseE e | Inr x \<Rightarrow> returnE x)"

lemma bind_from: "bindE (fromE (Inr x)) k s = k x s"
  by (simp add: bindE_def fromE_def returnE_def)

subsection \<open>Effects of programs\<close>

text \<open>\<open>leaves R m\<close>: however the program ends, the state it leaves is related to the one it started
  in. For a preorder this composes.\<close>

definition leaves :: "('w \<Rightarrow> 'w \<Rightarrow> bool) \<Rightarrow> ('w, 'e, 'a) prog \<Rightarrow> bool" where
  "leaves R m \<longleftrightarrow> (\<forall>w. R w (snd (m w)))"

lemma leavesD: "leaves R m \<Longrightarrow> m w = (r, w') \<Longrightarrow> R w w'"
  by (metis leaves_def snd_conv)

locale effects =
  fixes R :: "'w \<Rightarrow> 'w \<Rightarrow> bool"
  assumes here: "R w w" and onward: "R a b \<Longrightarrow> R b c \<Longrightarrow> R a c"
begin

lemma leaves_return: "leaves R (returnE x)"
  by (simp add: leaves_def returnE_def here)

lemma leaves_raise: "leaves R (raiseE e)"
  by (simp add: leaves_def raiseE_def here)

lemma leaves_get: "leaves R (getE f)"
  by (simp add: leaves_def getE_def here)

lemma leaves_from: "leaves R (fromE r)"
  by (simp add: fromE_def leaves_return leaves_raise split: sum.split)

lemma leaves_modify: "(\<And>w. R w (g w)) \<Longrightarrow> leaves R (modifyE g)"
  by (simp add: leaves_def modifyE_def)

lemma leaves_bind:
  assumes "leaves R m" "\<And>x. leaves R (k x)"
  shows "leaves R (bindE m k)"
  unfolding leaves_def
proof
  fix w
  obtain r w' where m: "m w = (r, w')" by fastforce
  with assms(1) have "R w w'" by (rule leavesD)
  moreover have "R w' (snd (k x w'))" for x using assms(2) by (simp add: leaves_def)
  ultimately show "R w (snd (bindE m k w))" using m by (cases r) (auto simp: bindE_def intro: onward)
qed

text \<open>The rest of the program may rely on what it read.\<close>

lemma leaves_get_bind: "(\<And>w. R w (snd (k (f w) w))) \<Longrightarrow> leaves R (bindE (getE f) k)"
  by (simp add: leaves_def bindE_def getE_def)

lemma leaves_catch:
  assumes "leaves R m" "\<And>e k. h e = Some k \<Longrightarrow> leaves R k"
  shows "leaves R (catchE m h)"
  unfolding leaves_def
proof
  fix w
  obtain r w' where m: "m w = (r, w')" by fastforce
  with assms(1) have "R w w'" by (rule leavesD)
  moreover have "R w' (snd (k w'))" if "h e = Some k" for e k using assms(2) [OF that] by (simp add: leaves_def)
  ultimately show "R w (snd (catchE m h w))"
    using m by (cases r) (auto simp: catchE_def intro: onward split: option.split)
qed

lemma leaves_if: "(b \<Longrightarrow> leaves R m) \<Longrightarrow> (\<not> b \<Longrightarrow> leaves R n) \<Longrightarrow> leaves R (if b then m else n)"
  by simp

lemma leaves_option:
  "(x = None \<Longrightarrow> leaves R m) \<Longrightarrow> (\<And>y. x = Some y \<Longrightarrow> leaves R (k y)) \<Longrightarrow>
   leaves R (case x of None \<Rightarrow> m | Some y \<Rightarrow> k y)"
  by (cases x) simp_all

lemma leaves_pair: "(\<And>a b. p = (a, b) \<Longrightarrow> leaves R (k a b)) \<Longrightarrow> leaves R (case p of (a, b) \<Rightarrow> k a b)"
  by (cases p) simp

lemma leaves_for: "(\<And>x. leaves R (f x)) \<Longrightarrow> leaves R (forE f xs)"
  by (induction xs) (simp_all add: leaves_return leaves_bind)

lemma leaves_while: "(\<And>x. leaves R (f x)) \<Longrightarrow> leaves R (whileE f xs)"
  by (induction xs) (simp_all add: leaves_return leaves_bind)

lemma after_reading:
  assumes "leaves (=) m" "\<And>x. R w (snd (k x w))"
  shows "R w (snd (bindE m k w))"
proof -
  obtain r where "m w = (r, w)" using assms(1) by (metis leaves_def prod.collapse)
  with assms(2) here show ?thesis by (cases r) (auto simp: bindE_def)
qed

lemma after_step:
  assumes "R w (snd (m w))" "\<And>x. leaves R (k x)"
  shows "R w (snd (bindE m k w))"
proof -
  obtain r w' where m: "m w = (r, w')" by fastforce
  moreover have "R w' (snd (k x w'))" for x using assms(2) by (simp add: leaves_def)
  ultimately show ?thesis using assms(1) by (cases r) (auto simp: bindE_def intro: onward)
qed

lemmas leaves_intro = leaves_return leaves_raise leaves_get leaves_from leaves_bind leaves_if leaves_option
  leaves_pair leaves_for leaves_while

end

end
