(* ===== verification/Json_Text.thy ===== *)
theory Json_Text
  imports Prelude
begin

text \<open>
  JSON values as the contract models of \<open>app/models/domain.py\<close> carry them, and the text
  \<open>json.dumps\<close> makes of them with \<open>separators=(",", ":")\<close>, \<open>sort_keys=True\<close> and
  \<open>ensure_ascii=False\<close>, down to the byte: the size checks of the code
  measure its UTF-8 length. A float is kept by its \<open>repr\<close>; \<open>None\<close> stands for the
  non-finite floats, which \<open>allow_nan=False\<close> rejects.
\<close>

datatype json =
    JNull
  | JBool bool
  | JInt int
  | JFloat "string option"
  | JStr ustring
  | JList "json list"
  | JObj "(ustring \<times> json) list"

type_synonym json_object = "(ustring \<times> json) list"

definition obj :: "(string \<times> json) list \<Rightarrow> json_object" where
  "obj kvs = map (\<lambda>(k, v). (u k, v)) kvs"

definition jget :: "json_object \<Rightarrow> string \<Rightarrow> json option" where
  "jget m k = map_of m (u k)"

definition jtext :: "string \<Rightarrow> json" where
  "jtext s = JStr (u s)"

definition jcodes :: "string list \<Rightarrow> json" where
  "jcodes xs = JList (map jtext xs)"

lemma jget_obj [simp]: "jget (obj kvs) k = map_of kvs k"
  by (induction kvs) (auto simp: jget_def obj_def)

lemma keys_obj [simp]: "map fst (obj kvs) = map (u \<circ> fst) kvs"
  by (induction kvs) (auto simp: obj_def)

lemma jtext_inject [simp]: "jtext s = jtext t \<longleftrightarrow> s = t"
  by (simp add: jtext_def)

section \<open>Numbers\<close>

fun digits :: "nat \<Rightarrow> ustring" where
  "digits n = (if n < 10 then [48 + n] else digits (n div 10) @ [48 + n mod 10])"

declare digits.simps [simp del]

definition int_text :: "int \<Rightarrow> ustring" where
  "int_text i = (if i < 0 then 45 # digits (nat (- i)) else digits (nat i))"

lemma length_digits: "length (digits n) \<le> Suc n"
proof (induction n rule: digits.induct)
  case (1 n)
  show ?case
  proof (cases "n < 10")
    case False
    with 1 have "length (digits (n div 10)) \<le> Suc (n div 10)" by simp
    with False show ?thesis by (subst digits.simps) auto
  qed (simp add: digits.simps)
qed

lemma length_digits_bound: "n < 10 ^ k \<Longrightarrow> 0 < k \<Longrightarrow> length (digits n) \<le> k"
proof (induction k arbitrary: n)
  case (Suc k)
  show ?case
  proof (cases "n < 10")
    case False
    with Suc.prems have "k \<noteq> 0" by (cases k) auto
    with Suc have "length (digits (n div 10)) \<le> k"
      by (simp add: less_mult_imp_div_less mult.commute)
    with False show ?thesis by (subst digits.simps) simp
  qed (simp add: digits.simps)
qed simp

section \<open>Strings\<close>

definition hex4 :: "nat \<Rightarrow> ustring" where
  "hex4 n = map (\<lambda>d. if d < 10 then 48 + d else 87 + d)
     [n div 4096 mod 16, n div 256 mod 16, n div 16 mod 16, n mod 16]"

definition escape_char :: "nat \<Rightarrow> ustring" where
  "escape_char c =
     (if c = 34 \<or> c = 92 then [92, c]
      else if c = 8 then [92, 98] else if c = 9 then [92, 116] else if c = 10 then [92, 110]
      else if c = 12 then [92, 102] else if c = 13 then [92, 114]
      else if c < 32 then [92, 117] @ hex4 c else [c])"

definition quote :: "ustring \<Rightarrow> ustring" where
  "quote s = [34] @ concat (map escape_char s) @ [34]"

section \<open>The serialiser\<close>

fun all_some :: "'a option list \<Rightarrow> 'a list option" where
  "all_some [] = Some []"
| "all_some (None # xs) = None"
| "all_some (Some x # xs) = map_option (Cons x) (all_some xs)"

definition object_text :: "(ustring \<times> ustring option) list \<Rightarrow> ustring option" where
  "object_text kvs =
     map_option (\<lambda>ts. [123] @ join [44] ts @ [125])
       (all_some (map (\<lambda>(k, t). map_option (\<lambda>t. quote k @ [58] @ t) t) (sort_key fst kvs)))"

primrec json_text :: "json \<Rightarrow> ustring option" where
  "json_text JNull = Some (u ''null'')"
| "json_text (JBool b) = Some (u (if b then ''true'' else ''false''))"
| "json_text (JInt i) = Some (int_text i)"
| "json_text (JFloat r) = map_option u r"
| "json_text (JStr s) = Some (quote s)"
| "json_text (JList xs) =
     map_option (\<lambda>ts. [91] @ join [44] ts @ [93]) (all_some (map json_text xs))"
| "json_text (JObj kvs) = object_text (map (map_prod (\<lambda>x. x) json_text) kvs)"

text \<open>Only a non-finite float has no text.\<close>

primrec finite_json :: "json \<Rightarrow> bool" where
  "finite_json JNull = True"
| "finite_json (JBool b) = True"
| "finite_json (JInt i) = True"
| "finite_json (JFloat r) = (r \<noteq> None)"
| "finite_json (JStr s) = True"
| "finite_json (JList xs) = list_all (\<lambda>b. b) (map finite_json xs)"
| "finite_json (JObj kvs) = list_all snd (map (map_prod (\<lambda>x. x) finite_json) kvs)"

lemma all_some_None: "all_some xs = None \<longleftrightarrow> None \<in> set xs"
  by (induction xs rule: all_some.induct) auto

lemma object_text_None: "object_text kvs = None \<longleftrightarrow> None \<in> snd ` set kvs"
  by (force simp: object_text_def all_some_None)

lemma json_text_finite: "finite_json j \<Longrightarrow> json_text j \<noteq> None"
proof (induction j)
  case (JList xs)
  then have "None \<notin> json_text ` set xs" by (force simp: list_all_iff simp del: not_None_eq)
  then show ?case by (simp add: all_some_None del: not_None_eq)
next
  case (JObj kvs)
  have "json_text v \<noteq> None" if "(k, v) \<in> set kvs" for k v
    using JObj.IH [of "(k, v)" v] JObj.prems that
    by (auto simp: list_all_iff simp del: not_None_eq)
  then have "None \<notin> (\<lambda>kv. json_text (snd kv)) ` set kvs"
    by (force simp del: not_None_eq)
  then show ?case by (simp add: object_text_None image_image del: not_None_eq)
qed simp_all

text \<open>The length of \<open>.encode("utf-8")\<close>; a lone surrogate cannot be encoded.\<close>

definition utf8_length :: "nat \<Rightarrow> nat option" where
  "utf8_length c =
     (if c < 128 then Some 1 else if c < 2048 then Some 2
      else if 55296 \<le> c \<and> c < 57344 then None
      else if c < 65536 then Some 3 else if c < 1114112 then Some 4 else None)"

definition utf8_size :: "ustring \<Rightarrow> nat option" where
  "utf8_size s = map_option sum_list (all_some (map utf8_length s))"

definition json_size :: "json \<Rightarrow> nat option" where
  "json_size j = Option.bind (json_text j) utf8_size"

text \<open>With the default \<open>ensure_ascii=True\<close> every character outside the printable ASCII range
  is escaped too, above the basic plane as a surrogate pair; such characters only occur
  inside strings.\<close>

definition ascii_char :: "nat \<Rightarrow> ustring" where
  "ascii_char c =
     (if c < 127 then [c]
      else if c < 65536 then [92, 117] @ hex4 c
      else [92, 117] @ hex4 (55296 + (c - 65536) div 1024) @ [92, 117] @ hex4 (56320 + (c - 65536) mod 1024))"

definition json_ascii_size :: "json \<Rightarrow> nat option" where
  "json_ascii_size j = map_option (\<lambda>s. length (concat (map ascii_char s))) (json_text j)"

lemma all_some_map_Some [simp]: "all_some (map (\<lambda>x. Some (f x)) xs) = Some (map f xs)"
  by (induction xs) auto

lemma utf8_size_ascii: "list_all (\<lambda>c. c < 128) s \<Longrightarrow> utf8_size s = Some (length s)"
proof -
  assume "list_all (\<lambda>c. c < 128) s"
  then have "all_some (map utf8_length s) = Some (map (\<lambda>_. 1) s)"
    by (induction s) (auto simp: utf8_length_def)
  then show ?thesis by (simp add: utf8_size_def sum_list_triv)
qed

end
