(* ===== verification/Contract_Findings.thy ===== *)
theory Contract_Findings
  imports Json_Text
begin

text \<open>
  The dependency-free constants both sides of the process boundary share:
  \<open>docguard_contract/__init__.py\<close>, the finding registry of \<open>docguard_contract/findings.py\<close>
  and the YARA rule manifest of \<open>docguard_contract/yara_rules.py\<close>. The tables are
  transcribed row by row, in the order of the source. A table that the code turns into
  a dictionary keyed by a field of its rows is a \<open>registry\<close>: the locale proves once what
  a lookup returns.
\<close>

section \<open>Registries\<close>

definition lookup_row :: "('r \<Rightarrow> string) \<Rightarrow> 'r list \<Rightarrow> string \<Rightarrow> 'r option" where
  "lookup_row key rows k = find (\<lambda>r. key r = k) rows"

locale registry =
  fixes key :: "'r \<Rightarrow> string" and rows :: "'r list"
  assumes distinct_keys: "distinct (map key rows)"
begin

lemma lookup_Some: "lookup_row key rows k = Some r \<longleftrightarrow> r \<in> set rows \<and> key r = k"
proof
  assume "lookup_row key rows k = Some r"
  then show "r \<in> set rows \<and> key r = k"
    by (auto simp: lookup_row_def find_Some_iff)
next
  assume r: "r \<in> set rows \<and> key r = k"
  then obtain r' where r': "lookup_row key rows k = Some r'"
    by (cases "lookup_row key rows k") (auto simp: lookup_row_def find_None_iff)
  then have "r' \<in> set rows" "key r' = k"
    by (auto simp: lookup_row_def find_Some_iff)
  with r distinct_keys have "r' = r" by (auto simp: distinct_map dest: inj_onD)
  with r' show "lookup_row key rows k = Some r" by simp
qed

lemma lookup_None: "lookup_row key rows k = None \<longleftrightarrow> k \<notin> set (map key rows)"
  by (auto simp: lookup_row_def find_None_iff)

lemma lookup_key: "r \<in> set rows \<Longrightarrow> lookup_row key rows (key r) = Some r"
  by (simp add: lookup_Some)

lemma lookup_all: "list_all P rows \<Longrightarrow> lookup_row key rows k = Some r \<Longrightarrow> P r"
  by (simp add: lookup_Some list_all_iff)

end

section \<open>Contract constants\<close>

definition ANALYSIS_SCHEMA_VERSION :: string where "ANALYSIS_SCHEMA_VERSION = ''2.1''"
definition WORKER_VERSION :: string where "WORKER_VERSION = ''0.8.0''"
definition MAX_FINDINGS_PER_ANALYSIS :: nat where "MAX_FINDINGS_PER_ANALYSIS = 256"
definition MAX_FINDING_METADATA_BYTES :: nat where "MAX_FINDING_METADATA_BYTES = 16 * 1024"
definition MAX_ANALYZER_METADATA_BYTES :: nat where "MAX_ANALYZER_METADATA_BYTES = 32 * 1024"

datatype severity = INFO | LOW | MEDIUM | HIGH | CRITICAL

section \<open>The finding registry\<close>

record finding_definition =
  fd_code :: string
  fd_title :: string
  fd_description :: string
  fd_default_severity :: severity
  fd_category :: string
  fd_mitre_techniques :: "string list"

definition finding_def ::
  "string \<Rightarrow> string \<Rightarrow> string \<Rightarrow> severity \<Rightarrow> string \<Rightarrow> string list \<Rightarrow> finding_definition" where
  "finding_def code title description severity category mitre_techniques =
     \<lparr>fd_code = code, fd_title = title, fd_description = description,
      fd_default_severity = severity, fd_category = category,
      fd_mitre_techniques = mitre_techniques\<rparr>"

definition FILE_DEFINITIONS :: "finding_definition list" where
  "FILE_DEFINITIONS = [
    finding_def ''FILE_DOUBLE_EXTENSION''
      ''Dangerous double extension observed''
      ''The filename ends in an executable-capable extension after a business-document extension.''
      HIGH ''file-identity'' [],
    finding_def ''FILE_BIDI_OVERRIDE''
      ''Bidirectional filename control observed''
      ''The filename contains Unicode bidirectional controls that can alter its visual ordering.''
      HIGH ''file-identity'' [],
    finding_def ''FILE_TYPE_MISMATCH''
      ''Filename type does not match observed content''
      ''The filename extension claims a different file family than the libmagic content identification.''
      HIGH ''file-identity'' [],
    finding_def ''FILE_EXECUTABLE_MASQUERADE''
      ''Executable content masquerades as a business document''
      ''Libmagic identified Windows executable content while the filename claims a business-document extension.''
      CRITICAL ''file-identity'' [''T1036.008''],
    finding_def ''FILE_CLIENT_MIME_MISMATCH''
      ''Client content type differs from observed content''
      ''The client-provided Content-Type differs from the libmagic identification; the client claim was not trusted for analysis.''
      INFO ''file-identity'' []]"

definition PDF_DEFINITIONS :: "finding_definition list" where
  "PDF_DEFINITIONS = [
    finding_def ''PDF_JAVASCRIPT''
      ''PDF JavaScript capability detected''
      ''The PDF structure contains a JavaScript action or document JavaScript name-tree entry.''
      MEDIUM ''pdf-active-content'' [''T1204.002''],
    finding_def ''PDF_OPEN_ACTION''
      ''Automatic PDF open action detected''
      ''The PDF catalog contains an OpenAction that a viewer may process when the document opens.''
      MEDIUM ''pdf-actions'' [],
    finding_def ''PDF_ADDITIONAL_ACTION''
      ''PDF additional actions detected''
      ''The PDF contains one or more event-triggered additional-action dictionaries.''
      MEDIUM ''pdf-actions'' [],
    finding_def ''PDF_LAUNCH_ACTION''
      ''PDF launch action detected''
      ''The PDF contains an action intended to launch an application, document, or resource.''
      HIGH ''pdf-actions'' [''T1204.002''],
    finding_def ''PDF_EMBEDDED_FILE''
      ''PDF embedded file structure detected''
      ''The PDF contains one or more embedded-file specifications or payload structures.''
      MEDIUM ''pdf-attachments'' [],
    finding_def ''PDF_ACROFORM''
      ''PDF interactive AcroForm detected''
      ''The PDF catalog contains an interactive AcroForm structure.''
      LOW ''pdf-forms'' [],
    finding_def ''PDF_XFA''
      ''PDF XFA form structure detected''
      ''The PDF AcroForm contains an XFA structure; DocGuard does not execute or render XFA.''
      MEDIUM ''pdf-forms'' [],
    finding_def ''PDF_EXTERNAL_URI''
      ''PDF external URI action detected''
      ''The PDF contains one or more URI actions; DocGuard records bounded lexical metadata and never fetches them.''
      LOW ''pdf-external-reference'' [],
    finding_def ''PDF_EXTERNAL_SUBMISSION''
      ''PDF form submission to an external target detected''
      ''A structurally-confirmed SubmitForm action targets a URL-shaped destination with an explicit scheme; DocGuard records only bounded scheme/hostname metadata and never submits data or fetches the target.''
      MEDIUM ''pdf-external-reference'' [],
    finding_def ''PDF_ENCRYPTED''
      ''Encrypted PDF detected''
      ''The PDF uses encryption or password protection, which is not inherently malicious.''
      LOW ''pdf-analysis-limitation'' [],
    finding_def ''PDF_PARTIAL_ANALYSIS''
      ''PDF analysis was incomplete''
      ''Structural PDF inspection stopped before complete coverage; bounded metadata records the reason.''
      MEDIUM ''pdf-analysis-limitation'' [],
    finding_def ''PDF_MALFORMED''
      ''Malformed PDF structure detected''
      ''The PDF parser reported structural damage, so complete analysis cannot be trusted.''
      HIGH ''pdf-structure'' [],
    finding_def ''PDF_FALLBACK_INDICATOR''
      ''Bounded lexical indicators observed in a structurally incomplete PDF''
      ''Structural PDF analysis was incomplete or rejected, so DocGuard additionally searched the raw bytes for a fixed set of known PDF name-object keywords. This is a bounded, non-executing lexical scan, not confirmed PDF object traversal: a match here is not equivalent to, and must not be confused with, a structurally-confirmed finding such as PDF_JAVASCRIPT or PDF_XFA.''
      MEDIUM ''pdf-analysis-limitation'' []]"

definition OFFICE_DEFINITIONS :: "finding_definition list" where
  "OFFICE_DEFINITIONS = [
    finding_def ''OFFICE_MACRO_ENABLED''
      ''Macro-enabled Office structure detected''
      ''The Office container declares macro-enabled content or a VBA project structure.''
      LOW ''office-macros'' [''T1204.002''],
    finding_def ''OFFICE_VBA_MACRO''
      ''Office VBA macro project detected''
      ''One or more VBA projects or modules are structurally present in the Office document.''
      MEDIUM ''office-macros'' [''T1204.002''],
    finding_def ''OFFICE_VBA_AUTOEXEC''
      ''Office VBA auto-execution entry point detected''
      ''Static VBA analysis identified an entry point that Office may invoke automatically.''
      HIGH ''office-macros'' [''T1059.005'', ''T1204.002''],
    finding_def ''OFFICE_VBA_EXECUTION_INDICATOR''
      ''Office VBA execution-capable indicator detected''
      ''Static VBA analysis identified bounded APIs or constructs capable of launching commands, scripts, or processes; their presence does not prove maliciousness.''
      HIGH ''office-macros'' [''T1059.005''],
    finding_def ''OFFICE_EXTERNAL_RELATIONSHIP''
      ''External Office relationship detected''
      ''The OOXML package contains one or more external relationships; DocGuard records only bounded lexical metadata and never fetches them.''
      LOW ''office-external-reference'' [],
    finding_def ''OFFICE_EXTERNAL_TEMPLATE''
      ''External Office template relationship detected''
      ''The Word package references an external template; DocGuard does not fetch the target.''
      HIGH ''office-external-reference'' [''T1221''],
    finding_def ''OFFICE_EMBEDDED_OBJECT''
      ''Embedded Office object structure detected''
      ''The Office container contains embedded OLE or package object structures that were not recursively analyzed.''
      MEDIUM ''office-embedded-content'' [],
    finding_def ''OFFICE_ACTIVEX''
      ''Office ActiveX structure detected''
      ''The Office container contains ActiveX control structures; DocGuard does not instantiate or execute controls.''
      MEDIUM ''office-active-content'' [],
    finding_def ''OFFICE_ENCRYPTED''
      ''Encrypted Office document detected''
      ''The Office container uses encryption that prevents complete structural inspection; encryption is not inherently malicious.''
      LOW ''office-analysis-limitation'' [],
    finding_def ''OFFICE_PARTIAL_ANALYSIS''
      ''Office analysis was incomplete''
      ''Structural Office inspection stopped before complete coverage; bounded metadata records the reason.''
      MEDIUM ''office-analysis-limitation'' [],
    finding_def ''OFFICE_MALFORMED''
      ''Malformed Office structure detected''
      ''The Office container or a required component is malformed, so complete analysis cannot be trusted.''
      HIGH ''office-structure'' []]"

definition ARCHIVE_DEFINITIONS :: "finding_definition list" where
  "ARCHIVE_DEFINITIONS = [
    finding_def ''ARCHIVE_PATH_TRAVERSAL''
      ''Archive path traversal observed''
      ''The ZIP contains a member name with a parent-directory component that could escape an extraction root in another tool.''
      HIGH ''archive-path'' [],
    finding_def ''ARCHIVE_ABSOLUTE_PATH''
      ''Rooted archive member path observed''
      ''The ZIP contains a POSIX, Windows drive-rooted, or UNC-style member path.''
      HIGH ''archive-path'' [],
    finding_def ''ARCHIVE_SYMLINK''
      ''Archive symbolic-link entry observed''
      ''The ZIP contains a Unix symbolic-link entry; DocGuard did not follow or resolve it.''
      HIGH ''archive-path'' [],
    finding_def ''ARCHIVE_DUPLICATE_MEMBER''
      ''Ambiguous duplicate archive member observed''
      ''The ZIP contains exact or conservatively normalized member-name collisions that may be handled inconsistently by extraction tools.''
      MEDIUM ''archive-structure'' [],
    finding_def ''ARCHIVE_DANGEROUS_MEMBER''
      ''Execution-capable archive member name observed''
      ''The ZIP contains a member whose extension denotes executable, script, shortcut, library, or installer content; this does not by itself establish maliciousness.''
      HIGH ''archive-member'' [],
    finding_def ''ARCHIVE_MEMBER_DOUBLE_EXTENSION''
      ''Archive member uses a dangerous double extension''
      ''The ZIP contains a member ending in an execution-capable extension after a business-document extension.''
      HIGH ''archive-member'' [''T1036.007''],
    finding_def ''ARCHIVE_MEMBER_BIDI_OVERRIDE''
      ''Bidirectional control observed in archive member name''
      ''The ZIP contains a member name with Unicode bidirectional controls that can alter its visual ordering.''
      HIGH ''archive-member'' [''T1036.002''],
    finding_def ''ARCHIVE_ENCRYPTED''
      ''Encrypted archive member observed''
      ''The ZIP marks one or more members as encrypted; DocGuard does not request passwords, decrypt, or brute-force them.''
      LOW ''archive-analysis-limitation'' [],
    finding_def ''ARCHIVE_NESTING_LIMIT''
      ''Archive nesting limit reached''
      ''Nested ZIP inspection stopped at the configured recursion depth.''
      MEDIUM ''archive-analysis-limitation'' [],
    finding_def ''ARCHIVE_RESOURCE_LIMIT''
      ''Archive resource limit reached''
      ''ZIP inspection stopped because an actual-byte, entry, member, container, materialization, or finding budget was exhausted.''
      HIGH ''archive-analysis-limitation'' [],
    finding_def ''ARCHIVE_MALFORMED''
      ''Malformed ZIP structure detected''
      ''The ZIP or a nested ZIP could not be inspected reliably because archive structure or decompressed member data was malformed.''
      HIGH ''archive-structure'' [],
    finding_def ''ARCHIVE_PARTIAL_ANALYSIS''
      ''Archive analysis was incomplete''
      ''ZIP inspection stopped before complete coverage; bounded metadata records the reason.''
      MEDIUM ''archive-analysis-limitation'' []]"

definition YARA_DEFINITIONS :: "finding_definition list" where
  "YARA_DEFINITIONS = [
    finding_def ''YARA_TEST_SIGNATURE''
      ''Controlled YARA test signature matched''
      ''A trusted local anti-malware test signature matched; the test artifact is not real malware.''
      HIGH ''yara-test-signature'' [],
    finding_def ''YARA_SIGNATURE_MATCH''
      ''Trusted YARA signature matched''
      ''A trusted local high-confidence signature matched the top-level submitted file.''
      HIGH ''yara-signature'' [],
    finding_def ''YARA_HEURISTIC_MATCH''
      ''Trusted YARA heuristic matched''
      ''A trusted local behavioral or string-pattern rule matched the top-level submitted file; the observation is not proof of malware.''
      MEDIUM ''yara-heuristic'' [],
    finding_def ''YARA_PARTIAL_ANALYSIS''
      ''YARA analysis was incomplete''
      ''YARA scanning stopped before complete coverage; bounded metadata records the reason.''
      MEDIUM ''yara-analysis-limitation'' []]"

definition FINDING_DEFINITIONS :: "finding_definition list" where
  "FINDING_DEFINITIONS = FILE_DEFINITIONS @ PDF_DEFINITIONS @ OFFICE_DEFINITIONS @
     ARCHIVE_DEFINITIONS @ YARA_DEFINITIONS"

definition finding_definition_of :: "string \<Rightarrow> finding_definition option" where
  "finding_definition_of = lookup_row fd_code FINDING_DEFINITIONS"

lemmas definition_tables = FINDING_DEFINITIONS_def FILE_DEFINITIONS_def PDF_DEFINITIONS_def
  OFFICE_DEFINITIONS_def ARCHIVE_DEFINITIONS_def YARA_DEFINITIONS_def finding_def_def

definition FINDING_CODES :: "string list" where
  "FINDING_CODES = map fd_code FINDING_DEFINITIONS"

interpretation findings: registry fd_code FINDING_DEFINITIONS
  by unfold_locales code_simp

lemma finding_definition_of_code:
  "finding_definition_of c = Some d \<Longrightarrow> fd_code d = c \<and> d \<in> set FINDING_DEFINITIONS"
  by (simp add: finding_definition_of_def findings.lookup_Some)

lemma registered_iff: "(\<exists>d. finding_definition_of c = Some d) \<longleftrightarrow> c \<in> set FINDING_CODES"
  using findings.lookup_None [of c]
  by (cases "finding_definition_of c") (auto simp: finding_definition_of_def FINDING_CODES_def)

lemma length_FINDING_DEFINITIONS: "length FINDING_DEFINITIONS = 45"
  by code_simp

section \<open>The YARA rule manifest\<close>

definition YARA_RULE_PACK_VERSION :: string where "YARA_RULE_PACK_VERSION = ''2026.08.1''"
definition YARA_RULE_PACK_SHA256 :: string where
  "YARA_RULE_PACK_SHA256 = ''7b9bab1889c4db6ead3b49263e93c10b138d2b8496668791b7ca8363c5385fe7''"
definition YARA_RULE_NAMESPACE :: string where "YARA_RULE_NAMESPACE = ''docguard''"
definition MAX_YARA_STRING_IDS_PER_FINDING :: nat where "MAX_YARA_STRING_IDS_PER_FINDING = 16"
definition MAX_YARA_OFFSETS_PER_FINDING :: nat where "MAX_YARA_OFFSETS_PER_FINDING = 16"
definition MAX_YARA_REPORTED_MATCH_COUNT :: int where "MAX_YARA_REPORTED_MATCH_COUNT = 1000000"

lemmas yara_constants = YARA_RULE_PACK_VERSION_def YARA_RULE_PACK_SHA256_def
  YARA_RULE_NAMESPACE_def MAX_YARA_STRING_IDS_PER_FINDING_def MAX_YARA_OFFSETS_PER_FINDING_def
  MAX_YARA_REPORTED_MATCH_COUNT_def

record yara_rule_definition =
  yr_rule_id :: string
  yr_title :: string
  yr_explanation :: string
  yr_category :: string
  yr_confidence :: string
  yr_finding_code :: string
  yr_severity :: severity
  yr_mitre_techniques :: "string list"

definition YARA_RULES :: "yara_rule_definition list" where
  "YARA_RULES = [
    \<lparr>yr_rule_id = ''DOCGUARD_EICAR_TEST'',
      yr_title = ''EICAR anti-malware test signature'',
      yr_explanation = ''The standard EICAR anti-malware test string was observed. EICAR is a controlled test artifact, not real malware.'',
      yr_category = ''yara-test-signature'', yr_confidence = ''TEST'',
      yr_finding_code = ''YARA_TEST_SIGNATURE'', yr_severity = HIGH,
      yr_mitre_techniques = []\<rparr>,
    \<lparr>yr_rule_id = ''DOCGUARD_POWERSHELL_ENCODED'',
      yr_title = ''PowerShell encoded-command pattern'',
      yr_explanation = ''A PowerShell executable reference and encoded-command argument with a substantial Base64-like value were both observed.'',
      yr_category = ''yara-command-pattern'', yr_confidence = ''HEURISTIC'',
      yr_finding_code = ''YARA_HEURISTIC_MATCH'', yr_severity = MEDIUM,
      yr_mitre_techniques = [''T1059.001'']\<rparr>,
    \<lparr>yr_rule_id = ''DOCGUARD_WSCRIPT_ENGINE_INVOCATION'',
      yr_title = ''Windows Script Host engine invocation pattern'',
      yr_explanation = ''A Windows Script Host command pattern selects a script engine and names a supported script-file extension.'',
      yr_category = ''yara-command-pattern'', yr_confidence = ''HEURISTIC'',
      yr_finding_code = ''YARA_HEURISTIC_MATCH'', yr_severity = MEDIUM,
      yr_mitre_techniques = [''T1059.005'']\<rparr>,
    \<lparr>yr_rule_id = ''DOCGUARD_CMD_CHAIN_INVOCATION'',
      yr_title = ''Windows command-shell chain pattern'',
      yr_explanation = ''A cmd.exe command execution argument and a chained command operator were observed in a bounded command-line pattern.'',
      yr_category = ''yara-command-pattern'', yr_confidence = ''HEURISTIC'',
      yr_finding_code = ''YARA_HEURISTIC_MATCH'', yr_severity = MEDIUM,
      yr_mitre_techniques = [''T1059.003'']\<rparr>,
    \<lparr>yr_rule_id = ''DOCGUARD_MSHTA_SCRIPT_SCHEME'',
      yr_title = ''Mshta inline script-scheme pattern'',
      yr_explanation = ''An mshta invocation is followed by an inline JavaScript or VBScript scheme.'',
      yr_category = ''yara-proxy-execution-pattern'', yr_confidence = ''HEURISTIC'',
      yr_finding_code = ''YARA_HEURISTIC_MATCH'', yr_severity = MEDIUM,
      yr_mitre_techniques = [''T1218.005'']\<rparr>,
    \<lparr>yr_rule_id = ''DOCGUARD_CERTUTIL_URLCACHE'',
      yr_title = ''Certutil URL-cache transfer pattern'',
      yr_explanation = ''A certutil invocation combines URL-cache and split arguments with an HTTP target.'',
      yr_category = ''yara-transfer-pattern'', yr_confidence = ''HEURISTIC'',
      yr_finding_code = ''YARA_HEURISTIC_MATCH'', yr_severity = MEDIUM,
      yr_mitre_techniques = [''T1105'']\<rparr>]"

definition yara_rule_of :: "string \<Rightarrow> yara_rule_definition option" where
  "yara_rule_of = lookup_row yr_rule_id YARA_RULES"

interpretation yara_rules: registry yr_rule_id YARA_RULES
  by unfold_locales code_simp

definition yara_match_codes :: "string list" where
  "yara_match_codes = [''YARA_TEST_SIGNATURE'', ''YARA_SIGNATURE_MATCH'', ''YARA_HEURISTIC_MATCH'']"

text \<open>Every rule reports under a registered finding code, with the severity that code has.\<close>

lemma yara_rules_registered:
  "yara_rule_of i = Some r \<Longrightarrow> yr_finding_code r \<in> set yara_match_codes \<and>
     (\<exists>d. finding_definition_of (yr_finding_code r) = Some d \<and>
          fd_default_severity d = yr_severity r)"
proof -
  have "list_all (\<lambda>r. yr_finding_code r \<in> set yara_match_codes \<and>
     (case finding_definition_of (yr_finding_code r) of None \<Rightarrow> False
      | Some d \<Rightarrow> fd_default_severity d = yr_severity r)) YARA_RULES"
    by code_simp
  then show "yara_rule_of i = Some r \<Longrightarrow> yr_finding_code r \<in> set yara_match_codes \<and>
     (\<exists>d. finding_definition_of (yr_finding_code r) = Some d \<and>
          fd_default_severity d = yr_severity r)"
    using yara_rules.lookup_all [of _ i r] by (fastforce simp: yara_rule_of_def split: option.splits)
qed

end
