(* ===== verification/Policy_Registry.thy ===== *)
theory Policy_Registry
  imports Contract_Findings
begin

text \<open>
  The immutable policy registry of \<open>app/policies/registry.py\<close>: the finding and compound
  policies, the normalised payload its fingerprint is computed over, and the validation
  that every evaluation runs first. SHA-256 is an argument of the definitions that hash.
\<close>

datatype decision = ALLOW | REVIEW | QUARANTINE | BLOCK

text \<open>Decisions are ordered by how much they restrict.\<close>

fun restriction :: "decision \<Rightarrow> nat" where
  "restriction ALLOW = 0"
| "restriction REVIEW = 1"
| "restriction QUARANTINE = 2"
| "restriction BLOCK = 3"

lemma restriction_inject: "restriction d = restriction e \<longleftrightarrow> d = e"
  by (cases d; cases e) simp_all

instantiation decision :: linorder
begin

definition less_eq_decision :: "decision \<Rightarrow> decision \<Rightarrow> bool" where
  "d \<le> e \<longleftrightarrow> restriction d \<le> restriction e"

definition less_decision :: "decision \<Rightarrow> decision \<Rightarrow> bool" where
  "d < e \<longleftrightarrow> restriction d < restriction e"

instance
  by standard (auto simp: less_eq_decision_def less_decision_def restriction_inject)

end

fun decision_value :: "decision \<Rightarrow> string" where
  "decision_value ALLOW = ''ALLOW''"
| "decision_value REVIEW = ''REVIEW''"
| "decision_value QUARANTINE = ''QUARANTINE''"
| "decision_value BLOCK = ''BLOCK''"

definition POLICY_VERSION :: string where "POLICY_VERSION = ''1.0.2''"

record finding_policy =
  fp_finding_code :: string
  fp_contribution :: int
  fp_explanation :: string
  fp_minimum_decision :: "decision option"
  fp_hard_block :: bool
  fp_tags :: "string list"

record compound_policy =
  cp_name :: string
  cp_required_findings :: "string list"
  cp_contribution :: int
  cp_explanation :: string
  cp_minimum_decision :: "decision option"

definition policy :: "string \<Rightarrow> int \<Rightarrow> string \<Rightarrow> decision option \<Rightarrow> bool \<Rightarrow> finding_policy" where
  "policy code contribution explanation minimum hard_block =
     \<lparr>fp_finding_code = code, fp_contribution = contribution, fp_explanation = explanation,
      fp_minimum_decision = minimum, fp_hard_block = hard_block, fp_tags = []\<rparr>"

definition compound_policy_of ::
  "string \<Rightarrow> string list \<Rightarrow> int \<Rightarrow> string \<Rightarrow> decision option \<Rightarrow> compound_policy" where
  "compound_policy_of name required contribution explanation minimum =
     \<lparr>cp_name = name, cp_required_findings = required, cp_contribution = contribution,
      cp_explanation = explanation, cp_minimum_decision = minimum\<rparr>"

section \<open>The policy tables\<close>

definition FILE_POLICIES :: "finding_policy list" where
  "FILE_POLICIES = [
    policy ''FILE_DOUBLE_EXTENSION'' 24
      ''A dangerous final extension follows a document extension.'' None False,
    policy ''FILE_BIDI_OVERRIDE'' 24
      ''Bidirectional controls can visually disguise a filename.'' None False,
    policy ''FILE_TYPE_MISMATCH'' 28
      ''Observed content conflicts with the filename's claimed family.'' None False,
    policy ''FILE_EXECUTABLE_MASQUERADE'' 50
      ''Executable content is presented as a business document.'' (Some BLOCK) True,
    policy ''FILE_CLIENT_MIME_MISMATCH'' 2
      ''Client MIME metadata differs from observed content.'' None False]"

definition PDF_POLICIES :: "finding_policy list" where
  "PDF_POLICIES = [
    policy ''PDF_JAVASCRIPT'' 20
      ''The PDF contains JavaScript capability.'' None False,
    policy ''PDF_OPEN_ACTION'' 16
      ''The PDF contains an action processed when it opens.'' None False,
    policy ''PDF_ADDITIONAL_ACTION'' 18
      ''The PDF contains event-triggered actions.'' None False,
    policy ''PDF_LAUNCH_ACTION'' 45
      ''The PDF contains a launch action capable of invoking an external resource.'' (Some QUARANTINE) False,
    policy ''PDF_EMBEDDED_FILE'' 24
      ''The PDF contains embedded content not recursively analyzed.'' None False,
    policy ''PDF_ACROFORM'' 8
      ''The PDF contains an interactive form.'' None False,
    policy ''PDF_XFA'' 24
      ''The PDF contains XFA content that DocGuard does not render or execute.'' None False,
    policy ''PDF_EXTERNAL_URI'' 8
      ''The PDF contains a passive external URI reference.'' None False,
    policy ''PDF_EXTERNAL_SUBMISSION'' 0
      ''A form-submission action targets an external destination.'' None False,
    policy ''PDF_ENCRYPTED'' 8
      ''The PDF uses encryption; completeness is evaluated separately.'' None False,
    policy ''PDF_PARTIAL_ANALYSIS'' 25
      ''PDF structural coverage was incomplete.'' (Some QUARANTINE) False,
    policy ''PDF_MALFORMED'' 45
      ''Malformed PDF structure prevents reliable complete analysis.'' (Some QUARANTINE) False,
    policy ''PDF_FALLBACK_INDICATOR'' 0
      ''Bounded lexical name-token evidence was recovered from an incomplete PDF.'' None False]"

definition OFFICE_POLICIES :: "finding_policy list" where
  "OFFICE_POLICIES = [
    policy ''OFFICE_MACRO_ENABLED'' 8
      ''The Office container is macro-enabled.'' None False,
    policy ''OFFICE_VBA_MACRO'' 18
      ''The Office document contains a VBA project.'' None False,
    policy ''OFFICE_VBA_AUTOEXEC'' 28
      ''A VBA automatic-execution entry point is present.'' None False,
    policy ''OFFICE_VBA_EXECUTION_INDICATOR'' 30
      ''Static VBA analysis found execution-capable constructs.'' None False,
    policy ''OFFICE_EXTERNAL_RELATIONSHIP'' 8
      ''The Office package contains a passive external relationship.'' None False,
    policy ''OFFICE_EXTERNAL_TEMPLATE'' 42
      ''The Office document references a remote template.'' (Some QUARANTINE) False,
    policy ''OFFICE_EMBEDDED_OBJECT'' 24
      ''The Office document contains embedded content not recursively analyzed.'' None False,
    policy ''OFFICE_ACTIVEX'' 24
      ''The Office document contains ActiveX structures.'' None False,
    policy ''OFFICE_ENCRYPTED'' 8
      ''Office encryption is present; analysis completeness is evaluated separately.'' None False,
    policy ''OFFICE_PARTIAL_ANALYSIS'' 25
      ''Office structural coverage was incomplete.'' (Some QUARANTINE) False,
    policy ''OFFICE_MALFORMED'' 45
      ''Malformed Office structure prevents reliable complete analysis.'' (Some QUARANTINE) False]"

definition ARCHIVE_POLICIES :: "finding_policy list" where
  "ARCHIVE_POLICIES = [
    policy ''ARCHIVE_PATH_TRAVERSAL'' 50
      ''An archive member could traverse outside an extraction root.'' (Some BLOCK) True,
    policy ''ARCHIVE_ABSOLUTE_PATH'' 50
      ''An archive contains an absolute or rooted member path.'' (Some BLOCK) True,
    policy ''ARCHIVE_SYMLINK'' 45
      ''An archive symlink can create unsafe extraction semantics for end users.'' (Some BLOCK) True,
    policy ''ARCHIVE_DUPLICATE_MEMBER'' 20
      ''Duplicate member names create extraction ambiguity.'' None False,
    policy ''ARCHIVE_DANGEROUS_MEMBER'' 42
      ''The archive contains an execution-capable member name.'' (Some QUARANTINE) False,
    policy ''ARCHIVE_MEMBER_DOUBLE_EXTENSION'' 32
      ''An archive member disguises an execution-capable extension.'' None False,
    policy ''ARCHIVE_MEMBER_BIDI_OVERRIDE'' 28
      ''An archive member uses bidirectional controls for visual deception.'' None False,
    policy ''ARCHIVE_ENCRYPTED'' 8
      ''An encrypted archive member was not inspected; completeness is evaluated separately.'' None False,
    policy ''ARCHIVE_NESTING_LIMIT'' 25
      ''Archive nesting exceeded the configured inspection depth.'' (Some QUARANTINE) False,
    policy ''ARCHIVE_RESOURCE_LIMIT'' 35
      ''An archive resource budget stopped complete inspection.'' (Some QUARANTINE) False,
    policy ''ARCHIVE_MALFORMED'' 45
      ''Malformed archive structure prevents reliable complete analysis.'' (Some QUARANTINE) False,
    policy ''ARCHIVE_PARTIAL_ANALYSIS'' 25
      ''Archive structural coverage was incomplete.'' (Some QUARANTINE) False]"

definition YARA_POLICIES :: "finding_policy list" where
  "YARA_POLICIES = [
    policy ''YARA_TEST_SIGNATURE'' 50
      ''The controlled anti-malware test signature matched.'' (Some BLOCK) True,
    policy ''YARA_SIGNATURE_MATCH'' 50
      ''A reviewed high-confidence local signature matched.'' (Some BLOCK) True,
    policy ''YARA_HEURISTIC_MATCH'' 42
      ''A trusted local heuristic pattern matched; this is not proof of malware.'' (Some QUARANTINE) False,
    policy ''YARA_PARTIAL_ANALYSIS'' 25
      ''YARA coverage was incomplete.'' (Some QUARANTINE) False]"

definition COMPOUND_POLICIES :: "compound_policy list" where
  "COMPOUND_POLICIES = [
    compound_policy_of ''POLICY_COMPOUND_PDF_AUTO_JS''
      [''PDF_JAVASCRIPT'', ''PDF_OPEN_ACTION'']
      20 ''PDF JavaScript is paired with automatic open-time triggering.'' (Some QUARANTINE),
    compound_policy_of ''POLICY_COMPOUND_OFFICE_MACRO_EXECUTION_CHAIN''
      [''OFFICE_VBA_MACRO'', ''OFFICE_VBA_AUTOEXEC'', ''OFFICE_VBA_EXECUTION_INDICATOR'']
      25 ''A VBA project combines automatic execution with execution-capable constructs.'' (Some QUARANTINE),
    compound_policy_of ''POLICY_COMPOUND_OFFICE_AUTOEXEC_YARA''
      [''OFFICE_VBA_AUTOEXEC'', ''YARA_HEURISTIC_MATCH'']
      15 ''Office auto-execution and a trusted YARA heuristic occur together.'' (Some QUARANTINE),
    compound_policy_of ''POLICY_COMPOUND_ARCHIVE_MEMBER_MASQUERADE''
      [''ARCHIVE_DANGEROUS_MEMBER'', ''ARCHIVE_MEMBER_DOUBLE_EXTENSION'']
      18 ''An execution-capable archive member also uses a deceptive document extension.'' (Some QUARANTINE),
    compound_policy_of ''POLICY_COMPOUND_FILE_IDENTITY_DECEPTION''
      [''FILE_DOUBLE_EXTENSION'', ''FILE_TYPE_MISMATCH'']
      18 ''Filename double-extension deception accompanies observed content mismatch.'' (Some QUARANTINE)]"

definition FINDING_POLICIES :: "finding_policy list" where
  "FINDING_POLICIES = FILE_POLICIES @ PDF_POLICIES @ OFFICE_POLICIES @ ARCHIVE_POLICIES @
     YARA_POLICIES"

lemmas policy_tables = FINDING_POLICIES_def FILE_POLICIES_def PDF_POLICIES_def
  OFFICE_POLICIES_def ARCHIVE_POLICIES_def YARA_POLICIES_def COMPOUND_POLICIES_def
  policy_def compound_policy_of_def

definition finding_policy_of :: "string \<Rightarrow> finding_policy option" where
  "finding_policy_of = lookup_row fp_finding_code FINDING_POLICIES"

interpretation policies: registry fp_finding_code FINDING_POLICIES
  by unfold_locales code_simp

interpretation compounds: registry cp_name COMPOUND_POLICIES
  by unfold_locales code_simp

section \<open>The fingerprint\<close>

definition POLICY_FINGERPRINT :: string where
  "POLICY_FINGERPRINT = ''c6d18b6f67b79a91151567c99c8844c741820935ab9d4ad32bb131a30412469b''"

definition minimum_json :: "decision option \<Rightarrow> json" where
  "minimum_json m = (case m of None \<Rightarrow> JNull | Some d \<Rightarrow> jtext (decision_value d))"

definition normalized_policy :: json where
  "normalized_policy = JObj (obj [
     (''version'', jtext POLICY_VERSION),
     (''findings'', JList (map (\<lambda>p. JObj (obj [
        (''code'', jtext (fp_finding_code p)),
        (''contribution'', JInt (fp_contribution p)),
        (''explanation'', jtext (fp_explanation p)),
        (''minimum_decision'', minimum_json (fp_minimum_decision p)),
        (''hard_block'', JBool (fp_hard_block p)),
        (''tags'', jcodes (fp_tags p))]))
        (sort_key fp_finding_code FINDING_POLICIES))),
     (''compounds'', JList (map (\<lambda>c. JObj (obj [
        (''name'', jtext (cp_name c)),
        (''required_findings'', jcodes (sort (cp_required_findings c))),
        (''contribution'', JInt (cp_contribution c)),
        (''explanation'', jtext (cp_explanation c)),
        (''minimum_decision'', minimum_json (cp_minimum_decision c))]))
        (sort_key cp_name COMPOUND_POLICIES)))])"

definition compute_policy_fingerprint :: "(ustring \<Rightarrow> string) \<Rightarrow> string option" where
  "compute_policy_fingerprint sha256 = map_option sha256 (json_text normalized_policy)"

section \<open>Validation\<close>

definition version_ok :: "string \<Rightarrow> bool" where
  "version_ok v \<longleftrightarrow> length (split_on CHR ''.'' v) = 3 \<and>
     list_all (\<lambda>p. p \<noteq> [] \<and> list_all (\<lambda>c. c \<in> set ''0123456789'') p) (split_on CHR ''.'' v)"

definition finding_policy_error :: "finding_policy \<Rightarrow> string option" where
  "finding_policy_error p =
     (let code = fp_finding_code p in
      if \<not> (0 \<le> fp_contribution p \<and> fp_contribution p \<le> 100)
        then Some (''invalid finding policy: '' @ code)
      else if fp_explanation p = [] \<or> length (fp_explanation p) > 500
        then Some (''invalid policy explanation: '' @ code)
      else if fp_minimum_decision p = Some ALLOW
        then Some (''redundant minimum decision: '' @ code)
      else if fp_hard_block p \<noteq> (fp_minimum_decision p = Some BLOCK)
        then Some (''hard-block policy is inconsistent: '' @ code)
      else None)"

definition compound_policy_error :: "compound_policy \<Rightarrow> string option" where
  "compound_policy_error c =
     (if cp_required_findings c = [] \<or>
          \<not> list_all (\<lambda>f. f \<in> set FINDING_CODES) (cp_required_findings c)
        then Some (''invalid compound findings: '' @ cp_name c)
      else if \<not> (0 \<le> cp_contribution c \<and> cp_contribution c \<le> 100)
        then Some (''invalid compound contribution: '' @ cp_name c)
      else if cp_minimum_decision c = Some ALLOW \<or> cp_minimum_decision c = Some BLOCK
        then Some (''invalid compound minimum decision: '' @ cp_name c)
      else None)"

definition validate_policy_registry :: "(ustring \<Rightarrow> string) \<Rightarrow> string option" where
  "validate_policy_registry sha256 =
     (if \<not> version_ok POLICY_VERSION then Some ''policy version is invalid''
      else if sorted_codes (map fp_finding_code FINDING_POLICIES) \<noteq> sorted_codes FINDING_CODES
        then Some ''finding policy coverage is not exact''
      else if length FINDING_POLICIES \<noteq> length (remdups (map fp_finding_code FINDING_POLICIES))
        then Some ''duplicate finding policy code''
      else case first_error finding_policy_error FINDING_POLICIES of Some e \<Rightarrow> Some e | None \<Rightarrow>
        if \<not> distinct (map cp_name COMPOUND_POLICIES)
          then Some ''duplicate compound policy name''
        else case first_error compound_policy_error COMPOUND_POLICIES of Some e \<Rightarrow> Some e | None \<Rightarrow>
          if compute_policy_fingerprint sha256 \<noteq> Some POLICY_FINGERPRINT
            then Some ''policy fingerprint mismatch''
          else None)"

definition policy_registry_is_valid :: "(ustring \<Rightarrow> string) \<Rightarrow> bool" where
  "policy_registry_is_valid sha256 \<longleftrightarrow> validate_policy_registry sha256 = None"

end
