(* ===== verification/Domain.thy ===== *)
theory Domain
  imports Policy_Registry
begin

text \<open>
  The validated worker contract of \<open>app/models/domain.py\<close>: the enumerations, the finding
  and the analysis result, and every check their pydantic models declare or run. A
  validation that fails raises one \<open>ValidationError\<close> whose text nothing reads, so each
  model is a bool-valued predicate. The last section is the worker's own construction of
  findings (\<open>worker/findings.py\<close>) and the proof that the trusted side accepts what it
  builds.
\<close>

section \<open>Enumerations\<close>

datatype analysis_status = AS_SUCCESS | AS_UNSUPPORTED | AS_FAILED | AS_TIMEOUT

datatype scan_state = STORED | ANALYZING | COMPLETED | QUARANTINED | FAILED

datatype scan_origin = UPLOAD | CDR_DERIVED

datatype artifact_type = PDF_CDR

datatype audit_actor_type = SYSTEM | OPERATOR | ANONYMOUS

datatype audit_outcome = AO_SUCCESS | AO_FAILURE | AO_DENIED

fun status_value :: "analysis_status \<Rightarrow> string" where
  "status_value AS_SUCCESS = ''SUCCESS''"
| "status_value AS_UNSUPPORTED = ''UNSUPPORTED''"
| "status_value AS_FAILED = ''FAILED''"
| "status_value AS_TIMEOUT = ''TIMEOUT''"

section \<open>Findings\<close>

record finding =
  f_code :: string
  f_title :: string
  f_description :: string
  f_category :: string
  f_severity :: severity
  f_score_delta :: int
  f_mitre_techniques :: "string list"
  f_metadata :: json_object

definition bounded_json :: "json_object \<Rightarrow> nat \<Rightarrow> bool" where
  "bounded_json value maximum_bytes =
     (case json_size (JObj value) of None \<Rightarrow> False | Some n \<Rightarrow> n \<le> maximum_bytes)"

fun json_strings :: "json \<Rightarrow> ustring list option" where
  "json_strings (JList xs) =
     all_some (map (\<lambda>x. case x of JStr s \<Rightarrow> Some s | _ \<Rightarrow> None) xs)"
| "json_strings _ = None"

fun json_ints :: "json \<Rightarrow> int list option" where
  "json_ints (JList xs) = all_some (map (\<lambda>x. case x of JInt i \<Rightarrow> Some i | _ \<Rightarrow> None) xs)"
| "json_ints _ = None"

definition same_keys :: "json_object \<Rightarrow> string list \<Rightarrow> bool" where
  "same_keys m ks \<longleftrightarrow> sorted_codes (map fst m) = sorted_codes (map u ks)"

definition yara_match_keys :: "string list" where
  "yara_match_keys = [''rule_id'', ''rule_title'', ''rule_explanation'', ''rule_category'',
     ''confidence_class'', ''rule_pack_version'', ''rule_pack_sha256'', ''scope'',
     ''match_count'', ''string_ids'', ''offsets'']"

definition yara_trusted_values :: "yara_rule_definition \<Rightarrow> (string \<times> json) list" where
  "yara_trusted_values rule = [
     (''rule_title'', jtext (yr_title rule)),
     (''rule_explanation'', jtext (yr_explanation rule)),
     (''rule_category'', jtext (yr_category rule)),
     (''confidence_class'', jtext (yr_confidence rule)),
     (''rule_pack_version'', jtext YARA_RULE_PACK_VERSION),
     (''rule_pack_sha256'', jtext YARA_RULE_PACK_SHA256),
     (''scope'', jtext ''TOP_LEVEL'')]"

definition yara_counts_ok :: "json_object \<Rightarrow> bool" where
  "yara_counts_ok m \<longleftrightarrow>
     (case jget m ''match_count'' of
        Some (JInt n) \<Rightarrow> 1 \<le> n \<and> n \<le> MAX_YARA_REPORTED_MATCH_COUNT | _ \<Rightarrow> False) \<and>
     (case Option.bind (jget m ''string_ids'') json_strings of None \<Rightarrow> False
      | Some ids \<Rightarrow> length ids \<le> MAX_YARA_STRING_IDS_PER_FINDING \<and>
          list_all (\<lambda>i. starts_with (u ''$'') i \<and> length i \<le> 128) ids \<and>
          ids = sorted_codes ids) \<and>
     (case Option.bind (jget m ''offsets'') json_ints of None \<Rightarrow> False
      | Some offsets \<Rightarrow> length offsets \<le> MAX_YARA_OFFSETS_PER_FINDING \<and>
          list_all (\<lambda>i. 0 \<le> i) offsets \<and> offsets = sorted_codes offsets)"

text \<open>\<open>_validate_yara_match_metadata\<close>: the rule a match names, as a rule identifier of the
  trusted manifest.\<close>

definition named_rule :: "json_object \<Rightarrow> yara_rule_definition option" where
  "named_rule m = (case jget m ''rule_id'' of
     Some (JStr i) \<Rightarrow> find (\<lambda>r. u (yr_rule_id r) = i) YARA_RULES | _ \<Rightarrow> None)"

definition validate_yara_match_metadata :: "finding \<Rightarrow> string list option" where
  "validate_yara_match_metadata f =
     (let m = f_metadata f in
      if \<not> same_keys m yara_match_keys then None
      else case named_rule m of None \<Rightarrow> None | Some rule \<Rightarrow>
        if \<not> list_all (\<lambda>(k, v). jget m k = Some v) (yara_trusted_values rule) then None
        else if f_code f \<noteq> yr_finding_code rule \<or> f_severity f \<noteq> yr_severity rule then None
        else if \<not> yara_counts_ok m then None
        else Some (yr_mitre_techniques rule))"

definition yara_partial_reasons :: "string list" where
  "yara_partial_reasons = [''engine_match_warning'', ''engine_warning'', ''internal_timeout'',
     ''match_instance_limit'', ''matched_rule_limit'', ''metadata_limit'', ''offset_limit'',
     ''scanner_error'', ''string_identifier_limit'']"

definition validate_yara_partial_metadata :: "json_object \<Rightarrow> bool" where
  "validate_yara_partial_metadata m \<longleftrightarrow>
     same_keys m [''reasons'', ''rule_pack_version'', ''rule_pack_sha256''] \<and>
     jget m ''rule_pack_version'' = Some (jtext YARA_RULE_PACK_VERSION) \<and>
     jget m ''rule_pack_sha256'' = Some (jtext YARA_RULE_PACK_SHA256) \<and>
     (case Option.bind (jget m ''reasons'') json_strings of None \<Rightarrow> False
      | Some reasons \<Rightarrow> reasons \<noteq> [] \<and> length reasons \<le> length yara_partial_reasons \<and>
          list_all (\<lambda>r. r \<in> set (map u yara_partial_reasons)) reasons \<and>
          reasons = sorted_codes reasons)"

definition code_char :: "char \<Rightarrow> bool" where
  "code_char c \<longleftrightarrow> c \<in> set ''ABCDEFGHIJKLMNOPQRSTUVWXYZ0123456789_''"

definition finding_fields_ok :: "finding \<Rightarrow> bool" where
  "finding_fields_ok f \<longleftrightarrow>
     1 \<le> length (f_code f) \<and> length (f_code f) \<le> 128 \<and> list_all code_char (f_code f) \<and>
     1 \<le> length (f_title f) \<and> length (f_title f) \<le> 200 \<and>
     1 \<le> length (f_description f) \<and> length (f_description f) \<le> 2000 \<and>
     1 \<le> length (f_category f) \<and> length (f_category f) \<le> 100 \<and>
     f_score_delta f = 0 \<and>
     list_all (\<lambda>m. m \<noteq> [] \<and> length m \<le> 32) (f_mitre_techniques f) \<and>
     bounded_json (f_metadata f) MAX_FINDING_METADATA_BYTES"

definition expected_mitre :: "finding \<Rightarrow> finding_definition \<Rightarrow> string list option" where
  "expected_mitre f d =
     (if f_code f \<in> set yara_match_codes then validate_yara_match_metadata f
      else if f_code f = ''YARA_PARTIAL_ANALYSIS'' \<and> \<not> validate_yara_partial_metadata (f_metadata f)
        then None
      else Some (fd_mitre_techniques d))"

definition finding_ok :: "finding \<Rightarrow> bool" where
  "finding_ok f \<longleftrightarrow> finding_fields_ok f \<and>
     (case finding_definition_of (f_code f) of None \<Rightarrow> False
      | Some d \<Rightarrow> (case expected_mitre f d of None \<Rightarrow> False
         | Some mitre \<Rightarrow>
             (f_title f, f_description f, f_severity f, f_category f, f_mitre_techniques f) =
             (fd_title d, fd_description d, fd_default_severity d, fd_category d, mitre)))"

section \<open>Analysis results\<close>

text \<open>Instants are microseconds on the UTC time line; a timestamp without an offset, which
  \<open>require_aware_timestamp\<close> rejects, is \<open>None\<close>.\<close>

type_synonym instant = int

record analysis_result =
  ar_schema_version :: string
  ar_worker_version :: string
  ar_status :: analysis_status
  ar_detected_type :: "string option"
  ar_size_bytes :: int
  ar_findings :: "finding list"
  ar_analyzer_metadata :: json_object
  ar_started_at :: "instant option"
  ar_completed_at :: "instant option"
  ar_duration_ms :: int

definition analysis_result_ok :: "analysis_result \<Rightarrow> bool" where
  "analysis_result_ok r \<longleftrightarrow>
     ar_schema_version r = ANALYSIS_SCHEMA_VERSION \<and>
     1 \<le> length (ar_worker_version r) \<and> length (ar_worker_version r) \<le> 64 \<and>
     (case ar_detected_type r of None \<Rightarrow> True | Some t \<Rightarrow> length t \<le> 200) \<and>
     0 \<le> ar_size_bytes r \<and>
     length (ar_findings r) \<le> MAX_FINDINGS_PER_ANALYSIS \<and> list_all finding_ok (ar_findings r) \<and>
     bounded_json (ar_analyzer_metadata r) MAX_ANALYZER_METADATA_BYTES \<and>
     (case (ar_started_at r, ar_completed_at r) of
        (Some s, Some c) \<Rightarrow> s \<le> c | _ \<Rightarrow> False) \<and>
     0 \<le> ar_duration_ms r"

definition finding_codes :: "analysis_result \<Rightarrow> string list" where
  "finding_codes r = map f_code (ar_findings r)"

lemma finding_ok_registered: "finding_ok f \<Longrightarrow> f_code f \<in> set FINDING_CODES"
  by (auto simp: finding_ok_def registered_iff [symmetric] split: option.splits)

lemma analysis_result_registered:
  "analysis_result_ok r \<Longrightarrow> set (finding_codes r) \<subseteq> set FINDING_CODES"
  by (auto simp: analysis_result_ok_def finding_codes_def list_all_iff finding_ok_registered)

lemma finding_ok_score: "finding_ok f \<Longrightarrow> f_score_delta f = 0"
  by (simp add: finding_ok_def finding_fields_ok_def)

section \<open>Findings as the worker builds them\<close>

definition finding_payload :: "string \<Rightarrow> json_object \<Rightarrow> finding option" where
  "finding_payload code metadata =
     (case finding_definition_of code of None \<Rightarrow> None
      | Some d \<Rightarrow> Some \<lparr>f_code = fd_code d, f_title = fd_title d, f_description = fd_description d,
          f_category = fd_category d, f_severity = fd_default_severity d, f_score_delta = 0,
          f_mitre_techniques = fd_mitre_techniques d, f_metadata = metadata\<rparr>)"

definition yara_finding_payload :: "string \<Rightarrow> json_object \<Rightarrow> finding option" where
  "yara_finding_payload rule_id metadata =
     (case yara_rule_of rule_id of None \<Rightarrow> None
      | Some r \<Rightarrow> (case finding_definition_of (yr_finding_code r) of None \<Rightarrow> None
        | Some d \<Rightarrow> Some \<lparr>f_code = fd_code d, f_title = fd_title d,
            f_description = fd_description d, f_category = fd_category d,
            f_severity = fd_default_severity d, f_score_delta = 0,
            f_mitre_techniques = yr_mitre_techniques r, f_metadata = metadata\<rparr>))"

text \<open>Every row of the registry fits the bounds of the contract's \<open>Finding\<close> model.\<close>

lemma definitions_fit:
  "finding_definition_of c = Some d \<Longrightarrow>
     1 \<le> length (fd_code d) \<and> length (fd_code d) \<le> 128 \<and> list_all code_char (fd_code d) \<and>
     1 \<le> length (fd_title d) \<and> length (fd_title d) \<le> 200 \<and>
     1 \<le> length (fd_description d) \<and> length (fd_description d) \<le> 2000 \<and>
     1 \<le> length (fd_category d) \<and> length (fd_category d) \<le> 100 \<and>
     list_all (\<lambda>m. m \<noteq> [] \<and> length m \<le> 32) (fd_mitre_techniques d)"
proof -
  have "list_all (\<lambda>d. 1 \<le> length (fd_code d) \<and> length (fd_code d) \<le> 128 \<and>
     list_all code_char (fd_code d) \<and>
     1 \<le> length (fd_title d) \<and> length (fd_title d) \<le> 200 \<and>
     1 \<le> length (fd_description d) \<and> length (fd_description d) \<le> 2000 \<and>
     1 \<le> length (fd_category d) \<and> length (fd_category d) \<le> 100 \<and>
     list_all (\<lambda>m. m \<noteq> [] \<and> length m \<le> 32) (fd_mitre_techniques d)) FINDING_DEFINITIONS"
    by code_simp
  then show "finding_definition_of c = Some d \<Longrightarrow> ?thesis"
    unfolding finding_definition_of_def by (rule findings.lookup_all)
qed

lemma yara_mitre_fit:
  "yara_rule_of i = Some r \<Longrightarrow> list_all (\<lambda>m. m \<noteq> [] \<and> length m \<le> 32) (yr_mitre_techniques r)"
proof -
  have "list_all (\<lambda>r. list_all (\<lambda>m. m \<noteq> [] \<and> length m \<le> 32) (yr_mitre_techniques r)) YARA_RULES"
    by code_simp
  then show "yara_rule_of i = Some r \<Longrightarrow> ?thesis"
    unfolding yara_rule_of_def by (rule yara_rules.lookup_all)
qed

lemma finding_payload_code: "finding_payload c m = Some f \<Longrightarrow> f_code f = c"
  by (auto simp: finding_payload_def dest: finding_definition_of_code split: option.splits)

lemma finding_payload_Some: "c \<in> set FINDING_CODES \<Longrightarrow> \<exists>f. finding_payload c m = Some f"
  by (auto simp: finding_payload_def registered_iff [symmetric])

lemma payload_accepted:
  assumes "finding_payload c m = Some f" "c \<notin> set yara_match_codes"
    and "bounded_json m MAX_FINDING_METADATA_BYTES"
    and "c = ''YARA_PARTIAL_ANALYSIS'' \<Longrightarrow> validate_yara_partial_metadata m"
  shows "finding_ok f"
proof -
  obtain d where d: "finding_definition_of c = Some d"
    using assms(1) by (auto simp: finding_payload_def split: option.splits)
  with assms(1) have f: "f_code f = c" "f_metadata f = m" and f': "finding_payload c m = Some f"
    by (auto simp: finding_payload_def dest: finding_definition_of_code)
  show ?thesis
    using f' d definitions_fit [OF d] finding_definition_of_code [OF d] assms(2-4)
    by (auto simp: finding_ok_def finding_fields_ok_def expected_mitre_def finding_payload_def)
qed

text \<open>What the worker builds for a registered code that is not a YARA match passes the
  trusted validation of the finding, whatever the analyzer, as soon as its metadata fits
  the size bound (and, for the code that reports incomplete YARA coverage, has the shape
  the manifest prescribes): the two sides of the process boundary agree.\<close>

theorem worker_finding_accepted:
  assumes "finding_payload c m = Some f" "c \<notin> set yara_match_codes"
    and "bounded_json m MAX_FINDING_METADATA_BYTES"
    and "c = ''YARA_PARTIAL_ANALYSIS'' \<Longrightarrow> validate_yara_partial_metadata m"
  shows "finding_ok f"
  using assms by (rule payload_accepted)

theorem worker_finding_accepted_witness:
  "\<exists>f. finding_payload ''PDF_XFA'' (obj [(''present'', JBool True)]) = Some f \<and> finding_ok f"
proof -
  obtain f where f: "finding_payload ''PDF_XFA'' (obj [(''present'', JBool True)]) = Some f"
    using finding_payload_Some [of "''PDF_XFA''"] by (auto simp: FINDING_CODES_def definition_tables)
  have "bounded_json (obj [(''present'', JBool True)]) MAX_FINDING_METADATA_BYTES"
    by code_simp
  then have "finding_ok f"
    by (intro worker_finding_accepted [OF f]) (simp_all add: yara_match_codes_def)
  with f show ?thesis by blast
qed

end
