(* ===== verification/Policy_Engine.thy ===== *)
theory Policy_Engine
  imports Domain
begin

text \<open>
  The trusted policy engine: \<open>app/policies/models.py\<close> (the bounded output and its
  validators) and \<open>app/policies/engine.py\<close> (the evaluation, the fail-closed fallback, the
  completeness reasons and the decision reasons). The engine raises in five ways, which
  are the constructors of \<open>policy_error\<close>; its caller catches all of them.
\<close>

section \<open>The output model\<close>

datatype risk_band = RB_LOW | RB_MODERATE | RB_HIGH | RB_CRITICAL

record policy_contribution =
  pc_code :: string
  pc_contribution :: int
  pc_explanation :: string

record policy_reason =
  pr_code :: string
  pr_explanation :: string

record policy_evaluation =
  pe_policy_version :: string
  pe_policy_fingerprint :: string
  pe_risk_score :: int
  pe_risk_band :: risk_band
  pe_decision :: decision
  pe_release_eligible :: bool
  pe_analysis_complete :: bool
  pe_hard_block_reasons :: "string list"
  pe_mandatory_quarantine_reasons :: "string list"
  pe_compound_rules_triggered :: "string list"
  pe_decision_reasons :: "policy_reason list"
  pe_contributions :: "policy_contribution list"
  pe_evaluated_at :: "instant option"

definition contribution_ok :: "policy_contribution \<Rightarrow> bool" where
  "contribution_ok c \<longleftrightarrow> 1 \<le> length (pc_code c) \<and> length (pc_code c) \<le> 128 \<and>
     0 \<le> pc_contribution c \<and> pc_contribution c \<le> 100 \<and>
     1 \<le> length (pc_explanation c) \<and> length (pc_explanation c) \<le> 500"

definition reason_ok :: "policy_reason \<Rightarrow> bool" where
  "reason_ok r \<longleftrightarrow> 1 \<le> length (pr_code r) \<and> length (pr_code r) \<le> 128 \<and>
     1 \<le> length (pr_explanation r) \<and> length (pr_explanation r) \<le> 500"

definition sorted_unique_codes :: "string list \<Rightarrow> bool" where
  "sorted_unique_codes xs \<longleftrightarrow> sorted_codes xs = xs"

definition release_semantics_ok :: "policy_evaluation \<Rightarrow> bool" where
  "release_semantics_ok e \<longleftrightarrow>
     pe_release_eligible e = (pe_decision e = ALLOW) \<and>
     (pe_hard_block_reasons e = [] \<or> pe_decision e = BLOCK) \<and>
     (pe_decision e \<noteq> ALLOW \<or> pe_analysis_complete e)"

definition policy_evaluation_ok :: "policy_evaluation \<Rightarrow> bool" where
  "policy_evaluation_ok e \<longleftrightarrow>
     1 \<le> length (pe_policy_version e) \<and> length (pe_policy_version e) \<le> 32 \<and>
     hex_digits 64 (pe_policy_fingerprint e) \<and>
     0 \<le> pe_risk_score e \<and> pe_risk_score e \<le> 100 \<and>
     length (pe_hard_block_reasons e) \<le> 16 \<and> sorted_unique_codes (pe_hard_block_reasons e) \<and>
     length (pe_mandatory_quarantine_reasons e) \<le> 32 \<and>
     sorted_unique_codes (pe_mandatory_quarantine_reasons e) \<and>
     length (pe_compound_rules_triggered e) \<le> 16 \<and>
     sorted_unique_codes (pe_compound_rules_triggered e) \<and>
     length (pe_decision_reasons e) \<le> 64 \<and> list_all reason_ok (pe_decision_reasons e) \<and>
     length (pe_contributions e) \<le> 64 \<and> list_all contribution_ok (pe_contributions e) \<and>
     pe_evaluated_at e \<noteq> None \<and> release_semantics_ok e"

section \<open>The evaluation\<close>

datatype policy_error =
    PolicyRegistryError string
  | PolicyEvaluationError
  | ScoreError
  | EvaluationInvalid

definition SUPPORTED_RELEASE_TYPES :: "string list" where
  "SUPPORTED_RELEASE_TYPES = [''PDF'', ''ZIP'', ''TEXT'', ''OFFICE_WORD_OOXML'',
     ''OFFICE_EXCEL_OOXML'', ''OFFICE_POWERPOINT_OOXML'', ''OFFICE_WORD_OLE'',
     ''OFFICE_EXCEL_OLE'', ''OFFICE_POWERPOINT_OLE'']"

definition ANALYSIS_REASON_EXPLANATIONS :: "(string \<times> string) list" where
  "ANALYSIS_REASON_EXPLANATIONS = [
    (''POLICY_ANALYSIS_RESULT_MISSING'', ''No validated worker result was available.''),
    (''POLICY_ANALYSIS_STATUS_FAILED'', ''The worker reported failed analysis.''),
    (''POLICY_ANALYSIS_STATUS_TIMEOUT'', ''The trusted parent terminated analysis on timeout.''),
    (''POLICY_ANALYSIS_STATUS_UNSUPPORTED'', ''The submitted content was unsupported.''),
    (''POLICY_ANALYSIS_FAILURE'', ''Trusted orchestration reported an analysis failure.''),
    (''POLICY_LIFECYCLE_INCONSISTENCY'',
       ''The scan lifecycle was not valid for policy evaluation.''),
    (''POLICY_UNSUPPORTED_DETECTED_TYPE'',
       ''The observed content family is not release-supported.''),
    (''POLICY_ANALYSIS_CONTRADICTION'',
       ''The worker status conflicts with a finding that reports incomplete analysis.''),
    (''POLICY_EVALUATION_FAILURE'',
       ''The trusted policy engine failed; release remains prohibited.'')]"

definition risk_band_for_score :: "int \<Rightarrow> risk_band option" where
  "risk_band_for_score score =
     (if \<not> (0 \<le> score \<and> score \<le> 100) then None
      else if score \<ge> 70 then Some RB_CRITICAL
      else if score \<ge> 40 then Some RB_HIGH
      else if score \<ge> 20 then Some RB_MODERATE
      else Some RB_LOW)"

fun status_reason :: "analysis_status \<Rightarrow> string list" where
  "status_reason AS_SUCCESS = []"
| "status_reason AS_FAILED = [''POLICY_ANALYSIS_STATUS_FAILED'']"
| "status_reason AS_TIMEOUT = [''POLICY_ANALYSIS_STATUS_TIMEOUT'']"
| "status_reason AS_UNSUPPORTED = [''POLICY_ANALYSIS_STATUS_UNSUPPORTED'']"

definition incomplete_code :: "string \<Rightarrow> bool" where
  "incomplete_code code \<longleftrightarrow> ends_with ''_PARTIAL_ANALYSIS'' code \<or> ends_with ''_MALFORMED'' code"

definition completeness_reasons ::
  "analysis_result option \<Rightarrow> string option \<Rightarrow> scan_state \<Rightarrow> string list \<Rightarrow> string list" where
  "completeness_reasons result failure_code scan_state codes =
     (case result of None \<Rightarrow> [''POLICY_ANALYSIS_RESULT_MISSING'']
      | Some r \<Rightarrow> status_reason (ar_status r) @
          (if ar_detected_type r \<notin> Some ` set SUPPORTED_RELEASE_TYPES
           then [''POLICY_UNSUPPORTED_DETECTED_TYPE''] else []) @
          (if ar_status r = AS_SUCCESS \<and> list_ex incomplete_code codes
           then [''POLICY_ANALYSIS_CONTRADICTION''] else [])) @
     (if failure_code \<noteq> None then [''POLICY_ANALYSIS_FAILURE''] else []) @
     (if scan_state \<noteq> ANALYZING \<and> scan_state \<noteq> COMPLETED
      then [''POLICY_LIFECYCLE_INCONSISTENCY''] else [])"

definition policies_of :: "string list \<Rightarrow> finding_policy list" where
  "policies_of codes = List.map_filter finding_policy_of codes"

definition triggered_compounds :: "string list \<Rightarrow> compound_policy list" where
  "triggered_compounds present =
     filter (\<lambda>c. list_all (\<lambda>f. f \<in> set present) (cp_required_findings c)) COMPOUND_POLICIES"

definition policy_contributions ::
  "finding_policy list \<Rightarrow> compound_policy list \<Rightarrow> policy_contribution list" where
  "policy_contributions pols comps = sort_key pc_code
     (map (\<lambda>p. \<lparr>pc_code = fp_finding_code p, pc_contribution = fp_contribution p,
               pc_explanation = fp_explanation p\<rparr>) pols @
      map (\<lambda>c. \<lparr>pc_code = cp_name c, pc_contribution = cp_contribution c,
               pc_explanation = cp_explanation c\<rparr>) comps)"

definition analysis_reason :: "string \<Rightarrow> policy_reason" where
  "analysis_reason code = \<lparr>pr_code = code, pr_explanation =
     (case map_of ANALYSIS_REASON_EXPLANATIONS code of None \<Rightarrow> [] | Some e \<Rightarrow> e)\<rparr>"

definition decision_reasons ::
  "finding_policy list \<Rightarrow> compound_policy list \<Rightarrow> string list \<Rightarrow> policy_reason list" where
  "decision_reasons pols comps completeness = sort_key pr_code
     (map (\<lambda>p. \<lparr>pr_code = fp_finding_code p, pr_explanation = fp_explanation p\<rparr>) pols @
      map (\<lambda>c. \<lparr>pr_code = cp_name c, pr_explanation = cp_explanation c\<rparr>) comps @
      map analysis_reason completeness)"

definition choose_decision :: "string list \<Rightarrow> string list \<Rightarrow> int \<Rightarrow> decision" where
  "choose_decision hard_block_reasons mandatory_reasons risk_score =
     (if hard_block_reasons \<noteq> [] then BLOCK
      else if mandatory_reasons \<noteq> [] \<or> risk_score \<ge> 40 then QUARANTINE
      else if risk_score \<ge> 20 then REVIEW
      else ALLOW)"

definition mandatory_reasons ::
  "finding_policy list \<Rightarrow> compound_policy list \<Rightarrow> string list \<Rightarrow> string list" where
  "mandatory_reasons pols comps completeness =
     map fp_finding_code (filter (\<lambda>p. fp_minimum_decision p = Some QUARANTINE) pols) @
     map cp_name (filter (\<lambda>c. cp_minimum_decision c = Some QUARANTINE) comps) @ completeness"

definition evaluate_policy ::
  "(ustring \<Rightarrow> string) \<Rightarrow> analysis_result option \<Rightarrow> string option \<Rightarrow> scan_state \<Rightarrow> instant \<Rightarrow>
   policy_error + policy_evaluation" where
  "evaluate_policy sha256 result failure_code scan_state evaluated_at =
     (case validate_policy_registry sha256 of Some e \<Rightarrow> Inl (PolicyRegistryError e) | None \<Rightarrow>
      let codes = (case result of None \<Rightarrow> [] | Some r \<Rightarrow> sorted_codes (finding_codes r)) in
      if list_ex (\<lambda>c. finding_policy_of c = None) codes then Inl PolicyEvaluationError
      else
      let pols = policies_of codes;
          comps = triggered_compounds codes;
          contributions = policy_contributions pols comps;
          risk_score = min 100 (sum_list (map pc_contribution contributions)) in
      case risk_band_for_score risk_score of None \<Rightarrow> Inl ScoreError | Some risk_band \<Rightarrow>
      let hard_block_reasons = sort (map fp_finding_code (filter fp_hard_block pols));
          completeness = completeness_reasons result failure_code scan_state codes;
          mandatory = mandatory_reasons pols comps completeness;
          decision = choose_decision hard_block_reasons mandatory risk_score;
          evaluation = \<lparr>pe_policy_version = POLICY_VERSION,
            pe_policy_fingerprint = POLICY_FINGERPRINT, pe_risk_score = risk_score,
            pe_risk_band = risk_band, pe_decision = decision,
            pe_release_eligible = (decision = ALLOW), pe_analysis_complete = (completeness = []),
            pe_hard_block_reasons = hard_block_reasons,
            pe_mandatory_quarantine_reasons = sorted_codes mandatory,
            pe_compound_rules_triggered = sort (map cp_name comps),
            pe_decision_reasons = decision_reasons pols comps completeness,
            pe_contributions = contributions, pe_evaluated_at = Some evaluated_at\<rparr> in
      if policy_evaluation_ok evaluation then Inr evaluation else Inl EvaluationInvalid)"

definition fail_closed_policy_evaluation :: "instant \<Rightarrow> policy_evaluation" where
  "fail_closed_policy_evaluation evaluated_at =
     \<lparr>pe_policy_version = POLICY_VERSION, pe_policy_fingerprint = POLICY_FINGERPRINT,
      pe_risk_score = 0, pe_risk_band = RB_LOW, pe_decision = QUARANTINE,
      pe_release_eligible = False, pe_analysis_complete = False,
      pe_hard_block_reasons = [],
      pe_mandatory_quarantine_reasons = [''POLICY_EVALUATION_FAILURE''],
      pe_compound_rules_triggered = [],
      pe_decision_reasons = [analysis_reason ''POLICY_EVALUATION_FAILURE''],
      pe_contributions = [], pe_evaluated_at = Some evaluated_at\<rparr>"

end
