(* ===== verification/Policy_Properties.thy ===== *)
theory Policy_Properties
  imports Policy_Engine
begin

text \<open>
  What the policy engine guarantees. The engine works on the sorted list of distinct
  finding codes; the abstract specification works on the set of codes present: a finding
  policy, a triggered compound, an incompleteness reason and the accumulated score each
  put a floor under the decision, and the decision is the most restrictive floor
  (\<open>decision_floor\<close>). \<open>evaluation_of\<close> is the evaluation before its output is validated.
\<close>

section \<open>The registries\<close>

lemma policy_codes: "map fp_finding_code FINDING_POLICIES = FINDING_CODES"
  by code_simp

lemma policy_rows_ok: "list_all (\<lambda>p. finding_policy_error p = None \<and>
    1 \<le> length (fp_finding_code p) \<and> length (fp_finding_code p) \<le> 128) FINDING_POLICIES"
  by code_simp

lemma compound_rows_ok: "list_all (\<lambda>c. compound_policy_error c = None \<and>
    cp_minimum_decision c = Some QUARANTINE \<and>
    1 \<le> length (cp_name c) \<and> length (cp_name c) \<le> 128 \<and>
    1 \<le> length (cp_explanation c) \<and> length (cp_explanation c) \<le> 500) COMPOUND_POLICIES"
  by code_simp

lemma finding_policyD:
  assumes "p \<in> set FINDING_POLICIES"
  shows "0 \<le> fp_contribution p" "fp_contribution p \<le> 100"
    "fp_hard_block p \<longleftrightarrow> fp_minimum_decision p = Some BLOCK" "fp_minimum_decision p \<noteq> Some ALLOW"
    "1 \<le> length (fp_explanation p)" "length (fp_explanation p) \<le> 500"
    "1 \<le> length (fp_finding_code p)" "length (fp_finding_code p) \<le> 128"
proof -
  have "finding_policy_error p = None"
    and l: "1 \<le> length (fp_finding_code p)" "length (fp_finding_code p) \<le> 128"
    using policy_rows_ok assms by (auto simp: list_all_iff)
  then show "0 \<le> fp_contribution p" "fp_contribution p \<le> 100"
    "fp_hard_block p \<longleftrightarrow> fp_minimum_decision p = Some BLOCK" "fp_minimum_decision p \<noteq> Some ALLOW"
    "1 \<le> length (fp_explanation p)" "length (fp_explanation p) \<le> 500"
    by (auto simp: finding_policy_error_def Let_def Suc_le_eq split: if_splits)
  show "1 \<le> length (fp_finding_code p)" "length (fp_finding_code p) \<le> 128" by (fact l)+
qed

lemma compound_policyD:
  assumes "c \<in> set COMPOUND_POLICIES"
  shows "0 \<le> cp_contribution c" "cp_contribution c \<le> 100" "cp_minimum_decision c = Some QUARANTINE"
    "1 \<le> length (cp_name c)" "length (cp_name c) \<le> 128"
    "1 \<le> length (cp_explanation c)" "length (cp_explanation c) \<le> 500"
proof -
  have e: "compound_policy_error c = None"
    and l: "cp_minimum_decision c = Some QUARANTINE"
      "1 \<le> length (cp_name c)" "length (cp_name c) \<le> 128"
      "1 \<le> length (cp_explanation c)" "length (cp_explanation c) \<le> 500"
    using compound_rows_ok assms by (auto simp: list_all_iff)
  from e show "0 \<le> cp_contribution c" "cp_contribution c \<le> 100"
    by (auto simp: compound_policy_error_def split: if_splits)
  show "cp_minimum_decision c = Some QUARANTINE"
    "1 \<le> length (cp_name c)" "length (cp_name c) \<le> 128"
    "1 \<le> length (cp_explanation c)" "length (cp_explanation c) \<le> 500" by (fact l)+
qed

lemma finding_policy_of_Some:
  "finding_policy_of c = Some p \<longleftrightarrow> p \<in> set FINDING_POLICIES \<and> fp_finding_code p = c"
  by (simp add: finding_policy_of_def policies.lookup_Some)

lemma finding_policy_of_None: "finding_policy_of c = None \<longleftrightarrow> c \<notin> set FINDING_CODES"
  by (simp add: finding_policy_of_def policies.lookup_None policy_codes)

lemma payload_text: "\<exists>t. json_text normalized_policy = Some t"
proof -
  have "finite_json normalized_policy"
    by (simp add: normalized_policy_def jcodes_def jtext_def obj_def minimum_json_def
        list_all_iff split: option.split)
  then show ?thesis using json_text_finite by blast
qed

section \<open>Policies of a set of codes\<close>

definition present_policies :: "string set \<Rightarrow> finding_policy list" where
  "present_policies C = filter (\<lambda>p. fp_finding_code p \<in> C) FINDING_POLICIES"

definition present_compounds :: "string set \<Rightarrow> compound_policy list" where
  "present_compounds C = filter (\<lambda>c. set (cp_required_findings c) \<subseteq> C) COMPOUND_POLICIES"

definition accumulated_score :: "string set \<Rightarrow> int" where
  "accumulated_score C = sum_list (map fp_contribution (present_policies C)) +
     sum_list (map cp_contribution (present_compounds C))"

lemma map_code_policies_of:
  "set codes \<subseteq> set FINDING_CODES \<Longrightarrow> map fp_finding_code (policies_of codes) = codes"
proof (induction codes)
  case (Cons c cs)
  then obtain p where p: "finding_policy_of c = Some p"
    using finding_policy_of_None [of c] by auto
  then have "fp_finding_code p = c" by (simp add: finding_policy_of_Some)
  with Cons p show ?case by (simp add: policies_of_def)
qed (simp add: policies_of_def)

lemma set_policies_of: "set (policies_of codes) = set (present_policies (set codes))"
proof -
  have "set (policies_of codes) = {p. \<exists>c\<in>set codes. finding_policy_of c = Some p}"
    by (force simp: policies_of_def List.map_filter_def)
  then show ?thesis by (auto simp: present_policies_def finding_policy_of_Some)
qed

lemma mset_policies_of:
  assumes "set codes \<subseteq> set FINDING_CODES" "distinct codes"
  shows "mset (policies_of codes) = mset (present_policies (set codes))"
proof -
  have "distinct (policies_of codes)"
    using map_code_policies_of [OF assms(1)] assms(2) by (metis distinct_map)
  moreover have "distinct (present_policies (set codes))"
    using policies.distinct_keys by (simp add: present_policies_def distinct_map)
  ultimately show ?thesis by (simp add: set_eq_iff_mset_eq_distinct [symmetric] set_policies_of)
qed

lemma triggered_compounds_eq: "triggered_compounds codes = present_compounds (set codes)"
  by (auto simp: triggered_compounds_def present_compounds_def list_all_iff intro!: filter_cong)

lemma sum_list_mset: "sum_list (map f xs) = sum_mset (image_mset f (mset xs))"
  for f :: "'a \<Rightarrow> int"
  by (induction xs) auto

lemma sum_list_sort_key: "sum_list (map f (sort_key g xs)) = sum_list (map f xs)"
  for f :: "'a \<Rightarrow> int"
  by (simp add: sum_list_mset)

lemma contributions_score:
  assumes "set codes \<subseteq> set FINDING_CODES" "distinct codes"
  shows "sum_list (map pc_contribution
     (policy_contributions (policies_of codes) (triggered_compounds codes))) =
     (accumulated_score (set codes))"
proof -
  have "sum_list (map fp_contribution (policies_of codes)) =
      sum_list (map fp_contribution (present_policies (set codes)))"
    using mset_policies_of [OF assms] by (simp add: sum_list_mset)
  then show ?thesis
    by (simp add: policy_contributions_def sum_list_sort_key comp_def accumulated_score_def
        triggered_compounds_eq)
qed

lemma sum_filter_mono:
  fixes f :: "'a \<Rightarrow> int"
  assumes "\<And>x. x \<in> set xs \<Longrightarrow> 0 \<le> f x" "\<And>x. P x \<Longrightarrow> Q x"
  shows "sum_list (map f (filter P xs)) \<le> sum_list (map f (filter Q xs))"
  using assms by (induction xs) (auto intro: add_mono add_increasing)

lemma accumulated_score_mono: "C \<subseteq> D \<Longrightarrow> accumulated_score C \<le> accumulated_score D"
  unfolding accumulated_score_def present_policies_def present_compounds_def
  by (intro add_mono sum_filter_mono) (auto dest: finding_policyD(1) compound_policyD(1))

lemma accumulated_score_nonneg: "0 \<le> accumulated_score C"
  unfolding accumulated_score_def present_policies_def present_compounds_def
  by (auto intro!: add_nonneg_nonneg sum_list_nonneg dest: finding_policyD(1) compound_policyD(1))

section \<open>The abstract decision\<close>

definition score_floor :: "int \<Rightarrow> decision" where
  "score_floor s = (if s \<ge> 40 then QUARANTINE else if s \<ge> 20 then REVIEW else ALLOW)"

definition minimum_floor :: "decision option \<Rightarrow> decision" where
  "minimum_floor m = (case m of None \<Rightarrow> ALLOW | Some d \<Rightarrow> d)"

definition floors :: "string set \<Rightarrow> bool \<Rightarrow> decision list" where
  "floors C complete =
     map (\<lambda>p. minimum_floor (fp_minimum_decision p)) (present_policies C) @
     map (\<lambda>c. minimum_floor (cp_minimum_decision c)) (present_compounds C) @
     [if complete then ALLOW else QUARANTINE, score_floor (accumulated_score C)]"

definition decision_floor :: "string set \<Rightarrow> bool \<Rightarrow> decision" where
  "decision_floor C complete = foldr max (floors C complete) ALLOW"

lemma ALLOW_least [simp]: "ALLOW \<le> d" and BLOCK_greatest [simp]: "d \<le> BLOCK"
  by (cases d; simp add: less_eq_decision_def)+

lemma foldr_max_le: "foldr max xs ALLOW \<le> d \<longleftrightarrow> (\<forall>x\<in>set xs. x \<le> d)"
  by (induction xs) auto

lemma eq_by_bounds: "(\<And>d. a \<le> d \<longleftrightarrow> b \<le> d) \<Longrightarrow> a = (b::decision)"
  by (meson order_antisym order_refl)

lemma decision_floor_mono:
  assumes "C \<subseteq> D" "complete' \<longrightarrow> complete"
  shows "decision_floor C complete \<le> decision_floor D complete'"
proof -
  let ?d = "decision_floor D complete'"
  have ub: "\<forall>x\<in>set (floors D complete'). x \<le> ?d"
    using foldr_max_le [of "floors D complete'" ?d] by (simp add: decision_floor_def)
  have "score_floor (accumulated_score C) \<le> score_floor (accumulated_score D)"
    using accumulated_score_mono [OF assms(1)] by (auto simp: score_floor_def less_eq_decision_def)
  moreover have "set (present_policies C) \<subseteq> set (present_policies D)"
      "set (present_compounds C) \<subseteq> set (present_compounds D)"
    using assms(1) by (auto simp: present_policies_def present_compounds_def)
  ultimately have "\<forall>x\<in>set (floors C complete). x \<le> ?d"
    using ub assms(2) by (auto simp: floors_def subset_iff intro: order_trans)
  then show ?thesis by (simp add: decision_floor_def foldr_max_le)
qed

section \<open>The evaluation before validation\<close>

definition evaluation_of ::
  "string list \<Rightarrow> string list \<Rightarrow> instant \<Rightarrow> policy_evaluation" where
  "evaluation_of cs completeness evaluated_at =
     (let pols = policies_of cs; comps = triggered_compounds cs;
          risk_score = min 100 (accumulated_score (set cs));
          hard = sort (map fp_finding_code (filter fp_hard_block pols));
          mandatory = mandatory_reasons pols comps completeness;
          d = choose_decision hard mandatory risk_score in
      \<lparr>pe_policy_version = POLICY_VERSION, pe_policy_fingerprint = POLICY_FINGERPRINT,
       pe_risk_score = risk_score,
       pe_risk_band = (if risk_score \<ge> 70 then RB_CRITICAL else if risk_score \<ge> 40 then RB_HIGH
                       else if risk_score \<ge> 20 then RB_MODERATE else RB_LOW),
       pe_decision = d, pe_release_eligible = (d = ALLOW),
       pe_analysis_complete = (completeness = []), pe_hard_block_reasons = hard,
       pe_mandatory_quarantine_reasons = sorted_codes mandatory,
       pe_compound_rules_triggered = sort (map cp_name comps),
       pe_decision_reasons = decision_reasons pols comps completeness,
       pe_contributions = policy_contributions pols comps, pe_evaluated_at = Some evaluated_at\<rparr>)"

definition result_codes :: "analysis_result option \<Rightarrow> string list" where
  "result_codes result = (case result of None \<Rightarrow> [] | Some r \<Rightarrow> sorted_codes (finding_codes r))"

lemma result_codes_distinct: "distinct (result_codes result)"
  by (simp add: result_codes_def split: option.split)

lemma evaluate_policy_eq:
  "evaluate_policy sha256 result failure_code scan_state t =
     (case validate_policy_registry sha256 of Some e \<Rightarrow> Inl (PolicyRegistryError e) | None \<Rightarrow>
      if \<not> set (result_codes result) \<subseteq> set FINDING_CODES then Inl PolicyEvaluationError
      else let e = evaluation_of (result_codes result)
             (completeness_reasons result failure_code scan_state (result_codes result)) t
        in if policy_evaluation_ok e then Inr e else Inl EvaluationInvalid)"
proof (cases "set (result_codes result) \<subseteq> set FINDING_CODES")
  case True
  moreover have "list_ex (\<lambda>c. finding_policy_of c = None) (result_codes result) \<longleftrightarrow> False"
    using True by (auto simp: list_ex_iff finding_policy_of_None)
  ultimately show ?thesis
    using accumulated_score_nonneg [of "set (result_codes result)"]
    by (simp add: evaluate_policy_def evaluation_of_def Let_def result_codes_def [symmetric]
        contributions_score result_codes_distinct risk_band_for_score_def
        split: option.split del: if_split cong: if_cong)
next
  case False
  then have "list_ex (\<lambda>c. finding_policy_of c = None) (result_codes result)"
    by (auto simp: list_ex_iff finding_policy_of_None)
  with False show ?thesis
    by (simp add: evaluate_policy_def Let_def result_codes_def [symmetric] split: option.split)
qed

section \<open>The output is within the bounds of its model\<close>

definition COMPLETENESS_CODES :: "string list" where
  "COMPLETENESS_CODES = [''POLICY_ANALYSIS_RESULT_MISSING'', ''POLICY_ANALYSIS_STATUS_FAILED'',
     ''POLICY_ANALYSIS_STATUS_TIMEOUT'', ''POLICY_ANALYSIS_STATUS_UNSUPPORTED'',
     ''POLICY_UNSUPPORTED_DETECTED_TYPE'', ''POLICY_ANALYSIS_CONTRADICTION'',
     ''POLICY_ANALYSIS_FAILURE'', ''POLICY_LIFECYCLE_INCONSISTENCY'']"

lemma completeness_bound: "length (completeness_reasons r f s cs) \<le> 5"
proof -
  have "length (status_reason a) \<le> 1" for a by (cases a) simp_all
  from this [of "ar_status (the r)"] show ?thesis
    by (cases r) (auto simp: completeness_reasons_def)
qed

lemma completeness_subset: "set (completeness_reasons r f s cs) \<subseteq> set COMPLETENESS_CODES"
proof -
  have "set (status_reason a) \<subseteq> set COMPLETENESS_CODES" for a
    by (cases a) (simp_all add: COMPLETENESS_CODES_def)
  from this [of "ar_status (the r)"] show ?thesis
    by (cases r) (auto simp: completeness_reasons_def COMPLETENESS_CODES_def)
qed

lemma completeness_codes_explained:
  "c \<in> set COMPLETENESS_CODES \<Longrightarrow> reason_ok (analysis_reason c)"
proof -
  have "list_all (\<lambda>c. reason_ok (analysis_reason c)) COMPLETENESS_CODES" by code_simp
  then show "c \<in> set COMPLETENESS_CODES \<Longrightarrow> ?thesis" by (simp add: list_all_iff)
qed

lemma hard_block_count: "length (filter fp_hard_block FINDING_POLICIES) = 6"
  and quarantine_count:
    "length (filter (\<lambda>p. fp_minimum_decision p = Some QUARANTINE) FINDING_POLICIES) = 13"
  and registry_counts: "length FINDING_POLICIES = 45" "length COMPOUND_POLICIES = 5"
  by code_simp+

lemma length_filter_present:
  assumes "set cs \<subseteq> set FINDING_CODES" "distinct cs"
  shows "length (filter P (policies_of cs)) \<le> length (filter P FINDING_POLICIES)"
proof -
  have "length (filter P (policies_of cs)) = length (filter P (present_policies (set cs)))"
    using mset_policies_of [OF assms] by (metis mset_filter size_mset)
  also have "\<dots> \<le> length (filter P FINDING_POLICIES)"
    by (simp add: present_policies_def filter_filter conj_commute) (metis filter_filter length_filter_le)
  finally show ?thesis .
qed

lemma policies_of_rows: "p \<in> set (policies_of cs) \<Longrightarrow> p \<in> set FINDING_POLICIES"
  by (simp add: set_policies_of present_policies_def)

lemma triggered_rows: "c \<in> set (triggered_compounds cs) \<Longrightarrow> c \<in> set COMPOUND_POLICIES"
  by (simp add: triggered_compounds_def)

lemma length_triggered: "length (triggered_compounds cs) \<le> 5"
  using registry_counts(2) by (metis length_filter_le triggered_compounds_def)

lemma sort_distinct_codes: "distinct xs \<Longrightarrow> sorted_unique_codes (sort xs)"
  by (simp add: sorted_unique_codes_def sorted_codes_id)

lemma distinct_map_filter_codes:
  assumes "set cs \<subseteq> set FINDING_CODES" "distinct cs"
  shows "distinct (map fp_finding_code (filter P (policies_of cs)))"
proof -
  have "distinct (map fp_finding_code (policies_of cs))"
    by (simp add: map_code_policies_of [OF assms(1)] assms(2))
  then show ?thesis by (rule distinct_map_filter)
qed

lemma mandatory_bound:
  assumes "set cs \<subseteq> set FINDING_CODES" "distinct cs"
  shows "length (mandatory_reasons (policies_of cs) (triggered_compounds cs)
           (completeness_reasons r f s xs)) \<le> 23"
proof -
  have "length (filter Q (triggered_compounds cs)) \<le> 5" for Q
    by (rule order_trans [OF length_filter_le length_triggered])
  from this [of "\<lambda>c. cp_minimum_decision c = Some QUARANTINE"] show ?thesis
    using length_filter_present [OF assms, of "\<lambda>p. fp_minimum_decision p = Some QUARANTINE"]
      completeness_bound [of r f s xs]
    by (simp add: mandatory_reasons_def quarantine_count)
qed

lemma contributions_ok:
  "list_all contribution_ok (policy_contributions (policies_of cs) (triggered_compounds cs))"
  using finding_policyD [OF policies_of_rows] compound_policyD [OF triggered_rows]
  by (auto simp: policy_contributions_def list_all_iff contribution_ok_def)

lemma reasons_ok:
  "list_all reason_ok (decision_reasons (policies_of cs) (triggered_compounds cs)
     (completeness_reasons r f s xs))"
proof -
  have "reason_ok (analysis_reason c)" if "c \<in> set (completeness_reasons r f s xs)" for c
    using that completeness_subset completeness_codes_explained by blast
  then show ?thesis
    using finding_policyD [OF policies_of_rows] compound_policyD [OF triggered_rows]
    by (auto simp: decision_reasons_def list_all_iff reason_ok_def)
qed

lemma sort_Nil_iff: "sort xs = [] \<longleftrightarrow> xs = []"
  by (metis set_empty set_sort)

lemma choose_decision_ALLOW:
  "choose_decision h m s = ALLOW \<longleftrightarrow> h = [] \<and> m = [] \<and> s < 20"
  by (auto simp: choose_decision_def)

lemma choose_decision_BLOCK: "choose_decision h m s = BLOCK \<longleftrightarrow> h \<noteq> []"
  by (auto simp: choose_decision_def)

lemma evaluation_ok:
  assumes "set cs \<subseteq> set FINDING_CODES" "distinct cs"
  shows "policy_evaluation_ok (evaluation_of cs (completeness_reasons r f s xs) t)"
proof -
  let ?pols = "policies_of cs" and ?comps = "triggered_compounds cs"
    and ?cr = "completeness_reasons r f s xs"
  have "hex_digits 64 POLICY_FINGERPRINT" by code_simp
  moreover have "length (filter fp_hard_block ?pols) \<le> 16"
    using length_filter_present [OF assms, of fp_hard_block] by (simp add: hard_block_count)
  moreover have "length (sorted_codes (mandatory_reasons ?pols ?comps ?cr)) \<le> 32"
    using mandatory_bound [OF assms, of r f s xs] card_length [of "mandatory_reasons ?pols ?comps ?cr"]
    by (simp add: length_sorted_codes)
  moreover have "sorted_unique_codes (sort (map cp_name ?comps))"
    using compounds.distinct_keys unfolding triggered_compounds_def
    by (intro sort_distinct_codes distinct_map_filter)
  moreover have "length ?comps \<le> 5" "length ?pols \<le> 45" "length ?cr \<le> 5"
    using length_filter_present [OF assms, of "\<lambda>_. True"] registry_counts(1)
    by (simp_all add: length_triggered completeness_bound)
  ultimately show ?thesis
    using distinct_map_filter_codes [OF assms] accumulated_score_nonneg [of "set cs"]
    by (simp add: policy_evaluation_ok_def evaluation_of_def Let_def POLICY_VERSION_def
        sort_distinct_codes contributions_ok reasons_ok sorted_unique_codes_def [of "sorted_codes _"]
        release_semantics_ok_def choose_decision_ALLOW choose_decision_BLOCK)
      (auto simp: decision_reasons_def policy_contributions_def mandatory_reasons_def)
qed

lemma registry_checks_pass:
  "version_ok POLICY_VERSION"
  "sorted_codes (map fp_finding_code FINDING_POLICIES) = sorted_codes FINDING_CODES"
  "length FINDING_POLICIES = length (remdups (map fp_finding_code FINDING_POLICIES))"
  "first_error finding_policy_error FINDING_POLICIES = None"
  "distinct (map cp_name COMPOUND_POLICIES)"
  "first_error compound_policy_error COMPOUND_POLICIES = None"
proof -
  show "length FINDING_POLICIES = length (remdups (map fp_finding_code FINDING_POLICIES))"
    using policies.distinct_keys by (simp add: distinct_remdups_id)
  show "distinct (map cp_name COMPOUND_POLICIES)" by (rule compounds.distinct_keys)
  show "sorted_codes (map fp_finding_code FINDING_POLICIES) = sorted_codes FINDING_CODES"
    by (simp add: policy_codes)
  show "first_error finding_policy_error FINDING_POLICIES = None"
    using policy_rows_ok by (auto simp: first_error_None list_all_iff)
  show "first_error compound_policy_error COMPOUND_POLICIES = None"
    using compound_rows_ok by (auto simp: first_error_None list_all_iff)
  show "version_ok POLICY_VERSION" by code_simp
qed

section \<open>What the engine guarantees\<close>

text \<open>The registry as shipped passes every structural check of its validation, so the
  only way the validation can fail is that the hash of the normalised registry is not the
  pinned fingerprint.\<close>

theorem registry_validation:
  "validate_policy_registry sha256 =
     (if compute_policy_fingerprint sha256 = Some POLICY_FINGERPRINT then None
      else Some ''policy fingerprint mismatch'')"
  by (simp add: validate_policy_registry_def registry_checks_pass)

lemma registry_valid_if:
  "compute_policy_fingerprint sha256 = Some POLICY_FINGERPRINT \<Longrightarrow>
     validate_policy_registry sha256 = None"
  by (simp add: validate_policy_registry_def registry_checks_pass)

lemma result_codes_registered:
  "(\<And>r. result = Some r \<Longrightarrow> analysis_result_ok r) \<Longrightarrow>
     set (result_codes result) \<subseteq> set FINDING_CODES"
  by (cases result) (simp_all add: result_codes_def analysis_result_registered)

lemma evaluate_policy_validated:
  assumes "compute_policy_fingerprint sha256 = Some POLICY_FINGERPRINT"
    and "\<And>r. result = Some r \<Longrightarrow> analysis_result_ok r"
  shows "evaluate_policy sha256 result fc st t = Inr (evaluation_of (result_codes result)
           (completeness_reasons result fc st (result_codes result)) t)"
  using result_codes_registered [OF assms(2)] assms(1)
  by (simp add: evaluate_policy_eq registry_valid_if Let_def evaluation_ok result_codes_distinct)

lemma fingerprint_witness: "compute_policy_fingerprint (\<lambda>_. POLICY_FINGERPRINT) = Some POLICY_FINGERPRINT"
  using payload_text by (auto simp: compute_policy_fingerprint_def)

text \<open>The engine is total on validated input: whatever the worker reported (nothing, or
  a result that passed the contract's validation), whatever the failure code and the scan
  state, the evaluation returns an output within every bound its model declares. The
  exception handlers of the callers are never reached by such an input.\<close>

theorem policy_total:
  assumes "compute_policy_fingerprint sha256 = Some POLICY_FINGERPRINT"
    and "\<And>r. result = Some r \<Longrightarrow> analysis_result_ok r"
  shows "\<exists>e. evaluate_policy sha256 result failure_code scan_state t = Inr e \<and>
           policy_evaluation_ok e"
  using assms
  by (simp add: evaluate_policy_validated evaluation_ok result_codes_registered result_codes_distinct)

text \<open>A validated result that carries the given registered codes, for concrete instances.\<close>

definition sample_result :: "string list \<Rightarrow> analysis_result" where
  "sample_result cs = \<lparr>ar_schema_version = ANALYSIS_SCHEMA_VERSION,
     ar_worker_version = WORKER_VERSION, ar_status = AS_SUCCESS, ar_detected_type = Some ''PDF'',
     ar_size_bytes = 1024, ar_findings = List.map_filter (\<lambda>c. finding_payload c []) cs,
     ar_analyzer_metadata = [], ar_started_at = Some 0, ar_completed_at = Some 1500,
     ar_duration_ms = 1\<rparr>"

lemma sample_result_ok:
  assumes "length cs \<le> 256" "''YARA_PARTIAL_ANALYSIS'' \<notin> set cs" "set cs \<inter> set yara_match_codes = {}"
  shows "analysis_result_ok (sample_result cs)"
proof -
  have b: "bounded_json [] n" if "2 \<le> n" for n
    using that by (simp add: bounded_json_def json_size_def object_text_def sort_key_def
        utf8_size_def utf8_length_def)
  have "finding_ok f" if "f \<in> set (List.map_filter (\<lambda>c. finding_payload c []) cs)" for f
  proof -
    from that obtain c where "c \<in> set cs" "finding_payload c [] = Some f"
      by (auto simp: List.map_filter_def)
    with assms show ?thesis
      by (intro payload_accepted [of c "[]"]) (auto simp: b MAX_FINDING_METADATA_BYTES_def)
  qed
  moreover have "length (List.map_filter (\<lambda>c. finding_payload c []) cs) \<le> 256"
    using assms(1) by (simp add: List.map_filter_def) (meson length_filter_le order_trans)
  ultimately show ?thesis
    by (simp add: analysis_result_ok_def sample_result_def WORKER_VERSION_def list_all_iff b
        MAX_FINDINGS_PER_ANALYSIS_def MAX_ANALYZER_METADATA_BYTES_def)
qed

theorem policy_total_witness:
  "\<exists>e. evaluate_policy (\<lambda>_. POLICY_FINGERPRINT)
         (Some (sample_result [''PDF_JAVASCRIPT'', ''PDF_OPEN_ACTION''])) None ANALYZING 7 = Inr e \<and>
       policy_evaluation_ok e"
proof -
  have "analysis_result_ok (sample_result [''PDF_JAVASCRIPT'', ''PDF_OPEN_ACTION''])"
    by (rule sample_result_ok) (simp_all add: yara_match_codes_def)
  then show ?thesis
    by (intro policy_total) (simp_all add: fingerprint_witness)
qed

lemma sample_evaluation:
  assumes "length cs \<le> 256" "''YARA_PARTIAL_ANALYSIS'' \<notin> set cs" "set cs \<inter> set yara_match_codes = {}"
  obtains e where
    "evaluate_policy (\<lambda>_. POLICY_FINGERPRINT) (Some (sample_result cs)) fc st t = Inr e"
proof
  show "evaluate_policy (\<lambda>_. POLICY_FINGERPRINT) (Some (sample_result cs)) fc st t =
      Inr (evaluation_of (result_codes (Some (sample_result cs)))
        (completeness_reasons (Some (sample_result cs)) fc st (result_codes (Some (sample_result cs)))) t)"
    using sample_result_ok [OF assms] by (intro evaluate_policy_validated fingerprint_witness) simp
qed

lemma evaluate_policy_InrD:
  assumes "evaluate_policy sha256 result failure_code scan_state t = Inr e"
  shows "set (result_codes result) \<subseteq> set FINDING_CODES"
    and "e = evaluation_of (result_codes result)
           (completeness_reasons result failure_code scan_state (result_codes result)) t"
  using assms by (auto simp: evaluate_policy_eq Let_def split: option.splits if_splits)

lemma no_review_minimum: "p \<in> set FINDING_POLICIES \<Longrightarrow> fp_minimum_decision p \<noteq> Some REVIEW"
proof -
  have "list_all (\<lambda>p. fp_minimum_decision p \<noteq> Some REVIEW) FINDING_POLICIES" by code_simp
  then show "p \<in> set FINDING_POLICIES \<Longrightarrow> ?thesis" by (simp add: list_all_iff)
qed

lemma present_policy_minimum:
  "p \<in> set (present_policies C) \<Longrightarrow>
     fp_minimum_decision p = None \<or> fp_minimum_decision p = Some QUARANTINE \<or>
     fp_minimum_decision p = Some BLOCK"
  using finding_policyD(4) [of p] no_review_minimum [of p]
  by (cases "fp_minimum_decision p"; cases "the (fp_minimum_decision p)")
    (auto simp: present_policies_def)

lemma hard_blocks_iff:
  "map fp_finding_code (filter fp_hard_block (policies_of cs)) \<noteq> [] \<longleftrightarrow>
     (\<exists>p\<in>set (present_policies (set cs)). fp_minimum_decision p = Some BLOCK)"
  using finding_policyD(3)
  by (auto simp: filter_empty_conv set_policies_of present_policies_def)

lemma mandatory_iff:
  "mandatory_reasons (policies_of cs) (triggered_compounds cs) cr \<noteq> [] \<longleftrightarrow>
     (\<exists>p\<in>set (present_policies (set cs)). fp_minimum_decision p = Some QUARANTINE) \<or>
     present_compounds (set cs) \<noteq> [] \<or> cr \<noteq> []"
proof -
  have "filter (\<lambda>c. cp_minimum_decision c = Some QUARANTINE) (present_compounds C) =
      present_compounds C" for C
    using compound_policyD(3)
    by (auto simp: present_compounds_def filter_filter intro!: filter_cong)
  then show ?thesis
    by (auto simp: mandatory_reasons_def filter_empty_conv set_policies_of triggered_compounds_eq)
qed

lemma foldr_max_cases:
  "foldr max xs ALLOW = (if BLOCK \<in> set xs then BLOCK else if QUARANTINE \<in> set xs then QUARANTINE
     else if REVIEW \<in> set xs then REVIEW else ALLOW)"
proof (induction xs)
  case (Cons x xs)
  then show ?case by (cases x) (simp_all add: max_def less_eq_decision_def)
qed simp

lemma floors_set:
  "set (floors C complete) =
     (minimum_floor \<circ> fp_minimum_decision) ` set (present_policies C) \<union>
     (if present_compounds C = [] then {} else {QUARANTINE}) \<union>
     {if complete then ALLOW else QUARANTINE, score_floor (accumulated_score C)}"
proof -
  have "\<forall>c\<in>set (present_compounds C). cp_minimum_decision c = Some QUARANTINE"
    using compound_policyD(3) by (auto simp: present_compounds_def)
  then show ?thesis
    by (cases "present_compounds C") (auto simp: floors_def minimum_floor_def)
qed

lemma decision_of_codes:
  "pe_decision (evaluation_of cs cr t) = decision_floor (set cs) (cr = [])"
proof -
  let ?P = "set (present_policies (set cs))" and ?C = "present_compounds (set cs)"
    and ?s = "accumulated_score (set cs)"
  define b where "b \<longleftrightarrow> (\<exists>p\<in>?P. fp_minimum_decision p = Some BLOCK)"
  define q where "q \<longleftrightarrow> (\<exists>p\<in>?P. fp_minimum_decision p = Some QUARANTINE) \<or> ?C \<noteq> [] \<or> cr \<noteq> []"
  have d: "pe_decision (evaluation_of cs cr t) =
      (if b then BLOCK else if q \<or> ?s \<ge> 40 then QUARANTINE else if ?s \<ge> 20 then REVIEW else ALLOW)"
  proof -
    have h: "sort (map fp_finding_code (filter fp_hard_block (policies_of cs))) \<noteq> [] \<longleftrightarrow> b"
      using hard_blocks_iff [of cs] unfolding b_def sort_Nil_iff .
    have "\<not> 40 \<le> min 100 ?s \<longleftrightarrow> \<not> 40 \<le> ?s" "20 \<le> min 100 ?s \<longleftrightarrow> 20 \<le> ?s" by auto
    then show ?thesis
      unfolding evaluation_of_def Let_def choose_decision_def
      by (simp only: policy_evaluation.simps h mandatory_iff [of cs cr, folded q_def] not_le de_Morgan_disj
          cong: if_cong) (simp add: not_le)
  qed
  have m: "BLOCK = minimum_floor (fp_minimum_decision p) \<longleftrightarrow> fp_minimum_decision p = Some BLOCK"
    "QUARANTINE = minimum_floor (fp_minimum_decision p) \<longleftrightarrow> fp_minimum_decision p = Some QUARANTINE"
    "REVIEW \<noteq> minimum_floor (fp_minimum_decision p)" if "p \<in> ?P" for p
    using present_policy_minimum [OF that] by (auto simp: minimum_floor_def)
  have f: "x \<in> set (floors (set cs) (cr = [])) \<longleftrightarrow>
      (\<exists>p\<in>?P. x = minimum_floor (fp_minimum_decision p)) \<or> (?C \<noteq> [] \<and> x = QUARANTINE) \<or>
      x = (if cr = [] then ALLOW else QUARANTINE) \<or> x = score_floor ?s" for x
    by (auto simp: floors_set)
  have "BLOCK \<in> set (floors (set cs) (cr = [])) \<longleftrightarrow> b"
    unfolding f b_def by (simp add: m(1) score_floor_def cong: bex_cong)
  moreover have "QUARANTINE \<in> set (floors (set cs) (cr = [])) \<longleftrightarrow> q \<or> ?s \<ge> 40"
    unfolding f q_def by (simp add: m(2) score_floor_def cong: bex_cong)
  moreover have "REVIEW \<in> set (floors (set cs) (cr = [])) \<longleftrightarrow> 20 \<le> ?s \<and> ?s < 40"
    unfolding f by (simp add: m(3) score_floor_def cong: bex_cong)
  ultimately have "foldr max (floors (set cs) (cr = [])) ALLOW = pe_decision (evaluation_of cs cr t)"
    unfolding foldr_max_cases d by simp
  then show ?thesis by (simp add: decision_floor_def)
qed

text \<open>C11. The decision is the most restrictive of the floors that the present findings, the
  triggered compounds, the completeness of the analysis and the accumulated score put
  under it: the branches of the engine implement a maximum in the order of restriction.\<close>

theorem policy_decision:
  assumes "evaluate_policy sha256 result failure_code scan_state t = Inr e"
  shows "pe_decision e = decision_floor (set (result_codes result)) (pe_analysis_complete e)"
proof -
  note e = evaluate_policy_InrD(2) [OF assms]
  then have "pe_analysis_complete e \<longleftrightarrow>
      completeness_reasons result failure_code scan_state (result_codes result) = []"
    by (simp add: evaluation_of_def Let_def)
  with e show ?thesis by (simp add: decision_of_codes)
qed

theorem policy_decision_witness:
  "\<exists>e. evaluate_policy (\<lambda>_. POLICY_FINGERPRINT) (Some (sample_result [''PDF_XFA''])) None
         ANALYZING 7 = Inr e \<and>
       pe_decision e = decision_floor (set (result_codes (Some (sample_result [''PDF_XFA'']))))
         (pe_analysis_complete e)"
proof -
  obtain e where "evaluate_policy (\<lambda>_. POLICY_FINGERPRINT) (Some (sample_result [''PDF_XFA'']))
      None ANALYZING 7 = Inr e"
    by (rule sample_evaluation [of "[''PDF_XFA'']"]) (simp_all add: yara_match_codes_def)
  then show ?thesis using policy_decision by blast
qed

lemma completeness_Nil:
  "completeness_reasons result fc st (result_codes result) = [] \<longleftrightarrow>
     (\<exists>r. result = Some r \<and> ar_status r = AS_SUCCESS \<and>
        ar_detected_type r \<in> Some ` set SUPPORTED_RELEASE_TYPES \<and>
        (\<forall>c\<in>set (finding_codes r). \<not> incomplete_code c)) \<and>
     fc = None \<and> (st = ANALYZING \<or> st = COMPLETED)"
proof (cases result)
  case (Some r)
  have "status_reason a = [] \<longleftrightarrow> a = AS_SUCCESS" for a by (cases a) simp_all
  with Some show ?thesis
    by (auto simp: completeness_reasons_def result_codes_def list_ex_iff split: if_splits)
qed (simp add: completeness_reasons_def)

lemma release_iff_decision:
  "evaluate_policy sha256 result fc st t = Inr e \<Longrightarrow> pe_release_eligible e \<longleftrightarrow> pe_decision e = ALLOW"
  by (drule evaluate_policy_InrD(2)) (simp add: evaluation_of_def Let_def)

lemma set_result_codes [simp]: "set (result_codes (Some r)) = set (finding_codes r)"
  by (simp add: result_codes_def)

lemma decision_floor_ALLOW:
  "decision_floor C complete = ALLOW \<longleftrightarrow> complete \<and>
     (\<forall>p\<in>set (present_policies C). fp_minimum_decision p = None) \<and> present_compounds C = [] \<and>
     accumulated_score C < 20"
proof -
  have "d = ALLOW \<longleftrightarrow> d \<le> ALLOW" for d by (cases d) (simp_all add: less_eq_decision_def)
  then have "decision_floor C complete = ALLOW \<longleftrightarrow> (\<forall>x\<in>set (floors C complete). x = ALLOW)"
    by (simp add: decision_floor_def foldr_max_le)
  also have "\<dots> \<longleftrightarrow> complete \<and>
     (\<forall>p\<in>set (present_policies C). minimum_floor (fp_minimum_decision p) = ALLOW) \<and>
     present_compounds C = [] \<and> score_floor (accumulated_score C) = ALLOW"
    by (auto simp: floors_set split: if_splits)
  also have "(\<forall>p\<in>set (present_policies C). minimum_floor (fp_minimum_decision p) = ALLOW) \<longleftrightarrow>
     (\<forall>p\<in>set (present_policies C). fp_minimum_decision p = None)"
    using present_policy_minimum by (fastforce simp: minimum_floor_def)
  finally show ?thesis by (simp add: score_floor_def)
qed

lemma release_iff:
  assumes "evaluate_policy sha256 result failure_code scan_state t = Inr e"
  shows "pe_release_eligible e \<longleftrightarrow>
    (\<exists>r. result = Some r \<and> ar_status r = AS_SUCCESS \<and>
       ar_detected_type r \<in> Some ` set SUPPORTED_RELEASE_TYPES \<and>
       (\<forall>c\<in>set (finding_codes r). \<not> incomplete_code c) \<and>
       (\<forall>p\<in>set (present_policies (set (finding_codes r))). fp_minimum_decision p = None) \<and>
       present_compounds (set (finding_codes r)) = [] \<and>
       accumulated_score (set (finding_codes r)) < 20) \<and>
    failure_code = None \<and> (scan_state = ANALYZING \<or> scan_state = COMPLETED)"
proof -
  have "pe_release_eligible e \<longleftrightarrow> decision_floor (set (result_codes result))
      (completeness_reasons result failure_code scan_state (result_codes result) = []) = ALLOW"
    using release_iff_decision [OF assms] evaluate_policy_InrD(2) [OF assms]
    by (simp add: decision_of_codes)
  then show ?thesis
    unfolding decision_floor_ALLOW completeness_Nil by auto
qed

text \<open>C1. A document is released exactly when a validated result says the analysis succeeded
  on a supported type, the orchestrator reported no failure, the scan is still in its
  analysis lifecycle, no finding reports partial or malformed content, no finding carries
  a minimum decision, no compound rule fires and the accumulated score stays below 20.
  Every other input is refused release.\<close>

theorem release_conditions:
  assumes "evaluate_policy sha256 result failure_code scan_state t = Inr e"
  shows "pe_release_eligible e \<longleftrightarrow>
    (\<exists>r. result = Some r \<and> ar_status r = AS_SUCCESS \<and>
       ar_detected_type r \<in> Some ` set SUPPORTED_RELEASE_TYPES \<and>
       (\<forall>c\<in>set (finding_codes r). \<not> incomplete_code c) \<and>
       (\<forall>p\<in>set (present_policies (set (finding_codes r))). fp_minimum_decision p = None) \<and>
       present_compounds (set (finding_codes r)) = [] \<and>
       accumulated_score (set (finding_codes r)) < 20) \<and>
    failure_code = None \<and> (scan_state = ANALYZING \<or> scan_state = COMPLETED)"
  using assms by (rule release_iff)

lemma sample_result_release:
  "ar_status (sample_result cs) = AS_SUCCESS" "ar_detected_type (sample_result cs) = Some ''PDF''"
  by (simp_all add: sample_result_def)

theorem release_conditions_witness:
  "\<exists>e. evaluate_policy (\<lambda>_. POLICY_FINGERPRINT) (Some (sample_result [])) None ANALYZING 7 = Inr e \<and>
       pe_release_eligible e"
proof -
  obtain e where e: "evaluate_policy (\<lambda>_. POLICY_FINGERPRINT) (Some (sample_result []))
      None ANALYZING 7 = Inr e"
    by (rule sample_evaluation [of "[]"]) (simp_all add: yara_match_codes_def)
  have c: "finding_codes (sample_result []) = []"
    by (simp add: sample_result_def finding_codes_def List.map_filter_def)
  have "present_compounds {} = []" "present_policies {} = []"
    by code_simp+
  then have "pe_release_eligible e"
    unfolding release_conditions [OF e]
    by (simp add: sample_result_release c accumulated_score_def SUPPORTED_RELEASE_TYPES_def)
  with e show ?thesis by blast
qed

text \<open>A document is blocked exactly when one of its findings has a hard-block policy:
  neither the score, nor a compound, nor an incomplete analysis can block or unblock.\<close>

theorem block_iff_hard_finding:
  assumes "evaluate_policy sha256 (Some r) failure_code scan_state t = Inr e"
  shows "pe_decision e = BLOCK \<longleftrightarrow>
    (\<exists>f\<in>set (ar_findings r). \<exists>p. finding_policy_of (f_code f) = Some p \<and> fp_hard_block p)"
proof -
  have "pe_decision e = BLOCK \<longleftrightarrow>
      (\<exists>p\<in>set (present_policies (set (finding_codes r))). fp_minimum_decision p = Some BLOCK)"
    using evaluate_policy_InrD(2) [OF assms] hard_blocks_iff [of "result_codes (Some r)"]
    by (simp only: evaluation_of_def Let_def choose_decision_BLOCK policy_evaluation.simps sort_Nil_iff
        set_result_codes)
  also have "\<dots> \<longleftrightarrow> (\<exists>f\<in>set (ar_findings r). \<exists>p. finding_policy_of (f_code f) = Some p \<and> fp_hard_block p)"
    using finding_policyD(3)
    by (auto simp: present_policies_def finding_policy_of_Some finding_codes_def)
  finally show ?thesis .
qed

theorem block_iff_hard_finding_witness:
  "\<exists>e. evaluate_policy (\<lambda>_. POLICY_FINGERPRINT) (Some (sample_result [''ARCHIVE_PATH_TRAVERSAL'']))
         None ANALYZING 7 = Inr e \<and> pe_decision e = BLOCK"
proof -
  obtain e where e: "evaluate_policy (\<lambda>_. POLICY_FINGERPRINT)
      (Some (sample_result [''ARCHIVE_PATH_TRAVERSAL''])) None ANALYZING 7 = Inr e"
    by (rule sample_evaluation [of "[''ARCHIVE_PATH_TRAVERSAL'']"]) (simp_all add: yara_match_codes_def)
  have "map_option fp_hard_block (finding_policy_of ''ARCHIVE_PATH_TRAVERSAL'') = Some True"
    and "map_option f_code (finding_payload ''ARCHIVE_PATH_TRAVERSAL'' []) =
      Some ''ARCHIVE_PATH_TRAVERSAL''" by code_simp+
  then have "pe_decision e = BLOCK"
    unfolding block_iff_hard_finding [OF e] by (auto simp: sample_result_def List.map_filter_def)
  with e show ?thesis by blast
qed

lemma completeness_mono:
  assumes "ar_status r = ar_status r'" "ar_detected_type r = ar_detected_type r'"
    "set cs \<subseteq> set cs'" "completeness_reasons (Some r') fc st cs' = []"
  shows "completeness_reasons (Some r) fc st cs = []"
  using assms by (auto simp: completeness_reasons_def list_ex_iff split: if_splits)

text \<open>C12. More findings never relax the outcome: with the same status, type, failure code and
  lifecycle state, a result with a superset of the findings gets a decision at least as
  restrictive and a score at least as high. In particular the order and the multiplicity
  of the findings do not matter.\<close>

theorem policy_monotone:
  assumes "evaluate_policy sha256 (Some r) failure_code scan_state t = Inr e"
    and "evaluate_policy sha256 (Some r') failure_code scan_state t' = Inr e'"
    and "ar_status r = ar_status r'" "ar_detected_type r = ar_detected_type r'"
    and "set (finding_codes r) \<subseteq> set (finding_codes r')"
  shows "pe_decision e \<le> pe_decision e' \<and> pe_risk_score e \<le> pe_risk_score e'"
proof
  note e = evaluate_policy_InrD(2) [OF assms(1)] and e' = evaluate_policy_InrD(2) [OF assms(2)]
  have "completeness_reasons (Some r') failure_code scan_state (result_codes (Some r')) = [] \<Longrightarrow>
      completeness_reasons (Some r) failure_code scan_state (result_codes (Some r)) = []"
    by (rule completeness_mono [OF assms(3,4)]) (simp_all add: assms(5))
  then show "pe_decision e \<le> pe_decision e'"
    unfolding e e' decision_of_codes by (intro decision_floor_mono) (simp_all add: assms(5))
  show "pe_risk_score e \<le> pe_risk_score e'"
    using accumulated_score_mono [OF assms(5)] unfolding e e' by (simp add: evaluation_of_def Let_def)
qed

theorem policy_monotone_witness:
  "\<exists>e e'. evaluate_policy (\<lambda>_. POLICY_FINGERPRINT) (Some (sample_result [])) None ANALYZING 7 = Inr e \<and>
     evaluate_policy (\<lambda>_. POLICY_FINGERPRINT) (Some (sample_result [''PDF_XFA''])) None ANALYZING 8 = Inr e' \<and>
     pe_decision e \<le> pe_decision e'"
proof -
  obtain e where e: "evaluate_policy (\<lambda>_. POLICY_FINGERPRINT) (Some (sample_result []))
      None ANALYZING 7 = Inr e"
    by (rule sample_evaluation [of "[]"]) (simp_all add: yara_match_codes_def)
  obtain e' where e': "evaluate_policy (\<lambda>_. POLICY_FINGERPRINT) (Some (sample_result [''PDF_XFA'']))
      None ANALYZING 8 = Inr e'"
    by (rule sample_evaluation [of "[''PDF_XFA'']"]) (simp_all add: yara_match_codes_def)
  have "pe_decision e \<le> pe_decision e'"
    by (rule policy_monotone [OF e e', THEN conjunct1])
      (simp_all add: sample_result_def finding_codes_def List.map_filter_def)
  with e e' show ?thesis by blast
qed

section \<open>Facts for the callers of the engine\<close>

lemma evaluate_policy_ok:
  "evaluate_policy sha256 result fc st t = Inr e \<Longrightarrow> policy_evaluation_ok e"
  by (auto simp: evaluate_policy_eq Let_def split: option.splits if_splits)

lemma evaluation_complete:
  assumes "evaluate_policy sha256 result fc st t = Inr e" "pe_decision e = ALLOW \<or> pe_decision e = REVIEW"
  shows "completeness_reasons result fc st (result_codes result) = []" "pe_analysis_complete e"
proof -
  let ?c = "completeness_reasons result fc st (result_codes result) = []"
  have e: "pe_decision e = decision_floor (set (result_codes result)) ?c" "pe_analysis_complete e = ?c"
    using evaluate_policy_InrD(2) [OF assms(1)] by (simp_all add: decision_of_codes) (simp add: evaluation_of_def Let_def)
  have "QUARANTINE \<le> decision_floor C False" for C
    using foldr_max_le [of "floors C False" "decision_floor C False"]
    by (simp add: decision_floor_def floors_def)
  from this [of "set (result_codes result)"] e(1) assms(2) have ?c
    by (cases ?c) (auto simp: less_eq_decision_def)
  with e(2) show ?c "pe_analysis_complete e" by simp_all
qed

lemma release_decision: "policy_evaluation_ok e \<Longrightarrow> pe_release_eligible e \<longleftrightarrow> pe_decision e = ALLOW"
  and allow_complete: "policy_evaluation_ok e \<Longrightarrow> pe_decision e = ALLOW \<Longrightarrow> pe_analysis_complete e"
  by (simp_all add: policy_evaluation_ok_def release_semantics_ok_def)

lemma fail_closed_ok: "policy_evaluation_ok (fail_closed_policy_evaluation t)"
proof -
  have "hex_digits 64 POLICY_FINGERPRINT" "reason_ok (analysis_reason ''POLICY_EVALUATION_FAILURE'')"
    by code_simp+
  then show ?thesis
    by (simp add: policy_evaluation_ok_def fail_closed_policy_evaluation_def POLICY_VERSION_def
        sorted_unique_codes_def release_semantics_ok_def sorted_codes_def)
qed

text \<open>An evaluation that allows release has no reason to refuse it.\<close>

lemma allow_no_reasons:
  assumes "evaluate_policy sha256 result fc st t = Inr e" "pe_decision e = ALLOW"
  shows "pe_hard_block_reasons e = []" "pe_mandatory_quarantine_reasons e = []"
  using assms(2) evaluate_policy_InrD(2) [OF assms(1)]
  by (simp_all add: evaluation_of_def Let_def choose_decision_ALLOW)

end
