(* ===== verification/Policy_Json.thy ===== *)
theory Policy_Json
  imports Policy_Engine
begin

text \<open>
  The column \<open>policy_evaluation_json\<close> and its two sides: \<open>evaluation.model_dump(mode="json")\<close>,
  which \<open>app/orchestrator/scan_service.py\<close> stores, and
  \<open>PolicyEvaluation.model_validate_json(json.dumps(...))\<close>, with which \<open>app/api/scans.py\<close> and
  \<open>app/cdr/service.py\<close> read it: the strict, extra-forbidding model of
  \<open>app/policies/models.py\<close> with its defaults, bounds and validators. The column is an object of
  JSON members; only the ISO 8601 text of \<open>evaluated_at\<close> is kept as the instant it denotes, as
  the formatter and the parser of dates are Pydantic's own. A text outside Latin-1, which no
  evaluation contains, is not a value of the model's strings and is refused.
\<close>

record evaluation_column =
  ec_members :: json_object
  ec_evaluated_at :: "instant option"

fun risk_band_value :: "risk_band \<Rightarrow> string" where
  "risk_band_value RB_LOW = ''LOW''"
| "risk_band_value RB_MODERATE = ''MODERATE''"
| "risk_band_value RB_HIGH = ''HIGH''"
| "risk_band_value RB_CRITICAL = ''CRITICAL''"

section \<open>Writing\<close>

definition dump_reason :: "policy_reason \<Rightarrow> json" where
  "dump_reason r = JObj (obj [(''code'', jtext (pr_code r)), (''explanation'', jtext (pr_explanation r))])"

definition dump_contribution :: "policy_contribution \<Rightarrow> json" where
  "dump_contribution c = JObj (obj [(''code'', jtext (pc_code c)),
     (''contribution'', JInt (pc_contribution c)), (''explanation'', jtext (pc_explanation c))])"

definition dump_members :: "policy_evaluation \<Rightarrow> (string \<times> json) list" where
  "dump_members e =
     [(''policy_version'', jtext (pe_policy_version e)),
      (''policy_fingerprint'', jtext (pe_policy_fingerprint e)),
      (''risk_score'', JInt (pe_risk_score e)),
      (''risk_band'', jtext (risk_band_value (pe_risk_band e))),
      (''decision'', jtext (decision_value (pe_decision e))),
      (''release_eligible'', JBool (pe_release_eligible e)),
      (''analysis_complete'', JBool (pe_analysis_complete e)),
      (''hard_block_reasons'', jcodes (pe_hard_block_reasons e)),
      (''mandatory_quarantine_reasons'', jcodes (pe_mandatory_quarantine_reasons e)),
      (''compound_rules_triggered'', jcodes (pe_compound_rules_triggered e)),
      (''decision_reasons'', JList (map dump_reason (pe_decision_reasons e))),
      (''contributions'', JList (map dump_contribution (pe_contributions e)))]"

definition dump_evaluation :: "policy_evaluation \<Rightarrow> evaluation_column" where
  "dump_evaluation e = \<lparr>ec_members = obj (dump_members e), ec_evaluated_at = pe_evaluated_at e\<rparr>"

section \<open>Reading\<close>

text \<open>Strict types: a text is no number, and \<open>true\<close> is no integer.\<close>

fun strict_text :: "json \<Rightarrow> string option" where
  "strict_text (JStr s) = (if list_all (\<lambda>c. c < 256) s then Some (map char_of s) else None)"
| "strict_text _ = None"

fun strict_int :: "json \<Rightarrow> int option" where
  "strict_int (JInt i) = Some i"
| "strict_int _ = None"

fun strict_bool :: "json \<Rightarrow> bool option" where
  "strict_bool (JBool b) = Some b"
| "strict_bool _ = None"

fun strict_list :: "(json \<Rightarrow> 'a option) \<Rightarrow> json \<Rightarrow> 'a list option" where
  "strict_list item (JList xs) = all_some (map item xs)"
| "strict_list item _ = None"

definition strict_enum :: "('a \<Rightarrow> string) \<Rightarrow> 'a list \<Rightarrow> json \<Rightarrow> 'a option" where
  "strict_enum enum_value members j =
     Option.bind (strict_text j) (\<lambda>s. find (\<lambda>x. enum_value x = s) members)"

definition required :: "(json \<Rightarrow> 'a option) \<Rightarrow> json_object \<Rightarrow> string \<Rightarrow> 'a option" where
  "required item m k = Option.bind (jget m k) item"

definition defaulted :: "(json \<Rightarrow> 'a list option) \<Rightarrow> json_object \<Rightarrow> string \<Rightarrow> 'a list option" where
  "defaulted item m k = (case jget m k of None \<Rightarrow> Some [] | Some j \<Rightarrow> item j)"

text \<open>\<open>extra="forbid"\<close>\<close>

definition only_keys :: "string list \<Rightarrow> json_object \<Rightarrow> bool" where
  "only_keys ks m \<longleftrightarrow> list_all (\<lambda>kv. fst kv \<in> set (map u ks)) m"

fun parse_reason :: "json \<Rightarrow> policy_reason option" where
  "parse_reason (JObj m) =
     (if only_keys [''code'', ''explanation''] m then
        Option.bind (required strict_text m ''code'') (\<lambda>c.
        Option.bind (required strict_text m ''explanation'') (\<lambda>x.
          Some \<lparr>pr_code = c, pr_explanation = x\<rparr>))
      else None)"
| "parse_reason _ = None"

fun parse_contribution :: "json \<Rightarrow> policy_contribution option" where
  "parse_contribution (JObj m) =
     (if only_keys [''code'', ''contribution'', ''explanation''] m then
        Option.bind (required strict_text m ''code'') (\<lambda>c.
        Option.bind (required strict_int m ''contribution'') (\<lambda>n.
        Option.bind (required strict_text m ''explanation'') (\<lambda>x.
          Some \<lparr>pc_code = c, pc_contribution = n, pc_explanation = x\<rparr>)))
      else None)"
| "parse_contribution _ = None"

definition EVALUATION_FIELDS :: "string list" where
  "EVALUATION_FIELDS = [''policy_version'', ''policy_fingerprint'', ''risk_score'', ''risk_band'',
     ''decision'', ''release_eligible'', ''analysis_complete'', ''hard_block_reasons'',
     ''mandatory_quarantine_reasons'', ''compound_rules_triggered'', ''decision_reasons'',
     ''contributions'']"

definition parse_evaluation :: "evaluation_column \<Rightarrow> policy_evaluation option" where
  "parse_evaluation c =
     (let m = ec_members c in
      if \<not> only_keys EVALUATION_FIELDS m then None else
        Option.bind (required strict_text m ''policy_version'') (\<lambda>version.
        Option.bind (required strict_text m ''policy_fingerprint'') (\<lambda>fingerprint.
        Option.bind (required strict_int m ''risk_score'') (\<lambda>score.
        Option.bind (required (strict_enum risk_band_value [RB_LOW, RB_MODERATE, RB_HIGH, RB_CRITICAL]) m ''risk_band'') (\<lambda>band.
        Option.bind (required (strict_enum decision_value [ALLOW, REVIEW, QUARANTINE, BLOCK]) m ''decision'') (\<lambda>decision.
        Option.bind (required strict_bool m ''release_eligible'') (\<lambda>release.
        Option.bind (required strict_bool m ''analysis_complete'') (\<lambda>complete.
        Option.bind (defaulted (strict_list strict_text) m ''hard_block_reasons'') (\<lambda>hard.
        Option.bind (defaulted (strict_list strict_text) m ''mandatory_quarantine_reasons'') (\<lambda>mandatory.
        Option.bind (defaulted (strict_list strict_text) m ''compound_rules_triggered'') (\<lambda>compound.
        Option.bind (defaulted (strict_list parse_reason) m ''decision_reasons'') (\<lambda>reasons.
        Option.bind (defaulted (strict_list parse_contribution) m ''contributions'') (\<lambda>contributions.
          Some \<lparr>pe_policy_version = version, pe_policy_fingerprint = fingerprint, pe_risk_score = score,
            pe_risk_band = band, pe_decision = decision, pe_release_eligible = release,
            pe_analysis_complete = complete, pe_hard_block_reasons = hard,
            pe_mandatory_quarantine_reasons = mandatory, pe_compound_rules_triggered = compound,
            pe_decision_reasons = reasons, pe_contributions = contributions,
            pe_evaluated_at = ec_evaluated_at c\<rparr>)))))))))))))"

text \<open>\<open>None\<close> is the \<open>ValidationError\<close>, a \<open>ValueError\<close>.\<close>

definition validate_evaluation :: "evaluation_column \<Rightarrow> policy_evaluation option" where
  "validate_evaluation c = (case parse_evaluation c of None \<Rightarrow> None
     | Some e \<Rightarrow> if policy_evaluation_ok e then Some e else None)"

section \<open>The round trip\<close>

lemma strict_text_jtext [simp]: "strict_text (jtext s) = Some s"
proof -
  have "list_all (\<lambda>c. c < 256) (u s)" by (auto simp: u_def list_all_iff)
  moreover have "map char_of (u s) = s" by (simp add: u_def comp_def map_idI)
  ultimately show ?thesis by (simp add: jtext_def)
qed

lemma all_some_inverse: "(\<And>x. x \<in> set xs \<Longrightarrow> g (f x) = Some x) \<Longrightarrow> all_some (map g (map f xs)) = Some xs"
  by (induction xs) auto

lemma strict_codes [simp]: "strict_list strict_text (jcodes xs) = Some xs"
  by (simp add: jcodes_def all_some_inverse del: map_map)

lemma only_keys_obj: "set (map fst kvs) \<subseteq> set ks \<Longrightarrow> only_keys ks (obj kvs)"
  by (auto simp: only_keys_def obj_def list_all_iff image_iff)

lemma parse_dump_reason [simp]: "parse_reason (dump_reason r) = Some r"
  by (simp add: dump_reason_def required_def only_keys_obj)

lemma parse_dump_contribution [simp]: "parse_contribution (dump_contribution c) = Some c"
  by (simp add: dump_contribution_def required_def only_keys_obj)

lemma parse_risk_band [simp]:
  "strict_enum risk_band_value [RB_LOW, RB_MODERATE, RB_HIGH, RB_CRITICAL] (jtext (risk_band_value b)) = Some b"
  by (cases b) (simp_all add: strict_enum_def)

lemma parse_decision [simp]:
  "strict_enum decision_value [ALLOW, REVIEW, QUARANTINE, BLOCK] (jtext (decision_value d)) = Some d"
  by (cases d) (simp_all add: strict_enum_def)

lemma dump_get [simp]:
  "jget (ec_members (dump_evaluation e)) k = map_of (dump_members e) k"
  by (simp add: dump_evaluation_def)

theorem parse_dump: "parse_evaluation (dump_evaluation e) = Some e"
proof -
  have "only_keys EVALUATION_FIELDS (ec_members (dump_evaluation e))"
    by (simp add: dump_evaluation_def only_keys_obj dump_members_def EVALUATION_FIELDS_def)
  then show ?thesis
    by (simp add: parse_evaluation_def Let_def required_def defaulted_def dump_members_def
        all_some_inverse del: map_map) (simp add: dump_evaluation_def)
qed

lemma validate_dump: "validate_evaluation (dump_evaluation e) = (if policy_evaluation_ok e then Some e else None)"
  by (simp add: validate_evaluation_def parse_dump)

lemma dump_inject [simp]: "dump_evaluation e = dump_evaluation e' \<longleftrightarrow> e = e'"
  by (metis parse_dump option.inject)

text \<open>What reading rejects: a column whose members were changed so that they contradict one
  another, or that has a member the model does not know.\<close>

lemma validate_ok: "validate_evaluation c = Some e \<Longrightarrow> policy_evaluation_ok e"
  by (auto simp: validate_evaluation_def split: option.splits if_splits)

lemma validate_extra: "kv \<in> set (ec_members c) \<Longrightarrow> fst kv \<notin> set (map u EVALUATION_FIELDS) \<Longrightarrow> validate_evaluation c = None"
  by (auto simp: validate_evaluation_def parse_evaluation_def Let_def only_keys_def list_all_iff)

end
