(* ===== verification/World.thy ===== *)
theory World
  imports Policy_Properties Policy_Json
begin

text \<open>
  The persistent state the trusted services share: the rows of \<open>app/models/database.py\<close>
  with the constraints the schema declares, and the private object store, a map from an
  area of the storage root and a name to a file. What the services call and do not define
  (the clock, the random identifiers, SHA-256, the failures of the database and of the
  operating system, the resolution of symbolic links) is the record \<open>env\<close>, an argument of
  every operation; each call that may fail or that draws an identifier advances the tick
  that indexes it, so two calls never share an outcome.

  A database transaction is all or nothing. Its failures are of three kinds: the database
  rejects it, a constraint rejects it, or its commit is applied and the acknowledgement is
  lost, in which case the caller sees the same exception.
\<close>

section \<open>Exceptions\<close>

datatype exn =
    SQLAlchemyError | IntegrityError | OSError | ValueError | InvalidStorageKey
  | UploadTooLarge | EmptyUpload | ClientDisconnect | StorageFailure
  | DatabasePersistenceError | ScanNotFound | AuditPersistenceError
  | ArtifactNotFound | ArtifactUnavailable | ArtifactAuditUnavailable
  | ReconciliationLocked | KeyError | AssertionError
  | CredentialValidationError | AuthenticationPersistenceError | DuplicateOperatorError

text \<open>\<open>except SQLAlchemyError\<close> also catches the integrity errors, \<open>except ValueError\<close> its
  subclasses.\<close>

definition is_database_error :: "exn \<Rightarrow> bool" where
  "is_database_error e \<longleftrightarrow> e = SQLAlchemyError \<or> e = IntegrityError"

definition is_value_error :: "exn \<Rightarrow> bool" where
  "is_value_error e \<longleftrightarrow>
     e = ValueError \<or> e = InvalidStorageKey \<or> e = UploadTooLarge \<or> e = EmptyUpload \<or>
     e = CredentialValidationError"

section \<open>Rows\<close>

record finding_record =
  fr_code :: string
  fr_category :: string
  fr_severity :: severity
  fr_score_delta :: int
  fr_title :: string
  fr_description :: string
  fr_mitre_techniques :: "string list"
  fr_metadata :: json_object

record scan =
  sc_id :: string
  sc_original_filename :: ustring
  sc_display_filename :: ustring
  sc_storage_key :: string
  sc_origin :: scan_origin
  sc_parent_scan_id :: "string option"
  sc_sha256 :: string
  sc_size_bytes :: nat
  sc_claimed_extension :: "ustring option"
  sc_claimed_content_type :: "ustring option"
  sc_state :: scan_state
  sc_detected_type :: "string option"
  sc_detected_mime :: "ustring option"
  sc_analysis_error_code :: "string option"
  sc_risk_score :: "int option"
  sc_severity :: "risk_band option"
  sc_decision :: "decision option"
  sc_policy_version :: "string option"
  sc_policy_fingerprint :: "string option"
  sc_release_eligible :: bool
  sc_policy_evaluation :: "evaluation_column option"
  sc_analysis_metadata :: "json_object option"
  sc_worker_status :: string
  sc_analysis_duration_ms :: "int option"
  sc_analysis_started_at :: "instant option"
  sc_analysis_completed_at :: "instant option"
  sc_created_at :: instant
  sc_updated_at :: instant
  sc_findings :: "finding_record list"

record artifact =
  af_id :: string
  af_scan_id :: string
  af_artifact_type :: artifact_type
  af_storage_key :: string
  af_sha256 :: string
  af_derived_scan_id :: string
  af_size_bytes :: nat
  af_sanitizer_version :: string
  af_sanitizer_fingerprint :: string
  af_policy_version :: string
  af_policy_fingerprint :: string
  af_created_at :: instant

datatype audit_event_type =
    AUTH_LOGIN_SUCCESS | AUTH_LOGIN_FAILURE | AUTH_LOGOUT | SCAN_UPLOAD_REQUESTED
  | CDR_REQUESTED | ARTIFACT_DOWNLOADED | ARTIFACT_DOWNLOAD_DENIED | CDR_ELIGIBILITY_CHECKED
  | CDR_STARTED | CDR_RENDER_COMPLETED | CDR_RENDER_FAILED | CDR_DERIVED_SCAN_CREATED
  | CDR_RESCAN_COMPLETED | CDR_APPROVED | CDR_REJECTED | CDR_PROMOTION_FAILED
  | RECOVERY_STALE_SCAN_DETECTED | RECOVERY_STALE_SCAN_QUARANTINED | STORAGE_ORPHAN_DETECTED
  | ARTIFACT_INTEGRITY_FAILURE | TEMP_OBJECT_CLEANED

record audit_event =
  ev_id :: string
  ev_event_type :: audit_event_type
  ev_scan_id :: "string option"
  ev_artifact_id :: "string option"
  ev_actor_type :: audit_actor_type
  ev_actor_id :: "string option"
  ev_outcome :: audit_outcome
  ev_reason_code :: "string option"
  ev_details :: json_object
  ev_created_at :: instant

record db =
  db_scans :: "scan list"
  db_artifacts :: "artifact list"
  db_events :: "audit_event list"

section \<open>Tables\<close>

definition update_row :: "('r \<Rightarrow> string) \<Rightarrow> string \<Rightarrow> ('r \<Rightarrow> 'r) \<Rightarrow> 'r list \<Rightarrow> 'r list" where
  "update_row key k f rows = map (\<lambda>r. if key r = k then f r else r) rows"

definition has_key :: "('r \<Rightarrow> string) \<Rightarrow> string \<Rightarrow> 'r list \<Rightarrow> bool" where
  "has_key key k rows \<longleftrightarrow> list_ex (\<lambda>r. key r = k) rows"

lemma has_key_iff: "has_key key k rows \<longleftrightarrow> k \<in> key ` set rows"
  by (auto simp: has_key_def list_ex_iff)

text \<open>A table is a list of rows with a primary key that updates do not change.\<close>

locale table =
  fixes key :: "'r \<Rightarrow> string" and update :: "'u \<Rightarrow> 'r \<Rightarrow> 'r"
  assumes key_update: "key (update x r) = key r"
begin

lemma keys_update: "map key (update_row key k (update x) rows) = map key rows"
  by (simp add: update_row_def key_update)

lemma distinct_update:
  "distinct (map key rows) \<Longrightarrow> distinct (map key (update_row key k (update x) rows))"
  by (simp add: keys_update)

lemma distinct_insert:
  "distinct (map key rows) \<Longrightarrow> \<not> has_key key (key r) rows \<Longrightarrow> distinct (map key (rows @ [r]))"
  by (auto simp: has_key_iff)

lemma lookup_update:
  "lookup_row key (update_row key k (update x) rows) i =
     map_option (if i = k then update x else id) (lookup_row key rows i)"
  by (induction rows) (auto simp: lookup_row_def update_row_def key_update)

lemma lookup_insert:
  "lookup_row key (rows @ [r]) i =
     (case lookup_row key rows i of None \<Rightarrow> if key r = i then Some r else None | Some r' \<Rightarrow> Some r')"
  by (induction rows) (auto simp: lookup_row_def)

lemma lookup_has_key: "has_key key k rows \<longleftrightarrow> lookup_row key rows k \<noteq> None"
  by (induction rows) (auto simp: lookup_row_def has_key_def)

lemma set_update:
  "r \<in> set (update_row key k (update x) rows) \<Longrightarrow>
     \<exists>r'\<in>set rows. r = (if key r' = k then update x r' else r')"
  by (auto simp: update_row_def)

end

section \<open>The object store and the environment\<close>

datatype area = INCOMING | QUARANTINE_AREA | SANITIZED | WORK

type_synonym path = "area \<times> string"

text \<open>The mode of a file is its permission bits: \<open>0o400\<close> is 256, \<open>0o600\<close> is 384.\<close>

record stored_file =
  fl_bytes :: bytes
  fl_mode :: nat
  fl_regular :: bool
  fl_owned :: bool
  fl_links :: nat
  fl_mtime :: instant

datatype db_fault = DbOk | DbRejected | DbCommitLost

record env =
  env_clock :: "nat \<Rightarrow> instant"
  env_fresh :: "nat \<Rightarrow> string"
  env_token :: "nat \<Rightarrow> string"
  env_db :: "nat \<Rightarrow> db_fault"
  env_io :: "nat \<Rightarrow> bool"
  env_sha256 :: "bytes \<Rightarrow> string"
  env_contained :: "path \<Rightarrow> bool"

record world =
  w_db :: db
  w_files :: "path \<rightharpoonup> stored_file"
  w_tick :: nat

definition tickE :: "(world, exn, nat) prog" where
  "tickE w = (Inr (w_tick w), w\<lparr>w_tick := Suc (w_tick w)\<rparr>)"

text \<open>\<open>secrets.token_hex(16)\<close>, \<open>secrets.token_hex(8)\<close> and \<open>datetime.now(UTC)\<close>.\<close>

definition new_id :: "env \<Rightarrow> (world, exn, string) prog" where
  "new_id env = bindE tickE (\<lambda>k. returnE (env_fresh env k))"

definition new_token :: "env \<Rightarrow> (world, exn, string) prog" where
  "new_token env = bindE tickE (\<lambda>k. returnE (env_token env k))"

definition now :: "env \<Rightarrow> (world, exn, instant) prog" where
  "now env = bindE tickE (\<lambda>k. returnE (env_clock env k))"

text \<open>A call of the operating system that may raise \<open>OSError\<close>.\<close>

definition os_call :: "env \<Rightarrow> (world, exn, unit) prog" where
  "os_call env = bindE tickE (\<lambda>k. unlessE (\<not> env_io env k) OSError)"

definition set_file :: "path \<Rightarrow> stored_file option \<Rightarrow> world \<Rightarrow> world" where
  "set_file p f w = w\<lparr>w_files := (w_files w)(p := f)\<rparr>"

section \<open>Transactions\<close>

text \<open>\<open>with sessions.begin() as session\<close>: the body runs on the database alone and its effects
  are kept only when it ends without an exception and the commit is applied.\<close>

definition transaction :: "env \<Rightarrow> (db, exn, 'a) prog \<Rightarrow> (world, exn, 'a) prog" where
  "transaction env m w =
     (let k = w_tick w; w1 = w\<lparr>w_tick := Suc k\<rparr> in
      if env_db env k = DbRejected then (Inl SQLAlchemyError, w1)
      else case m (w_db w) of
        (Inl e, d) \<Rightarrow> (Inl e, w1)
      | (Inr x, d) \<Rightarrow> (if env_db env k = DbCommitLost then Inl SQLAlchemyError else Inr x,
                       w1\<lparr>w_db := d\<rparr>))"

text \<open>\<open>with sessions() as session\<close>: a session that only reads.\<close>

definition query :: "env \<Rightarrow> (db, exn, 'a) prog \<Rightarrow> (world, exn, 'a) prog" where
  "query env m w =
     (let k = w_tick w; w1 = w\<lparr>w_tick := Suc k\<rparr> in
      if env_db env k = DbOk then (fst (m (w_db w)), w1) else (Inl SQLAlchemyError, w1))"

definition insert_scan :: "scan \<Rightarrow> (db, exn, unit) prog" where
  "insert_scan r = bindE (getE db_scans) (\<lambda>rows.
     bindE (unlessE (\<not> has_key sc_id (sc_id r) rows \<and>
              \<not> has_key sc_storage_key (sc_storage_key r) rows \<and>
              (case sc_parent_scan_id r of None \<Rightarrow> True | Some p \<Rightarrow> has_key sc_id p rows))
            IntegrityError) (\<lambda>_.
     modifyE (\<lambda>d. d\<lparr>db_scans := db_scans d @ [r]\<rparr>)))"

definition insert_artifact :: "artifact \<Rightarrow> (db, exn, unit) prog" where
  "insert_artifact r = bindE (getE id) (\<lambda>d.
     bindE (unlessE (\<not> has_key af_id (af_id r) (db_artifacts d) \<and>
              \<not> has_key af_storage_key (af_storage_key r) (db_artifacts d) \<and>
              \<not> list_ex (\<lambda>a. af_scan_id a = af_scan_id r \<and>
                   af_sanitizer_fingerprint a = af_sanitizer_fingerprint r) (db_artifacts d) \<and>
              has_key sc_id (af_scan_id r) (db_scans d) \<and>
              has_key sc_id (af_derived_scan_id r) (db_scans d))
            IntegrityError) (\<lambda>_.
     modifyE (\<lambda>d. d\<lparr>db_artifacts := db_artifacts d @ [r]\<rparr>)))"

definition insert_event :: "audit_event \<Rightarrow> (db, exn, unit) prog" where
  "insert_event r = bindE (getE id) (\<lambda>d.
     bindE (unlessE (\<not> has_key ev_id (ev_id r) (db_events d) \<and>
              (case ev_scan_id r of None \<Rightarrow> True | Some s \<Rightarrow> has_key sc_id s (db_scans d)) \<and>
              (case ev_artifact_id r of None \<Rightarrow> True | Some a \<Rightarrow> has_key af_id a (db_artifacts d)))
            IntegrityError) (\<lambda>_.
     modifyE (\<lambda>d. d\<lparr>db_events := db_events d @ [r]\<rparr>)))"

text \<open>\<open>select(Scan).where(Scan.id == i)\<close> with \<open>scalar_one_or_none\<close> and with \<open>scalar_one\<close>, whose
  \<open>NoResultFound\<close> is an \<open>SQLAlchemyError\<close>.\<close>

definition find_scan :: "string \<Rightarrow> db \<Rightarrow> scan option" where
  "find_scan i d = lookup_row sc_id (db_scans d) i"

definition select_scan :: "string \<Rightarrow> (db, exn, scan) prog" where
  "select_scan i = bindE (getE (find_scan i)) (\<lambda>r.
     case r of None \<Rightarrow> raiseE SQLAlchemyError | Some s \<Rightarrow> returnE s)"

definition update_scan :: "string \<Rightarrow> (scan \<Rightarrow> scan) \<Rightarrow> (db, exn, unit) prog" where
  "update_scan i f = modifyE (\<lambda>d. d\<lparr>db_scans := update_row sc_id i f (db_scans d)\<rparr>)"

subsection \<open>Reasoning about transactions\<close>

lemma keeps_tick [keeps_intro]: "(\<And>w k. I w \<Longrightarrow> I (w\<lparr>w_tick := k\<rparr>)) \<Longrightarrow> keeps I tickE"
  by (simp add: keeps_def tickE_def)

lemma keeps_new_id: "(\<And>w k. I w \<Longrightarrow> I (w\<lparr>w_tick := k\<rparr>)) \<Longrightarrow> keeps I (new_id env)"
  unfolding new_id_def by (intro keeps_intro) auto

lemma keeps_new_token: "(\<And>w k. I w \<Longrightarrow> I (w\<lparr>w_tick := k\<rparr>)) \<Longrightarrow> keeps I (new_token env)"
  unfolding new_token_def by (intro keeps_intro) auto

lemma keeps_now: "(\<And>w k. I w \<Longrightarrow> I (w\<lparr>w_tick := k\<rparr>)) \<Longrightarrow> keeps I (now env)"
  unfolding now_def by (intro keeps_intro) auto

lemma keeps_os_call: "(\<And>w k. I w \<Longrightarrow> I (w\<lparr>w_tick := k\<rparr>)) \<Longrightarrow> keeps I (os_call env)"
  unfolding os_call_def by (intro keeps_intro) auto

lemma transaction_keeps:
  assumes "keeps J m" and "\<And>w d k. I w \<Longrightarrow> J (w_db w) \<and> (J d \<longrightarrow> I (w\<lparr>w_tick := k, w_db := d\<rparr>))"
  shows "keeps I (transaction env m)"
proof -
  have tick: "I (w\<lparr>w_tick := k\<rparr>)" if "I w" for w k
    using assms(2) [OF that, of "w_db w" k] by simp
  have "I (snd (transaction env m w))" if w: "I w" for w
  proof -
    have "J (snd (m (w_db w)))" using keepsD [OF assms(1)] assms(2) [OF w] by blast
    then have "I (w\<lparr>w_tick := k, w_db := snd (m (w_db w))\<rparr>)" for k
      using assms(2) [OF w] by blast
    then show ?thesis
      using tick [OF w] by (auto simp: transaction_def Let_def split: prod.splits sum.splits)
  qed
  then show ?thesis by (simp add: keeps_def)
qed

lemma query_keeps: "(\<And>w k. I w \<Longrightarrow> I (w\<lparr>w_tick := k\<rparr>)) \<Longrightarrow> keeps I (query env m)"
  by (simp add: keeps_def query_def Let_def)

lemma transaction_files [simp]: "w_files (snd (transaction env m w)) = w_files w"
  by (simp add: transaction_def Let_def split: prod.splits sum.splits)

text \<open>A transaction that returns has committed what its body did; one that raises has
  either done nothing or committed without telling.\<close>

lemma transaction_InrD:
  assumes "transaction env m w = (Inr x, w')"
  shows "\<exists>d. m (w_db w) = (Inr x, d) \<and> w' = w\<lparr>w_tick := Suc (w_tick w), w_db := d\<rparr>"
  using assms by (auto simp: transaction_def Let_def split: prod.splits sum.splits if_splits)

lemma transaction_InlD:
  assumes "transaction env m w = (Inl e, w')"
  shows "w_db w' = w_db w \<or> (\<exists>x. m (w_db w) = (Inr x, w_db w') \<and> e = SQLAlchemyError)"
  using assms by (auto simp: transaction_def Let_def split: prod.splits sum.splits if_splits)

lemma query_InrD:
  "query env m w = (Inr x, w') \<Longrightarrow> fst (m (w_db w)) = Inr x \<and> w' = w\<lparr>w_tick := Suc (w_tick w)\<rparr>"
  by (auto simp: query_def Let_def split: if_splits)

lemma query_db [simp]: "w_db (snd (query env m w)) = w_db w" "w_files (snd (query env m w)) = w_files w"
  by (simp_all add: query_def Let_def)

section \<open>The schema\<close>

text \<open>What the constraints of the schema promise: primary keys and unique columns are
  unique, and every foreign key names an existing row.\<close>

definition schema_ok :: "db \<Rightarrow> bool" where
  "schema_ok d \<longleftrightarrow>
     distinct (map sc_id (db_scans d)) \<and> distinct (map sc_storage_key (db_scans d)) \<and>
     distinct (map af_id (db_artifacts d)) \<and> distinct (map af_storage_key (db_artifacts d)) \<and>
     distinct (map (\<lambda>a. (af_scan_id a, af_sanitizer_fingerprint a)) (db_artifacts d)) \<and>
     distinct (map ev_id (db_events d)) \<and>
     (\<forall>s\<in>set (db_scans d). \<forall>p. sc_parent_scan_id s = Some p \<longrightarrow> p \<in> sc_id ` set (db_scans d)) \<and>
     (\<forall>a\<in>set (db_artifacts d). af_scan_id a \<in> sc_id ` set (db_scans d) \<and>
        af_derived_scan_id a \<in> sc_id ` set (db_scans d)) \<and>
     (\<forall>e\<in>set (db_events d).
        (\<forall>s. ev_scan_id e = Some s \<longrightarrow> s \<in> sc_id ` set (db_scans d)) \<and>
        (\<forall>a. ev_artifact_id e = Some a \<longrightarrow> a \<in> af_id ` set (db_artifacts d)))"

lemma insert_scan_schema: "keeps schema_ok (insert_scan r)"
  unfolding keeps_def insert_scan_def
  by (auto simp: prog_defs has_key_iff schema_ok_def split: option.splits)

lemma insert_artifact_schema: "keeps schema_ok (insert_artifact r)"
  unfolding keeps_def insert_artifact_def
  by (auto simp: prog_defs has_key_iff schema_ok_def list_ex_iff)

lemma insert_event_schema: "keeps schema_ok (insert_event r)"
  unfolding keeps_def insert_event_def
  by (auto simp: prog_defs has_key_iff schema_ok_def split: option.splits)

text \<open>An update that leaves the keys alone keeps the schema.\<close>

lemma update_scan_schema:
  assumes "\<And>s. sc_id (f s) = sc_id s" "\<And>s. sc_storage_key (f s) = sc_storage_key s"
    "\<And>s. sc_parent_scan_id (f s) = sc_parent_scan_id s"
  shows "keeps schema_ok (update_scan i f)"
proof -
  have k: "map g (update_row sc_id i f rows) = map g rows" if "\<And>s. g (f s) = g s" for g :: "scan \<Rightarrow> 'b" and rows
    using that by (simp add: update_row_def)
  have s: "sc_id ` set (update_row sc_id i f rows) = sc_id ` set rows" for rows
    by (metis k [of sc_id, OF assms(1)] list.set_map)
  have p: "\<forall>s\<in>set (update_row sc_id i f rows). \<forall>p. sc_parent_scan_id s = Some p \<longrightarrow> p \<in> X"
    if "\<forall>s\<in>set rows. \<forall>p. sc_parent_scan_id s = Some p \<longrightarrow> p \<in> X" for rows X
    using that by (auto simp: update_row_def assms)
  show ?thesis
    unfolding keeps_def update_scan_def modifyE_def schema_ok_def
    by (simp add: k s assms) (intro allI impI, elim conjE, rule p)
qed

lemma schema_transaction:
  "keeps schema_ok m \<Longrightarrow> keeps (\<lambda>w. schema_ok (w_db w)) (transaction env m)"
  by (rule transaction_keeps) auto

section \<open>Running a program\<close>

lemma bind_run: "bindE m k w = (case m w of (Inl e, w') \<Rightarrow> (Inl e, w') | (Inr x, w') \<Rightarrow> k x w')"
  by (simp add: bindE_def)

lemma new_id_run: "new_id env w = (Inr (env_fresh env (w_tick w)), w\<lparr>w_tick := Suc (w_tick w)\<rparr>)"
  by (simp add: new_id_def tickE_def bindE_def returnE_def)

lemma now_run: "now env w = (Inr (env_clock env (w_tick w)), w\<lparr>w_tick := Suc (w_tick w)\<rparr>)"
  by (simp add: now_def tickE_def bindE_def returnE_def)

lemma new_token_run:
  "new_token env w = (Inr (env_token env (w_tick w)), w\<lparr>w_tick := Suc (w_tick w)\<rparr>)"
  by (simp add: new_token_def tickE_def bindE_def returnE_def)

lemma os_call_run: "os_call env w =
    (if env_io env (w_tick w) then Inl OSError else Inr (), w\<lparr>w_tick := Suc (w_tick w)\<rparr>)"
  by (simp add: os_call_def tickE_def bindE_def returnE_def unlessE_def raiseE_def)

lemmas runs = bind_run new_id_run new_token_run now_run os_call_run

text \<open>What a transaction does, in terms of what its body does.\<close>

lemma transaction_run:
  "transaction env m w =
     (let w1 = w\<lparr>w_tick := Suc (w_tick w)\<rparr>; r = m (w_db w) in
      if env_db env (w_tick w) = DbRejected then (Inl SQLAlchemyError, w1)
      else case fst r of
        Inl e \<Rightarrow> (Inl e, w1)
      | Inr x \<Rightarrow> (if env_db env (w_tick w) = DbCommitLost then Inl SQLAlchemyError else Inr x,
                   w1\<lparr>w_db := snd r\<rparr>))"
  by (auto simp: transaction_def Let_def split: prod.splits sum.splits)

lemma transaction_triple:
  assumes "triple P m Q (\<lambda>_ _. True)"
  shows "triple (\<lambda>w. P (w_db w)) (transaction env m) (\<lambda>x w. Q x (w_db w))
     (\<lambda>e w. P (w_db w) \<or> (\<exists>x. Q x (w_db w)))"
proof (rule tripleI)
  fix w e w' assume "P (w_db w)" "transaction env m w = (Inl e, w')"
  with triple_valueD [OF assms] show "P (w_db w') \<or> (\<exists>x. Q x (w_db w'))"
    by (auto dest!: transaction_InlD)
next
  fix w x w' assume "P (w_db w)" "transaction env m w = (Inr x, w')"
  with triple_valueD [OF assms] show "Q x (w_db w')" by (auto dest!: transaction_InrD)
qed

text \<open>A program that only advances the tick or changes files leaves a fact about the rows.\<close>

lemma keeps_db_triple:
  assumes "\<And>d. keeps (\<lambda>w. w_db w = d) m"
  shows "triple (\<lambda>w. P (w_db w)) m (\<lambda>_ w. P (w_db w)) (\<lambda>_ w. P (w_db w))"
proof -
  have "w_db (snd (m w)) = w_db w" for w using keepsD [OF assms] by blast
  then have "keeps (\<lambda>w. P (w_db w)) m" by (simp add: keeps_def)
  then show ?thesis by (simp only: keeps_triple)
qed

subsection \<open>A concrete environment\<close>

text \<open>An interpreter in which nothing fails, for concrete runs.\<close>

definition quiet_env :: env where
  "quiet_env = \<lparr>env_clock = int, env_fresh = (\<lambda>k. replicate (32 - k) CHR ''0'' @ replicate (min 32 k) CHR ''1''),
     env_token = (\<lambda>_. replicate 16 CHR ''a''), env_db = (\<lambda>_. DbOk), env_io = (\<lambda>_. False),
     env_sha256 = (\<lambda>b. replicate 63 CHR ''0'' @ (if length b = 2 then ''2'' else ''f'')),
     env_contained = (\<lambda>_. True)\<rparr>"

definition empty_db :: db where
  "empty_db = \<lparr>db_scans = [], db_artifacts = [], db_events = []\<rparr>"

definition empty_world :: world where
  "empty_world = \<lparr>w_db = empty_db, w_files = Map.empty, w_tick = 0\<rparr>"

end
