(* ===== verification/Audit_Trail.thy ===== *)
theory Audit_Trail
  imports World
begin

text \<open>
  The security audit of \<open>app/audit/service.py\<close>: the bounded details of an event and the
  append operation. The service has no update and no delete. Its clients rely on the
  contract \<open>audit_sink\<close>: an append touches nothing but the event log, only ever adds to
  it, and fails in two ways only.
\<close>

section \<open>Bounded details\<close>

definition MAX_AUDIT_DETAILS_BYTES :: nat where "MAX_AUDIT_DETAILS_BYTES = 4096"

text \<open>\<open>validate\<close> of \<open>_bounded_details\<close>; \<open>None\<close> is the \<open>ValueError\<close> it raises. A pair whose
  key is longer than 64 characters is dropped before its value is looked at.\<close>

fun bounded_value :: "nat \<Rightarrow> json \<Rightarrow> json option" where
  "bounded_value depth value =
     (if depth > 4 then None
      else case value of
        JStr s \<Rightarrow> if length s > 256 then None else Some (JStr s)
      | JList xs \<Rightarrow> if length xs > 32 then None
          else map_option JList (all_some (map (bounded_value (Suc depth)) xs))
      | JObj kvs \<Rightarrow> if length kvs > 32 then None
          else map_option JObj (all_some (map
            (\<lambda>kv. map_option (Pair (fst kv)) (bounded_value (Suc depth) (snd kv)))
            (filter (\<lambda>kv. length (fst kv) \<le> 64) kvs)))
      | v \<Rightarrow> Some v)"

declare bounded_value.simps [simp del]

definition details_fit :: "json_object \<Rightarrow> bool" where
  "details_fit validated = (case json_ascii_size (JObj validated) of None \<Rightarrow> False
     | Some n \<Rightarrow> n \<le> MAX_AUDIT_DETAILS_BYTES)"

definition bounded_details :: "json_object \<Rightarrow> json_object option" where
  "bounded_details details =
     (case bounded_value 0 (JObj details) of
        Some (JObj validated) \<Rightarrow>
          if details_fit validated then Some validated else None
      | _ \<Rightarrow> None)"

fun detail_within :: "nat \<Rightarrow> json \<Rightarrow> bool" where
  "detail_within depth value \<longleftrightarrow> depth \<le> 4 \<and>
     (case value of
        JStr s \<Rightarrow> length s \<le> 256
      | JList xs \<Rightarrow> length xs \<le> 32 \<and> list_all (detail_within (Suc depth)) xs
      | JObj kvs \<Rightarrow> length kvs \<le> 32 \<and>
          list_all (\<lambda>kv. length (fst kv) \<le> 64 \<and> detail_within (Suc depth) (snd kv)) kvs
      | _ \<Rightarrow> True)"

declare detail_within.simps [simp del]

lemma all_some_Some: "all_some xs = Some ys \<longleftrightarrow> xs = map Some ys"
proof (induction xs arbitrary: ys rule: all_some.induct)
  case (3 x xs)
  then show ?case by (cases ys) auto
qed auto

lemma map_eq_map_conv:
  "map f xs = map Some ys \<longleftrightarrow> length xs = length ys \<and> (\<forall>i<length xs. f (xs ! i) = Some (ys ! i))"
  by (auto simp: list_eq_iff_nth_eq)

text \<open>What \<open>validate\<close> lets through is within the bounds, and what is within the bounds goes
  through unchanged.\<close>

lemma bounded_value_within: "bounded_value depth v = Some v' \<Longrightarrow> detail_within depth v'"
proof (induction depth v arbitrary: v' rule: bounded_value.induct)
  case (1 depth v)
  have d: "depth \<le> 4" using "1.prems" by (simp add: bounded_value.simps [of depth] split: if_splits)
  show ?case
  proof (cases v)
    case (JList xs)
    with "1.prems" d obtain ys where ys: "v' = JList ys" "map (bounded_value (Suc depth)) xs = map Some ys"
      "length xs \<le> 32" by (auto simp: bounded_value.simps [of depth] all_some_Some split: if_splits)
    then have "detail_within (Suc depth) y" if "y \<in> set ys" for y
      using that "1.IH"(1) [OF _ JList] d by (auto simp: map_eq_map_conv in_set_conv_nth) (metis nth_mem)
    moreover have "length ys \<le> 32" using ys(2,3) by (metis length_map)
    ultimately show ?thesis using d ys(1) by (simp add: detail_within.simps [of depth] list_all_iff)
  next
    case (JObj kvs)
    let ?ks = "filter (\<lambda>kv. length (fst kv) \<le> 64) kvs"
    let ?f = "\<lambda>kv. map_option (Pair (fst kv)) (bounded_value (Suc depth) (snd kv))"
    from JObj "1.prems" d obtain ys where ys: "v' = JObj ys" "map ?f ?ks = map Some ys" "length kvs \<le> 32"
      by (auto simp: bounded_value.simps [of depth] all_some_Some split: if_splits)
    have "length (fst y) \<le> 64 \<and> detail_within (Suc depth) (snd y)" if "y \<in> set ys" for y
    proof -
      from that obtain i where i: "i < length ?ks" "y = ys ! i" "?f (?ks ! i) = Some (ys ! i)"
        using ys(2) by (auto simp: map_eq_map_conv in_set_conv_nth)
      then have k: "?ks ! i \<in> set ?ks" by (intro nth_mem)
      have "fst y = fst (?ks ! i)" "bounded_value (Suc depth) (snd (?ks ! i)) = Some (snd y)"
        using i(3) unfolding i(2) [symmetric] map_option_eq_Some by force+
      moreover have "length (fst (?ks ! i)) \<le> 64" using k unfolding set_filter by blast
      ultimately show ?thesis using "1.IH"(2) [OF _ JObj _ k] d ys(3) by simp
    qed
    moreover have "length ys \<le> 32"
      using map_eq_imp_length_eq [OF ys(2)] length_filter_le [of _ kvs] ys(3) order_trans
      by (metis (no_types, lifting))
    ultimately show ?thesis using d ys(1) by (simp add: detail_within.simps [of depth] list_all_iff)
  qed (use "1.prems" d in \<open>auto simp: bounded_value.simps [of depth] detail_within.simps [of depth]
        split: if_splits\<close>)
qed

lemma within_bounded_value: "detail_within depth v \<Longrightarrow> bounded_value depth v = Some v"
proof (induction depth v rule: bounded_value.induct)
  case (1 depth v)
  have d: "depth \<le> 4" using "1.prems" by (simp add: detail_within.simps [of depth])
  show ?case
  proof (cases v)
    case (JList xs)
    with "1.prems" have xs: "length xs \<le> 32" "\<forall>x\<in>set xs. detail_within (Suc depth) x"
      by (simp_all add: detail_within.simps [of depth] list_all_iff)
    have "map (bounded_value (Suc depth)) xs = map Some xs"
      using "1.IH"(1) [OF _ JList] xs d by simp
    with xs d JList show ?thesis by (simp add: bounded_value.simps [of depth] all_some_Some)
  next
    case (JObj kvs)
    with "1.prems" have kvs: "length kvs \<le> 32"
      "\<forall>kv\<in>set kvs. length (fst kv) \<le> 64 \<and> detail_within (Suc depth) (snd kv)"
      by (simp_all add: detail_within.simps [of depth] list_all_iff)
    then have f: "filter (\<lambda>kv. length (fst kv) \<le> 64) kvs = kvs" by (simp add: filter_id_conv)
    have "map (\<lambda>kv. map_option (Pair (fst kv)) (bounded_value (Suc depth) (snd kv))) kvs = map Some kvs"
      using "1.IH"(2) [OF _ JObj] kvs d f by simp
    with kvs d f JObj show ?thesis by (simp add: bounded_value.simps [of depth] all_some_Some)
  qed (use "1.prems" d in \<open>auto simp: bounded_value.simps [of depth] detail_within.simps [of depth]\<close>)
qed

text \<open>The details of an audit event are bounded whatever the caller passes: nested at most
  five levels, at most 32 members per list and object, strings of at most 256 and keys of
  at most 64 characters, at most 4096 bytes of JSON in all. Bounded details go through a
  second validation unchanged.\<close>

theorem audit_details_bounded:
  assumes "bounded_details details = Some bounded"
  shows "detail_within 0 (JObj bounded) \<and> details_fit bounded \<and> bounded_details bounded = Some bounded"
proof -
  from assms have b: "bounded_value 0 (JObj details) = Some (JObj bounded)"
    "details_fit bounded"
    by (auto simp: bounded_details_def split: option.splits json.splits if_splits)
  then have "detail_within 0 (JObj bounded)" by (auto dest: bounded_value_within)
  with b(2) show ?thesis by (simp add: bounded_details_def within_bounded_value)
qed

theorem audit_details_bounded_witness:
  "bounded_details (obj [(''derived_scan_id'', jtext ''ab''), (''n'', JList [JInt 1])]) \<noteq> None \<and>
   (\<exists>b. bounded_details (obj [(''derived_scan_id'', jtext ''ab''), (''n'', JList [JInt 1])]) = Some b \<and>
        detail_within 0 (JObj b))"
proof -
  have "bounded_details (obj [(''derived_scan_id'', jtext ''ab''), (''n'', JList [JInt 1])]) \<noteq> None"
    by code_simp
  then show ?thesis using audit_details_bounded by blast
qed

section \<open>Appending\<close>

record audit_request =
  aq_event_type :: audit_event_type
  aq_scan_id :: "string option"
  aq_outcome :: audit_outcome
  aq_reason_code :: "string option"
  aq_artifact_id :: "string option"
  aq_details :: json_object
  aq_actor_type :: audit_actor_type
  aq_actor_id :: "string option"

text \<open>The defaults of the keyword arguments of \<open>append\<close>.\<close>

definition audit_request_of ::
  "audit_event_type \<Rightarrow> string option \<Rightarrow> audit_outcome \<Rightarrow> audit_request" where
  "audit_request_of event_type scan_id outcome_value =
     \<lparr>aq_event_type = event_type, aq_scan_id = scan_id, aq_outcome = outcome_value,
      aq_reason_code = None, aq_artifact_id = None, aq_details = [], aq_actor_type = SYSTEM,
      aq_actor_id = None\<rparr>"

definition event_of :: "string \<Rightarrow> instant \<Rightarrow> audit_request \<Rightarrow> json_object \<Rightarrow> audit_event" where
  "event_of i t q bounded =
     \<lparr>ev_id = i, ev_event_type = aq_event_type q, ev_scan_id = aq_scan_id q,
      ev_artifact_id = aq_artifact_id q, ev_actor_type = aq_actor_type q,
      ev_actor_id = aq_actor_id q, ev_outcome = aq_outcome q, ev_reason_code = aq_reason_code q,
      ev_details = bounded, ev_created_at = t\<rparr>"

definition add_to_transaction ::
  "string \<Rightarrow> instant \<Rightarrow> audit_request \<Rightarrow> (db, exn, unit) prog" where
  "add_to_transaction i t q =
     (case bounded_details (aq_details q) of None \<Rightarrow> raiseE ValueError
      | Some bounded \<Rightarrow> insert_event (event_of i t q bounded))"

definition audit_append :: "env \<Rightarrow> audit_request \<Rightarrow> (world, exn, unit) prog" where
  "audit_append env q =
     bindE (new_id env) (\<lambda>i. bindE (now env) (\<lambda>t.
       catchE (transaction env (add_to_transaction i t q))
         (\<lambda>e. if is_database_error e then Some (raiseE AuditPersistenceError) else None)))"

section \<open>The contract of the audit log\<close>

locale audit_sink =
  fixes append :: "audit_request \<Rightarrow> (world, exn, unit) prog"
  assumes append_scans: "db_scans (w_db (snd (append q w))) = db_scans (w_db w)"
    and append_artifacts: "db_artifacts (w_db (snd (append q w))) = db_artifacts (w_db w)"
    and append_files: "w_files (snd (append q w)) = w_files w"
    and append_grows: "\<exists>es. db_events (w_db (snd (append q w))) = db_events (w_db w) @ es"
    and append_errors: "fst (append q w) = Inl e \<Longrightarrow> e = AuditPersistenceError \<or> e = ValueError"
    and append_schema: "schema_ok (w_db w) \<Longrightarrow> schema_ok (w_db (snd (append q w)))"
    and append_recorded: "fst (append q w) = Inr () \<Longrightarrow>
      \<exists>i t b. bounded_details (aq_details q) = Some b \<and>
        event_of i t q b \<in> set (db_events (w_db (snd (append q w))))"
begin

text \<open>Every fact about the scans, the artifacts and the files alone survives an append.\<close>

lemma append_keeps:
  assumes "\<And>w w'. db_scans (w_db w') = db_scans (w_db w) \<Longrightarrow>
    db_artifacts (w_db w') = db_artifacts (w_db w) \<Longrightarrow> w_files w' = w_files w \<Longrightarrow> I w \<Longrightarrow> I w'"
  shows "keeps I (append q)"
  unfolding keeps_def
  using assms append_scans append_artifacts append_files by blast

lemma events_never_shrink: "set (db_events (w_db w)) \<subseteq> set (db_events (w_db (snd (append q w))))"
  using append_grows [of q w] by auto

end

subsection \<open>The service provides it\<close>

lemma insert_event_effect:
  "insert_event r d = (x, d') \<Longrightarrow>
     (x = Inl IntegrityError \<and> d' = d) \<or> (x = Inr () \<and> d' = d\<lparr>db_events := db_events d @ [r]\<rparr>)"
  by (auto simp: insert_event_def prog_defs split: if_splits)

lemma add_to_transaction_effect:
  assumes "add_to_transaction i t q d = (x, d')"
  shows "(\<exists>e. x = Inl e \<and> (e = ValueError \<or> e = IntegrityError) \<and> d' = d) \<or>
    (\<exists>b. x = Inr () \<and> bounded_details (aq_details q) = Some b \<and>
       d' = d\<lparr>db_events := db_events d @ [event_of i t q b]\<rparr>)"
  using assms
  by (auto simp: add_to_transaction_def raiseE_def split: option.splits dest!: insert_event_effect)

lemma add_to_transaction_schema: "keeps schema_ok (add_to_transaction i t q)"
  unfolding add_to_transaction_def by (intro keeps_intro insert_event_schema)

text \<open>The three things an append can do: nothing, one event, or one event with a lost
  acknowledgement.\<close>

lemma audit_append_effect:
  assumes "audit_append env q w = (x, w')"
  shows "w_files w' = w_files w \<and>
    ((\<exists>e. x = Inl e \<and> (e = AuditPersistenceError \<or> e = ValueError) \<and> w_db w' = w_db w) \<or>
     (\<exists>i t b. bounded_details (aq_details q) = Some b \<and>
        w_db w' = (w_db w)\<lparr>db_events := db_events (w_db w) @ [event_of i t q b]\<rparr> \<and>
        (x = Inr () \<or> x = Inl AuditPersistenceError)))"
proof -
  let ?k = "w_tick w"
  let ?m = "add_to_transaction (env_fresh env ?k) (env_clock env (Suc ?k)) q"
  let ?f = "env_db env (Suc (Suc ?k))"
  obtain y d where m: "?m (w_db w) = (y, d)" by fastforce
  have run: "(x, w') =
    (if ?f = DbRejected then (Inl AuditPersistenceError, w\<lparr>w_tick := Suc (Suc (Suc ?k))\<rparr>)
     else case y of
       Inl e \<Rightarrow> (Inl (if is_database_error e then AuditPersistenceError else e),
                w\<lparr>w_tick := Suc (Suc (Suc ?k))\<rparr>)
     | Inr z \<Rightarrow> (if ?f = DbCommitLost then Inl AuditPersistenceError else Inr z,
                w\<lparr>w_tick := Suc (Suc (Suc ?k)), w_db := d\<rparr>))"
    unfolding assms [symmetric] audit_append_def
    by (cases y) (simp_all add: runs catchE_def transaction_run Let_def raiseE_def m
        is_database_error_def)
  from add_to_transaction_effect [OF m] show ?thesis
  proof (elim disjE exE conjE)
    fix e assume "y = Inl e" "e = ValueError" "d = w_db w"
    with run show ?thesis by (auto simp: is_database_error_def split: if_splits)
  next
    fix e assume "y = Inl e" "e = IntegrityError" "d = w_db w"
    with run show ?thesis by (auto simp: is_database_error_def split: if_splits)
  next
    fix b assume "y = Inr ()" "bounded_details (aq_details q) = Some b"
      "d = w_db w\<lparr>db_events := db_events (w_db w) @
        [event_of (env_fresh env ?k) (env_clock env (Suc ?k)) q b]\<rparr>"
    with run show ?thesis by (cases "?f = DbRejected"; cases "?f = DbCommitLost") auto
  qed
qed

interpretation audit_log: audit_sink "audit_append env" for env
proof
  fix q :: audit_request and w :: world
  obtain x w' where r: "audit_append env q w = (x, w')" by fastforce
  note eff = audit_append_effect [OF r]
  show "db_scans (w_db (snd (audit_append env q w))) = db_scans (w_db w)"
    "db_artifacts (w_db (snd (audit_append env q w))) = db_artifacts (w_db w)"
    "w_files (snd (audit_append env q w)) = w_files w"
    "\<exists>es. db_events (w_db (snd (audit_append env q w))) = db_events (w_db w) @ es"
    using r eff by auto
  show "fst (audit_append env q w) = Inl e \<Longrightarrow> e = AuditPersistenceError \<or> e = ValueError" for e
    using r eff by auto
  show "fst (audit_append env q w) = Inr () \<Longrightarrow>
      \<exists>i t b. bounded_details (aq_details q) = Some b \<and>
        event_of i t q b \<in> set (db_events (w_db (snd (audit_append env q w))))"
    using r eff by fastforce
  have "keeps (\<lambda>w. schema_ok (w_db w)) (audit_append env q)"
    unfolding audit_append_def
    by (intro keeps_intro keeps_new_id keeps_now schema_transaction add_to_transaction_schema)
      (auto split: if_splits intro: keeps_intro)
  then show "schema_ok (w_db w) \<Longrightarrow> schema_ok (w_db (snd (audit_append env q w)))"
    by (rule keepsD)
qed

end
