(* ===== verification/Storage.thy ===== *)
theory Storage
  imports Audit_Trail
begin

text \<open>
  The private object store: \<open>app/storage/paths.py\<close> (opaque keys, their resolution, the
  normalisation of display names) and \<open>app/storage/ingestion.py\<close> (streaming an upload into
  quarantine, private copies, the CDR temporary, verification). Every call of the
  operating system may fail; a descriptor is not part of the state, and closing one is
  not modelled. A write appends its data or fails.
\<close>

section \<open>Keys and names\<close>

definition validate_storage_key :: "string \<Rightarrow> (world, exn, string) prog" where
  "validate_storage_key key =
     bindE (unlessE (hex_digits 32 key) InvalidStorageKey) (\<lambda>_. returnE key)"

definition resolve :: "env \<Rightarrow> area \<Rightarrow> string \<Rightarrow> (world, exn, path) prog" where
  "resolve env a storage_key =
     bindE (validate_storage_key storage_key) (\<lambda>key.
     bindE (unlessE (env_contained env (a, key)) InvalidStorageKey) (\<lambda>_.
       returnE (a, key)))"

definition is_control :: "nat \<Rightarrow> bool" where
  "is_control c \<longleftrightarrow> c \<le> 31 \<or> c = 127"

definition BIDI_CONTROLS :: "nat list" where
  "BIDI_CONTROLS = [8206, 8207, 8234, 8235, 8236, 8237, 8238, 8294, 8295, 8296, 8297]"

definition normalize_display_filename :: "(ustring \<Rightarrow> ustring) \<Rightarrow> ustring \<Rightarrow> ustring" where
  "normalize_display_filename nfc filename =
     (let v1 = strip (filter (\<lambda>c. \<not> is_control c) (nfc filename));
          v2 = filter (\<lambda>c. c \<notin> set BIDI_CONTROLS) v1;
          v3 = replace_all 92 95 (replace_all 47 95 v2) in
      if v3 \<in> {[], u ''.'', u ''..''} then u ''unnamed-document'' else take 255 v3)"

text \<open>The name before it is cut: only harmless characters survive the filters.\<close>

definition display_char :: "nat \<Rightarrow> bool" where
  "display_char c \<longleftrightarrow> \<not> is_control c \<and> c \<notin> set BIDI_CONTROLS \<and> c \<noteq> 47 \<and> c \<noteq> 92"

lemma display_cases:
  obtains v where "list_all display_char v" "normalize_display_filename nfc filename =
      (if v \<in> {[], u ''.'', u ''..''} then u ''unnamed-document'' else take 255 v)"
proof -
  define v2 where "v2 = filter (\<lambda>c. c \<notin> set BIDI_CONTROLS) (strip (filter (\<lambda>c. \<not> is_control c) (nfc filename)))"
  define v where "v = replace_all 92 95 (replace_all 47 95 v2)"
  have "set (strip s) \<subseteq> set s" for s
    by (auto simp: strip_def dest!: set_dropWhileD)
  from this [of "filter (\<lambda>c. \<not> is_control c) (nfc filename)"]
  have v2: "display_char c" if "c \<in> set v2" "c \<noteq> 47" "c \<noteq> 92" for c
    using that unfolding v2_def display_char_def set_filter by blast
  have "display_char 95" by (simp add: display_char_def is_control_def BIDI_CONTROLS_def)
  moreover have "set v \<subseteq> (set v2 - {47, 92}) \<union> {95}" by (auto simp: v_def replace_all_def)
  ultimately have "list_all display_char v" unfolding list_all_iff using v2 by blast
  from that [OF this] show ?thesis
    by (simp add: normalize_display_filename_def Let_def v_def v2_def)
qed

lemma take_eq_short: "length s < n \<Longrightarrow> take n v = s \<longleftrightarrow> v = s"
  by (auto simp: min_def split: if_splits)

text \<open>Whatever the client calls the document, the display name is non-empty, has at most
  255 characters, none of them a control, a bidirectional control or a path separator,
  and is not a relative directory name.\<close>

theorem display_filename_safe:
  "let v = normalize_display_filename nfc filename in
     v \<noteq> [] \<and> length v \<le> 255 \<and> v \<noteq> u ''.'' \<and> v \<noteq> u ''..'' \<and> list_all display_char v"
proof -
  obtain v where v: "list_all display_char v" and n: "normalize_display_filename nfc filename =
      (if v \<in> {[], u ''.'', u ''..''} then u ''unnamed-document'' else take 255 v)"
    by (rule display_cases)
  have d: "list_all display_char (u ''unnamed-document'')"
    by (simp add: display_char_def u_def is_control_def BIDI_CONTROLS_def)
  show ?thesis
  proof (cases "v \<in> {[], u ''.'', u ''..''}")
    case True
    with n have "normalize_display_filename nfc filename = u ''unnamed-document''" by (simp only: if_True)
    with d show ?thesis by simp
  next
    case False
    with n have r: "normalize_display_filename nfc filename = take 255 v" by (simp only: if_False)
    have "take 255 v \<noteq> u ''.''" "take 255 v \<noteq> u ''..''" "take 255 v \<noteq> []"
      using False take_eq_short [of "u ''.''" 255 v] take_eq_short [of "u ''..''" 255 v] by auto
    moreover have "display_char c" if "c \<in> set (take 255 v)" for c
      using v in_set_takeD [OF that] by (simp add: list_all_iff)
    ultimately show ?thesis unfolding r Let_def list_all_iff by simp
  qed
qed

section \<open>File operations\<close>

definition STREAM_WRITE_CHUNK_BYTES :: nat where "STREAM_WRITE_CHUNK_BYTES = 65536"

definition private_file :: "bytes \<Rightarrow> nat \<Rightarrow> instant \<Rightarrow> stored_file" where
  "private_file content mode t = \<lparr>fl_bytes = content, fl_mode = mode, fl_regular = True,
     fl_owned = True, fl_links = 1, fl_mtime = t\<rparr>"

text \<open>\<open>os.open\<close> with \<open>O_CREAT | O_EXCL\<close> and mode \<open>0o600\<close>; \<open>os.write\<close>; \<open>chmod\<close>;
  \<open>os.replace\<close>; \<open>unlink(missing_ok=True)\<close>; \<open>os.fsync\<close>.\<close>

definition create_file :: "env \<Rightarrow> path \<Rightarrow> (world, exn, unit) prog" where
  "create_file env p =
     bindE (os_call env) (\<lambda>_. bindE (now env) (\<lambda>t. bindE (getE (\<lambda>w. w_files w p)) (\<lambda>f.
       bindE (unlessE (f = None) OSError) (\<lambda>_.
         modifyE (set_file p (Some (private_file [] 384 t)))))))"

definition with_file :: "env \<Rightarrow> path \<Rightarrow> (stored_file \<Rightarrow> stored_file) \<Rightarrow> (world, exn, unit) prog" where
  "with_file env p g =
     bindE (os_call env) (\<lambda>_. bindE (getE (\<lambda>w. w_files w p)) (\<lambda>f.
       case f of None \<Rightarrow> raiseE OSError | Some f \<Rightarrow> modifyE (set_file p (Some (g f)))))"

definition write_file :: "env \<Rightarrow> path \<Rightarrow> bytes \<Rightarrow> (world, exn, unit) prog" where
  "write_file env p data = with_file env p (\<lambda>f. f\<lparr>fl_bytes := fl_bytes f @ data\<rparr>)"

definition chmod_file :: "env \<Rightarrow> path \<Rightarrow> nat \<Rightarrow> (world, exn, unit) prog" where
  "chmod_file env p mode = with_file env p (\<lambda>f. f\<lparr>fl_mode := mode\<rparr>)"

definition replace_file :: "env \<Rightarrow> path \<Rightarrow> path \<Rightarrow> (world, exn, unit) prog" where
  "replace_file env p q =
     bindE (os_call env) (\<lambda>_. bindE (getE (\<lambda>w. w_files w p)) (\<lambda>f.
       case f of None \<Rightarrow> raiseE OSError
       | Some f \<Rightarrow> modifyE (\<lambda>w. set_file q (Some f) (set_file p None w))))"

definition unlink_file :: "env \<Rightarrow> path \<Rightarrow> (world, exn, unit) prog" where
  "unlink_file env p = bindE (os_call env) (\<lambda>_. modifyE (set_file p None))"

text \<open>\<open>_open_regular_read_only\<close>: what the descriptor will read.\<close>

definition open_regular_read_only :: "env \<Rightarrow> path \<Rightarrow> (world, exn, bytes) prog" where
  "open_regular_read_only env p =
     bindE (os_call env) (\<lambda>_. bindE (getE (\<lambda>w. w_files w p)) (\<lambda>f.
       case f of None \<Rightarrow> raiseE OSError
       | Some f \<Rightarrow> bindE (unlessE (fl_regular f) StorageFailure) (\<lambda>_. returnE (fl_bytes f))))"

text \<open>The pieces \<open>os.read(descriptor, STREAM_WRITE_CHUNK_BYTES)\<close> delivers, and the slices an
  uploaded chunk is cut into.\<close>

function pieces :: "bytes \<Rightarrow> bytes list" where
  "pieces data = (if data = [] then []
     else take STREAM_WRITE_CHUNK_BYTES data # pieces (drop STREAM_WRITE_CHUNK_BYTES data))"
  by pat_completeness auto
termination by (relation "measure length") (auto simp: STREAM_WRITE_CHUNK_BYTES_def)

declare pieces.simps [simp del]

lemma concat_pieces [simp]: "concat (pieces data) = data"
proof (induction data rule: pieces.induct)
  case (1 data)
  then show ?case by (cases "data = []") (simp_all add: pieces.simps [of data] pieces.simps [of "[]"])
qed

text \<open>\<open>_hash_descriptor\<close>: the loop over the pieces still to be read, with the size so far.\<close>

fun hash_pieces :: "env \<Rightarrow> nat \<Rightarrow> bytes list \<Rightarrow> nat \<Rightarrow> bytes \<Rightarrow> (world, exn, string \<times> nat) prog" where
  "hash_pieces env maximum_bytes [] size_bytes hashed =
     bindE (os_call env) (\<lambda>_. returnE (env_sha256 env hashed, size_bytes))"
| "hash_pieces env maximum_bytes (chunk # rest) size_bytes hashed =
     bindE (os_call env) (\<lambda>_.
       let size_bytes' = size_bytes + length chunk in
       bindE (unlessE (size_bytes' \<le> maximum_bytes) StorageFailure) (\<lambda>_.
         hash_pieces env maximum_bytes rest size_bytes' (hashed @ chunk)))"

definition hash_descriptor :: "env \<Rightarrow> nat \<Rightarrow> bytes \<Rightarrow> (world, exn, string \<times> nat) prog" where
  "hash_descriptor env maximum_bytes content = hash_pieces env maximum_bytes (pieces content) 0 []"

section \<open>Stored documents\<close>

record stored_document =
  sd_storage_key :: string
  sd_path :: path
  sd_sha256 :: string
  sd_size_bytes :: nat

definition wrap_os_error :: "exn \<Rightarrow> (world, exn, 'a) prog option" where
  "wrap_os_error e = (if e = OSError then Some (raiseE StorageFailure) else None)"

text \<open>The body of an upload as the server delivers it: chunks, possibly cut short by the
  client.\<close>

datatype stream_item = Chunk bytes | Disconnect

fun write_pieces ::
  "env \<Rightarrow> path \<Rightarrow> nat \<Rightarrow> bytes list \<Rightarrow> nat \<Rightarrow> bytes \<Rightarrow> (world, exn, nat \<times> bytes) prog" where
  "write_pieces env p maximum_bytes [] size_bytes hashed = returnE (size_bytes, hashed)"
| "write_pieces env p maximum_bytes (piece # rest) size_bytes hashed =
     (let size_bytes' = size_bytes + length piece in
      bindE (unlessE (size_bytes' \<le> maximum_bytes) UploadTooLarge) (\<lambda>_.
      bindE (write_file env p piece) (\<lambda>_.
        write_pieces env p maximum_bytes rest size_bytes' (hashed @ piece))))"

fun receive_stream ::
  "env \<Rightarrow> path \<Rightarrow> nat \<Rightarrow> stream_item list \<Rightarrow> nat \<Rightarrow> bytes \<Rightarrow> (world, exn, nat \<times> bytes) prog" where
  "receive_stream env p maximum_bytes [] size_bytes hashed = returnE (size_bytes, hashed)"
| "receive_stream env p maximum_bytes (Disconnect # rest) size_bytes hashed = raiseE ClientDisconnect"
| "receive_stream env p maximum_bytes (Chunk received # rest) size_bytes hashed =
     (if received = [] then receive_stream env p maximum_bytes rest size_bytes hashed
      else bindE (write_pieces env p maximum_bytes (pieces received) size_bytes hashed) (\<lambda>(n, h).
        receive_stream env p maximum_bytes rest n h))"

definition discard_partial :: "env \<Rightarrow> path \<Rightarrow> path \<Rightarrow> (world, exn, unit) prog" where
  "discard_partial env temporary_path final_path =
     bindE (unlink_file env temporary_path) (\<lambda>_. unlink_file env final_path)"

definition temporary_name :: "string \<Rightarrow> string \<Rightarrow> string" where
  "temporary_name key token = ''.'' @ key @ ''.'' @ token @ ''.part''"

definition finish_private :: "env \<Rightarrow> path \<Rightarrow> path \<Rightarrow> (world, exn, unit) prog" where
  "finish_private env temporary_path final_path =
     bindE (os_call env) (\<lambda>_. bindE (chmod_file env temporary_path 256) (\<lambda>_.
     bindE (replace_file env temporary_path final_path) (\<lambda>_. os_call env)))"

definition stream_document_to_quarantine ::
  "env \<Rightarrow> nat \<Rightarrow> stream_item list \<Rightarrow> (world, exn, stored_document) prog" where
  "stream_document_to_quarantine env maximum_bytes chunks =
     bindE (new_id env) (\<lambda>key.
     bindE (resolve env QUARANTINE_AREA key) (\<lambda>final_path.
     bindE (new_token env) (\<lambda>token.
     let temporary_path = (INCOMING, temporary_name key token) in
     on_errorE (catchE
       (bindE (create_file env temporary_path) (\<lambda>_.
        bindE (receive_stream env temporary_path maximum_bytes chunks 0 []) (\<lambda>(size_bytes, hashed).
        bindE (unlessE (size_bytes \<noteq> 0) EmptyUpload) (\<lambda>_.
        bindE (finish_private env temporary_path final_path) (\<lambda>_.
          returnE \<lparr>sd_storage_key = key, sd_path = final_path,
                   sd_sha256 = env_sha256 env hashed, sd_size_bytes = size_bytes\<rparr>)))))
       wrap_os_error) (discard_partial env temporary_path final_path))))"

fun copy_pieces ::
  "env \<Rightarrow> path \<Rightarrow> nat \<Rightarrow> bytes list \<Rightarrow> nat \<Rightarrow> bytes \<Rightarrow> (world, exn, nat \<times> bytes) prog" where
  "copy_pieces env p maximum_bytes [] size_bytes hashed =
     bindE (os_call env) (\<lambda>_. returnE (size_bytes, hashed))"
| "copy_pieces env p maximum_bytes (chunk # rest) size_bytes hashed =
     bindE (os_call env) (\<lambda>_.
       let size_bytes' = size_bytes + length chunk in
       bindE (unlessE (size_bytes' \<le> maximum_bytes) StorageFailure) (\<lambda>_.
       bindE (write_file env p chunk) (\<lambda>_.
         copy_pieces env p maximum_bytes rest size_bytes' (hashed @ chunk))))"

definition store_private_copy ::
  "env \<Rightarrow> path \<Rightarrow> area \<Rightarrow> nat \<Rightarrow> string \<Rightarrow> (world, exn, stored_document) prog" where
  "store_private_copy env source_path a maximum_bytes expected_sha256 =
     bindE (unlessE (a = QUARANTINE_AREA \<or> a = SANITIZED) ValueError) (\<lambda>_.
     bindE (new_id env) (\<lambda>key.
     bindE (resolve env a key) (\<lambda>final_path.
     bindE (new_token env) (\<lambda>token.
     let staging = (if a = QUARANTINE_AREA then INCOMING else WORK);
         temporary_path = (staging, temporary_name key token) in
     on_errorE (catchE
       (bindE (open_regular_read_only env source_path) (\<lambda>content.
        bindE (create_file env temporary_path) (\<lambda>_.
        bindE (copy_pieces env temporary_path maximum_bytes (pieces content) 0 [])
          (\<lambda>(size_bytes, hashed).
        let observed_sha256 = env_sha256 env hashed in
        bindE (unlessE (size_bytes \<noteq> 0 \<and> observed_sha256 = expected_sha256) StorageFailure) (\<lambda>_.
        bindE (finish_private env temporary_path final_path) (\<lambda>_.
          returnE \<lparr>sd_storage_key = key, sd_path = final_path,
                   sd_sha256 = observed_sha256, sd_size_bytes = size_bytes\<rparr>))))))
       wrap_os_error) (discard_partial env temporary_path final_path)))))"

definition remove_stored_document :: "env \<Rightarrow> stored_document \<Rightarrow> (world, exn, unit) prog" where
  "remove_stored_document env document = catchE (unlink_file env (sd_path document)) wrap_os_error"

text \<open>\<open>verify_private_document\<close>: a file that cannot be read or checked is not verified.\<close>

definition verify_private_document ::
  "env \<Rightarrow> path \<Rightarrow> string \<Rightarrow> nat \<Rightarrow> nat \<Rightarrow> (world, exn, bool) prog" where
  "verify_private_document env p expected_sha256 expected_size maximum_bytes =
     catchE
       (bindE (os_call env) (\<lambda>_. bindE (getE (\<lambda>w. w_files w p)) (\<lambda>f.
        case f of None \<Rightarrow> raiseE OSError | Some f \<Rightarrow>
          if fl_mode f \<noteq> 256 then returnE False
          else bindE (open_regular_read_only env p) (\<lambda>content.
            bindE (hash_descriptor env maximum_bytes content) (\<lambda>(observed_sha256, size_bytes).
              returnE (observed_sha256 = expected_sha256 \<and> size_bytes = expected_size))))))
       (\<lambda>e. if e = OSError \<or> e = StorageFailure then Some (returnE False) else None)"

section \<open>The CDR temporary\<close>

definition create_cdr_output :: "env \<Rightarrow> (world, exn, path) prog" where
  "create_cdr_output env =
     bindE (new_id env) (\<lambda>token. let p = (WORK, ''.cdr-'' @ token @ ''.part'') in
       bindE (catchE (create_file env p) wrap_os_error) (\<lambda>_. returnE p))"

definition finalize_cdr_output :: "env \<Rightarrow> path \<Rightarrow> nat \<Rightarrow> (world, exn, string \<times> nat) prog" where
  "finalize_cdr_output env p maximum_bytes = catchE
     (bindE (open_regular_read_only env p) (\<lambda>content.
      bindE (hash_descriptor env maximum_bytes content) (\<lambda>(digest, size_bytes).
      bindE (unlessE (size_bytes \<noteq> 0) StorageFailure) (\<lambda>_.
      bindE (os_call env) (\<lambda>_.
      bindE (chmod_file env p 256) (\<lambda>_. returnE (digest, size_bytes))))))) wrap_os_error"

definition remove_cdr_output :: "env \<Rightarrow> path \<Rightarrow> (world, exn, unit) prog" where
  "remove_cdr_output env p = catchE (unlink_file env p) wrap_os_error"

section \<open>What the operations touch\<close>

definition touches_only :: "path set \<Rightarrow> world \<Rightarrow> world \<Rightarrow> bool" where
  "touches_only S w0 w \<longleftrightarrow> w_db w = w_db w0 \<and> (\<forall>p. p \<notin> S \<longrightarrow> w_files w p = w_files w0 p)"

lemma touches_only_refl [simp]: "touches_only S w w"
  by (simp add: touches_only_def)

lemma touches_tick [simp]: "touches_only S w0 (w\<lparr>w_tick := k\<rparr>) = touches_only S w0 w"
  by (simp add: touches_only_def)

lemma touches_set_file: "p \<in> S \<Longrightarrow> touches_only S w0 w \<Longrightarrow> touches_only S w0 (set_file p f w)"
  by (auto simp: touches_only_def set_file_def)

lemma touches_calls [keeps_intro]:
  "keeps (touches_only S w0) (new_id env)" "keeps (touches_only S w0) (new_token env)"
  "keeps (touches_only S w0) (now env)" "keeps (touches_only S w0) (os_call env)"
  by (intro keeps_new_id keeps_new_token keeps_now keeps_os_call; simp)+

lemma touches_modify: "p \<in> S \<Longrightarrow> keeps (touches_only S w0) (modifyE (set_file p f))"
  by (intro keeps_modify touches_set_file)

lemma touches_with_file: "p \<in> S \<Longrightarrow> keeps (touches_only S w0) (with_file env p g)"
  unfolding with_file_def by (intro keeps_intro touches_modify)

lemma touches_file_ops:
  "p \<in> S \<Longrightarrow> keeps (touches_only S w0) (create_file env p)"
  "p \<in> S \<Longrightarrow> keeps (touches_only S w0) (write_file env p data)"
  "p \<in> S \<Longrightarrow> keeps (touches_only S w0) (chmod_file env p mode)"
  "p \<in> S \<Longrightarrow> keeps (touches_only S w0) (unlink_file env p)"
  "p \<in> S \<Longrightarrow> q \<in> S \<Longrightarrow> keeps (touches_only S w0) (replace_file env p q)"
  unfolding create_file_def write_file_def chmod_file_def unlink_file_def replace_file_def
  by (intro keeps_intro touches_with_file touches_modify keeps_modify touches_set_file; assumption)+

lemma touches_open [keeps_intro]: "keeps (touches_only S w0) (open_regular_read_only env p)"
  unfolding open_regular_read_only_def by (intro keeps_intro)

lemma touches_hash_pieces: "keeps (touches_only S w0) (hash_pieces env m ps n h)"
  by (induction ps arbitrary: n h) (auto simp: Let_def intro!: keeps_intro)

lemma touches_hash [keeps_intro]: "keeps (touches_only S w0) (hash_descriptor env m content)"
  unfolding hash_descriptor_def by (rule touches_hash_pieces)

lemma touches_write_pieces:
  "p \<in> S \<Longrightarrow> keeps (touches_only S w0) (write_pieces env p m ps n h)"
  by (induction ps arbitrary: n h) (auto simp: Let_def intro!: keeps_intro touches_file_ops)

lemma touches_copy_pieces:
  "p \<in> S \<Longrightarrow> keeps (touches_only S w0) (copy_pieces env p m ps n h)"
  by (induction ps arbitrary: n h) (auto simp: Let_def intro!: keeps_intro touches_file_ops)

lemma touches_receive:
  "p \<in> S \<Longrightarrow> keeps (touches_only S w0) (receive_stream env p m items n h)"
proof (induction items arbitrary: n h)
  case (Cons i items)
  then show ?case
    by (cases i) (auto intro!: keeps_intro touches_write_pieces)
qed (simp add: keeps_intro)

lemma touches_finish:
  "p \<in> S \<Longrightarrow> q \<in> S \<Longrightarrow> keeps (touches_only S w0) (finish_private env p q)"
  unfolding finish_private_def by (intro keeps_intro touches_file_ops)

lemma touches_resolve [keeps_intro]: "keeps (touches_only S w0) (resolve env a key)"
  unfolding resolve_def validate_storage_key_def by (intro keeps_intro)

text \<open>After a failure the two names are gone again, unless removing them failed too.\<close>

lemma unlink_triple:
  "triple (\<lambda>w. \<forall>p. p \<noteq> q \<longrightarrow> P p (w_files w p)) (unlink_file env q)
     (\<lambda>_ w. w_files w q = None \<and> (\<forall>p. p \<noteq> q \<longrightarrow> P p (w_files w p))) (\<lambda>e _. e = OSError)"
  by (auto simp: triple_def unlink_file_def runs modifyE_def set_file_def)

lemma discard_effect:
  assumes "touches_only {p, q} w0 w" "p \<noteq> q"
  shows "case discard_partial env p q w of
      (Inl e, w') \<Rightarrow> e = OSError
    | (Inr _, w') \<Rightarrow> w_db w' = w_db w0 \<and> w_files w' = (w_files w0)(p := None, q := None)"
  using assms
  by (auto simp: discard_partial_def unlink_file_def runs modifyE_def set_file_def touches_only_def
      fun_eq_iff)

lemma on_error_discard:
  assumes "on_errorE m (discard_partial env p q) w = (Inl e, w')"
    and "keeps (touches_only {p, q} w0) m" "touches_only {p, q} w0 w" "p \<noteq> q" "e \<noteq> OSError"
  shows "w_db w' = w_db w0 \<and> w_files w' = (w_files w0)(p := None, q := None)"
proof -
  obtain e' v where m: "m w = (Inl e', v)"
    using assms(1) by (auto simp: on_errorE_def split: prod.splits sum.splits)
  then have "touches_only {p, q} w0 v" using keepsD [OF assms(2,3)] by simp
  from discard_effect [OF this assms(4), of env] assms(1,5) m show ?thesis
    by (auto simp: on_errorE_def split: prod.splits sum.splits)
qed

section \<open>What is written\<close>

definition holds_private :: "path \<Rightarrow> bytes \<Rightarrow> nat \<Rightarrow> world \<Rightarrow> bool" where
  "holds_private p content mode w \<longleftrightarrow> (\<exists>t. w_files w p = Some (private_file content mode t))"

lemma holds_tick [simp]: "holds_private p c m (w\<lparr>w_tick := k\<rparr>) = holds_private p c m w"
  by (simp add: holds_private_def)

abbreviation any_error :: "exn \<Rightarrow> 'w \<Rightarrow> bool" where
  "any_error \<equiv> \<lambda>_ _. True"

lemma os_call_triple: "(\<And>w k. P w \<Longrightarrow> P (w\<lparr>w_tick := k\<rparr>)) \<Longrightarrow> triple P (os_call env) (\<lambda>_. P) any_error"
  by (simp add: triple_def os_call_run)

lemma create_triple: "triple P (create_file env p) (\<lambda>_. holds_private p [] 384) any_error"
  by (auto simp: triple_def create_file_def runs getE_def unlessE_def raiseE_def returnE_def
      modifyE_def set_file_def holds_private_def)

lemma write_triple:
  "triple (holds_private p c m) (write_file env p d) (\<lambda>_. holds_private p (c @ d) m) any_error"
  by (auto simp: triple_def write_file_def with_file_def runs getE_def raiseE_def modifyE_def
      set_file_def holds_private_def private_file_def split: option.splits)

lemma chmod_triple:
  "triple (holds_private p c m) (chmod_file env p m') (\<lambda>_. holds_private p c m') any_error"
  by (auto simp: triple_def chmod_file_def with_file_def runs getE_def raiseE_def modifyE_def
      set_file_def holds_private_def private_file_def split: option.splits)

lemma replace_triple:
  "p \<noteq> q \<Longrightarrow> triple (holds_private p c m) (replace_file env p q)
     (\<lambda>_ w. holds_private q c m w \<and> w_files w p = None) any_error"
  by (auto simp: triple_def replace_file_def runs getE_def raiseE_def modifyE_def
      set_file_def holds_private_def split: option.splits)

lemma finish_triple:
  assumes "p \<noteq> q"
  shows "triple (holds_private p c m) (finish_private env p q)
     (\<lambda>_ w. holds_private q c 256 w \<and> w_files w p = None) any_error"
  unfolding finish_private_def
  by (rule triple_bind [OF os_call_triple], simp, rule triple_bind [OF chmod_triple],
      rule triple_bind [OF replace_triple [OF assms]], rule os_call_triple, simp)

text \<open>The loops: the running size is the length of what was hashed, what was hashed is what
  the file holds, and the size never exceeds the maximum.\<close>

definition copied :: "path \<Rightarrow> nat \<Rightarrow> bytes \<Rightarrow> nat \<times> bytes \<Rightarrow> world \<Rightarrow> bool" where
  "copied p maximum content r w \<longleftrightarrow> (case r of (n, h) \<Rightarrow>
     h = content \<and> n = length content \<and> n \<le> maximum \<and> holds_private p content 384 w)"

lemma copied_tick [simp]: "copied p m c r (w\<lparr>w_tick := k\<rparr>) = copied p m c r w"
  by (simp add: copied_def split: prod.split)

lemma write_copied:
  "triple (\<lambda>w. copied p m c (n, h) w \<and> n + length x \<le> m) (write_file env p x)
     (\<lambda>_. copied p m (c @ x) (n + length x, h @ x)) any_error"
  by (rule tripleI) (auto simp: copied_def dest: triple_valueD [OF write_triple])

lemma size_checked:
  "triple (copied p m c (n, h)) (unlessE (n + length x \<le> m) e)
     (\<lambda>_ w. copied p m c (n, h) w \<and> n + length x \<le> m) any_error"
  by (rule triple_unless) simp_all

lemma write_pieces_triple:
  "triple (copied p m c (n, h)) (write_pieces env p m ps n h) (copied p m (c @ concat ps)) any_error"
proof (induction ps arbitrary: n h c)
  case (Cons x ps)
  from Cons.IH [of "c @ x"] show ?case
    by (simp add: Let_def) (rule triple_bind [OF size_checked triple_bind [OF write_copied]])
qed (simp add: triple_return)

fun stream_content :: "stream_item list \<Rightarrow> bytes" where
  "stream_content [] = []"
| "stream_content (Disconnect # rest) = stream_content rest"
| "stream_content (Chunk c # rest) = c @ stream_content rest"

lemma receive_triple:
  "triple (copied p m c (n, h)) (receive_stream env p m items n h)
     (\<lambda>r w. copied p m (c @ stream_content items) r w \<and> Disconnect \<notin> set items) any_error"
proof (induction items arbitrary: n h c)
  case (Cons i items)
  show ?case
  proof (cases i)
    case (Chunk d)
    have "triple (copied p m c (n, h))
       (bindE (write_pieces env p m (pieces d) n h) (\<lambda>(n, h). receive_stream env p m items n h))
       (\<lambda>r w. copied p m ((c @ d) @ stream_content items) r w \<and> Disconnect \<notin> set items) any_error"
    proof (rule triple_bind)
      show "triple (copied p m c (n, h)) (write_pieces env p m (pieces d) n h) (copied p m (c @ d)) any_error"
        using write_pieces_triple [of p m c n h env "pieces d"] by simp
      show "triple (copied p m (c @ d) x) (case x of (n, h) \<Rightarrow> receive_stream env p m items n h)
         (\<lambda>r w. copied p m ((c @ d) @ stream_content items) r w \<and> Disconnect \<notin> set items) any_error" for x
        using Cons.IH [of "c @ d"] by (cases x) simp
    qed
    then show ?thesis using Chunk Cons.IH [of c n h] by simp
  qed (simp add: triple_raise)
qed (simp add: triple_return)

lemma copy_pieces_triple:
  "triple (copied p m c (n, h)) (copy_pieces env p m ps n h) (copied p m (c @ concat ps)) any_error"
proof (induction ps arbitrary: n h c)
  case Nil
  then show ?case
    by simp (rule triple_bind [OF os_call_triple], auto intro: triple_return)
next
  case (Cons x ps)
  from Cons.IH [of "c @ x"] show ?case
    by (simp add: Let_def) (rule triple_bind [OF os_call_triple], simp,
        rule triple_bind [OF size_checked triple_bind [OF write_copied]])
qed

section \<open>Storing, verifying, failing\<close>

lemma wrap_os_errorD: "wrap_os_error e = Some k \<Longrightarrow> k = raiseE StorageFailure"
  by (auto simp: wrap_os_error_def split: if_splits)

lemma touches_wrap: "keeps (touches_only S w0) m \<Longrightarrow> keeps (touches_only S w0) (catchE m wrap_os_error)"
  by (intro keeps_intro) (auto dest: wrap_os_errorD intro: keeps_intro)

lemma triple_wrap: "triple P m Q any_error \<Longrightarrow> triple P (catchE m wrap_os_error) Q any_error"
  by (erule triple_catch) (auto dest!: wrap_os_errorD simp: triple_raise)

definition upload_body ::
  "env \<Rightarrow> nat \<Rightarrow> stream_item list \<Rightarrow> string \<Rightarrow> path \<Rightarrow> path \<Rightarrow> (world, exn, stored_document) prog" where
  "upload_body env m items key p q = catchE
     (bindE (create_file env p) (\<lambda>_.
      bindE (receive_stream env p m items 0 []) (\<lambda>(size_bytes, hashed).
      bindE (unlessE (size_bytes \<noteq> 0) EmptyUpload) (\<lambda>_.
      bindE (finish_private env p q) (\<lambda>_.
        returnE \<lparr>sd_storage_key = key, sd_path = q,
                 sd_sha256 = env_sha256 env hashed, sd_size_bytes = size_bytes\<rparr>))))) wrap_os_error"

lemma upload_body_touches:
  "keeps (touches_only {p, q} w0) (upload_body env m items key p q)"
  unfolding upload_body_def
  by (intro touches_wrap keeps_intro touches_file_ops touches_receive touches_finish) simp_all

definition stored :: "env \<Rightarrow> path \<Rightarrow> string \<Rightarrow> nat \<Rightarrow> bytes \<Rightarrow> stored_document \<Rightarrow> world \<Rightarrow> bool" where
  "stored env q key maximum content d w \<longleftrightarrow>
     d = \<lparr>sd_storage_key = key, sd_path = q, sd_sha256 = env_sha256 env content,
          sd_size_bytes = length content\<rparr> \<and>
     content \<noteq> [] \<and> length content \<le> maximum \<and> holds_private q content 256 w"

lemma upload_body_triple:
  assumes "p \<noteq> q"
  shows "triple (\<lambda>_. True) (upload_body env m items key p q)
    (\<lambda>d w. stored env q key m (stream_content items) d w \<and> w_files w p = None \<and>
       Disconnect \<notin> set items) any_error"
proof -
  let ?c = "stream_content items"
  let ?R = "\<lambda>r w. copied p m ?c r w \<and> Disconnect \<notin> set items"
  let ?doc = "\<lambda>n h. \<lparr>sd_storage_key = key, sd_path = q, sd_sha256 = env_sha256 env h, sd_size_bytes = n\<rparr>"
  let ?Q = "\<lambda>d w. stored env q key m ?c d w \<and> w_files w p = None \<and> Disconnect \<notin> set items"
  have fin: "triple (\<lambda>w. ?R (n, h) w \<and> n \<noteq> 0) (finish_private env p q)
      (\<lambda>_ w. ?Q (?doc n h) w) any_error" for n h
    by (rule tripleI) (auto simp: copied_def stored_def dest: triple_valueD [OF finish_triple [OF assms]])
  have tail: "triple (?R r) (case r of (n, h) \<Rightarrow> bindE (unlessE (n \<noteq> 0) EmptyUpload) (\<lambda>_.
      bindE (finish_private env p q) (\<lambda>_. returnE (?doc n h)))) ?Q any_error" for r
  proof (cases r)
    case (Pair n h)
    have "triple (?R (n, h)) (unlessE (n \<noteq> 0) EmptyUpload) (\<lambda>_ w. ?R (n, h) w \<and> n \<noteq> 0) any_error"
      by (rule triple_unless) simp_all
    then show ?thesis
      unfolding Pair prod.case
      by (rule triple_bind [OF _ triple_bind [OF fin]]) (rule triple_return)
  qed
  have recv: "triple (copied p m [] (0, [])) (receive_stream env p m items 0 []) ?R any_error"
    using receive_triple [of p m "[]" 0 "[]" env items] by simp
  have create: "triple (\<lambda>_. True) (create_file env p) (\<lambda>_. copied p m [] (0, [])) any_error"
    by (rule triple_weaken [OF create_triple]) (simp_all add: copied_def)
  show ?thesis
    unfolding upload_body_def
    by (rule triple_wrap [OF triple_bind [OF create triple_bind [OF recv tail]]])
qed

lemma stream_eq:
  "stream_document_to_quarantine env m items w =
     (let key = env_fresh env (w_tick w); v = w\<lparr>w_tick := Suc (w_tick w)\<rparr>;
          q = (QUARANTINE_AREA, key); p = (INCOMING, temporary_name key (env_token env (Suc (w_tick w)))) in
      if hex_digits 32 key \<and> env_contained env q
      then on_errorE (upload_body env m items key p q) (discard_partial env p q)
             (w\<lparr>w_tick := Suc (Suc (w_tick w))\<rparr>)
      else (Inl InvalidStorageKey, v))"
  by (simp add: stream_document_to_quarantine_def resolve_def validate_storage_key_def runs
      upload_body_def Let_def unlessE_def returnE_def raiseE_def)

lemma on_error_InrD: "on_errorE m f w = (Inr x, w') \<Longrightarrow> m w = (Inr x, w')"
  by (auto simp: on_errorE_def split: prod.splits sum.splits)

definition upload_names :: "env \<Rightarrow> world \<Rightarrow> path \<times> path" where
  "upload_names env w = (let key = env_fresh env (w_tick w) in
     ((INCOMING, temporary_name key (env_token env (Suc (w_tick w)))), (QUARANTINE_AREA, key)))"

text \<open>C14. An upload that is accepted was received whole, is not empty and within the configured
  maximum; the quarantined object is exactly the bytes received, in one read-only private
  file under an opaque key, the recorded digest and size are those of these bytes, the
  temporary is gone and no other file and no row has changed.\<close>

theorem upload_stored:
  assumes "stream_document_to_quarantine env maximum items w = (Inr doc, w')"
    and "upload_names env w = (temporary, final)"
  shows "Disconnect \<notin> set items \<and> hex_digits 32 (sd_storage_key doc) \<and>
    stored env final (sd_storage_key doc) maximum (stream_content items) doc w' \<and>
    w_files w' temporary = None \<and> touches_only {temporary, final} w w'"
proof -
  define key where "key = env_fresh env (w_tick w)"
  define p where "p = (INCOMING, temporary_name key (env_token env (Suc (w_tick w))))"
  define q where "q = (QUARANTINE_AREA, key)"
  let ?m = "upload_body env maximum items key p q" and ?v = "w\<lparr>w_tick := Suc (Suc (w_tick w))\<rparr>"
  have names: "temporary = p" "final = q"
    using assms(2) by (simp_all add: upload_names_def Let_def p_def q_def key_def)
  have hex: "hex_digits 32 key" and run: "?m ?v = (Inr doc, w')"
    using assms(1) unfolding stream_eq Let_def key_def [symmetric] p_def [symmetric] q_def [symmetric]
    by (auto split: if_splits dest: on_error_InrD)
  have "p \<noteq> q" by (simp add: p_def q_def)
  note r = triple_valueD [OF upload_body_triple [OF this] TrueI run]
  have "touches_only {p, q} w w'"
    using keepsD [OF upload_body_touches, of p q w ?v env maximum items key] run by simp
  with r hex show ?thesis by (simp add: names stored_def)
qed

lemma hash_pieces_Inr:
  "hash_pieces env m ps n h w = (Inr (d, k), w') \<Longrightarrow>
     d = env_sha256 env (h @ concat ps) \<and> k = n + length (concat ps) \<and> (n \<le> m \<longrightarrow> k \<le> m)"
proof (induction ps arbitrary: n h w)
  case (Cons x ps)
  then show ?case
    by (fastforce simp: runs Let_def unlessE_def raiseE_def returnE_def split: if_splits prod.splits sum.splits)
qed (auto simp: runs returnE_def split: if_splits prod.splits sum.splits)

lemma verify_InrD:
  assumes "verify_private_document env p sha size_bytes maximum w = (Inr True, w')"
  shows "\<exists>f. w_files w p = Some f \<and> fl_regular f \<and> fl_mode f = 256 \<and> env_sha256 env (fl_bytes f) = sha \<and>
    length (fl_bytes f) = size_bytes \<and> size_bytes \<le> maximum"
proof -
  let ?h = "\<lambda>e. if e = OSError \<or> e = StorageFailure then Some (returnE False) else None"
  have catch: "catchE m ?h v = (Inr True, v') \<Longrightarrow> m v = (Inr True, v')" for m :: "(world, exn, bool) prog" and v v'
    by (auto simp: catchE_def returnE_def split: prod.splits sum.splits if_splits)
  obtain f where f: "w_files w p = Some f" "fl_mode f = 256"
    and v: "bindE (open_regular_read_only env p) (\<lambda>content.
            bindE (hash_descriptor env maximum content) (\<lambda>(observed_sha256, n).
              returnE (observed_sha256 = sha \<and> n = size_bytes))) (w\<lparr>w_tick := Suc (w_tick w)\<rparr>) = (Inr True, w')"
    using catch [OF assms [unfolded verify_private_document_def]]
    by (auto simp: runs getE_def raiseE_def returnE_def split: if_splits option.splits)
  from v f(1) obtain d n v' where reg: "fl_regular f" and h: "hash_descriptor env maximum (fl_bytes f) v' = (Inr (d, n), w')"
      and eq: "d = sha" "n = size_bytes"
    by (auto simp: open_regular_read_only_def runs getE_def unlessE_def raiseE_def returnE_def
        split: if_splits prod.splits sum.splits)
  have "d = env_sha256 env (fl_bytes f) \<and> n = length (fl_bytes f) \<and> n \<le> maximum"
    using hash_pieces_Inr [OF h [unfolded hash_descriptor_def]] by simp
  with f reg eq show ?thesis by simp
qed

text \<open>C16. A document that verifies is there: a read-only regular file of exactly the recorded
  size, within the maximum, whose bytes have the recorded digest.\<close>

theorem verified_document_is_intact:
  assumes "verify_private_document env p sha size_bytes maximum w = (Inr True, w')"
  shows "\<exists>f. w_files w p = Some f \<and> fl_regular f \<and> fl_mode f = 256 \<and> env_sha256 env (fl_bytes f) = sha \<and>
    length (fl_bytes f) = size_bytes \<and> size_bytes \<le> maximum"
  using assms by (rule verify_InrD)

text \<open>C15. An upload that is refused leaves nothing behind: unless removing the partial files
  itself failed, no file that existed before has changed, no new one exists and no row has
  changed, wherever the stream was cut or the operating system failed.\<close>

theorem upload_refused_leaves_nothing:
  assumes "stream_document_to_quarantine env maximum items w = (Inl e, w')" "e \<noteq> OSError"
    and "upload_names env w = (temporary, final)"
    and "w_files w temporary = None" "w_files w final = None"
  shows "w_files w' = w_files w \<and> w_db w' = w_db w"
proof -
  define key where "key = env_fresh env (w_tick w)"
  define p where "p = (INCOMING, temporary_name key (env_token env (Suc (w_tick w))))"
  define q where "q = (QUARANTINE_AREA, key)"
  let ?m = "upload_body env maximum items key p q" and ?v = "w\<lparr>w_tick := Suc (Suc (w_tick w))\<rparr>"
  have names: "temporary = p" "final = q"
    using assms(3) by (simp_all add: upload_names_def Let_def p_def q_def key_def)
  have "w' = w\<lparr>w_tick := Suc (w_tick w)\<rparr> \<or> on_errorE ?m (discard_partial env p q) ?v = (Inl e, w')"
    using assms(1) unfolding stream_eq Let_def key_def [symmetric] p_def [symmetric] q_def [symmetric]
    by (auto split: if_splits)
  then show ?thesis
  proof
    assume run: "on_errorE ?m (discard_partial env p q) ?v = (Inl e, w')"
    have "w_db w' = w_db w \<and> w_files w' = (w_files w)(p := None, q := None)"
      by (rule on_error_discard [OF run upload_body_touches _ _ assms(2)]) (simp_all add: p_def q_def)
    then show ?thesis using assms(4,5) by (auto simp: names)
  qed simp
qed

lemmas run_files = runs getE_def unlessE_def raiseE_def returnE_def modifyE_def catchE_def on_errorE_def
  create_file_def write_file_def chmod_file_def with_file_def replace_file_def unlink_file_def
  open_regular_read_only_def hash_descriptor_def finish_private_def discard_partial_def
  wrap_os_error_def pieces.simps STREAM_WRITE_CHUNK_BYTES_def set_file_def private_file_def

definition sample_upload :: "(exn + stored_document) \<times> world" where
  "sample_upload = stream_document_to_quarantine quiet_env 100 [Chunk [37, 80]] empty_world"

lemma quiet_names: "upload_names quiet_env empty_world =
    ((INCOMING, temporary_name (replicate 32 CHR ''0'') (replicate 16 CHR ''a'')),
     (QUARANTINE_AREA, replicate 32 CHR ''0''))"
  by (simp add: upload_names_def quiet_env_def empty_world_def Let_def)

lemma sample_upload_run:
  "fst sample_upload = Inr \<lparr>sd_storage_key = replicate 32 CHR ''0'',
     sd_path = (QUARANTINE_AREA, replicate 32 CHR ''0''),
     sd_sha256 = replicate 63 CHR ''0'' @ ''2'', sd_size_bytes = 2\<rparr>"
proof -
  have "hex_digits 32 (replicate 32 CHR ''0'')" by code_simp
  then show ?thesis
    by (simp add: sample_upload_def stream_eq Let_def quiet_env_def empty_world_def upload_body_def
        run_files)
qed

theorem upload_stored_witness:
  "\<exists>doc w'. sample_upload = (Inr doc, w') \<and>
     stored quiet_env (QUARANTINE_AREA, replicate 32 CHR ''0'') (sd_storage_key doc) 100 [37, 80] doc w'"
proof -
  obtain doc w' where run: "sample_upload = (Inr doc, w')"
    using sample_upload_run by (metis prod.collapse)
  have "stored quiet_env (QUARANTINE_AREA, replicate 32 CHR ''0'') (sd_storage_key doc) 100
      (stream_content [Chunk [37, 80]]) doc w'"
    using upload_stored [OF run [unfolded sample_upload_def] quiet_names] by blast
  with run show ?thesis by auto
qed

theorem verified_document_is_intact_witness:
  "\<exists>p sha n w w'. verify_private_document quiet_env p sha n 100 w = (Inr True, w') \<and>
     (\<exists>f. w_files w p = Some f \<and> env_sha256 quiet_env (fl_bytes f) = sha)"
proof -
  let ?w = "empty_world\<lparr>w_files := [(SANITIZED, ''k'') \<mapsto> private_file [37, 80] 256 0]\<rparr>"
  let ?sha = "env_sha256 quiet_env [37, 80]"
  have "fst (verify_private_document quiet_env (SANITIZED, ''k'') ?sha 2 100 ?w) = Inr True"
    by (simp add: verify_private_document_def quiet_env_def run_files)
  then obtain w' where "verify_private_document quiet_env (SANITIZED, ''k'') ?sha 2 100 ?w = (Inr True, w')"
    by (metis prod.collapse)
  with verified_document_is_intact [OF this] show ?thesis by blast
qed

theorem upload_refused_leaves_nothing_witness:
  "\<exists>w'. stream_document_to_quarantine quiet_env 1 [Chunk [37, 80]] empty_world = (Inl UploadTooLarge, w') \<and>
     w_files w' = w_files empty_world"
proof -
  have "hex_digits 32 (replicate 32 CHR ''0'')" by code_simp
  then have "fst (stream_document_to_quarantine quiet_env 1 [Chunk [37, 80]] empty_world) = Inl UploadTooLarge"
    by (simp add: stream_eq Let_def quiet_env_def empty_world_def upload_body_def run_files)
  then obtain w' where "stream_document_to_quarantine quiet_env 1 [Chunk [37, 80]] empty_world = (Inl UploadTooLarge, w')"
    by (metis prod.collapse)
  with upload_refused_leaves_nothing [OF this _ quiet_names] show ?thesis
    by (simp add: empty_world_def)
qed

section \<open>Private copies\<close>

definition copy_body ::
  "env \<Rightarrow> path \<Rightarrow> nat \<Rightarrow> string \<Rightarrow> string \<Rightarrow> path \<Rightarrow> path \<Rightarrow> (world, exn, stored_document) prog" where
  "copy_body env src m sha key p q = catchE
     (bindE (open_regular_read_only env src) (\<lambda>content.
      bindE (create_file env p) (\<lambda>_.
      bindE (copy_pieces env p m (pieces content) 0 []) (\<lambda>(size_bytes, hashed).
      let observed_sha256 = env_sha256 env hashed in
      bindE (unlessE (size_bytes \<noteq> 0 \<and> observed_sha256 = sha) StorageFailure) (\<lambda>_.
      bindE (finish_private env p q) (\<lambda>_.
        returnE \<lparr>sd_storage_key = key, sd_path = q,
                 sd_sha256 = observed_sha256, sd_size_bytes = size_bytes\<rparr>)))))) wrap_os_error"

lemma copy_body_touches: "keeps (touches_only {p, q} w0) (copy_body env src m sha key p q)"
  unfolding copy_body_def Let_def
  by (intro touches_wrap keeps_intro touches_file_ops touches_copy_pieces touches_finish) simp_all

lemma copy_body_triple:
  assumes "p \<noteq> q"
  shows "triple (\<lambda>w. w_files w src = f) (copy_body env src m sha key p q)
    (\<lambda>d w. \<exists>g. f = Some g \<and> fl_regular g \<and> env_sha256 env (fl_bytes g) = sha \<and>
       stored env q key m (fl_bytes g) d w) any_error"
proof -
  let ?doc = "\<lambda>n h. \<lparr>sd_storage_key = key, sd_path = q, sd_sha256 = env_sha256 env h, sd_size_bytes = n\<rparr>"
  let ?Q = "\<lambda>d w. \<exists>g. f = Some g \<and> fl_regular g \<and> env_sha256 env (fl_bytes g) = sha \<and>
       stored env q key m (fl_bytes g) d w"
  let ?opened = "\<lambda>c. \<exists>g. f = Some g \<and> fl_regular g \<and> fl_bytes g = c"
  let ?ok = "\<lambda>n h. n \<noteq> 0 \<and> env_sha256 env h = sha"
  have open_file: "triple (\<lambda>w. w_files w src = f) (open_regular_read_only env src) (\<lambda>c _. ?opened c) any_error"
    by (auto simp: triple_def open_regular_read_only_def runs getE_def unlessE_def returnE_def raiseE_def
        split: option.splits)
  have create: "triple (\<lambda>_. ?opened c) (create_file env p) (\<lambda>_ w. ?opened c \<and> copied p m [] (0, []) w) any_error" for c
    by (rule tripleI) (auto simp: copied_def dest: triple_valueD [OF create_triple])
  have copy: "triple (\<lambda>w. ?opened c \<and> copied p m [] (0, []) w) (copy_pieces env p m (pieces c) 0 [])
      (\<lambda>r w. ?opened c \<and> copied p m c r w) any_error" for c
    using triple_valueD [OF copy_pieces_triple [of p m "[]" 0 "[]" env "pieces c"]]
    by (intro tripleI) auto
  have fin: "triple (\<lambda>w. (?opened c \<and> copied p m c (n, h) w) \<and> ?ok n h) (finish_private env p q)
      (\<lambda>_ w. ?Q (?doc n h) w) any_error" for c n h
    by (rule tripleI) (auto simp: copied_def stored_def dest: triple_valueD [OF finish_triple [OF assms]])
  have tail: "triple (\<lambda>w. ?opened c \<and> copied p m c r w) (case r of (n, h) \<Rightarrow>
      let observed_sha256 = env_sha256 env h in
      bindE (unlessE (n \<noteq> 0 \<and> observed_sha256 = sha) StorageFailure) (\<lambda>_.
      bindE (finish_private env p q) (\<lambda>_. returnE \<lparr>sd_storage_key = key, sd_path = q,
                 sd_sha256 = observed_sha256, sd_size_bytes = n\<rparr>))) ?Q any_error" for c r
  proof (cases r)
    case (Pair n h)
    have "triple (\<lambda>w. ?opened c \<and> copied p m c (n, h) w) (unlessE (?ok n h) StorageFailure)
        (\<lambda>_ w. (?opened c \<and> copied p m c (n, h) w) \<and> ?ok n h) any_error"
      by (rule triple_unless) simp_all
    then show ?thesis
      unfolding Pair prod.case Let_def
      by (rule triple_bind [OF _ triple_bind [OF fin]]) (rule triple_return)
  qed
  show ?thesis
    unfolding copy_body_def
    by (rule triple_wrap [OF triple_bind [OF open_file triple_bind [OF create triple_bind [OF copy tail]]]])
qed

definition staging_area :: "area \<Rightarrow> area" where
  "staging_area a = (if a = QUARANTINE_AREA then INCOMING else WORK)"

lemma private_copy_eq:
  "store_private_copy env src a m sha w =
     (if a \<noteq> QUARANTINE_AREA \<and> a \<noteq> SANITIZED then (Inl ValueError, w) else
      let key = env_fresh env (w_tick w); q = (a, key);
          p = (staging_area a, temporary_name key (env_token env (Suc (w_tick w)))) in
      if hex_digits 32 key \<and> env_contained env q
      then on_errorE (copy_body env src m sha key p q) (discard_partial env p q)
             (w\<lparr>w_tick := Suc (Suc (w_tick w))\<rparr>)
      else (Inl InvalidStorageKey, w\<lparr>w_tick := Suc (w_tick w)\<rparr>))"
  by (simp add: store_private_copy_def resolve_def validate_storage_key_def runs staging_area_def
      copy_body_def Let_def unlessE_def returnE_def raiseE_def)

lemma private_copy_InrD:
  assumes "store_private_copy env src a m sha w = (Inr d, w')"
  obtains f p where "w_files w src = Some f" "fl_regular f" "env_sha256 env (fl_bytes f) = sha"
    "hex_digits 32 (sd_storage_key d)" "sd_storage_key d = env_fresh env (w_tick w)"
    "stored env (a, sd_storage_key d) (sd_storage_key d) m (fl_bytes f) d w'"
    "fst p = staging_area a" "touches_only {p, (a, sd_storage_key d)} w w'"
proof -
  define key where "key = env_fresh env (w_tick w)"
  define p where "p = (staging_area a, temporary_name key (env_token env (Suc (w_tick w))))"
  let ?m = "copy_body env src m sha key p (a, key)" and ?v = "w\<lparr>w_tick := Suc (Suc (w_tick w))\<rparr>"
  have hex: "hex_digits 32 key" and run: "?m ?v = (Inr d, w')" and a: "a = QUARANTINE_AREA \<or> a = SANITIZED"
    using assms unfolding private_copy_eq Let_def key_def [symmetric] p_def [symmetric]
    by (auto split: if_splits dest: on_error_InrD)
  have "p \<noteq> (a, key)" using a by (auto simp: p_def staging_area_def)
  then obtain f where f: "w_files w src = Some f" "fl_regular f" "env_sha256 env (fl_bytes f) = sha"
    and st: "stored env (a, key) key m (fl_bytes f) d w'"
    using triple_valueD [OF copy_body_triple _ run, of "w_files w src"] by auto
  have t: "touches_only {p, (a, key)} w w'"
    using keepsD [OF copy_body_touches, of p "(a, key)" w ?v env src m sha key] run by simp
  have k: "sd_storage_key d = key" using st by (simp add: stored_def)
  show thesis
    by (rule that [OF f, of p]) (simp_all add: k hex key_def [symmetric] st t, simp add: p_def)
qed

text \<open>The operations of the store never touch a row.\<close>

lemma touches_all [simp]: "touches_only UNIV w0 w \<longleftrightarrow> w_db w = w_db w0"
  by (simp add: touches_only_def)

lemma storage_keeps_db:
  "keeps (\<lambda>w. w_db w = d) (store_private_copy env src a m sha)"
  "keeps (\<lambda>w. w_db w = d) (remove_stored_document env doc)"
  "keeps (\<lambda>w. w_db w = d) (verify_private_document env p s n m)"
  "keeps (\<lambda>w. w_db w = d) (create_cdr_output env)"
  "keeps (\<lambda>w. w_db w = d) (finalize_cdr_output env p m)"
  "keeps (\<lambda>w. w_db w = d) (remove_cdr_output env p)"
  "keeps (\<lambda>w. w_db w = d) (stream_document_to_quarantine env m items)"
  "keeps (\<lambda>w. w_db w = d) (resolve env a key)"
proof -
  let ?I = "touches_only UNIV \<lparr>w_db = d, w_files = Map.empty, w_tick = 0\<rparr>"
  have I: "?I = (\<lambda>w. w_db w = d)" by (simp add: fun_eq_iff)
  have discard: "keeps ?I (discard_partial env p q)" for p q
    unfolding discard_partial_def by (intro keeps_intro touches_file_ops UNIV_I)
  have copy: "keeps ?I (copy_pieces env p m ps n h)" for p m ps n h
    by (rule touches_copy_pieces) simp
  have "keeps ?I (store_private_copy env src a m sha)"
    unfolding store_private_copy_def Let_def
    by (intro touches_wrap keeps_intro touches_file_ops copy discard touches_finish UNIV_I)
  moreover have "keeps ?I (remove_stored_document env doc)" "keeps ?I (remove_cdr_output env p)"
    unfolding remove_stored_document_def remove_cdr_output_def
    by (intro touches_wrap touches_file_ops UNIV_I)+
  moreover have "keeps ?I (verify_private_document env p s n m)"
    unfolding verify_private_document_def
    by (intro keeps_intro) (auto split: if_splits intro: keeps_intro)
  moreover have "keeps ?I (create_cdr_output env)" "keeps ?I (finalize_cdr_output env p m)"
    unfolding create_cdr_output_def finalize_cdr_output_def Let_def
    by (intro touches_wrap keeps_intro touches_file_ops UNIV_I)+
  moreover have "keeps ?I (stream_document_to_quarantine env m items)"
    unfolding stream_document_to_quarantine_def Let_def
    by (intro touches_wrap keeps_intro touches_file_ops touches_receive discard touches_finish UNIV_I)
  moreover have "keeps ?I (resolve env a key)" by (rule touches_resolve)
  ultimately show
    "keeps (\<lambda>w. w_db w = d) (store_private_copy env src a m sha)"
    "keeps (\<lambda>w. w_db w = d) (remove_stored_document env doc)"
    "keeps (\<lambda>w. w_db w = d) (verify_private_document env p s n m)"
    "keeps (\<lambda>w. w_db w = d) (create_cdr_output env)"
    "keeps (\<lambda>w. w_db w = d) (finalize_cdr_output env p m)"
    "keeps (\<lambda>w. w_db w = d) (remove_cdr_output env p)"
    "keeps (\<lambda>w. w_db w = d) (stream_document_to_quarantine env m items)"
    "keeps (\<lambda>w. w_db w = d) (resolve env a key)"
    by (simp_all only: I)
qed

end
