(* ===== verification/Orchestrator.thy ===== *)
theory Orchestrator
  imports Storage Complex_Main
begin

text \<open>
  The trusted orchestration of \<open>app/orchestrator/service.py\<close> and the request contract of
  \<open>app/orchestrator/contract.py\<close>. The isolated worker is the record \<open>backend\<close>: what
  its process printed and how it ended may be anything, and so may the value its output
  decodes to. The orchestrator validates it with the contract of \<open>Domain\<close> and turns every
  other case into an outcome without a result.
\<close>

section \<open>Requests\<close>

datatype worker_operation = ANALYZE | SANITIZE_PDF

record pdf_cdr_request_config =
  cc_sanitizer_version :: string
  cc_sanitizer_fingerprint :: string
  cc_dpi :: int
  cc_max_pages :: int
  cc_max_width_points :: rat
  cc_max_height_points :: rat
  cc_max_width_pixels :: int
  cc_max_height_pixels :: int
  cc_max_pixels_per_page :: int
  cc_max_total_pixels :: int
  cc_max_raster_bytes :: int
  cc_max_output_bytes :: int

definition cdr_config_ok :: "pdf_cdr_request_config \<Rightarrow> bool" where
  "cdr_config_ok c \<longleftrightarrow>
     1 \<le> length (cc_sanitizer_version c) \<and> length (cc_sanitizer_version c) \<le> 32 \<and>
     hex_digits 64 (cc_sanitizer_fingerprint c) \<and>
     72 \<le> cc_dpi c \<and> cc_dpi c \<le> 300 \<and> 1 \<le> cc_max_pages c \<and> cc_max_pages c \<le> 1000 \<and>
     0 < cc_max_width_points c \<and> cc_max_width_points c \<le> 10000 \<and>
     0 < cc_max_height_points c \<and> cc_max_height_points c \<le> 10000 \<and>
     1 \<le> cc_max_width_pixels c \<and> cc_max_width_pixels c \<le> 20000 \<and>
     1 \<le> cc_max_height_pixels c \<and> cc_max_height_pixels c \<le> 20000 \<and>
     1 \<le> cc_max_pixels_per_page c \<and> cc_max_pixels_per_page c \<le> 100000000 \<and>
     1 \<le> cc_max_total_pixels c \<and> cc_max_total_pixels c \<le> 1000000000 \<and>
     1 \<le> cc_max_raster_bytes c \<and> cc_max_raster_bytes c \<le> 3000000000 \<and>
     1 \<le> cc_max_output_bytes c \<and> cc_max_output_bytes c \<le> 1000000000"

record worker_request =
  wr_schema_version :: string
  wr_job_id :: string
  wr_sample_path :: ustring
  wr_original_filename :: ustring
  wr_claimed_content_type :: "ustring option"
  wr_operation :: worker_operation
  wr_cdr :: "pdf_cdr_request_config option"

text \<open>An absolute path starts with a slash.\<close>

definition is_absolute :: "ustring \<Rightarrow> bool" where
  "is_absolute p \<longleftrightarrow> starts_with [47] p"

definition worker_request_ok :: "worker_request \<Rightarrow> bool" where
  "worker_request_ok r \<longleftrightarrow>
     16 \<le> length (wr_job_id r) \<and> length (wr_job_id r) \<le> 128 \<and>
     list_all (\<lambda>c. c \<in> set ''0123456789abcdef'') (wr_job_id r) \<and>
     1 \<le> length (wr_sample_path r) \<and> length (wr_sample_path r) \<le> 4096 \<and>
     length (wr_original_filename r) \<le> 255 \<and>
     (case wr_claimed_content_type r of None \<Rightarrow> True | Some t \<Rightarrow> length t \<le> 255) \<and>
     (case wr_cdr r of None \<Rightarrow> True | Some c \<Rightarrow> cdr_config_ok c) \<and>
     wr_schema_version r = ANALYSIS_SCHEMA_VERSION \<and> is_absolute (wr_sample_path r) \<and>
     ((wr_operation r = SANITIZE_PDF) \<noteq> (wr_cdr r = None))"

section \<open>The isolated worker\<close>

record worker_execution =
  ex_stdout :: ustring
  ex_stderr :: ustring
  ex_exit_code :: "int option"
  ex_timed_out :: bool
  ex_output_limit_exceeded :: bool

text \<open>A \<open>None\<close> of \<open>be_execute\<close> and \<open>be_sanitize\<close> is an \<open>IsolationError\<close>; \<open>be_sanitize\<close> also says
  what the worker left in the output file. \<open>be_decode\<close> is the JSON decoding of
  \<open>model_validate_json\<close> into typed fields, before the checks of the model.\<close>

record 'cdr backend =
  be_path_text :: "path \<Rightarrow> ustring"
  be_execute :: "nat \<Rightarrow> worker_request \<Rightarrow> worker_execution option"
  be_sanitize :: "nat \<Rightarrow> worker_request \<Rightarrow> worker_execution option \<times> bytes"
  be_decode :: "ustring \<Rightarrow> analysis_result option"
  be_decode_cdr :: "ustring \<Rightarrow> 'cdr option"

section \<open>Analysis\<close>

datatype failure_code =
    ISOLATION_UNAVAILABLE | FC_TIMEOUT | NON_ZERO_EXIT | OUTPUT_LIMIT_EXCEEDED
  | MALFORMED_OUTPUT | WORKER_FAILED | FC_UNSUPPORTED

fun failure_value :: "failure_code \<Rightarrow> string" where
  "failure_value ISOLATION_UNAVAILABLE = ''isolation_unavailable''"
| "failure_value FC_TIMEOUT = ''timeout''"
| "failure_value NON_ZERO_EXIT = ''non_zero_exit''"
| "failure_value OUTPUT_LIMIT_EXCEEDED = ''output_limit_exceeded''"
| "failure_value MALFORMED_OUTPUT = ''malformed_output''"
| "failure_value WORKER_FAILED = ''worker_failed''"
| "failure_value FC_UNSUPPORTED = ''unsupported''"

record analysis_outcome =
  ao_job_id :: string
  ao_result :: "analysis_result option"
  ao_decision :: "decision option"
  ao_failure_code :: "failure_code option"

definition succeeded :: "analysis_outcome \<Rightarrow> bool" where
  "succeeded oc \<longleftrightarrow> (case ao_result oc of None \<Rightarrow> False | Some r \<Rightarrow> ar_status r = AS_SUCCESS)"

definition quarantined :: "string \<Rightarrow> failure_code \<Rightarrow> analysis_outcome" where
  "quarantined job_id code = \<lparr>ao_job_id = job_id, ao_result = None,
     ao_decision = Some QUARANTINE, ao_failure_code = Some code\<rparr>"

definition prepare_job ::
  "env \<Rightarrow> 'cdr backend \<Rightarrow> path \<Rightarrow> ustring \<Rightarrow> ustring option \<Rightarrow> (world, exn, worker_request) prog" where
  "prepare_job env be sample_path original_filename claimed_content_type =
     bindE (unlessE (is_absolute (be_path_text be sample_path)) ValueError) (\<lambda>_.
     bindE (new_id env) (\<lambda>job_id.
       let r = \<lparr>wr_schema_version = ANALYSIS_SCHEMA_VERSION, wr_job_id = job_id,
             wr_sample_path = be_path_text be sample_path, wr_original_filename = original_filename,
             wr_claimed_content_type = claimed_content_type, wr_operation = ANALYZE, wr_cdr = None\<rparr> in
       bindE (unlessE (worker_request_ok r) ValueError) (\<lambda>_. returnE r)))"

text \<open>What the parent makes of one execution.\<close>

definition judge_execution ::
  "(ustring \<Rightarrow> analysis_result option) \<Rightarrow> string \<Rightarrow> worker_execution option \<Rightarrow> analysis_outcome" where
  "judge_execution decode job_id execution =
     (case execution of None \<Rightarrow> quarantined job_id ISOLATION_UNAVAILABLE
      | Some x \<Rightarrow>
        if ex_timed_out x then quarantined job_id FC_TIMEOUT
        else if ex_output_limit_exceeded x then quarantined job_id OUTPUT_LIMIT_EXCEEDED
        else if ex_exit_code x \<noteq> Some 0 then quarantined job_id NON_ZERO_EXIT
        else case decode (ex_stdout x) of None \<Rightarrow> quarantined job_id MALFORMED_OUTPUT
        | Some r \<Rightarrow>
          if \<not> analysis_result_ok r then quarantined job_id MALFORMED_OUTPUT
          else if ar_status r = AS_UNSUPPORTED then
            \<lparr>ao_job_id = job_id, ao_result = Some r, ao_decision = Some QUARANTINE,
             ao_failure_code = Some FC_UNSUPPORTED\<rparr>
          else if ar_status r \<noteq> AS_SUCCESS then
            \<lparr>ao_job_id = job_id, ao_result = Some r, ao_decision = Some QUARANTINE,
             ao_failure_code = Some WORKER_FAILED\<rparr>
          else \<lparr>ao_job_id = job_id, ao_result = Some r, ao_decision = None,
                ao_failure_code = None\<rparr>)"

definition analyze ::
  "env \<Rightarrow> 'cdr backend \<Rightarrow> path \<Rightarrow> ustring \<Rightarrow> ustring option \<Rightarrow> (world, exn, analysis_outcome) prog" where
  "analyze env be sample_path original_filename claimed_content_type =
     bindE (prepare_job env be sample_path original_filename claimed_content_type) (\<lambda>request.
     bindE tickE (\<lambda>k.
       returnE (judge_execution (be_decode be) (wr_job_id request) (be_execute be k request))))"

text \<open>What every caller of the orchestrator may rely on: a result has passed the contract, and
  an outcome without a failure code is a validated successful result.\<close>

definition outcome_ok :: "analysis_outcome \<Rightarrow> bool" where
  "outcome_ok oc \<longleftrightarrow>
     (\<forall>r. ao_result oc = Some r \<longrightarrow> analysis_result_ok r) \<and>
     (ao_failure_code oc = None \<longleftrightarrow> succeeded oc) \<and>
     (ao_decision oc = (if ao_failure_code oc = None then None else Some QUARANTINE))"

text \<open>The parent fails closed: however the worker's process ended and whatever it printed,
  the outcome either has a failure code and the decision to quarantine, or it is a
  successful result that has passed the whole contract; a result is never taken over
  unvalidated.\<close>

theorem judge_fails_closed:
  "outcome_ok (judge_execution decode job_id execution) \<and>
   (ao_failure_code (judge_execution decode job_id execution) = None \<longleftrightarrow>
      (\<exists>x r. execution = Some x \<and> \<not> ex_timed_out x \<and> \<not> ex_output_limit_exceeded x \<and>
         ex_exit_code x = Some 0 \<and> decode (ex_stdout x) = Some r \<and> analysis_result_ok r \<and>
         ar_status r = AS_SUCCESS))"
  by (cases execution; cases "decode (ex_stdout (the execution))")
    (simp_all add: judge_execution_def outcome_ok_def succeeded_def quarantined_def)

lemma judge_outcome_ok: "outcome_ok (judge_execution decode job_id execution)"
  by (cases execution; cases "decode (ex_stdout (the execution))")
    (simp_all add: judge_execution_def outcome_ok_def succeeded_def quarantined_def)

lemma analyze_outcome_ok: "analyze env be p f t w = (Inr oc, w') \<Longrightarrow> outcome_ok oc"
  by (auto simp: analyze_def bind_run tickE_def returnE_def judge_outcome_ok split: prod.splits sum.splits)

lemma analyze_keeps:
  "(\<And>w k. I w \<Longrightarrow> I (w\<lparr>w_tick := k\<rparr>)) \<Longrightarrow> keeps I (analyze env be p f t)"
  unfolding analyze_def prepare_job_def Let_def
  by (intro keeps_intro keeps_new_id keeps_tick) auto

end
