(* ===== verification/Scan_Service.thy ===== *)
theory Scan_Service
  imports Orchestrator
begin

text \<open>
  The persisted scan lifecycle of \<open>app/orchestrator/scan_service.py\<close>. A scan is
  registered (\<open>STORED\<close>), marked \<open>ANALYZING\<close>, analysed by the isolated worker outside any
  transaction, and then persisted with the evaluation of the policy engine in one
  transaction. \<open>scan_row_ok\<close> is what every row satisfies at every point of that life.
\<close>

section \<open>The claimed extension\<close>

text \<open>\<open>PurePath(n).suffix\<close> of a file name; \<open>casefold\<close> is a parameter.\<close>

definition path_suffix :: "ustring \<Rightarrow> ustring" where
  "path_suffix n =
     (let after = takeWhile (\<lambda>c. c \<noteq> 46) (rev n);
          stem_length = length n - length after - 1 in
      if 46 \<in> set n \<and> 0 < stem_length \<and> after \<noteq> [] then 46 # rev after else [])"

definition claimed_extension :: "(ustring \<Rightarrow> ustring) \<Rightarrow> ustring \<Rightarrow> ustring option" where
  "claimed_extension casefold filename =
     (let suffix = casefold (path_suffix (path_name (replace_all 92 47 filename))) in
      if suffix = [] \<or> length suffix > 32 then None
      else Some (dropWhile (\<lambda>c. c = 46) suffix))"

section \<open>The steps of a scan\<close>

record scan_request =
  sq_original_filename :: ustring
  sq_display_filename :: ustring
  sq_claimed_content_type :: "ustring option"
  sq_origin :: scan_origin
  sq_parent_scan_id :: "string option"

definition new_scan ::
  "(ustring \<Rightarrow> ustring) \<Rightarrow> string \<Rightarrow> instant \<Rightarrow> stored_document \<Rightarrow> scan_request \<Rightarrow> scan" where
  "new_scan casefold i t document q =
     \<lparr>sc_id = i, sc_original_filename = sq_original_filename q,
      sc_display_filename = sq_display_filename q, sc_storage_key = sd_storage_key document,
      sc_origin = sq_origin q, sc_parent_scan_id = sq_parent_scan_id q,
      sc_sha256 = sd_sha256 document, sc_size_bytes = sd_size_bytes document,
      sc_claimed_extension = claimed_extension casefold (sq_original_filename q),
      sc_claimed_content_type = sq_claimed_content_type q, sc_state = STORED,
      sc_detected_type = None, sc_detected_mime = None, sc_analysis_error_code = None,
      sc_risk_score = None, sc_severity = None, sc_decision = Some QUARANTINE,
      sc_policy_version = None, sc_policy_fingerprint = None, sc_release_eligible = False,
      sc_policy_evaluation = None, sc_analysis_metadata = None, sc_worker_status = ''PENDING'',
      sc_analysis_duration_ms = None, sc_analysis_started_at = None,
      sc_analysis_completed_at = None, sc_created_at = t, sc_updated_at = t, sc_findings = []\<rparr>"

definition mark_fields :: "instant \<Rightarrow> scan \<Rightarrow> scan" where
  "mark_fields t s = s\<lparr>sc_state := ANALYZING, sc_worker_status := ''RUNNING'',
     sc_analysis_started_at := Some t, sc_updated_at := t\<rparr>"

definition mark_analyzing :: "env \<Rightarrow> string \<Rightarrow> (world, exn, unit) prog" where
  "mark_analyzing env i = bindE (now env) (\<lambda>t.
     catchE (transaction env (bindE (select_scan i) (\<lambda>_. update_scan i (mark_fields t))))
       (\<lambda>e. if is_database_error e then Some (raiseE DatabasePersistenceError) else None))"

text \<open>\<open>result.status.value.casefold()\<close>.\<close>

fun status_casefold :: "analysis_status \<Rightarrow> string" where
  "status_casefold AS_SUCCESS = ''success''"
| "status_casefold AS_UNSUPPORTED = ''unsupported''"
| "status_casefold AS_FAILED = ''failed''"
| "status_casefold AS_TIMEOUT = ''timeout''"

definition finding_row :: "finding \<Rightarrow> finding_record" where
  "finding_row f = \<lparr>fr_code = f_code f, fr_category = f_category f, fr_severity = f_severity f,
     fr_score_delta = (case finding_policy_of (f_code f) of None \<Rightarrow> 0 | Some p \<Rightarrow> fp_contribution p),
     fr_title = f_title f, fr_description = f_description f,
     fr_mitre_techniques = f_mitre_techniques f, fr_metadata = f_metadata f\<rparr>"

definition error_code :: "analysis_outcome \<Rightarrow> string \<Rightarrow> string" where
  "error_code oc fallback = (case ao_failure_code oc of None \<Rightarrow> fallback | Some c \<Rightarrow> failure_value c)"

definition result_fields :: "instant \<Rightarrow> analysis_outcome \<Rightarrow> scan \<Rightarrow> scan" where
  "result_fields t oc s0 =
     (let s = s0\<lparr>sc_analysis_completed_at := Some t, sc_decision := Some QUARANTINE\<rparr> in
      case ao_result oc of
        None \<Rightarrow> s\<lparr>sc_state := QUARANTINED, sc_worker_status := ''FAILED'',
                  sc_analysis_error_code := Some (error_code oc ''unknown'')\<rparr>
      | Some r \<Rightarrow>
        (let s1 = s\<lparr>sc_worker_status := status_value (ar_status r),
                    sc_analysis_duration_ms := Some (ar_duration_ms r),
                    sc_detected_type := ar_detected_type r,
                    sc_analysis_metadata := Some (ar_analyzer_metadata r),
                    sc_detected_mime := (case jget (ar_analyzer_metadata r) ''detected_mime'' of
                       Some (JStr m) \<Rightarrow> Some m | _ \<Rightarrow> None)\<rparr>;
             s2 = (if ar_status r = AS_SUCCESS
                   then s1\<lparr>sc_state := COMPLETED, sc_analysis_error_code := None\<rparr>
                   else s1\<lparr>sc_state := QUARANTINED, sc_analysis_error_code :=
                          Some (error_code oc (status_casefold (ar_status r)))\<rparr>) in
         s2\<lparr>sc_findings := sc_findings s2 @ map finding_row (ar_findings r)\<rparr>))"

text \<open>\<open>try: evaluate_policy(...) except Exception: fail_closed_policy_evaluation()\<close>; the flag
  says that the handler ran.\<close>

definition policy_outcome ::
  "(ustring \<Rightarrow> string) \<Rightarrow> analysis_outcome \<Rightarrow> scan_state \<Rightarrow> instant \<Rightarrow> policy_evaluation \<times> bool" where
  "policy_outcome sha256 oc st t =
     (case evaluate_policy sha256 (ao_result oc) (map_option failure_value (ao_failure_code oc)) st t of
        Inr e \<Rightarrow> (e, False) | Inl _ \<Rightarrow> (fail_closed_policy_evaluation t, True))"

definition policy_fields :: "policy_evaluation \<Rightarrow> scan \<Rightarrow> scan" where
  "policy_fields e s =
     (let s1 = s\<lparr>sc_risk_score := Some (pe_risk_score e), sc_severity := Some (pe_risk_band e),
            sc_decision := Some (pe_decision e), sc_policy_version := Some (pe_policy_version e),
            sc_policy_fingerprint := Some (pe_policy_fingerprint e),
            sc_release_eligible := pe_release_eligible e, 
            sc_policy_evaluation := Some (dump_evaluation e)\<rparr> in
      if pe_decision e = QUARANTINE \<or> pe_decision e = BLOCK
      then s1\<lparr>sc_state := QUARANTINED\<rparr> else s1)"

definition persist_fields ::
  "(ustring \<Rightarrow> string) \<Rightarrow> instant \<Rightarrow> instant \<Rightarrow> analysis_outcome \<Rightarrow> scan \<Rightarrow> scan" where
  "persist_fields sha256 t t' oc s =
     (case policy_outcome sha256 oc (sc_state s) t' of (e, failed) \<Rightarrow>
        let s1 = result_fields t oc s;
            s2 = (if failed then s1\<lparr>sc_analysis_error_code := Some ''policy_evaluation_failed''\<rparr> else s1) in
        policy_fields e s2\<lparr>sc_updated_at := t'\<rparr>)"

definition persist_outcome ::
  "(ustring \<Rightarrow> string) \<Rightarrow> instant \<Rightarrow> instant \<Rightarrow> analysis_outcome \<Rightarrow> string \<Rightarrow> (db, exn, unit) prog" where
  "persist_outcome sha256 t t' oc i =
     bindE (select_scan i) (\<lambda>_.
     bindE (unlessE (case ao_result oc of None \<Rightarrow> True
              | Some r \<Rightarrow> list_all (\<lambda>c. finding_policy_of c \<noteq> None) (finding_codes r)) KeyError) (\<lambda>_.
       update_scan i (persist_fields sha256 t t' oc)))"

definition get_scan :: "env \<Rightarrow> string \<Rightarrow> (world, exn, scan) prog" where
  "get_scan env i = catchE
     (query env (bindE (getE (find_scan i)) (\<lambda>r.
        case r of None \<Rightarrow> raiseE ScanNotFound | Some s \<Rightarrow> returnE s)))
     (\<lambda>e. if is_database_error e then Some (raiseE DatabasePersistenceError) else None)"

text \<open>SHA-256 of a text that is ASCII, as the policy payload is.\<close>

definition sha256_text :: "env \<Rightarrow> ustring \<Rightarrow> string" where
  "sha256_text env s = env_sha256 env (map of_nat s)"

definition register_and_analyze ::
  "env \<Rightarrow> 'cdr backend \<Rightarrow> (ustring \<Rightarrow> ustring) \<Rightarrow> stored_document \<Rightarrow> scan_request \<Rightarrow> (world, exn, scan) prog" where
  "register_and_analyze env be casefold document q =
     bindE (new_id env) (\<lambda>i.
     bindE (now env) (\<lambda>t.
     bindE (catchE (transaction env (insert_scan (new_scan casefold i t document q)))
       (\<lambda>e. if is_database_error e
            then Some (bindE (remove_stored_document env document) (\<lambda>_. raiseE DatabasePersistenceError))
            else None)) (\<lambda>_.
     bindE (mark_analyzing env i) (\<lambda>_.
     bindE (analyze env be (sd_path document) (sq_original_filename q) (sq_claimed_content_type q)) (\<lambda>oc.
     bindE (now env) (\<lambda>t1.
     bindE (now env) (\<lambda>t2.
     bindE (catchE (transaction env (persist_outcome (sha256_text env) t1 t2 oc i))
       (\<lambda>e. if is_database_error e then Some (raiseE DatabasePersistenceError) else None)) (\<lambda>_.
       get_scan env i))))))))"

section \<open>What every row satisfies\<close>

text \<open>What a row that may be released has been through.\<close>

definition released_row :: "scan \<Rightarrow> bool" where
  "released_row s \<longleftrightarrow>
     sc_state s = COMPLETED \<and> sc_decision s = Some ALLOW \<and> sc_worker_status s = ''SUCCESS'' \<and>
     sc_analysis_error_code s = None \<and>
     sc_detected_type s \<in> Some ` set SUPPORTED_RELEASE_TYPES \<and>
     (\<forall>f\<in>set (sc_findings s). \<not> incomplete_code (fr_code f) \<and>
        (\<exists>p. finding_policy_of (fr_code f) = Some p \<and> fp_minimum_decision p = None)) \<and>
     accumulated_score (fr_code ` set (sc_findings s)) < 20"

text \<open>The columns of an evaluated row repeat the evaluation whose JSON it stores.\<close>

definition columns_agree :: "policy_evaluation \<Rightarrow> scan \<Rightarrow> bool" where
  "columns_agree e s \<longleftrightarrow>
     sc_risk_score s = Some (pe_risk_score e) \<and> sc_severity s = Some (pe_risk_band e) \<and>
     sc_decision s = Some (pe_decision e) \<and> sc_policy_version s = Some (pe_policy_version e) \<and>
     sc_policy_fingerprint s = Some (pe_policy_fingerprint e) \<and>
     sc_release_eligible s = pe_release_eligible e"

definition unevaluated_row :: "scan \<Rightarrow> bool" where
  "unevaluated_row s \<longleftrightarrow> sc_policy_evaluation s = None \<and> \<not> sc_release_eligible s \<and>
     sc_decision s = Some QUARANTINE \<and> sc_findings s = [] \<and>
     sc_state s \<in> {STORED, ANALYZING, QUARANTINED}"

definition evaluated_row :: "scan \<Rightarrow> bool" where
  "evaluated_row s \<longleftrightarrow> (\<exists>e. sc_policy_evaluation s = Some (dump_evaluation e) \<and> policy_evaluation_ok e \<and>
     columns_agree e s \<and>
     sc_state s = (if pe_decision e = ALLOW \<or> pe_decision e = REVIEW then COMPLETED else QUARANTINED) \<and>
     (pe_decision e = ALLOW \<longrightarrow> pe_mandatory_quarantine_reasons e = []) \<and>
     (sc_release_eligible s \<longrightarrow> released_row s))"

definition scan_row_ok :: "scan \<Rightarrow> bool" where
  "scan_row_ok s \<longleftrightarrow> unevaluated_row s \<or> evaluated_row s"

lemma new_scan_row: "unevaluated_row (new_scan casefold i t document q)"
  by (simp add: unevaluated_row_def new_scan_def)

lemma new_scan_simps [simp]:
  "sc_id (new_scan casefold i t document q) = i"
  "sc_origin (new_scan casefold i t document q) = sq_origin q"
  "sc_parent_scan_id (new_scan casefold i t document q) = sq_parent_scan_id q"
  "sc_sha256 (new_scan casefold i t document q) = sd_sha256 document"
  "sc_size_bytes (new_scan casefold i t document q) = sd_size_bytes document"
  "sc_storage_key (new_scan casefold i t document q) = sd_storage_key document"
  by (simp_all add: new_scan_def)

lemma mark_fields_row: "unevaluated_row s \<Longrightarrow> unevaluated_row (mark_fields t s)"
  by (simp add: unevaluated_row_def mark_fields_def)

lemma mark_fields_keys [simp]:
  "sc_id (mark_fields t s) = sc_id s" "sc_storage_key (mark_fields t s) = sc_storage_key s"
  "sc_parent_scan_id (mark_fields t s) = sc_parent_scan_id s"
  by (simp_all add: mark_fields_def)

lemma policy_fields_simps [simp]:
  "sc_id (policy_fields e s) = sc_id s" "sc_storage_key (policy_fields e s) = sc_storage_key s"
  "sc_parent_scan_id (policy_fields e s) = sc_parent_scan_id s"
  "sc_policy_evaluation (policy_fields e s) = Some (dump_evaluation e)"
  "sc_worker_status (policy_fields e s) = sc_worker_status s"
  "sc_analysis_error_code (policy_fields e s) = sc_analysis_error_code s"
  "sc_detected_type (policy_fields e s) = sc_detected_type s"
  "sc_findings (policy_fields e s) = sc_findings s"
  "sc_release_eligible (policy_fields e s) = pe_release_eligible e"
  "sc_decision (policy_fields e s) = Some (pe_decision e)"
  "columns_agree e (policy_fields e s)"
  "sc_state (policy_fields e s) =
     (if pe_decision e = QUARANTINE \<or> pe_decision e = BLOCK then QUARANTINED else sc_state s)"
  by (simp_all add: policy_fields_def Let_def columns_agree_def)

lemma result_fields_simps [simp]:
  "sc_id (result_fields t oc s) = sc_id s" "sc_storage_key (result_fields t oc s) = sc_storage_key s"
  "sc_parent_scan_id (result_fields t oc s) = sc_parent_scan_id s"
  "sc_origin (result_fields t oc s) = sc_origin s" "sc_sha256 (result_fields t oc s) = sc_sha256 s"
  "sc_size_bytes (result_fields t oc s) = sc_size_bytes s"
  by (simp_all add: result_fields_def Let_def split: option.split)

lemma result_fields_success:
  assumes "ao_result oc = Some r" "ar_status r = AS_SUCCESS"
  shows "sc_state (result_fields t oc s) = COMPLETED"
    "sc_worker_status (result_fields t oc s) = ''SUCCESS''"
    "sc_analysis_error_code (result_fields t oc s) = None"
    "sc_detected_type (result_fields t oc s) = ar_detected_type r"
    "sc_findings (result_fields t oc s) = sc_findings s @ map finding_row (ar_findings r)"
  using assms by (simp_all add: result_fields_def Let_def)

lemma persist_fields_keys [simp]:
  "sc_id (persist_fields sha256 t t' oc s) = sc_id s"
  "sc_storage_key (persist_fields sha256 t t' oc s) = sc_storage_key s"
  "sc_parent_scan_id (persist_fields sha256 t t' oc s) = sc_parent_scan_id s"
  by (simp_all add: persist_fields_def Let_def split: prod.split)

lemma persist_fields_origin [simp]:
  "sc_origin (persist_fields sha256 t t' oc s) = sc_origin s"
  "sc_sha256 (persist_fields sha256 t t' oc s) = sc_sha256 s"
  "sc_size_bytes (persist_fields sha256 t t' oc s) = sc_size_bytes s"
  by (simp_all add: persist_fields_def policy_fields_def Let_def split: prod.split)

interpretation marked: table sc_id mark_fields
  by unfold_locales simp

interpretation persisted: table sc_id "\<lambda>(sha256, t, t', oc). persist_fields sha256 t t' oc"
  by unfold_locales auto

lemma policy_outcome_cases:
  obtains (evaluated) e where "policy_outcome sha256 oc st t = (e, False)"
      "evaluate_policy sha256 (ao_result oc) (map_option failure_value (ao_failure_code oc)) st t = Inr e"
  | (failed) "policy_outcome sha256 oc st t = (fail_closed_policy_evaluation t, True)"
  by (cases "evaluate_policy sha256 (ao_result oc) (map_option failure_value (ao_failure_code oc)) st t")
    (auto simp: policy_outcome_def)

text \<open>Persisting any outcome of the orchestrator makes an unevaluated row an evaluated one.\<close>

lemma persist_fields_row:
  assumes "unevaluated_row s"
  shows "evaluated_row (persist_fields sha256 t t' oc s)"
proof (cases rule: policy_outcome_cases [of sha256 oc "sc_state s" t'])
  case failed
  then show ?thesis
    using fail_closed_ok [of t']
    by (simp add: evaluated_row_def persist_fields_def columns_agree_def policy_fields_def Let_def
        fail_closed_policy_evaluation_def)
next
  case (evaluated e)
  note ev = evaluated(2)
  let ?s = "policy_fields e (result_fields t oc s)\<lparr>sc_updated_at := t'\<rparr>"
  have s: "persist_fields sha256 t t' oc s = ?s" using evaluated(1) by (simp add: persist_fields_def)
  have complete: "\<exists>r. ao_result oc = Some r \<and> ar_status r = AS_SUCCESS"
    if "pe_decision e = ALLOW \<or> pe_decision e = REVIEW"
    using evaluation_complete(1) [OF ev that] by (auto simp: completeness_Nil)
  have state: "sc_state ?s = (if pe_decision e = ALLOW \<or> pe_decision e = REVIEW then COMPLETED else QUARANTINED)"
    using complete result_fields_success(1) by (cases "pe_decision e") auto
  have ok: "policy_evaluation_ok e" by (rule evaluate_policy_ok [OF ev])
  have "released_row ?s" if rel: "pe_release_eligible e"
  proof -
    from rel release_iff [OF ev] obtain r where r: "ao_result oc = Some r" "ar_status r = AS_SUCCESS"
      "ar_detected_type r \<in> Some ` set SUPPORTED_RELEASE_TYPES"
      "\<forall>c\<in>set (finding_codes r). \<not> incomplete_code c"
      "\<forall>p\<in>set (present_policies (set (finding_codes r))). fp_minimum_decision p = None"
      "accumulated_score (set (finding_codes r)) < 20" by blast
    have codes: "fr_code ` set (sc_findings ?s) = set (finding_codes r)"
      using assms r(1,2)
      by (force simp: result_fields_success unevaluated_row_def finding_row_def finding_codes_def)
    have "\<exists>p. finding_policy_of c = Some p \<and> fp_minimum_decision p = None" if "c \<in> set (finding_codes r)" for c
    proof -
      have "c \<in> set FINDING_CODES" using evaluate_policy_InrD(1) [OF ev] that r(1) by auto
      then obtain p where p: "finding_policy_of c = Some p" using finding_policy_of_None [of c] by auto
      then have "p \<in> set (present_policies (set (finding_codes r)))"
        using that by (auto simp: present_policies_def finding_policy_of_Some)
      with p r(5) show ?thesis by blast
    qed
    with r codes rel ok state show ?thesis
      by (simp add: released_row_def result_fields_success release_decision) (metis image_eqI)
  qed
  with ok state allow_no_reasons [OF ev] show ?thesis
    unfolding s by (auto simp: evaluated_row_def columns_agree_def policy_fields_def Let_def)
qed

section \<open>The operations keep every row in order\<close>

definition rows_ok :: "db \<Rightarrow> bool" where
  "rows_ok d \<longleftrightarrow> schema_ok d \<and> (\<forall>s\<in>set (db_scans d). scan_row_ok s)"

lemma find_scan_Some:
  "schema_ok d \<Longrightarrow> find_scan i d = Some s \<longleftrightarrow> s \<in> set (db_scans d) \<and> sc_id s = i"
  using registry.lookup_Some [of sc_id "db_scans d" i s]
  by (simp add: find_scan_def schema_ok_def registry_def)

lemma rows_okD: "rows_ok d \<Longrightarrow> find_scan i d = Some s \<Longrightarrow> scan_row_ok s"
  by (auto simp: rows_ok_def find_scan_Some)

definition holds_row :: "string \<Rightarrow> scan \<Rightarrow> db \<Rightarrow> bool" where
  "holds_row i s d \<longleftrightarrow> rows_ok d \<and> find_scan i d = Some s"

lemma insert_scan_triple:
  assumes "unevaluated_row r"
  shows "triple rows_ok (insert_scan r) (\<lambda>_. holds_row (sc_id r) r) any_error"
proof (rule tripleI)
  fix d x d' assume d: "rows_ok d" and run: "insert_scan r d = (Inr x, d')"
  have "schema_ok d'"
    using keepsD [OF insert_scan_schema, of d r] d run by (simp add: rows_ok_def)
  moreover have "db_scans d' = db_scans d @ [r]"
    using run by (auto simp: insert_scan_def prog_defs split: if_splits)
  ultimately show "holds_row (sc_id r) r d'"
    using d assms by (auto simp: holds_row_def rows_ok_def find_scan_Some scan_row_ok_def)
qed simp

text \<open>Updating the one row \<open>i\<close> with \<open>f\<close>, which keeps the keys and the row's invariant.\<close>

lemma update_scan_triple:
  assumes keys: "\<And>s. sc_id (f s) = sc_id s" "\<And>s. sc_storage_key (f s) = sc_storage_key s"
    "\<And>s. sc_parent_scan_id (f s) = sc_parent_scan_id s"
    and ok: "scan_row_ok (f s)"
  shows "triple (holds_row i s) (update_scan i f) (\<lambda>_. holds_row i (f s)) any_error"
proof (rule tripleI)
  fix d x d' assume d: "holds_row i s d" and run: "update_scan i f d = (Inr x, d')"
  have schema: "schema_ok d" "schema_ok d'" and s: "s \<in> set (db_scans d)" "sc_id s = i"
    using d keepsD [OF update_scan_schema [OF keys], of d i] run
    by (auto simp: holds_row_def rows_ok_def find_scan_Some)
  have d': "db_scans d' = update_row sc_id i f (db_scans d)"
    using run by (auto simp: update_scan_def modifyE_def)
  have "inj_on sc_id (set (db_scans d))" using schema(1) by (simp add: schema_ok_def distinct_map)
  then have "r = s" if "r \<in> set (db_scans d)" "sc_id r = i" for r
    using that s by (auto dest: inj_onD)
  then have "scan_row_ok r" if "r \<in> set (db_scans d')" for r
    using that ok d by (auto simp: d' update_row_def holds_row_def rows_ok_def)
  moreover have "f s \<in> set (db_scans d')" using s by (force simp: d' update_row_def)
  ultimately show "holds_row i (f s) d'"
    using schema(2) s(2) by (simp add: holds_row_def rows_ok_def find_scan_Some keys)
qed simp

lemma select_scan_triple:
  "triple (holds_row i s) (select_scan i) (\<lambda>r d. r = s \<and> holds_row i s d) any_error"
  by (auto simp: triple_def select_scan_def bindE_def getE_def holds_row_def returnE_def)

lemma wrap_db_error:
  "(if is_database_error e then Some (raiseE DatabasePersistenceError) else None) = Some k \<Longrightarrow>
     k = raiseE DatabasePersistenceError"
  by (simp split: if_splits)

abbreviation rows_kept :: "exn \<Rightarrow> world \<Rightarrow> bool" where
  "rows_kept \<equiv> \<lambda>_ w. rows_ok (w_db w)"

text \<open>A transaction under \<open>except SQLAlchemyError\<close>.\<close>

lemma guarded_transaction:
  assumes "triple P m (\<lambda>_. Q) any_error" and "\<And>d. P d \<Longrightarrow> rows_ok d" "\<And>d. Q d \<Longrightarrow> rows_ok d"
    and "\<And>e k. h e = Some k \<Longrightarrow> triple (\<lambda>w. rows_ok (w_db w)) k (\<lambda>_ w. Q (w_db w)) rows_kept"
  shows "triple (\<lambda>w. P (w_db w)) (catchE (transaction env m) h) (\<lambda>_ w. Q (w_db w)) rows_kept"
proof (rule triple_catch)
  show "triple (\<lambda>w. P (w_db w)) (transaction env m) (\<lambda>_ w. Q (w_db w)) rows_kept"
    by (rule triple_weaken [OF transaction_triple [OF assms(1)]]) (use assms(2,3) in auto)
qed (use assms(4) in auto)

lemma triple_raise_rows: "triple (\<lambda>w. rows_ok (w_db w)) (raiseE e) Q rows_kept"
  by (rule triple_raise)

lemma mark_analyzing_triple:
  assumes "unevaluated_row s"
  shows "triple (\<lambda>w. holds_row i s (w_db w)) (mark_analyzing env i)
    (\<lambda>_ w. \<exists>t. holds_row i (mark_fields t s) (w_db w)) rows_kept"
proof -
  have m: "triple (holds_row i s) (bindE (select_scan i) (\<lambda>_. update_scan i (mark_fields t)))
      (\<lambda>_. holds_row i (mark_fields t s)) any_error" for t
    by (rule triple_bind [OF select_scan_triple])
      (rule triple_weaken [OF update_scan_triple [of "mark_fields t" s]],
        use assms mark_fields_row in \<open>auto simp: scan_row_ok_def\<close>)
  have "triple (\<lambda>w. holds_row i s (w_db w)) (now env) (\<lambda>_ w. holds_row i s (w_db w)) rows_kept"
    by (simp add: triple_def now_run)
  moreover have "triple (\<lambda>w. holds_row i s (w_db w))
      (catchE (transaction env (bindE (select_scan i) (\<lambda>_. update_scan i (mark_fields t))))
        (\<lambda>e. if is_database_error e then Some (raiseE DatabasePersistenceError) else None))
      (\<lambda>_ w. holds_row i (mark_fields t s) (w_db w)) rows_kept" for t
    by (rule guarded_transaction [OF m])
      (auto simp: holds_row_def dest!: wrap_db_error intro: triple_raise_rows)
  then have "triple (\<lambda>w. holds_row i s (w_db w))
      (catchE (transaction env (bindE (select_scan i) (\<lambda>_. update_scan i (mark_fields t))))
        (\<lambda>e. if is_database_error e then Some (raiseE DatabasePersistenceError) else None))
      (\<lambda>_ w. \<exists>t. holds_row i (mark_fields t s) (w_db w)) rows_kept" for t
    by (rule triple_weaken) auto
  ultimately show ?thesis unfolding mark_analyzing_def by (rule triple_bind)
qed

lemma persist_outcome_triple:
  assumes "unevaluated_row s"
  shows "triple (holds_row i s) (persist_outcome sha256 t t' oc i)
    (\<lambda>_. holds_row i (persist_fields sha256 t t' oc s)) any_error"
proof -
  have "triple (holds_row i s) (update_scan i (persist_fields sha256 t t' oc))
      (\<lambda>_. holds_row i (persist_fields sha256 t t' oc s)) any_error"
    by (rule update_scan_triple) (use persist_fields_row [OF assms] in \<open>auto simp: scan_row_ok_def\<close>)
  then show ?thesis
    unfolding persist_outcome_def
    by (intro triple_bind [OF select_scan_triple] triple_bind [OF triple_unless])
      (auto intro: triple_weaken)
qed

lemma get_scan_triple:
  "triple (\<lambda>w. holds_row i s (w_db w)) (get_scan env i) (\<lambda>r w. r = s \<and> holds_row i s (w_db w)) rows_kept"
proof (rule tripleI)
  fix w e w' assume "holds_row i s (w_db w)" "get_scan env i w = (Inl e, w')"
  then show "rows_ok (w_db w')"
    by (auto simp: get_scan_def catchE_def query_def Let_def bindE_def getE_def returnE_def raiseE_def
        holds_row_def split: if_splits)
next
  fix w x w' assume "holds_row i s (w_db w)" "get_scan env i w = (Inr x, w')"
  then show "x = s \<and> holds_row i s (w_db w')"
    by (auto simp: get_scan_def catchE_def query_def Let_def bindE_def getE_def returnE_def raiseE_def
        holds_row_def split: if_splits)
qed

definition analysed_row ::
  "env \<Rightarrow> (ustring \<Rightarrow> ustring) \<Rightarrow> stored_document \<Rightarrow> scan_request \<Rightarrow> scan \<Rightarrow> bool" where
  "analysed_row env casefold document q s \<longleftrightarrow>
     (\<exists>i t t0 t1 t2 oc. outcome_ok oc \<and> s = persist_fields (sha256_text env) t1 t2 oc
        (mark_fields t0 (new_scan casefold i t document q)))"

lemma analysed_rowI:
  "outcome_ok oc \<Longrightarrow> analysed_row env casefold document q
     (persist_fields (sha256_text env) t1 t2 oc (mark_fields t0 (new_scan casefold i t document q)))"
  unfolding analysed_row_def by blast

lemma marked_row_unevaluated: "unevaluated_row (mark_fields t0 (new_scan casefold i t document q))"
  by (intro mark_fields_row new_scan_row)

lemma clock_triple: "triple (\<lambda>w. P (w_db w)) (now env) (\<lambda>_ w. P (w_db w)) E"
  "triple (\<lambda>w. P (w_db w)) (new_id env) (\<lambda>_ w. P (w_db w)) E"
  by (simp_all add: triple_def now_run new_id_run)

lemma analyze_triple:
  "triple (\<lambda>w. holds_row i s (w_db w)) (analyze env be p f t)
     (\<lambda>oc w. holds_row i s (w_db w) \<and> outcome_ok oc) rows_kept"
proof (rule tripleI)
  have k: "w_db (snd (analyze env be p f t w)) = w_db w" for w :: world
    by (rule keepsD [OF analyze_keeps]) simp_all
  fix w :: world assume w: "holds_row i s (w_db w)"
  show "rows_ok (w_db w')" if "analyze env be p f t w = (Inl e, w')" for e w'
    using k [of w] that w by (simp add: holds_row_def)
  show "holds_row i s (w_db w') \<and> outcome_ok x" if "analyze env be p f t w = (Inr x, w')" for x w'
    using k [of w] that w analyze_outcome_ok [OF that] by simp
qed

lemma register_triple:
  "triple (\<lambda>w. rows_ok (w_db w)) (register_and_analyze env be casefold document q)
     (\<lambda>s w. analysed_row env casefold document q s \<and> holds_row (sc_id s) s (w_db w)) rows_kept"
proof -
  let ?new = "\<lambda>i t. new_scan casefold i t document q"
  let ?marked = "\<lambda>i t t0. mark_fields t0 (?new i t)"
  let ?h = "\<lambda>e. if is_database_error e then Some (raiseE DatabasePersistenceError) else None"
  let ?Q = "\<lambda>s w. analysed_row env casefold document q s \<and> holds_row (sc_id s) s (w_db w)"
  have insert: "triple (\<lambda>w. rows_ok (w_db w)) (catchE (transaction env (insert_scan (?new i t)))
       (\<lambda>e. if is_database_error e
            then Some (bindE (remove_stored_document env document) (\<lambda>_. raiseE DatabasePersistenceError))
            else None)) (\<lambda>_ w. holds_row i (?new i t) (w_db w)) rows_kept" for i t
  proof (rule guarded_transaction)
    show "triple rows_ok (insert_scan (?new i t)) (\<lambda>_. holds_row i (?new i t)) any_error"
      using insert_scan_triple [OF new_scan_row, of casefold i t document q] by (simp add: new_scan_def)
    show "triple (\<lambda>w. rows_ok (w_db w)) k (\<lambda>_ w. holds_row i (?new i t) (w_db w)) rows_kept"
      if "(if is_database_error e then Some (bindE (remove_stored_document env document)
        (\<lambda>_. raiseE DatabasePersistenceError)) else None) = Some k" for e k
      using that triple_bind [OF keeps_db_triple [OF storage_keeps_db(2)] triple_raise_rows]
      by (auto split: if_splits)
  qed (simp_all add: holds_row_def)
  have persist: "triple (\<lambda>w. holds_row i s (w_db w))
      (catchE (transaction env (persist_outcome (sha256_text env) t1 t2 oc i)) ?h)
      (\<lambda>_ w. holds_row i (persist_fields (sha256_text env) t1 t2 oc s) (w_db w)) rows_kept"
    if "unevaluated_row s" for i s t1 t2 oc
    by (rule guarded_transaction [OF persist_outcome_triple [OF that]])
      (auto simp: holds_row_def dest!: wrap_db_error intro: triple_raise_rows)
  have fin: "triple (\<lambda>w. holds_row i (persist_fields (sha256_text env) t1 t2 oc (?marked i t t0)) (w_db w))
      (get_scan env i) ?Q rows_kept" if "outcome_ok oc" for i t t0 t1 t2 oc
    by (rule triple_weaken [OF get_scan_triple]) (use that in \<open>auto intro: analysed_rowI\<close>)
  have tail: "triple (\<lambda>w. holds_row i (?marked i t t0) (w_db w) \<and> outcome_ok oc)
      (bindE (now env) (\<lambda>t1. bindE (now env) (\<lambda>t2.
        bindE (catchE (transaction env (persist_outcome (sha256_text env) t1 t2 oc i)) ?h)
          (\<lambda>_. get_scan env i)))) ?Q rows_kept" for i t t0 oc
  proof (cases "outcome_ok oc")
    case True
    then show ?thesis
      by simp (intro triple_bind [OF clock_triple(1)] triple_bind [OF persist [OF marked_row_unevaluated] fin])
  qed (simp add: triple_def)
  have an: "triple (\<lambda>w. \<exists>t0. holds_row i (?marked i t t0) (w_db w))
      (bindE (analyze env be (sd_path document) (sq_original_filename q) (sq_claimed_content_type q)) (\<lambda>oc.
        bindE (now env) (\<lambda>t1. bindE (now env) (\<lambda>t2.
        bindE (catchE (transaction env (persist_outcome (sha256_text env) t1 t2 oc i)) ?h)
          (\<lambda>_. get_scan env i))))) ?Q rows_kept" for i t
    by (rule triple_ex) (rule triple_bind [OF analyze_triple tail])
  show ?thesis
    unfolding register_and_analyze_def
    by (intro triple_bind [OF clock_triple(2)] triple_bind [OF clock_triple(1)] triple_bind [OF insert]
        triple_bind [OF mark_analyzing_triple [OF new_scan_row] an])
qed

section \<open>What the operations leave alone\<close>

text \<open>\<open>frame S A\<close>: the rows \<open>S\<close> are still there, unchanged, and the artifacts are \<open>A\<close>.\<close>

definition frame :: "scan set \<Rightarrow> artifact list \<Rightarrow> db \<Rightarrow> bool" where
  "frame S A d \<longleftrightarrow> S \<subseteq> set (db_scans d) \<and> db_artifacts d = A"

lemma frame_insert_scan:
  "triple (frame S A) (insert_scan r) (\<lambda>_ d. frame S A d \<and> sc_id r \<notin> sc_id ` S) (\<lambda>_. frame S A)"
  by (auto simp: triple_def insert_scan_def prog_defs frame_def has_key_iff split: option.splits)

lemma frame_update_scan:
  assumes "i \<notin> sc_id ` S"
  shows "keeps (frame S A) (update_scan i f)"
proof -
  have "s \<in> set (update_row sc_id i f rows)" if "s \<in> S" "s \<in> set rows" for s rows
  proof -
    have "sc_id s \<noteq> i" using assms that by blast
    with that(2) show ?thesis unfolding update_row_def set_map by (intro image_eqI [of _ _ s]) simp_all
  qed
  then show ?thesis by (auto simp: keeps_def update_scan_def modifyE_def frame_def)
qed

lemma keeps_select_scan [keeps_intro]: "keeps I (select_scan i)"
  unfolding select_scan_def by (intro keeps_intro)

lemma frame_transaction:
  assumes "keeps (frame S A) m"
  shows "keeps (\<lambda>w. frame S A (w_db w)) (transaction env m)"
  by (rule transaction_keeps [OF assms]) auto

lemma frame_handler:
  "(if is_database_error e then Some (raiseE DatabasePersistenceError) else None) = Some k \<Longrightarrow> keeps I k"
  by (auto split: if_splits intro: keeps_intro)

lemma frame_mark:
  assumes "i \<notin> sc_id ` S"
  shows "keeps (\<lambda>w. frame S A (w_db w)) (mark_analyzing env i)"
  unfolding mark_analyzing_def
  by (intro keeps_intro keeps_now frame_transaction frame_update_scan [OF assms] frame_handler; simp)

lemma frame_persist:
  assumes "i \<notin> sc_id ` S"
  shows "keeps (frame S A) (persist_outcome sha256 t t' oc i)"
  unfolding persist_outcome_def by (intro keeps_intro frame_update_scan [OF assms])

lemma frame_get: "keeps (\<lambda>w. frame S A (w_db w)) (get_scan env i)"
  unfolding get_scan_def by (intro keeps_intro query_keeps frame_handler; simp)

lemma keeps_storage_frame:
  "(\<And>d. keeps (\<lambda>w. w_db w = d) m) \<Longrightarrow> keeps (\<lambda>w. I (w_db w)) m"
  by (auto simp: keeps_def)

text \<open>Registering and analysing a document changes no existing row and no artifact.\<close>

lemma frame_register:
  "keeps (\<lambda>w. frame S A (w_db w)) (register_and_analyze env be casefold document q)"
proof -
  let ?F = "\<lambda>w :: world. frame S A (w_db w)"
  have insert: "triple ?F (catchE (transaction env (insert_scan (new_scan casefold i t document q)))
       (\<lambda>e. if is_database_error e
            then Some (bindE (remove_stored_document env document) (\<lambda>_. raiseE DatabasePersistenceError))
            else None)) (\<lambda>_ w. ?F w \<and> i \<notin> sc_id ` S) (\<lambda>_. ?F)" for i t
  proof (rule triple_catch)
    let ?r = "new_scan casefold i t document q"
    show "triple ?F (transaction env (insert_scan ?r)) (\<lambda>_ w. ?F w \<and> i \<notin> sc_id ` S) (\<lambda>_. ?F)"
    proof -
      have "triple (frame S A) (insert_scan ?r) (\<lambda>_ d. frame S A d \<and> i \<notin> sc_id ` S) any_error"
        by (rule triple_weaken [OF frame_insert_scan]) auto
      from transaction_triple [OF this] show ?thesis by (rule triple_weaken) auto
    qed
    show "triple ?F k (\<lambda>_ w. ?F w \<and> i \<notin> sc_id ` S) (\<lambda>_. ?F)"
      if "(if is_database_error e then Some (bindE (remove_stored_document env document)
        (\<lambda>_. raiseE DatabasePersistenceError)) else None) = Some k" for e k
    proof -
      from that have k: "k = bindE (remove_stored_document env document) (\<lambda>_. raiseE DatabasePersistenceError)"
        by (simp split: if_splits)
      show ?thesis
        unfolding k by (rule triple_bind [OF keeps_db_triple [OF storage_keeps_db(2)]]) (rule triple_raise)
    qed
  qed
  have rest: "triple (\<lambda>w. ?F w \<and> i \<notin> sc_id ` S) (bindE (mark_analyzing env i) (\<lambda>_.
     bindE (analyze env be (sd_path document) (sq_original_filename q) (sq_claimed_content_type q)) (\<lambda>oc.
     bindE (now env) (\<lambda>t1. bindE (now env) (\<lambda>t2.
     bindE (catchE (transaction env (persist_outcome (sha256_text env) t1 t2 oc i))
       (\<lambda>e. if is_database_error e then Some (raiseE DatabasePersistenceError) else None)) (\<lambda>_.
       get_scan env i)))))) (\<lambda>_. ?F) (\<lambda>_. ?F)" for i
  proof (cases "i \<in> sc_id ` S")
    case False
    have now: "keeps ?F (now env)" by (rule keeps_now) simp
    have persist: "keeps ?F (catchE (transaction env (persist_outcome (sha256_text env) t1 t2 oc i))
       (\<lambda>e. if is_database_error e then Some (raiseE DatabasePersistenceError) else None))" for t1 t2 oc
      by (rule keeps_catch [OF frame_transaction [OF frame_persist [OF False]] frame_handler])
    have an: "keeps ?F (analyze env be p f t)" for p f t
      by (rule analyze_keeps) simp
    show ?thesis
      by (rule triple_weaken [OF iffD1 [OF keeps_triple keeps_bind [OF frame_mark [OF False]
            keeps_bind [OF an keeps_bind [OF now keeps_bind [OF now keeps_bind [OF persist frame_get]]]]]]])
        simp_all
  qed (simp add: triple_def)
  show ?thesis
    unfolding keeps_triple register_and_analyze_def
    by (intro triple_bind [OF clock_triple(2)] triple_bind [OF clock_triple(1)] triple_bind [OF insert rest])
qed

section \<open>What the service guarantees\<close>

text \<open>Whatever fails on the way (the database, a lost acknowledgement, the operating
  system, the worker), registering and analysing a document leaves every row in order: an
  unevaluated row is not releasable, an evaluated row repeats a valid evaluation in its
  columns, and a releasable row has completed with the decision to allow. The constraints
  of the schema hold.\<close>

theorem register_keeps_rows:
  assumes "rows_ok (w_db w)"
  shows "rows_ok (w_db (snd (register_and_analyze env be casefold document q w)))"
proof (cases "register_and_analyze env be casefold document q w")
  case (Pair x w')
  show ?thesis
  proof (cases x)
    case (Inl e)
    then show ?thesis using triple_errorD [OF register_triple assms] Pair by simp
  next
    case (Inr s)
    then show ?thesis
      using triple_valueD [OF register_triple assms] Pair by (fastforce simp: holds_row_def)
  qed
qed

text \<open>C13. A scan that is returned is the row that was stored: it is evaluated, it carries the
  digest, the size, the origin and the parent it was registered with, it is in one of the
  two final states, and it is releasable only if its analysis succeeded on a supported type
  without a finding that reports incomplete content or demands containment.\<close>

theorem registered_scan_is_final:
  assumes "rows_ok (w_db w)"
    and "register_and_analyze env be casefold document q w = (Inr s, w')"
  shows "find_scan (sc_id s) (w_db w') = Some s \<and> evaluated_row s \<and>
    sc_sha256 s = sd_sha256 document \<and> sc_size_bytes s = sd_size_bytes document \<and>
    sc_origin s = sq_origin q \<and> sc_parent_scan_id s = sq_parent_scan_id q \<and>
    (sc_state s = COMPLETED \<or> sc_state s = QUARANTINED) \<and>
    (sc_release_eligible s \<longrightarrow> released_row s)"
proof -
  have r: "analysed_row env casefold document q s" "holds_row (sc_id s) s (w_db w')"
    using triple_valueD [OF register_triple assms] by blast+
  then obtain i t t0 t1 t2 oc where s: "s = persist_fields (sha256_text env) t1 t2 oc
      (mark_fields t0 (new_scan casefold i t document q))"
    unfolding analysed_row_def by blast
  have e: "evaluated_row s"
    unfolding s by (intro persist_fields_row mark_fields_row new_scan_row)
  have "sc_sha256 s = sd_sha256 document" "sc_size_bytes s = sd_size_bytes document"
    "sc_origin s = sq_origin q" "sc_parent_scan_id s = sq_parent_scan_id q"
    unfolding s by (simp_all, simp_all add: mark_fields_def)
  moreover have "sc_state s = COMPLETED \<or> sc_state s = QUARANTINED" "sc_release_eligible s \<longrightarrow> released_row s"
    using e unfolding evaluated_row_def by metis+
  ultimately show ?thesis using r(2) e by (simp add: holds_row_def)
qed

lemma not_complete_contained:
  assumes "sc_state s \<noteq> ANALYZING" "sc_state s \<noteq> COMPLETED"
  shows "fst (policy_outcome sha256 oc (sc_state s) t) = e \<Longrightarrow>
     pe_decision e = QUARANTINE \<or> pe_decision e = BLOCK"
proof (cases rule: policy_outcome_cases [of sha256 oc "sc_state s" t])
  case (evaluated e')
  assume "fst (policy_outcome sha256 oc (sc_state s) t) = e"
  with evaluated have e: "evaluate_policy sha256 (ao_result oc)
      (map_option failure_value (ao_failure_code oc)) (sc_state s) t = Inr e" by simp
  show ?thesis
    using evaluation_complete(1) [OF e] assms by (cases "pe_decision e") (auto simp: completeness_Nil)
qed (auto simp: fail_closed_policy_evaluation_def)

lemma policy_outcome_release:
  "pe_release_eligible (fst (policy_outcome sha256 oc st t)) \<longleftrightarrow>
     pe_decision (fst (policy_outcome sha256 oc st t)) = ALLOW"
  by (cases rule: policy_outcome_cases [of sha256 oc st t])
    (auto simp: fail_closed_policy_evaluation_def dest: release_iff_decision)

text \<open>C17. The race between a late worker and the recovery of stale scans is decided for
  containment: when recovery has already quarantined the scan, persisting whatever the
  worker then reports, success included, leaves it quarantined and not releasable.\<close>

theorem recovered_scan_stays_quarantined:
  assumes "sc_state s = QUARANTINED"
  shows "sc_state (persist_fields sha256 t t' oc s) = QUARANTINED \<and>
    \<not> sc_release_eligible (persist_fields sha256 t t' oc s) \<and>
    sc_decision (persist_fields sha256 t t' oc s) \<in> {Some QUARANTINE, Some BLOCK}"
proof -
  obtain e failed where p: "policy_outcome sha256 oc (sc_state s) t' = (e, failed)" by fastforce
  then have "pe_decision e = QUARANTINE \<or> pe_decision e = BLOCK"
    using not_complete_contained [of s sha256 oc t' e] assms by simp
  moreover have "\<not> pe_release_eligible e"
    using calculation policy_outcome_release [of sha256 oc "sc_state s" t'] p by auto
  ultimately show ?thesis by (auto simp: persist_fields_def p Let_def)
qed

subsection \<open>A concrete run\<close>

definition silent_backend :: "unit backend" where
  "silent_backend = \<lparr>be_path_text = (\<lambda>_. [47]), be_execute = (\<lambda>_ _. None),
     be_sanitize = (\<lambda>_ _. (None, [])), be_decode = (\<lambda>_. None), be_decode_cdr = (\<lambda>_. None)\<rparr>"

definition sample_document :: stored_document where
  "sample_document = \<lparr>sd_storage_key = replicate 32 CHR ''a'',
     sd_path = (QUARANTINE_AREA, replicate 32 CHR ''a''), sd_sha256 = replicate 64 CHR ''0'',
     sd_size_bytes = 2\<rparr>"

definition sample_request :: scan_request where
  "sample_request = \<lparr>sq_original_filename = [97], sq_display_filename = [97],
     sq_claimed_content_type = None, sq_origin = UPLOAD, sq_parent_scan_id = None\<rparr>"

lemma empty_rows_ok: "rows_ok (w_db empty_world)"
  by (simp add: rows_ok_def schema_ok_def empty_world_def empty_db_def)

lemma sample_job: "worker_request_ok \<lparr>wr_schema_version = ANALYSIS_SCHEMA_VERSION,
    wr_job_id = replicate (32 - Suc (Suc (Suc (Suc (Suc 0))))) CHR ''0'' @
      replicate (min 32 (Suc (Suc (Suc (Suc (Suc 0)))))) CHR ''1'',
    wr_sample_path = [47], wr_original_filename = [97], wr_claimed_content_type = None,
    wr_operation = ANALYZE, wr_cdr = None\<rparr>"
  by (simp add: worker_request_ok_def is_absolute_def starts_with_def list_all_iff)

lemma sample_registration:
  "\<exists>s w'. register_and_analyze quiet_env silent_backend id sample_document sample_request empty_world
     = (Inr s, w')"
proof -
  have "isl (fst (register_and_analyze quiet_env silent_backend id sample_document sample_request empty_world)) = False"
    using sample_job
    by (simp add: register_and_analyze_def mark_analyzing_def analyze_def prepare_job_def Let_def
        runs catchE_def transaction_run insert_scan_def prog_defs has_key_def select_scan_def
        find_scan_def lookup_row_def update_scan_def update_row_def persist_outcome_def
        judge_execution_def quarantined_def get_scan_def query_def tickE_def sample_request_def
        quiet_env_def empty_world_def empty_db_def silent_backend_def is_absolute_def starts_with_def)
  then obtain s w' where "register_and_analyze quiet_env silent_backend id sample_document
      sample_request empty_world = (Inr s, w')"
    by (metis prod.collapse sum.collapse(2))
  then show ?thesis by blast
qed

theorem register_keeps_rows_witness:
  "rows_ok (w_db (snd (register_and_analyze quiet_env silent_backend id sample_document
     sample_request empty_world)))"
  by (rule register_keeps_rows [OF empty_rows_ok])

theorem registered_scan_is_final_witness:
  "\<exists>s w'. register_and_analyze quiet_env silent_backend id sample_document sample_request empty_world
     = (Inr s, w') \<and> find_scan (sc_id s) (w_db w') = Some s \<and> evaluated_row s"
  using sample_registration registered_scan_is_final [OF empty_rows_ok] by blast

theorem recovered_scan_stays_quarantined_witness:
  "\<exists>s. sc_state s = QUARANTINED \<and>
     \<not> sc_release_eligible (persist_fields (\<lambda>_. POLICY_FINGERPRINT) 1 2
        \<lparr>ao_job_id = ''j'', ao_result = Some (sample_result []), ao_decision = None,
         ao_failure_code = None\<rparr> s)"
proof -
  have "sc_state (new_scan id ''i'' 0 sample_document sample_request\<lparr>sc_state := QUARANTINED\<rparr>) = QUARANTINED"
    by simp
  from recovered_scan_stays_quarantined [OF this] show ?thesis
    by (intro exI [of _ "new_scan id ''i'' 0 sample_document sample_request\<lparr>sc_state := QUARANTINED\<rparr>"]) simp
qed

end
