(* ===== verification/Cdr_Contract.thy ===== *)
theory Cdr_Contract
  imports Scan_Service
begin

text \<open>
  The identity and the bounded messages of content disarm and reconstruction:
  \<open>docguard_contract/cdr.py\<close>, \<open>app/cdr/models.py\<close>, \<open>app/cdr/registry.py\<close> and the
  validation of one sanitisation in \<open>app/cdr/orchestrator.py\<close>. A Python float is a
  rational with the text \<open>json.dumps\<close> prints for it.
\<close>

section \<open>The sanitizer's identity\<close>

definition PDF_CDR_VERSION :: string where "PDF_CDR_VERSION = ''1.0.0''"
definition PDF_CDR_RENDERER :: string where "PDF_CDR_RENDERER = ''PyMuPDF''"
definition PDF_CDR_RENDERER_VERSION :: string where "PDF_CDR_RENDERER_VERSION = ''1.28.2''"
definition PDF_CDR_ENGINE_VERSION :: string where "PDF_CDR_ENGINE_VERSION = ''1.28.2''"
definition PDF_CDR_DPI :: int where "PDF_CDR_DPI = 150"
definition PDF_CDR_COLORSPACE :: string where "PDF_CDR_COLORSPACE = ''RGB''"
definition PDF_CDR_METADATA_POLICY :: string where "PDF_CDR_METADATA_POLICY = ''minimal-empty''"
definition PDF_CDR_OUTPUT_MODE :: string where "PDF_CDR_OUTPUT_MODE = ''raster-images-only''"

record py_float =
  pf_value :: rat
  pf_repr :: string

record settings =
  st_maximum_upload_bytes :: nat
  st_cdr_max_pages :: int
  st_cdr_max_width_points :: py_float
  st_cdr_max_height_points :: py_float
  st_cdr_max_width_pixels :: int
  st_cdr_max_height_pixels :: int
  st_cdr_max_pixels_per_page :: int
  st_cdr_max_total_pixels :: int
  st_cdr_max_raster_bytes :: int
  st_cdr_max_output_bytes :: nat

text \<open>The bounds the fields of \<open>Settings\<close> declare for the sanitizer.\<close>

definition cdr_settings_ok :: "settings \<Rightarrow> bool" where
  "cdr_settings_ok s \<longleftrightarrow>
     1 \<le> st_cdr_max_pages s \<and> st_cdr_max_pages s \<le> 1000 \<and>
     0 < pf_value (st_cdr_max_width_points s) \<and> pf_value (st_cdr_max_width_points s) \<le> 10000 \<and>
     0 < pf_value (st_cdr_max_height_points s) \<and> pf_value (st_cdr_max_height_points s) \<le> 10000 \<and>
     1 \<le> st_cdr_max_width_pixels s \<and> st_cdr_max_width_pixels s \<le> 20000 \<and>
     1 \<le> st_cdr_max_height_pixels s \<and> st_cdr_max_height_pixels s \<le> 20000 \<and>
     1 \<le> st_cdr_max_pixels_per_page s \<and> st_cdr_max_pixels_per_page s \<le> 100000000 \<and>
     1 \<le> st_cdr_max_total_pixels s \<and> st_cdr_max_total_pixels s \<le> 1000000000 \<and>
     1 \<le> st_cdr_max_raster_bytes s \<and> st_cdr_max_raster_bytes s \<le> 3000000000 \<and>
     1 \<le> st_cdr_max_output_bytes s \<and> st_cdr_max_output_bytes s \<le> 1000000000"

definition jfloat :: "py_float \<Rightarrow> json" where
  "jfloat x = JFloat (Some (pf_repr x))"

definition sanitizer_definition :: "settings \<Rightarrow> json" where
  "sanitizer_definition s = JObj (obj [
     (''colorspace'', jtext PDF_CDR_COLORSPACE),
     (''dpi'', JInt PDF_CDR_DPI),
     (''engine_version'', jtext PDF_CDR_ENGINE_VERSION),
     (''max_height_pixels'', JInt (st_cdr_max_height_pixels s)),
     (''max_height_points'', jfloat (st_cdr_max_height_points s)),
     (''max_output_bytes'', JInt (int (st_cdr_max_output_bytes s))),
     (''max_pages'', JInt (st_cdr_max_pages s)),
     (''max_pixels_per_page'', JInt (st_cdr_max_pixels_per_page s)),
     (''max_raster_bytes'', JInt (st_cdr_max_raster_bytes s)),
     (''max_total_pixels'', JInt (st_cdr_max_total_pixels s)),
     (''max_width_pixels'', JInt (st_cdr_max_width_pixels s)),
     (''max_width_points'', jfloat (st_cdr_max_width_points s)),
     (''metadata_policy'', jtext PDF_CDR_METADATA_POLICY),
     (''output_mode'', jtext PDF_CDR_OUTPUT_MODE),
     (''renderer'', jtext PDF_CDR_RENDERER),
     (''renderer_version'', jtext PDF_CDR_RENDERER_VERSION),
     (''sanitizer_version'', jtext PDF_CDR_VERSION)])"

definition sanitizer_fingerprint :: "env \<Rightarrow> settings \<Rightarrow> string" where
  "sanitizer_fingerprint env s =
     (case json_text (sanitizer_definition s) of None \<Rightarrow> [] | Some t \<Rightarrow> sha256_text env t)"

definition worker_cdr_config :: "env \<Rightarrow> settings \<Rightarrow> pdf_cdr_request_config" where
  "worker_cdr_config env s = \<lparr>cc_sanitizer_version = PDF_CDR_VERSION,
     cc_sanitizer_fingerprint = sanitizer_fingerprint env s, cc_dpi = PDF_CDR_DPI,
     cc_max_pages = st_cdr_max_pages s,
     cc_max_width_points = pf_value (st_cdr_max_width_points s),
     cc_max_height_points = pf_value (st_cdr_max_height_points s),
     cc_max_width_pixels = st_cdr_max_width_pixels s,
     cc_max_height_pixels = st_cdr_max_height_pixels s,
     cc_max_pixels_per_page = st_cdr_max_pixels_per_page s,
     cc_max_total_pixels = st_cdr_max_total_pixels s,
     cc_max_raster_bytes = st_cdr_max_raster_bytes s,
     cc_max_output_bytes = int (st_cdr_max_output_bytes s)\<rparr>"

definition build_worker_cdr_config ::
  "env \<Rightarrow> settings \<Rightarrow> (world, exn, pdf_cdr_request_config) prog" where
  "build_worker_cdr_config env s =
     bindE (unlessE (cdr_config_ok (worker_cdr_config env s)) ValueError) (\<lambda>_.
       returnE (worker_cdr_config env s))"

definition sanitizer_registry_is_valid :: "env \<Rightarrow> settings \<Rightarrow> bool" where
  "sanitizer_registry_is_valid env s \<longleftrightarrow> cdr_config_ok (worker_cdr_config env s) \<and>
     length (cc_sanitizer_fingerprint (worker_cdr_config env s)) = 64"

section \<open>Messages\<close>

datatype cdr_status = CDR_SUCCESS | CDR_FAILED

datatype cdr_failure_code =
    INELIGIBLE | RENDERER_UNAVAILABLE | RENDER_FAILED | RENDER_TIMEOUT | OUTPUT_LIMIT
  | OUTPUT_INVALID | PAGE_LIMIT | PIXEL_LIMIT | ENCRYPTED | MALFORMED
  | DERIVED_ANALYSIS_REJECTED | HASH_MISMATCH | STORAGE_FAILURE | DATABASE_FAILURE
  | AUDIT_FAILURE | PROMOTION_FAILURE

fun cdr_failure_value :: "cdr_failure_code \<Rightarrow> string" where
  "cdr_failure_value INELIGIBLE = ''ineligible''"
| "cdr_failure_value RENDERER_UNAVAILABLE = ''renderer_unavailable''"
| "cdr_failure_value RENDER_FAILED = ''render_failed''"
| "cdr_failure_value RENDER_TIMEOUT = ''render_timeout''"
| "cdr_failure_value OUTPUT_LIMIT = ''output_limit''"
| "cdr_failure_value OUTPUT_INVALID = ''output_invalid''"
| "cdr_failure_value PAGE_LIMIT = ''page_limit''"
| "cdr_failure_value PIXEL_LIMIT = ''pixel_limit''"
| "cdr_failure_value ENCRYPTED = ''encrypted''"
| "cdr_failure_value MALFORMED = ''malformed''"
| "cdr_failure_value DERIVED_ANALYSIS_REJECTED = ''derived_analysis_rejected''"
| "cdr_failure_value HASH_MISMATCH = ''hash_mismatch''"
| "cdr_failure_value STORAGE_FAILURE = ''storage_failure''"
| "cdr_failure_value DATABASE_FAILURE = ''database_failure''"
| "cdr_failure_value AUDIT_FAILURE = ''audit_failure''"
| "cdr_failure_value PROMOTION_FAILURE = ''promotion_failure''"

record pdf_cdr_result =
  cr_schema_version :: string
  cr_operation :: string
  cr_status :: cdr_status
  cr_sanitizer_version :: string
  cr_sanitizer_fingerprint :: string
  cr_renderer_version :: string
  cr_engine_version :: string
  cr_page_count :: int
  cr_total_pixels :: int
  cr_output_bytes :: int
  cr_duration_ms :: int
  cr_failure_code :: "cdr_failure_code option"

definition pdf_cdr_result_ok :: "pdf_cdr_result \<Rightarrow> bool" where
  "pdf_cdr_result_ok r \<longleftrightarrow>
     1 \<le> length (cr_sanitizer_version r) \<and> length (cr_sanitizer_version r) \<le> 32 \<and>
     hex_digits 64 (cr_sanitizer_fingerprint r) \<and>
     1 \<le> length (cr_renderer_version r) \<and> length (cr_renderer_version r) \<le> 64 \<and>
     1 \<le> length (cr_engine_version r) \<and> length (cr_engine_version r) \<le> 64 \<and>
     0 \<le> cr_page_count r \<and> cr_page_count r \<le> 1000 \<and>
     0 \<le> cr_total_pixels r \<and> cr_total_pixels r \<le> 1000000000 \<and>
     0 \<le> cr_output_bytes r \<and> cr_output_bytes r \<le> 1000000000 \<and> 0 \<le> cr_duration_ms r \<and>
     cr_schema_version r = ANALYSIS_SCHEMA_VERSION \<and> cr_operation r = ''SANITIZE_PDF'' \<and>
     (if cr_status r = CDR_SUCCESS
      then cr_failure_code r = None \<and> 1 \<le> cr_page_count r \<and> 1 \<le> cr_output_bytes r
      else cr_failure_code r \<noteq> None)"

record cdr_eligibility =
  ce_eligible :: bool
  ce_scan_id :: string
  ce_reason_codes :: "string list"
  ce_sanitizer_version :: string
  ce_sanitizer_fingerprint :: string

definition cdr_eligibility_ok :: "cdr_eligibility \<Rightarrow> bool" where
  "cdr_eligibility_ok e \<longleftrightarrow> hex_digits 32 (ce_scan_id e) \<and> length (ce_reason_codes e) \<le> 16 \<and>
     hex_digits 64 (ce_sanitizer_fingerprint e)"

record cdr_service_result =
  cs_source_scan_id :: string
  cs_derived_scan_id :: "string option"
  cs_artifact_id :: "string option"
  cs_approved :: bool
  cs_reused :: bool
  cs_failure_code :: "cdr_failure_code option"

definition cdr_service_result_ok :: "cdr_service_result \<Rightarrow> bool" where
  "cdr_service_result_ok r \<longleftrightarrow> hex_digits 32 (cs_source_scan_id r) \<and>
     (case cs_derived_scan_id r of None \<Rightarrow> True | Some i \<Rightarrow> hex_digits 32 i) \<and>
     (case cs_artifact_id r of None \<Rightarrow> True | Some i \<Rightarrow> hex_digits 32 i)"

definition service_result :: "cdr_service_result \<Rightarrow> (world, exn, cdr_service_result) prog" where
  "service_result r = bindE (unlessE (cdr_service_result_ok r) ValueError) (\<lambda>_. returnE r)"

section \<open>One sanitisation\<close>

record cdr_outcome =
  co_result :: "pdf_cdr_result option"
  co_failure_code :: "cdr_failure_code option"

definition cdr_succeeded :: "cdr_outcome \<Rightarrow> bool" where
  "cdr_succeeded oc \<longleftrightarrow> (case co_result oc of None \<Rightarrow> False | Some r \<Rightarrow> cr_status r = CDR_SUCCESS)"

definition cdr_failure :: "cdr_failure_code \<Rightarrow> cdr_outcome" where
  "cdr_failure code = \<lparr>co_result = None, co_failure_code = Some code\<rparr>"

definition judge_sanitization ::
  "(ustring \<Rightarrow> pdf_cdr_result option) \<Rightarrow> pdf_cdr_request_config \<Rightarrow> worker_execution option \<Rightarrow> cdr_outcome" where
  "judge_sanitization decode expected execution =
     (case execution of None \<Rightarrow> cdr_failure RENDERER_UNAVAILABLE
      | Some x \<Rightarrow>
        if ex_timed_out x then cdr_failure RENDER_TIMEOUT
        else if ex_output_limit_exceeded x \<or> ex_exit_code x \<noteq> Some 0 then cdr_failure RENDER_FAILED
        else case decode (ex_stdout x) of None \<Rightarrow> cdr_failure OUTPUT_INVALID
        | Some r \<Rightarrow>
          if \<not> pdf_cdr_result_ok r then cdr_failure OUTPUT_INVALID
          else if cr_sanitizer_version r \<noteq> cc_sanitizer_version expected \<or>
               cr_sanitizer_fingerprint r \<noteq> cc_sanitizer_fingerprint expected
            then cdr_failure OUTPUT_INVALID
          else if cr_status r = CDR_FAILED then
            \<lparr>co_result = Some r, co_failure_code = Some
               (case cr_failure_code r of None \<Rightarrow> RENDER_FAILED | Some c \<Rightarrow> c)\<rparr>
          else \<lparr>co_result = Some r, co_failure_code = None\<rparr>)"

definition sanitize ::
  "env \<Rightarrow> pdf_cdr_result backend \<Rightarrow> settings \<Rightarrow> path \<Rightarrow> path \<Rightarrow> (world, exn, cdr_outcome) prog" where
  "sanitize env be s source_path output_path =
     bindE (new_id env) (\<lambda>job_id.
     bindE (build_worker_cdr_config env s) (\<lambda>config.
     let request = \<lparr>wr_schema_version = ANALYSIS_SCHEMA_VERSION, wr_job_id = job_id,
           wr_sample_path = be_path_text be source_path, wr_original_filename = u ''source.pdf'',
           wr_claimed_content_type = None, wr_operation = SANITIZE_PDF, wr_cdr = Some config\<rparr> in
     bindE (unlessE (worker_request_ok request) ValueError) (\<lambda>_.
     bindE tickE (\<lambda>k.
     case be_sanitize be k request of (execution, output) \<Rightarrow>
     bindE (modifyE (\<lambda>w. case w_files w output_path of None \<Rightarrow> w
              | Some f \<Rightarrow> set_file output_path (Some (f\<lparr>fl_bytes := output\<rparr>)) w)) (\<lambda>_.
     bindE (build_worker_cdr_config env s) (\<lambda>expected.
       returnE (judge_sanitization (be_decode_cdr be) expected execution)))))))"

text \<open>A sanitisation counts as done only when the worker ended by itself with exit code
  zero within its limits, its message satisfies the contract, names exactly the configured
  sanitizer, and claims at least one page and a non-empty output. In every other case the
  outcome carries a failure code.\<close>

theorem sanitization_accepted:
  "(cdr_succeeded (judge_sanitization decode expected execution) \<longleftrightarrow>
     co_failure_code (judge_sanitization decode expected execution) = None) \<and>
   (cdr_succeeded (judge_sanitization decode expected execution) \<longleftrightarrow>
     (\<exists>x r. execution = Some x \<and> \<not> ex_timed_out x \<and> \<not> ex_output_limit_exceeded x \<and>
        ex_exit_code x = Some 0 \<and> decode (ex_stdout x) = Some r \<and> pdf_cdr_result_ok r \<and>
        cr_sanitizer_version r = cc_sanitizer_version expected \<and>
        cr_sanitizer_fingerprint r = cc_sanitizer_fingerprint expected \<and>
        cr_failure_code r = None \<and> 1 \<le> cr_page_count r \<and> 1 \<le> cr_output_bytes r))"
proof (cases execution)
  case (Some x)
  show ?thesis
  proof (cases "decode (ex_stdout x)")
    case (Some r)
    have "cr_status r = CDR_FAILED \<longleftrightarrow> cr_status r \<noteq> CDR_SUCCESS" by (cases "cr_status r") simp_all
    with Some \<open>execution = Some x\<close> show ?thesis
      by (auto simp: judge_sanitization_def cdr_succeeded_def cdr_failure_def pdf_cdr_result_ok_def)
  qed (simp add: judge_sanitization_def cdr_succeeded_def cdr_failure_def Some)
qed (simp add: judge_sanitization_def cdr_succeeded_def cdr_failure_def)

end
