(* ===== verification/Lineage.thy ===== *)
theory Lineage
  imports Cdr_Contract
begin

text \<open>
  What makes an artifact releasable: \<open>_valid_lineage\<close> of \<open>app/artifacts/service.py\<close>, the
  validated reading of the stored JSON (\<open>_policy_evaluation\<close> of
  \<open>app/cdr/service.py\<close>, \<open>_persisted_evaluation\<close> of \<open>app/api/scans.py\<close>), and the
  invariant of the whole database: every row is in order and every artifact has the
  lineage that a download demands.
\<close>

text \<open>Both readings parse the stored JSON with the strict model and validate it again; the API
  also compares the columns of the row with it.\<close>

definition stored_evaluation :: "scan \<Rightarrow> policy_evaluation option" where
  "stored_evaluation s = Option.bind (sc_policy_evaluation s) validate_evaluation"

definition persisted_evaluation :: "scan \<Rightarrow> policy_evaluation option" where
  "persisted_evaluation s =
     Option.bind (sc_policy_evaluation s) (\<lambda>c. Option.bind (validate_evaluation c) (\<lambda>e.
       if (sc_policy_version s, sc_policy_fingerprint s, sc_risk_score s, sc_severity s,
           sc_decision s, Some (sc_release_eligible s)) =
          (Some (pe_policy_version e), Some (pe_policy_fingerprint e), Some (pe_risk_score e),
           Some (pe_risk_band e), Some (pe_decision e), Some (pe_release_eligible e))
       then Some e else None))"

text \<open>The lineage looks at single members of the JSON, as \<open>evaluation.get\<close> does, and validates
  nothing else.\<close>

definition valid_lineage :: "artifact \<Rightarrow> scan \<Rightarrow> scan \<Rightarrow> bool" where
  "valid_lineage a source derived \<longleftrightarrow>
     af_artifact_type a = PDF_CDR \<and> af_scan_id a = sc_id source \<and>
     af_derived_scan_id a = sc_id derived \<and> sc_origin derived = CDR_DERIVED \<and>
     sc_parent_scan_id derived = Some (sc_id source) \<and> sc_detected_type derived = Some ''PDF'' \<and>
     sc_worker_status derived = ''SUCCESS'' \<and> sc_state derived = COMPLETED \<and>
     sc_decision derived = Some ALLOW \<and> sc_release_eligible derived \<and>
     af_sha256 a = sc_sha256 derived \<and> af_size_bytes a = sc_size_bytes derived \<and>
     Some (af_policy_version a) = sc_policy_version derived \<and>
     Some (af_policy_fingerprint a) = sc_policy_fingerprint derived \<and>
     (case sc_policy_evaluation derived of None \<Rightarrow> False
      | Some c \<Rightarrow> jget (ec_members c) ''decision'' = Some (jtext (decision_value ALLOW)) \<and>
          jget (ec_members c) ''release_eligible'' = Some (JBool True) \<and>
          jget (ec_members c) ''policy_version'' = Some (jtext (af_policy_version a)) \<and>
          jget (ec_members c) ''policy_fingerprint'' = Some (jtext (af_policy_fingerprint a)))"

definition artifact_ok :: "db \<Rightarrow> artifact \<Rightarrow> bool" where
  "artifact_ok d a \<longleftrightarrow> (\<exists>s t. find_scan (af_scan_id a) d = Some s \<and>
     find_scan (af_derived_scan_id a) d = Some t \<and> valid_lineage a s t)"

definition db_ok :: "db \<Rightarrow> bool" where
  "db_ok d \<longleftrightarrow> rows_ok d \<and> (\<forall>a\<in>set (db_artifacts d). artifact_ok d a)"

lemma db_ok_rows: "db_ok d \<Longrightarrow> rows_ok d" and db_ok_schema: "db_ok d \<Longrightarrow> schema_ok d"
  by (simp_all add: db_ok_def rows_ok_def)

lemma evaluated_stored:
  assumes "sc_policy_evaluation s = Some (dump_evaluation e)" "policy_evaluation_ok e"
  shows "stored_evaluation s = Some e" and "columns_agree e s \<Longrightarrow> persisted_evaluation s = Some e"
  using assms by (simp_all add: stored_evaluation_def persisted_evaluation_def validate_dump columns_agree_def)

lemma validated_parse: "validate_evaluation c = Some e \<Longrightarrow> parse_evaluation c = Some e"
  by (simp add: validate_evaluation_def split: option.splits if_splits)

lemma persisted_evaluation_sound:
  assumes "persisted_evaluation s = Some e"
  shows "policy_evaluation_ok e" "columns_agree e s"
    "\<exists>c. sc_policy_evaluation s = Some c \<and> parse_evaluation c = Some e"
proof -
  from assms obtain c where c: "sc_policy_evaluation s = Some c" "validate_evaluation c = Some e"
    and agree: "columns_agree e s"
    unfolding persisted_evaluation_def columns_agree_def
    by (simp only: bind_eq_Some_conv) (simp split: if_splits, blast)
  from validate_ok [OF c(2)] show "policy_evaluation_ok e" .
  from agree show "columns_agree e s" .
  from c(1) validated_parse [OF c(2)] show "\<exists>c. sc_policy_evaluation s = Some c \<and> parse_evaluation c = Some e" by blast
qed

text \<open>The members that the lineage looks at, in a row the service has written.\<close>

lemma evaluated_members:
  assumes "sc_policy_evaluation s = Some (dump_evaluation e)" "columns_agree e s"
  shows "(case sc_policy_evaluation s of None \<Rightarrow> False
      | Some c \<Rightarrow> jget (ec_members c) ''decision'' = Some (jtext (decision_value ALLOW)) \<and>
          jget (ec_members c) ''release_eligible'' = Some (JBool True) \<and>
          jget (ec_members c) ''policy_version'' = Some (jtext version) \<and>
          jget (ec_members c) ''policy_fingerprint'' = Some (jtext fingerprint)) \<longleftrightarrow>
    sc_decision s = Some ALLOW \<and> sc_release_eligible s \<and> sc_policy_version s = Some version \<and>
    sc_policy_fingerprint s = Some fingerprint"
  using assms by (cases "pe_decision e") (auto simp: dump_members_def columns_agree_def)

lemma frame_find:
  assumes "frame (set (db_scans d)) A d'" "schema_ok d" "schema_ok d'" "find_scan i d = Some s"
  shows "find_scan i d' = Some s"
  using assms by (auto simp: frame_def find_scan_Some)

text \<open>Whoever keeps the rows in order and leaves the existing rows and the artifacts alone keeps
  the whole database in order.\<close>

lemma db_ok_frame:
  assumes "db_ok d" "rows_ok d'" "frame (set (db_scans d)) (db_artifacts d) d'"
  shows "db_ok d'"
proof -
  have s: "schema_ok d" "schema_ok d'" using assms by (simp_all add: db_ok_def rows_ok_def)
  have "artifact_ok d' a" if "a \<in> set (db_artifacts d)" for a
    using assms(1) that frame_find [OF assms(3) s] unfolding db_ok_def artifact_ok_def by blast
  with assms show ?thesis by (simp add: db_ok_def frame_def)
qed

lemma register_rows:
  assumes "rows_ok (w_db w)"
  shows "rows_ok (w_db (snd (register_and_analyze env be casefold document q w)))"
  using triple_errorD [OF register_triple assms] triple_valueD [OF register_triple assms]
  by (cases "register_and_analyze env be casefold document q w"; cases "fst (register_and_analyze env be casefold document q w)")
    (fastforce simp: holds_row_def)+

lemma register_frame:
  "frame (set (db_scans (w_db w))) (db_artifacts (w_db w))
     (w_db (snd (register_and_analyze env be casefold document q w)))"
  by (rule keepsD [OF frame_register]) (simp add: frame_def)

lemma register_db_ok: "keeps (\<lambda>w. db_ok (w_db w)) (register_and_analyze env be casefold document q)"
  unfolding keeps_def using db_ok_frame [OF _ register_rows register_frame] db_ok_rows by blast

lemma append_db_ok: "keeps (\<lambda>w. db_ok (w_db w)) (audit_append env q)"
  unfolding keeps_def
proof (intro allI impI)
  fix w :: world assume "db_ok (w_db w)"
  then show "db_ok (w_db (snd (audit_append env q w)))"
    using audit_log.append_scans [of env q w] audit_log.append_artifacts [of env q w]
      audit_log.append_schema [of w env q]
    by (simp add: db_ok_def rows_ok_def artifact_ok_def find_scan_def)
qed

lemma append_frame: "keeps (\<lambda>w. frame S A (w_db w)) (audit_append env q)"
  by (rule audit_log.append_keeps) (simp add: frame_def)

text \<open>Adding an artifact whose lineage is valid.\<close>

lemma insert_artifact_db_ok:
  assumes "valid_lineage a s t"
  shows "triple (\<lambda>d. db_ok d \<and> find_scan (sc_id s) d = Some s \<and> find_scan (sc_id t) d = Some t)
     (insert_artifact a) (\<lambda>_ d. db_ok d \<and> a \<in> set (db_artifacts d)) any_error"
proof (rule tripleI)
  fix d x d'
  assume d: "db_ok d \<and> find_scan (sc_id s) d = Some s \<and> find_scan (sc_id t) d = Some t"
    and run: "insert_artifact a d = (Inr x, d')"
  from run have d': "d' = d\<lparr>db_artifacts := db_artifacts d @ [a]\<rparr>"
    by (auto simp: insert_artifact_def prog_defs split: if_splits)
  have "schema_ok d'" using keepsD [OF insert_artifact_schema, of d a] d run by (simp add: db_ok_schema)
  moreover have "artifact_ok d' a"
    using assms d by (auto simp: artifact_ok_def d' find_scan_def valid_lineage_def)
  ultimately show "db_ok d' \<and> a \<in> set (db_artifacts d')"
    using d by (auto simp: db_ok_def rows_ok_def d' artifact_ok_def find_scan_def)
qed simp

text \<open>C40. The API never has to reject a row the service has written: the JSON that
  \<open>register_and_analyze\<close> stores is accepted by the strict model on both readings (no member
  missing, unknown or of another type, every bound and validator satisfied), gives back exactly
  the evaluation that was dumped, and agrees with the columns. And the API never shows an
  evaluation that does not agree with its row: whatever the row holds, an evaluation it reads
  is valid, is what the JSON parses to and has the version, fingerprint, score, band, decision
  and eligibility of the columns.\<close>

theorem evaluation_reads_back:
  assumes "rows_ok (w_db w)"
    and "register_and_analyze env be casefold document q w = (Inr s, w')"
  shows "(\<exists>e. sc_policy_evaluation s = Some (dump_evaluation e) \<and> persisted_evaluation s = Some e \<and>
      stored_evaluation s = Some e \<and> policy_evaluation_ok e) \<and>
    (\<forall>t e. persisted_evaluation t = Some e \<longrightarrow> policy_evaluation_ok e \<and> columns_agree e t \<and>
      (\<exists>c. sc_policy_evaluation t = Some c \<and> parse_evaluation c = Some e))"
proof (intro conjI allI impI)
  have "evaluated_row s"
    using triple_valueD [OF register_triple assms]
    by (auto simp: analysed_row_def intro!: persist_fields_row marked_row_unevaluated)
  then obtain e where e: "sc_policy_evaluation s = Some (dump_evaluation e)" "policy_evaluation_ok e"
      "columns_agree e s"
    unfolding evaluated_row_def by blast
  then show "\<exists>e. sc_policy_evaluation s = Some (dump_evaluation e) \<and> persisted_evaluation s = Some e \<and>
      stored_evaluation s = Some e \<and> policy_evaluation_ok e"
    using evaluated_stored [OF e(1,2)] by blast
next
  fix t e assume "persisted_evaluation t = Some e"
  then show "policy_evaluation_ok e" "columns_agree e t"
    "\<exists>c. sc_policy_evaluation t = Some c \<and> parse_evaluation c = Some e"
    by (rule persisted_evaluation_sound)+
qed

theorem evaluation_reads_back_witness:
  "\<exists>s w'. register_and_analyze quiet_env silent_backend id sample_document sample_request empty_world
     = (Inr s, w') \<and> persisted_evaluation s \<noteq> None"
  using sample_registration evaluation_reads_back [OF empty_rows_ok] by (metis option.distinct(1))

end
