(* ===== verification/Cdr.thy ===== *)
theory Cdr
  imports Lineage
begin

text \<open>
  The fail-closed PDF workflow of \<open>app/cdr/service.py\<close>: eligibility of the source,
  sanitisation by the isolated renderer, re-analysis of the output as a derived scan, and
  promotion of the output to an approved artifact. The lock that serialises
  \<open>sanitize_pdf\<close> is not part of the state: an operation runs alone in its process.
\<close>

section \<open>Eligibility\<close>

definition pdf_page_count :: "json_object option \<Rightarrow> int option" where
  "pdf_page_count metadata =
     (case metadata of None \<Rightarrow> None
      | Some m \<Rightarrow> (case jget m ''pdf'' of
          Some (JObj pdf) \<Rightarrow> (case jget pdf ''page_count'' of Some (JInt n) \<Rightarrow> Some n | _ \<Rightarrow> None)
        | _ \<Rightarrow> None))"

definition identity_details :: "cdr_eligibility \<Rightarrow> (string \<times> json) list" where
  "identity_details e = [(''sanitizer_version'', jtext (ce_sanitizer_version e)),
     (''sanitizer_fingerprint'', jtext (ce_sanitizer_fingerprint e))]"

text \<open>The reasons the row itself gives, in the order of the code.\<close>

definition row_reasons :: "pdf_cdr_request_config \<Rightarrow> scan \<Rightarrow> string list" where
  "row_reasons config scan =
     (let codes = map fr_code (sc_findings scan); evaluation = stored_evaluation scan;
          page_count = pdf_page_count (sc_analysis_metadata scan) in
      (if sc_detected_type scan \<noteq> Some ''PDF'' then [''NOT_PDF''] else []) @
      (if sc_worker_status scan \<noteq> ''SUCCESS'' \<or>
          (sc_state scan \<noteq> COMPLETED \<and> sc_state scan \<noteq> QUARANTINED)
       then [''ANALYSIS_NOT_SUCCESSFUL''] else []) @
      (if (case evaluation of None \<Rightarrow> True | Some e \<Rightarrow> \<not> pe_analysis_complete e)
       then [''ANALYSIS_INCOMPLETE''] else []) @
      (if list_ex (\<lambda>c. c \<in> {''PDF_PARTIAL_ANALYSIS'', ''PDF_MALFORMED'', ''PDF_ENCRYPTED''}) codes
       then [''PDF_NOT_RENDERABLE''] else []) @
      (if sc_decision scan \<noteq> Some REVIEW \<and> sc_decision scan \<noteq> Some QUARANTINE
       then [''DECISION_NOT_REMEDIABLE''] else []) @
      (if sc_decision scan = Some BLOCK \<or>
          (case evaluation of None \<Rightarrow> False | Some e \<Rightarrow> pe_hard_block_reasons e \<noteq> [])
       then [''SOURCE_BLOCKED''] else []) @
      (if (case page_count of None \<Rightarrow> True | Some n \<Rightarrow> \<not> (1 \<le> n \<and> n \<le> cc_max_pages config))
       then [''PAGE_COUNT_OUT_OF_RANGE''] else []))"

definition make_eligibility ::
  "pdf_cdr_request_config \<Rightarrow> string \<Rightarrow> string list \<Rightarrow> (world, exn, cdr_eligibility) prog" where
  "make_eligibility config scan_id reasons =
     (let e = \<lparr>ce_eligible = (reasons = []), ce_scan_id = scan_id,
          ce_reason_codes = sorted_codes reasons,
          ce_sanitizer_version = cc_sanitizer_version config,
          ce_sanitizer_fingerprint = cc_sanitizer_fingerprint config\<rparr> in
      bindE (unlessE (cdr_eligibility_ok e) ValueError) (\<lambda>_. returnE e))"

definition decision_json :: "decision option \<Rightarrow> json" where
  "decision_json d = (case d of None \<Rightarrow> JNull | Some d \<Rightarrow> jtext (decision_value d))"

definition append_eligibility ::
  "env \<Rightarrow> cdr_eligibility \<Rightarrow> decision option \<Rightarrow> bool \<Rightarrow> (world, exn, unit) prog" where
  "append_eligibility env e source_decision persisted_scan =
     audit_append env (audit_request_of CDR_ELIGIBILITY_CHECKED
        (if persisted_scan then Some (ce_scan_id e) else None)
        (if ce_eligible e then AO_SUCCESS else AO_DENIED)
      \<lparr>aq_reason_code := (case ce_reason_codes e of [] \<Rightarrow> None | c # _ \<Rightarrow> Some c),
       aq_details := obj (identity_details e @
         [(''source_decision'', decision_json source_decision),
          (''requested_scan_id'', jtext (ce_scan_id e)),
          (''reason_codes'', jcodes (ce_reason_codes e))])\<rparr>)"

definition source_reasons :: "env \<Rightarrow> settings \<Rightarrow> scan \<Rightarrow> (world, exn, string list) prog" where
  "source_reasons env st scan =
     catchE (bindE (resolve env QUARANTINE_AREA (sc_storage_key scan)) (\<lambda>source_path.
       bindE (verify_private_document env source_path (sc_sha256 scan) (sc_size_bytes scan)
           (st_maximum_upload_bytes st)) (\<lambda>ok.
         returnE (if ok then [] else [''SOURCE_INTEGRITY_FAILED'']))))
       (\<lambda>e. if is_value_error e then Some (returnE [''SOURCE_STORAGE_INVALID'']) else None)"

definition evaluate_cdr_eligibility ::
  "env \<Rightarrow> settings \<Rightarrow> string \<Rightarrow> bool \<Rightarrow> (world, exn, cdr_eligibility) prog" where
  "evaluate_cdr_eligibility env st scan_id record_audit =
     bindE (build_worker_cdr_config env st) (\<lambda>config.
     bindE (catchE (bindE (get_scan env scan_id) (\<lambda>s. returnE (Some s)))
        (\<lambda>e. if e = ScanNotFound then Some (returnE None) else None)) (\<lambda>found.
     case found of
       None \<Rightarrow>
         bindE (make_eligibility config scan_id [''SCAN_NOT_FOUND'']) (\<lambda>e.
         bindE (if record_audit then append_eligibility env e None False else returnE ()) (\<lambda>_.
           returnE e))
     | Some scan \<Rightarrow>
         bindE (source_reasons env st scan) (\<lambda>storage.
         bindE (make_eligibility config (sc_id scan) (row_reasons config scan @ storage)) (\<lambda>e.
         bindE (if record_audit then append_eligibility env e (sc_decision scan) True else returnE ()) (\<lambda>_.
           returnE e)))))"

section \<open>Results\<close>

definition failed_result ::
  "string \<Rightarrow> cdr_failure_code \<Rightarrow> string option \<Rightarrow> (world, exn, cdr_service_result) prog" where
  "failed_result source_scan_id code derived_scan_id = service_result
     \<lparr>cs_source_scan_id = source_scan_id, cs_derived_scan_id = derived_scan_id,
      cs_artifact_id = None, cs_approved = False, cs_reused = False, cs_failure_code = Some code\<rparr>"

definition reused_result :: "string \<Rightarrow> artifact \<Rightarrow> (world, exn, cdr_service_result) prog" where
  "reused_result source_scan_id existing = service_result
     \<lparr>cs_source_scan_id = source_scan_id, cs_derived_scan_id = Some (af_derived_scan_id existing),
      cs_artifact_id = Some (af_id existing), cs_approved = True, cs_reused = True,
      cs_failure_code = None\<rparr>"

definition safe_audit_failure :: "env \<Rightarrow> string \<Rightarrow> cdr_failure_code \<Rightarrow> (world, exn, unit) prog" where
  "safe_audit_failure env scan_id failure =
     catchE (audit_append env (audit_request_of CDR_PROMOTION_FAILED (Some scan_id) AO_FAILURE
         \<lparr>aq_reason_code := Some (cdr_failure_value failure)\<rparr>))
       (\<lambda>e. if e = AuditPersistenceError then Some (returnE ()) else None)"

definition derived_is_approvable :: "scan \<Rightarrow> string \<Rightarrow> string \<Rightarrow> bool" where
  "derived_is_approvable scan source_id expected_sha256 \<longleftrightarrow>
     sc_origin scan = CDR_DERIVED \<and> sc_parent_scan_id scan = Some source_id \<and>
     sc_sha256 scan = expected_sha256 \<and> sc_detected_type scan = Some ''PDF'' \<and>
     sc_worker_status scan = ''SUCCESS'' \<and> sc_state scan = COMPLETED \<and>
     sc_decision scan = Some ALLOW \<and> sc_release_eligible scan \<and>
     (case stored_evaluation scan of None \<Rightarrow> False
      | Some e \<Rightarrow> pe_analysis_complete e \<and> pe_hard_block_reasons e = [] \<and>
          pe_mandatory_quarantine_reasons e = []) \<and>
     \<not> list_ex (\<lambda>f. incomplete_code (fr_code f)) (sc_findings scan)"

section \<open>The workflow\<close>

text \<open>\<open>scalar_one_or_none\<close> of the artifacts of a source for the current sanitizer.\<close>

definition find_cdr_artifact :: "string \<Rightarrow> string \<Rightarrow> db \<Rightarrow> artifact option" where
  "find_cdr_artifact scan_id fingerprint d =
     find (\<lambda>a. af_scan_id a = scan_id \<and> af_artifact_type a = PDF_CDR \<and>
        af_sanitizer_fingerprint a = fingerprint) (db_artifacts d)"

definition get_existing_cdr_artifact ::
  "env \<Rightarrow> settings \<Rightarrow> string \<Rightarrow> (world, exn, artifact option) prog" where
  "get_existing_cdr_artifact env st scan_id =
     bindE (build_worker_cdr_config env st) (\<lambda>config.
     bindE (query env (getE (find_cdr_artifact scan_id (cc_sanitizer_fingerprint config)))) (\<lambda>found.
     case found of None \<Rightarrow> returnE None
     | Some a \<Rightarrow>
       catchE (bindE (resolve env SANITIZED (af_storage_key a)) (\<lambda>p.
          bindE (verify_private_document env p (af_sha256 a) (af_size_bytes a)
             (st_cdr_max_output_bytes st)) (\<lambda>ok. returnE (if ok then Some a else None))))
         (\<lambda>e. if is_value_error e then Some (returnE None) else None)))"

definition approve ::
  "string \<Rightarrow> instant \<Rightarrow> cdr_eligibility \<Rightarrow> scan \<Rightarrow> artifact \<Rightarrow> (db, exn, unit) prog" where
  "approve i t e derived a =
     bindE (insert_artifact a) (\<lambda>_.
       add_to_transaction i t (audit_request_of CDR_APPROVED (Some (af_scan_id a)) AO_SUCCESS
         \<lparr>aq_artifact_id := Some (af_id a),
          aq_details := obj (identity_details e @
            [(''derived_scan_id'', jtext (sc_id derived)),
             (''derived_decision'', decision_json (sc_decision derived)),
             (''policy_version'', (case sc_policy_version derived of None \<Rightarrow> JNull
                | Some v \<Rightarrow> jtext v))])\<rparr>))"

definition artifact_of ::
  "string \<Rightarrow> instant \<Rightarrow> scan \<Rightarrow> scan \<Rightarrow> cdr_eligibility \<Rightarrow> stored_document \<Rightarrow> artifact" where
  "artifact_of i t source derived e promoted =
     \<lparr>af_id = i, af_scan_id = sc_id source, af_artifact_type = PDF_CDR,
      af_storage_key = sd_storage_key promoted, af_sha256 = sd_sha256 promoted,
      af_derived_scan_id = sc_id derived, af_size_bytes = sd_size_bytes promoted,
      af_sanitizer_version = ce_sanitizer_version e,
      af_sanitizer_fingerprint = ce_sanitizer_fingerprint e,
      af_policy_version = (case sc_policy_version derived of None \<Rightarrow> [] | Some v \<Rightarrow> v),
      af_policy_fingerprint = (case sc_policy_fingerprint derived of None \<Rightarrow> [] | Some v \<Rightarrow> v),
      af_created_at = t\<rparr>"

text \<open>The \<open>except\<close> clauses of the promotion's transaction, each of which returns.\<close>

definition promotion_failed ::
  "env \<Rightarrow> settings \<Rightarrow> scan \<Rightarrow> scan \<Rightarrow> stored_document \<Rightarrow> exn \<Rightarrow>
   (world, exn, cdr_service_result option) prog option" where
  "promotion_failed env st source derived promoted x =
     (if x = IntegrityError then Some
        (bindE (remove_stored_document env promoted) (\<lambda>_.
         bindE (get_existing_cdr_artifact env st (sc_id source)) (\<lambda>existing.
         bindE (case existing of
             None \<Rightarrow> failed_result (sc_id source) DATABASE_FAILURE (Some (sc_id derived))
           | Some b \<Rightarrow> reused_result (sc_id source) b)
           (\<lambda>r. returnE (Some r)))))
      else if is_value_error x then Some
        (bindE (remove_stored_document env promoted) (\<lambda>_.
         bindE (safe_audit_failure env (sc_id source) AUDIT_FAILURE) (\<lambda>_.
         bindE (failed_result (sc_id source) AUDIT_FAILURE (Some (sc_id derived)))
           (\<lambda>r. returnE (Some r)))))
      else if x = SQLAlchemyError then Some
        (bindE (remove_stored_document env promoted) (\<lambda>_.
         bindE (safe_audit_failure env (sc_id source) DATABASE_FAILURE) (\<lambda>_.
         bindE (failed_result (sc_id source) DATABASE_FAILURE (Some (sc_id derived)))
           (\<lambda>r. returnE (Some r)))))
      else None)"

text \<open>From the construction of the artifact to the end of \<open>_promote\<close>.\<close>

definition record_artifact ::
  "env \<Rightarrow> settings \<Rightarrow> scan \<Rightarrow> scan \<Rightarrow> cdr_eligibility \<Rightarrow> stored_document \<Rightarrow>
   (world, exn, cdr_service_result) prog" where
  "record_artifact env st source derived e promoted =
     bindE (new_id env) (\<lambda>artifact_id.
     bindE (new_id env) (\<lambda>event_id.
     bindE (now env) (\<lambda>t.
     bindE (catchE (bindE (transaction env (approve event_id t e derived
           (artifact_of artifact_id t source derived e promoted))) (\<lambda>_. returnE None))
         (promotion_failed env st source derived promoted)) (\<lambda>early.
     case early of
       None \<Rightarrow> service_result \<lparr>cs_source_scan_id = sc_id source,
         cs_derived_scan_id = Some (sc_id derived), cs_artifact_id = Some artifact_id,
         cs_approved = True, cs_reused = False, cs_failure_code = None\<rparr>
     | Some r \<Rightarrow> returnE r))))"

definition promote ::
  "env \<Rightarrow> settings \<Rightarrow> scan \<Rightarrow> scan \<Rightarrow> cdr_eligibility \<Rightarrow> string \<Rightarrow> nat \<Rightarrow>
   (world, exn, cdr_service_result) prog" where
  "promote env st source derived e candidate_sha256 candidate_size =
     bindE (resolve env QUARANTINE_AREA (sc_storage_key derived)) (\<lambda>derived_path.
     bindE (catchE (bindE (store_private_copy env derived_path SANITIZED (st_cdr_max_output_bytes st)
               candidate_sha256) (\<lambda>d. returnE (Some d)))
        (\<lambda>x. if x = StorageFailure then Some (returnE None) else None)) (\<lambda>copied.
     case copied of
       None \<Rightarrow> bindE (safe_audit_failure env (sc_id source) PROMOTION_FAILURE) (\<lambda>_.
         failed_result (sc_id source) PROMOTION_FAILURE (Some (sc_id derived)))
     | Some promoted \<Rightarrow>
       if sd_sha256 promoted \<noteq> sc_sha256 derived \<or> sd_size_bytes promoted \<noteq> candidate_size
       then bindE (remove_stored_document env promoted) (\<lambda>_.
         bindE (safe_audit_failure env (sc_id source) HASH_MISMATCH) (\<lambda>_.
         failed_result (sc_id source) HASH_MISMATCH (Some (sc_id derived))))
       else record_artifact env st source derived e promoted))"

definition audit_denied ::
  "env \<Rightarrow> string \<Rightarrow> cdr_failure_code \<Rightarrow> (string \<times> json) list \<Rightarrow> (world, exn, unit) prog" where
  "audit_denied env scan_id failure details =
     audit_append env (audit_request_of CDR_REJECTED (Some scan_id) AO_DENIED
       \<lparr>aq_reason_code := Some (cdr_failure_value failure), aq_details := obj details\<rparr>)"

definition audit_success ::
  "env \<Rightarrow> audit_event_type \<Rightarrow> string \<Rightarrow> (string \<times> json) list \<Rightarrow> (world, exn, unit) prog" where
  "audit_success env event_type scan_id details =
     audit_append env (audit_request_of event_type (Some scan_id) AO_SUCCESS
       \<lparr>aq_details := obj details\<rparr>)"

definition derived_request :: "string \<Rightarrow> scan_request" where
  "derived_request source_id = \<lparr>sq_original_filename = u ''docguard-cdr.pdf'',
     sq_display_filename = u ''docguard-cdr.pdf'',
     sq_claimed_content_type = Some (u ''application/pdf''), sq_origin = CDR_DERIVED,
     sq_parent_scan_id = Some source_id\<rparr>"

text \<open>The body of the \<open>try\<close> statement in four parts: the verdict on the derived scan, the
  re-analysis, the acceptance of the rendered output, and the rendering.\<close>

definition judge_derived ::
  "env \<Rightarrow> settings \<Rightarrow> scan \<Rightarrow> scan \<Rightarrow> cdr_eligibility \<Rightarrow> string \<Rightarrow> nat \<Rightarrow>
   (world, exn, cdr_service_result) prog" where
  "judge_derived env st source derived e sha n =
     bindE (audit_success env CDR_DERIVED_SCAN_CREATED (sc_id derived)
         [(''source_scan_id'', jtext (sc_id source))]) (\<lambda>_.
     bindE (audit_success env CDR_RESCAN_COMPLETED (sc_id derived)
         [(''decision'', jtext (decision_value (case sc_decision derived of None \<Rightarrow> QUARANTINE
             | Some d \<Rightarrow> d)))]) (\<lambda>_.
     if \<not> derived_is_approvable derived (sc_id source) sha then
       bindE (audit_denied env (sc_id derived) DERIVED_ANALYSIS_REJECTED
           [(''source_scan_id'', jtext (sc_id source)),
            (''derived_decision'', decision_json (sc_decision derived))]) (\<lambda>_.
         failed_result (sc_id source) DERIVED_ANALYSIS_REJECTED (Some (sc_id derived)))
     else promote env st source derived e sha n))"

definition reanalyse ::
  "env \<Rightarrow> pdf_cdr_result backend \<Rightarrow> (ustring \<Rightarrow> ustring) \<Rightarrow> settings \<Rightarrow> scan \<Rightarrow> cdr_eligibility \<Rightarrow>
   string \<Rightarrow> nat \<Rightarrow> stored_document \<Rightarrow> (world, exn, cdr_service_result) prog" where
  "reanalyse env be casefold st source e sha n document =
     bindE (catchE (bindE (register_and_analyze env be casefold document (derived_request (sc_id source)))
          (\<lambda>s. returnE (Inr s)))
        (\<lambda>x. if x = DatabasePersistenceError then Some
           (bindE (remove_stored_document env document) (\<lambda>_.
            bindE (safe_audit_failure env (sc_id source) DATABASE_FAILURE) (\<lambda>_.
            bindE (failed_result (sc_id source) DATABASE_FAILURE None) (\<lambda>r. returnE (Inl r)))))
         else None)) (\<lambda>registered.
     case registered of
       Inl r \<Rightarrow> returnE r
     | Inr derived \<Rightarrow> judge_derived env st source derived e sha n)"

definition accept_output ::
  "env \<Rightarrow> pdf_cdr_result backend \<Rightarrow> (ustring \<Rightarrow> ustring) \<Rightarrow> settings \<Rightarrow> scan \<Rightarrow> path \<Rightarrow>
   cdr_eligibility \<Rightarrow> pdf_cdr_result \<Rightarrow> (world, exn, cdr_service_result) prog" where
  "accept_output env be casefold st source output e rr =
     bindE (finalize_cdr_output env output (st_cdr_max_output_bytes st)) (\<lambda>(sha, n).
     if cr_output_bytes rr \<noteq> int n then
       bindE (safe_audit_failure env (sc_id source) HASH_MISMATCH) (\<lambda>_.
         failed_result (sc_id source) HASH_MISMATCH None)
     else
     bindE (audit_success env CDR_RENDER_COMPLETED (sc_id source) (identity_details e @
         [(''duration_ms'', JInt (cr_duration_ms rr)), (''page_count'', JInt (cr_page_count rr)),
          (''output_bytes'', JInt (int n))])) (\<lambda>_.
     bindE (store_private_copy env output QUARANTINE_AREA (st_cdr_max_output_bytes st) sha)
       (reanalyse env be casefold st source e sha n)))"

definition render_and_promote ::
  "env \<Rightarrow> pdf_cdr_result backend \<Rightarrow> (ustring \<Rightarrow> ustring) \<Rightarrow> settings \<Rightarrow> scan \<Rightarrow> path \<Rightarrow> path \<Rightarrow>
   cdr_eligibility \<Rightarrow> (world, exn, cdr_service_result) prog" where
  "render_and_promote env be casefold st source source_path output e =
     bindE (sanitize env be st source_path output) (\<lambda>render.
     if \<not> cdr_succeeded render then
       (let failure = (case co_failure_code render of None \<Rightarrow> RENDER_FAILED | Some c \<Rightarrow> c) in
        bindE (audit_append env (audit_request_of CDR_RENDER_FAILED (Some (sc_id source)) AO_FAILURE
          \<lparr>aq_reason_code := Some (cdr_failure_value failure),
           aq_details := obj (identity_details e)\<rparr>)) (\<lambda>_.
        bindE (audit_denied env (sc_id source) failure []) (\<lambda>_.
          failed_result (sc_id source) failure None)))
     else case co_result render of
       None \<Rightarrow> failed_result (sc_id source) RENDER_FAILED None
     | Some rr \<Rightarrow> accept_output env be casefold st source output e rr)"

definition output_failed ::
  "env \<Rightarrow> string \<Rightarrow> string \<Rightarrow> exn \<Rightarrow> (world, exn, cdr_service_result) prog option" where
  "output_failed env scan_id source_id x =
     (if x = AuditPersistenceError then Some (failed_result scan_id AUDIT_FAILURE None)
      else if x = StorageFailure then Some
        (bindE (safe_audit_failure env source_id STORAGE_FAILURE) (\<lambda>_.
           failed_result scan_id STORAGE_FAILURE None))
      else None)"

definition discard_output :: "env \<Rightarrow> path \<Rightarrow> (world, exn, unit) prog" where
  "discard_output env output = catchE (remove_cdr_output env output)
     (\<lambda>x. if x = StorageFailure then Some (returnE ()) else None)"

text \<open>From the allocation of the output to the end: \<open>try\<close>, \<open>except\<close> and \<open>finally\<close>.\<close>

definition with_cdr_output ::
  "env \<Rightarrow> string \<Rightarrow> string \<Rightarrow> (path \<Rightarrow> (world, exn, cdr_service_result) prog) \<Rightarrow>
   (world, exn, cdr_service_result) prog" where
  "with_cdr_output env scan_id source_id body =
     bindE (catchE (bindE (create_cdr_output env) (\<lambda>p. returnE (Some p)))
        (\<lambda>x. if x = StorageFailure then Some (returnE None) else None)) (\<lambda>allocated.
     case allocated of
       None \<Rightarrow> bindE (safe_audit_failure env source_id STORAGE_FAILURE) (\<lambda>_.
         failed_result scan_id STORAGE_FAILURE None)
     | Some output \<Rightarrow>
       finallyE (catchE (body output) (output_failed env scan_id source_id))
         (discard_output env output))"

definition sanitize_eligible ::
  "env \<Rightarrow> pdf_cdr_result backend \<Rightarrow> (ustring \<Rightarrow> ustring) \<Rightarrow> settings \<Rightarrow> string \<Rightarrow> cdr_eligibility \<Rightarrow>
   (world, exn, cdr_service_result) prog" where
  "sanitize_eligible env be casefold st scan_id e =
     bindE (get_existing_cdr_artifact env st scan_id) (\<lambda>existing.
     case existing of
       Some a \<Rightarrow> reused_result scan_id a
     | None \<Rightarrow>
     bindE (get_scan env scan_id) (\<lambda>source.
     bindE (resolve env QUARANTINE_AREA (sc_storage_key source)) (\<lambda>source_path.
     bindE (catchE (bindE (audit_success env CDR_STARTED (sc_id source) (identity_details e))
           (\<lambda>_. returnE True))
        (\<lambda>x. if x = AuditPersistenceError then Some (returnE False) else None)) (\<lambda>started.
     if \<not> started then failed_result scan_id AUDIT_FAILURE None
     else with_cdr_output env scan_id (sc_id source) (\<lambda>output.
       render_and_promote env be casefold st source source_path output e)))))"

definition sanitize_pdf ::
  "env \<Rightarrow> pdf_cdr_result backend \<Rightarrow> (ustring \<Rightarrow> ustring) \<Rightarrow> settings \<Rightarrow> string \<Rightarrow>
   (world, exn, cdr_service_result) prog" where
  "sanitize_pdf env be casefold st scan_id =
     bindE (catchE (bindE (evaluate_cdr_eligibility env st scan_id True) (\<lambda>e. returnE (Some e)))
        (\<lambda>x. if x = AuditPersistenceError then Some (returnE None) else None)) (\<lambda>checked.
     case checked of
       None \<Rightarrow> failed_result scan_id AUDIT_FAILURE None
     | Some e \<Rightarrow> if \<not> ce_eligible e then failed_result scan_id INELIGIBLE None
       else sanitize_eligible env be casefold st scan_id e)"

end
