(* ===== verification/Cdr_Properties.thy ===== *)
theory Cdr_Properties
  imports Cdr
begin

text \<open>
  What the CDR workflow guarantees, by Hoare logic over its steps. \<open>found l\<close> is the
  assertion between two steps: the database is in order and the rows \<open>l\<close> the program has
  read are still the stored ones.
\<close>

section \<open>Assertions\<close>

definition found :: "scan list \<Rightarrow> world \<Rightarrow> bool" where
  "found l w \<longleftrightarrow> db_ok (w_db w) \<and> (\<forall>s\<in>set l. find_scan (sc_id s) (w_db w) = Some s)"

definition intact :: "env \<Rightarrow> artifact \<Rightarrow> world \<Rightarrow> bool" where
  "intact env a w \<longleftrightarrow> (\<exists>f. w_files w (SANITIZED, af_storage_key a) = Some f \<and> fl_regular f \<and>
     fl_mode f = 256 \<and> env_sha256 env (fl_bytes f) = af_sha256 a \<and>
     length (fl_bytes f) = af_size_bytes a)"

text \<open>What an approval means: an artifact of that source is stored, with its lineage (by
  \<open>db_ok\<close>), and its object is intact.\<close>

definition approved_post :: "env \<Rightarrow> cdr_service_result \<Rightarrow> world \<Rightarrow> bool" where
  "approved_post env r w \<longleftrightarrow> db_ok (w_db w) \<and> (cs_approved r \<longrightarrow>
     (\<exists>a\<in>set (db_artifacts (w_db w)). cs_artifact_id r = Some (af_id a) \<and>
        af_scan_id a = cs_source_scan_id r \<and> cs_derived_scan_id r = Some (af_derived_scan_id a) \<and>
        intact env a w))"

abbreviation db_kept :: "exn \<Rightarrow> world \<Rightarrow> bool" where
  "db_kept \<equiv> \<lambda>_ w. db_ok (w_db w)"

lemma found_db_ok: "found l w \<Longrightarrow> db_ok (w_db w)"
  by (simp add: found_def)

lemma found_tick [simp]: "found l (w\<lparr>w_tick := k\<rparr>) = found l w"
  by (simp add: found_def)

lemma found_frame: "found l w \<Longrightarrow> db_ok d \<Longrightarrow> frame (set (db_scans (w_db w))) A d \<Longrightarrow>
    w_db w' = d \<Longrightarrow> found l w'"
  using frame_find by (fastforce simp: found_def db_ok_schema)

text \<open>One step that keeps the assertion, followed by the rest.\<close>

lemma step:
  assumes "keeps (found l) m" and "\<And>x. triple (found l) (k x) Q db_kept"
  shows "triple (found l) (bindE m k) Q db_kept"
  by (rule triple_bind [OF triple_weaken [OF iffD1 [OF keeps_triple assms(1)]] assms(2)])
    (simp_all add: found_db_ok)

lemma found_storage: "(\<And>d. keeps (\<lambda>w. w_db w = d) m) \<Longrightarrow> keeps (found l) m"
  by (auto simp: keeps_def found_def)

lemma found_audit: "keeps (found l) (audit_append env q)"
  unfolding keeps_def
proof (intro allI impI)
  fix w assume w: "found l w"
  have "frame (set (db_scans (w_db w))) (db_artifacts (w_db w)) (w_db (snd (audit_append env q w)))"
    by (rule keepsD [OF append_frame]) (simp add: frame_def)
  then show "found l (snd (audit_append env q w))"
    using found_frame [OF w keepsD [OF append_db_ok found_db_ok [OF w]]] by blast
qed

lemma found_calls [keeps_intro]:
  "keeps (found l) (new_id env)" "keeps (found l) (now env)" "keeps (found l) tickE"
  "keeps (found l) (os_call env)" "keeps (found l) (query env m)"
  by (intro keeps_new_id keeps_now keeps_tick keeps_os_call query_keeps; simp)+

lemma found_steps [keeps_intro]:
  "keeps (found l) (resolve env a key)" "keeps (found l) (store_private_copy env src a m sha)"
  "keeps (found l) (remove_stored_document env doc)"
  "keeps (found l) (verify_private_document env p s n m)"
  "keeps (found l) (create_cdr_output env)" "keeps (found l) (finalize_cdr_output env p m)"
  "keeps (found l) (remove_cdr_output env p)" "keeps (found l) (audit_append env q)"
  by (intro found_storage storage_keeps_db found_audit)+

lemma found_audits [keeps_intro]:
  "keeps (found l) (audit_success env t i d)" "keeps (found l) (audit_denied env i c d)"
  unfolding audit_success_def audit_denied_def by (intro found_audit)+

lemma found_config [keeps_intro]: "keeps (found l) (build_worker_cdr_config env st)"
  unfolding build_worker_cdr_config_def by (intro keeps_intro)

lemma found_safe_audit [keeps_intro]: "keeps (found l) (safe_audit_failure env i c)"
  unfolding safe_audit_failure_def
  by (intro keeps_intro) (auto split: if_splits intro: keeps_intro)

lemma found_result [keeps_intro]: "keeps (found l) (failed_result i c d)"
  "keeps (found l) (reused_result i a)" "keeps (found l) (service_result r)"
  unfolding failed_result_def reused_result_def service_result_def by (intro keeps_intro)+

lemma found_sanitize [keeps_intro]: "keeps (found l) (sanitize env be st p q)"
proof -
  have "keeps (found l) (modifyE (\<lambda>w. case w_files w q of None \<Rightarrow> w
              | Some f \<Rightarrow> set_file q (Some (f\<lparr>fl_bytes := out\<rparr>)) w))" for out
    by (rule keeps_modify) (simp add: found_def set_file_def split: option.split)
  then show ?thesis
    unfolding sanitize_def Let_def by (intro keeps_intro)
qed

lemma found_get: "keeps (found l) (get_scan env i)"
  unfolding get_scan_def
  by (intro keeps_intro) (auto split: if_splits intro: keeps_intro)

lemma found_existing [keeps_intro]: "keeps (found l) (get_existing_cdr_artifact env st i)"
  unfolding get_existing_cdr_artifact_def
  by (intro keeps_intro) (auto split: if_splits intro: keeps_intro)

lemma found_eligibility [keeps_intro]: "keeps (found l) (evaluate_cdr_eligibility env st i b)"
  unfolding evaluate_cdr_eligibility_def make_eligibility_def append_eligibility_def source_reasons_def Let_def
  by (intro keeps_intro found_get) (auto split: if_splits intro!: keeps_intro)

section \<open>The derived scan\<close>

lemma register_found:
  "triple (found l) (register_and_analyze env be casefold document q)
     (\<lambda>s w. found (s # l) w \<and> analysed_row env casefold document q s) (\<lambda>_. found l)"
proof (rule tripleI)
  fix w assume w: "found l w"
  let ?m = "register_and_analyze env be casefold document q"
  have ok: "db_ok (w_db w)" by (rule found_db_ok [OF w])
  have l: "found l (snd (?m w))"
    by (rule found_frame [OF w keepsD [OF register_db_ok ok] register_frame refl])
  show "found l w'" if "?m w = (Inl e, w')" for e w'
    using l that by simp
  show "found (s # l) w' \<and> analysed_row env casefold document q s" if "?m w = (Inr s, w')" for s w'
    using triple_valueD [OF register_triple db_ok_rows [OF ok] that] l that
    by (auto simp: found_def holds_row_def)
qed

lemma analysed_row_facts:
  assumes "analysed_row env casefold document q s"
  shows "evaluated_row s" "sc_sha256 s = sd_sha256 document" "sc_size_bytes s = sd_size_bytes document"
    "sc_storage_key s = sd_storage_key document"
  using assms marked_row_unevaluated
  by (auto simp: analysed_row_def mark_fields_def intro!: persist_fields_row)

text \<open>An approvable derived scan gives every artifact made from it a valid lineage.\<close>

lemma approvable_lineage:
  assumes "evaluated_row t" "derived_is_approvable t (sc_id s) sha"
    and "sd_sha256 p = sc_sha256 t" "sd_size_bytes p = sc_size_bytes t"
  shows "valid_lineage (artifact_of i c s t e p) s t"
  using assms
  by (auto simp: valid_lineage_def artifact_of_def derived_is_approvable_def evaluated_row_def
      columns_agree_def dump_members_def split: option.splits)

section \<open>Promotion\<close>

lemma failed_post:
  "triple (found l) (failed_result i c d) (approved_post env) db_kept"
  by (auto simp: triple_def failed_result_def service_result_def prog_defs approved_post_def found_db_ok)

lemma verified_intact:
  assumes "verify_private_document env (SANITIZED, af_storage_key a) (af_sha256 a) (af_size_bytes a) m w = (Inr True, w')"
  shows "intact env a w'"
proof -
  have "keeps (touches_only {} w) (verify_private_document env (SANITIZED, af_storage_key a) (af_sha256 a) (af_size_bytes a) m)"
    unfolding verify_private_document_def
    by (intro keeps_intro) (auto split: if_splits intro: keeps_intro)
  then have "w_files w' = w_files w"
    using keepsD [of "touches_only {} w" _ w] assms by (fastforce simp: touches_only_def)
  with verify_InrD [OF assms] show ?thesis by (auto simp: intact_def)
qed

text \<open>An existing artifact that is offered for reuse is stored and intact.\<close>

definition reusable :: "env \<Rightarrow> string \<Rightarrow> artifact option \<Rightarrow> world \<Rightarrow> bool" where
  "reusable env i r w \<longleftrightarrow> (case r of None \<Rightarrow> True | Some a \<Rightarrow>
     a \<in> set (db_artifacts (w_db w)) \<and> af_scan_id a = i \<and> intact env a w)"

lemma find_cdr_artifact_Some:
  "find_cdr_artifact i fp d = Some a \<Longrightarrow> a \<in> set (db_artifacts d) \<and> af_scan_id a = i"
  by (auto simp: find_cdr_artifact_def find_Some_iff)

lemma verify_db: "verify_private_document env p s n m w = (x, w') \<Longrightarrow> w_db w' = w_db w"
  using keepsD [OF storage_keeps_db(3) refl, of env p s n m w] by simp

lemma existing_triple:
  "triple (found l) (get_existing_cdr_artifact env st i)
     (\<lambda>r w. found l w \<and> reusable env i r w) (\<lambda>_. found l)"
proof (rule tripleI)
  fix w e w' assume "found l w" "get_existing_cdr_artifact env st i w = (Inl e, w')"
  then show "found l w'" using keepsD [OF found_existing] by (metis snd_conv)
next
  fix w r w' assume w: "found l w" and run: "get_existing_cdr_artifact env st i w = (Inr r, w')"
  have l: "found l w'" using keepsD [OF found_existing w] run by (metis snd_conv)
  have "reusable env i r w'"
  proof (cases r)
    case (Some a)
    let ?fp = "cc_sanitizer_fingerprint (worker_cdr_config env st)"
    let ?p = "(SANITIZED, af_storage_key a)"
    let ?v = "verify_private_document env ?p (af_sha256 a) (af_size_bytes a) (st_cdr_max_output_bytes st)"
    from run Some obtain v where f: "find_cdr_artifact i ?fp (w_db w) = Some a"
      and v: "?v v = (Inr True, w')" and dv: "w_db v = w_db w"
      by (auto simp: get_existing_cdr_artifact_def build_worker_cdr_config_def query_def Let_def
          resolve_def validate_storage_key_def prog_defs split: if_splits option.splits prod.splits sum.splits)
    from find_cdr_artifact_Some [OF f] verified_intact [OF v] verify_db [OF v] dv Some
    show ?thesis by (simp add: reusable_def)
  qed (simp add: reusable_def)
  with l show "found l w' \<and> reusable env i r w'" by simp
qed

lemma found_Nil: "found [] w \<longleftrightarrow> db_ok (w_db w)"
  by (simp add: found_def)

definition copied_to :: "env \<Rightarrow> nat \<Rightarrow> stored_document \<Rightarrow> world \<Rightarrow> bool" where
  "copied_to env m d w \<longleftrightarrow>
     (\<exists>c. stored env (SANITIZED, sd_storage_key d) (sd_storage_key d) m c d w)"

lemma copied_to_intact:
  assumes "copied_to env m d w" "af_storage_key a = sd_storage_key d" "af_sha256 a = sd_sha256 d"
    "af_size_bytes a = sd_size_bytes d"
  shows "intact env a w"
  using assms by (cases d) (auto simp: copied_to_def stored_def holds_private_def private_file_def intact_def)

lemma copied_to_files: "w_files w' = w_files w \<Longrightarrow> copied_to env m d w \<Longrightarrow> copied_to env m d w'"
  by (simp add: copied_to_def stored_def holds_private_def)

lemma copy_triple:
  "triple (found l) (catchE (bindE (store_private_copy env src SANITIZED m sha) (\<lambda>d. returnE (Some d)))
        (\<lambda>x. if x = StorageFailure then Some (returnE None) else None))
     (\<lambda>r w. found l w \<and> (case r of None \<Rightarrow> True | Some d \<Rightarrow> copied_to env m d w)) db_kept"
proof (rule triple_catch)
  show "triple (found l) (bindE (store_private_copy env src SANITIZED m sha) (\<lambda>d. returnE (Some d)))
     (\<lambda>r w. found l w \<and> (case r of None \<Rightarrow> True | Some d \<Rightarrow> copied_to env m d w)) (\<lambda>_. found l)"
  proof (rule triple_bind)
    show "triple (found l) (store_private_copy env src SANITIZED m sha)
        (\<lambda>d w. found l w \<and> copied_to env m d w) (\<lambda>_. found l)"
    proof (rule tripleI)
      fix w d w' assume w: "found l w" and run: "store_private_copy env src SANITIZED m sha w = (Inr d, w')"
      show "found l w' \<and> copied_to env m d w'"
        using keepsD [OF found_steps(2) w] run private_copy_InrD [OF run] by (metis copied_to_def snd_conv)
    next
      fix w e w' assume w: "found l w" and run: "store_private_copy env src SANITIZED m sha w = (Inl e, w')"
      show "found l w'" using keepsD [OF found_steps(2) w] run by (metis snd_conv)
    qed
  qed (simp add: triple_return)
qed (auto simp: found_db_ok split: if_splits intro: triple_return)

lemma approve_triple:
  assumes "valid_lineage a s t"
  shows "triple (\<lambda>d. db_ok d \<and> find_scan (sc_id s) d = Some s \<and> find_scan (sc_id t) d = Some t)
     (approve i c e t a) (\<lambda>_ d. db_ok d \<and> a \<in> set (db_artifacts d)) any_error"
proof -
  have "triple (\<lambda>d. db_ok d \<and> a \<in> set (db_artifacts d)) (add_to_transaction i c q)
      (\<lambda>_ d. db_ok d \<and> a \<in> set (db_artifacts d)) any_error" for q
  proof (rule tripleI)
    fix d x d' assume d: "db_ok d \<and> a \<in> set (db_artifacts d)" and run: "add_to_transaction i c q d = (Inr x, d')"
    have "schema_ok d'" using keepsD [OF add_to_transaction_schema, of d i c q] d run by (simp add: db_ok_schema)
    moreover have "db_scans d' = db_scans d" "db_artifacts d' = db_artifacts d"
      using add_to_transaction_effect [OF run] by auto
    ultimately show "db_ok d' \<and> a \<in> set (db_artifacts d')"
      using d by (simp add: db_ok_def rows_ok_def artifact_ok_def find_scan_def)
  qed simp
  then show ?thesis
    unfolding approve_def by (rule triple_bind [OF insert_artifact_db_ok [OF assms]])
qed

lemma approve_transaction:
  assumes "valid_lineage a s t"
  shows "triple (\<lambda>w. found [t, s] w \<and> copied_to env m d w) (transaction env (approve i c e t a))
     (\<lambda>_ w. db_ok (w_db w) \<and> a \<in> set (db_artifacts (w_db w)) \<and> copied_to env m d w) db_kept"
proof (rule tripleI)
  fix w x w' assume w: "found [t, s] w \<and> copied_to env m d w"
    and run: "transaction env (approve i c e t a) w = (Inr x, w')"
  have "w_files w' = w_files w" using transaction_files [of env "approve i c e t a" w] run by simp
  with w triple_valueD [OF transaction_triple [OF approve_triple [OF assms]], OF _ run]
  show "db_ok (w_db w') \<and> a \<in> set (db_artifacts (w_db w')) \<and> copied_to env m d w'"
    by (auto simp: found_def intro: copied_to_files)
next
  fix w x w' assume w: "found [t, s] w \<and> copied_to env m d w"
    and run: "transaction env (approve i c e t a) w = (Inl x, w')"
  show "db_ok (w_db w')"
    using w triple_errorD [OF transaction_triple [OF approve_triple [OF assms]], OF _ run]
    by (auto simp: found_def)
qed

text \<open>Ending in failure or with a reused artifact, from any state in order.\<close>

lemma ends_failed:
  assumes "keeps (found l) m"
  shows "triple (found l) (bindE m (\<lambda>_. failed_result i c d)) (approved_post env) db_kept"
  by (rule step [OF assms failed_post])

lemma reused_post:
  "triple (\<lambda>w. found l w \<and> reusable env i (Some a) w) (reused_result i a) (approved_post env) db_kept"
  by (auto simp: triple_def reused_result_def service_result_def prog_defs approved_post_def reusable_def
      found_db_ok)

definition early_post :: "env \<Rightarrow> cdr_service_result option \<Rightarrow> (world \<Rightarrow> bool) \<Rightarrow> world \<Rightarrow> bool" where
  "early_post env r P w \<longleftrightarrow> (case r of None \<Rightarrow> P w | Some r \<Rightarrow> approved_post env r w)"

lemma early_return:
  "triple P m (approved_post env) db_kept \<Longrightarrow>
     triple P (bindE m (\<lambda>r. returnE (Some r))) (\<lambda>r. early_post env r R) db_kept"
  by (erule triple_bind) (simp add: triple_return early_post_def)

lemma keeps_with_copy:
  assumes "keeps (found l) m" "\<And>F. keeps (\<lambda>w. w_files w = F) m"
  shows "keeps (\<lambda>w. found l w \<and> copied_to env n d w) m"
proof -
  have "w_files (snd (m w)) = w_files w" for w using keepsD [OF assms(2)] by blast
  then show ?thesis using assms(1) copied_to_files unfolding keeps_def by blast
qed

lemma artifact_of_simps [simp]:
  "af_id (artifact_of i c s t e d) = i" "af_scan_id (artifact_of i c s t e d) = sc_id s"
  "af_derived_scan_id (artifact_of i c s t e d) = sc_id t"
  "af_storage_key (artifact_of i c s t e d) = sd_storage_key d"
  "af_sha256 (artifact_of i c s t e d) = sd_sha256 d"
  "af_size_bytes (artifact_of i c s t e d) = sd_size_bytes d"
  by (simp_all add: artifact_of_def)

lemma promotion_failed_triple:
  assumes "promotion_failed env st s t d x = Some k"
  shows "triple (found []) k (\<lambda>r. early_post env r R) db_kept"
proof -
  have fail: "triple (found []) (bindE (remove_stored_document env d) (\<lambda>_.
        bindE (safe_audit_failure env (sc_id s) c) (\<lambda>_.
        bindE (failed_result (sc_id s) c (Some (sc_id t))) (\<lambda>r. returnE (Some r)))))
      (\<lambda>r. early_post env r R) db_kept" for c
    by (intro step found_steps found_safe_audit early_return failed_post)
  have existing: "triple (found []) (get_existing_cdr_artifact env st (sc_id s))
      (\<lambda>r w. found [] w \<and> reusable env (sc_id s) r w) db_kept"
    by (rule triple_weaken [OF existing_triple [of "[]"]]) (auto simp: found_Nil)
  have reuse: "triple (\<lambda>w. found [] w \<and> reusable env (sc_id s) r w)
      (bindE (case r of None \<Rightarrow> failed_result (sc_id s) DATABASE_FAILURE (Some (sc_id t))
         | Some b \<Rightarrow> reused_result (sc_id s) b) (\<lambda>r. returnE (Some r)))
      (\<lambda>r. early_post env r R) db_kept" for r
  proof (cases r)
    case None
    then show ?thesis
      by (simp, intro early_return) (rule triple_weaken [OF failed_post [of "[]"]], auto)
  qed (simp, intro early_return reused_post)
  show ?thesis
    using assms fail step [OF found_steps(3) triple_bind [OF existing reuse], of env d]
    by (auto simp: promotion_failed_def split: if_splits)
qed

definition recorded :: "env \<Rightarrow> nat \<Rightarrow> artifact \<Rightarrow> stored_document \<Rightarrow> world \<Rightarrow> bool" where
  "recorded env m a d w \<longleftrightarrow>
     db_ok (w_db w) \<and> a \<in> set (db_artifacts (w_db w)) \<and> copied_to env m d w"

lemma record_transaction:
  assumes "valid_lineage a s t"
  shows "triple (\<lambda>w. found [t, s] w \<and> copied_to env m d w)
    (catchE (bindE (transaction env (approve i c e t a)) (\<lambda>_. returnE None))
       (promotion_failed env st s t d))
    (\<lambda>r. early_post env r (recorded env m a d)) db_kept"
proof (rule triple_catch)
  have "triple (recorded env m a d) (returnE None) (\<lambda>r. early_post env r (recorded env m a d)) db_kept"
    by (rule triple_return) (simp add: early_post_def)
  with approve_transaction [OF assms]
  have "triple (\<lambda>w. found [t, s] w \<and> copied_to env m d w)
      (bindE (transaction env (approve i c e t a)) (\<lambda>_. returnE None))
      (\<lambda>r. early_post env r (recorded env m a d)) db_kept"
    unfolding recorded_def by (rule triple_bind)
  then show "triple (\<lambda>w. found [t, s] w \<and> copied_to env m d w)
      (bindE (transaction env (approve i c e t a)) (\<lambda>_. returnE None))
      (\<lambda>r. early_post env r (recorded env m a d)) (\<lambda>_. found [])"
    by (rule triple_weaken) (simp_all add: found_Nil)
qed (auto simp: found_Nil dest!: promotion_failed_triple)

lemma step_copied:
  assumes "keeps (found l) m" "\<And>F. keeps (\<lambda>w. w_files w = F) m"
    and "\<And>x. triple (\<lambda>w. found l w \<and> copied_to env n d w) (k x) Q db_kept"
  shows "triple (\<lambda>w. found l w \<and> copied_to env n d w) (bindE m k) Q db_kept"
  by (rule triple_bind [OF triple_weaken [OF iffD1 [OF keeps_triple keeps_with_copy [OF assms(1,2)]]] assms(3)])
    (auto dest: found_db_ok)

lemma record_artifact_triple:
  assumes t: "evaluated_row t" "derived_is_approvable t (sc_id s) sha"
    and d: "sd_sha256 d = sc_sha256 t" "sd_size_bytes d = sc_size_bytes t"
  shows "triple (\<lambda>w. found [t, s] w \<and> copied_to env m d w) (record_artifact env st s t e d)
    (approved_post env) db_kept"
proof -
  have final: "triple (early_post env x (recorded env m (artifact_of i c s t e d) d))
      (case x of None \<Rightarrow> service_result \<lparr>cs_source_scan_id = sc_id s,
           cs_derived_scan_id = Some (sc_id t), cs_artifact_id = Some i, cs_approved = True,
           cs_reused = False, cs_failure_code = None\<rparr>
       | Some r \<Rightarrow> returnE r) (approved_post env) db_kept" for x i c
  proof (cases x)
    case None
    have "intact env (artifact_of i c s t e d) w" if "copied_to env m d w" for w
      by (rule copied_to_intact [OF that]) simp_all
    then have "recorded env m (artifact_of i c s t e d) d w \<Longrightarrow> approved_post env
        \<lparr>cs_source_scan_id = sc_id s, cs_derived_scan_id = Some (sc_id t), cs_artifact_id = Some i,
         cs_approved = True, cs_reused = False, cs_failure_code = None\<rparr> w" for w
      unfolding recorded_def approved_post_def
      by (auto intro!: bexI [of _ "artifact_of i c s t e d"])
    then show ?thesis
      using None by (auto simp: triple_def early_post_def service_result_def prog_defs recorded_def)
  next
    case (Some r)
    show ?thesis unfolding Some option.case by (rule triple_return) (simp add: early_post_def)
  qed
  have clock: "keeps (\<lambda>w. w_files w = F) (new_id env)" "keeps (\<lambda>w. w_files w = F) (now env)" for F
    by (intro keeps_new_id keeps_now; simp)+
  show ?thesis
    unfolding record_artifact_def
    by (intro step_copied [OF found_calls(1) clock(1)] step_copied [OF found_calls(2) clock(2)]
        triple_bind [OF record_transaction [OF approvable_lineage [OF t d]] final])
qed

lemma promote_triple:
  assumes t: "evaluated_row t" "derived_is_approvable t (sc_id s) sha" and n: "sc_size_bytes t = n"
  shows "triple (found [t, s]) (promote env st s t e sha n) (approved_post env) db_kept"
proof -
  let ?m = "st_cdr_max_output_bytes st"
  let ?copied = "\<lambda>x w. found [t, s] w \<and> (case x of None \<Rightarrow> True | Some d \<Rightarrow> copied_to env ?m d w)"
  have mismatch: "triple (found [t, s]) (bindE (remove_stored_document env d) (\<lambda>_.
       bindE (safe_audit_failure env (sc_id s) HASH_MISMATCH) (\<lambda>_.
       failed_result (sc_id s) HASH_MISMATCH (Some (sc_id t))))) (approved_post env) db_kept" for d
    by (intro step found_steps found_safe_audit failed_post)
  have some: "triple (?copied (Some d))
      (if sd_sha256 d \<noteq> sc_sha256 t \<or> sd_size_bytes d \<noteq> n
       then bindE (remove_stored_document env d) (\<lambda>_.
         bindE (safe_audit_failure env (sc_id s) HASH_MISMATCH) (\<lambda>_.
         failed_result (sc_id s) HASH_MISMATCH (Some (sc_id t))))
       else record_artifact env st s t e d) (approved_post env) db_kept" for d
    by (rule triple_if, rule triple_weaken [OF mismatch])
      (use record_artifact_triple [OF t] n in auto)
  have none: "triple (?copied None) (bindE (safe_audit_failure env (sc_id s) PROMOTION_FAILURE) (\<lambda>_.
       failed_result (sc_id s) PROMOTION_FAILURE (Some (sc_id t)))) (approved_post env) db_kept"
    by (rule triple_weaken [OF ends_failed [OF found_safe_audit]]) auto
  show ?thesis
    unfolding promote_def
    by (rule step [OF found_steps(1)], rule triple_bind [OF copy_triple], rule triple_option)
      (use none some in simp_all)
qed

section \<open>From the rendered output to the verdict\<close>

definition holds_size :: "path \<Rightarrow> nat \<Rightarrow> world \<Rightarrow> bool" where
  "holds_size p n w \<longleftrightarrow> (\<exists>f. w_files w p = Some f \<and> length (fl_bytes f) = n)"

lemma hash_files: "hash_descriptor env m c w = (x, w') \<Longrightarrow> w_files w' = w_files w"
  using keepsD [OF touches_hash [of "{}" w], of w env m c] by (force simp: touches_only_def)

lemma finalize_triple:
  "triple (found l) (finalize_cdr_output env p m)
     (\<lambda>(sha, n) w. found l w \<and> holds_size p n w) (\<lambda>_. found l)"
proof (rule tripleI)
  fix w x w' assume w: "found l w" and run: "finalize_cdr_output env p m w = (Inr x, w')"
  obtain sha n where x: "x = (sha, n)" by fastforce
  from run obtain c v v' where c: "open_regular_read_only env p w = (Inr c, v)"
    and h: "hash_descriptor env m c v = (Inr (sha, n), v')"
    and rest: "bindE (os_call env) (\<lambda>_. bindE (chmod_file env p 256) (\<lambda>_. returnE (sha, n))) v' = (Inr (sha, n), w')"
    by (auto simp: x finalize_cdr_output_def catchE_def wrap_os_error_def runs unlessE_def returnE_def raiseE_def
        split: prod.splits sum.splits if_splits)
  have "length c = n" using hash_pieces_Inr [OF h [unfolded hash_descriptor_def]] by simp
  moreover have "\<exists>f. w_files v p = Some f \<and> fl_bytes f = c"
    using c by (auto simp: open_regular_read_only_def runs getE_def unlessE_def returnE_def raiseE_def
        split: option.splits if_splits)
  ultimately have "holds_size p n v'" using hash_files [OF h] by (auto simp: holds_size_def)
  then have "holds_size p n w'"
    using rest by (auto simp: holds_size_def chmod_file_def with_file_def runs getE_def returnE_def raiseE_def
        modifyE_def set_file_def split: option.splits if_splits)
  moreover have "found l w'" using keepsD [OF found_steps(6) w, of env p m] run by simp
  ultimately show "(case x of (sha, n) \<Rightarrow> \<lambda>w. found l w \<and> holds_size p n w) w'" by (simp add: x)
next
  fix w e w' assume w: "found l w" and run: "finalize_cdr_output env p m w = (Inl e, w')"
  show "found l w'" using keepsD [OF found_steps(6) w, of env p m] run by simp
qed

lemma copy_sized_triple:
  "triple (\<lambda>w. found l w \<and> holds_size p n w) (store_private_copy env p QUARANTINE_AREA m sha)
     (\<lambda>d w. found l w \<and> sd_sha256 d = sha \<and> sd_size_bytes d = n) (\<lambda>_. found l)"
proof (rule tripleI)
  fix w d w' assume w: "found l w \<and> holds_size p n w"
    and run: "store_private_copy env p QUARANTINE_AREA m sha w = (Inr d, w')"
  have "found l w'" using keepsD [OF found_steps(2), of l w env p QUARANTINE_AREA m sha] w run by simp
  moreover obtain f where "w_files w p = Some f" "env_sha256 env (fl_bytes f) = sha"
      "stored env (QUARANTINE_AREA, sd_storage_key d) (sd_storage_key d) m (fl_bytes f) d w'"
    using run by (rule private_copy_InrD)
  moreover from this have "sd_sha256 d = env_sha256 env (fl_bytes f)" "sd_size_bytes d = length (fl_bytes f)"
    unfolding stored_def by (metis stored_document.select_convs(3), metis stored_document.select_convs(4))
  ultimately show "found l w' \<and> sd_sha256 d = sha \<and> sd_size_bytes d = n"
    using w by (simp add: holds_size_def)
next
  fix w e w' assume w: "found l w \<and> holds_size p n w"
    and run: "store_private_copy env p QUARANTINE_AREA m sha w = (Inl e, w')"
  show "found l w'" using keepsD [OF found_steps(2), of l w env p QUARANTINE_AREA m sha] w run by simp
qed

lemma judge_derived_triple:
  assumes "evaluated_row t" "sc_size_bytes t = n"
  shows "triple (found [t, s]) (judge_derived env st s t e sha n) (approved_post env) db_kept"
proof -
  have reject: "triple (found [t, s]) (bindE (audit_denied env (sc_id t) DERIVED_ANALYSIS_REJECTED
           [(''source_scan_id'', jtext (sc_id s)), (''derived_decision'', decision_json (sc_decision t))])
         (\<lambda>_. failed_result (sc_id s) DERIVED_ANALYSIS_REJECTED (Some (sc_id t)))) (approved_post env) db_kept"
    by (rule ends_failed [OF found_audits(2)])
  show ?thesis
    unfolding judge_derived_def
    by (rule step [OF found_audits(1)], rule step [OF found_audits(1)], rule triple_if [OF reject])
      (simp add: promote_triple [OF assms(1) _ assms(2)])
qed

lemma reanalyse_triple:
  assumes d: "sd_size_bytes d = n"
  shows "triple (found [s]) (reanalyse env be casefold st s e sha n d) (approved_post env) db_kept"
proof -
  let ?q = "derived_request (sc_id s)"
  let ?registered = "\<lambda>r w. case r of Inl r \<Rightarrow> approved_post env r w
     | Inr t \<Rightarrow> found [t, s] w \<and> analysed_row env casefold d ?q t"
  have reg: "triple (found [s]) (bindE (register_and_analyze env be casefold d ?q) (\<lambda>t. returnE (Inr t)))
      ?registered (\<lambda>_. found [s])"
    by (rule triple_bind [OF register_found]) (rule triple_return, simp)
  have fail: "triple (found [s]) (bindE (remove_stored_document env d) (\<lambda>_.
      bindE (safe_audit_failure env (sc_id s) DATABASE_FAILURE) (\<lambda>_.
      bindE (failed_result (sc_id s) DATABASE_FAILURE None) (\<lambda>r. returnE (Inl r))))) ?registered db_kept"
    by (rule step [OF found_steps(3)], rule step [OF found_safe_audit],
        rule triple_bind [OF failed_post], rule triple_return, simp)
  show ?thesis
    unfolding reanalyse_def
  proof (rule triple_bind [OF triple_catch [OF reg]])
    show "triple (found [s]) k ?registered db_kept"
      if "(if x = DatabasePersistenceError then Some
           (bindE (remove_stored_document env d) (\<lambda>_.
            bindE (safe_audit_failure env (sc_id s) DATABASE_FAILURE) (\<lambda>_.
            bindE (failed_result (sc_id s) DATABASE_FAILURE None) (\<lambda>r. returnE (Inl r)))))
         else None) = Some k" for x k
      using that fail by (simp split: if_splits)
    show "triple (?registered x) (case x of Inl r \<Rightarrow> returnE r
       | Inr t \<Rightarrow> judge_derived env st s t e sha n) (approved_post env) db_kept" for x
    proof (cases x)
      case (Inr t)
      have "triple (found [t, s]) (judge_derived env st s t e sha n) (approved_post env) db_kept"
        if "analysed_row env casefold d ?q t"
        by (rule judge_derived_triple) (use analysed_row_facts [OF that] d in simp_all)
      then show ?thesis using Inr by (auto simp: triple_def)
    qed (simp add: triple_return)
  qed (auto simp: found_db_ok)
qed

lemma audit_sized:
  "triple (\<lambda>w. found l w \<and> holds_size p n w) (audit_success env t i d)
     (\<lambda>_ w. found l w \<and> holds_size p n w) db_kept"
proof -
  have "keeps (holds_size p n) (audit_success env t i d)"
    unfolding audit_success_def by (rule audit_log.append_keeps) (simp add: holds_size_def)
  with found_audits(1) have "keeps (\<lambda>w. found l w \<and> holds_size p n w) (audit_success env t i d)"
    by (simp add: keeps_def)
  then show ?thesis unfolding keeps_triple by (rule triple_weaken) (auto dest: found_db_ok)
qed

lemma accept_output_triple:
  "triple (found [s]) (accept_output env be casefold st s output e rr) (approved_post env) db_kept"
proof -
  have mismatch: "triple (\<lambda>w. found [s] w \<and> holds_size output n w)
      (bindE (safe_audit_failure env (sc_id s) HASH_MISMATCH) (\<lambda>_.
         failed_result (sc_id s) HASH_MISMATCH None)) (approved_post env) db_kept" for n
    by (rule triple_weaken [OF ends_failed [OF found_safe_audit]]) auto
  have copy: "triple (\<lambda>w. found [s] w \<and> holds_size output n w)
      (bindE (store_private_copy env output QUARANTINE_AREA m sha) (reanalyse env be casefold st s e sha n))
      (approved_post env) db_kept" for m sha n
  proof (rule triple_bind)
    show "triple (\<lambda>w. found [s] w \<and> holds_size output n w) (store_private_copy env output QUARANTINE_AREA m sha)
        (\<lambda>d w. found [s] w \<and> sd_size_bytes d = n) db_kept"
      by (rule triple_weaken [OF copy_sized_triple]) (auto dest: found_db_ok)
    show "triple (\<lambda>w. found [s] w \<and> sd_size_bytes d = n) (reanalyse env be casefold st s e sha n d)
        (approved_post env) db_kept" for d
      using reanalyse_triple [of d n s env be casefold st e sha] by (auto simp: triple_def)
  qed
  have fin: "triple (found [s]) (finalize_cdr_output env output m)
      (\<lambda>r w. found [s] w \<and> holds_size output (snd r) w) db_kept" for m
    by (rule triple_weaken [OF finalize_triple]) (auto dest: found_db_ok)
  have rest: "triple (\<lambda>w. found [s] w \<and> holds_size output (snd r) w) (case r of (sha, n) \<Rightarrow>
     if cr_output_bytes rr \<noteq> int n then
       bindE (safe_audit_failure env (sc_id s) HASH_MISMATCH) (\<lambda>_.
         failed_result (sc_id s) HASH_MISMATCH None)
     else
     bindE (audit_success env CDR_RENDER_COMPLETED (sc_id s) (identity_details e @
         [(''duration_ms'', JInt (cr_duration_ms rr)), (''page_count'', JInt (cr_page_count rr)),
          (''output_bytes'', JInt (int n))])) (\<lambda>_.
     bindE (store_private_copy env output QUARANTINE_AREA (st_cdr_max_output_bytes st) sha)
       (reanalyse env be casefold st s e sha n))) (approved_post env) db_kept" for r
  proof (cases r)
    case (Pair sha n)
    show ?thesis
      unfolding Pair prod.case snd_conv
      by (rule triple_if [OF mismatch], rule triple_bind [OF audit_sized copy])
  qed
  show ?thesis unfolding accept_output_def by (rule triple_bind [OF fin rest])
qed

lemma render_triple:
  "triple (found [s]) (render_and_promote env be casefold st s p output e) (approved_post env) db_kept"
proof -
  have fail: "triple (found [s]) (bindE (audit_append env q) (\<lambda>_. bindE (audit_denied env i c d) (\<lambda>_.
      failed_result j c None))) (approved_post env) db_kept" for q i j c d
    by (rule step [OF found_audit], rule ends_failed [OF found_audits(2)])
  show ?thesis
    unfolding render_and_promote_def Let_def
    by (rule step [OF found_sanitize], rule triple_if [OF fail], rule triple_option)
      (simp_all add: failed_post accept_output_triple)
qed

text \<open>The \<open>finally\<close> block removes a temporary, never an approved object.\<close>

lemma discard_handler:
  "(if x = StorageFailure then Some (returnE ()) else None) = Some k \<Longrightarrow> keeps I k"
  by (auto split: if_splits intro: keeps_intro)

lemma wrap_handler: "wrap_os_error e = Some k \<Longrightarrow> keeps I k"
  by (auto dest!: wrap_os_errorD intro: keeps_intro)

lemma discard_output_triple:
  "triple (approved_post env r) (discard_output env (WORK, n)) (\<lambda>_. approved_post env r) db_kept"
proof -
  have "keeps (approved_post env r) (unlink_file env (WORK, n))"
    unfolding unlink_file_def
    by (intro keeps_intro keeps_os_call keeps_modify) (auto simp: approved_post_def intact_def set_file_def)
  then have "keeps (approved_post env r) (discard_output env (WORK, n))"
    unfolding discard_output_def remove_cdr_output_def
    by (rule keeps_catch [OF keeps_catch [OF _ wrap_handler] discard_handler])
  then show ?thesis unfolding keeps_triple by (rule triple_weaken) (auto simp: approved_post_def)
qed

lemma discard_output_db:
  "triple (\<lambda>w. db_ok (w_db w)) (discard_output env p) (\<lambda>_ w. db_ok (w_db w)) db_kept"
proof -
  have "keeps (found []) (discard_output env p)"
    unfolding discard_output_def by (intro keeps_catch found_steps discard_handler)
  then show ?thesis unfolding keeps_triple by (rule triple_weaken) (simp_all add: found_Nil)
qed

lemma create_output_triple:
  "triple (found l) (create_cdr_output env) (\<lambda>p w. found l w \<and> fst p = WORK) (\<lambda>_. found l)"
proof (rule tripleI)
  fix w p w' assume w: "found l w" and run: "create_cdr_output env w = (Inr p, w')"
  have "found l w'" using keepsD [OF found_steps(5) w, of env] run by simp
  moreover have "fst p = WORK"
    using run by (auto simp: create_cdr_output_def runs Let_def returnE_def split: prod.splits sum.splits)
  ultimately show "found l w' \<and> fst p = WORK" by simp
next
  fix w e w' assume w: "found l w" and run: "create_cdr_output env w = (Inl e, w')"
  show "found l w'" using keepsD [OF found_steps(5) w, of env] run by simp
qed

lemma allocate_triple:
  "triple (found l) (catchE (bindE (create_cdr_output env) (\<lambda>p. returnE (Some p)))
        (\<lambda>x. if x = StorageFailure then Some (returnE None) else None))
      (\<lambda>r w. found l w \<and> (\<forall>p. r = Some p \<longrightarrow> fst p = WORK)) db_kept"
proof (rule triple_catch)
  show "triple (found l) (bindE (create_cdr_output env) (\<lambda>p. returnE (Some p)))
      (\<lambda>r w. found l w \<and> (\<forall>p. r = Some p \<longrightarrow> fst p = WORK)) (\<lambda>_. found l)"
    by (rule triple_bind [OF create_output_triple]) (rule triple_return, simp)
qed (auto simp: found_db_ok split: if_splits intro: triple_return)

lemma output_failed_triple:
  assumes "output_failed env i j x = Some k"
  shows "triple (\<lambda>w. db_ok (w_db w)) k (approved_post env) db_kept"
proof -
  have "triple (found []) (bindE (safe_audit_failure env j STORAGE_FAILURE) (\<lambda>_.
        failed_result i STORAGE_FAILURE None)) (approved_post env) db_kept"
    by (rule ends_failed [OF found_safe_audit])
  with failed_post [of "[]"] assms show ?thesis
    by (auto simp: output_failed_def found_Nil [abs_def] split: if_splits)
qed

lemma with_cdr_output_triple:
  assumes "\<And>p. triple (found l) (body p) (approved_post env) db_kept"
  shows "triple (found l) (with_cdr_output env i j body) (approved_post env) db_kept"
proof -
  have caught: "triple (found l) (catchE (body p) (output_failed env i j)) (approved_post env) db_kept" for p
    by (rule triple_catch [OF assms output_failed_triple])
  have "triple (\<lambda>w. found l w \<and> (\<forall>p. x = Some p \<longrightarrow> fst p = WORK)) (case x of
       None \<Rightarrow> bindE (safe_audit_failure env j STORAGE_FAILURE) (\<lambda>_. failed_result i STORAGE_FAILURE None)
     | Some output \<Rightarrow> finallyE (catchE (body output) (output_failed env i j)) (discard_output env output))
     (approved_post env) db_kept" for x
  proof (cases x)
    case None
    then show ?thesis by simp (rule triple_weaken [OF ends_failed [OF found_safe_audit]], auto)
  next
    case (Some p)
    show ?thesis
    proof (cases "fst p = WORK")
      case True
      then obtain n where "p = (WORK, n)" by (cases p) simp
      with Some triple_finally [OF caught discard_output_triple discard_output_db, of p n]
      show ?thesis by simp
    qed (simp add: Some triple_def)
  qed
  then show ?thesis unfolding with_cdr_output_def by (rule triple_bind [OF allocate_triple])
qed

section \<open>The whole workflow\<close>

lemma get_found:
  "triple (found l) (get_scan env i) (\<lambda>s w. found [s] w \<and> sc_id s = i) (\<lambda>_. found l)"
proof (rule tripleI)
  fix w s w' assume w: "found l w" and run: "get_scan env i w = (Inr s, w')"
  have "find_scan i (w_db w) = Some s" "w_db w' = w_db w"
    using run by (auto simp: get_scan_def catchE_def query_def Let_def bindE_def getE_def returnE_def raiseE_def
        split: if_splits option.splits)
  moreover have "sc_id s = i" using calculation(1) by (auto simp: find_scan_def lookup_row_def find_Some_iff)
  ultimately show "found [s] w' \<and> sc_id s = i" using w by (simp add: found_def)
next
  fix w e w' assume w: "found l w" and run: "get_scan env i w = (Inl e, w')"
  show "found l w'" using keepsD [OF found_get w, of env i] run by simp
qed

lemma sanitize_eligible_triple:
  "triple (found []) (sanitize_eligible env be casefold st i e) (approved_post env) db_kept"
proof -
  have start: "triple (found [s]) (bindE (catchE (bindE (audit_success env CDR_STARTED (sc_id s) (identity_details e))
           (\<lambda>_. returnE True))
        (\<lambda>x. if x = AuditPersistenceError then Some (returnE False) else None)) (\<lambda>started.
     if \<not> started then failed_result i AUDIT_FAILURE None
     else with_cdr_output env i (sc_id s) (\<lambda>output.
       render_and_promote env be casefold st s p output e))) (approved_post env) db_kept" for s p
  proof (rule step)
    show "keeps (found [s]) (catchE (bindE (audit_success env CDR_STARTED (sc_id s) (identity_details e))
           (\<lambda>_. returnE True)) (\<lambda>x. if x = AuditPersistenceError then Some (returnE False) else None))"
      by (intro keeps_intro) (auto split: if_splits intro: keeps_intro)
  qed (rule triple_if [OF failed_post with_cdr_output_triple [OF render_triple]])
  have fresh: "triple (found []) (bindE (get_scan env i) (\<lambda>s.
     bindE (resolve env QUARANTINE_AREA (sc_storage_key s)) (\<lambda>p.
     bindE (catchE (bindE (audit_success env CDR_STARTED (sc_id s) (identity_details e))
           (\<lambda>_. returnE True))
        (\<lambda>x. if x = AuditPersistenceError then Some (returnE False) else None)) (\<lambda>started.
     if \<not> started then failed_result i AUDIT_FAILURE None
     else with_cdr_output env i (sc_id s) (\<lambda>output.
       render_and_promote env be casefold st s p output e))))) (approved_post env) db_kept"
  proof (rule triple_bind)
    show "triple (found []) (get_scan env i) (\<lambda>s. found [s]) db_kept"
      by (rule triple_weaken [OF get_found [of "[]"]]) (auto simp: found_Nil)
  qed (rule step [OF found_steps(1) start])
  have existing: "triple (found []) (get_existing_cdr_artifact env st i)
      (\<lambda>r w. found [] w \<and> reusable env i r w) db_kept"
    by (rule triple_weaken [OF existing_triple [of "[]"]]) (auto simp: found_Nil)
  show ?thesis
    unfolding sanitize_eligible_def
  proof (rule triple_bind [OF existing], rule triple_option)
    fix x :: "artifact option" and a assume "x = Some a"
    then show "triple (\<lambda>w. found [] w \<and> reusable env i x w) (reused_result i a) (approved_post env) db_kept"
      using reused_post by simp
  qed (rule triple_weaken [OF fresh], simp_all)
qed

lemma sanitize_pdf_triple:
  "triple (\<lambda>w. db_ok (w_db w)) (sanitize_pdf env be casefold st i) (approved_post env) db_kept"
proof -
  have "keeps (found []) (catchE (bindE (evaluate_cdr_eligibility env st i True) (\<lambda>e. returnE (Some e)))
        (\<lambda>x. if x = AuditPersistenceError then Some (returnE None) else None))"
    by (intro keeps_intro) (auto split: if_splits intro: keeps_intro)
  then have "triple (found []) (sanitize_pdf env be casefold st i) (approved_post env) db_kept"
    unfolding sanitize_pdf_def
    by (rule step) (intro triple_option triple_if failed_post sanitize_eligible_triple)
  then show ?thesis by (simp add: found_Nil [abs_def])
qed

section \<open>Existing rows are never changed\<close>

definition old :: "scan set \<Rightarrow> artifact set \<Rightarrow> world \<Rightarrow> bool" where
  "old S A w \<longleftrightarrow> S \<subseteq> set (db_scans (w_db w)) \<and> A \<subseteq> set (db_artifacts (w_db w))"

lemma old_db: "w_db w' = w_db w \<Longrightarrow> old S A w' = old S A w"
  by (simp add: old_def)

lemma old_calls [keeps_intro]:
  "keeps (old S A) (new_id env)" "keeps (old S A) (now env)" "keeps (old S A) tickE"
  "keeps (old S A) (os_call env)" "keeps (old S A) (query env m)"
  by (intro keeps_new_id keeps_now keeps_tick keeps_os_call query_keeps; simp add: old_def)+

lemma old_storage: "(\<And>d. keeps (\<lambda>w. w_db w = d) m) \<Longrightarrow> keeps (old S A) m"
  by (auto simp: keeps_def old_def)

lemma old_audit [keeps_intro]: "keeps (old S A) (audit_append env q)"
  by (rule audit_log.append_keeps) (simp add: old_def)

lemma old_steps [keeps_intro]:
  "keeps (old S A) (resolve env a key)" "keeps (old S A) (store_private_copy env src ar m sha)"
  "keeps (old S A) (remove_stored_document env doc)"
  "keeps (old S A) (verify_private_document env p s n m)"
  "keeps (old S A) (create_cdr_output env)" "keeps (old S A) (finalize_cdr_output env p m)"
  "keeps (old S A) (remove_cdr_output env p)"
  by (intro old_storage storage_keeps_db)+

lemma old_small [keeps_intro]:
  "keeps (old S A) (audit_success env t i d)" "keeps (old S A) (audit_denied env i c d)"
  "keeps (old S A) (build_worker_cdr_config env st)" "keeps (old S A) (failed_result i c e)"
  "keeps (old S A) (reused_result i a)" "keeps (old S A) (service_result r)"
  unfolding audit_success_def audit_denied_def build_worker_cdr_config_def failed_result_def
    reused_result_def service_result_def
  by (intro keeps_intro)+

lemma old_handlers [keeps_intro]:
  "keeps (old S A) (safe_audit_failure env i c)" "keeps (old S A) (discard_output env p)"
  "keeps (old S A) (get_scan env i)" "keeps (old S A) (get_existing_cdr_artifact env st i)"
  unfolding safe_audit_failure_def discard_output_def get_scan_def get_existing_cdr_artifact_def
  by (intro keeps_intro; auto split: if_splits intro: keeps_intro)+

lemma old_sanitize [keeps_intro]: "keeps (old S A) (sanitize env be st p q)"
proof -
  have "keeps (old S A) (modifyE (\<lambda>w. case w_files w q of None \<Rightarrow> w
              | Some f \<Rightarrow> set_file q (Some (f\<lparr>fl_bytes := out\<rparr>)) w))" for out
    by (rule keeps_modify) (simp add: old_def set_file_def split: option.split)
  then show ?thesis
    unfolding sanitize_def Let_def by (intro keeps_intro)
qed

lemma old_eligibility [keeps_intro]: "keeps (old S A) (evaluate_cdr_eligibility env st i b)"
  unfolding evaluate_cdr_eligibility_def make_eligibility_def append_eligibility_def source_reasons_def Let_def
  by (intro keeps_intro) (auto split: if_splits intro!: keeps_intro)

lemma old_register [keeps_intro]: "keeps (old S A) (register_and_analyze env be casefold document q)"
  unfolding keeps_def
proof (intro allI impI)
  fix w assume w: "old S A w"
  have "frame S (db_artifacts (w_db w)) (w_db (snd (register_and_analyze env be casefold document q w)))"
    by (rule keepsD [OF frame_register]) (use w in \<open>simp add: old_def frame_def\<close>)
  with w show "old S A (snd (register_and_analyze env be casefold document q w))"
    by (simp add: old_def frame_def)
qed

lemma old_approve [keeps_intro]: "keeps (old S A) (transaction env (approve i c e t a))"
proof (rule transaction_keeps)
  let ?J = "\<lambda>d::db. S \<subseteq> set (db_scans d) \<and> A \<subseteq> set (db_artifacts d)"
  have "keeps ?J (insert_artifact a)"
    by (auto simp: keeps_def insert_artifact_def prog_defs)
  moreover have "keeps ?J (add_to_transaction i c q)" for q
  proof (unfold keeps_def, intro allI impI)
    fix d :: db assume d: "?J d"
    obtain x d' where run: "add_to_transaction i c q d = (x, d')" by fastforce
    from add_to_transaction_effect [OF run] d show "?J (snd (add_to_transaction i c q d))"
      by (auto simp: run)
  qed
  ultimately show "keeps ?J (approve i c e t a)" unfolding approve_def by (intro keeps_bind)
qed (simp add: old_def)

lemma old_failed [keeps_intro]:
  assumes "promotion_failed env st s t p x = Some k"
  shows "keeps (old S A) k"
  using assms
  by (auto simp: promotion_failed_def split: if_splits intro!: keeps_intro split: option.split)

lemma old_record [keeps_intro]: "keeps (old S A) (record_artifact env st s t e p)"
  unfolding record_artifact_def
  by (intro keeps_intro keeps_catch) (auto intro: keeps_intro old_failed split: option.split)

lemma storage_none_handler:
  "(if x = StorageFailure then Some (returnE None) else None) = Some k \<Longrightarrow> keeps I k"
  by (auto split: if_splits intro: keeps_intro)

lemma old_promote [keeps_intro]: "keeps (old S A) (promote env st s t e sha n)"
proof -
  have copy: "keeps (old S A) (catchE (bindE (store_private_copy env p SANITIZED m sha) (\<lambda>d. returnE (Some d)))
        (\<lambda>x. if x = StorageFailure then Some (returnE None) else None))" for p m
    by (rule keeps_catch [OF _ storage_none_handler]) (intro keeps_intro)
  show ?thesis
    unfolding promote_def
    by (intro keeps_bind [OF old_steps(1)] keeps_bind [OF copy])
      (auto intro!: keeps_intro split: option.split)
qed

lemma old_judge [keeps_intro]: "keeps (old S A) (judge_derived env st s t e sha n)"
  unfolding judge_derived_def by (intro keeps_bind [OF old_small(1)]) (auto intro: keeps_intro)

lemma old_reanalyse [keeps_intro]: "keeps (old S A) (reanalyse env be casefold st s e sha n p)"
proof -
  have "keeps (old S A) (catchE (bindE (register_and_analyze env be casefold p (derived_request (sc_id s)))
          (\<lambda>s. returnE (Inr s)))
        (\<lambda>x. if x = DatabasePersistenceError then Some
           (bindE (remove_stored_document env p) (\<lambda>_.
            bindE (safe_audit_failure env (sc_id s) DATABASE_FAILURE) (\<lambda>_.
            bindE (failed_result (sc_id s) DATABASE_FAILURE None) (\<lambda>r. returnE (Inl r)))))
         else None))"
    by (rule keeps_catch) (auto intro!: keeps_intro split: if_splits)
  then show ?thesis
    unfolding reanalyse_def by (rule keeps_bind) (auto intro!: keeps_intro split: sum.split)
qed

lemma old_accept [keeps_intro]: "keeps (old S A) (accept_output env be casefold st s p e r)"
  unfolding accept_output_def by (intro keeps_bind [OF old_steps(6)]) (auto intro!: keeps_intro)

lemma old_render [keeps_intro]: "keeps (old S A) (render_and_promote env be casefold st s p q e)"
  unfolding render_and_promote_def Let_def
  by (intro keeps_bind [OF old_sanitize]) (auto intro!: keeps_intro split: option.split)

lemma old_output [keeps_intro]:
  assumes "\<And>p. keeps (old S A) (body p)"
  shows "keeps (old S A) (with_cdr_output env i j body)"
proof -
  have allocate: "keeps (old S A) (catchE (bindE (create_cdr_output env) (\<lambda>p. returnE (Some p)))
        (\<lambda>x. if x = StorageFailure then Some (returnE None) else None))"
    by (rule keeps_catch [OF _ storage_none_handler]) (intro keeps_intro)
  have body: "keeps (old S A) (catchE (body p) (output_failed env i j))" for p
    by (rule keeps_catch [OF assms]) (auto simp: output_failed_def split: if_splits intro!: keeps_intro)
  show ?thesis
    unfolding with_cdr_output_def
    by (rule keeps_bind [OF allocate]) (auto intro!: keeps_intro body split: option.split)
qed

lemma old_eligible [keeps_intro]: "keeps (old S A) (sanitize_eligible env be casefold st i e)"
proof -
  have start: "keeps (old S A) (catchE (bindE (audit_success env CDR_STARTED j d) (\<lambda>_. returnE True))
        (\<lambda>x. if x = AuditPersistenceError then Some (returnE False) else None))" for j d
    by (rule keeps_catch) (auto intro!: keeps_intro split: if_splits)
  show ?thesis
    unfolding sanitize_eligible_def
    by (rule keeps_bind [OF old_handlers(4)])
      (auto intro!: keeps_intro start split: option.split)
qed

lemma old_sanitize_pdf: "keeps (old S A) (sanitize_pdf env be casefold st i)"
proof -
  have "keeps (old S A) (catchE (bindE (evaluate_cdr_eligibility env st i True) (\<lambda>e. returnE (Some e)))
        (\<lambda>x. if x = AuditPersistenceError then Some (returnE None) else None))"
    by (rule keeps_catch) (auto intro!: keeps_intro split: if_splits)
  then show ?thesis
    unfolding sanitize_pdf_def by (rule keeps_bind) (auto intro!: keeps_intro split: option.split)
qed


end
