(* ===== verification/Cdr_Results.thy ===== *)
theory Cdr_Results
  imports Cdr_Properties
begin

text \<open>
  The promises of \<open>PdfCdrService.sanitize_pdf\<close>, read off the assertions of
  \<open>Cdr_Properties\<close>, and a concrete world in which a sanitisation is approved.
\<close>

section \<open>A world with an approved artifact\<close>

definition sample_settings :: settings where
  "sample_settings = \<lparr>st_maximum_upload_bytes = 1000, st_cdr_max_pages = 10,
     st_cdr_max_width_points = \<lparr>pf_value = 2000, pf_repr = ''2000.0''\<rparr>,
     st_cdr_max_height_points = \<lparr>pf_value = 2000, pf_repr = ''2000.0''\<rparr>,
     st_cdr_max_width_pixels = 5000, st_cdr_max_height_pixels = 5000,
     st_cdr_max_pixels_per_page = 10000000, st_cdr_max_total_pixels = 10000000,
     st_cdr_max_raster_bytes = 1000000, st_cdr_max_output_bytes = 1000\<rparr>"

definition sample_backend :: "pdf_cdr_result backend" where
  "sample_backend = \<lparr>be_path_text = (\<lambda>_. [47]), be_execute = (\<lambda>_ _. None),
     be_sanitize = (\<lambda>_ _. (None, [])), be_decode = (\<lambda>_. None), be_decode_cdr = (\<lambda>_. None)\<rparr>"

definition sample_evaluated :: "string list \<Rightarrow> policy_evaluation" where
  "sample_evaluated cs = evaluation_of cs [] 7"

definition two_bytes_sha :: string where
  "two_bytes_sha = replicate 63 CHR ''0'' @ ''2''"

definition sample_scan :: "string \<Rightarrow> scan_origin \<Rightarrow> string option \<Rightarrow> policy_evaluation \<Rightarrow> scan" where
  "sample_scan i origin parent e = \<lparr>sc_id = i, sc_original_filename = [97],
     sc_display_filename = [97], sc_storage_key = i, sc_origin = origin,
     sc_parent_scan_id = parent, sc_sha256 = two_bytes_sha, sc_size_bytes = 2,
     sc_claimed_extension = None, sc_claimed_content_type = None, sc_state = COMPLETED,
     sc_detected_type = Some ''PDF'', sc_detected_mime = None, sc_analysis_error_code = None,
     sc_risk_score = Some (pe_risk_score e), sc_severity = Some (pe_risk_band e),
     sc_decision = Some (pe_decision e), sc_policy_version = Some (pe_policy_version e),
     sc_policy_fingerprint = Some (pe_policy_fingerprint e),
     sc_release_eligible = pe_release_eligible e, sc_policy_evaluation = Some (dump_evaluation e),
     sc_analysis_metadata = Some (obj [(''pdf'', JObj (obj [(''page_count'', JInt 1)]))]),
     sc_worker_status = ''SUCCESS'', sc_analysis_duration_ms = None,
     sc_analysis_started_at = None, sc_analysis_completed_at = None, sc_created_at = 1,
     sc_updated_at = 2, sc_findings = []\<rparr>"

definition source_id :: string where "source_id = replicate 32 CHR ''a''"
definition derived_id :: string where "derived_id = replicate 32 CHR ''b''"
definition artifact_key :: string where "artifact_key = replicate 32 CHR ''c''"

definition sample_source :: scan where
  "sample_source = sample_scan source_id UPLOAD None (sample_evaluated [''PDF_XFA''])"

definition sample_derived :: scan where
  "sample_derived = sample_scan derived_id CDR_DERIVED (Some source_id) (sample_evaluated [])"

definition sample_artifact :: artifact where
  "sample_artifact = \<lparr>af_id = artifact_key, af_scan_id = source_id, af_artifact_type = PDF_CDR,
     af_storage_key = artifact_key, af_sha256 = two_bytes_sha, af_derived_scan_id = derived_id,
     af_size_bytes = 2, af_sanitizer_version = PDF_CDR_VERSION,
     af_sanitizer_fingerprint = sanitizer_fingerprint quiet_env sample_settings,
     af_policy_version = POLICY_VERSION, af_policy_fingerprint = POLICY_FINGERPRINT,
     af_created_at = 3\<rparr>"

definition approved_world :: world where
  "approved_world = \<lparr>w_db = \<lparr>db_scans = [sample_source, sample_derived],
       db_artifacts = [sample_artifact], db_events = []\<rparr>,
     w_files = (\<lambda>p. if p = (QUARANTINE_AREA, source_id) \<or> p = (QUARANTINE_AREA, derived_id) \<or>
         p = (SANITIZED, artifact_key)
       then Some \<lparr>fl_bytes = [37, 80], fl_mode = 256, fl_regular = True, fl_owned = True,
         fl_links = 1, fl_mtime = 0\<rparr> else None),
     w_tick = 0\<rparr>"

lemma sample_evaluations:
  "policy_evaluation_ok (sample_evaluated [])" "pe_decision (sample_evaluated []) = ALLOW"
  "pe_release_eligible (sample_evaluated [])"
  "pe_mandatory_quarantine_reasons (sample_evaluated []) = []"
  "pe_policy_version (sample_evaluated cs) = POLICY_VERSION"
  "pe_policy_fingerprint (sample_evaluated cs) = POLICY_FINGERPRINT"
  "policy_evaluation_ok (sample_evaluated [''PDF_XFA''])"
  "pe_decision (sample_evaluated [''PDF_XFA'']) = REVIEW"
  "pe_analysis_complete (sample_evaluated [''PDF_XFA''])"
  "\<not> pe_release_eligible (sample_evaluated [''PDF_XFA''])"
  "pe_hard_block_reasons (sample_evaluated [''PDF_XFA'']) = []"
proof -
  show "pe_policy_version (sample_evaluated cs) = POLICY_VERSION"
    "pe_policy_fingerprint (sample_evaluated cs) = POLICY_FINGERPRINT"
    by (simp_all add: sample_evaluated_def evaluation_of_def Let_def)
qed code_simp+

lemma sample_ids: "source_id \<noteq> derived_id" "hex_digits 32 source_id" "hex_digits 32 derived_id"
  "hex_digits 32 artifact_key" "hex_digits 64 two_bytes_sha"
  by code_simp+

lemma sample_rows: "evaluated_row sample_source" "evaluated_row sample_derived"
  "valid_lineage sample_artifact sample_source sample_derived"
proof -
  show "evaluated_row sample_source"
    by (simp add: evaluated_row_def columns_agree_def sample_source_def sample_scan_def sample_evaluations)
  have "accumulated_score {} < 20" by code_simp
  then show "evaluated_row sample_derived"
    by (simp add: evaluated_row_def columns_agree_def sample_derived_def sample_scan_def
        sample_evaluations released_row_def SUPPORTED_RELEASE_TYPES_def)
  show "valid_lineage sample_artifact sample_source sample_derived"
    by (simp add: valid_lineage_def sample_source_def sample_scan_def sample_derived_def
        sample_artifact_def sample_evaluations dump_members_def)
qed

lemma approved_world_ok: "db_ok (w_db approved_world)"
proof -
  have "schema_ok (w_db approved_world)"
    using sample_ids(1)
    by (simp add: schema_ok_def approved_world_def sample_source_def sample_derived_def
        sample_scan_def sample_artifact_def)
  moreover have "artifact_ok (w_db approved_world) sample_artifact"
    unfolding artifact_ok_def
    by (rule exI [of _ sample_source], rule exI [of _ sample_derived])
      (use sample_rows(3) sample_ids(1) in \<open>simp add: approved_world_def find_scan_def
        lookup_row_def sample_source_def sample_derived_def sample_scan_def sample_artifact_def\<close>)
  ultimately show ?thesis
    using sample_rows(1,2) by (simp add: db_ok_def rows_ok_def scan_row_ok_def approved_world_def)
qed

text \<open>The run: the source is eligible, the event is recorded, and the stored artifact is
  intact, so it is reused.\<close>

lemma sample_config: "cdr_config_ok (worker_cdr_config quiet_env sample_settings)"
proof -
  have "finite_json (sanitizer_definition sample_settings)" by code_simp
  then obtain t where "json_text (sanitizer_definition sample_settings) = Some t"
    using json_text_finite by fastforce
  then have "hex_digits 64 (sanitizer_fingerprint quiet_env sample_settings)"
    by (simp add: sanitizer_fingerprint_def sha256_text_def quiet_env_def hex_digits_def list_all_iff)
  then show ?thesis
    by (simp add: cdr_config_ok_def worker_cdr_config_def sample_settings_def PDF_CDR_VERSION_def
        PDF_CDR_DPI_def)
qed

lemma config_run:
  "build_worker_cdr_config quiet_env sample_settings w =
     (Inr (worker_cdr_config quiet_env sample_settings), w)"
  using sample_config by (simp add: build_worker_cdr_config_def prog_defs)

lemma verify_run:
  assumes "w_files w p = Some \<lparr>fl_bytes = [37, 80], fl_mode = 256, fl_regular = True,
      fl_owned = True, fl_links = 1, fl_mtime = 0\<rparr>" "2 \<le> n"
  shows "\<exists>k. verify_private_document quiet_env p two_bytes_sha 2 n w = (Inr True, w\<lparr>w_tick := k\<rparr>)"
  using assms
  by (auto simp: verify_private_document_def open_regular_read_only_def hash_descriptor_def
      pieces.simps [of "[37, 80]"] pieces.simps [of "[]"] STREAM_WRITE_CHUNK_BYTES_def
      runs catchE_def quiet_env_def two_bytes_sha_def Let_def prog_defs tickE_def os_call_def)

text \<open>The value of the constant hash is one of two strings, whatever the text hashed.\<close>

lemma sample_fingerprint:
  "sanitizer_fingerprint quiet_env sample_settings = replicate 63 CHR ''0'' @ ''2'' \<or>
   sanitizer_fingerprint quiet_env sample_settings = replicate 63 CHR ''0'' @ ''f''"
proof -
  have "finite_json (sanitizer_definition sample_settings)" by code_simp
  then obtain t where "json_text (sanitizer_definition sample_settings) = Some t"
    using json_text_finite by fastforce
  then show ?thesis by (simp add: sanitizer_fingerprint_def sha256_text_def quiet_env_def)
qed

definition sample_eligibility :: cdr_eligibility where
  "sample_eligibility = \<lparr>ce_eligible = True, ce_scan_id = source_id, ce_reason_codes = [],
     ce_sanitizer_version = PDF_CDR_VERSION,
     ce_sanitizer_fingerprint = sanitizer_fingerprint quiet_env sample_settings\<rparr>"

lemma sample_details:
  "bounded_details (obj (identity_details sample_eligibility @
     [(''source_decision'', decision_json (Some REVIEW)),
      (''requested_scan_id'', jtext source_id), (''reason_codes'', jcodes [])])) \<noteq> None"
proof -
  have "bounded_details (obj ([(''sanitizer_version'', jtext PDF_CDR_VERSION),
       (''sanitizer_fingerprint'', jtext (replicate 63 CHR ''0'' @ [c]))] @
     [(''source_decision'', decision_json (Some REVIEW)),
      (''requested_scan_id'', jtext source_id), (''reason_codes'', jcodes [])])) \<noteq> None"
    if "c = CHR ''2'' \<or> c = CHR ''f''" for c
    using that by (elim disjE) (simp only:, code_simp)+
  moreover obtain c where "c = CHR ''2'' \<or> c = CHR ''f''"
    and c: "sanitizer_fingerprint quiet_env sample_settings = replicate 63 CHR ''0'' @ [c]"
    using sample_fingerprint by blast
  ultimately show ?thesis
    unfolding identity_details_def sample_eligibility_def cdr_eligibility.simps c by blast
qed

lemma sample_reasons:
  "row_reasons (worker_cdr_config quiet_env sample_settings) sample_source = []"
proof -
  have "pdf_page_count (sc_analysis_metadata sample_source) = Some 1" by code_simp
  then show ?thesis
    by (simp add: row_reasons_def sample_source_def sample_scan_def evaluated_stored
        sample_evaluations worker_cdr_config_def sample_settings_def)
qed

lemma sample_scan_simps [simp]:
  "sc_id sample_source = source_id" "sc_storage_key sample_source = source_id"
  "sc_sha256 sample_source = two_bytes_sha" "sc_size_bytes sample_source = 2"
  "sc_decision sample_source = Some REVIEW" "sc_id sample_derived = derived_id"
  by (simp_all add: sample_source_def sample_derived_def sample_scan_def sample_evaluations)

lemma sample_file:
  "w_files approved_world (QUARANTINE_AREA, source_id) = Some \<lparr>fl_bytes = [37, 80], fl_mode = 256,
     fl_regular = True, fl_owned = True, fl_links = 1, fl_mtime = 0\<rparr>"
  "w_files approved_world (SANITIZED, artifact_key) = Some \<lparr>fl_bytes = [37, 80], fl_mode = 256,
     fl_regular = True, fl_owned = True, fl_links = 1, fl_mtime = 0\<rparr>"
  by (simp_all add: approved_world_def)

lemma resolve_run: "hex_digits 32 key \<Longrightarrow> resolve quiet_env a key w = (Inr (a, key), w)"
  by (simp add: resolve_def validate_storage_key_def prog_defs quiet_env_def)

lemma get_run:
  "\<exists>k. get_scan quiet_env source_id approved_world = (Inr sample_source, approved_world\<lparr>w_tick := k\<rparr>)"
  by (simp add: get_scan_def query_def tickE_def quiet_env_def approved_world_def runs catchE_def
      find_scan_def lookup_row_def prog_defs)

lemma reasons_run:
  "\<exists>k. source_reasons quiet_env sample_settings sample_source (approved_world\<lparr>w_tick := j\<rparr>) =
     (Inr [], approved_world\<lparr>w_tick := k\<rparr>)"
proof -
  obtain k where "verify_private_document quiet_env (QUARANTINE_AREA, source_id) two_bytes_sha 2
      (st_maximum_upload_bytes sample_settings) (approved_world\<lparr>w_tick := j\<rparr>) =
    (Inr True, approved_world\<lparr>w_tick := k\<rparr>)"
    using verify_run [of "approved_world\<lparr>w_tick := j\<rparr>" "(QUARANTINE_AREA, source_id)"
        "st_maximum_upload_bytes sample_settings"] sample_file
    by (auto simp: sample_settings_def)
  then show ?thesis
    by (simp add: source_reasons_def resolve_run sample_ids prog_defs) blast
qed

lemma eligibility_made:
  "make_eligibility (worker_cdr_config quiet_env sample_settings) source_id [] w =
     (Inr sample_eligibility, w)"
proof -
  have "hex_digits 64 (sanitizer_fingerprint quiet_env sample_settings)"
    using sample_config by (simp add: cdr_config_ok_def worker_cdr_config_def)
  then show ?thesis
    by (simp add: make_eligibility_def sample_eligibility_def worker_cdr_config_def sorted_codes_def
        cdr_eligibility_ok_def sample_ids prog_defs)
qed

lemma append_run:
  "\<exists>ev k'. append_eligibility quiet_env sample_eligibility (Some REVIEW) True
       (approved_world\<lparr>w_tick := k\<rparr>) =
     (Inr (), approved_world\<lparr>w_db := w_db approved_world\<lparr>db_events := [ev]\<rparr>, w_tick := k'\<rparr>)"
proof -
  obtain b where "bounded_details (obj (identity_details sample_eligibility @
     [(''source_decision'', decision_json (Some REVIEW)),
      (''requested_scan_id'', jtext (ce_scan_id sample_eligibility)),
      (''reason_codes'', jcodes (ce_reason_codes sample_eligibility))])) = Some b"
    using sample_details by (auto simp: sample_eligibility_def)
  then show ?thesis
    by (auto simp: append_eligibility_def audit_append_def runs transaction_run add_to_transaction_def
        catchE_def quiet_env_def approved_world_def audit_request_of_def insert_event_def prog_defs
        event_of_def has_key_def sample_eligibility_def)
qed

lemma eligibility_run:
  "\<exists>ev k. evaluate_cdr_eligibility quiet_env sample_settings source_id True approved_world =
     (Inr sample_eligibility, approved_world\<lparr>w_db := w_db approved_world\<lparr>db_events := [ev]\<rparr>,
        w_tick := k\<rparr>)"
proof -
  obtain j where get: "get_scan quiet_env source_id approved_world =
      (Inr sample_source, approved_world\<lparr>w_tick := j\<rparr>)"
    using get_run by blast
  obtain k where r: "source_reasons quiet_env sample_settings sample_source (approved_world\<lparr>w_tick := j\<rparr>) =
      (Inr [], approved_world\<lparr>w_tick := k\<rparr>)"
    using reasons_run by blast
  obtain ev k' where a: "append_eligibility quiet_env sample_eligibility (Some REVIEW) True
       (approved_world\<lparr>w_tick := k\<rparr>) =
     (Inr (), approved_world\<lparr>w_db := w_db approved_world\<lparr>db_events := [ev]\<rparr>, w_tick := k'\<rparr>)"
    using append_run by blast
  show ?thesis
    by (simp add: evaluate_cdr_eligibility_def bindE_def config_run catchE_def get returnE_def r
        sample_reasons eligibility_made a) blast
qed

lemma sample_approval:
  "\<exists>w'. sanitize_pdf quiet_env sample_backend id sample_settings source_id approved_world =
     (Inr \<lparr>cs_source_scan_id = source_id, cs_derived_scan_id = Some derived_id,
        cs_artifact_id = Some artifact_key, cs_approved = True, cs_reused = True,
        cs_failure_code = None\<rparr>, w')"
proof -
  obtain ev k where e: "evaluate_cdr_eligibility quiet_env sample_settings source_id True approved_world =
     (Inr sample_eligibility, approved_world\<lparr>w_db := w_db approved_world\<lparr>db_events := [ev]\<rparr>,
        w_tick := k\<rparr>)" (is "_ = (_, ?w)")
    using eligibility_run by blast
  have found: "query quiet_env (getE (find_cdr_artifact source_id
      (cc_sanitizer_fingerprint (worker_cdr_config quiet_env sample_settings)))) ?w =
    (Inr (Some sample_artifact), ?w\<lparr>w_tick := Suc k\<rparr>)"
    by (simp add: query_def quiet_env_def find_cdr_artifact_def approved_world_def sample_artifact_def
        prog_defs worker_cdr_config_def)
  obtain j where v: "verify_private_document quiet_env (SANITIZED, artifact_key) two_bytes_sha 2
      (st_cdr_max_output_bytes sample_settings) (?w\<lparr>w_tick := Suc k\<rparr>) = (Inr True, ?w\<lparr>w_tick := j\<rparr>)"
    using verify_run [of "?w\<lparr>w_tick := Suc k\<rparr>" "(SANITIZED, artifact_key)"
        "st_cdr_max_output_bytes sample_settings"] sample_file
    by (simp add: sample_settings_def) blast
  have "get_existing_cdr_artifact quiet_env sample_settings source_id ?w =
      (Inr (Some sample_artifact), ?w\<lparr>w_tick := j\<rparr>)"
    using found v
    by (simp add: get_existing_cdr_artifact_def config_run bindE_def catchE_def resolve_run sample_ids
        returnE_def sample_artifact_def)
  then show ?thesis
    by (simp add: sanitize_pdf_def sanitize_eligible_def bindE_def catchE_def e returnE_def
        sample_eligibility_def reused_result_def service_result_def cdr_service_result_ok_def
        sample_artifact_def sample_ids prog_defs)
qed

section \<open>The promises\<close>

text \<open>The database stays in order: whatever the renderer, the worker, the database and the
  disk do during a sanitisation, afterwards every scan row still obeys the release rule and
  every stored artifact still has the lineage that a download demands.\<close>

theorem cdr_keeps_database:
  assumes "db_ok (w_db w)"
  shows "db_ok (w_db (snd (sanitize_pdf env be casefold st scan_id w)))"
  using triple_errorD [OF sanitize_pdf_triple assms] triple_valueD [OF sanitize_pdf_triple assms]
  by (cases "sanitize_pdf env be casefold st scan_id w";
      cases "fst (sanitize_pdf env be casefold st scan_id w)")
    (fastforce simp: approved_post_def)+

theorem cdr_keeps_database_witness:
  "db_ok (w_db (snd (sanitize_pdf quiet_env sample_backend id sample_settings source_id approved_world)))"
  by (rule cdr_keeps_database [OF approved_world_ok])

text \<open>C9. An approval is backed by what is stored: the result names an artifact of the requested
  source that is in the database, whose derived scan is a released ALLOW row of a complete
  analysis with the same hash, and whose object lies in the sanitized area as a private
  read-only file of exactly that hash and size.\<close>

theorem cdr_approval_is_backed:
  assumes "db_ok (w_db w)"
    and "sanitize_pdf env be casefold st scan_id w = (Inr r, w')"
    and "cs_approved r"
  shows "\<exists>a\<in>set (db_artifacts (w_db w')). \<exists>source derived.
     cs_artifact_id r = Some (af_id a) \<and>
     find_scan (cs_source_scan_id r) (w_db w') = Some source \<and>
     find_scan (af_derived_scan_id a) (w_db w') = Some derived \<and>
     valid_lineage a source derived \<and> released_row derived \<and> intact env a w'"
proof -
  from triple_valueD [OF sanitize_pdf_triple assms(1,2)] assms(3)
  obtain a where a: "db_ok (w_db w')" "a \<in> set (db_artifacts (w_db w'))"
    "cs_artifact_id r = Some (af_id a)" "af_scan_id a = cs_source_scan_id r" "intact env a w'"
    by (auto simp: approved_post_def)
  then obtain s t where l: "find_scan (af_scan_id a) (w_db w') = Some s"
    "find_scan (af_derived_scan_id a) (w_db w') = Some t" "valid_lineage a s t"
    by (auto simp: db_ok_def artifact_ok_def)
  have "scan_row_ok t" using a(1) l(2) by (auto simp: db_ok_def rows_ok_def find_scan_Some)
  then have "released_row t"
    using l(3) by (auto simp: scan_row_ok_def unevaluated_row_def evaluated_row_def valid_lineage_def)
  with a l show ?thesis by auto
qed

theorem cdr_approval_is_backed_witness:
  "\<exists>r w'. sanitize_pdf quiet_env sample_backend id sample_settings source_id approved_world = (Inr r, w') \<and>
     cs_approved r \<and> (\<exists>a\<in>set (db_artifacts (w_db w')). intact quiet_env a w')"
  using sample_approval cdr_approval_is_backed [OF approved_world_ok] by fastforce

text \<open>C18. Sanitisation only adds: the source row, every other existing scan row and every
  existing artifact row is the same afterwards, whatever the outcome, so a sanitised source
  keeps its verdict.\<close>

theorem cdr_preserves_existing_rows:
  assumes "sanitize_pdf env be casefold st scan_id w = (x, w')"
  shows "set (db_scans (w_db w)) \<subseteq> set (db_scans (w_db w')) \<and>
    set (db_artifacts (w_db w)) \<subseteq> set (db_artifacts (w_db w'))"
proof -
  have "old (set (db_scans (w_db w))) (set (db_artifacts (w_db w)))
      (snd (sanitize_pdf env be casefold st scan_id w))"
    by (rule keepsD [OF old_sanitize_pdf]) (simp add: old_def)
  with assms show ?thesis by (simp add: old_def)
qed

theorem cdr_preserves_existing_rows_witness:
  "\<exists>w'. sample_source \<in> set (db_scans (w_db w')) \<and> sample_artifact \<in> set (db_artifacts (w_db w')) \<and>
     snd (sanitize_pdf quiet_env sample_backend id sample_settings source_id approved_world) = w'"
proof -
  let ?r = "sanitize_pdf quiet_env sample_backend id sample_settings source_id approved_world"
  have "sample_source \<in> set (db_scans (w_db approved_world))"
    "sample_artifact \<in> set (db_artifacts (w_db approved_world))"
    by (simp_all add: approved_world_def)
  then show ?thesis
    using cdr_preserves_existing_rows [of quiet_env sample_backend id sample_settings source_id
        approved_world "fst ?r" "snd ?r"] by auto
qed

end
