(* ===== verification/Auth_Models.thy ===== *)
theory Auth_Models
  imports Prelude
begin

text \<open>The operator role and its capabilities (\<open>app/auth/models.py\<close>).\<close>

datatype role = OPERATOR_ROLE

datatype capability = SCAN_UPLOAD | SCAN_READ | CDR_REQUEST | ARTIFACT_READ | AUDIT_READ

definition ROLE_CAPABILITIES :: "role \<Rightarrow> capability list" where
  "ROLE_CAPABILITIES r = (case r of OPERATOR_ROLE \<Rightarrow>
     [SCAN_UPLOAD, SCAN_READ, CDR_REQUEST, ARTIFACT_READ, AUDIT_READ])"

record authenticated_principal =
  pr_user_id :: string
  pr_username :: ustring
  pr_role :: role
  pr_session_id :: string
  pr_csrf_token :: ustring

definition has_capability :: "authenticated_principal \<Rightarrow> capability \<Rightarrow> bool" where
  "has_capability p c \<longleftrightarrow> c \<in> set (ROLE_CAPABILITIES (pr_role p))"

lemma operator_capabilities [simp]: "has_capability p c"
  by (cases "pr_role p"; cases c) (simp_all add: has_capability_def ROLE_CAPABILITIES_def)

end
