(* ===== verification/Artifacts.thy ===== *)
theory Artifacts
  imports Cdr_Results Auth_Models
begin

text \<open>
  The controlled download of \<open>app/artifacts/service.py\<close>: lookup with lineage, verification
  of the object through one descriptor, and the audit event without which nothing is
  delivered. A descriptor is the content it will read from its start; a file does not change
  between the two \<open>fstat\<close> calls, since an operation runs alone.
\<close>

section \<open>The verified descriptor\<close>

record prepared_download =
  pd_artifact_id :: string
  pd_descriptor :: bytes
  pd_size_bytes :: nat
  pd_download_filename :: string

fun read_artifact ::
  "env \<Rightarrow> nat \<Rightarrow> bytes list \<Rightarrow> nat \<Rightarrow> bytes \<Rightarrow> (world, exn, string \<times> nat) prog" where
  "read_artifact env maximum_bytes [] observed_size hashed =
     bindE (os_call env) (\<lambda>_. returnE (env_sha256 env hashed, observed_size))"
| "read_artifact env maximum_bytes (chunk # rest) observed_size hashed =
     bindE (os_call env) (\<lambda>_.
       let observed_size' = observed_size + length chunk in
       bindE (unlessE (observed_size' \<le> maximum_bytes) ArtifactUnavailable) (\<lambda>_.
         read_artifact env maximum_bytes rest observed_size' (hashed @ chunk)))"

definition metadata_ok :: "nat \<Rightarrow> stored_file \<Rightarrow> bool" where
  "metadata_ok expected_size f \<longleftrightarrow> fl_regular f \<and> fl_mode f = 256 \<and> fl_owned f \<and>
     fl_links f = 1 \<and> length (fl_bytes f) = expected_size"

definition open_verified_artifact ::
  "env \<Rightarrow> path \<Rightarrow> nat \<Rightarrow> string \<Rightarrow> nat \<Rightarrow> (world, exn, bytes) prog" where
  "open_verified_artifact env p expected_size expected_sha256 maximum_bytes =
     bindE (os_call env) (\<lambda>_. bindE (getE (\<lambda>w. w_files w p)) (\<lambda>f.
     case f of None \<Rightarrow> raiseE OSError | Some f \<Rightarrow>
     bindE (os_call env) (\<lambda>_.
     bindE (unlessE (metadata_ok expected_size f) ArtifactUnavailable) (\<lambda>_.
     bindE (read_artifact env maximum_bytes (pieces (fl_bytes f)) 0 []) (\<lambda>(digest, observed_size).
     bindE (os_call env) (\<lambda>_.
     bindE (unlessE (observed_size = expected_size \<and> digest = expected_sha256) ArtifactUnavailable) (\<lambda>_.
     bindE (os_call env) (\<lambda>_. returnE (fl_bytes f)))))))))"

section \<open>The service\<close>

definition deny :: "env \<Rightarrow> string \<Rightarrow> authenticated_principal \<Rightarrow> string \<Rightarrow> (world, exn, unit) prog" where
  "deny env artifact_id who reason_code =
     catchE (audit_append env (audit_request_of ARTIFACT_DOWNLOAD_DENIED None AO_DENIED
         \<lparr>aq_reason_code := Some reason_code, aq_actor_type := OPERATOR,
          aq_actor_id := Some (pr_user_id who),
          aq_details := obj [(''requested_artifact_id'', jtext artifact_id)]\<rparr>))
       (\<lambda>e. if e = AuditPersistenceError then Some (returnE ()) else None)"

text \<open>The joined row, if there is one: the artifact with its source and its derived scan.\<close>

definition joined_row :: "string \<Rightarrow> db \<Rightarrow> (artifact \<times> scan \<times> scan) option" where
  "joined_row artifact_id d =
     (case find (\<lambda>a. af_id a = artifact_id) (db_artifacts d) of None \<Rightarrow> None
      | Some a \<Rightarrow> (case (find_scan (af_scan_id a) d, find_scan (af_derived_scan_id a) d) of
          (Some s, Some t) \<Rightarrow> Some (a, s, t) | _ \<Rightarrow> None))"

definition select_joined :: "string \<Rightarrow> (db, exn, artifact \<times> scan \<times> scan) prog" where
  "select_joined artifact_id = bindE (getE (joined_row artifact_id)) (\<lambda>row.
     case row of None \<Rightarrow> raiseE ArtifactNotFound | Some r \<Rightarrow> returnE r)"

definition prepare ::
  "env \<Rightarrow> settings \<Rightarrow> string \<Rightarrow> authenticated_principal \<Rightarrow> (world, exn, prepared_download) prog" where
  "prepare env st artifact_id who =
     bindE (catchE (query env (select_joined artifact_id))
        (\<lambda>e. if is_database_error e then Some (raiseE ArtifactUnavailable) else None)) (\<lambda>(a, s, t).
     if \<not> valid_lineage a s t then
       bindE (deny env artifact_id who ''LINEAGE_INVALID'') (\<lambda>_. raiseE ArtifactUnavailable)
     else
     bindE (catchE (bindE (resolve env SANITIZED (af_storage_key a)) (\<lambda>p.
          open_verified_artifact env p (af_size_bytes a) (af_sha256 a) (st_cdr_max_output_bytes st)))
        (\<lambda>e. if e = OSError \<or> is_value_error e \<or> e = ArtifactUnavailable then Some
           (bindE (deny env artifact_id who ''INTEGRITY_FAILED'') (\<lambda>_. raiseE ArtifactUnavailable))
         else None)) (\<lambda>descriptor.
     bindE (catchE (audit_append env (audit_request_of ARTIFACT_DOWNLOADED (Some (af_scan_id a)) AO_SUCCESS
          \<lparr>aq_artifact_id := Some (af_id a), aq_actor_type := OPERATOR,
           aq_actor_id := Some (pr_user_id who),
           aq_details := obj [(''derived_scan_id'', jtext (af_derived_scan_id a))]\<rparr>))
        (\<lambda>e. if e = AuditPersistenceError then Some (raiseE ArtifactAuditUnavailable) else None)) (\<lambda>_.
     returnE \<lparr>pd_artifact_id = af_id a, pd_descriptor = descriptor,
       pd_size_bytes = af_size_bytes a,
       pd_download_filename = ''docguard-sanitized-'' @ take 12 (af_id a) @ ''.pdf''\<rparr>)))"

text \<open>\<open>iter_download\<close>: the chunks of the response body.\<close>

definition iter_download :: "prepared_download \<Rightarrow> bytes list" where
  "iter_download d = pieces (pd_descriptor d)"

section \<open>What a download delivers\<close>

lemma bind_InrE:
  assumes "bindE m k w = (Inr y, w'')"
  obtains x w' where "m w = (Inr x, w')" "k x w' = (Inr y, w'')"
  using assms by (auto simp: bindE_def split: prod.splits sum.splits)

lemma catch_InrE:
  assumes "catchE m h w = (Inr y, w'')"
  obtains "m w = (Inr y, w'')" | e w' k where "m w = (Inl e, w')" "h e = Some k" "k w' = (Inr y, w'')"
  using assms by (auto simp: catchE_def split: prod.splits sum.splits option.splits)

lemma simple_Inr [simp]:
  "unlessE b e w = (Inr x, w') \<longleftrightarrow> b \<and> w' = w" "raiseE e w \<noteq> (Inr y, w')"
  "returnE z w = (Inr y, w') \<longleftrightarrow> y = z \<and> w' = w" "getE f w = (Inr y, w') \<longleftrightarrow> y = f w \<and> w' = w"
  by (auto simp: unlessE_def raiseE_def returnE_def getE_def)

lemma os_call_InrD: "os_call env w = (Inr x, w') \<Longrightarrow> w_db w' = w_db w \<and> w_files w' = w_files w"
  by (auto simp: os_call_run split: if_splits)

lemma read_artifact_value:
  assumes "read_artifact env m cs n h w = (Inr (digest, got), w')"
  shows "digest = env_sha256 env (h @ concat cs) \<and> got = n + length (concat cs) \<and>
    w_db w' = w_db w \<and> w_files w' = w_files w"
  using assms
proof (induction env m cs n h arbitrary: w rule: read_artifact.induct)
  case (1 env m n h)
  then show ?case by (auto dest!: os_call_InrD elim!: bind_InrE)
next
  case (2 env m c cs n h)
  from 2(2) obtain w1 where w1: "os_call env w = (Inr (), w1)"
    "read_artifact env m cs (n + length c) (h @ c) w1 = (Inr (digest, got), w')"
    by (auto simp: Let_def elim!: bind_InrE)
  from 2(1) [OF refl w1(2)] os_call_InrD [OF w1(1)] show ?case by simp
qed

lemma open_verified_value:
  assumes "open_verified_artifact env p len sha m w = (Inr b, w')"
  shows "\<exists>f. w_files w p = Some f \<and> metadata_ok len f \<and> fl_bytes f = b \<and>
    env_sha256 env b = sha \<and> length b = len \<and> w_db w' = w_db w \<and> w_files w' = w_files w"
proof -
  obtain f w1 digest n w2 where "w_files w p = Some f" "metadata_ok len f"
    "w_db w1 = w_db w" "w_files w1 = w_files w"
    and r: "read_artifact env m (pieces (fl_bytes f)) 0 [] w1 = (Inr (digest, n), w2)"
    and "n = len" "digest = sha" "b = fl_bytes f" "w_db w' = w_db w2" "w_files w' = w_files w2"
    using assms
    by (auto simp: open_verified_artifact_def dest!: os_call_InrD elim!: bind_InrE split: option.splits)
  with read_artifact_value [OF r] show ?thesis by auto
qed

text \<open>What one successful preparation establishes, from the row it finds.\<close>

lemma prepare_value:
  assumes "prepare env st i who w = (Inr d, w')"
  obtains a s t q where "joined_row i (w_db w) = Some (a, s, t)" "valid_lineage a s t"
    "w_files w (SANITIZED, af_storage_key a) = Some q" "metadata_ok (af_size_bytes a) q"
    "fl_bytes q = pd_descriptor d" "env_sha256 env (pd_descriptor d) = af_sha256 a"
    "pd_artifact_id d = af_id a" "pd_size_bytes d = af_size_bytes a"
    "w_files w' = w_files w" "db_scans (w_db w') = db_scans (w_db w)"
    "db_artifacts (w_db w') = db_artifacts (w_db w)"
    "\<exists>ev\<in>set (db_events (w_db w')). ev_event_type ev = ARTIFACT_DOWNLOADED \<and>
       ev_artifact_id ev = Some (af_id a) \<and> ev_actor_id ev = Some (pr_user_id who) \<and>
       ev_outcome ev = AO_SUCCESS"
proof -
  have never: "bindE m (\<lambda>_. raiseE e) v \<noteq> (Inr x, v')" for m :: "(world, exn, unit) prog" and e v x v'
    by (auto simp: raiseE_def elim!: bind_InrE)
  obtain a s t w1 where row: "query env (select_joined i) w = (Inr (a, s, t), w1)" and l: "valid_lineage a s t"
    and rest: "bindE (catchE (bindE (resolve env SANITIZED (af_storage_key a)) (\<lambda>p.
          open_verified_artifact env p (af_size_bytes a) (af_sha256 a) (st_cdr_max_output_bytes st)))
        (\<lambda>e. if e = OSError \<or> is_value_error e \<or> e = ArtifactUnavailable then Some
           (bindE (deny env i who ''INTEGRITY_FAILED'') (\<lambda>_. raiseE ArtifactUnavailable))
         else None)) (\<lambda>descriptor.
     bindE (catchE (audit_append env (audit_request_of ARTIFACT_DOWNLOADED (Some (af_scan_id a)) AO_SUCCESS
          \<lparr>aq_artifact_id := Some (af_id a), aq_actor_type := OPERATOR,
           aq_actor_id := Some (pr_user_id who),
           aq_details := obj [(''derived_scan_id'', jtext (af_derived_scan_id a))]\<rparr>))
        (\<lambda>e. if e = AuditPersistenceError then Some (raiseE ArtifactAuditUnavailable) else None)) (\<lambda>_.
     returnE \<lparr>pd_artifact_id = af_id a, pd_descriptor = descriptor,
       pd_size_bytes = af_size_bytes a,
       pd_download_filename = ''docguard-sanitized-'' @ take 12 (af_id a) @ ''.pdf''\<rparr>)) w1 = (Inr d, w')"
    using assms never
    by (auto simp: prepare_def raiseE_def elim!: bind_InrE catch_InrE split: if_splits prod.splits)
  from row have j: "joined_row i (w_db w) = Some (a, s, t)" "w_db w1 = w_db w" "w_files w1 = w_files w"
    by (auto simp: query_def select_joined_def prog_defs Let_def split: if_splits option.splits)
  from rest obtain b w2 w3 p where res: "resolve env SANITIZED (af_storage_key a) w1 = (Inr p, w2)"
    and o: "open_verified_artifact env p (af_size_bytes a) (af_sha256 a) (st_cdr_max_output_bytes st) w2 = (Inr b, w3)"
    and au: "audit_append env (audit_request_of ARTIFACT_DOWNLOADED (Some (af_scan_id a)) AO_SUCCESS
          \<lparr>aq_artifact_id := Some (af_id a), aq_actor_type := OPERATOR,
           aq_actor_id := Some (pr_user_id who),
           aq_details := obj [(''derived_scan_id'', jtext (af_derived_scan_id a))]\<rparr>) w3 = (Inr (), w')"
    and d: "d = \<lparr>pd_artifact_id = af_id a, pd_descriptor = b, pd_size_bytes = af_size_bytes a,
       pd_download_filename = ''docguard-sanitized-'' @ take 12 (af_id a) @ ''.pdf''\<rparr>"
    using never by (fastforce simp: raiseE_def returnE_def elim!: bind_InrE catch_InrE split: if_splits)
  from res have p: "p = (SANITIZED, af_storage_key a)" "w2 = w1"
    by (auto simp: resolve_def validate_storage_key_def prog_defs split: if_splits)
  note app = audit_log.append_files [of env _ w3] audit_log.append_scans [of env _ w3]
    audit_log.append_artifacts [of env _ w3]
  from o p obtain q where q: "w_files w1 (SANITIZED, af_storage_key a) = Some q"
    "metadata_ok (af_size_bytes a) q" "fl_bytes q = b" "env_sha256 env b = af_sha256 a"
    "w_db w3 = w_db w1" "w_files w3 = w_files w1"
    by (auto dest!: open_verified_value)
  have ev: "\<exists>ev\<in>set (db_events (w_db w')). ev_event_type ev = ARTIFACT_DOWNLOADED \<and>
       ev_artifact_id ev = Some (af_id a) \<and> ev_actor_id ev = Some (pr_user_id who) \<and>
       ev_outcome ev = AO_SUCCESS"
  proof -
    from audit_log.append_recorded [of env _ w3] au obtain i t b where
      "event_of i t (audit_request_of ARTIFACT_DOWNLOADED (Some (af_scan_id a)) AO_SUCCESS
          \<lparr>aq_artifact_id := Some (af_id a), aq_actor_type := OPERATOR,
           aq_actor_id := Some (pr_user_id who),
           aq_details := obj [(''derived_scan_id'', jtext (af_derived_scan_id a))]\<rparr>) b
        \<in> set (db_events (w_db w'))"
      by (metis fst_conv snd_conv)
    then show ?thesis by (rule bexI [rotated]) (simp add: event_of_def audit_request_of_def)
  qed
  have "w_files w' = w_files w" "db_scans (w_db w') = db_scans (w_db w)"
    "db_artifacts (w_db w') = db_artifacts (w_db w)"
    using app au q(5,6) j(2,3) by (metis snd_conv)+
  with that [OF j(1) l _ q(2) _ _ _ _ _ _ _ ev] q(1,3,4) j(3) d show thesis by simp
qed

text \<open>Nothing unapproved leaves the gateway: a prepared download delivers, chunk by chunk,
  the bytes of the private stored object, whose hash and size the artifact row records; that artifact
  has valid lineage and its derived scan is a released row with the same hash; and the download is in the audit
  trail, under the operator who asked, before the first byte.\<close>

theorem download_is_approved:
  assumes "db_ok (w_db w)" and "prepare env st artifact_id who w = (Inr d, w')"
  shows "\<exists>a\<in>set (db_artifacts (w_db w')). \<exists>source derived.
     af_id a = artifact_id \<and> pd_artifact_id d = artifact_id \<and>
     find_scan (af_scan_id a) (w_db w') = Some source \<and>
     find_scan (af_derived_scan_id a) (w_db w') = Some derived \<and>
     valid_lineage a source derived \<and> released_row derived \<and>
     env_sha256 env (concat (iter_download d)) = sc_sha256 derived \<and>
     length (concat (iter_download d)) = pd_size_bytes d \<and> pd_size_bytes d = sc_size_bytes derived \<and>
     (\<exists>q. w_files w' (SANITIZED, af_storage_key a) = Some q \<and> fl_bytes q = concat (iter_download d) \<and>
        fl_regular q \<and> fl_owned q \<and> fl_mode q = 256 \<and> fl_links q = 1) \<and>
     (\<exists>ev\<in>set (db_events (w_db w')). ev_event_type ev = ARTIFACT_DOWNLOADED \<and>
        ev_artifact_id ev = Some artifact_id \<and> ev_actor_id ev = Some (pr_user_id who))"
proof -
  from assms(2) obtain a s t q where v: "joined_row artifact_id (w_db w) = Some (a, s, t)"
    "valid_lineage a s t" "w_files w (SANITIZED, af_storage_key a) = Some q" "w_files w' = w_files w" "metadata_ok (af_size_bytes a) q" "fl_bytes q = pd_descriptor d"
    "env_sha256 env (pd_descriptor d) = af_sha256 a" "pd_artifact_id d = af_id a"
    "pd_size_bytes d = af_size_bytes a" "db_scans (w_db w') = db_scans (w_db w)"
    "db_artifacts (w_db w') = db_artifacts (w_db w)"
    and ev: "\<exists>ev\<in>set (db_events (w_db w')). ev_event_type ev = ARTIFACT_DOWNLOADED \<and>
       ev_artifact_id ev = Some (af_id a) \<and> ev_actor_id ev = Some (pr_user_id who) \<and>
       ev_outcome ev = AO_SUCCESS"
    by (rule prepare_value)
  from v(1) have row: "a \<in> set (db_artifacts (w_db w))" "af_id a = artifact_id"
    "find_scan (af_scan_id a) (w_db w) = Some s" "find_scan (af_derived_scan_id a) (w_db w) = Some t"
    by (auto simp: joined_row_def find_Some_iff split: option.splits)
  have "scan_row_ok t" using assms(1) row(4) by (auto simp: db_ok_def rows_ok_def find_scan_Some)
  then have "released_row t"
    using v(2) by (auto simp: scan_row_ok_def unevaluated_row_def evaluated_row_def valid_lineage_def)
  moreover have "af_sha256 a = sc_sha256 t" "af_size_bytes a = sc_size_bytes t" using v(2) by (simp_all add: valid_lineage_def)
  ultimately show ?thesis
    using v row ev
    by (intro bexI [of _ a] exI [of _ s] exI [of _ t])
      (auto simp: iter_download_def find_scan_def metadata_ok_def)
qed

definition sample_operator :: authenticated_principal where
  "sample_operator = \<lparr>pr_user_id = replicate 32 CHR ''e'', pr_username = [97], pr_role = OPERATOR_ROLE,
     pr_session_id = replicate 32 CHR ''f'', pr_csrf_token = []\<rparr>"

lemma open_run:
  "\<exists>k. open_verified_artifact quiet_env (SANITIZED, artifact_key) 2 two_bytes_sha 1000 (approved_world\<lparr>w_tick := j\<rparr>)
     = (Inr [37, 80], approved_world\<lparr>w_tick := k\<rparr>)"
  using sample_file
  by (auto simp: open_verified_artifact_def metadata_ok_def pieces.simps [of "[37, 80]"]
      pieces.simps [of "[]"] STREAM_WRITE_CHUNK_BYTES_def runs quiet_env_def two_bytes_sha_def Let_def prog_defs)

lemma sample_prepared:
  "\<exists>d w'. prepare quiet_env sample_settings artifact_key who (approved_world\<lparr>w_tick := j\<rparr>) = (Inr d, w') \<and>
     pd_descriptor d = [37, 80]"
proof -
  have row: "joined_row artifact_key (w_db approved_world) = Some (sample_artifact, sample_source, sample_derived)"
    using sample_ids(1)
    by (simp add: joined_row_def approved_world_def find_scan_def lookup_row_def sample_artifact_def
        sample_source_def sample_derived_def sample_scan_def)
  have q: "query quiet_env (select_joined artifact_key) (approved_world\<lparr>w_tick := j\<rparr>) =
      (Inr (sample_artifact, sample_source, sample_derived), approved_world\<lparr>w_tick := Suc j\<rparr>)"
    by (simp add: query_def quiet_env_def select_joined_def prog_defs row)
  obtain k where o: "open_verified_artifact quiet_env (SANITIZED, artifact_key) 2 two_bytes_sha 1000
      (approved_world\<lparr>w_tick := Suc j\<rparr>) = (Inr [37, 80], approved_world\<lparr>w_tick := k\<rparr>)"
    using open_run by blast
  have "bounded_details (obj [(''derived_scan_id'', jtext derived_id)]) \<noteq> None" by code_simp
  then obtain b where b: "bounded_details (obj [(''derived_scan_id'', jtext derived_id)]) = Some b" by blast
  have "\<exists>w'. audit_append quiet_env (audit_request_of ARTIFACT_DOWNLOADED (Some source_id) AO_SUCCESS
          \<lparr>aq_artifact_id := Some artifact_key, aq_actor_type := OPERATOR,
           aq_actor_id := Some (pr_user_id who),
           aq_details := obj [(''derived_scan_id'', jtext derived_id)]\<rparr>) (approved_world\<lparr>w_tick := k\<rparr>)
      = (Inr (), w')"
    using b
    by (auto simp: audit_append_def runs transaction_run add_to_transaction_def
        catchE_def quiet_env_def approved_world_def audit_request_of_def insert_event_def prog_defs
        event_of_def has_key_def sample_artifact_def)
  then obtain w' where a: "audit_append quiet_env (audit_request_of ARTIFACT_DOWNLOADED (Some source_id) AO_SUCCESS
          \<lparr>aq_artifact_id := Some artifact_key, aq_actor_type := OPERATOR,
           aq_actor_id := Some (pr_user_id who),
           aq_details := obj [(''derived_scan_id'', jtext derived_id)]\<rparr>) (approved_world\<lparr>w_tick := k\<rparr>)
      = (Inr (), w')" by blast
  have s: "af_storage_key sample_artifact = artifact_key" "af_size_bytes sample_artifact = 2"
    "af_sha256 sample_artifact = two_bytes_sha" "af_scan_id sample_artifact = source_id"
    "af_id sample_artifact = artifact_key" "af_derived_scan_id sample_artifact = derived_id"
    "st_cdr_max_output_bytes sample_settings = 1000"
    by (simp_all add: sample_artifact_def sample_settings_def)
  show ?thesis
    using sample_rows(3)
    by (simp add: prepare_def bindE_def catchE_def q s resolve_run sample_ids o a returnE_def)
qed

lemma sample_download:
  "\<exists>d w'. prepare quiet_env sample_settings artifact_key sample_operator approved_world = (Inr d, w') \<and>
     pd_descriptor d = [37, 80]"
proof -
  have "approved_world\<lparr>w_tick := 0\<rparr> = approved_world" by (simp add: approved_world_def)
  with sample_prepared [of sample_operator 0] show ?thesis by simp
qed

theorem download_is_approved_witness:
  "\<exists>d w'. prepare quiet_env sample_settings artifact_key sample_operator approved_world = (Inr d, w') \<and>
     (\<exists>a\<in>set (db_artifacts (w_db w')). af_id a = artifact_key \<and> pd_artifact_id d = artifact_key)"
  using sample_download download_is_approved [OF approved_world_ok] by blast

end
