(* ===== verification/Reconciliation.thy ===== *)
theory Reconciliation
  imports Artifacts
begin

text \<open>
  Crash reconciliation (\<open>app/operations/reconciliation.py\<close>) and the read-only integrity check
  (\<open>app/operations/storage_integrity.py\<close>). The lock file and the directory listings are what
  the operating system reports, arguments of the model: \<open>listing a\<close> is the order in which
  \<open>os.scandir\<close> delivers the names of an area. Time stamps are compared in UTC.
\<close>

section \<open>Private files\<close>

text \<open>\<open>_private_file_matches\<close> and \<open>_verify\<close>, the same reading without a size limit.\<close>

fun hash_file :: "env \<Rightarrow> bytes list \<Rightarrow> bytes \<Rightarrow> (world, exn, string) prog" where
  "hash_file env [] hashed = bindE (os_call env) (\<lambda>_. returnE (env_sha256 env hashed))"
| "hash_file env (chunk # rest) hashed =
     bindE (os_call env) (\<lambda>_. hash_file env rest (hashed @ chunk))"

definition private_file_matches :: "env \<Rightarrow> path \<Rightarrow> string \<Rightarrow> nat \<Rightarrow> (world, exn, bool) prog" where
  "private_file_matches env p expected_hash expected_size =
     catchE (bindE (os_call env) (\<lambda>_. bindE (getE (\<lambda>w. w_files w p)) (\<lambda>f.
       case f of None \<Rightarrow> raiseE OSError | Some f \<Rightarrow>
       bindE (os_call env) (\<lambda>_.
       if \<not> metadata_ok expected_size f then returnE False
       else bindE (hash_file env (pieces (fl_bytes f)) []) (\<lambda>digest.
         returnE (digest = expected_hash))))))
      (\<lambda>e. if e = OSError then Some (returnE False) else None)"

section \<open>The report\<close>

type_synonym issue = "string \<times> string option"

record report =
  rp_inspected_scans :: nat
  rp_inspected_artifacts :: nat
  rp_inspected_files :: nat
  rp_issues :: "issue list"
  rp_stale_scans_quarantined :: nat
  rp_temporary_files_cleaned :: nat
  rp_truncated :: bool

definition empty_report :: report where
  "empty_report = \<lparr>rp_inspected_scans = 0, rp_inspected_artifacts = 0, rp_inspected_files = 0,
     rp_issues = [], rp_stale_scans_quarantined = 0, rp_temporary_files_cleaned = 0,
     rp_truncated = False\<rparr>"

definition passed :: "report \<Rightarrow> bool" where
  "passed r \<longleftrightarrow> rp_issues r = []"

definition add_issue :: "string \<Rightarrow> string \<Rightarrow> report \<Rightarrow> report" where
  "add_issue code i r = r\<lparr>rp_issues := rp_issues r @ [(code, Some i)]\<rparr>"

text \<open>A loop over a list that threads the report.\<close>

fun for_each :: "'a list \<Rightarrow> ('a \<Rightarrow> report \<Rightarrow> (world, exn, report) prog) \<Rightarrow> report \<Rightarrow> (world, exn, report) prog" where
  "for_each [] body r = returnE r"
| "for_each (x # xs) body r = bindE (body x r) (\<lambda>r'. for_each xs body r')"

section \<open>Stale scans\<close>

definition stale_fields :: "instant \<Rightarrow> instant \<Rightarrow> scan \<Rightarrow> scan" where
  "stale_fields current updated s = s\<lparr>sc_state := QUARANTINED, sc_worker_status := ''FAILED'',
     sc_analysis_error_code := Some ''recovery_stale_analysis'',
     sc_analysis_completed_at := Some current, sc_release_eligible := False,
     sc_decision := Some QUARANTINE, sc_updated_at := updated\<rparr>"

definition recover_scan ::
  "string \<Rightarrow> instant \<Rightarrow> string \<Rightarrow> instant \<Rightarrow> instant \<Rightarrow> (db, exn, bool) prog" where
  "recover_scan event_id event_time scan_id cutoff current =
     bindE (getE (find_scan scan_id)) (\<lambda>found.
     case found of None \<Rightarrow> returnE False
     | Some s \<Rightarrow>
       if sc_state s \<noteq> ANALYZING \<or> cutoff < sc_updated_at s then returnE False
       else bindE (update_scan scan_id (stale_fields current event_time)) (\<lambda>_.
         bindE (add_to_transaction event_id event_time
           (audit_request_of RECOVERY_STALE_SCAN_QUARANTINED (Some (sc_id s)) AO_SUCCESS
             \<lparr>aq_reason_code := Some ''RECOVERY_STALE_ANALYSIS''\<rparr>)) (\<lambda>_.
         returnE True)))"

definition quarantine_stale_scan ::
  "env \<Rightarrow> string \<Rightarrow> instant \<Rightarrow> instant \<Rightarrow> (world, exn, bool) prog" where
  "quarantine_stale_scan env scan_id cutoff current =
     bindE (new_id env) (\<lambda>i. bindE (now env) (\<lambda>t.
       transaction env (recover_scan i t scan_id cutoff current)))"

definition row_exists :: "env \<Rightarrow> string \<Rightarrow> (world, exn, bool) prog" where
  "row_exists env object_id = query env (getE (\<lambda>d. find_scan object_id d \<noteq> None))"

definition inspect_scan ::
  "env \<Rightarrow> bool \<Rightarrow> instant \<Rightarrow> instant \<Rightarrow> scan \<Rightarrow> report \<Rightarrow> (world, exn, report) prog" where
  "inspect_scan env apply_changes cutoff current s r0 =
     bindE (if sc_state s = ANALYZING \<and> sc_updated_at s \<le> cutoff then
         (let r = add_issue ''STALE_ANALYZING_SCAN'' (sc_id s) r0 in
          if apply_changes then
            bindE (quarantine_stale_scan env (sc_id s) cutoff current) (\<lambda>changed.
              returnE (if changed then r\<lparr>rp_stale_scans_quarantined :=
                 Suc (rp_stale_scans_quarantined r)\<rparr> else r))
          else returnE r)
       else returnE r0) (\<lambda>r1.
     bindE (resolve env QUARANTINE_AREA (sc_storage_key s)) (\<lambda>p.
     bindE (private_file_matches env p (sc_sha256 s) (sc_size_bytes s)) (\<lambda>ok.
     let r2 = (if ok then r1 else add_issue ''SCAN_OBJECT_MISSING_OR_INVALID'' (sc_id s) r1) in
     case sc_parent_scan_id s of
       None \<Rightarrow> returnE r2
     | Some parent \<Rightarrow> bindE (row_exists env parent) (\<lambda>there.
         returnE (if there then r2 else add_issue ''DERIVED_PARENT_LINEAGE_BROKEN'' (sc_id s) r2)))))"

definition inspect_artifact :: "env \<Rightarrow> artifact \<Rightarrow> report \<Rightarrow> (world, exn, report) prog" where
  "inspect_artifact env a r =
     bindE (resolve env SANITIZED (af_storage_key a)) (\<lambda>p.
     bindE (private_file_matches env p (af_sha256 a) (af_size_bytes a)) (\<lambda>ok.
       returnE (if ok then r else add_issue ''ARTIFACT_INTEGRITY_FAILURE'' (af_id a) r)))"

section \<open>Orphans\<close>

definition storage_key_is_referenced :: "env \<Rightarrow> area \<Rightarrow> string \<Rightarrow> (world, exn, bool) prog" where
  "storage_key_is_referenced env a storage_key = query env (getE (\<lambda>d.
     if a = SANITIZED then list_ex (\<lambda>x. af_storage_key x = storage_key) (db_artifacts d)
     else list_ex (\<lambda>s. sc_storage_key s = storage_key) (db_scans d)))"

definition hidden :: "string \<Rightarrow> bool" where
  "hidden name = (take 1 name = ''.'')"

fun orphan_loop ::
  "env \<Rightarrow> area \<Rightarrow> string \<Rightarrow> nat \<Rightarrow> string list \<Rightarrow> nat \<Rightarrow> report \<Rightarrow> (world, exn, report) prog" where
  "orphan_loop env a code batch_size [] seen r = returnE r"
| "orphan_loop env a code batch_size (name # names) seen r =
     (if hidden name then orphan_loop env a code batch_size names seen r
      else if Suc seen > batch_size then returnE (r\<lparr>rp_truncated := True\<rparr>)
      else bindE (storage_key_is_referenced env a name) (\<lambda>known.
        let r1 = r\<lparr>rp_inspected_files := Suc (rp_inspected_files r)\<rparr>;
            r2 = (if known then r1 else add_issue code name r1) in
        orphan_loop env a code batch_size names (Suc seen) r2))"

definition inspect_orphans ::
  "env \<Rightarrow> (area \<Rightarrow> string list) \<Rightarrow> area \<Rightarrow> string \<Rightarrow> nat \<Rightarrow> report \<Rightarrow> (world, exn, report) prog" where
  "inspect_orphans env listing a code batch_size r =
     bindE (os_call env) (\<lambda>_. orphan_loop env a code batch_size (listing a) 0 r)"

section \<open>Temporary files\<close>

definition upload_temp_name :: "string \<Rightarrow> bool" where
  "upload_temp_name name \<longleftrightarrow> length name = 55 \<and> name ! 0 = CHR ''.'' \<and>
     hex_digits 32 (take 32 (drop 1 name)) \<and> name ! 33 = CHR ''.'' \<and>
     hex_digits 16 (take 16 (drop 34 name)) \<and> drop 50 name = ''.part''"

definition cdr_temp_name :: "string \<Rightarrow> bool" where
  "cdr_temp_name name \<longleftrightarrow> length name = 42 \<and> take 5 name = ''.cdr-'' \<and>
     hex_digits 32 (take 32 (drop 5 name)) \<and> drop 37 name = ''.part''"

definition recognized_name :: "string \<Rightarrow> bool" where
  "recognized_name name \<longleftrightarrow> upload_temp_name name \<or> cdr_temp_name name"

definition trusted_temp :: "instant \<Rightarrow> stored_file \<Rightarrow> bool" where
  "trusted_temp cutoff f \<longleftrightarrow> fl_regular f \<and> fl_owned f \<and> fl_links f = 1 \<and>
     (fl_mode f = 256 \<or> fl_mode f = 384) \<and> fl_mtime f \<le> cutoff"

text \<open>\<open>entry.stat(follow_symlinks=False)\<close>; \<open>None\<close> is the \<open>OSError\<close> after which the entry is
  skipped.\<close>

definition entry_stat :: "env \<Rightarrow> path \<Rightarrow> (world, exn, stored_file option) prog" where
  "entry_stat env p = catchE (bindE (os_call env) (\<lambda>_. getE (\<lambda>w. w_files w p)))
     (\<lambda>e. if e = OSError then Some (returnE None) else None)"

definition unlink_qualified_temp :: "env \<Rightarrow> path \<Rightarrow> instant \<Rightarrow> (world, exn, bool) prog" where
  "unlink_qualified_temp env p cutoff =
     bindE (os_call env) (\<lambda>_.
     catchE (bindE (os_call env) (\<lambda>_. bindE (getE (\<lambda>w. w_files w p)) (\<lambda>f.
        case f of None \<Rightarrow> raiseE OSError | Some f \<Rightarrow>
        bindE (os_call env) (\<lambda>_.
        if \<not> trusted_temp cutoff f then returnE False
        else bindE (unlink_file env p) (\<lambda>_. returnE True)))))
      (\<lambda>e. if e = OSError then Some (returnE False) else None))"

definition area_name :: "area \<Rightarrow> string" where
  "area_name a = (case a of INCOMING \<Rightarrow> ''incoming'' | QUARANTINE_AREA \<Rightarrow> ''quarantine''
     | SANITIZED \<Rightarrow> ''sanitized'' | WORK \<Rightarrow> ''work'')"

definition clean_temporary ::
  "env \<Rightarrow> path \<Rightarrow> instant \<Rightarrow> report \<Rightarrow> (world, exn, report) prog" where
  "clean_temporary env p cutoff r =
     bindE (unlink_qualified_temp env p cutoff) (\<lambda>gone.
     if \<not> gone then returnE r
     else bindE (audit_append env (audit_request_of TEMP_OBJECT_CLEANED None AO_SUCCESS
           \<lparr>aq_details := obj [(''area'', jtext (area_name (fst p)))]\<rparr>)) (\<lambda>_.
       returnE (r\<lparr>rp_temporary_files_cleaned := Suc (rp_temporary_files_cleaned r)\<rparr>)))"

text \<open>The loop over one directory; the boolean says that the bound was reached, which ends the
  whole inspection of temporary files.\<close>

fun temporary_loop ::
  "env \<Rightarrow> area \<Rightarrow> instant \<Rightarrow> nat \<Rightarrow> bool \<Rightarrow> string list \<Rightarrow> nat \<Rightarrow> report \<Rightarrow>
   (world, exn, bool \<times> nat \<times> report) prog" where
  "temporary_loop env a cutoff batch_size delete [] seen r = returnE (False, seen, r)"
| "temporary_loop env a cutoff batch_size delete (name # names) seen r =
     (if \<not> recognized_name name then temporary_loop env a cutoff batch_size delete names seen r
      else if Suc seen > batch_size then returnE (True, Suc seen, r\<lparr>rp_truncated := True\<rparr>)
      else bindE (entry_stat env (a, name)) (\<lambda>metadata.
        bindE (case metadata of
            None \<Rightarrow> returnE r
          | Some f \<Rightarrow> if \<not> trusted_temp cutoff f then returnE r
              else (let r1 = add_issue ''STALE_TEMP_OBJECT'' name r in
                if delete then clean_temporary env (a, name) cutoff r1 else returnE r1)) (\<lambda>r2.
        temporary_loop env a cutoff batch_size delete names (Suc seen) r2)))"

definition inspect_temporary ::
  "env \<Rightarrow> (area \<Rightarrow> string list) \<Rightarrow> instant \<Rightarrow> nat \<Rightarrow> bool \<Rightarrow> report \<Rightarrow> (world, exn, report) prog" where
  "inspect_temporary env listing cutoff batch_size delete r =
     bindE (os_call env) (\<lambda>_.
     bindE (temporary_loop env INCOMING cutoff batch_size delete (listing INCOMING) 0 r) (\<lambda>(full, seen, r1).
     if full then returnE r1
     else bindE (os_call env) (\<lambda>_.
       bindE (temporary_loop env WORK cutoff batch_size delete (listing WORK) seen r1) (\<lambda>(full, seen, r2).
         returnE r2))))"

section \<open>The service\<close>

definition select_batch :: "env \<Rightarrow> nat \<Rightarrow> (world, exn, scan list \<times> artifact list) prog" where
  "select_batch env batch_size = query env (getE (\<lambda>d.
     (take batch_size (sort_key sc_id (db_scans d)), take batch_size (sort_key af_id (db_artifacts d)))))"

definition inspect_locked ::
  "env \<Rightarrow> (area \<Rightarrow> string list) \<Rightarrow> int \<Rightarrow> nat \<Rightarrow> bool \<Rightarrow> bool \<Rightarrow> instant \<Rightarrow> (world, exn, report) prog" where
  "inspect_locked env listing stale_seconds batch_size apply_changes cleanup_temporary current =
     (let cutoff = current - stale_seconds * 1000000 in
      bindE (select_batch env batch_size) (\<lambda>(scans, artifacts).
      let r0 = empty_report\<lparr>rp_inspected_scans := length scans, rp_inspected_artifacts := length artifacts\<rparr> in
      bindE (for_each scans (inspect_scan env apply_changes cutoff current) r0) (\<lambda>r1.
      bindE (for_each artifacts (inspect_artifact env) r1) (\<lambda>r2.
      bindE (inspect_orphans env listing QUARANTINE_AREA ''QUARANTINE_ORPHAN'' batch_size r2) (\<lambda>r3.
      bindE (inspect_orphans env listing SANITIZED ''SANITIZED_ORPHAN'' batch_size r3) (\<lambda>r4.
      inspect_temporary env listing cutoff batch_size (apply_changes \<and> cleanup_temporary) r4))))))"

text \<open>\<open>ReconciliationLock\<close>: what the lock file turns out to be.\<close>

record lock_file =
  lk_openable :: bool
  lk_regular :: bool
  lk_owned :: bool
  lk_links :: nat
  lk_held :: bool

definition lock_enter :: "lock_file \<Rightarrow> (world, exn, unit) prog" where
  "lock_enter l =
     bindE (unlessE (lk_openable l) ReconciliationLocked) (\<lambda>_.
     bindE (unlessE (lk_regular l \<and> lk_owned l \<and> lk_links l = 1) ReconciliationLocked) (\<lambda>_.
       unlessE (\<not> lk_held l) ReconciliationLocked))"

definition inspect ::
  "env \<Rightarrow> lock_file \<Rightarrow> (area \<Rightarrow> string list) \<Rightarrow> int \<Rightarrow> int \<Rightarrow> bool \<Rightarrow> bool \<Rightarrow> instant option \<Rightarrow>
   (world, exn, report) prog" where
  "inspect env lock listing stale_seconds batch_size apply_changes cleanup_temporary supplied =
     bindE (unlessE (1 \<le> batch_size \<and> batch_size \<le> 10000) ValueError) (\<lambda>_.
     bindE (case supplied of Some t \<Rightarrow> returnE t | None \<Rightarrow> now env) (\<lambda>current.
     bindE (lock_enter lock) (\<lambda>_.
       inspect_locked env listing stale_seconds (nat batch_size) apply_changes cleanup_temporary current)))"

section \<open>A contract for whatever a reconciliation must not disturb\<close>

text \<open>An invariant of the world survives a reconciliation if it does not look at the tick and
  survives the three kinds of change a reconciliation may make, each only with the permission
  that allows it.\<close>

locale reconciled =
  fixes env :: env and apply_changes :: bool and delete :: bool and cutoff :: instant
    and I :: "world \<Rightarrow> bool"
  assumes tick: "I w \<Longrightarrow> I (w\<lparr>w_tick := k\<rparr>)"
    and recover: "apply_changes \<Longrightarrow> keeps I (transaction env (recover_scan i t scan_id cutoff current))"
    and unlink: "delete \<Longrightarrow> a \<in> {INCOMING, WORK} \<Longrightarrow> recognized_name name \<Longrightarrow>
      keeps I (unlink_qualified_temp env (a, name) cutoff)"
    and recorded: "delete \<Longrightarrow> keeps I (audit_append env q)"
begin

lemma calls:
  "keeps I (new_id env)" "keeps I (now env)" "keeps I tickE" "keeps I (os_call env)"
  "keeps I (query env m)"
  by (intro keeps_new_id keeps_now keeps_tick keeps_os_call query_keeps tick; assumption)+

lemma resolve_keeps: "keeps I (resolve env a key)"
  unfolding resolve_def validate_storage_key_def by (intro keeps_intro)

lemma hash_keeps: "keeps I (hash_file env cs h)"
  by (induction cs arbitrary: h) (auto intro!: keeps_intro calls)

lemma matches_keeps: "keeps I (private_file_matches env p h n)"
  unfolding private_file_matches_def
  by (rule keeps_catch) (auto intro!: keeps_intro calls hash_keeps split: option.split if_splits)

lemma scan_keeps: "keeps I (inspect_scan env apply_changes cutoff current s r)"
proof -
  have stale: "keeps I (quarantine_stale_scan env (sc_id s) cutoff current)" if apply_changes
    unfolding quarantine_stale_scan_def by (intro keeps_bind calls recover that)
  have rest: "keeps I (bindE (resolve env QUARANTINE_AREA (sc_storage_key s)) (\<lambda>p.
     bindE (private_file_matches env p (sc_sha256 s) (sc_size_bytes s)) (\<lambda>ok.
     let r2 = (if ok then r1 else add_issue ''SCAN_OBJECT_MISSING_OR_INVALID'' (sc_id s) r1) in
     case sc_parent_scan_id s of
       None \<Rightarrow> returnE r2
     | Some parent \<Rightarrow> bindE (row_exists env parent) (\<lambda>there.
         returnE (if there then r2 else add_issue ''DERIVED_PARENT_LINEAGE_BROKEN'' (sc_id s) r2)))))" for r1
    unfolding row_exists_def Let_def
    by (intro keeps_bind resolve_keeps matches_keeps) (auto intro!: keeps_intro calls split: option.split)
  show ?thesis
    unfolding inspect_scan_def
    by (rule keeps_bind [OF _ rest]) (auto simp: Let_def intro!: keeps_intro stale)
qed

lemma artifact_keeps: "keeps I (inspect_artifact env a r)"
  unfolding inspect_artifact_def by (intro keeps_bind resolve_keeps matches_keeps keeps_return)

lemma each_keeps: "(\<And>x r. keeps I (body x r)) \<Longrightarrow> keeps I (for_each xs body r)"
  by (induction xs arbitrary: r) (auto intro!: keeps_bind keeps_return)

lemma orphans_keep: "keeps I (inspect_orphans env listing a code b r)"
proof -
  have "keeps I (orphan_loop env a code b names n r)" for names n r
    by (induction names arbitrary: n r)
      (auto simp: Let_def storage_key_is_referenced_def intro!: keeps_bind keeps_return calls)
  then show ?thesis unfolding inspect_orphans_def by (intro keeps_bind calls)
qed

lemma temporary_keeps:
  assumes "a \<in> {INCOMING, WORK}"
  shows "keeps I (temporary_loop env a cutoff b delete names n r)"
proof (induction names arbitrary: n r)
  case (Cons name names)
  have stat: "keeps I (entry_stat env p)" for p
    unfolding entry_stat_def by (rule keeps_catch) (auto intro!: keeps_intro calls split: if_splits)
  have clean: "keeps I (clean_temporary env (a, name) cutoff r)" if delete "recognized_name name" for r
    unfolding clean_temporary_def
    by (intro keeps_bind unlink that assms) (auto intro!: keeps_intro recorded that)
  show ?case
    by (auto simp: Let_def intro!: keeps_bind stat keeps_return Cons.IH clean split: option.split)
qed (simp add: keeps_return)

lemma inspect_temporary_keeps: "keeps I (inspect_temporary env listing cutoff b delete r)"
  unfolding inspect_temporary_def
  by (intro keeps_bind calls temporary_keeps)
    (auto intro!: keeps_bind calls temporary_keeps keeps_return)

lemma locked_keeps:
  assumes "cutoff = current - stale_seconds * 1000000" "delete = (apply_changes \<and> cleanup)"
  shows "keeps I (inspect_locked env listing stale_seconds b apply_changes cleanup current)"
proof -
  have d: "(apply_changes \<and> cleanup) = delete" using assms(2) by simp
  show ?thesis
    unfolding inspect_locked_def Let_def assms(1) [symmetric] d select_batch_def
    by (intro keeps_bind calls)
      (auto intro!: keeps_bind calls each_keeps scan_keeps artifact_keeps orphans_keep inspect_temporary_keeps)
qed

end

section \<open>Recovery keeps the database in order\<close>

lemma stale_fields_simps [simp]:
  "sc_id (stale_fields c v s) = sc_id s" "sc_storage_key (stale_fields c v s) = sc_storage_key s"
  "sc_parent_scan_id (stale_fields c v s) = sc_parent_scan_id s"
  "sc_state (stale_fields c v s) = QUARANTINED"
  by (simp_all add: stale_fields_def)

interpretation recovered: table sc_id "\<lambda>(c, v). stale_fields c v"
  by unfold_locales auto

text \<open>A row under analysis has no evaluation, so it cannot be a released or an evaluated one.\<close>

lemma stale_row: "scan_row_ok s \<Longrightarrow> sc_state s = ANALYZING \<Longrightarrow> scan_row_ok (stale_fields c v s)"
  by (auto simp: scan_row_ok_def unevaluated_row_def evaluated_row_def stale_fields_def split: if_splits)

lemma update_event_ok: "keeps db_ok (add_to_transaction i t q)"
  unfolding keeps_def
proof (intro allI impI)
  fix d :: db assume d: "db_ok d"
  obtain x d' where run: "add_to_transaction i t q d = (x, d')" by fastforce
  have "schema_ok d'" using keepsD [OF add_to_transaction_schema db_ok_schema [OF d], of i t q] run by simp
  with add_to_transaction_effect [OF run] d show "db_ok (snd (add_to_transaction i t q d))"
    by (auto simp: run db_ok_def rows_ok_def artifact_ok_def find_scan_def)
qed

lemma stale_update_ok:
  assumes "db_ok d" "find_scan i d = Some s" "sc_state s = ANALYZING"
  shows "db_ok (d\<lparr>db_scans := update_row sc_id i (stale_fields c v) (db_scans d)\<rparr>)" (is "db_ok ?d")
proof -
  have "holds_row i s d" using assms(1,2) by (simp add: db_ok_rows holds_row_def)
  moreover have "scan_row_ok s" by (rule rows_okD [OF db_ok_rows [OF assms(1)] assms(2)])
  ultimately have rows: "rows_ok ?d"
    using triple_valueD [OF update_scan_triple [of "stale_fields c v" s]] stale_row assms(3)
    by (fastforce simp: update_scan_def modifyE_def holds_row_def)
  have find: "find_scan j ?d = map_option (if j = i then stale_fields c v else id) (find_scan j d)" for j
    using recovered.lookup_update [of i "(c, v)" "db_scans d" j] by (simp add: find_scan_def)
  have "artifact_ok ?d a" if "artifact_ok d a" for a
  proof -
    from that obtain x y where xy: "find_scan (af_scan_id a) d = Some x"
      "find_scan (af_derived_scan_id a) d = Some y" "valid_lineage a x y"
      by (auto simp: artifact_ok_def)
    have "af_derived_scan_id a \<noteq> i"
      using xy(2,3) assms(2,3) by (auto simp: valid_lineage_def)
    with xy find show ?thesis
      by (auto simp: artifact_ok_def valid_lineage_def)
  qed
  with rows assms(1) show ?thesis by (simp add: db_ok_def)
qed

lemma recover_scan_cases:
  obtains "snd (recover_scan e t i cutoff c d) = d" "fst (recover_scan e t i cutoff c d) = Inr False"
  | s q where "find_scan i d = Some s" "sc_state s = ANALYZING" "sc_updated_at s \<le> cutoff"
      "snd (recover_scan e t i cutoff c d) = snd (add_to_transaction e t q
         (d\<lparr>db_scans := update_row sc_id i (stale_fields c t) (db_scans d)\<rparr>))"
proof (cases "find_scan i d")
  case None
  then have "recover_scan e t i cutoff c d = (Inr False, d)" by (simp add: recover_scan_def prog_defs)
  then show ?thesis by (intro that(1)) simp_all
next
  case (Some s)
  show ?thesis
  proof (cases "sc_state s \<noteq> ANALYZING \<or> cutoff < sc_updated_at s")
    case True
    with Some have "recover_scan e t i cutoff c d = (Inr False, d)" by (simp add: recover_scan_def prog_defs)
    then show ?thesis by (intro that(1)) simp_all
  next
    case False
    let ?q = "audit_request_of RECOVERY_STALE_SCAN_QUARANTINED (Some (sc_id s)) AO_SUCCESS
             \<lparr>aq_reason_code := Some ''RECOVERY_STALE_ANALYSIS''\<rparr>"
    have "snd (recover_scan e t i cutoff c d) = snd (add_to_transaction e t ?q
         (d\<lparr>db_scans := update_row sc_id i (stale_fields c t) (db_scans d)\<rparr>))"
      using Some False
      by (auto simp: recover_scan_def bindE_def getE_def returnE_def update_scan_def modifyE_def
          split: prod.splits sum.splits)
    with Some False show ?thesis by (intro that(2)) auto
  qed
qed

lemma recover_db_ok: "keeps db_ok (recover_scan e t i cutoff c)"
  unfolding keeps_def
proof (intro allI impI)
  fix d :: db assume d: "db_ok d"
  show "db_ok (snd (recover_scan e t i cutoff c d))"
  proof (cases rule: recover_scan_cases [of e t i cutoff c d])
    case (2 s q)
    with stale_update_ok [OF d] keepsD [OF update_event_ok] show ?thesis by simp
  qed (use d in simp)
qed

lemma unlink_db: "keeps (\<lambda>w. P (w_db w)) (unlink_qualified_temp env p cutoff)"
proof -
  have c: "keeps (\<lambda>w. P (w_db w)) (os_call env)" by (rule keeps_os_call) simp
  have "keeps (\<lambda>w. P (w_db w)) (unlink_file env p)"
    unfolding unlink_file_def by (intro keeps_bind c keeps_modify) (simp add: set_file_def)
  then show ?thesis
    unfolding unlink_qualified_temp_def
    by (intro keeps_bind c keeps_catch) (auto intro!: keeps_intro c split: option.split if_splits)
qed

interpretation ordered: reconciled env a b cutoff "\<lambda>w. db_ok (w_db w)" for env a b cutoff
proof
  show "keeps (\<lambda>w. db_ok (w_db w)) (transaction env (recover_scan i t scan_id cutoff current))"
    for i t scan_id current
    by (rule transaction_keeps [OF recover_db_ok]) auto
qed (simp_all add: unlink_db append_db_ok)

text \<open>The whole operation, for an invariant of every possible cutoff.\<close>

lemma inspect_keeps:
  assumes "\<And>cutoff. reconciled env apply_changes (apply_changes \<and> cleanup) cutoff I"
  shows "keeps I (inspect env lock listing stale_seconds b apply_changes cleanup supplied)"
proof -
  note r = assms
  have n: "keeps I (now env)" by (rule reconciled.calls(2) [OF r])
  have "keeps I (inspect_locked env listing stale_seconds (nat b) apply_changes cleanup current)" for current
    by (rule reconciled.locked_keeps [OF r refl refl])
  then show ?thesis
    unfolding inspect_def lock_enter_def
    by (intro keeps_intro n) (auto intro!: keeps_return n split: option.split)
qed

section \<open>The promises\<close>

text \<open>Reconciliation, applied or not and interrupted by whatever failure, keeps the database
  in order: no scan becomes releasable and no artifact loses its lineage.\<close>

theorem reconciliation_keeps_database:
  assumes "db_ok (w_db w)"
  shows "db_ok (w_db (snd (inspect env lock listing stale_seconds b apply_changes cleanup supplied w)))"
proof -
  have "keeps (\<lambda>w. db_ok (w_db w)) (inspect env lock listing stale_seconds b apply_changes cleanup supplied)"
    by (rule inspect_keeps) unfold_locales
  from keepsD [OF this] assms show ?thesis by simp
qed

text \<open>What became of a row, and of a file.\<close>

definition recovered_from :: "instant \<Rightarrow> scan \<Rightarrow> scan \<Rightarrow> bool" where
  "recovered_from cutoff s s' \<longleftrightarrow> sc_state s = ANALYZING \<and> sc_updated_at s \<le> cutoff \<and>
     (\<exists>c v. s' = stale_fields c v s)"

definition rows_from :: "instant \<Rightarrow> db \<Rightarrow> db \<Rightarrow> bool" where
  "rows_from cutoff d d' \<longleftrightarrow> db_artifacts d' = db_artifacts d \<and>
     list_all2 (\<lambda>s s'. s' = s \<or> recovered_from cutoff s s') (db_scans d) (db_scans d')"

definition files_from :: "instant \<Rightarrow> bool \<Rightarrow> world \<Rightarrow> world \<Rightarrow> bool" where
  "files_from cutoff delete w w' \<longleftrightarrow> (\<forall>p. w_files w' p \<noteq> w_files w p \<longrightarrow> delete \<and>
     fst p \<in> {INCOMING, WORK} \<and> recognized_name (snd p) \<and> w_files w' p = None \<and>
     (\<exists>f. w_files w p = Some f \<and> trusted_temp cutoff f))"

lemma rows_from_recover: "keeps (\<lambda>d'. db_ok d' \<and> rows_from cutoff d d') (recover_scan e t i cutoff c)"
  unfolding keeps_def
proof (intro allI impI, elim conjE)
  fix d' assume ok: "db_ok d'" and d': "rows_from cutoff d d'"
  have "rows_from cutoff d (snd (recover_scan e t i cutoff c d'))"
  proof (cases rule: recover_scan_cases [of e t i cutoff c d'])
    case (2 s q)
    obtain x d2 where run: "add_to_transaction e t q
        (d'\<lparr>db_scans := update_row sc_id i (stale_fields c t) (db_scans d')\<rparr>) = (x, d2)" by fastforce
    have d2: "db_artifacts d2 = db_artifacts d'" "db_scans d2 = update_row sc_id i (stale_fields c t) (db_scans d')"
      using add_to_transaction_effect [OF run] by auto
    have same: "r = s" if "r \<in> set (db_scans d')" "sc_id r = i" for r
    proof -
      have "find_scan i d' = Some r" using that find_scan_Some [OF db_ok_schema [OF ok]] by simp
      with 2(1) show ?thesis by simp
    qed
    have "list_all2 (\<lambda>r r'. (if sc_id r' = i then stale_fields c t r' else r') = r \<or>
        recovered_from cutoff r (if sc_id r' = i then stale_fields c t r' else r')) (db_scans d) (db_scans d')"
    proof (rule list.rel_mono_strong)
      show "list_all2 (\<lambda>s s'. s' = s \<or> recovered_from cutoff s s') (db_scans d) (db_scans d')"
        using d' by (simp add: rows_from_def)
      fix r r' assume "r' \<in> set (db_scans d')" and r: "r' = r \<or> recovered_from cutoff r r'"
      with same [of r'] 2(2,3) show "(if sc_id r' = i then stale_fields c t r' else r') = r \<or>
        recovered_from cutoff r (if sc_id r' = i then stale_fields c t r' else r')"
        by (auto simp: recovered_from_def)
    qed
    then show ?thesis
      using d' 2(4) run d2 by (simp add: rows_from_def update_row_def list_all2_map2)
  qed (use d' in simp)
  with keepsD [OF recover_db_ok ok, of e t i cutoff c]
  show "db_ok (snd (recover_scan e t i cutoff c d')) \<and> rows_from cutoff d (snd (recover_scan e t i cutoff c d'))"
    by simp
qed

lemma rows_from_append: "keeps (\<lambda>w. db_ok (w_db w) \<and> rows_from cutoff d (w_db w)) (audit_append env q)"
proof -
  have "keeps (\<lambda>w. rows_from cutoff d (w_db w)) (audit_append env q)"
    by (rule audit_log.append_keeps) (simp add: rows_from_def)
  with append_db_ok [of env q] show ?thesis by (auto simp: keeps_def)
qed

interpretation only_stale: reconciled env a b cutoff "\<lambda>w. db_ok (w_db w) \<and> rows_from cutoff d (w_db w)"
  for env a b cutoff d
proof
  show "keeps (\<lambda>w. db_ok (w_db w) \<and> rows_from cutoff d (w_db w)) (transaction env (recover_scan i t scan_id cutoff current))"
    for i t scan_id current
    by (rule transaction_keeps [OF rows_from_recover]) auto
qed (use unlink_db [where P = "\<lambda>x. db_ok x \<and> rows_from cutoff d x"] rows_from_append in auto)

lemma unlink_effect:
  "w_files (snd (unlink_qualified_temp env p cutoff w)) = w_files w \<or>
   (\<exists>f. w_files w p = Some f \<and> trusted_temp cutoff f \<and>
      w_files (snd (unlink_qualified_temp env p cutoff w)) = (w_files w)(p := None))"
  by (auto simp: unlink_qualified_temp_def unlink_file_def catchE_def runs returnE_def raiseE_def
      getE_def modifyE_def set_file_def split: option.split)

lemma unlink_files:
  assumes "a \<in> {INCOMING, WORK}" "recognized_name name"
  shows "keeps (files_from cutoff True w0) (unlink_qualified_temp env (a, name) cutoff)"
  unfolding keeps_def
proof (intro allI impI)
  fix w assume w: "files_from cutoff True w0 w"
  show "files_from cutoff True w0 (snd (unlink_qualified_temp env (a, name) cutoff w))"
    using unlink_effect [of env "(a, name)" cutoff w]
  proof (elim disjE exE conjE)
    fix f assume f: "w_files w (a, name) = Some f" "trusted_temp cutoff f"
      and eff: "w_files (snd (unlink_qualified_temp env (a, name) cutoff w)) = (w_files w)((a, name) := None)"
    have "w_files w0 (a, name) = Some f"
    proof (rule ccontr)
      assume "w_files w0 (a, name) \<noteq> Some f"
      then have "w_files w (a, name) \<noteq> w_files w0 (a, name)" using f(1) by simp
      with w have "w_files w (a, name) = None" unfolding files_from_def by blast
      with f(1) show False by simp
    qed
    with w f assms show ?thesis unfolding files_from_def eff by (auto simp: fun_upd_def)
  qed (use w in \<open>simp add: files_from_def\<close>)
qed

interpretation only_temporary: reconciled env a b cutoff "files_from cutoff b w0" for env a b cutoff w0
proof
  show "keeps (files_from cutoff b w0) (transaction env (recover_scan i t scan_id cutoff current))"
    for i t scan_id current
    by (simp add: keeps_def files_from_def)
  show "keeps (files_from cutoff b w0) (audit_append env q)" for q
    by (rule audit_log.append_keeps) (simp add: files_from_def)
  show "keeps (files_from cutoff b w0) (unlink_qualified_temp env (x, name) cutoff)"
    if b "x \<in> {INCOMING, WORK}" "recognized_name name" for x name
    using unlink_files that by simp
qed (simp add: files_from_def)

interpretation preview: reconciled env False False cutoff "\<lambda>w. w_db w = d \<and> w_files w = fs" for env cutoff d fs
  by unfold_locales simp_all

text \<open>Reconciliation touches only what crashed: with the cutoff it derives from its clock,
  every scan row is as before or was a stale \<open>ANALYZING\<close> row, now quarantined; no row and no
  artifact is added or removed; and the only files removed are recognised temporaries of the
  incoming and work areas, private, untouched since the cutoff, and only when both switches
  are on.\<close>

theorem reconciliation_changes_only_stale:
  assumes "db_ok (w_db w)"
    and "inspect env lock listing stale_seconds b apply_changes cleanup (Some current) w = (x, w')"
  shows "rows_from (current - stale_seconds * 1000000) (w_db w) (w_db w') \<and>
    files_from (current - stale_seconds * 1000000) (apply_changes \<and> cleanup) w w'"
proof
  let ?c = "current - stale_seconds * 1000000"
  have locked: "keeps I (inspect env lock listing stale_seconds b apply_changes cleanup (Some current))"
    if "keeps I (inspect_locked env listing stale_seconds (nat b) apply_changes cleanup current)" for I
  proof -
    have r: "bindE (returnE t) k = k t" for t and k :: "instant \<Rightarrow> (world, exn, report) prog"
      by (rule ext) (simp add: bindE_def returnE_def)
    show ?thesis
      unfolding inspect_def lock_enter_def option.case r by (intro keeps_intro that)
  qed
  have "keeps (\<lambda>v. db_ok (w_db v) \<and> rows_from ?c (w_db w) (w_db v))
      (inspect env lock listing stale_seconds b apply_changes cleanup (Some current))"
    by (rule locked) (rule only_stale.locked_keeps, simp_all)
  from keepsD [OF this, of w] assms show "rows_from ?c (w_db w) (w_db w')"
    by (simp add: rows_from_def list_all2_refl)
  have "keeps (files_from ?c (apply_changes \<and> cleanup) w)
      (inspect env lock listing stale_seconds b apply_changes cleanup (Some current))"
    by (rule locked) (rule only_temporary.locked_keeps, simp_all)
  from keepsD [OF this, of w] assms(2) show "files_from ?c (apply_changes \<and> cleanup) w w'"
    by (simp add: files_from_def)
qed

text \<open>A dry run is read-only: without the apply switch neither the database nor a file
  changes, whatever is found.\<close>

theorem reconciliation_dry_run:
  assumes "inspect env lock listing stale_seconds b False cleanup supplied w = (x, w')"
  shows "w_db w' = w_db w \<and> w_files w' = w_files w"
proof -
  have "keeps (\<lambda>v. w_db v = w_db w \<and> w_files v = w_files w)
      (inspect env lock listing stale_seconds b False cleanup supplied)"
    by (rule inspect_keeps) (simp add: preview.reconciled_axioms)
  from keepsD [OF this, of w] assms show ?thesis by simp
qed

subsection \<open>A crashed process\<close>

definition sample_lock :: lock_file where
  "sample_lock = \<lparr>lk_openable = True, lk_regular = True, lk_owned = True, lk_links = 1, lk_held = False\<rparr>"

definition stuck_scan :: scan where
  "stuck_scan = mark_fields 5 (new_scan id source_id 4 sample_document sample_request)"

definition sample_temp :: string where
  "sample_temp = ''.cdr-'' @ replicate 32 CHR ''0'' @ ''.part''"

definition crashed_world :: world where
  "crashed_world = \<lparr>w_db = \<lparr>db_scans = [stuck_scan], db_artifacts = [], db_events = []\<rparr>,
     w_files = [(WORK, sample_temp) \<mapsto> private_file [] 384 6], w_tick = 0\<rparr>"

definition sample_listing :: "area \<Rightarrow> string list" where
  "sample_listing a = (if a = WORK then [sample_temp] else [])"

lemma crashed_world_ok: "db_ok (w_db crashed_world)"
  by (simp add: db_ok_def rows_ok_def schema_ok_def crashed_world_def stuck_scan_def scan_row_ok_def
      mark_fields_row new_scan_row sample_request_def)

theorem reconciliation_keeps_database_witness:
  "db_ok (w_db (snd (inspect quiet_env sample_lock sample_listing 60 100 True True (Some 100000000) crashed_world)))"
  by (rule reconciliation_keeps_database [OF crashed_world_ok])

lemma crashed_details:
  "bounded_details [] = Some []"
  "bounded_details (obj [(''area'', jtext ''work'')]) = Some (obj [(''area'', jtext ''work'')])"
  by code_simp+

lemma sample_temp_name: "recognized_name sample_temp" "\<not> hidden artifact_key"
  by code_simp+

lemma stuck_simps [simp]:
  "sc_id stuck_scan = source_id" "sc_state stuck_scan = ANALYZING" "sc_updated_at stuck_scan = 5"
  "sc_parent_scan_id stuck_scan = None" "sc_storage_key stuck_scan = replicate 32 CHR ''a''"
  by (simp_all add: stuck_scan_def mark_fields_def new_scan_def sample_request_def sample_document_def)

lemma crashed_transaction:
  "transaction quiet_env (recover_scan i t source_id 40000000 100000000) (crashed_world\<lparr>w_tick := k\<rparr>) =
     (Inr True, crashed_world\<lparr>w_db := \<lparr>db_scans = [stale_fields 100000000 t stuck_scan], db_artifacts = [],
        db_events = [event_of i t (audit_request_of RECOVERY_STALE_SCAN_QUARANTINED (Some source_id) AO_SUCCESS
             \<lparr>aq_reason_code := Some ''RECOVERY_STALE_ANALYSIS''\<rparr>) []]\<rparr>, w_tick := Suc k\<rparr>)"
  by (simp add: transaction_run quiet_env_def recover_scan_def crashed_world_def find_scan_def
      lookup_row_def prog_defs update_scan_def update_row_def add_to_transaction_def
      audit_request_of_def crashed_details insert_event_def event_of_def has_key_def)

theorem reconciliation_changes_only_stale_witness:
  "rows_from 40000000 (w_db crashed_world)
     (w_db (snd (inspect quiet_env sample_lock sample_listing 60 100 True True (Some 100000000) crashed_world)))"
  using reconciliation_changes_only_stale [OF crashed_world_ok surjective_pairing,
      where env = quiet_env and lock = sample_lock and listing = sample_listing and
        stale_seconds = 60 and b = 100 and apply_changes = True and cleanup = True and
        current = 100000000] by simp

theorem reconciliation_dry_run_witness:
  "w_db (snd (inspect quiet_env sample_lock sample_listing 60 100 False True None crashed_world)) =
     w_db crashed_world"
  using reconciliation_dry_run [OF surjective_pairing,
      where env = quiet_env and lock = sample_lock and listing = sample_listing and
        stale_seconds = 60 and b = 100 and cleanup = True and supplied = None and
        w = crashed_world] by simp

text \<open>A single stale scan, recovered.\<close>

lemma crashed_recovery:
  "recovered_from 40000000 stuck_scan (stale_fields 100000000 t stuck_scan)"
  by (auto simp: recovered_from_def)

end
