(* ===== verification/Storage_Integrity.thy ===== *)
theory Storage_Integrity
  imports Reconciliation
begin

text \<open>
  The read-only integrity check of \<open>app/operations/storage_integrity.py\<close>, which rehashes the
  objects of the first rows of each table. Its \<open>_verify\<close> is the reading
  \<open>private_file_matches\<close> of the reconciliation.
\<close>

record integrity_report =
  ir_inspected :: nat
  ir_issues :: "string list"

definition integrity_passed :: "integrity_report \<Rightarrow> bool" where
  "integrity_passed r \<longleftrightarrow> ir_issues r = []"

text \<open>One row: its area, storage key, hash and size, and the code of the issue.\<close>

definition verify_row ::
  "env \<Rightarrow> area \<Rightarrow> string \<Rightarrow> string \<Rightarrow> string \<Rightarrow> nat \<Rightarrow> integrity_report \<Rightarrow> (world, exn, integrity_report) prog"
where
  "verify_row env a code storage_key expected_sha256 expected_size r0 =
     (let r = r0\<lparr>ir_inspected := Suc (ir_inspected r0)\<rparr> in
      bindE (resolve env a storage_key) (\<lambda>p.
      bindE (private_file_matches env p expected_sha256 expected_size) (\<lambda>ok.
        returnE (if ok then r else r\<lparr>ir_issues := ir_issues r @ [code]\<rparr>))))"

fun verify_artifacts :: "env \<Rightarrow> artifact list \<Rightarrow> integrity_report \<Rightarrow> (world, exn, integrity_report) prog" where
  "verify_artifacts env [] r = returnE r"
| "verify_artifacts env (a # as) r =
     bindE (verify_row env SANITIZED ''ARTIFACT_INTEGRITY_FAILURE'' (af_storage_key a) (af_sha256 a)
        (af_size_bytes a) r) (verify_artifacts env as)"

fun verify_scans :: "env \<Rightarrow> scan list \<Rightarrow> integrity_report \<Rightarrow> (world, exn, integrity_report) prog" where
  "verify_scans env [] r = returnE r"
| "verify_scans env (s # ss) r =
     bindE (verify_row env QUARANTINE_AREA ''SCAN_OBJECT_INTEGRITY_FAILURE'' (sc_storage_key s) (sc_sha256 s)
        (sc_size_bytes s) r) (verify_scans env ss)"

definition check_storage :: "env \<Rightarrow> int \<Rightarrow> bool \<Rightarrow> (world, exn, integrity_report) prog" where
  "check_storage env batch_size include_quarantine =
     bindE (unlessE (1 \<le> batch_size \<and> batch_size \<le> 10000) ValueError) (\<lambda>_.
     bindE (query env (getE (\<lambda>d. (take (nat batch_size) (sort_key af_id (db_artifacts d)),
         if include_quarantine then take (nat batch_size) (sort_key sc_id (db_scans d)) else [])))) (\<lambda>(artifacts, scans).
     bindE (verify_artifacts env artifacts \<lparr>ir_inspected = 0, ir_issues = []\<rparr>) (verify_scans env scans)))"

section \<open>What passing means\<close>

definition holds_object :: "env \<Rightarrow> area \<Rightarrow> string \<Rightarrow> string \<Rightarrow> nat \<Rightarrow> world \<Rightarrow> bool" where
  "holds_object env a key sha len w \<longleftrightarrow> (\<exists>f. w_files w (a, key) = Some f \<and> metadata_ok len f \<and>
     env_sha256 env (fl_bytes f) = sha)"

lemma hash_file_value:
  assumes "hash_file env cs h w = (Inr digest, w')"
  shows "digest = env_sha256 env (h @ concat cs) \<and> w_db w' = w_db w \<and> w_files w' = w_files w"
  using assms
proof (induction env cs h arbitrary: w rule: hash_file.induct)
  case (2 env c cs h)
  from 2(2) obtain w1 where w1: "os_call env w = (Inr (), w1)" "hash_file env cs (h @ c) w1 = (Inr digest, w')"
    by (auto elim!: bind_InrE)
  from 2(1) [OF w1(2)] os_call_InrD [OF w1(1)] show ?case by simp
qed (auto dest!: os_call_InrD elim!: bind_InrE)

lemma matches_frame:
  "w_db (snd (private_file_matches env p h n w)) = w_db w \<and> w_files (snd (private_file_matches env p h n w)) = w_files w"
  using keepsD [OF preview.matches_keeps, of w "w_db w" "w_files w" env p h n] by simp

lemma matches_True:
  assumes "private_file_matches env p h n w = (Inr True, w')"
  shows "\<exists>f. w_files w p = Some f \<and> metadata_ok n f \<and> env_sha256 env (fl_bytes f) = h"
  using assms
  by (auto simp: private_file_matches_def split: option.splits if_splits
      elim!: catch_InrE bind_InrE dest!: os_call_InrD hash_file_value)

lemma verify_row_value:
  assumes "verify_row env a code key h n r w = (Inr r', w')"
  shows "w_db w' = w_db w \<and> w_files w' = w_files w \<and> ir_inspected r' = Suc (ir_inspected r) \<and>
    (ir_issues r' = [] \<longrightarrow> ir_issues r = [] \<and> holds_object env a key h n w)"
proof -
  from assms obtain p w1 ok where res: "resolve env a key w = (Inr p, w1)"
    and m: "private_file_matches env p h n w1 = (Inr ok, w')"
    and r': "r' = (let r1 = r\<lparr>ir_inspected := Suc (ir_inspected r)\<rparr> in
       if ok then r1 else r1\<lparr>ir_issues := ir_issues r1 @ [code]\<rparr>)"
    by (auto simp: verify_row_def Let_def elim!: bind_InrE)
  from res have p: "p = (a, key)" "w1 = w"
    by (auto simp: resolve_def validate_storage_key_def prog_defs split: if_splits)
  have "holds_object env a key h n w" if ok
    using matches_True [of env p h n w1 w'] m that p by (auto simp: holds_object_def)
  with matches_frame [of env p h n w1] m p r' show ?thesis by (auto simp: Let_def)
qed

lemma verify_artifacts_value:
  assumes "verify_artifacts env as r w = (Inr r', w')"
  shows "w_db w' = w_db w \<and> w_files w' = w_files w \<and> ir_inspected r' = ir_inspected r + length as \<and>
    (ir_issues r' = [] \<longrightarrow> ir_issues r = [] \<and>
      (\<forall>a\<in>set as. holds_object env SANITIZED (af_storage_key a) (af_sha256 a) (af_size_bytes a) w))"
  using assms
proof (induction as arbitrary: r w)
  case (Cons a as)
  then obtain r1 w1 where one: "verify_row env SANITIZED ''ARTIFACT_INTEGRITY_FAILURE'' (af_storage_key a)
      (af_sha256 a) (af_size_bytes a) r w = (Inr r1, w1)" "verify_artifacts env as r1 w1 = (Inr r', w')"
    by (auto elim!: bind_InrE)
  from verify_row_value [OF one(1)] Cons.IH [OF one(2)] show ?case by (auto simp: holds_object_def)
qed simp

lemma verify_scans_value:
  assumes "verify_scans env ss r w = (Inr r', w')"
  shows "w_db w' = w_db w \<and> w_files w' = w_files w \<and> ir_inspected r' = ir_inspected r + length ss \<and>
    (ir_issues r' = [] \<longrightarrow> ir_issues r = [] \<and>
      (\<forall>s\<in>set ss. holds_object env QUARANTINE_AREA (sc_storage_key s) (sc_sha256 s) (sc_size_bytes s) w))"
  using assms
proof (induction ss arbitrary: r w)
  case (Cons s ss)
  then obtain r1 w1 where one: "verify_row env QUARANTINE_AREA ''SCAN_OBJECT_INTEGRITY_FAILURE'' (sc_storage_key s)
      (sc_sha256 s) (sc_size_bytes s) r w = (Inr r1, w1)" "verify_scans env ss r1 w1 = (Inr r', w')"
    by (auto elim!: bind_InrE)
  from verify_row_value [OF one(1)] Cons.IH [OF one(2)] show ?case by (auto simp: holds_object_def)
qed simp

lemma snapshot_InrD:
  "query env (getE g) w = (Inr x, w') \<Longrightarrow> x = g (w_db w) \<and> w_db w' = w_db w \<and> w_files w' = w_files w"
  by (auto simp: query_def getE_def Let_def split: if_splits)

text \<open>C24. A clean integrity report can be believed for the rows it looked at: the check changes
  nothing, looks at the first \<open>batch_size\<close> artifacts in the order of their ids and, when asked to
  include the quarantine, at the first \<open>batch_size\<close> scans, and its report counts exactly these
  rows. When it passes, each of them has its object, private, of the recorded size and hash.
  So with a \<open>batch_size\<close> of at least the number of rows a passing report speaks for every
  artifact (and every scan, when included); rows beyond it, and the scans when they are not
  included, are not looked at.\<close>

theorem integrity_check_sound:
  assumes "check_storage env batch_size include_quarantine w = (Inr r, w')"
  shows "w_db w' = w_db w \<and> w_files w' = w_files w \<and>
    ir_inspected r = min (nat batch_size) (length (db_artifacts (w_db w))) +
      (if include_quarantine then min (nat batch_size) (length (db_scans (w_db w))) else 0) \<and>
    (integrity_passed r \<longrightarrow>
      (\<forall>a\<in>set (take (nat batch_size) (sort_key af_id (db_artifacts (w_db w)))).
         holds_object env SANITIZED (af_storage_key a) (af_sha256 a) (af_size_bytes a) w') \<and>
      (include_quarantine \<longrightarrow>
         (\<forall>s\<in>set (take (nat batch_size) (sort_key sc_id (db_scans (w_db w)))).
            holds_object env QUARANTINE_AREA (sc_storage_key s) (sc_sha256 s) (sc_size_bytes s) w')) \<and>
      (int (length (db_artifacts (w_db w))) \<le> batch_size \<longrightarrow> (\<forall>a\<in>set (db_artifacts (w_db w)).
         holds_object env SANITIZED (af_storage_key a) (af_sha256 a) (af_size_bytes a) w')) \<and>
      (include_quarantine \<longrightarrow> int (length (db_scans (w_db w))) \<le> batch_size \<longrightarrow>
         (\<forall>s\<in>set (db_scans (w_db w)).
            holds_object env QUARANTINE_AREA (sc_storage_key s) (sc_sha256 s) (sc_size_bytes s) w')))"
proof (intro conjI impI ballI)
  let ?as = "take (nat batch_size) (sort_key af_id (db_artifacts (w_db w)))"
  let ?ss = "if include_quarantine then take (nat batch_size) (sort_key sc_id (db_scans (w_db w))) else []"
  from assms obtain w1 r1 w2 where b: "1 \<le> batch_size" and w1: "w_db w1 = w_db w" "w_files w1 = w_files w"
    and as: "verify_artifacts env ?as \<lparr>ir_inspected = 0, ir_issues = []\<rparr> w1 = (Inr r1, w2)"
    and ss: "verify_scans env ?ss r1 w2 = (Inr r, w')"
    unfolding check_storage_def by (auto elim!: bind_InrE dest!: snapshot_InrD split del: if_split)
  note v = verify_artifacts_value [OF as] verify_scans_value [OF ss]
  from v w1 show "w_db w' = w_db w" "w_files w' = w_files w" by simp_all
  have "length ?as = min (nat batch_size) (length (db_artifacts (w_db w)))"
    "length ?ss = (if include_quarantine then min (nat batch_size) (length (db_scans (w_db w))) else 0)"
    by (simp_all add: min.commute)
  with v show "ir_inspected r = min (nat batch_size) (length (db_artifacts (w_db w))) +
      (if include_quarantine then min (nat batch_size) (length (db_scans (w_db w))) else 0)"
    by simp
  show as: "holds_object env SANITIZED (af_storage_key a) (af_sha256 a) (af_size_bytes a) w'"
    if "integrity_passed r" "a \<in> set ?as" for a
    using v that by (auto simp: integrity_passed_def holds_object_def)
  show ss: "holds_object env QUARANTINE_AREA (sc_storage_key s) (sc_sha256 s) (sc_size_bytes s) w'"
    if "integrity_passed r" include_quarantine
      "s \<in> set (take (nat batch_size) (sort_key sc_id (db_scans (w_db w))))" for s
    using v that by (auto simp: integrity_passed_def holds_object_def)
  show "holds_object env SANITIZED (af_storage_key a) (af_sha256 a) (af_size_bytes a) w'"
    if "integrity_passed r" "int (length (db_artifacts (w_db w))) \<le> batch_size" "a \<in> set (db_artifacts (w_db w))" for a
    using as [of a] that b by (simp add: nat_le_iff le_nat_iff)
  show "holds_object env QUARANTINE_AREA (sc_storage_key s) (sc_sha256 s) (sc_size_bytes s) w'"
    if "integrity_passed r" include_quarantine "int (length (db_scans (w_db w))) \<le> batch_size"
      "s \<in> set (db_scans (w_db w))" for s
    using ss [of s] that b by (simp add: nat_le_iff le_nat_iff)
qed

lemma matches_run:
  assumes "w_files w p = Some \<lparr>fl_bytes = [37, 80], fl_mode = 256, fl_regular = True,
      fl_owned = True, fl_links = 1, fl_mtime = 0\<rparr>"
  shows "\<exists>k. private_file_matches quiet_env p two_bytes_sha 2 w = (Inr True, w\<lparr>w_tick := k\<rparr>)"
  using assms
  by (auto simp: private_file_matches_def metadata_ok_def pieces.simps [of "[37, 80]"]
      pieces.simps [of "[]"] STREAM_WRITE_CHUNK_BYTES_def catchE_def quiet_env_def two_bytes_sha_def
      Let_def prog_defs tickE_def os_call_def)

lemma sample_check:
  "\<exists>w'. check_storage quiet_env 5 False approved_world = (Inr \<lparr>ir_inspected = 1, ir_issues = []\<rparr>, w')"
proof -
  obtain k where "private_file_matches quiet_env (SANITIZED, artifact_key) two_bytes_sha 2
      (approved_world\<lparr>w_tick := Suc 0\<rparr>) = (Inr True, approved_world\<lparr>w_tick := Suc 0\<rparr>\<lparr>w_tick := k\<rparr>)"
    using matches_run [of "approved_world\<lparr>w_tick := Suc 0\<rparr>" "(SANITIZED, artifact_key)"] sample_file(2)
    by auto
  note m = this
  have q: "query quiet_env (getE g) approved_world = (Inr (g (w_db approved_world)), approved_world\<lparr>w_tick := Suc 0\<rparr>)" for g :: "db \<Rightarrow> 'x"
    by (simp add: query_def quiet_env_def prog_defs) (simp add: approved_world_def)
  have as: "db_artifacts (w_db approved_world) = [sample_artifact]" by (simp add: approved_world_def)
  have s: "af_storage_key sample_artifact = artifact_key" "af_size_bytes sample_artifact = 2"
    "af_sha256 sample_artifact = two_bytes_sha"
    by (simp_all add: sample_artifact_def)
  show ?thesis
    by (simp add: check_storage_def bindE_def unlessE_def returnE_def q as s verify_row_def
        resolve_run sample_ids m Let_def)
qed

theorem integrity_check_sound_witness:
  "\<exists>w'. check_storage quiet_env 5 False approved_world = (Inr \<lparr>ir_inspected = 1, ir_issues = []\<rparr>, w') \<and>
     holds_object quiet_env SANITIZED artifact_key two_bytes_sha 2 w'"
proof -
  obtain w' where run: "check_storage quiet_env 5 False approved_world = (Inr \<lparr>ir_inspected = 1, ir_issues = []\<rparr>, w')"
    using sample_check by blast
  have "sample_artifact \<in> set (take (nat 5) (sort_key af_id (db_artifacts (w_db approved_world))))"
    by (simp add: approved_world_def)
  with integrity_check_sound [OF run] have "holds_object quiet_env SANITIZED artifact_key two_bytes_sha 2 w'"
    by (auto simp: integrity_passed_def sample_artifact_def)
  with run show ?thesis by blast
qed

end
