(* ===== verification/Rate_Limit.thy ===== *)
theory Rate_Limit
  imports Prelude Complex_Main "HOL-Library.AList"
begin

text \<open>
  The two in-process throttles: \<open>AbuseRateLimiter\<close> (\<open>app/core/abuse.py\<close>) admits at most a
  given number of actions per actor and window; \<open>LoginRateLimiter\<close> (\<open>app/auth/rate_limit.py\<close>)
  counts failed logins per source address and per user name. A Python dictionary of deques
  is an association list in insertion order, a reading of the monotonic clock a rational,
  and SHA-256 a parameter. Both locks serialise the methods, so each method is one step.
\<close>

type_synonym moment = rat
type_synonym event_table = "(ustring \<times> moment list) list"

section \<open>Sliding windows\<close>

definition expire :: "moment \<Rightarrow> moment list \<Rightarrow> moment list" where
  "expire cutoff q = dropWhile (\<lambda>t. t \<le> cutoff) q"

lemma expire_sorted: "sorted q \<Longrightarrow> expire cutoff q = filter (\<lambda>t. cutoff < t) q"
proof (induction q)
  case (Cons t q)
  show ?case
  proof (cases "t \<le> cutoff")
    case False
    with Cons.prems have "\<forall>x\<in>set (t # q). cutoff < x" by force
    then show ?thesis by (simp add: expire_def filter_id_conv)
  qed (use Cons in \<open>simp add: expire_def\<close>)
qed (simp add: expire_def)

lemma filter_expire_expire:
  "c \<le> c' \<Longrightarrow> filter (\<lambda>t. c' < t) (filter (\<lambda>t. c < t) q) = filter (\<lambda>t. (c'::moment) < t) q"
  by (auto intro!: filter_cong)

text \<open>The law of a window: among the admitted moments, \<open>limit + 1\<close> consecutive ones span at
  least the whole window.\<close>

definition spaced :: "nat \<Rightarrow> moment \<Rightarrow> moment list \<Rightarrow> bool" where
  "spaced limit window ts \<longleftrightarrow>
     (\<forall>i. i + limit < length ts \<longrightarrow> window \<le> ts ! (i + limit) - ts ! i)"

lemma spaced_append:
  assumes "spaced limit window ts" "sorted (ts @ [t])"
    and few: "length (filter (\<lambda>x. t - window < x) ts) < limit"
  shows "spaced limit window (ts @ [t])"
  unfolding spaced_def
proof (intro allI impI)
  fix i assume i: "i + limit < length (ts @ [t])"
  show "window \<le> (ts @ [t]) ! (i + limit) - (ts @ [t]) ! i"
  proof (cases "i + limit < length ts")
    case True
    with assms(1) show ?thesis by (simp add: spaced_def nth_append)
  next
    case False
    then have l: "length ts = i + limit" using i by simp
    have "\<not> t - window < ts ! i"
    proof
      assume a: "t - window < ts ! i"
      have "t - window < x" if "x \<in> set (drop i ts)" for x
      proof -
        from that obtain j where j: "x = ts ! (i + j)" "i + j < length ts"
          by (auto simp: in_set_conv_nth)
        have "sorted ts" using assms(2) by (simp add: sorted_append)
        then have "ts ! i \<le> ts ! (i + j)" using j(2) by (intro sorted_nth_mono) simp_all
        with a j(1) show ?thesis by simp
      qed
      then have "filter (\<lambda>x. t - window < x) (drop i ts) = drop i ts"
        by (simp add: filter_id_conv)
      moreover have "length (filter (\<lambda>x. t - window < x) (drop i ts)) \<le>
          length (filter (\<lambda>x. t - window < x) ts)"
        by (metis append_take_drop_id filter_append le_add2 length_append)
      ultimately show False using few l by simp
    qed
    moreover have "0 < limit" using few by simp
    ultimately show ?thesis using l by (simp add: nth_append)
  qed
qed

section \<open>Abuse limits\<close>

definition MAX_BUCKETS :: nat where "MAX_BUCKETS = 20000"

definition lookup_events :: "event_table \<Rightarrow> ustring \<Rightarrow> moment list option" where
  "lookup_events events k = map_of events k"

definition abuse_key :: "ustring \<Rightarrow> ustring \<Rightarrow> ustring" where
  "abuse_key action actor_id = action @ u '':'' @ actor_id"

text \<open>The part of \<open>consume\<close> after the bucket has been found or made; the deque is an object
  of the dictionary, so the expired moments are dropped even when the action is refused.\<close>

definition consume_bucket ::
  "moment \<Rightarrow> ustring \<Rightarrow> int \<Rightarrow> moment \<Rightarrow> moment list \<Rightarrow> event_table \<Rightarrow> bool \<times> event_table" where
  "consume_bucket t k limit window_seconds queue events =
     (let q = expire (t - window_seconds) queue in
      if limit \<le> int (length q) then (False, AList.update k q events)
      else (True, AList.update k (q @ [t]) events))"

definition consume ::
  "ustring \<Rightarrow> ustring \<Rightarrow> int \<Rightarrow> moment \<Rightarrow> moment \<Rightarrow> event_table \<Rightarrow> bool \<times> event_table" where
  "consume action actor_id limit window_seconds t events =
     (let k = abuse_key action actor_id in
      case lookup_events events k of
        None \<Rightarrow> if MAX_BUCKETS \<le> length events then (False, events)
                else consume_bucket t k limit window_seconds [] (AList.update k [] events)
      | Some q \<Rightarrow> consume_bucket t k limit window_seconds q events)"

text \<open>A history of calls, each with its own actor and moment, under one action's limit.\<close>

type_synonym call = "ustring \<times> moment"

fun consume_all ::
  "ustring \<Rightarrow> int \<Rightarrow> moment \<Rightarrow> call list \<Rightarrow> event_table \<Rightarrow> (call list) \<times> event_table" where
  "consume_all action limit window [] events = ([], events)"
| "consume_all action limit window ((actor, t) # calls) events =
     (let (ok, events') = consume action actor limit window t events;
          (admitted, events'') = consume_all action limit window calls events'
      in ((if ok then [(actor, t)] else []) @ admitted, events''))"

section \<open>What the abuse limiter remembers\<close>

text \<open>For one key: the queue holds the admitted moments of the last window, the admitted
  moments are in order and obey the law of the window.\<close>

definition bucket_ok :: "nat \<Rightarrow> moment \<Rightarrow> moment \<Rightarrow> moment list \<Rightarrow> moment list option \<Rightarrow> bool" where
  "bucket_ok limit window t admitted q \<longleftrightarrow>
     sorted admitted \<and> (\<forall>x\<in>set admitted. x \<le> t) \<and> spaced limit window admitted \<and>
     (case q of None \<Rightarrow> admitted = []
      | Some q \<Rightarrow> sorted q \<and> (\<forall>c. t - window \<le> c \<longrightarrow>
          filter (\<lambda>x. c < x) q = filter (\<lambda>x. c < x) admitted))"

lemma bucket_later: "bucket_ok limit window t a q \<Longrightarrow> t \<le> t' \<Longrightarrow> bucket_ok limit window t' a q"
  by (auto simp: bucket_ok_def split: option.splits intro: order_trans)

lemma sorted_snoc: "sorted xs \<Longrightarrow> (\<And>x. x \<in> set xs \<Longrightarrow> x \<le> (t::moment)) \<Longrightarrow> sorted (xs @ [t])"
  by (simp add: sorted_append)

lemma consume_bucket_ok:
  assumes "bucket_ok limit window t a (Some q)" "0 < window"
    and "consume_bucket t k (int limit) window q events = (ok, events')"
  shows "bucket_ok limit window t (a @ (if ok then [t] else [])) (map_of events' k)"
proof -
  let ?q = "expire (t - window) q"
  have a: "sorted a" "\<And>x. x \<in> set a \<Longrightarrow> x \<le> t" "spaced limit window a" "sorted q"
    and same: "\<And>c. t - window \<le> c \<Longrightarrow> filter (\<lambda>x. c < x) q = filter (\<lambda>x. c < x) a"
    using assms(1) by (auto simp: bucket_ok_def)
  have q: "?q = filter (\<lambda>x. t - window < x) a"
    using a(4) same [of "t - window"] by (simp add: expire_sorted)
  have sq: "sorted ?q" "\<And>x. x \<in> set ?q \<Longrightarrow> x \<le> t" using a(1,2) unfolding q by (auto intro: sorted_wrt_filter)
  have f: "filter (\<lambda>x. c < x) ?q = filter (\<lambda>x. c < x) a" if "t - window \<le> c" for c
    unfolding q using filter_expire_expire [OF that] .
  show ?thesis
  proof (cases "limit \<le> length ?q")
    case True
    then have "ok = False" "events' = AList.update k ?q events"
      using assms(3) by (auto simp: consume_bucket_def Let_def)
    then show ?thesis using a sq f by (simp add: bucket_ok_def update_conv')
  next
    case False
    then have ok: "ok" "events' = AList.update k (?q @ [t]) events"
      using assms(3) by (auto simp: consume_bucket_def Let_def)
    have "spaced limit window (a @ [t])"
      using False by (intro spaced_append sorted_snoc a) (simp_all add: q)
    moreover have "sorted (a @ [t])" "sorted (?q @ [t])"
      by (rule sorted_snoc; use a sq in blast)+
    ultimately show ?thesis
      using ok a(2) f by (auto simp: bucket_ok_def update_conv')
  qed
qed

lemma consume_bucket_other:
  "consume_bucket t k limit window q events = (ok, events') \<Longrightarrow> k' \<noteq> k \<Longrightarrow>
     map_of events' k' = map_of events k'"
  by (auto simp: consume_bucket_def Let_def update_conv' split: if_splits)

text \<open>One call, for the key it is about and for every other key.\<close>

lemma consume_ok:
  assumes "bucket_ok limit window s a (map_of events (abuse_key action actor))" "s \<le> t" "0 < window"
    and "consume action actor (int limit) window t events = (ok, events')"
  shows "bucket_ok limit window t (a @ (if ok then [t] else [])) (map_of events' (abuse_key action actor))"
proof -
  note later = bucket_later [OF assms(1,2)]
  show ?thesis
  proof (cases "map_of events (abuse_key action actor)")
    case None
    with later have "a = []" by (simp add: bucket_ok_def)
    moreover have "bucket_ok limit window t [] (Some [])" by (simp add: bucket_ok_def spaced_def)
    moreover note fresh = consume_bucket_ok [OF calculation(2) assms(3)]
    show ?thesis
    proof (cases "MAX_BUCKETS \<le> length events")
      case True
      with assms(4) None have "ok = False" "events' = events"
        by (simp_all add: consume_def lookup_events_def Let_def)
      with later None show ?thesis by simp
    next
      case False
      with assms(4) None have "consume_bucket t (abuse_key action actor) (int limit) window []
          (AList.update (abuse_key action actor) [] events) = (ok, events')"
        by (simp add: consume_def lookup_events_def Let_def)
      from fresh [OF this] \<open>a = []\<close> show ?thesis by simp
    qed
  next
    case (Some q)
    then show ?thesis
      using assms(4) later consume_bucket_ok [of limit window t a q] assms(3)
      by (auto simp: consume_def lookup_events_def Let_def)
  qed
qed

lemma consume_other:
  assumes "consume action actor limit window t events = (ok, events')" "actor' \<noteq> actor"
  shows "map_of events' (abuse_key action actor') = map_of events (abuse_key action actor')"
proof -
  have k: "abuse_key action actor' \<noteq> abuse_key action actor"
    using assms(2) by (simp add: abuse_key_def)
  then show ?thesis
    using assms(1) consume_bucket_other [OF _ k]
    by (fastforce simp: consume_def lookup_events_def Let_def update_conv' split: option.splits if_splits)
qed

definition moments_of :: "ustring \<Rightarrow> call list \<Rightarrow> moment list" where
  "moments_of actor calls = map snd (filter (\<lambda>c. fst c = actor) calls)"

lemma consume_all_ok:
  assumes "consume_all action (int limit) window calls events = (admitted, events')"
    and "bucket_ok limit window s a (map_of events (abuse_key action actor))"
    and "sorted (map snd calls)" "\<And>c. c \<in> set calls \<Longrightarrow> s \<le> snd c" "0 < window"
  shows "\<exists>s'. bucket_ok limit window s' (a @ moments_of actor admitted)
    (map_of events' (abuse_key action actor))"
  using assms
proof (induction calls arbitrary: events admitted a s)
  case Nil
  then show ?case by (auto simp: moments_of_def)
next
  case (Cons c calls)
  obtain x t where c: "c = (x, t)" by (cases c)
  obtain ok e1 where one: "consume action x (int limit) window t events = (ok, e1)" by fastforce
  obtain rest where all: "consume_all action (int limit) window calls e1 = (rest, events')"
    and adm: "admitted = (if ok then [(x, t)] else []) @ rest"
    using Cons.prems(1) by (auto simp: c one split: prod.splits)
  have t: "s \<le> t" using Cons.prems(4) [of "(x, t)"] by (simp add: c)
  have later: "sorted (map snd calls)" "\<And>d. d \<in> set calls \<Longrightarrow> t \<le> snd d"
    using Cons.prems(3) by (auto simp: c)
  show ?case
  proof (cases "x = actor")
    case True
    have "bucket_ok limit window t (a @ (if ok then [t] else [])) (map_of e1 (abuse_key action actor))"
      using consume_ok [OF Cons.prems(2) t Cons.prems(5)] one True by simp
    from Cons.IH [OF all this later Cons.prems(5)] show ?thesis
      by (auto simp: adm True moments_of_def split: if_splits)
  next
    case False
    have "bucket_ok limit window t a (map_of e1 (abuse_key action actor))"
      using bucket_later [OF Cons.prems(2) t] consume_other [OF one, of actor] False by simp
    from Cons.IH [OF all this later Cons.prems(5)] False show ?thesis
      by (auto simp: adm moments_of_def)
  qed
qed

text \<open>C22. The abuse limiter keeps its promise over a whole history: starting empty, for every
  actor and whatever other actors do, any \<open>limit + 1\<close> consecutive admitted calls of that actor
  span at least the whole window.\<close>

theorem abuse_limit_holds:
  assumes "consume_all action (int limit) window calls [] = (admitted, events')"
    and "sorted (map snd calls)" and "0 < window"
    and "i + limit < length (moments_of actor admitted)"
  shows "window \<le> moments_of actor admitted ! (i + limit) - moments_of actor admitted ! i"
proof -
  define s where "s = (case calls of [] \<Rightarrow> 0 | c # _ \<Rightarrow> snd c)"
  have "bucket_ok limit window s [] (map_of [] (abuse_key action actor))"
    by (simp add: bucket_ok_def spaced_def)
  moreover have "s \<le> snd c" if "c \<in> set calls" for c
    using that assms(2) by (cases calls) (auto simp: s_def)
  ultimately obtain s' q where "bucket_ok limit window s' (moments_of actor admitted) q"
    using consume_all_ok [OF assms(1) _ assms(2) _ assms(3)] by fastforce
  then have "spaced limit window (moments_of actor admitted)" by (simp add: bucket_ok_def)
  with assms(4) show ?thesis by (simp add: spaced_def)
qed

definition sample_calls :: "call list" where
  "sample_calls = [([97], 0), ([97], 1), ([98], 2), ([97], 3), ([97], 70)]"

theorem abuse_limit_holds_witness:
  "moments_of [97] (fst (consume_all (u ''x'') (int 2) 60 sample_calls [])) = [0, 1, 70] \<and>
   (60::moment) \<le> [0, 1, 70] ! (0 + 2) - [0, 1, 70] ! 0"
proof -
  obtain a e where run: "consume_all (u ''x'') (int 2) 60 sample_calls [] = (a, e)" by fastforce
  have m: "moments_of [97] (fst (consume_all (u ''x'') (int 2) 60 sample_calls [])) = [0, 1, 70]"
    by (simp add: consume_def lookup_events_def Let_def consume_bucket_def expire_def MAX_BUCKETS_def
        moments_of_def abuse_key_def u_def sample_calls_def)
  then have "moments_of [97] a = [0, 1, 70]" using run by simp
  with abuse_limit_holds [OF run, of 0 "[97]"] m show ?thesis by (simp add: sample_calls_def)
qed

section \<open>Login throttling\<close>

definition MAX_TRACKED_KEYS :: nat where "MAX_TRACKED_KEYS = 10000"

definition username_key :: "(ustring \<Rightarrow> ustring) \<Rightarrow> ustring \<Rightarrow> ustring" where
  "username_key sha256 normalized_username = u ''username:'' @ sha256 normalized_username"

definition login_keys :: "(ustring \<Rightarrow> ustring) \<Rightarrow> ustring \<Rightarrow> ustring \<Rightarrow> ustring list" where
  "login_keys sha256 source_address normalized_username =
     [u ''source:'' @ sha256 source_address, username_key sha256 normalized_username]"

definition prune :: "moment \<Rightarrow> event_table \<Rightarrow> event_table" where
  "prune t attempts =
     filter (\<lambda>(k, q). q \<noteq> []) (map (\<lambda>(k, q). (k, expire (t - 3600) q)) attempts)"

definition attempts_of :: "event_table \<Rightarrow> ustring \<Rightarrow> moment list" where
  "attempts_of attempts k = (case map_of attempts k of None \<Rightarrow> [] | Some q \<Rightarrow> q)"

definition key_allowed :: "int \<Rightarrow> int \<Rightarrow> event_table \<Rightarrow> moment \<Rightarrow> ustring \<Rightarrow> bool" where
  "key_allowed per_minute per_hour attempts t k =
     (let q = attempts_of attempts k; minute_count = length (filter (\<lambda>m. t - 60 < m) q) in
      int minute_count < per_minute \<and> int (length q) < per_hour)"

definition check_login ::
  "(ustring \<Rightarrow> ustring) \<Rightarrow> int \<Rightarrow> int \<Rightarrow> ustring \<Rightarrow> ustring \<Rightarrow> moment \<Rightarrow> event_table \<Rightarrow> bool \<times> event_table"
where
  "check_login sha256 per_minute per_hour source_address normalized_username t attempts =
     (let attempts' = prune t attempts in
      (list_all (key_allowed per_minute per_hour attempts' t)
         (login_keys sha256 source_address normalized_username), attempts'))"

definition record_key :: "moment \<Rightarrow> ustring \<Rightarrow> event_table \<Rightarrow> event_table" where
  "record_key t k attempts =
     (if map_of attempts k = None \<and> MAX_TRACKED_KEYS \<le> length attempts then attempts
      else AList.update k (attempts_of attempts k @ [t]) attempts)"

definition record_failure ::
  "(ustring \<Rightarrow> ustring) \<Rightarrow> ustring \<Rightarrow> ustring \<Rightarrow> moment \<Rightarrow> event_table \<Rightarrow> event_table" where
  "record_failure sha256 source_address normalized_username t attempts =
     fold (record_key t) (login_keys sha256 source_address normalized_username) (prune t attempts)"

definition clear_username ::
  "(ustring \<Rightarrow> ustring) \<Rightarrow> ustring \<Rightarrow> event_table \<Rightarrow> event_table" where
  "clear_username sha256 normalized_username attempts =
     AList.delete (username_key sha256 normalized_username) attempts"

subsection \<open>The abstract throttle\<close>

text \<open>What the limiter promises, with unbounded memory: the failures recorded for a key since
  it was last cleared.\<close>

datatype login_event =
    Checked ustring ustring moment
  | Failed ustring ustring moment
  | Cleared ustring

fun event_step :: "(ustring \<Rightarrow> ustring) \<Rightarrow> login_event \<Rightarrow> event_table \<Rightarrow> event_table" where
  "event_step sha256 (Checked source_address name t) attempts =
     snd (check_login sha256 1 1 source_address name t attempts)"
| "event_step sha256 (Failed source_address name t) attempts =
     record_failure sha256 source_address name t attempts"
| "event_step sha256 (Cleared name) attempts = clear_username sha256 name attempts"

fun event_time :: "login_event \<Rightarrow> moment option" where
  "event_time (Checked source_address name t) = Some t"
| "event_time (Failed source_address name t) = Some t"
| "event_time (Cleared name) = None"

fun remember ::
  "(ustring \<Rightarrow> ustring) \<Rightarrow> login_event \<Rightarrow> (ustring \<Rightarrow> moment list) \<Rightarrow> ustring \<Rightarrow> moment list" where
  "remember sha256 (Checked source_address name t) F = F"
| "remember sha256 (Failed source_address name t) F =
     (\<lambda>k. if k \<in> set (login_keys sha256 source_address name) then F k @ [t] else F k)"
| "remember sha256 (Cleared name) F = F(username_key sha256 name := [])"

definition throttle_allows ::
  "(ustring \<Rightarrow> ustring) \<Rightarrow> int \<Rightarrow> int \<Rightarrow> ustring \<Rightarrow> ustring \<Rightarrow> moment \<Rightarrow> (ustring \<Rightarrow> moment list) \<Rightarrow> bool"
where
  "throttle_allows sha256 per_minute per_hour source_address name t F \<longleftrightarrow>
     (\<forall>k\<in>set (login_keys sha256 source_address name).
        int (length (filter (\<lambda>m. t - 60 < m) (F k))) < per_minute \<and>
        int (length (filter (\<lambda>m. t - 3600 < m) (F k))) < per_hour)"

text \<open>The simulation: at time \<open>t\<close> the table agrees with the memory on everything more recent
  than an hour.\<close>

definition tracks :: "moment \<Rightarrow> event_table \<Rightarrow> (ustring \<Rightarrow> moment list) \<Rightarrow> bool" where
  "tracks t attempts F \<longleftrightarrow> distinct (map fst attempts) \<and>
     (\<forall>k. sorted (F k) \<and> (\<forall>x\<in>set (F k). x \<le> t) \<and> sorted (attempts_of attempts k) \<and>
        (\<forall>x\<in>set (attempts_of attempts k). x \<le> t) \<and>
        (\<forall>c. t - 3600 \<le> c \<longrightarrow>
           filter (\<lambda>x. c < x) (attempts_of attempts k) = filter (\<lambda>x. c < x) (F k)))"

lemma map_of_prune:
  "distinct (map fst attempts) \<Longrightarrow> map_of (prune t attempts) k =
     (case map_of attempts k of None \<Rightarrow> None
      | Some q \<Rightarrow> if expire (t - 3600) q = [] then None else Some (expire (t - 3600) q))"
proof (induction attempts)
  case (Cons kq attempts)
  have "map_of (prune t attempts) (fst kq) = None"
  proof -
    have "fst ` set (prune t attempts) \<subseteq> fst ` set attempts" by (auto simp: prune_def image_iff) force
    with Cons.prems show ?thesis by (auto simp: map_of_eq_None_iff)
  qed
  with Cons show ?case by (cases kq) (auto simp: prune_def split: option.splits)
qed (simp add: prune_def)

lemma prune_distinct: "distinct (map fst attempts) \<Longrightarrow> distinct (map fst (prune t attempts))"
  unfolding prune_def by (induction attempts) (auto simp: image_iff)

lemma length_prune: "length (prune t attempts) \<le> length attempts"
  unfolding prune_def by (metis length_filter_le length_map)

lemma attempts_prune:
  "distinct (map fst attempts) \<Longrightarrow>
     attempts_of (prune t attempts) k = expire (t - 3600) (attempts_of attempts k)"
  by (cases "map_of attempts k") (simp_all add: attempts_of_def map_of_prune, simp add: expire_def)

lemma tracks_prune:
  assumes "tracks s attempts F" "s \<le> t"
  shows "tracks t (prune t attempts) F" "attempts_of (prune t attempts) k = filter (\<lambda>x. t - 3600 < x) (F k)"
proof -
  have d: "distinct (map fst attempts)" and f: "sorted (F k)" "\<And>x. x \<in> set (F k) \<Longrightarrow> x \<le> s"
    and q: "attempts_of (prune t attempts) k = filter (\<lambda>x. t - 3600 < x) (F k)" for k
    using assms by (simp_all add: tracks_def attempts_prune expire_sorted)
  show "attempts_of (prune t attempts) k = filter (\<lambda>x. t - 3600 < x) (F k)" by (rule q)
  show "tracks t (prune t attempts) F"
    unfolding tracks_def q
    using d f(1) order_trans [OF f(2) assms(2)] filter_expire_expire
    by (auto simp: prune_distinct sorted_wrt_filter)
qed

text \<open>Recording is exact unless it is refused: a key that is not tracked yet meets a full
  table.\<close>

definition forgotten :: "event_table \<Rightarrow> ustring \<Rightarrow> bool" where
  "forgotten attempts k \<longleftrightarrow> map_of attempts k = None \<and> MAX_TRACKED_KEYS \<le> length attempts"

lemma record_key:
  assumes "\<not> forgotten attempts k"
  shows "attempts_of (record_key t k attempts) k' =
      (if k' = k then attempts_of attempts k @ [t] else attempts_of attempts k')"
    and "distinct (map fst attempts) \<Longrightarrow> distinct (map fst (record_key t k attempts))"
    and "length (record_key t k attempts) \<le> Suc (length attempts)"
proof -
  have l: "length (AList.update k q xs) \<le> Suc (length xs)" for q and xs :: event_table
    by (induction xs) auto
  show "attempts_of (record_key t k attempts) k' =
      (if k' = k then attempts_of attempts k @ [t] else attempts_of attempts k')"
    using assms by (auto simp: record_key_def forgotten_def attempts_of_def update_conv')
  show "distinct (map fst attempts) \<Longrightarrow> distinct (map fst (record_key t k attempts))"
    by (simp add: record_key_def distinct_update)
  show "length (record_key t k attempts) \<le> Suc (length attempts)"
    using l by (simp add: record_key_def)
qed

lemma tracks_record:
  assumes "tracks t attempts F" "\<not> forgotten attempts k"
  shows "tracks t (record_key t k attempts) (F(k := F k @ [t]))"
  using assms record_key [OF assms(2), of t]
  by (auto simp: tracks_def sorted_append)

text \<open>The two recordings of one failure, in the order of \<open>_keys\<close>: neither is refused.\<close>

fun room_for :: "(ustring \<Rightarrow> ustring) \<Rightarrow> login_event \<Rightarrow> event_table \<Rightarrow> bool" where
  "room_for sha256 (Failed source_address name t) attempts =
     (let k = u ''source:'' @ sha256 source_address; pruned = prune t attempts in
      \<not> forgotten pruned k \<and> \<not> forgotten (record_key t k pruned) (username_key sha256 name))"
| "room_for sha256 _ attempts = True"

lemma tracks_failure:
  assumes "tracks s attempts F" "s \<le> t" "room_for sha256 (Failed src name t) attempts"
    and "u ''source:'' @ sha256 src \<noteq> username_key sha256 name"
  shows "tracks t (record_failure sha256 src name t attempts) (remember sha256 (Failed src name t) F)"
proof -
  let ?a = "u ''source:'' @ sha256 src" and ?b = "username_key sha256 name"
  let ?p = "prune t attempts"
  have l: "\<not> forgotten ?p ?a" "\<not> forgotten (record_key t ?a ?p) ?b"
    using assms(3) by (simp_all add: Let_def)
  have "tracks t (record_key t ?b (record_key t ?a ?p)) ((F(?a := F ?a @ [t]))(?b := (F(?a := F ?a @ [t])) ?b @ [t]))"
    by (intro tracks_record tracks_prune(1) [OF assms(1,2)] l)
  moreover have "(F(?a := F ?a @ [t]))(?b := (F(?a := F ?a @ [t])) ?b @ [t]) =
      remember sha256 (Failed src name t) F"
    using assms(4) by (auto simp: login_keys_def fun_eq_iff)
  ultimately show ?thesis by (simp add: record_failure_def login_keys_def)
qed

lemma tracks_clear:
  assumes "tracks t attempts F"
  shows "tracks t (clear_username sha256 name attempts) (F(username_key sha256 name := []))"
  using assms
  by (auto simp: tracks_def clear_username_def attempts_of_def delete_conv' distinct_delete)

lemma keys_differ: "u ''source:'' @ x \<noteq> u ''username:'' @ y"
  by (simp add: u_def)

text \<open>A history: the moments of the events do not decrease.\<close>

fun history_ok :: "moment \<Rightarrow> login_event list \<Rightarrow> bool" where
  "history_ok s [] = True"
| "history_ok s (e # es) =
     (case event_time e of None \<Rightarrow> history_ok s es | Some t \<Rightarrow> s \<le> t \<and> history_ok t es)"

fun last_time :: "moment \<Rightarrow> login_event list \<Rightarrow> moment" where
  "last_time s [] = s"
| "last_time s (e # es) = last_time (case event_time e of None \<Rightarrow> s | Some t \<Rightarrow> t) es"

text \<open>No failure of the history met a full table: at each of them, after the expired entries
  are pruned, the keys to record are tracked already or fewer than \<open>MAX_TRACKED_KEYS\<close> are.\<close>

fun never_full :: "(ustring \<Rightarrow> ustring) \<Rightarrow> login_event list \<Rightarrow> event_table \<Rightarrow> bool" where
  "never_full sha256 [] attempts = True"
| "never_full sha256 (e # es) attempts =
     (room_for sha256 e attempts \<and> never_full sha256 es (event_step sha256 e attempts))"

lemma tracks_history:
  assumes "tracks s attempts F" "history_ok s es" "never_full sha256 es attempts"
  shows "tracks (last_time s es) (fold (event_step sha256) es attempts) (fold (remember sha256) es F)"
  using assms
proof (induction es arbitrary: s attempts F)
  case (Cons e es)
  let ?t = "case event_time e of None \<Rightarrow> s | Some t \<Rightarrow> t"
  have h: "history_ok ?t es" using Cons.prems(2) by (auto split: option.splits)
  have "tracks ?t (event_step sha256 e attempts) (remember sha256 e F)"
  proof (cases e)
    case (Checked src name t)
    then show ?thesis
      using Cons.prems(1,2) tracks_prune(1) by (auto simp: check_login_def Let_def)
  next
    case (Failed src name t)
    with Cons.prems(2,3) have "s \<le> t" "room_for sha256 (Failed src name t) attempts" by auto
    from tracks_failure [OF Cons.prems(1) this] Failed show ?thesis
      by (simp add: username_key_def keys_differ)
  next
    case (Cleared name)
    then show ?thesis using tracks_clear [OF Cons.prems(1)] by simp
  qed
  with Cons.IH [OF _ h] Cons.prems(3) show ?case by simp
qed simp

text \<open>A history needs more than half as many failures as there are keys to fill the table.\<close>

lemma forgotten_full: "forgotten attempts k \<Longrightarrow> MAX_TRACKED_KEYS \<le> length attempts"
  by (simp add: forgotten_def)

lemma length_record: "length (record_key t k attempts) \<le> Suc (length attempts)"
proof -
  have "length (AList.update k q xs) \<le> Suc (length xs)" for q and xs :: event_table
    by (induction xs) auto
  then show ?thesis by (simp add: record_key_def)
qed

lemma short_never_full:
  assumes "length attempts + 2 * length es < MAX_TRACKED_KEYS"
  shows "never_full sha256 es attempts"
  using assms
proof (induction es arbitrary: attempts)
  case (Cons e es)
  let ?k = "\<lambda>x. u ''source:'' @ sha256 x"
  have grow: "length (record_key t k (record_key t k' (prune t attempts))) \<le> Suc (Suc (length attempts))" for t k k'
    using length_record [of t k "record_key t k' (prune t attempts)"] length_record [of t k' "prune t attempts"]
      length_prune [of t attempts] by simp
  have l: "length (prune t attempts) < MAX_TRACKED_KEYS"
    "length (record_key t k (prune t attempts)) < MAX_TRACKED_KEYS" for t k
    using Cons.prems length_prune [of t attempts] length_record [of t k "prune t attempts"] by simp_all
  have "length (event_step sha256 e attempts) \<le> Suc (Suc (length attempts))"
    using grow
    by (cases e) (auto simp: check_login_def Let_def record_failure_def login_keys_def clear_username_def
        intro!: le_SucI length_prune length_delete_le)
  moreover have "room_for sha256 e attempts"
  proof (cases e)
    case (Failed src name t)
    with l(1) [of t] l(2) [of t "?k src"] show ?thesis by (auto simp: Let_def dest!: forgotten_full)
  qed simp_all
  ultimately show ?case using Cons by simp
qed simp

text \<open>C23. The login limiter refines its promise: after any history of attempts, failures and
  successful logins in which no failure met a full table (10,000 keys with a failure of the last
  hour), a login is let through exactly when, for the source address and for the user name,
  fewer than the configured number of failures since the last successful login of that name lie
  in the last minute and in the last hour. The history may be of any length.\<close>

theorem login_throttle_refines:
  assumes "history_ok s events" and "last_time s events \<le> t"
    and "never_full sha256 events []"
  shows "fst (check_login sha256 per_minute per_hour source_address name t
           (fold (event_step sha256) events [])) \<longleftrightarrow>
    throttle_allows sha256 per_minute per_hour source_address name t
      (fold (remember sha256) events (\<lambda>_. []))"
proof -
  have "tracks s [] (\<lambda>_. [])" by (simp add: tracks_def attempts_of_def)
  then have "tracks (last_time s events) (fold (event_step sha256) events [])
      (fold (remember sha256) events (\<lambda>_. []))"
    using assms by (intro tracks_history) simp_all
  note q = tracks_prune(2) [OF this assms(2)]
  show ?thesis
    by (simp add: check_login_def throttle_allows_def key_allowed_def Let_def q list_all_iff
        filter_expire_expire del: filter_filter)
qed

text \<open>When the table is full a failure of an unknown key is not recorded, so the limiter then
  lets that key through however often it fails.\<close>

lemma full_table_forgets:
  assumes "MAX_TRACKED_KEYS \<le> length attempts" "map_of attempts k = None"
  shows "forgotten attempts k" "record_key t k attempts = attempts"
  using assms by (simp_all add: forgotten_def record_key_def)

definition sample_logins :: "login_event list" where
  "sample_logins = [Failed [1] [2] 0, Failed [1] [3] 10, Checked [1] [2] 11, Cleared [3],
     Failed [1] [2] 3700]"

theorem login_throttle_refines_witness:
  "fst (check_login id 2 3 [1] [2] 3701 (fold (event_step id) sample_logins [])) \<and>
   \<not> fst (check_login id 1 3 [1] [2] 3701 (fold (event_step id) sample_logins []))"
proof -
  have h: "history_ok 0 sample_logins" "last_time 0 sample_logins \<le> 3701"
    "never_full id sample_logins []"
    by (simp_all add: sample_logins_def short_never_full MAX_TRACKED_KEYS_def del: never_full.simps)
  have "throttle_allows id 2 3 [1] [2] 3701 (fold (remember id) sample_logins (\<lambda>_. []))"
    "\<not> throttle_allows id 1 3 [1] [2] 3701 (fold (remember id) sample_logins (\<lambda>_. []))"
    by (auto simp: throttle_allows_def sample_logins_def login_keys_def username_key_def u_def)
  then show ?thesis
    using login_throttle_refines [OF h, of 2 3 "[1]" "[2]"]
      login_throttle_refines [OF h, of 1 3 "[1]" "[2]"] by simp
qed

end
