(* ===== verification/Auth.thy ===== *)
theory Auth
  imports Artifacts Rate_Limit
begin

text \<open>
  Local login and opaque server-side sessions: \<open>app/auth/passwords.py\<close>,
  \<open>app/auth/service.py\<close>, over the tables \<open>operators\<close> and \<open>auth_sessions\<close> of
  \<open>app/models/database.py\<close>. Argon2, SHA-256, HMAC, the token generator and the monotonic clock
  are the record \<open>auth_env\<close>. The dummy verification of an unknown user only costs time and
  has no counterpart here.
\<close>

section \<open>Credentials\<close>

definition MIN_PASSWORD_LENGTH :: nat where "MIN_PASSWORD_LENGTH = 12"
definition MAX_PASSWORD_LENGTH :: nat where "MAX_PASSWORD_LENGTH = 128"

definition username_char :: "nat \<Rightarrow> bool" where
  "username_char c \<longleftrightarrow> 97 \<le> c \<and> c \<le> 122 \<or> 48 \<le> c \<and> c \<le> 57 \<or> c = 46 \<or> c = 95 \<or> c = 45"

definition username_ok :: "ustring \<Rightarrow> bool" where
  "username_ok s \<longleftrightarrow> 1 \<le> length s \<and> length s \<le> 64 \<and> list_all username_char s"

definition normalize_username :: "(ustring \<Rightarrow> ustring) \<Rightarrow> ustring \<Rightarrow> exn + ustring" where
  "normalize_username casefold username =
     (let canonical = casefold (strip username) in
      if username_ok canonical then Inr canonical else Inl CredentialValidationError)"

definition password_ok :: "ustring \<Rightarrow> bool" where
  "password_ok password \<longleftrightarrow> MIN_PASSWORD_LENGTH \<le> length password \<and>
     length password \<le> MAX_PASSWORD_LENGTH \<and> strip password \<noteq> []"

section \<open>Tables and environment\<close>

record operator_user =
  op_id :: string
  op_username :: ustring
  op_password_hash :: string
  op_role :: string
  op_is_active :: bool
  op_last_login_at :: "instant option"

record server_session =
  ss_id :: string
  ss_user_id :: string
  ss_token_hash :: ustring
  ss_csrf_token_hash :: ustring
  ss_expires_at :: instant
  ss_last_seen_at :: instant
  ss_revoked_at :: "instant option"

record auth_db =
  ab_db :: db
  ab_operators :: "operator_user list"
  ab_sessions :: "server_session list"

record auth_world =
  aw_world :: world
  aw_operators :: "operator_user list"
  aw_sessions :: "server_session list"
  aw_attempts :: event_table

record auth_env =
  ae_env :: env
  ae_monotonic :: "nat \<Rightarrow> moment"
  ae_token :: "nat \<Rightarrow> ustring"
  ae_sha256 :: "ustring \<Rightarrow> ustring"
  ae_hmac :: "ustring \<Rightarrow> ustring"
  ae_casefold :: "ustring \<Rightarrow> ustring"
  ae_verify :: "string \<Rightarrow> ustring \<Rightarrow> bool"
  ae_hash :: "nat \<Rightarrow> ustring \<Rightarrow> string"
  ae_needs_rehash :: "string \<Rightarrow> bool"

record auth_settings =
  as_absolute_seconds :: int
  as_inactivity_seconds :: int
  as_refresh_seconds :: int
  as_per_minute :: int
  as_per_hour :: int

text \<open>A step of the shared world, and a transaction over all tables.\<close>

definition on_world :: "(world, exn, 'a) prog \<Rightarrow> (auth_world, exn, 'a) prog" where
  "on_world m w = (case m (aw_world w) of (x, v) \<Rightarrow> (x, w\<lparr>aw_world := v\<rparr>))"

definition auth_tick :: "(nat \<Rightarrow> 'a) \<Rightarrow> (auth_world, exn, 'a) prog" where
  "auth_tick f = bindE (on_world tickE) (\<lambda>k. returnE (f k))"

definition joined_db :: "auth_world \<Rightarrow> auth_db" where
  "joined_db w = \<lparr>ab_db = w_db (aw_world w), ab_operators = aw_operators w, ab_sessions = aw_sessions w\<rparr>"

definition committed :: "auth_db \<Rightarrow> auth_world \<Rightarrow> auth_world" where
  "committed d w = w\<lparr>aw_world := (aw_world w)\<lparr>w_db := ab_db d\<rparr>, aw_operators := ab_operators d,
     aw_sessions := ab_sessions d\<rparr>"

definition auth_transaction :: "env \<Rightarrow> (auth_db, exn, 'a) prog \<Rightarrow> (auth_world, exn, 'a) prog" where
  "auth_transaction env m w =
     (let k = w_tick (aw_world w); w1 = w\<lparr>aw_world := (aw_world w)\<lparr>w_tick := Suc k\<rparr>\<rparr> in
      if env_db env k = DbRejected then (Inl SQLAlchemyError, w1)
      else case m (joined_db w) of
        (Inl e, d) \<Rightarrow> (Inl e, w1)
      | (Inr x, d) \<Rightarrow> (if env_db env k = DbCommitLost then Inl SQLAlchemyError else Inr x, committed d w1))"

definition auth_query :: "env \<Rightarrow> (auth_db \<Rightarrow> 'a) \<Rightarrow> (auth_world, exn, 'a) prog" where
  "auth_query env f w =
     (let k = w_tick (aw_world w); w1 = w\<lparr>aw_world := (aw_world w)\<lparr>w_tick := Suc k\<rparr>\<rparr> in
      if env_db env k = DbOk then (Inr (f (joined_db w)), w1) else (Inl SQLAlchemyError, w1))"

definition on_db :: "(db, exn, 'a) prog \<Rightarrow> (auth_db, exn, 'a) prog" where
  "on_db m d = (case m (ab_db d) of (x, d') \<Rightarrow> (x, d\<lparr>ab_db := d'\<rparr>))"

section \<open>Rows\<close>

definition insert_operator :: "operator_user \<Rightarrow> (auth_db, exn, unit) prog" where
  "insert_operator r = bindE (getE ab_operators) (\<lambda>rows.
     bindE (unlessE (\<not> has_key op_id (op_id r) rows \<and>
         \<not> list_ex (\<lambda>x. op_username x = op_username r) rows) IntegrityError) (\<lambda>_.
     modifyE (\<lambda>d. d\<lparr>ab_operators := ab_operators d @ [r]\<rparr>)))"

definition insert_session :: "server_session \<Rightarrow> (auth_db, exn, unit) prog" where
  "insert_session r = bindE (getE id) (\<lambda>d.
     bindE (unlessE (\<not> has_key ss_id (ss_id r) (ab_sessions d) \<and>
         \<not> list_ex (\<lambda>x. ss_token_hash x = ss_token_hash r) (ab_sessions d) \<and>
         has_key op_id (ss_user_id r) (ab_operators d)) IntegrityError) (\<lambda>_.
     modifyE (\<lambda>d. d\<lparr>ab_sessions := ab_sessions d @ [r]\<rparr>)))"

definition find_session :: "ustring \<Rightarrow> auth_db \<Rightarrow> server_session option" where
  "find_session token_hash d = find (\<lambda>s. ss_token_hash s = token_hash) (ab_sessions d)"

definition find_operator :: "ustring \<Rightarrow> auth_db \<Rightarrow> operator_user option" where
  "find_operator username d = find (\<lambda>r. op_username r = username) (ab_operators d)"

definition operator_of :: "string \<Rightarrow> auth_db \<Rightarrow> operator_user option" where
  "operator_of i d = lookup_row op_id (ab_operators d) i"

definition update_session :: "string \<Rightarrow> (server_session \<Rightarrow> server_session) \<Rightarrow> (auth_db, exn, unit) prog" where
  "update_session i f = modifyE (\<lambda>d. d\<lparr>ab_sessions := update_row ss_id i f (ab_sessions d)\<rparr>)"

definition update_operator :: "string \<Rightarrow> (operator_user \<Rightarrow> operator_user) \<Rightarrow> (auth_db, exn, unit) prog" where
  "update_operator i f = modifyE (\<lambda>d. d\<lparr>ab_operators := update_row op_id i f (ab_operators d)\<rparr>)"

section \<open>Creating operators\<close>

definition create_operator ::
  "auth_env \<Rightarrow> ustring \<Rightarrow> ustring \<Rightarrow> (auth_world, exn, operator_user) prog" where
  "create_operator ae username password =
     (case normalize_username (ae_casefold ae) username of
        Inl e \<Rightarrow> raiseE e
      | Inr canonical \<Rightarrow>
        bindE (unlessE (password_ok password) CredentialValidationError) (\<lambda>_.
        bindE (auth_tick (\<lambda>k. ae_hash ae k password)) (\<lambda>password_hash.
        bindE (on_world (new_id (ae_env ae))) (\<lambda>i.
        let op = \<lparr>op_id = i, op_username = canonical, op_password_hash = password_hash,
           op_role = ''OPERATOR'', op_is_active = True, op_last_login_at = None\<rparr> in
        bindE (catchE (auth_transaction (ae_env ae) (insert_operator op))
           (\<lambda>e. if e = IntegrityError then Some (raiseE DuplicateOperatorError)
                else if is_database_error e then Some (raiseE AuthenticationPersistenceError) else None)) (\<lambda>_.
        returnE op)))))"

section \<open>Login\<close>

record login_result =
  lr_authenticated :: bool
  lr_principal :: "authenticated_principal option"
  lr_session_token :: "ustring option"
  lr_rate_limited :: bool

definition rejected_login :: "bool \<Rightarrow> login_result" where
  "rejected_login limited = \<lparr>lr_authenticated = False, lr_principal = None, lr_session_token = None,
     lr_rate_limited = limited\<rparr>"

definition valid_token :: "ustring \<Rightarrow> bool" where
  "valid_token s \<longleftrightarrow> length s = 43 \<and> list_all (\<lambda>c. 65 \<le> c \<and> c \<le> 90 \<or> 97 \<le> c \<and> c \<le> 122 \<or>
     48 \<le> c \<and> c \<le> 57 \<or> c = 95 \<or> c = 45) s"

definition record_failed_login :: "auth_env \<Rightarrow> string \<Rightarrow> (auth_world, exn, unit) prog" where
  "record_failed_login ae reason_code =
     catchE (on_world (audit_append (ae_env ae) (audit_request_of AUTH_LOGIN_FAILURE None AO_DENIED
         \<lparr>aq_reason_code := Some reason_code, aq_actor_type := ANONYMOUS\<rparr>)))
       (\<lambda>e. if e = AuditPersistenceError then Some (returnE ()) else None)"

definition limiter_check ::
  "auth_env \<Rightarrow> auth_settings \<Rightarrow> ustring \<Rightarrow> ustring \<Rightarrow> (auth_world, exn, bool) prog" where
  "limiter_check ae st source_address name =
     bindE (auth_tick (ae_monotonic ae)) (\<lambda>t. \<lambda>w.
       case check_login (ae_sha256 ae) (as_per_minute st) (as_per_hour st) source_address name t (aw_attempts w) of
         (ok, attempts) \<Rightarrow> (Inr ok, w\<lparr>aw_attempts := attempts\<rparr>))"

definition limiter_failure :: "auth_env \<Rightarrow> ustring \<Rightarrow> ustring \<Rightarrow> (auth_world, exn, unit) prog" where
  "limiter_failure ae source_address name =
     bindE (auth_tick (ae_monotonic ae)) (\<lambda>t.
       modifyE (\<lambda>w. w\<lparr>aw_attempts := record_failure (ae_sha256 ae) source_address name t (aw_attempts w)\<rparr>))"

definition limiter_clear :: "auth_env \<Rightarrow> ustring \<Rightarrow> (auth_world, exn, unit) prog" where
  "limiter_clear ae name =
     modifyE (\<lambda>w. w\<lparr>aw_attempts := clear_username (ae_sha256 ae) name (aw_attempts w)\<rparr>)"

text \<open>\<open>previous.revoked_at = now\<close> for the session the browser presented, if it is live.\<close>

definition revoke_previous :: "auth_env \<Rightarrow> instant \<Rightarrow> ustring option \<Rightarrow> (auth_db, exn, unit) prog" where
  "revoke_previous ae t previous =
     (case previous of None \<Rightarrow> returnE ()
      | Some token \<Rightarrow>
        if \<not> valid_token token then returnE ()
        else bindE (getE (find_session (ae_sha256 ae token))) (\<lambda>found.
          case found of None \<Rightarrow> returnE ()
          | Some s \<Rightarrow> if ss_revoked_at s = None
              then update_session (ss_id s) (\<lambda>s. s\<lparr>ss_revoked_at := Some t\<rparr>) else returnE ()))"

definition refresh_hash ::
  "auth_env \<Rightarrow> operator_user \<Rightarrow> ustring \<Rightarrow> string \<Rightarrow> (auth_db, exn, unit) prog" where
  "refresh_hash ae persisted password new_hash =
     (if ae_needs_rehash ae (op_password_hash persisted)
      then bindE (unlessE (password_ok password) CredentialValidationError) (\<lambda>_.
         update_operator (op_id persisted) (\<lambda>r. r\<lparr>op_password_hash := new_hash\<rparr>))
      else returnE ())"

definition open_session ::
  "auth_env \<Rightarrow> auth_settings \<Rightarrow> string \<Rightarrow> ustring \<Rightarrow> ustring option \<Rightarrow> ustring \<Rightarrow> instant \<Rightarrow> string \<Rightarrow>
   string \<Rightarrow> instant \<Rightarrow> string \<Rightarrow> (auth_db, exn, unit) prog" where
  "open_session ae st user_id password previous raw_token t session_id event_id event_at new_hash =
     bindE (getE (operator_of user_id)) (\<lambda>found.
     case found of None \<Rightarrow> raiseE SQLAlchemyError
     | Some persisted \<Rightarrow>
       bindE (unlessE (op_is_active persisted \<and> op_role persisted = ''OPERATOR'')
          AuthenticationPersistenceError) (\<lambda>_.
       bindE (refresh_hash ae persisted password new_hash) (\<lambda>_.
       bindE (revoke_previous ae t previous) (\<lambda>_.
       bindE (update_operator user_id (\<lambda>r. r\<lparr>op_last_login_at := Some t\<rparr>)) (\<lambda>_.
       bindE (insert_session \<lparr>ss_id = session_id, ss_user_id = user_id,
          ss_token_hash = ae_sha256 ae raw_token,
          ss_csrf_token_hash = ae_sha256 ae (ae_hmac ae raw_token),
          ss_expires_at = t + as_absolute_seconds st * 1000000, ss_last_seen_at = t,
          ss_revoked_at = None\<rparr>) (\<lambda>_.
       on_db (add_to_transaction event_id event_at (audit_request_of AUTH_LOGIN_SUCCESS None AO_SUCCESS
          \<lparr>aq_actor_type := OPERATOR, aq_actor_id := Some user_id,
           aq_details := obj [(''role'', jtext ''OPERATOR'')]\<rparr>))))))))"

definition guard_auth :: "exn \<Rightarrow> (auth_world, exn, 'a) prog option" where
  "guard_auth e = (if is_database_error e then Some (raiseE AuthenticationPersistenceError) else None)"

definition start_session ::
  "auth_env \<Rightarrow> auth_settings \<Rightarrow> operator_user \<Rightarrow> ustring \<Rightarrow> ustring \<Rightarrow> ustring option \<Rightarrow>
   (auth_world, exn, login_result) prog" where
  "start_session ae st op canonical password previous =
     bindE (auth_tick (ae_token ae)) (\<lambda>raw_token.
     bindE (on_world (now (ae_env ae))) (\<lambda>t.
     bindE (on_world (new_id (ae_env ae))) (\<lambda>session_id.
     bindE (auth_tick (\<lambda>k. ae_hash ae k password)) (\<lambda>new_hash.
     bindE (on_world (new_id (ae_env ae))) (\<lambda>event_id.
     bindE (on_world (now (ae_env ae))) (\<lambda>event_at.
     bindE (catchE (auth_transaction (ae_env ae)
         (open_session ae st (op_id op) password previous raw_token t session_id event_id event_at new_hash))
        guard_auth) (\<lambda>_.
     bindE (limiter_clear ae canonical) (\<lambda>_.
     returnE \<lparr>lr_authenticated = True,
       lr_principal = Some \<lparr>pr_user_id = op_id op, pr_username = canonical, pr_role = OPERATOR_ROLE,
         pr_session_id = session_id, pr_csrf_token = ae_hmac ae raw_token\<rparr>,
       lr_session_token = Some raw_token, lr_rate_limited = False\<rparr>))))))))"

text \<open>The three parts of \<open>login\<close>: the lookup, the rejection, and what follows the lookup.\<close>

definition find_login :: "auth_env \<Rightarrow> bool \<Rightarrow> ustring \<Rightarrow> (auth_world, exn, operator_user option) prog" where
  "find_login ae valid_username canonical =
     (if valid_username then catchE (auth_query (ae_env ae) (find_operator canonical)) guard_auth
      else returnE None)"

definition reject_credentials :: "auth_env \<Rightarrow> ustring \<Rightarrow> ustring \<Rightarrow> (auth_world, exn, login_result) prog" where
  "reject_credentials ae source_address canonical =
     bindE (limiter_failure ae source_address canonical) (\<lambda>_.
     bindE (record_failed_login ae ''INVALID_CREDENTIALS'') (\<lambda>_. returnE (rejected_login False)))"

definition verified_login :: "auth_env \<Rightarrow> ustring \<Rightarrow> operator_user \<Rightarrow> bool" where
  "verified_login ae password op \<longleftrightarrow> length password \<le> MAX_PASSWORD_LENGTH \<and>
     ae_verify ae (op_password_hash op) password"

definition finish_login ::
  "auth_env \<Rightarrow> auth_settings \<Rightarrow> ustring \<Rightarrow> ustring \<Rightarrow> ustring \<Rightarrow> ustring option \<Rightarrow> operator_user option \<Rightarrow>
   (auth_world, exn, login_result) prog" where
  "finish_login ae st canonical password source_address previous candidate =
     (case candidate of
        None \<Rightarrow> reject_credentials ae source_address canonical
      | Some op \<Rightarrow>
        if \<not> verified_login ae password op \<or> \<not> op_is_active op
        then reject_credentials ae source_address canonical
        else start_session ae st op canonical password previous)"

definition login ::
  "auth_env \<Rightarrow> auth_settings \<Rightarrow> ustring \<Rightarrow> ustring \<Rightarrow> ustring \<Rightarrow> ustring option \<Rightarrow>
   (auth_world, exn, login_result) prog" where
  "login ae st username password source_address previous =
     (let (canonical, valid_username) = (case normalize_username (ae_casefold ae) username of
         Inl _ \<Rightarrow> (u ''invalid-username'', False) | Inr c \<Rightarrow> (c, True)) in
      bindE (limiter_check ae st source_address canonical) (\<lambda>allowed.
      if \<not> allowed then
        bindE (record_failed_login ae ''RATE_LIMITED'') (\<lambda>_. returnE (rejected_login True))
      else bindE (find_login ae valid_username canonical)
        (finish_login ae st canonical password source_address previous)))"

section \<open>Authentication\<close>

definition session_invalid :: "auth_env \<Rightarrow> auth_settings \<Rightarrow> ustring \<Rightarrow> instant \<Rightarrow> server_session \<Rightarrow> operator_user \<Rightarrow> bool" where
  "session_invalid ae st csrf_token t s op \<longleftrightarrow>
     ss_revoked_at s \<noteq> None \<or> ss_expires_at s \<le> t \<or>
     as_inactivity_seconds st * 1000000 \<le> t - ss_last_seen_at s \<or>
     \<not> op_is_active op \<or> op_role op \<noteq> ''OPERATOR'' \<or>
     ss_csrf_token_hash s \<noteq> ae_sha256 ae csrf_token"

definition joined_session :: "ustring \<Rightarrow> auth_db \<Rightarrow> (server_session \<times> operator_user) option" where
  "joined_session token_hash d =
     (case find_session token_hash d of None \<Rightarrow> None
      | Some s \<Rightarrow> map_option (Pair s) (operator_of (ss_user_id s) d))"

definition check_session ::
  "auth_env \<Rightarrow> auth_settings \<Rightarrow> ustring \<Rightarrow> instant \<Rightarrow> (auth_db, exn, authenticated_principal option) prog" where
  "check_session ae st raw_token t =
     (let csrf_token = ae_hmac ae raw_token in
      bindE (getE (joined_session (ae_sha256 ae raw_token))) (\<lambda>row.
      case row of None \<Rightarrow> returnE None
      | Some (s, op) \<Rightarrow>
        if session_invalid ae st csrf_token t s op then
          bindE (if ss_revoked_at s = None
             then update_session (ss_id s) (\<lambda>s. s\<lparr>ss_revoked_at := Some t\<rparr>) else returnE ()) (\<lambda>_.
          returnE None)
        else
          bindE (if as_refresh_seconds st * 1000000 \<le> t - ss_last_seen_at s
             then update_session (ss_id s) (\<lambda>s. s\<lparr>ss_last_seen_at := t\<rparr>) else returnE ()) (\<lambda>_.
          returnE (Some \<lparr>pr_user_id = op_id op, pr_username = op_username op, pr_role = OPERATOR_ROLE,
            pr_session_id = ss_id s, pr_csrf_token = csrf_token\<rparr>))))"

definition authenticate ::
  "auth_env \<Rightarrow> auth_settings \<Rightarrow> ustring option \<Rightarrow> (auth_world, exn, authenticated_principal option) prog" where
  "authenticate ae st supplied =
     (case supplied of None \<Rightarrow> returnE None
      | Some raw_token \<Rightarrow>
        if \<not> valid_token raw_token then returnE None
        else bindE (on_world (now (ae_env ae))) (\<lambda>t.
          catchE (auth_transaction (ae_env ae) (check_session ae st raw_token t))
            (\<lambda>e. if is_database_error e \<or> is_value_error e
                 then Some (raiseE AuthenticationPersistenceError) else None)))"

section \<open>Logout and cleanup\<close>

definition revoke_session :: "auth_env \<Rightarrow> ustring \<Rightarrow> instant \<Rightarrow> string option \<Rightarrow> (auth_db, exn, string option) prog" where
  "revoke_session ae raw_token t actor_id =
     bindE (getE (find_session (ae_sha256 ae raw_token))) (\<lambda>found.
     case found of None \<Rightarrow> returnE actor_id
     | Some s \<Rightarrow> if ss_revoked_at s = None
         then bindE (update_session (ss_id s) (\<lambda>s. s\<lparr>ss_revoked_at := Some t\<rparr>)) (\<lambda>_.
           returnE (Some (ss_user_id s)))
         else returnE actor_id)"

definition logout ::
  "auth_env \<Rightarrow> ustring option \<Rightarrow> authenticated_principal option \<Rightarrow> (auth_world, exn, unit) prog" where
  "logout ae supplied who =
     (case supplied of None \<Rightarrow> returnE ()
      | Some raw_token \<Rightarrow>
        if \<not> valid_token raw_token then returnE ()
        else bindE (on_world (now (ae_env ae))) (\<lambda>t.
          bindE (catchE (auth_transaction (ae_env ae)
              (revoke_session ae raw_token t (map_option pr_user_id who))) guard_auth) (\<lambda>actor_id.
          case actor_id of None \<Rightarrow> returnE ()
          | Some i \<Rightarrow> catchE (on_world (audit_append (ae_env ae) (audit_request_of AUTH_LOGOUT None AO_SUCCESS
                \<lparr>aq_actor_type := OPERATOR, aq_actor_id := Some i\<rparr>)))
              (\<lambda>e. if e = AuditPersistenceError then Some (returnE ()) else None))))"

definition expired_sessions :: "nat \<Rightarrow> instant \<Rightarrow> auth_db \<Rightarrow> string list" where
  "expired_sessions limit t d = map ss_id (take limit
     (sort_key ss_expires_at (sort_key ss_id
        (filter (\<lambda>s. ss_expires_at s \<le> t \<or> ss_revoked_at s \<noteq> None) (ab_sessions d)))))"

definition delete_expired :: "nat \<Rightarrow> bool \<Rightarrow> instant \<Rightarrow> (auth_db, exn, nat) prog" where
  "delete_expired limit apply_changes t =
     bindE (getE (expired_sessions limit t)) (\<lambda>ids.
     bindE (if ids \<noteq> [] \<and> apply_changes
        then modifyE (\<lambda>d. d\<lparr>ab_sessions := filter (\<lambda>s. ss_id s \<notin> set ids) (ab_sessions d)\<rparr>)
        else returnE ()) (\<lambda>_. returnE (length ids)))"

definition cleanup_sessions :: "auth_env \<Rightarrow> nat \<Rightarrow> bool \<Rightarrow> (auth_world, exn, nat) prog" where
  "cleanup_sessions ae limit apply_changes =
     bindE (on_world (now (ae_env ae))) (\<lambda>t.
       catchE (auth_transaction (ae_env ae) (delete_expired limit apply_changes t)) guard_auth)"

section \<open>Readiness\<close>

record auth_readiness =
  ar_password_hasher :: bool
  ar_auth_schema :: bool
  ar_session_store :: bool
  ar_active_operator :: bool

definition readiness :: "auth_env \<Rightarrow> bool \<Rightarrow> bool \<Rightarrow> (auth_world, exn, auth_readiness) prog" where
  "readiness ae hasher_ready require_active_operator =
     catchE (bindE (auth_query (ae_env ae) (\<lambda>d.
          length (filter (\<lambda>r. op_is_active r \<and> op_role r = ''OPERATOR'') (ab_operators d)))) (\<lambda>active.
        returnE \<lparr>ar_password_hasher = hasher_ready, ar_auth_schema = True, ar_session_store = True,
          ar_active_operator = (if require_active_operator then 0 < active else True)\<rparr>))
      (\<lambda>e. if is_database_error e then Some (returnE \<lparr>ar_password_hasher = hasher_ready,
          ar_auth_schema = False, ar_session_store = False,
          ar_active_operator = (\<not> require_active_operator)\<rparr>) else None)"

end
