(* ===== verification/Auth_Properties.thy ===== *)
theory Auth_Properties
  imports Auth
begin

text \<open>
  What the session service guarantees: who is authenticated, what a login creates, that
  failures create nothing, and that a logout is final over any later history of the service.
\<close>

section \<open>Inversion of the combinators\<close>

lemma on_world_InrE:
  assumes "on_world m w = (Inr x, w')"
  obtains v where "m (aw_world w) = (Inr x, v)" "w' = w\<lparr>aw_world := v\<rparr>"
  using assms by (auto simp: on_world_def split: prod.splits)

lemma auth_tick_run:
  "auth_tick f w = (Inr (f (w_tick (aw_world w))),
     w\<lparr>aw_world := (aw_world w)\<lparr>w_tick := Suc (w_tick (aw_world w))\<rparr>\<rparr>)"
  by (simp add: auth_tick_def on_world_def tickE_def bindE_def returnE_def)

lemma now_InrE:
  assumes "on_world (now env) w = (Inr t, w')"
  obtains "t = env_clock env (w_tick (aw_world w))" "joined_db w' = joined_db w"
    "aw_attempts w' = aw_attempts w"
  using assms by (auto simp: on_world_def now_run joined_db_def)

lemma new_id_InrE:
  assumes "on_world (new_id env) w = (Inr t, w')"
  obtains "t = env_fresh env (w_tick (aw_world w))" "joined_db w' = joined_db w"
    "aw_attempts w' = aw_attempts w"
  using assms by (auto simp: on_world_def new_id_run joined_db_def)

lemma auth_transaction_InrE:
  assumes "auth_transaction env m w = (Inr x, w')"
  obtains d where "m (joined_db w) = (Inr x, d)" "joined_db w' = d" "aw_attempts w' = aw_attempts w"
  using assms
  by (auto simp: auth_transaction_def Let_def committed_def joined_db_def split: if_splits prod.splits sum.splits)

lemma guard_auth_no_value:
  assumes "catchE m guard_auth w = (Inr x, w')"
  shows "m w = (Inr x, w')"
  using assms by (auto simp: guard_auth_def raiseE_def elim!: catch_InrE split: if_splits)

section \<open>Authentication\<close>

lemma check_session_value:
  assumes "check_session ae st raw_token t d = (Inr (Some p), d')"
  obtains s op where "s \<in> set (ab_sessions d)" "op \<in> set (ab_operators d)"
    "ss_token_hash s = ae_sha256 ae raw_token" "ss_user_id s = op_id op"
    "\<not> session_invalid ae st (ae_hmac ae raw_token) t s op"
    "p = \<lparr>pr_user_id = op_id op, pr_username = op_username op, pr_role = OPERATOR_ROLE,
       pr_session_id = ss_id s, pr_csrf_token = ae_hmac ae raw_token\<rparr>"
proof -
  from assms obtain s op where row: "joined_session (ae_sha256 ae raw_token) d = Some (s, op)"
    and v: "\<not> session_invalid ae st (ae_hmac ae raw_token) t s op"
    "p = \<lparr>pr_user_id = op_id op, pr_username = op_username op, pr_role = OPERATOR_ROLE,
       pr_session_id = ss_id s, pr_csrf_token = ae_hmac ae raw_token\<rparr>"
    by (auto simp: check_session_def Let_def elim!: bind_InrE split: option.splits if_splits)
  from row have "s \<in> set (ab_sessions d)" "op \<in> set (ab_operators d)"
    "ss_token_hash s = ae_sha256 ae raw_token" "ss_user_id s = op_id op"
    by (auto simp: joined_session_def find_session_def operator_of_def lookup_row_def find_Some_iff
        split: option.splits)
  with v that show ?thesis by blast
qed

lemma authenticated_session:
  assumes "authenticate ae st supplied w = (Inr (Some p), w')"
  shows "\<exists>raw_token. \<exists>s\<in>set (aw_sessions w). \<exists>op\<in>set (aw_operators w).
     let t = env_clock (ae_env ae) (w_tick (aw_world w)) in
     supplied = Some raw_token \<and> valid_token raw_token \<and>
     ss_token_hash s = ae_sha256 ae raw_token \<and> ss_revoked_at s = None \<and> t < ss_expires_at s \<and>
     t - ss_last_seen_at s < as_inactivity_seconds st * 1000000 \<and>
     op_is_active op \<and> op_role op = ''OPERATOR'' \<and> ss_user_id s = op_id op \<and>
     pr_user_id p = op_id op \<and> pr_username p = op_username op \<and> pr_session_id p = ss_id s \<and>
     pr_csrf_token p = ae_hmac ae raw_token \<and> ss_csrf_token_hash s = ae_sha256 ae (pr_csrf_token p)"
proof -
  from assms obtain raw_token where raw: "supplied = Some raw_token" "valid_token raw_token"
    by (auto simp: authenticate_def split: option.splits if_splits)
  with assms obtain t w1 where t: "on_world (now (ae_env ae)) w = (Inr t, w1)"
    and c: "auth_transaction (ae_env ae) (check_session ae st raw_token t) w1 = (Inr (Some p), w')"
    by (auto simp: authenticate_def raiseE_def elim!: bind_InrE catch_InrE split: if_splits)
  from c obtain d where "check_session ae st raw_token t (joined_db w1) = (Inr (Some p), d)"
    by (rule auth_transaction_InrE)
  moreover from t have "t = env_clock (ae_env ae) (w_tick (aw_world w))" "joined_db w1 = joined_db w"
    by (auto elim!: now_InrE)
  ultimately show ?thesis
    using raw by (elim check_session_value) (fastforce simp: session_invalid_def joined_db_def Let_def)
qed

text \<open>C19. A principal is who the session says: \<open>authenticate\<close> returns one only for a token whose
  hash is a stored session that is not revoked, not expired and not idle at that moment, whose
  operator is active, and the principal is that operator with that session and the CSRF token
  derived from the presented token.\<close>

theorem authenticated_session_is_live:
  assumes "authenticate ae st supplied w = (Inr (Some p), w')"
  shows "\<exists>raw_token. \<exists>s\<in>set (aw_sessions w). \<exists>op\<in>set (aw_operators w).
     let t = env_clock (ae_env ae) (w_tick (aw_world w)) in
     supplied = Some raw_token \<and> valid_token raw_token \<and>
     ss_token_hash s = ae_sha256 ae raw_token \<and> ss_revoked_at s = None \<and> t < ss_expires_at s \<and>
     t - ss_last_seen_at s < as_inactivity_seconds st * 1000000 \<and>
     op_is_active op \<and> op_role op = ''OPERATOR'' \<and> ss_user_id s = op_id op \<and>
     pr_user_id p = op_id op \<and> pr_username p = op_username op \<and> pr_session_id p = ss_id s \<and>
     pr_csrf_token p = ae_hmac ae raw_token \<and> ss_csrf_token_hash s = ae_sha256 ae (pr_csrf_token p)"
  using assms by (rule authenticated_session)

section \<open>Login\<close>

lemma update_session_run [simp]: "update_session i f d = (Inr (), d\<lparr>ab_sessions := update_row ss_id i f (ab_sessions d)\<rparr>)"
  and update_operator_run [simp]: "update_operator i g d = (Inr (), d\<lparr>ab_operators := update_row op_id i g (ab_operators d)\<rparr>)"
  by (simp_all add: update_session_def update_operator_def modifyE_def)

lemma revoke_previous_frame:
  "ab_operators (snd (revoke_previous ae t previous d)) = ab_operators d"
  "ab_db (snd (revoke_previous ae t previous d)) = ab_db d"
  "\<exists>x. fst (revoke_previous ae t previous d) = Inr x"
  by (auto simp: revoke_previous_def bindE_def getE_def returnE_def split: option.split)

lemma add_event_value:
  assumes "on_db (add_to_transaction i t q) d = (Inr x, d')"
  shows "ab_operators d' = ab_operators d \<and> ab_sessions d' = ab_sessions d \<and>
    (\<exists>b. event_of i t q b \<in> set (db_events (ab_db d')))"
proof -
  obtain y v where r: "add_to_transaction i t q (ab_db d) = (y, v)" by fastforce
  with assms add_to_transaction_effect [OF r] show ?thesis by (auto simp: on_db_def)
qed

definition fresh_session :: "auth_env \<Rightarrow> auth_settings \<Rightarrow> string \<Rightarrow> ustring \<Rightarrow> instant \<Rightarrow> string \<Rightarrow> server_session" where
  "fresh_session ae st user_id raw_token t session_id = \<lparr>ss_id = session_id, ss_user_id = user_id,
     ss_token_hash = ae_sha256 ae raw_token, ss_csrf_token_hash = ae_sha256 ae (ae_hmac ae raw_token),
     ss_expires_at = t + as_absolute_seconds st * 1000000, ss_last_seen_at = t, ss_revoked_at = None\<rparr>"

text \<open>What the transaction of a login commits.\<close>

lemma open_session_value:
  assumes "open_session ae st user_id password previous raw_token t session_id event_id event_at new_hash d = (Inr x, d')"
  obtains op d1 b where "operator_of user_id d = Some op" "op_is_active op" "op_role op = ''OPERATOR''"
    "ab_sessions d1 = ab_sessions d" "ab_sessions d' = ab_sessions (snd (revoke_previous ae t previous d1)) @
        [fresh_session ae st user_id raw_token t session_id]"
    "event_of event_id event_at (audit_request_of AUTH_LOGIN_SUCCESS None AO_SUCCESS
          \<lparr>aq_actor_type := OPERATOR, aq_actor_id := Some user_id,
           aq_details := obj [(''role'', jtext ''OPERATOR'')]\<rparr>) b \<in> set (db_events (ab_db d'))"
proof -
  from assms obtain op d1 d2 d3 where op: "operator_of user_id d = Some op" "op_is_active op" "op_role op = ''OPERATOR''"
    and d1: "refresh_hash ae op password new_hash d = (Inr (), d1)"
    and d2: "revoke_previous ae t previous d1 = (Inr (), d2)"
    and d3: "insert_session (fresh_session ae st user_id raw_token t session_id)
       (d2\<lparr>ab_operators := update_row op_id user_id (\<lambda>r. r\<lparr>op_last_login_at := Some t\<rparr>) (ab_operators d2)\<rparr>)
       = (Inr (), d3)"
    and ev: "on_db (add_to_transaction event_id event_at (audit_request_of AUTH_LOGIN_SUCCESS None AO_SUCCESS
          \<lparr>aq_actor_type := OPERATOR, aq_actor_id := Some user_id,
           aq_details := obj [(''role'', jtext ''OPERATOR'')]\<rparr>)) d3 = (Inr x, d')"
    by (auto simp: open_session_def fresh_session_def elim!: bind_InrE split: option.splits)
  have "ab_sessions d1 = ab_sessions d"
    using d1 by (auto simp: refresh_hash_def elim!: bind_InrE split: if_splits)
  moreover have "ab_sessions d3 = ab_sessions d2 @ [fresh_session ae st user_id raw_token t session_id]"
    using d3 by (auto simp: insert_session_def modifyE_def elim!: bind_InrE)
  ultimately show ?thesis using that [OF op] add_event_value [OF ev] d2 by auto
qed

text \<open>Whatever fails inside a login leaves operators and sessions as they were.\<close>

lemma failed_login_frame:
  "joined_db (snd (record_failed_login ae reason w)) =
     (joined_db w)\<lparr>ab_db := w_db (aw_world (snd (record_failed_login ae reason w)))\<rparr>"
  by (auto simp: record_failed_login_def catchE_def on_world_def joined_db_def returnE_def
      split: prod.splits sum.splits)

lemma check_login_frame: "joined_db (snd (limiter_check ae st a c w)) = joined_db w"
  by (simp add: limiter_check_def bindE_def auth_tick_run joined_db_def split: prod.split)

lemma limiter_frame [simp]:
  "joined_db (snd (limiter_failure ae a c w)) = joined_db w" "joined_db (snd (limiter_clear ae c w)) = joined_db w"
  by (simp_all add: limiter_failure_def limiter_clear_def bindE_def auth_tick_run joined_db_def modifyE_def)

lemma query_InrE:
  assumes "auth_query env f w = (Inr x, w')"
  obtains "x = f (joined_db w)" "joined_db w' = joined_db w" "aw_attempts w' = aw_attempts w"
  using assms by (auto simp: auth_query_def Let_def joined_db_def split: if_splits)

lemma start_session_value:
  assumes "start_session ae st op canonical password previous w = (Inr r, w')"
  obtains raw_token t session_id event_id event_at new_hash w1 w2 d where
    "joined_db w1 = joined_db w"
    "open_session ae st (op_id op) password previous raw_token t session_id event_id event_at new_hash (joined_db w)
       = (Inr (), d)"
    "joined_db w' = d" "lr_session_token r = Some raw_token" "lr_authenticated r"
    "lr_principal r = Some \<lparr>pr_user_id = op_id op, pr_username = canonical, pr_role = OPERATOR_ROLE,
         pr_session_id = session_id, pr_csrf_token = ae_hmac ae raw_token\<rparr>"
proof -
  from assms obtain raw_token t session_id event_id event_at new_hash w1 w2 where w1: "joined_db w1 = joined_db w"
    and tr: "catchE (auth_transaction (ae_env ae)
         (open_session ae st (op_id op) password previous raw_token t session_id event_id event_at new_hash))
        guard_auth w1 = (Inr (), w2)"
    and w2: "joined_db w' = joined_db w2"
    and r: "lr_session_token r = Some raw_token" "lr_authenticated r"
      "lr_principal r = Some \<lparr>pr_user_id = op_id op, pr_username = canonical, pr_role = OPERATOR_ROLE,
         pr_session_id = session_id, pr_csrf_token = ae_hmac ae raw_token\<rparr>"
    by (auto simp: start_session_def auth_tick_run limiter_clear_def modifyE_def joined_db_def
        elim!: bind_InrE now_InrE new_id_InrE)
  from auth_transaction_InrE [OF guard_auth_no_value [OF tr]] that w1 w2 r show ?thesis by metis
qed

text \<open>The sessions after the presented one has been revoked.\<close>

definition revoked_sessions ::
  "auth_env \<Rightarrow> instant \<Rightarrow> ustring option \<Rightarrow> server_session list \<Rightarrow> server_session list" where
  "revoked_sessions ae t previous ss =
     (case previous of None \<Rightarrow> ss
      | Some token \<Rightarrow> map (\<lambda>s. if valid_token token \<and> ss_token_hash s = ae_sha256 ae token \<and> ss_revoked_at s = None
          then s\<lparr>ss_revoked_at := Some t\<rparr> else s) ss)"

definition sessions_ok :: "server_session list \<Rightarrow> bool" where
  "sessions_ok ss \<longleftrightarrow> distinct (map ss_id ss) \<and> distinct (map ss_token_hash ss)"

lemma unique_session:
  assumes "sessions_ok ss" "s \<in> set ss" "s' \<in> set ss" "ss_id s = ss_id s' \<or> ss_token_hash s = ss_token_hash s'"
  shows "s = s'"
  using assms by (auto simp: sessions_ok_def distinct_map dest: inj_onD)

lemma revoke_previous_sessions:
  assumes "sessions_ok (ab_sessions d)"
  shows "ab_sessions (snd (revoke_previous ae t previous d)) = revoked_sessions ae t previous (ab_sessions d)"
proof (cases previous)
  case (Some token)
  let ?h = "ae_sha256 ae token" and ?ss = "ab_sessions d"
  show ?thesis
  proof (cases "valid_token token")
    case True
    show ?thesis
    proof (cases "find_session ?h d")
      case None
      then have "\<forall>s\<in>set ?ss. ss_token_hash s \<noteq> ?h" by (auto simp: find_session_def find_None_iff)
      then have "revoked_sessions ae t previous ?ss = ?ss"
        unfolding revoked_sessions_def Some by (auto intro!: map_idI)
      with Some None show ?thesis by (simp add: revoke_previous_def prog_defs)
    next
      case s: (Some s)
      then have mem: "s \<in> set ?ss" "ss_token_hash s = ?h" by (auto simp: find_session_def find_Some_iff)
      have same: "ss_id x = ss_id s \<longleftrightarrow> ss_token_hash x = ?h" if "x \<in> set ?ss" for x
        using unique_session [OF assms that mem(1)] mem(2) by metis
      show ?thesis
      proof (cases "ss_revoked_at s = None")
        case r: True
        have "update_row ss_id (ss_id s) (\<lambda>s. s\<lparr>ss_revoked_at := Some t\<rparr>) ?ss = revoked_sessions ae t previous ?ss"
          unfolding update_row_def revoked_sessions_def Some option.case
        proof (rule map_cong [OF refl])
          fix x assume x: "x \<in> set ?ss"
          then have "ss_revoked_at x = None" if "ss_token_hash x = ?h"
            using unique_session [OF assms x mem(1)] that mem(2) r by simp
          with same [OF x] True show "(if ss_id x = ss_id s then x\<lparr>ss_revoked_at := Some t\<rparr> else x) =
              (if valid_token token \<and> ss_token_hash x = ?h \<and> ss_revoked_at x = None
               then x\<lparr>ss_revoked_at := Some t\<rparr> else x)" by simp
        qed
        with Some s True r show ?thesis by (simp add: revoke_previous_def bindE_def getE_def)
      next
        case r: False
        have "revoked_sessions ae t previous ?ss = ?ss"
          unfolding revoked_sessions_def Some option.case
        proof (rule map_idI)
          fix x assume "x \<in> set ?ss"
          then have "x = s" if "ss_token_hash x = ?h" using same [of x] that
            unique_session [OF assms _ mem(1)] by blast
          with r show "(if valid_token token \<and> ss_token_hash x = ?h \<and> ss_revoked_at x = None
               then x\<lparr>ss_revoked_at := Some t\<rparr> else x) = x" by (cases "ss_token_hash x = ?h") simp_all
        qed
        with Some s True r show ?thesis 
          by (cases "ss_revoked_at s") (simp_all add: revoke_previous_def bindE_def getE_def returnE_def)
      qed
    qed
  qed (simp add: Some revoke_previous_def revoked_sessions_def returnE_def)
qed (simp add: revoke_previous_def revoked_sessions_def returnE_def)

text \<open>How an authenticated login got there: the lookup, the checks and the new session.\<close>

lemma authenticated_login:
  assumes "login ae st username password source_address previous w = (Inr r, w')" and "lr_authenticated r"
  obtains canonical op w2 where "normalize_username (ae_casefold ae) username = Inr canonical"
    "fst (check_login (ae_sha256 ae) (as_per_minute st) (as_per_hour st) source_address canonical
        (ae_monotonic ae (w_tick (aw_world w))) (aw_attempts w))"
    "find_operator canonical (joined_db w) = Some op" "verified_login ae password op" "op_is_active op"
    "joined_db w2 = joined_db w" "start_session ae st op canonical password previous w2 = (Inr r, w')"
proof -
  obtain canonical valid where c: "(case normalize_username (ae_casefold ae) username of
         Inl _ \<Rightarrow> (u ''invalid-username'', False) | Inr c \<Rightarrow> (c, True)) = (canonical, valid)" by fastforce
  obtain w1 candidate w2 where lim: "limiter_check ae st source_address canonical w = (Inr True, w1)"
    and f: "find_login ae valid canonical w1 = (Inr candidate, w2)"
    and k: "finish_login ae st canonical password source_address previous candidate w2 = (Inr r, w')"
    using assms c by (fastforce simp: login_def rejected_login_def elim!: bind_InrE split: if_splits)
  have "reject_credentials ae source_address canonical w2 \<noteq> (Inr r, w')"
    using assms(2) by (auto simp: reject_credentials_def rejected_login_def elim!: bind_InrE)
  with k obtain op where op: "candidate = Some op" "verified_login ae password op" "op_is_active op"
    and s: "start_session ae st op canonical password previous w2 = (Inr r, w')"
    by (auto simp: finish_login_def split: option.splits if_splits)
  have q: "auth_query (ae_env ae) (find_operator canonical) w1 = (Inr (Some op), w2)" and valid
    using f op(1) by (auto simp: find_login_def split: if_splits dest!: guard_auth_no_value)
  have w1: "joined_db w1 = joined_db w" "fst (check_login (ae_sha256 ae) (as_per_minute st) (as_per_hour st)
      source_address canonical (ae_monotonic ae (w_tick (aw_world w))) (aw_attempts w))"
    using lim by (auto simp: limiter_check_def bindE_def auth_tick_run joined_db_def split: prod.splits)
  from q have q': "find_operator canonical (joined_db w) = Some op" "joined_db w2 = joined_db w"
    using w1(1) by (auto elim!: query_InrE)
  have "normalize_username (ae_casefold ae) username = Inr canonical"
    using c \<open>valid\<close> by (auto split: sum.splits)
  from that [OF this w1(2) q'(1) op(2,3) q'(2) s] show ?thesis .
qed

lemma started_session:
  assumes "start_session ae st op canonical password previous w = (Inr r, w')" and "sessions_ok (aw_sessions w)"
  obtains raw_token t session_id where "lr_session_token r = Some raw_token"
    "aw_sessions w' = revoked_sessions ae t previous (aw_sessions w) @ [fresh_session ae st (op_id op) raw_token t session_id]"
    "\<exists>ev\<in>set (db_events (w_db (aw_world w'))). ev_event_type ev = AUTH_LOGIN_SUCCESS \<and> ev_actor_id ev = Some (op_id op)"
proof -
  from assms(1) obtain raw_token t session_id event_id event_at new_hash d where
    o: "open_session ae st (op_id op) password previous raw_token t session_id event_id event_at new_hash
      (joined_db w) = (Inr (), d)" and d: "joined_db w' = d" and tok: "lr_session_token r = Some raw_token"
    by (elim start_session_value) simp
  from o obtain d1 b where s: "ab_sessions d1 = ab_sessions (joined_db w)"
    "ab_sessions d = ab_sessions (snd (revoke_previous ae t previous d1)) @
        [fresh_session ae st (op_id op) raw_token t session_id]"
    and ev: "event_of event_id event_at (audit_request_of AUTH_LOGIN_SUCCESS None AO_SUCCESS
          \<lparr>aq_actor_type := OPERATOR, aq_actor_id := Some (op_id op),
           aq_details := obj [(''role'', jtext ''OPERATOR'')]\<rparr>) b \<in> set (db_events (ab_db d))"
    by (rule open_session_value)
  have "\<exists>ev\<in>set (db_events (w_db (aw_world w'))). ev_event_type ev = AUTH_LOGIN_SUCCESS \<and>
        ev_actor_id ev = Some (op_id op)"
    by (intro bexI [OF _ ev [folded d, unfolded joined_db_def auth_db.simps]])
      (simp add: event_of_def audit_request_of_def)
  moreover have "aw_sessions w' = revoked_sessions ae t previous (aw_sessions w) @
      [fresh_session ae st (op_id op) raw_token t session_id]"
    using s d assms(2) revoke_previous_sessions [of d1 ae t previous] by (auto simp: joined_db_def)
  ultimately show ?thesis using that tok by blast
qed

text \<open>A login needs the password: it succeeds only for an active operator whose stored hash
  verifies the supplied password, when the throttle allowed the attempt; it then stores exactly
  one new session, that of the fresh token it returns, expiring after the absolute lifetime,
  revokes the session the browser presented, and records the event.\<close>

theorem login_opens_verified_session:
  assumes "login ae st username password source_address previous w = (Inr r, w')"
    and "lr_authenticated r" and "sessions_ok (aw_sessions w)"
  shows "\<exists>canonical raw_token t session_id. \<exists>op\<in>set (aw_operators w).
     normalize_username (ae_casefold ae) username = Inr canonical \<and> op_username op = canonical \<and>
     op_is_active op \<and> length password \<le> MAX_PASSWORD_LENGTH \<and> ae_verify ae (op_password_hash op) password \<and>
     fst (check_login (ae_sha256 ae) (as_per_minute st) (as_per_hour st) source_address canonical
        (ae_monotonic ae (w_tick (aw_world w))) (aw_attempts w)) \<and>
     lr_session_token r = Some raw_token \<and>
     aw_sessions w' = revoked_sessions ae t previous (aw_sessions w) @
       [fresh_session ae st (op_id op) raw_token t session_id] \<and>
     (\<exists>ev\<in>set (db_events (w_db (aw_world w'))). ev_event_type ev = AUTH_LOGIN_SUCCESS \<and>
        ev_actor_id ev = Some (op_id op))"
proof -
  from assms(1,2) obtain canonical op w2 where n: "normalize_username (ae_casefold ae) username = Inr canonical"
    "fst (check_login (ae_sha256 ae) (as_per_minute st) (as_per_hour st) source_address canonical
        (ae_monotonic ae (w_tick (aw_world w))) (aw_attempts w))"
    and f: "find_operator canonical (joined_db w) = Some op" and v: "verified_login ae password op" "op_is_active op"
    and w2: "joined_db w2 = joined_db w" and s: "start_session ae st op canonical password previous w2 = (Inr r, w')"
    by (rule authenticated_login)
  have ss: "aw_sessions w2 = aw_sessions w" using w2 by (simp add: joined_db_def)
  with assms(3) have "sessions_ok (aw_sessions w2)" by simp
  from started_session [OF s this] obtain raw_token t session_id where "lr_session_token r = Some raw_token"
    "aw_sessions w' = revoked_sessions ae t previous (aw_sessions w) @ [fresh_session ae st (op_id op) raw_token t session_id]"
    "\<exists>ev\<in>set (db_events (w_db (aw_world w'))). ev_event_type ev = AUTH_LOGIN_SUCCESS \<and> ev_actor_id ev = Some (op_id op)"
    unfolding ss by metis
  moreover have "op \<in> set (aw_operators w)" "op_username op = canonical"
    using f by (auto simp: find_operator_def find_Some_iff joined_db_def)
  ultimately show ?thesis using n v unfolding verified_login_def by blast
qed

lemma on_world_tables:
  "on_world m w = (x, w') \<Longrightarrow> aw_sessions w' = aw_sessions w \<and> aw_operators w' = aw_operators w \<and>
     aw_attempts w' = aw_attempts w"
  by (auto simp: on_world_def split: prod.splits)

lemma record_failed_tables:
  "record_failed_login ae reason w = (x, w') \<Longrightarrow> aw_sessions w' = aw_sessions w \<and> aw_operators w' = aw_operators w"
  by (auto simp: record_failed_login_def catchE_def on_world_def returnE_def
      split: prod.splits sum.splits if_splits)

lemma limiter_tables:
  "limiter_failure ae a c w = (x, w') \<Longrightarrow> aw_sessions w' = aw_sessions w \<and> aw_operators w' = aw_operators w"
  "limiter_check ae st a c w = (y, w') \<Longrightarrow> aw_sessions w' = aw_sessions w \<and> aw_operators w' = aw_operators w"
  by (auto simp: limiter_failure_def limiter_check_def bindE_def auth_tick_run modifyE_def split: prod.splits)

lemma find_login_tables:
  "find_login ae v c w = (Inr x, w') \<Longrightarrow> aw_sessions w' = aw_sessions w \<and> aw_operators w' = aw_operators w"
  by (auto simp: find_login_def auth_query_def Let_def joined_db_def split: if_splits dest!: guard_auth_no_value)

text \<open>C21. A rejected login creates nothing: without authentication there is no token and no
  principal, and the operators and the sessions are exactly as before.\<close>

theorem rejected_login_creates_nothing:
  assumes "login ae st username password source_address previous w = (Inr r, w')"
    and "\<not> lr_authenticated r"
  shows "lr_session_token r = None \<and> lr_principal r = None \<and>
    aw_sessions w' = aw_sessions w \<and> aw_operators w' = aw_operators w"
proof -
  obtain canonical valid where c: "(case normalize_username (ae_casefold ae) username of
         Inl _ \<Rightarrow> (u ''invalid-username'', False) | Inr c \<Rightarrow> (c, True)) = (canonical, valid)" by fastforce
  obtain allowed w1 where lim: "limiter_check ae st source_address canonical w = (Inr allowed, w1)"
    and k: "(if \<not> allowed then
        bindE (record_failed_login ae ''RATE_LIMITED'') (\<lambda>_. returnE (rejected_login True))
      else bindE (find_login ae valid canonical)
        (finish_login ae st canonical password source_address previous)) w1 = (Inr r, w')"
    using assms(1) c by (auto simp: login_def elim!: bind_InrE)
  have reject: "lr_session_token r = None \<and> lr_principal r = None \<and>
      aw_sessions w' = aw_sessions w2 \<and> aw_operators w' = aw_operators w2"
    if "reject_credentials ae source_address canonical w2 = (Inr r, w')" for w2
    using that
    by (auto simp: reject_credentials_def rejected_login_def elim!: bind_InrE dest!: limiter_tables record_failed_tables)
  show ?thesis
  proof (cases allowed)
    case False
    with k limiter_tables(2) [OF lim] show ?thesis
      by (auto simp: rejected_login_def elim!: bind_InrE dest!: record_failed_tables)
  next
    case True
    with k obtain candidate w2 where f: "find_login ae valid canonical w1 = (Inr candidate, w2)"
      and g: "finish_login ae st canonical password source_address previous candidate w2 = (Inr r, w')"
      by (auto elim!: bind_InrE)
    have "reject_credentials ae source_address canonical w2 = (Inr r, w')"
      using g assms(2) by (auto simp: finish_login_def split: option.splits if_splits elim!: start_session_value)
    from reject [OF this] limiter_tables(2) [OF lim] find_login_tables [OF f] show ?thesis by simp
  qed
qed

section \<open>Cleanup\<close>

text \<open>Cleanup removes only dead sessions: at most \<open>limit\<close> of them, each expired or revoked,
  and none at all without the apply switch; it returns how many it found.\<close>

theorem cleanup_removes_dead_sessions:
  assumes "cleanup_sessions ae limit apply_changes w = (Inr n, w')"
    and "sessions_ok (aw_sessions w)"
  shows "\<exists>gone. length gone = n \<and> n \<le> limit \<and> set gone \<subseteq> set (aw_sessions w) \<and>
    (\<forall>s\<in>set gone. ss_revoked_at s \<noteq> None \<or> ss_expires_at s \<le> env_clock (ae_env ae) (w_tick (aw_world w))) \<and>
    set (aw_sessions w') = set (aw_sessions w) - (if apply_changes then set gone else {}) \<and>
    aw_operators w' = aw_operators w"
proof -
  let ?t = "env_clock (ae_env ae) (w_tick (aw_world w))"
  let ?gone = "take limit (sort_key ss_expires_at (sort_key ss_id
        (filter (\<lambda>s. ss_expires_at s \<le> ?t \<or> ss_revoked_at s \<noteq> None) (aw_sessions w))))"
  obtain w1 where w1: "joined_db w1 = joined_db w"
    and tr: "auth_transaction (ae_env ae) (delete_expired limit apply_changes ?t) w1 = (Inr n, w')"
    using assms(1) by (auto simp: cleanup_sessions_def elim!: bind_InrE now_InrE dest!: guard_auth_no_value)
  from tr have d: "delete_expired limit apply_changes ?t (joined_db w) = (Inr n, joined_db w')"
    by (elim auth_transaction_InrE) (simp add: w1)
  define gone where "gone = ?gone"
  have sub: "set gone \<subseteq> set (aw_sessions w)"
    and dead: "\<forall>s\<in>set gone. ss_revoked_at s \<noteq> None \<or> ss_expires_at s \<le> ?t"
    and lim: "length gone \<le> limit"
    unfolding gone_def by (auto dest!: in_set_takeD)
  have ids: "expired_sessions limit ?t (joined_db w) = map ss_id gone"
    by (simp add: expired_sessions_def joined_db_def gone_def)
  have keep: "s \<in> set gone \<longleftrightarrow> ss_id s \<in> ss_id ` set gone" if "s \<in> set (aw_sessions w)" for s
    using that sub unique_session [OF assms(2) that] by blast
  have r: "n = length gone" "ab_operators (joined_db w') = ab_operators (joined_db w)"
    "ab_sessions (joined_db w') = (if gone \<noteq> [] \<and> apply_changes
       then filter (\<lambda>s. ss_id s \<notin> ss_id ` set gone) (ab_sessions (joined_db w)) else ab_sessions (joined_db w))"
    using d [symmetric] by (auto simp: delete_expired_def bindE_def getE_def modifyE_def returnE_def ids split: if_splits)
  have j: "ab_sessions (joined_db v) = aw_sessions v" "ab_operators (joined_db v) = aw_operators v" for v
    by (simp_all add: joined_db_def)
  have "set (aw_sessions w') = set (aw_sessions w) - (if apply_changes then set gone else {})"
    using keep by (auto simp: r(3) [unfolded j])
  with r [unfolded j] sub dead lim show ?thesis by (intro exI [of _ gone]) simp
qed

section \<open>A logout is final\<close>

definition dead_token :: "ustring \<Rightarrow> auth_db \<Rightarrow> bool" where
  "dead_token h d \<longleftrightarrow> (\<forall>s\<in>set (ab_sessions d). ss_token_hash s = h \<longrightarrow> ss_revoked_at s \<noteq> None)"

definition dead_since :: "ustring \<Rightarrow> nat \<Rightarrow> auth_world \<Rightarrow> bool" where
  "dead_since h n w \<longleftrightarrow> n \<le> w_tick (aw_world w) \<and> dead_token h (joined_db w)"

text \<open>Inside a transaction: nothing revives a session, and a new one has another hash.\<close>

lemma dead_update:
  assumes "\<And>s. ss_token_hash (f s) = ss_token_hash s"
    and "\<And>s. ss_revoked_at s \<noteq> None \<Longrightarrow> ss_revoked_at (f s) \<noteq> None"
  shows "keeps (dead_token h) (update_session i f)"
  using assms by (auto simp: keeps_def dead_token_def update_row_def)

lemma dead_steps [keeps_intro]:
  "keeps (dead_token h) (update_operator i g)"
  "keeps (dead_token h) (update_session i (\<lambda>s. s\<lparr>ss_revoked_at := Some t\<rparr>))"
  "keeps (dead_token h) (update_session i (\<lambda>s. s\<lparr>ss_last_seen_at := t\<rparr>))"
  "keeps (dead_token h) (on_db m)" "keeps (dead_token h) (insert_operator r)"
proof -
  show "keeps (dead_token h) (update_session i (\<lambda>s. s\<lparr>ss_revoked_at := Some t\<rparr>))"
    "keeps (dead_token h) (update_session i (\<lambda>s. s\<lparr>ss_last_seen_at := t\<rparr>))"
    by (intro dead_update; simp)+
qed (auto simp: keeps_def dead_token_def on_db_def insert_operator_def prog_defs split: prod.split)

lemma dead_insert: "ss_token_hash r \<noteq> h \<Longrightarrow> keeps (dead_token h) (insert_session r)"
  by (auto simp: keeps_def dead_token_def insert_session_def prog_defs)

lemma dead_revoke [keeps_intro]: "keeps (dead_token h) (revoke_previous ae t previous)"
  unfolding revoke_previous_def by (auto intro!: keeps_intro split: option.split)

lemma dead_open:
  assumes "ae_sha256 ae raw_token \<noteq> h"
  shows "keeps (dead_token h) (open_session ae st i p previous raw_token t s e ea nh)"
  using assms unfolding open_session_def refresh_hash_def
  by (auto intro!: keeps_intro dead_insert split: option.split)

lemma dead_bodies:
  "keeps (dead_token h) (check_session ae st raw_token t)" "keeps (dead_token h) (revoke_session ae raw_token t a)"
  "keeps (dead_token h) (delete_expired limit b t)"
proof -
  show "keeps (dead_token h) (check_session ae st raw_token t)"
    unfolding check_session_def Let_def by (auto intro!: keeps_intro split: option.split)
  show "keeps (dead_token h) (revoke_session ae raw_token t a)"
    unfolding revoke_session_def by (auto intro!: keeps_intro split: option.split)
  show "keeps (dead_token h) (delete_expired limit b t)"
    unfolding delete_expired_def
    by (auto intro!: keeps_intro keeps_modify simp: dead_token_def)
qed

text \<open>Outside: the tick only grows.\<close>

lemma dead_tick: "keeps (dead_since h n) (auth_tick f)"
  by (simp add: keeps_def auth_tick_run dead_since_def joined_db_def dead_token_def)

lemma dead_world:
  assumes "\<And>k. keeps (\<lambda>w. k \<le> w_tick w) m"
  shows "keeps (dead_since h n) (on_world m)"
  unfolding keeps_def
proof (intro allI impI)
  fix w assume w: "dead_since h n w"
  have "n \<le> w_tick (snd (m (aw_world w)))"
    using keepsD [OF assms, of n "aw_world w"] w by (simp add: dead_since_def)
  with w show "dead_since h n (snd (on_world m w))"
    by (auto simp: dead_since_def on_world_def joined_db_def dead_token_def split: prod.splits)
qed

lemma tick_grows:
  "keeps (\<lambda>w. k \<le> w_tick w) (new_id env)" "keeps (\<lambda>w. k \<le> w_tick w) (now env)"
  "keeps (\<lambda>w. k \<le> w_tick w) (audit_append env q)"
proof -
  show n: "keeps (\<lambda>w. k \<le> w_tick w) (new_id env)" "keeps (\<lambda>w. k \<le> w_tick w) (now env)"
    by (simp_all add: keeps_def new_id_run now_run)
  have "keeps (\<lambda>w. k \<le> w_tick w) (transaction env m)" for m :: "(db, exn, unit) prog"
    by (auto simp: keeps_def transaction_run Let_def split: sum.split)
  then show "keeps (\<lambda>w. k \<le> w_tick w) (audit_append env q)"
    unfolding audit_append_def by (intro keeps_intro n) (auto split: if_splits intro: keeps_intro)
qed

lemma dead_transaction:
  assumes "keeps (dead_token h) m"
  shows "keeps (dead_since h n) (auth_transaction env m)"
  unfolding keeps_def
proof (intro allI impI)
  fix w assume w: "dead_since h n w"
  then have "dead_token h (snd (m (joined_db w)))" using keepsD [OF assms] by (simp add: dead_since_def)
  with w show "dead_since h n (snd (auth_transaction env m w))"
    by (auto simp: auth_transaction_def Let_def dead_since_def committed_def joined_db_def dead_token_def
        split: prod.splits sum.splits)
qed

lemma dead_guard: "guard_auth e = Some k \<Longrightarrow> keeps I k"
  by (auto simp: guard_auth_def intro: keeps_intro split: if_splits)

text \<open>From here on a call with its handler is one step, proved by its own lemma.\<close>

declare keeps_catch [keeps_intro del]

lemma dead_guarded: "keeps I m \<Longrightarrow> keeps I (catchE m guard_auth)"
  by (rule keeps_catch) (auto dest: dead_guard)

lemma dead_calls [keeps_intro]:
  "keeps (dead_since h n) (auth_tick f)" "keeps (dead_since h n) (on_world (new_id env))"
  "keeps (dead_since h n) (on_world (now env))" "keeps (dead_since h n) (on_world (audit_append env q))"
  "keeps (dead_since h n) (auth_query env g)" "keeps (dead_since h n) (limiter_check ae st a c)"
  "keeps (dead_since h n) (limiter_failure ae a c)" "keeps (dead_since h n) (limiter_clear ae c)"
proof -
  show "keeps (dead_since h n) (auth_query env g)"
    by (auto simp: keeps_def auth_query_def Let_def dead_since_def joined_db_def dead_token_def)
  show "keeps (dead_since h n) (limiter_check ae st a c)"
    by (auto simp: keeps_def limiter_check_def bindE_def auth_tick_run dead_since_def joined_db_def dead_token_def
        split: prod.split)
  show "keeps (dead_since h n) (limiter_failure ae a c)" "keeps (dead_since h n) (limiter_clear ae c)"
    by (auto simp: keeps_def limiter_failure_def limiter_clear_def bindE_def auth_tick_run modifyE_def
        dead_since_def joined_db_def dead_token_def)
qed (intro dead_tick dead_world tick_grows)+

lemma dead_failed_login [keeps_intro]: "keeps (dead_since h n) (record_failed_login ae r)"
  unfolding record_failed_login_def
  by (rule keeps_catch [OF dead_calls(4)]) (auto intro: keeps_intro split: if_splits)

lemma dead_reject [keeps_intro]: "keeps (dead_since h n) (reject_credentials ae a c)"
  unfolding reject_credentials_def by (intro keeps_intro)

lemma dead_start:
  assumes "\<And>k. n \<le> k \<Longrightarrow> ae_sha256 ae (ae_token ae k) \<noteq> h"
  shows "keeps (dead_since h n) (start_session ae st op c p previous)"
  unfolding keeps_def
proof (intro allI impI)
  fix w assume w: "dead_since h n w"
  let ?token = "ae_token ae (w_tick (aw_world w))"
  let ?rest = "\<lambda>raw_token. bindE (on_world (now (ae_env ae))) (\<lambda>t.
     bindE (on_world (new_id (ae_env ae))) (\<lambda>session_id.
     bindE (auth_tick (\<lambda>k. ae_hash ae k p)) (\<lambda>new_hash.
     bindE (on_world (new_id (ae_env ae))) (\<lambda>event_id.
     bindE (on_world (now (ae_env ae))) (\<lambda>event_at.
     bindE (catchE (auth_transaction (ae_env ae)
         (open_session ae st (op_id op) p previous raw_token t session_id event_id event_at new_hash))
        guard_auth) (\<lambda>_.
     bindE (limiter_clear ae c) (\<lambda>_.
     returnE \<lparr>lr_authenticated = True,
       lr_principal = Some \<lparr>pr_user_id = op_id op, pr_username = c, pr_role = OPERATOR_ROLE,
         pr_session_id = session_id, pr_csrf_token = ae_hmac ae raw_token\<rparr>,
       lr_session_token = Some raw_token, lr_rate_limited = False\<rparr>)))))))"
  have "ae_sha256 ae ?token \<noteq> h" using assms w by (simp add: dead_since_def)
  then have tr: "keeps (dead_since h n) (catchE (auth_transaction (ae_env ae)
      (open_session ae st (op_id op) p previous ?token t s e ea nh)) guard_auth)" for t s e ea nh
    by (intro dead_guarded dead_transaction dead_open)
  have rest: "keeps (dead_since h n) (?rest ?token)"
    by (intro keeps_bind keeps_return dead_calls tr)
  have "start_session ae st op c p previous w = ?rest ?token (snd (auth_tick (ae_token ae) w))"
    by (simp add: start_session_def bindE_def [of "auth_tick (ae_token ae)"] auth_tick_run)
  with keepsD [OF rest keepsD [OF dead_tick w]]
  show "dead_since h n (snd (start_session ae st op c p previous w))" by simp
qed

lemma dead_login:
  assumes "\<And>k. n \<le> k \<Longrightarrow> ae_sha256 ae (ae_token ae k) \<noteq> h"
  shows "keeps (dead_since h n) (login ae st name p a previous)"
proof -
  have "keeps (dead_since h n) (find_login ae v c)" for v c
    unfolding find_login_def
    by (cases v) (simp_all only: if_True if_False, rule dead_guarded, (rule keeps_intro)+)
  moreover have "keeps (dead_since h n) (finish_login ae st c p a previous candidate)" for c candidate
    unfolding finish_login_def by (auto intro!: keeps_intro dead_start assms split: option.split)
  ultimately show ?thesis
    unfolding login_def Let_def by (auto intro!: keeps_intro split: prod.split)
qed

lemma dead_operations:
  "keeps (dead_since h n) (authenticate ae st supplied)" "keeps (dead_since h n) (logout ae supplied who)"
  "keeps (dead_since h n) (cleanup_sessions ae limit b)" "keeps (dead_since h n) (create_operator ae name p)"
proof -
  have "keeps (dead_since h n) (catchE (auth_transaction (ae_env ae) (check_session ae st raw_token t))
     (\<lambda>e. if is_database_error e \<or> is_value_error e then Some (raiseE AuthenticationPersistenceError) else None))"
    for raw_token t
    by (rule keeps_catch [OF dead_transaction [OF dead_bodies(1)]]) (auto intro: keeps_intro split: if_splits)
  then show "keeps (dead_since h n) (authenticate ae st supplied)"
    unfolding authenticate_def by (auto intro!: keeps_intro split: option.split)
  have audit: "keeps (dead_since h n) (catchE (on_world (audit_append (ae_env ae) q))
     (\<lambda>e. if e = AuditPersistenceError then Some (returnE ()) else None))" for q
    by (rule keeps_catch [OF dead_calls(4)]) (auto intro: keeps_intro split: if_splits)
  have "keeps (dead_since h n) (catchE (auth_transaction (ae_env ae) (revoke_session ae raw_token t a)) guard_auth)"
    for raw_token t a by (intro dead_guarded dead_transaction dead_bodies)
  with audit show "keeps (dead_since h n) (logout ae supplied who)"
    unfolding logout_def by (auto intro!: keeps_intro split: option.split)
  have "keeps (dead_since h n) (catchE (auth_transaction (ae_env ae) (delete_expired limit b t)) guard_auth)"
    for t by (intro dead_guarded dead_transaction dead_bodies)
  then show "keeps (dead_since h n) (cleanup_sessions ae limit b)"
    unfolding cleanup_sessions_def by (auto intro!: keeps_intro)
  have "keeps (dead_since h n) (catchE (auth_transaction (ae_env ae) (insert_operator r))
     (\<lambda>e. if e = IntegrityError then Some (raiseE DuplicateOperatorError)
          else if is_database_error e then Some (raiseE AuthenticationPersistenceError) else None))" for r
    by (rule keeps_catch [OF dead_transaction [OF dead_steps(5)]]) (auto intro: keeps_intro split: if_splits)
  then show "keeps (dead_since h n) (create_operator ae name p)"
    unfolding create_operator_def Let_def by (auto intro!: keeps_intro split: sum.split)
qed

text \<open>One call of the service, or a step of the rest of the program, which leaves its tables
  alone; and any sequence of them.\<close>

inductive auth_step :: "auth_env \<Rightarrow> auth_settings \<Rightarrow> auth_world \<Rightarrow> auth_world \<Rightarrow> bool"
  for ae :: auth_env and st :: auth_settings where
  logging_in: "auth_step ae st w (snd (login ae st name p a previous w))"
| authenticating: "auth_step ae st w (snd (authenticate ae st supplied w))"
| logging_out: "auth_step ae st w (snd (logout ae supplied who w))"
| cleaning: "auth_step ae st w (snd (cleanup_sessions ae limit b w))"
| creating: "auth_step ae st w (snd (create_operator ae name p w))"
| elsewhere: "w_tick (aw_world w) \<le> w_tick v \<Longrightarrow> auth_step ae st w (w\<lparr>aw_world := v\<rparr>)"

inductive_cases auth_stepE: "auth_step ae st w w'"

inductive auth_history :: "auth_env \<Rightarrow> auth_settings \<Rightarrow> auth_world \<Rightarrow> auth_world \<Rightarrow> bool"
  for ae :: auth_env and st :: auth_settings where
  start: "auth_history ae st w w"
| more: "auth_history ae st w w' \<Longrightarrow> auth_step ae st w' w'' \<Longrightarrow> auth_history ae st w w''"

lemma history_dead:
  assumes "auth_history ae st w w'" "dead_since h n w"
    and "\<And>k. n \<le> k \<Longrightarrow> ae_sha256 ae (ae_token ae k) \<noteq> h"
  shows "dead_since h n w'"
  using assms(1,2)
proof (induction rule: auth_history.induct)
  case (more w w' w'')
  then have d: "dead_since h n w'" by simp
  from more.hyps(2) show ?case
  proof (cases rule: auth_step.cases)
    case (elsewhere v)
    with d show ?thesis by (simp add: dead_since_def joined_db_def dead_token_def)
  qed (use keepsD [OF dead_login [OF assms(3)] d] keepsD [OF dead_operations(1) d]
      keepsD [OF dead_operations(2) d] keepsD [OF dead_operations(3) d]
      keepsD [OF dead_operations(4) d] in simp_all)
qed

text \<open>What a logout leaves: no session of the token that is not revoked.\<close>

lemma revoke_kills:
  assumes "revoke_session ae raw_token t a d = (Inr x, d')" and "sessions_ok (ab_sessions d)"
  shows "dead_token (ae_sha256 ae raw_token) d'"
proof (cases "find_session (ae_sha256 ae raw_token) d")
  case None
  with assms(1) have "d' = d" by (simp add: revoke_session_def bindE_def getE_def returnE_def)
  with None show ?thesis by (auto simp: dead_token_def find_session_def find_None_iff)
next
  case (Some s)
  then have s: "s \<in> set (ab_sessions d)" "ss_token_hash s = ae_sha256 ae raw_token"
    by (auto simp: find_session_def find_Some_iff)
  have only: "y = s" if "y \<in> set (ab_sessions d)" "ss_token_hash y = ae_sha256 ae raw_token" for y
    using unique_session [OF assms(2) that(1) s(1)] that(2) s(2) by simp
  show ?thesis
  proof (cases "ss_revoked_at s")
    case None
    with assms(1) Some show ?thesis
      by (auto simp: revoke_session_def bindE_def getE_def returnE_def dead_token_def update_row_def dest: only)
  next
    case (Some b)
    with assms(1) \<open>find_session _ d = Some s\<close> have "d' = d"
      by (simp add: revoke_session_def bindE_def getE_def returnE_def)
    with only Some show ?thesis unfolding dead_token_def by fastforce
  qed
qed

lemma logout_kills:
  assumes "logout ae (Some raw_token) who w = (Inr x, w1)" "sessions_ok (aw_sessions w)" "valid_token raw_token"
  shows "dead_token (ae_sha256 ae raw_token) (joined_db w1)"
proof -
  from assms(1,3) obtain t wa actor wb where t: "on_world (now (ae_env ae)) w = (Inr t, wa)"
    and r: "catchE (auth_transaction (ae_env ae) (revoke_session ae raw_token t (map_option pr_user_id who)))
      guard_auth wa = (Inr actor, wb)"
    and rest: "(case actor of None \<Rightarrow> returnE ()
          | Some i \<Rightarrow> catchE (on_world (audit_append (ae_env ae) (audit_request_of AUTH_LOGOUT None AO_SUCCESS
                \<lparr>aq_actor_type := OPERATOR, aq_actor_id := Some i\<rparr>)))
              (\<lambda>e. if e = AuditPersistenceError then Some (returnE ()) else None)) wb = (Inr x, w1)"
    by (auto simp: logout_def elim!: bind_InrE)
  from t have "joined_db wa = joined_db w" by (rule now_InrE)
  with auth_transaction_InrE [OF guard_auth_no_value [OF r]]
  have "revoke_session ae raw_token t (map_option pr_user_id who) (joined_db w) = (Inr actor, joined_db wb)"
    by metis
  from revoke_kills [OF this] assms(2) have "dead_token (ae_sha256 ae raw_token) (joined_db wb)"
    by (simp add: joined_db_def)
  moreover have "aw_sessions w1 = aw_sessions wb"
    using rest by (auto simp: catchE_def on_world_def returnE_def split: option.splits prod.splits sum.splits if_splits)
  ultimately show ?thesis by (simp add: dead_token_def joined_db_def)
qed

lemma dead_authenticates_nobody:
  assumes "authenticate ae st (Some raw_token) w = (Inr p, w')"
    and "valid_token raw_token \<Longrightarrow> dead_token (ae_sha256 ae raw_token) (joined_db w)"
  shows "p = None"
proof (rule ccontr)
  assume "p \<noteq> None"
  then obtain q where q: "p = Some q" by blast
  with assms(1) obtain t w1 d where v: "valid_token raw_token" and "joined_db w1 = joined_db w"
    and "check_session ae st raw_token t (joined_db w1) = (Inr (Some q), d)"
    by (auto simp: authenticate_def raiseE_def elim!: bind_InrE now_InrE catch_InrE auth_transaction_InrE
        split: if_splits)
  then have "check_session ae st raw_token t (joined_db w) = (Inr (Some q), d)" by simp
  then show False
    using assms(2) [OF v] by (elim check_session_value) (auto simp: session_invalid_def dead_token_def)
qed

text \<open>C20. A logout is final: after a logout that returned, the token authenticates nobody ever
  again, after any history of logins, authentications, logouts, cleanups, new operators and
  steps of the rest of the program, provided no later token happens to have the same hash.\<close>

theorem logout_is_final:
  assumes "logout ae (Some raw_token) who w = (Inr x, w1)" and "sessions_ok (aw_sessions w)"
    and "auth_history ae st w1 w2" and "authenticate ae st (Some raw_token) w2 = (Inr p, w3)"
    and "\<And>k. w_tick (aw_world w1) \<le> k \<Longrightarrow> ae_sha256 ae (ae_token ae k) \<noteq> ae_sha256 ae raw_token"
  shows "p = None"
proof (rule dead_authenticates_nobody [OF assms(4)])
  assume "valid_token raw_token"
  from logout_kills [OF assms(1,2) this] have "dead_since (ae_sha256 ae raw_token) (w_tick (aw_world w1)) w1"
    by (simp add: dead_since_def)
  from history_dead [OF assms(3) this assms(5)] show "dead_token (ae_sha256 ae raw_token) (joined_db w2)"
    by (simp add: dead_since_def)
qed

section \<open>A concrete service\<close>

definition sample_auth_env :: auth_env where
  "sample_auth_env = \<lparr>ae_env = quiet_env, ae_monotonic = of_nat, ae_token = (\<lambda>_. replicate 43 65),
     ae_sha256 = (\<lambda>s. s), ae_hmac = rev, ae_casefold = (\<lambda>s. s),
     ae_verify = (\<lambda>h p. h = ''stored'' \<and> length p = 12), ae_hash = (\<lambda>_ _. ''stored''),
     ae_needs_rehash = (\<lambda>_. False)\<rparr>"

definition sample_auth_settings :: auth_settings where
  "sample_auth_settings = \<lparr>as_absolute_seconds = 28800, as_inactivity_seconds = 1800,
     as_refresh_seconds = 60, as_per_minute = 5, as_per_hour = 20\<rparr>"

definition sample_user :: operator_user where
  "sample_user = \<lparr>op_id = ''1'', op_username = [97], op_password_hash = ''stored'',
     op_role = ''OPERATOR'', op_is_active = True, op_last_login_at = None\<rparr>"

definition sample_session :: server_session where
  "sample_session = \<lparr>ss_id = ''2'', ss_user_id = ''1'', ss_token_hash = replicate 43 66,
     ss_csrf_token_hash = replicate 43 66, ss_expires_at = 28800000000, ss_last_seen_at = 0,
     ss_revoked_at = None\<rparr>"

definition sample_auth_world :: auth_world where
  "sample_auth_world = \<lparr>aw_world = empty_world, aw_operators = [sample_user],
     aw_sessions = [sample_session], aw_attempts = []\<rparr>"

lemma sample_sessions_ok: "sessions_ok (aw_sessions sample_auth_world)"
  by (simp add: sample_auth_world_def sessions_ok_def)

definition value_where :: "('a \<Rightarrow> bool) \<Rightarrow> (exn + 'a) \<times> auth_world \<Rightarrow> bool" where
  "value_where f r = (case fst r of Inl _ \<Rightarrow> False | Inr x \<Rightarrow> f x)"

lemma value_where_run: "value_where f r \<Longrightarrow> \<exists>x w'. r = (Inr x, w') \<and> f x"
  by (cases r) (auto simp: value_where_def split: sum.splits)

lemma sample_authenticates:
  "\<exists>p w'. authenticate sample_auth_env sample_auth_settings (Some (replicate 43 66)) sample_auth_world =
     (Inr (Some p), w')"
proof -
  have "value_where (\<lambda>p. \<not> Option.is_none p)
      (authenticate sample_auth_env sample_auth_settings (Some (replicate 43 66)) sample_auth_world)"
    by code_simp
  from value_where_run [OF this] show ?thesis by (auto simp: Option.is_none_def)
qed

lemma sample_name: "normalize_username (ae_casefold sample_auth_env) [97] = Inr [97]"
  by (simp add: sample_auth_env_def normalize_username_def strip_def is_space_def username_ok_def
      username_char_def Let_def)

text \<open>The two parts of a login evaluate separately: the throttle, and what follows it.\<close>

lemma sample_limit:
  "limiter_check sample_auth_env sample_auth_settings [] [97] sample_auth_world =
     (Inr True, sample_auth_world\<lparr>aw_world := empty_world\<lparr>w_tick := Suc 0\<rparr>\<rparr>)"
  "limiter_check sample_auth_env (sample_auth_settings\<lparr>as_per_minute := 0\<rparr>) [] [97] sample_auth_world =
     (Inr False, sample_auth_world\<lparr>aw_world := empty_world\<lparr>w_tick := Suc 0\<rparr>\<rparr>)"
  by (simp_all add: limiter_check_def bindE_def auth_tick_run check_login_def prune_def key_allowed_def
      login_keys_def attempts_of_def sample_auth_env_def sample_auth_settings_def sample_auth_world_def
      empty_world_def)

lemma sample_throttled:
  "\<exists>r w'. login sample_auth_env (sample_auth_settings\<lparr>as_per_minute := 0\<rparr>) [97] (replicate 12 97) [] None
     sample_auth_world = (Inr r, w') \<and> \<not> lr_authenticated r"
proof -
  have "value_where (\<lambda>r. \<not> lr_authenticated r) (bindE (record_failed_login sample_auth_env ''RATE_LIMITED'')
     (\<lambda>_. returnE (rejected_login True)) (sample_auth_world\<lparr>aw_world := empty_world\<lparr>w_tick := Suc 0\<rparr>\<rparr>))"
    by code_simp
  from value_where_run [OF this] show ?thesis
    by (simp add: login_def sample_name sample_limit bindE_def [of "limiter_check _ _ _ _"])
qed

lemma sample_login:
  "\<exists>r w'. login sample_auth_env sample_auth_settings [97] (replicate 12 97) [] None sample_auth_world =
     (Inr r, w') \<and> lr_authenticated r"
proof -
  have "value_where lr_authenticated (start_session sample_auth_env sample_auth_settings sample_user [97]
     (replicate 12 97) None (sample_auth_world\<lparr>aw_world := empty_world\<lparr>w_tick := 2\<rparr>\<rparr>))"
    by code_simp
  from value_where_run [OF this] obtain r w' where r: "start_session sample_auth_env sample_auth_settings
     sample_user [97] (replicate 12 97) None (sample_auth_world\<lparr>aw_world := empty_world\<lparr>w_tick := 2\<rparr>\<rparr>) =
     (Inr r, w')" "lr_authenticated r" by blast
  have "find_login sample_auth_env True [97] (sample_auth_world\<lparr>aw_world := empty_world\<lparr>w_tick := Suc 0\<rparr>\<rparr>)
     = (Inr (Some sample_user), sample_auth_world\<lparr>aw_world := empty_world\<lparr>w_tick := 2\<rparr>\<rparr>)"
    by (simp add: find_login_def catchE_def auth_query_def find_operator_def joined_db_def sample_auth_env_def
        quiet_env_def sample_auth_world_def sample_user_def empty_world_def Let_def)
  moreover have "verified_login sample_auth_env (replicate 12 97) sample_user" "op_is_active sample_user"
    by (simp_all add: verified_login_def sample_auth_env_def sample_user_def MAX_PASSWORD_LENGTH_def)
  ultimately show ?thesis
    by (simp add: login_def sample_name sample_limit bindE_def finish_login_def r)
qed

lemma sample_cleanup:
  "\<exists>n w'. cleanup_sessions sample_auth_env 10 True sample_auth_world = (Inr n, w') \<and> n = 0"
  "\<exists>x w'. logout sample_auth_env (Some (replicate 43 66)) None sample_auth_world = (Inr x, w') \<and> x = ()"
  by (rule value_where_run, code_simp)+

theorem authenticated_session_is_live_witness:
  "\<exists>p w'. authenticate sample_auth_env sample_auth_settings (Some (replicate 43 66)) sample_auth_world =
      (Inr (Some p), w') \<and> (\<exists>s\<in>set (aw_sessions sample_auth_world). ss_revoked_at s = None \<and> pr_session_id p = ss_id s)"
proof -
  obtain p w' where "authenticate sample_auth_env sample_auth_settings (Some (replicate 43 66)) sample_auth_world =
      (Inr (Some p), w')" using sample_authenticates by blast
  from this authenticated_session_is_live [OF this] show ?thesis by (auto simp: Let_def)
qed

theorem login_opens_verified_session_witness:
  "\<exists>r w'. login sample_auth_env sample_auth_settings [97] (replicate 12 97) [] None sample_auth_world = (Inr r, w') \<and>
     length (aw_sessions w') = 2"
proof -
  obtain r w' where "login sample_auth_env sample_auth_settings [97] (replicate 12 97) [] None
      sample_auth_world = (Inr r, w')" "lr_authenticated r" using sample_login by blast
  from this(1) login_opens_verified_session [OF this sample_sessions_ok] show ?thesis
    by (auto simp: revoked_sessions_def sample_auth_world_def)
qed

theorem rejected_login_creates_nothing_witness:
  "\<exists>r w'. login sample_auth_env (sample_auth_settings\<lparr>as_per_minute := 0\<rparr>) [97] (replicate 12 97) [] None
     sample_auth_world = (Inr r, w') \<and> aw_sessions w' = [sample_session]"
proof -
  obtain r w' where "login sample_auth_env (sample_auth_settings\<lparr>as_per_minute := 0\<rparr>) [97] (replicate 12 97) []
      None sample_auth_world = (Inr r, w')" "\<not> lr_authenticated r" using sample_throttled by blast
  from this(1) rejected_login_creates_nothing [OF this] show ?thesis by (auto simp: sample_auth_world_def)
qed

theorem cleanup_removes_dead_sessions_witness:
  "\<exists>w'. cleanup_sessions sample_auth_env 10 True sample_auth_world = (Inr 0, w') \<and>
     set (aw_sessions w') = {sample_session}"
proof -
  obtain w' where "cleanup_sessions sample_auth_env 10 True sample_auth_world = (Inr 0, w')"
    using sample_cleanup(1) by blast
  from this cleanup_removes_dead_sessions [OF this sample_sessions_ok] show ?thesis
    by (auto simp: sample_auth_world_def)
qed

lemma other_hash: "ae_sha256 sample_auth_env (ae_token sample_auth_env k) \<noteq> ae_sha256 sample_auth_env (replicate 43 66)"
  by (simp add: sample_auth_env_def)

theorem logout_is_final_witness:
  "\<exists>w1. logout sample_auth_env (Some (replicate 43 66)) None sample_auth_world = (Inr (), w1) \<and>
     fst (authenticate sample_auth_env sample_auth_settings (Some (replicate 43 66)) w1) \<in> {Inr None} \<union> range Inl"
proof -
  obtain w1 where l: "logout sample_auth_env (Some (replicate 43 66)) None sample_auth_world = (Inr (), w1)"
    using sample_cleanup(2) by blast
  have "p = None" if "authenticate sample_auth_env sample_auth_settings (Some (replicate 43 66)) w1 = (Inr p, w3)" for p w3
    by (rule logout_is_final [OF l sample_sessions_ok auth_history.start that other_hash])
  then have "fst (authenticate sample_auth_env sample_auth_settings (Some (replicate 43 66)) w1) \<in> {Inr None} \<union> range Inl"
    by (cases "authenticate sample_auth_env sample_auth_settings (Some (replicate 43 66)) w1" rule: prod.exhaust)
      (metis UnCI insertI1 old.sum.exhaust prod.sel(1) rangeI)
  with l show ?thesis by blast
qed

end
