(* ===== verification/Name_Security.thy ===== *)
theory Name_Security
  imports Domain
begin

text \<open>
  The worker's view of a document's name: \<open>worker/analyzers/name_security.py\<close>. Unicode case
  folding is a parameter; what the lemmas need of it is that it maps each character to a
  piece of its own and never produces or consumes a full stop.
\<close>

definition DANGEROUS_EXTENSIONS :: "ustring list" where
  "DANGEROUS_EXTENSIONS = map u [''bat'', ''cmd'', ''com'', ''cpl'', ''dll'', ''exe'', ''hta'', ''jar'',
     ''js'', ''jse'', ''lnk'', ''msi'', ''pif'', ''ps1'', ''scr'', ''vbe'', ''vbs'', ''wsf'', ''wsh'']"

definition BUSINESS_EXTENSIONS :: "ustring list" where
  "BUSINESS_EXTENSIONS = map u [''csv'', ''doc'', ''docm'', ''docx'', ''odp'', ''ods'', ''odt'', ''pdf'',
     ''ppt'', ''pptm'', ''pptx'', ''rtf'', ''txt'', ''xls'', ''xlsm'', ''xlsx'']"

definition BIDI_CONTROLS :: "nat list" where
  "BIDI_CONTROLS = [8206, 8207, 8234, 8235, 8236, 8237, 8238, 8294, 8295, 8296, 8297]"

definition basename_segments :: "(ustring \<Rightarrow> ustring) \<Rightarrow> ustring \<Rightarrow> ustring list" where
  "basename_segments casefold v = split_on 46 (casefold (path_name (replace_all 92 47 v)))"

definition final_extension :: "(ustring \<Rightarrow> ustring) \<Rightarrow> ustring \<Rightarrow> ustring option" where
  "final_extension casefold v =
     (let segments = basename_segments casefold v in
      if 1 < length segments then Some (last segments) else None)"

definition has_dangerous_double_extension :: "(ustring \<Rightarrow> ustring) \<Rightarrow> ustring \<Rightarrow> bool" where
  "has_dangerous_double_extension casefold v \<longleftrightarrow>
     (let segments = basename_segments casefold v in
      3 \<le> length segments \<and> last segments \<in> set DANGEROUS_EXTENSIONS \<and>
      list_ex (\<lambda>s. s \<in> set BUSINESS_EXTENSIONS) (butlast (tl segments)))"

text \<open>\<open>f"U+{ord(c):04X}"\<close>; every bidirectional control has four hexadecimal digits.\<close>

definition upper_hex4 :: "nat \<Rightarrow> ustring" where
  "upper_hex4 n = map (\<lambda>d. if d < 10 then 48 + d else 55 + d)
     [n div 4096 mod 16, n div 256 mod 16, n div 16 mod 16, n mod 16]"

definition bidi_codepoints :: "ustring \<Rightarrow> ustring list" where
  "bidi_codepoints v = take 16 (map (\<lambda>c. u ''U+'' @ upper_hex4 c) (filter (\<lambda>c. c \<in> set BIDI_CONTROLS) v))"

section \<open>What the extensions of a name are\<close>

definition keeps_dots :: "(ustring \<Rightarrow> ustring) \<Rightarrow> bool" where
  "keeps_dots casefold \<longleftrightarrow> (\<forall>s. split_on 46 (casefold s) = map casefold (split_on 46 s))"

lemma split_on_append: "split_on c (a @ c # b) = split_on c a @ split_on c b"
  by (induction a) (auto split: list.splits)

lemma split_on_free: "c \<notin> set s \<Longrightarrow> split_on c s = [s]"
  by (induction s) auto

lemma split_on_pieces: "p \<in> set (split_on c s) \<Longrightarrow> c \<notin> set p"
  by (induction s arbitrary: p) (auto split: if_splits list.splits)

lemma segments_join: "s = join [46] (split_on 46 s)"
  by simp

lemma length_split_on: "length (split_on c s) = Suc (length (filter (\<lambda>x. x = c) s))"
  by (induction s) (auto split: list.splits)

lemma last_split_on: "last (split_on c s) = rev (takeWhile (\<lambda>x. x \<noteq> c) (rev s))"
proof (cases "c \<in> set s")
  case False
  then have "takeWhile (\<lambda>x. x \<noteq> c) (rev s) = rev s" by (auto simp: takeWhile_eq_all_conv)
  then show ?thesis by (simp only: split_on_free [OF False] last_ConsL rev_rev_ident)
next
  case True
  then obtain a b where s: "s = a @ c # b" "c \<notin> set b" by (metis split_list_last)
  then have "takeWhile (\<lambda>x. x \<noteq> c) (rev b @ c # rev a) = rev b"
    by (subst takeWhile_append2) auto
  with s show ?thesis by (simp add: split_on_append split_on_free)
qed

text \<open>A double extension is what the name shows: a stem, a business extension, perhaps more
  segments, and a dangerous extension last.\<close>

lemma double_extension_iff:
  "has_dangerous_double_extension casefold v \<longleftrightarrow>
     (\<exists>stem middle more e. basename_segments casefold v = stem # middle @ [e] \<and> e \<in> set DANGEROUS_EXTENSIONS \<and>
        more \<in> set middle \<and> more \<in> set BUSINESS_EXTENSIONS)"
proof
  assume h: "has_dangerous_double_extension casefold v"
  then obtain stem rest where s: "basename_segments casefold v = stem # rest" "rest \<noteq> []"
    by (cases "basename_segments casefold v"; cases "tl (basename_segments casefold v)")
      (auto simp: has_dangerous_double_extension_def)
  with h show "\<exists>stem middle more e. basename_segments casefold v = stem # middle @ [e] \<and>
      e \<in> set DANGEROUS_EXTENSIONS \<and> more \<in> set middle \<and> more \<in> set BUSINESS_EXTENSIONS"
    unfolding has_dangerous_double_extension_def Let_def list_ex_iff
    by (metis append_butlast_last_id last_ConsR list.sel(3))
qed (auto simp: has_dangerous_double_extension_def list_ex_iff Let_def Suc_le_eq)

end
