(* ===== verification/Json_Bounds.thy ===== *)
theory Json_Bounds
  imports Json_Text
begin

text \<open>
  An upper bound of the UTF-8 size of a JSON text that adds up along the value, for the size
  checks on what the worker reports. It holds for values without lone surrogates and without
  non-finite floats.
\<close>

definition scalar :: "nat \<Rightarrow> bool" where
  "scalar c \<longleftrightarrow> c < 55296 \<or> 57344 \<le> c \<and> c < 1114112"

definition char_bytes :: "nat \<Rightarrow> nat" where
  "char_bytes c = (if c < 128 then 1 else if c < 2048 then 2 else if c < 65536 then 3 else 4)"

definition text_bytes :: "ustring \<Rightarrow> nat" where
  "text_bytes s = sum_list (map char_bytes s)"

lemma text_bytes_simps [simp]:
  "text_bytes [] = 0" "text_bytes (c # s) = char_bytes c + text_bytes s"
  "text_bytes (s @ t) = text_bytes s + text_bytes t"
  by (simp_all add: text_bytes_def)

lemma utf8_size_scalar: "list_all scalar s \<Longrightarrow> utf8_size s = Some (text_bytes s)"
proof -
  have "utf8_length c = Some (char_bytes c)" if "scalar c" for c
    using that by (auto simp: utf8_length_def char_bytes_def scalar_def)
  then show "list_all scalar s \<Longrightarrow> ?thesis"
    by (induction s) (auto simp: utf8_size_def text_bytes_def)
qed

lemma scalar_ascii: "list_all (\<lambda>c. c < 128) s \<Longrightarrow> list_all scalar s \<and> text_bytes s = length s"
  by (induction s) (auto simp: scalar_def char_bytes_def)

lemma scalar_u [simp]: "list_all scalar (u s)" and text_bytes_u: "text_bytes (u s) \<le> 2 * length s"
proof -
  have "scalar (of_char c)" "char_bytes (of_char c) \<le> 2" for c :: char
    using nat_of_char_less_256 [of c] by (auto simp: scalar_def char_bytes_def simp del: nat_of_char_less_256)
  then show "list_all scalar (u s)" "text_bytes (u s) \<le> 2 * length s"
    using add_mono [of "char_bytes (of_char _)" 2] by (induction s) (auto simp: u_def)
qed

section \<open>Strings\<close>

lemma hex4_bytes: "text_bytes (hex4 n) = 4" and hex4_scalar: "list_all scalar (hex4 n)"
proof -
  have d: "d mod 16 < (16::nat)" for d by simp
  have "char_bytes (if d mod 16 < 10 then 48 + d mod 16 else 87 + d mod 16) = 1"
    and "scalar (if d mod 16 < 10 then 48 + d mod 16 else 87 + d mod 16)" for d
    using d [of d] by (auto simp: char_bytes_def scalar_def)
  then show "text_bytes (hex4 n) = 4" "list_all scalar (hex4 n)"
    by (simp_all add: hex4_def text_bytes_def)
qed

definition quoted_bytes :: "ustring \<Rightarrow> nat" where
  "quoted_bytes s = 2 + sum_list (map (\<lambda>c. text_bytes (escape_char c)) s)"

lemma quote_bytes: "text_bytes (quote s) = quoted_bytes s"
proof -
  have "text_bytes (concat (map escape_char s)) = sum_list (map (\<lambda>c. text_bytes (escape_char c)) s)"
    by (induction s) simp_all
  then show ?thesis by (simp add: quote_def quoted_bytes_def char_bytes_def)
qed

lemma escape_char_scalar: "scalar c \<Longrightarrow> list_all scalar (escape_char c)"
  by (auto simp: escape_char_def hex4_scalar scalar_def)

lemma quote_scalar: "list_all scalar s \<Longrightarrow> list_all scalar (quote s)"
proof -
  have "scalar 34" by (simp add: scalar_def)
  then show "list_all scalar s \<Longrightarrow> ?thesis"
    using escape_char_scalar by (auto simp: quote_def list_all_iff)
qed

lemma escape_char_bytes: "text_bytes (escape_char c) \<le> 6"
  by (auto simp: escape_char_def char_bytes_def hex4_bytes)

text \<open>A character that is escaped neither by JSON nor by UTF-8 costs one byte.\<close>

definition plain_char :: "nat \<Rightarrow> bool" where
  "plain_char c \<longleftrightarrow> 32 \<le> c \<and> c < 127 \<and> c \<noteq> 34 \<and> c \<noteq> 92"

lemma quoted_bytes_le: "quoted_bytes s \<le> 2 + 6 * length s"
  unfolding quoted_bytes_def by (induction s) (use escape_char_bytes in \<open>auto intro: add_mono\<close>)

lemma quoted_bytes_plain: "list_all plain_char s \<Longrightarrow> quoted_bytes s = 2 + length s"
  unfolding quoted_bytes_def
  by (induction s) (auto simp: escape_char_def char_bytes_def plain_char_def)

section \<open>Values\<close>

primrec json_bound :: "json \<Rightarrow> nat" where
  "json_bound JNull = 4"
| "json_bound (JBool b) = 5"
| "json_bound (JInt i) = length (int_text i)"
| "json_bound (JFloat r) = (case r of None \<Rightarrow> 0 | Some t \<Rightarrow> 2 * length t)"
| "json_bound (JStr s) = quoted_bytes s"
| "json_bound (JList xs) = 2 + sum_list (map (\<lambda>x. Suc (json_bound x)) xs)"
| "json_bound (JObj kvs) = 2 + sum_list (map (\<lambda>(k, b). quoted_bytes k + b + 2)
     (map (map_prod (\<lambda>x. x) json_bound) kvs))"

primrec scalar_json :: "json \<Rightarrow> bool" where
  "scalar_json JNull = True"
| "scalar_json (JBool b) = True"
| "scalar_json (JInt i) = True"
| "scalar_json (JFloat r) = (r \<noteq> None)"
| "scalar_json (JStr s) = list_all scalar s"
| "scalar_json (JList xs) = list_all (\<lambda>b. b) (map scalar_json xs)"
| "scalar_json (JObj kvs) = list_all (\<lambda>(k, b). list_all scalar k \<and> b)
     (map (map_prod (\<lambda>x. x) scalar_json) kvs)"

lemma int_text_ascii: "list_all (\<lambda>c. c < 128) (int_text i)"
proof -
  have "list_all (\<lambda>c. c < 128) (digits n)" for n
  proof (induction n rule: digits.induct)
    case (1 n)
    show ?case
    proof (cases "n < 10")
      case False
      moreover have "n mod 10 < 10" by simp
      then have "48 + n mod 10 < (128::nat)" by linarith
      ultimately show ?thesis using 1 by (subst digits.simps) simp
    qed (simp add: digits.simps)
  qed
  then show ?thesis by (simp add: int_text_def)
qed

lemma join_scalar: "list_all (list_all scalar) ts \<Longrightarrow> list_all scalar (join [44] ts)"
  by (induction "[44::nat]" ts rule: join.induct) (auto simp: scalar_def)

lemma join_bytes: "text_bytes (join [44] ts) \<le> sum_list (map (\<lambda>t. Suc (text_bytes t)) ts)"
  by (induction "[44::nat]" ts rule: join.induct) (auto simp: char_bytes_def)

lemma all_some_pieces:
  assumes "\<And>x. x \<in> set xs \<Longrightarrow> \<exists>t. f x = Some t \<and> list_all scalar t \<and> text_bytes t \<le> b x"
  shows "\<exists>ts. all_some (map f xs) = Some ts \<and> list_all (list_all scalar) ts \<and>
    sum_list (map (\<lambda>t. Suc (text_bytes t)) ts) \<le> sum_list (map (\<lambda>x. Suc (b x)) xs)"
  using assms
proof (induction xs)
  case (Cons x xs)
  obtain t where t: "f x = Some t" "list_all scalar t" "text_bytes t \<le> b x" using Cons.prems [of x] by auto
  obtain ts where "all_some (map f xs) = Some ts" "list_all (list_all scalar) ts"
    "sum_list (map (\<lambda>t. Suc (text_bytes t)) ts) \<le> sum_list (map (\<lambda>x. Suc (b x)) xs)"
    using Cons.IH Cons.prems by auto
  with t show ?case by simp
qed simp

lemma object_text_bound:
  assumes "\<And>k v. (k, v) \<in> set kvs \<Longrightarrow> list_all scalar k \<and>
    (\<exists>t. json_text v = Some t \<and> list_all scalar t \<and> text_bytes t \<le> json_bound v)"
  shows "\<exists>t. json_text (JObj kvs) = Some t \<and> list_all scalar t \<and> text_bytes t \<le> json_bound (JObj kvs)"
proof -
  define pairs where "pairs = sort_key fst (map (map_prod (\<lambda>x. x) json_text) kvs)"
  define f where "f = (\<lambda>(k, t). map_option (\<lambda>t. quote k @ [58] @ t) t)"
  define b where "b p = quoted_bytes (fst p) + text_bytes (the (snd p)) + 1" for p :: "ustring \<times> ustring option"
  have "\<exists>t. f p = Some t \<and> list_all scalar t \<and> text_bytes t \<le> b p" if "p \<in> set pairs" for p
  proof -
    from that obtain k v where kv: "(k, v) \<in> set kvs" "p = (k, json_text v)" by (auto simp: pairs_def)
    with assms obtain t where "list_all scalar k" "json_text v = Some t" "list_all scalar t" by blast
    with kv(2) show ?thesis
      by (auto simp: f_def b_def quote_bytes quote_scalar char_bytes_def scalar_def [of 58])
  qed
  then obtain ts where ts: "all_some (map f pairs) = Some ts" "list_all (list_all scalar) ts"
    "sum_list (map (\<lambda>t. Suc (text_bytes t)) ts) \<le> sum_list (map (\<lambda>p. Suc (b p)) pairs)"
    using all_some_pieces [of pairs f b] by blast
  have "mset pairs = mset (map (map_prod (\<lambda>x. x) json_text) kvs)" by (simp add: pairs_def)
  then have "sum_list (map (\<lambda>p. Suc (b p)) pairs) =
      sum_list (map (\<lambda>p. Suc (b p)) (map (map_prod (\<lambda>x. x) json_text) kvs))"
    by (simp only: sum_mset_sum_list [symmetric] mset_map)
  also have "\<dots> \<le> sum_list (map (\<lambda>(k, v). quoted_bytes k + json_bound v + 2) kvs)"
    unfolding map_map
  proof (rule sum_list_mono)
    fix p assume p: "p \<in> set kvs"
    obtain k v where kv: "p = (k, v)" by fastforce
    with assms p obtain t where "json_text v = Some t" "text_bytes t \<le> json_bound v" by blast
    with kv show "((\<lambda>p. Suc (b p)) \<circ> map_prod (\<lambda>x. x) json_text) p
        \<le> (case p of (k, v) \<Rightarrow> quoted_bytes k + json_bound v + 2)" by (simp add: b_def)
  qed
  finally have "text_bytes (join [44] ts) \<le> sum_list (map (\<lambda>(k, v). quoted_bytes k + json_bound v + 2) kvs)"
    using ts(3) join_bytes [of ts] by linarith
  moreover have "json_bound (JObj kvs) = 2 + sum_list (map (\<lambda>(k, v). quoted_bytes k + json_bound v + 2) kvs)"
    by (simp add: comp_def case_prod_unfold)
  ultimately show ?thesis
    using ts(1) join_scalar [OF ts(2)]
    by (auto simp: object_text_def pairs_def f_def char_bytes_def scalar_def [of 123] scalar_def [of 125]
        simp del: json_bound.simps)
qed

lemma json_text_bound:
  "scalar_json j \<Longrightarrow> \<exists>t. json_text j = Some t \<and> list_all scalar t \<and> text_bytes t \<le> json_bound j"
proof (induction j)
  case (JInt i)
  show ?case using scalar_ascii [OF int_text_ascii] by simp
next
  case (JFloat r)
  then show ?case using text_bytes_u by auto
next
  case (JStr s)
  then show ?case by (simp add: quote_bytes quote_scalar)
next
  case (JList xs)
  then have "\<exists>t. json_text x = Some t \<and> list_all scalar t \<and> text_bytes t \<le> json_bound x" if "x \<in> set xs" for x
    using that by (auto simp: list_all_iff)
  then obtain ts where ts: "all_some (map json_text xs) = Some ts" "list_all (list_all scalar) ts"
    "sum_list (map (\<lambda>t. Suc (text_bytes t)) ts) \<le> sum_list (map (\<lambda>x. Suc (json_bound x)) xs)"
    using all_some_pieces [of xs json_text json_bound] by blast
  from join_scalar [OF ts(2)] join_bytes [of ts] ts(1,3) show ?case
    by (auto simp: char_bytes_def scalar_def [of 91] scalar_def [of 93])
next
  case (JObj kvs)
  show ?case
  proof (rule object_text_bound)
    fix k v assume kv: "(k, v) \<in> set kvs"
    with JObj.prems have "list_all scalar k" "scalar_json v" by (auto simp: list_all_iff)
    with JObj.IH [of "(k, v)" v] kv show "list_all scalar k \<and>
        (\<exists>t. json_text v = Some t \<and> list_all scalar t \<and> text_bytes t \<le> json_bound v)" by simp
  qed
qed (auto simp: u_def scalar_def char_bytes_def)

text \<open>The size the code measures is at most the bound.\<close>

lemma json_size_bound: "scalar_json j \<Longrightarrow> \<exists>n. json_size j = Some n \<and> n \<le> json_bound j"
  using json_text_bound utf8_size_scalar by (fastforce simp: json_size_def)

end
