(* ===== verification/File_Identity.thy ===== *)
theory File_Identity
  imports Name_Security Json_Bounds
begin

text \<open>
  What the worker says about a document from its name and its signature:
  \<open>worker/analyzers/file_type.py\<close> and \<open>worker/analyzers/filename.py\<close>. The \<open>file\<close> program, the
  decoding of its output and case folding are parameters.
\<close>

section \<open>Identification\<close>

datatype file_family = FF_PDF | FF_ZIP | FF_OOXML_CANDIDATE | FF_OLE_COMPOUND | FF_WINDOWS_EXECUTABLE
  | FF_TEXT | FF_UNKNOWN

primrec family_value :: "file_family \<Rightarrow> string" where
  "family_value FF_PDF = ''PDF''"
| "family_value FF_ZIP = ''ZIP''"
| "family_value FF_OOXML_CANDIDATE = ''OOXML_CANDIDATE''"
| "family_value FF_OLE_COMPOUND = ''OLE_COMPOUND''"
| "family_value FF_WINDOWS_EXECUTABLE = ''WINDOWS_EXECUTABLE''"
| "family_value FF_TEXT = ''TEXT''"
| "family_value FF_UNKNOWN = ''UNKNOWN''"

record file_identification =
  fi_mime :: ustring
  fi_family :: file_family
  fi_description :: ustring

definition identified_supported :: "file_identification \<Rightarrow> bool" where
  "identified_supported i \<longleftrightarrow> fi_family i \<noteq> FF_UNKNOWN"

definition MAX_DESCRIPTION_BYTES :: nat where "MAX_DESCRIPTION_BYTES = 2048"

text \<open>What running the program gives: it could not be run in time, or it ended with a status
  and an output. \<open>None\<close> is the \<open>IdentificationError\<close>.\<close>

datatype run_result = Run_Failed | Run_Exited int bytes

definition run_file ::
  "(ustring list \<Rightarrow> run_result) \<Rightarrow> (bytes \<Rightarrow> ustring) \<Rightarrow> ustring list \<Rightarrow> ustring option" where
  "run_file run decode arguments =
     (case run arguments of
        Run_Failed \<Rightarrow> None
      | Run_Exited status output \<Rightarrow>
        if status \<noteq> 0 then None
        else let text_out = strip (decode (take MAX_DESCRIPTION_BYTES output)) in
          if text_out = [] then None else Some text_out)"

definition classify :: "(ustring \<Rightarrow> ustring) \<Rightarrow> ustring \<Rightarrow> ustring \<Rightarrow> file_family" where
  "classify casefold mime description =
     (let m = casefold mime; d = casefold description in
      if m = u ''application/pdf'' \<or> contains (u ''pdf document'') d then FF_PDF
      else if m \<in> set (map u [''application/vnd.microsoft.portable-executable'', ''application/x-dosexec'']) \<or>
          list_ex (\<lambda>p. starts_with p d) (map u [''pe32'', ''pe '', ''ms-dos executable'']) then FF_WINDOWS_EXECUTABLE
      else if m \<in> set (map u [''application/msword'', ''application/encrypted'', ''application/vnd.ms-excel'',
            ''application/vnd.ms-powerpoint'', ''application/x-ole-storage'']) \<or>
          list_ex (\<lambda>p. contains p d) (map u [''composite document file'', ''cdfv2 '']) then FF_OLE_COMPOUND
      else if contains (u ''officedocument'') m \<or>
          list_ex (\<lambda>p. contains p d) (map u [''microsoft word 2007+'', ''microsoft excel 2007+'',
            ''microsoft powerpoint 2007+'']) then FF_OOXML_CANDIDATE
      else if m \<in> set (map u [''application/zip'', ''application/x-zip'']) \<or> contains (u ''zip archive'') d
      then FF_ZIP
      else if starts_with (u ''text/'') m \<or> ends_with (u '' text'') d then FF_TEXT
      else FF_UNKNOWN)"

definition identify_file ::
  "(ustring list \<Rightarrow> run_result) \<Rightarrow> (bytes \<Rightarrow> ustring) \<Rightarrow> (ustring \<Rightarrow> ustring) \<Rightarrow> ustring \<Rightarrow>
   file_identification option" where
  "identify_file run decode casefold sample_path =
     (case run_file run decode [u ''--brief'', u ''--mime-type'', u ''--'', sample_path] of
        None \<Rightarrow> None
      | Some mime \<Rightarrow>
        (case run_file run decode [u ''--brief'', u ''--'', sample_path] of
           None \<Rightarrow> None
         | Some description \<Rightarrow> Some \<lparr>fi_mime = mime, fi_family = classify casefold mime description,
             fi_description = description\<rparr>))"

section \<open>Findings about the name and the claims\<close>

text \<open>A finding before it is built: its code and its metadata.\<close>

type_synonym observation = "string \<times> json_object"

definition payloads :: "observation list \<Rightarrow> finding list option" where
  "payloads observed = all_some (map (\<lambda>(c, m). finding_payload c m) observed)"

definition EXPECTED_FAMILIES :: "(ustring \<times> file_family list) list" where
  "EXPECTED_FAMILIES =
     [(u ''pdf'', [FF_PDF]), (u ''doc'', [FF_OLE_COMPOUND]), (u ''xls'', [FF_OLE_COMPOUND]),
      (u ''ppt'', [FF_OLE_COMPOUND]), (u ''docx'', [FF_ZIP, FF_OOXML_CANDIDATE]),
      (u ''docm'', [FF_ZIP, FF_OOXML_CANDIDATE]), (u ''xlsx'', [FF_ZIP, FF_OOXML_CANDIDATE]),
      (u ''xlsm'', [FF_ZIP, FF_OOXML_CANDIDATE]), (u ''pptx'', [FF_ZIP, FF_OOXML_CANDIDATE]),
      (u ''pptm'', [FF_ZIP, FF_OOXML_CANDIDATE]), (u ''zip'', [FF_ZIP]), (u ''txt'', [FF_TEXT]),
      (u ''csv'', [FF_TEXT]), (u ''rtf'', [FF_TEXT])]"

definition expected_families :: "ustring option \<Rightarrow> file_family list option" where
  "expected_families extension = map_of EXPECTED_FAMILIES (case extension of None \<Rightarrow> [] | Some e \<Rightarrow> e)"

definition jopt :: "ustring option \<Rightarrow> json" where
  "jopt v = (case v of None \<Rightarrow> JNull | Some s \<Rightarrow> JStr s)"

definition jnat :: "nat \<Rightarrow> json" where "jnat n = JInt (int n)"

definition jnames :: "ustring list \<Rightarrow> json" where "jnames names = JList (map JStr (sorted_codes names))"

definition jsorted :: "string list \<Rightarrow> json" where "jsorted names = jcodes (sorted_codes names)"

definition jmaybe :: "string option \<Rightarrow> json" where
  "jmaybe v = (case v of None \<Rightarrow> JNull | Some t \<Rightarrow> jtext t)"

definition jmaybe_nat :: "nat option \<Rightarrow> json" where
  "jmaybe_nat v = (case v of None \<Rightarrow> JNull | Some n \<Rightarrow> jnat n)"

definition when_found :: "bool \<Rightarrow> string \<Rightarrow> json_object \<Rightarrow> observation list" where
  "when_found b code metadata = (if b then [(code, metadata)] else [])"

lemma when_found_mem: "b \<Longrightarrow> code \<in> fst ` set (when_found b code m)"
  by (simp add: when_found_def)

lemma when_found_length: "length (when_found b c m) \<le> 1"
  by (simp add: when_found_def)

definition normalized_mime :: "(ustring \<Rightarrow> ustring) \<Rightarrow> ustring option \<Rightarrow> ustring option" where
  "normalized_mime casefold claim =
     (case claim of None \<Rightarrow> None
      | Some v \<Rightarrow> let n = casefold (strip (takeWhile (\<lambda>c. c \<noteq> 59) v)) in if n = [] then None else Some n)"

definition security_findings ::
  "(ustring \<Rightarrow> ustring) \<Rightarrow> ustring \<Rightarrow> file_identification \<Rightarrow> ustring option \<Rightarrow> observation list" where
  "security_findings casefold filename identification claimed_content_type =
     (let extension = final_extension casefold filename;
          observed_bidi = bidi_codepoints filename;
          normalized_claim = normalized_mime casefold claimed_content_type in
      (if has_dangerous_double_extension casefold filename
       then [(''FILE_DOUBLE_EXTENSION'', obj [(''final_extension'', jopt extension)])] else []) @
      (if observed_bidi \<noteq> []
       then [(''FILE_BIDI_OVERRIDE'', obj [(''codepoints'', JList (map JStr observed_bidi))])] else []) @
      (case expected_families extension of None \<Rightarrow> []
       | Some expected \<Rightarrow> if fi_family identification \<notin> set expected
           then [(''FILE_TYPE_MISMATCH'', obj [(''claimed_extension'', jopt extension),
              (''observed_family'', jtext (family_value (fi_family identification)))])] else []) @
      (if fi_family identification = FF_WINDOWS_EXECUTABLE \<and> extension \<in> Some ` set BUSINESS_EXTENSIONS
       then [(''FILE_EXECUTABLE_MASQUERADE'', obj [(''claimed_extension'', jopt extension)])] else []) @
      (case normalized_claim of None \<Rightarrow> []
       | Some claim \<Rightarrow> if claim \<noteq> u ''application/octet-stream'' \<and> claim \<noteq> casefold (fi_mime identification)
           then [(''FILE_CLIENT_MIME_MISMATCH'', obj [(''claimed_content_type'', JStr claim),
              (''observed_mime'', JStr (fi_mime identification))])] else []))"

end
