(* ===== verification/Archive.thy ===== *)
theory Archive
  imports File_Identity
begin

text \<open>
  The bounded ZIP inspection of \<open>worker/analyzers/archive.py\<close> and \<open>archive_types.py\<close>. Python's
  \<open>zipfile\<close> (what opening a container, listing it and reading a member deliver), SHA-256 and
  the Unicode tables are the record \<open>zip_lib\<close>; every decision the analyzer takes on what they
  deliver is here, with its counters, its budgets and the exceptions it catches.
\<close>

section \<open>Limits\<close>

record archive_limits =
  max_zip_entries :: nat
  max_nesting_depth :: nat
  max_members_inspected :: nat
  max_compressed_bytes_considered :: nat
  max_member_bytes :: nat
  max_total_decompressed_bytes :: nat
  max_nested_archive_bytes :: nat
  max_member_name_length :: nat
  max_archive_findings :: nat
  max_suspicious_member_names :: nat
  max_duplicate_records :: nat
  max_traversal_records :: nat
  max_metadata_string_length :: nat

definition DEFAULT_ARCHIVE_LIMITS :: archive_limits where
  "DEFAULT_ARCHIVE_LIMITS = \<lparr>max_zip_entries = 4096, max_nesting_depth = 3,
     max_members_inspected = 8192, max_compressed_bytes_considered = 128 * 1024 * 1024,
     max_member_bytes = 32 * 1024 * 1024, max_total_decompressed_bytes = 128 * 1024 * 1024,
     max_nested_archive_bytes = 32 * 1024 * 1024, max_member_name_length = 512,
     max_archive_findings = 64, max_suspicious_member_names = 32, max_duplicate_records = 16,
     max_traversal_records = 16, max_metadata_string_length = 256\<rparr>"

text \<open>\<open>__post_init__\<close> accepts the limits.\<close>

definition archive_limits_ok :: "archive_limits \<Rightarrow> bool" where
  "archive_limits_ok l \<longleftrightarrow> 0 < max_zip_entries l \<and> 0 < max_members_inspected l \<and>
     0 < max_compressed_bytes_considered l \<and> 0 < max_member_bytes l \<and>
     0 < max_total_decompressed_bytes l \<and> 0 < max_nested_archive_bytes l \<and>
     0 < max_member_name_length l \<and> 4 \<le> max_archive_findings l \<and>
     0 < max_suspicious_member_names l \<and> 0 < max_duplicate_records l \<and>
     0 < max_traversal_records l \<and> 0 < max_metadata_string_length l"

section \<open>What the ZIP library delivers\<close>

datatype zip_kind = Z_OS | Z_EOF | Z_BadZip | Z_LargeZip | Z_Zlib | Z_Runtime | Z_NotImplemented | Z_Other

record zip_exn =
  ze_kind :: zip_kind
  ze_name :: string

record zip_info =
  zi_filename :: ustring
  zi_flag_bits :: "16 word"
  zi_compress_type :: nat
  zi_create_system :: nat
  zi_external_attr :: "32 word"

text \<open>An open member answers a read at a position for a number of bytes.\<close>

type_synonym zip_stream = "nat \<Rightarrow> nat \<Rightarrow> zip_exn + bytes"

record zip_archive =
  za_infos :: "zip_exn + zip_info list"
  za_open :: "zip_info \<Rightarrow> zip_exn + zip_stream"

datatype zip_source = Sample_Path | Nested_Bytes bytes

record zip_lib =
  zl_open :: "zip_source \<Rightarrow> zip_exn + zip_archive"
  zl_sha256 :: "bytes \<Rightarrow> string"
  zl_nfc :: "ustring \<Rightarrow> ustring"
  zl_casefold :: "ustring \<Rightarrow> ustring"
  zl_category_C :: "nat \<Rightarrow> bool"
  zl_zstandard :: "nat option"
  zl_python_version :: string
  zl_zlib_version :: string

text \<open>\<open>ZipInfo.is_dir()\<close>.\<close>

definition is_dir :: "zip_info \<Rightarrow> bool" where
  "is_dir info \<longleftrightarrow> ends_with [47] (zi_filename info)"

section \<open>The state of an inspection\<close>

record archive_state =
  z_archive_count :: nat
  z_entry_count :: nat
  z_members_inspected :: nat
  z_directories_seen :: nat
  z_actual_decompressed_bytes :: nat
  z_compressed_bytes_considered :: nat
  z_nested_archives_detected :: nat
  z_nested_archive_bytes :: nat
  z_repeated_nested_archives :: nat
  z_encrypted_count :: nat
  z_unsupported_method_count :: nat
  z_symlink_count :: nat
  z_traversal_count :: nat
  z_absolute_path_count :: nat
  z_duplicate_count :: nat
  z_dangerous_member_count :: nat
  z_double_extension_count :: nat
  z_bidi_member_count :: nat
  z_member_names_truncated :: nat
  z_retained_name_count :: nat
  z_parser_exception :: "string option"
  z_partial_reasons :: "string list"
  z_resource_reasons :: "string list"
  z_malformed_reasons :: "string list"
  z_unsupported_methods :: "nat list"
  z_seen_nested_digests :: "string list"
  z_traversal_records :: "json_object list"
  z_absolute_path_records :: "json_object list"
  z_symlink_records :: "json_object list"
  z_duplicate_records :: "json_object list"
  z_dangerous_records :: "json_object list"
  z_double_extension_records :: "json_object list"
  z_bidi_records :: "json_object list"
  z_encrypted_records :: "json_object list"
  z_nesting_records :: "json_object list"

definition initial_state :: archive_state where
  "initial_state = \<lparr>z_archive_count = 0, z_entry_count = 0, z_members_inspected = 0,
     z_directories_seen = 0, z_actual_decompressed_bytes = 0, z_compressed_bytes_considered = 0,
     z_nested_archives_detected = 0, z_nested_archive_bytes = 0, z_repeated_nested_archives = 0,
     z_encrypted_count = 0, z_unsupported_method_count = 0, z_symlink_count = 0,
     z_traversal_count = 0, z_absolute_path_count = 0, z_duplicate_count = 0,
     z_dangerous_member_count = 0, z_double_extension_count = 0, z_bidi_member_count = 0,
     z_member_names_truncated = 0, z_retained_name_count = 0, z_parser_exception = None,
     z_partial_reasons = [], z_resource_reasons = [], z_malformed_reasons = [],
     z_unsupported_methods = [], z_seen_nested_digests = [], z_traversal_records = [],
     z_absolute_path_records = [], z_symlink_records = [], z_duplicate_records = [],
     z_dangerous_records = [], z_double_extension_records = [], z_bidi_records = [],
     z_encrypted_records = [], z_nesting_records = []\<rparr>"

definition mark_partial :: "string \<Rightarrow> archive_state \<Rightarrow> archive_state" where
  "mark_partial reason s = s\<lparr>z_partial_reasons := List.insert reason (z_partial_reasons s)\<rparr>"

definition mark_resource :: "string \<Rightarrow> archive_state \<Rightarrow> archive_state" where
  "mark_resource reason s =
     mark_partial reason (s\<lparr>z_resource_reasons := List.insert reason (z_resource_reasons s)\<rparr>)"

definition mark_malformed :: "string \<Rightarrow> zip_exn option \<Rightarrow> archive_state \<Rightarrow> archive_state" where
  "mark_malformed reason e s =
     (let s' = mark_partial reason (s\<lparr>z_malformed_reasons := List.insert reason (z_malformed_reasons s)\<rparr>) in
      if e \<noteq> None \<and> z_parser_exception s' = None
      then s'\<lparr>z_parser_exception := map_option ze_name e\<rparr> else s')"

section \<open>Retained names\<close>

definition can_retain_name :: "archive_limits \<Rightarrow> archive_state \<Rightarrow> bool \<times> archive_state" where
  "can_retain_name l s =
     (if max_suspicious_member_names l \<le> z_retained_name_count s then (False, s)
      else (True, s\<lparr>z_retained_name_count := Suc (z_retained_name_count s)\<rparr>))"

text \<open>\<open>f"\\u{ord(c):04x}"\<close>: at least four digits.\<close>

definition hex_text :: "nat \<Rightarrow> ustring" where
  "hex_text n = (if n < 65536 then hex4 n
     else dropWhile (\<lambda>c. c = 48) (hex4 (n div 65536)) @ hex4 (n mod 65536))"

definition represent_char :: "zip_lib \<Rightarrow> nat \<Rightarrow> ustring" where
  "represent_char lib c =
     (if c \<in> set BIDI_CONTROLS \<or> zl_category_C lib c then [92, 117] @ hex_text c else [c])"

definition safe_member_name ::
  "zip_lib \<Rightarrow> archive_limits \<Rightarrow> ustring \<Rightarrow> archive_state \<Rightarrow> ustring \<times> archive_state" where
  "safe_member_name lib l name s =
     (let maximum = min (max_member_name_length l) (max_metadata_string_length l);
          represented = concat (map (represent_char lib) name);
          s' = (if maximum < length represented
            then s\<lparr>z_member_names_truncated := Suc (z_member_names_truncated s)\<rparr> else s);
          cut = take maximum represented in
      (if cut = [] then u ''unnamed-member'' else cut, s'))"

text \<open>The lists of records are fields of the state; a retaining call names the one it extends
  by its update function and hands over what the list holds.\<close>

type_synonym record_update =
  "(json_object list \<Rightarrow> json_object list) \<Rightarrow> archive_state \<Rightarrow> archive_state"

definition retain_record ::
  "zip_lib \<Rightarrow> archive_limits \<Rightarrow> (archive_state \<Rightarrow> json_object list) \<Rightarrow> record_update \<Rightarrow> ustring \<Rightarrow> nat \<Rightarrow>
   json_object \<Rightarrow> nat \<Rightarrow> archive_state \<Rightarrow> archive_state" where
  "retain_record lib l target update name depth extra maximum s =
     (if maximum \<le> length (target s) then s
      else case can_retain_name l s of
        (False, s1) \<Rightarrow> s1
      | (True, s1) \<Rightarrow>
        (case safe_member_name lib l name s1 of (shown, s2) \<Rightarrow>
          update (\<lambda>rs. rs @ [obj [(''member_name'', JStr shown), (''archive_depth'', JInt (int depth))] @ extra]) s2))"

section \<open>The name of a member\<close>

definition windows_root :: "ustring \<Rightarrow> bool" where
  "windows_root name \<longleftrightarrow> (case name of
     c # d # e # _ \<Rightarrow> (65 \<le> c \<and> c \<le> 90 \<or> 97 \<le> c \<and> c \<le> 122) \<and> d = 58 \<and> (e = 92 \<or> e = 47)
   | _ \<Rightarrow> False)"

definition traverses :: "ustring \<Rightarrow> bool" where
  "traverses name \<longleftrightarrow> list_ex (\<lambda>segment. segment = u ''..'') (split_on 47 (replace_all 92 47 name))"

definition is_absolute :: "ustring \<Rightarrow> bool" where
  "is_absolute name \<longleftrightarrow> starts_with [47] (replace_all 92 47 name) \<or> windows_root name"

definition collision_key :: "zip_lib \<Rightarrow> ustring \<Rightarrow> ustring" where
  "collision_key lib name =
     (let portable = replace_all 92 47 (zl_nfc lib name);
          pieces = filter (\<lambda>p. p \<noteq> [] \<and> p \<noteq> [46]) (split_on 47 portable) in
      (if starts_with [47] portable then [47] else []) @ join [47] pieces)"

text \<open>The four steps of \<open>_inspect_name\<close>, in order.\<close>

definition inspect_paths ::
  "zip_lib \<Rightarrow> archive_limits \<Rightarrow> ustring \<Rightarrow> nat \<Rightarrow> archive_state \<Rightarrow> archive_state" where
  "inspect_paths lib l name depth s =
     (let s1 = (if traverses name
        then retain_record lib l z_traversal_records z_traversal_records_update name depth []
          (max_traversal_records l) (s\<lparr>z_traversal_count := Suc (z_traversal_count s)\<rparr>) else s) in
      if is_absolute name
      then retain_record lib l z_absolute_path_records z_absolute_path_records_update name depth []
        (max_traversal_records l) (s1\<lparr>z_absolute_path_count := Suc (z_absolute_path_count s1)\<rparr>) else s1)"

definition retain_duplicate ::
  "zip_lib \<Rightarrow> archive_limits \<Rightarrow> ustring \<Rightarrow> ustring \<Rightarrow> nat \<Rightarrow> archive_state \<Rightarrow> archive_state" where
  "retain_duplicate lib l name previous depth s =
     (if max_duplicate_records l \<le> length (z_duplicate_records s) then s
      else case can_retain_name l s of
        (False, s1) \<Rightarrow> s1
      | (True, s1) \<Rightarrow>
        (case safe_member_name lib l name s1 of (shown, s2) \<Rightarrow>
         case safe_member_name lib l previous s2 of (other, s3) \<Rightarrow>
           s3\<lparr>z_duplicate_records := z_duplicate_records s3 @ [obj [(''member_name'', JStr shown),
             (''collides_with'', JStr other), (''archive_depth'', JInt (int depth)),
             (''collision_kind'', jtext (if name = previous then ''exact'' else ''portable_normalized''))]]\<rparr>))"

type_synonym seen_names = "(ustring \<times> ustring) list"

definition inspect_duplicate ::
  "zip_lib \<Rightarrow> archive_limits \<Rightarrow> ustring \<Rightarrow> nat \<Rightarrow> seen_names \<Rightarrow> archive_state \<Rightarrow> seen_names \<times> archive_state" where
  "inspect_duplicate lib l name depth seen s =
     (let normalized = collision_key lib name in
      case map_of seen normalized of
        Some previous \<Rightarrow> (seen, retain_duplicate lib l name previous depth
          (s\<lparr>z_duplicate_count := Suc (z_duplicate_count s)\<rparr>))
      | None \<Rightarrow> ((normalized, name) # seen, s))"

definition inspect_extensions ::
  "zip_lib \<Rightarrow> archive_limits \<Rightarrow> ustring \<Rightarrow> nat \<Rightarrow> archive_state \<Rightarrow> archive_state" where
  "inspect_extensions lib l name depth s =
     (let extension = final_extension (zl_casefold lib) name;
          s1 = (if extension \<in> Some ` set DANGEROUS_EXTENSIONS
            then retain_record lib l z_dangerous_records z_dangerous_records_update name depth
              (obj [(''extension'', jopt extension)]) (max_suspicious_member_names l)
              (s\<lparr>z_dangerous_member_count := Suc (z_dangerous_member_count s)\<rparr>) else s) in
      if has_dangerous_double_extension (zl_casefold lib) name
      then retain_record lib l z_double_extension_records z_double_extension_records_update name depth
        (obj [(''final_extension'', jopt extension)]) (max_suspicious_member_names l)
        (s1\<lparr>z_double_extension_count := Suc (z_double_extension_count s1)\<rparr>) else s1)"

definition inspect_bidi ::
  "zip_lib \<Rightarrow> archive_limits \<Rightarrow> ustring \<Rightarrow> nat \<Rightarrow> archive_state \<Rightarrow> archive_state" where
  "inspect_bidi lib l name depth s =
     (let observed = bidi_codepoints name in
      if observed \<noteq> []
      then retain_record lib l z_bidi_records z_bidi_records_update name depth
        (obj [(''codepoints'', JList (map JStr observed))]) (max_suspicious_member_names l)
        (s\<lparr>z_bidi_member_count := Suc (z_bidi_member_count s)\<rparr>) else s)"

definition inspect_name ::
  "zip_lib \<Rightarrow> archive_limits \<Rightarrow> zip_info \<Rightarrow> nat \<Rightarrow> seen_names \<Rightarrow> archive_state \<Rightarrow> seen_names \<times> archive_state" where
  "inspect_name lib l info depth seen s =
     (let name = zi_filename info in
      case inspect_duplicate lib l name depth seen (inspect_paths lib l name depth s) of
        (seen', s1) \<Rightarrow> (seen', inspect_bidi lib l name depth (inspect_extensions lib l name depth s1)))"

section \<open>Reading a member\<close>

datatype member_exn = Resource_Stop | Lib_Error zip_exn

definition READ_CHUNK_BYTES :: nat where "READ_CHUNK_BYTES = 65536"

definition ZIP_SIGNATURES :: "bytes list" where
  "ZIP_SIGNATURES = [[80, 75, 3, 4], [80, 75, 5, 6], [80, 75, 7, 8]]"

definition next_read_size :: "archive_limits \<Rightarrow> nat \<Rightarrow> archive_state \<Rightarrow> nat \<Rightarrow> bool \<Rightarrow> nat" where
  "next_read_size l member_bytes s preferred nested =
     (let maximum = min (int preferred) (min (int (max_member_bytes l) - int member_bytes + 1)
            (int (max_total_decompressed_bytes l) - int (z_actual_decompressed_bytes s) + 1));
          maximum = (if nested
            then min maximum (int (max_nested_archive_bytes l) - int (z_nested_archive_bytes s) + 1)
            else maximum) in
      nat (max 1 maximum))"

definition account_actual_bytes ::
  "archive_limits \<Rightarrow> bytes \<Rightarrow> nat \<Rightarrow> (archive_state, member_exn, nat) prog" where
  "account_actual_bytes l chunk member_bytes s =
     (let member_bytes = member_bytes + length chunk;
          s1 = s\<lparr>z_actual_decompressed_bytes := z_actual_decompressed_bytes s + length chunk\<rparr> in
      if max_member_bytes l < member_bytes
      then (Inl Resource_Stop, mark_resource ''member_actual_byte_limit'' s1)
      else if max_total_decompressed_bytes l < z_actual_decompressed_bytes s1
      then (Inl Resource_Stop, mark_resource ''total_actual_byte_limit'' s1)
      else (Inr member_bytes, s1))"

definition append_nested ::
  "archive_limits \<Rightarrow> bytes \<Rightarrow> bytes \<Rightarrow> (archive_state, member_exn, bytes) prog" where
  "append_nested l chunk target s =
     (if max_nested_archive_bytes l < z_nested_archive_bytes s + length chunk
      then (Inl Resource_Stop, mark_resource ''nested_materialization_limit'' s)
      else (Inr (target @ chunk), s\<lparr>z_nested_archive_bytes := z_nested_archive_bytes s + length chunk\<rparr>))"

text \<open>One chunk is accounted for and, in a nested archive, kept.\<close>

definition take_chunk ::
  "archive_limits \<Rightarrow> bytes \<Rightarrow> nat \<Rightarrow> bytes option \<Rightarrow> (archive_state, member_exn, nat \<times> bytes option) prog" where
  "take_chunk l chunk member_bytes nested =
     bindE (account_actual_bytes l chunk member_bytes) (\<lambda>mb.
     case nested of None \<Rightarrow> returnE (mb, None)
     | Some data \<Rightarrow> bindE (append_nested l chunk data) (\<lambda>data'. returnE (mb, Some data')))"

lemma take_chunk_progress:
  "take_chunk l chunk mb nested s = (Inr (mb', nested'), s') \<Longrightarrow>
     mb' = mb + length chunk \<and> mb' \<le> max_member_bytes l"
  by (auto simp: take_chunk_def account_actual_bytes_def append_nested_def Let_def bindE_def returnE_def
      split: if_splits option.splits)

function read_rest ::
  "archive_limits \<Rightarrow> zip_stream \<Rightarrow> nat \<Rightarrow> bytes option \<Rightarrow> (archive_state, member_exn, bytes option) prog" where
  "read_rest l stream member_bytes nested s =
     (case stream member_bytes (next_read_size l member_bytes s READ_CHUNK_BYTES (nested \<noteq> None)) of
        Inl e \<Rightarrow> (Inl (Lib_Error e), s)
      | Inr chunk \<Rightarrow>
        if chunk = [] then (Inr nested, s)
        else (case take_chunk l chunk member_bytes nested s of
            (Inl e, s1) \<Rightarrow> (Inl e, s1)
          | (Inr (mb, nested'), s1) \<Rightarrow> read_rest l stream mb nested' s1))"
  by pat_completeness auto
termination
  by (relation "measure (\<lambda>(l, stream, member_bytes, nested, s). Suc (max_member_bytes l) - member_bytes)")
    (auto dest!: sym [THEN take_chunk_progress] simp: neq_Nil_conv)

declare read_rest.simps [simp del]

text \<open>What the library answers, as a value or as an exception.\<close>

definition libraryE :: "zip_exn + 'a \<Rightarrow> (archive_state, member_exn, 'a) prog" where
  "libraryE r = (case r of Inl e \<Rightarrow> raiseE (Lib_Error e) | Inr x \<Rightarrow> returnE x)"

definition read_member ::
  "archive_limits \<Rightarrow> zip_archive \<Rightarrow> zip_info \<Rightarrow> (archive_state, member_exn, bytes option) prog" where
  "read_member l archive info =
     bindE (libraryE (za_open archive info)) (\<lambda>stream.
     bindE (getE (\<lambda>s. next_read_size l 0 s 4 False)) (\<lambda>n.
     bindE (libraryE (stream 0 n)) (\<lambda>first.
     bindE (account_actual_bytes l first 0) (\<lambda>mb.
     if list_ex (\<lambda>g. starts_with g first) ZIP_SIGNATURES
     then bindE (append_nested l first []) (\<lambda>data. read_rest l stream mb (Some data))
     else if first = [] then returnE None
     else read_rest l stream mb None))))"

section \<open>Members and archives\<close>

definition supported_compression_methods :: "zip_lib \<Rightarrow> (nat \<times> string) list" where
  "supported_compression_methods lib =
     [(0, ''stored''), (8, ''deflate''), (12, ''bzip2''), (14, ''lzma'')] @
     (case zl_zstandard lib of None \<Rightarrow> [] | Some m \<Rightarrow> [(m, ''zstandard'')])"

definition unsupported_method :: "nat \<Rightarrow> archive_state \<Rightarrow> archive_state" where
  "unsupported_method m s = mark_partial ''unsupported_compression_method''
     (s\<lparr>z_unsupported_method_count := Suc (z_unsupported_method_count s),
        z_unsupported_methods := List.insert m (z_unsupported_methods s)\<rparr>)"

text \<open>\<open>stat.S_ISLNK\<close> of the Unix mode in the upper half of the external attributes.\<close>

definition is_symlink :: "zip_info \<Rightarrow> bool" where
  "is_symlink info \<longleftrightarrow> zi_create_system info = 3 \<and>
     and (and (drop_bit 16 (zi_external_attr info)) 0xFFFF) 0xF000 = (0xA000 :: 32 word)"

definition is_encrypted :: "zip_info \<Rightarrow> bool" where
  "is_encrypted info \<longleftrightarrow> and (zi_flag_bits info) 1 \<noteq> (0 :: 16 word)"

text \<open>What the loop does next after it looked at one member: the next member, leaving this
  archive, letting an exception out, or going into a nested archive.\<close>

datatype next_step = Go_On archive_state | Leave archive_state | Fail zip_exn archive_state
  | Descend bytes archive_state

definition after_read ::
  "zip_lib \<Rightarrow> archive_limits \<Rightarrow> zip_info \<Rightarrow> nat \<Rightarrow> (member_exn + bytes option) \<times> archive_state \<Rightarrow> next_step" where
  "after_read lib l info depth r =
     (case r of
        (Inl Resource_Stop, s) \<Rightarrow> Leave s
      | (Inl (Lib_Error e), s) \<Rightarrow>
        if ze_kind e = Z_NotImplemented then Go_On (unsupported_method (zi_compress_type info) s)
        else if ze_kind e \<in> {Z_OS, Z_EOF, Z_Runtime, Z_BadZip, Z_Zlib}
        then Go_On (mark_malformed ''member_decompression_error'' (Some e) s)
        else Fail e s
      | (Inr None, s) \<Rightarrow> Go_On s
      | (Inr (Some nested), s) \<Rightarrow>
        let s1 = s\<lparr>z_nested_archives_detected := Suc (z_nested_archives_detected s)\<rparr>;
            digest = zl_sha256 lib nested in
        if max_nesting_depth l < Suc depth then
          Go_On (retain_record lib l z_nesting_records z_nesting_records_update (zi_filename info)
            (Suc depth) [] (max_suspicious_member_names l) (mark_partial ''nesting_depth_limit'' s1))
        else if digest \<in> set (z_seen_nested_digests s1) then
          Go_On (s1\<lparr>z_repeated_nested_archives := Suc (z_repeated_nested_archives s1)\<rparr>)
        else Descend nested (s1\<lparr>z_seen_nested_digests := digest # z_seen_nested_digests s1\<rparr>))"

definition visit_member ::
  "zip_lib \<Rightarrow> archive_limits \<Rightarrow> zip_archive \<Rightarrow> zip_info \<Rightarrow> nat \<Rightarrow> archive_state \<Rightarrow> next_step" where
  "visit_member lib l archive info depth s =
     (if is_dir info then Go_On (s\<lparr>z_directories_seen := Suc (z_directories_seen s)\<rparr>)
      else if is_symlink info then
        Go_On (retain_record lib l z_symlink_records z_symlink_records_update (zi_filename info) depth []
          (max_suspicious_member_names l) (s\<lparr>z_symlink_count := Suc (z_symlink_count s)\<rparr>))
      else if is_encrypted info then
        Go_On (retain_record lib l z_encrypted_records z_encrypted_records_update (zi_filename info) depth []
          (max_suspicious_member_names l)
          (mark_partial ''encrypted_member'' (s\<lparr>z_encrypted_count := Suc (z_encrypted_count s)\<rparr>)))
      else if zi_compress_type info \<notin> fst ` set (supported_compression_methods lib)
      then Go_On (unsupported_method (zi_compress_type info) s)
      else after_read lib l info depth (read_member l archive info s))"

lemma visit_descends: "visit_member lib l archive info depth s = Descend nested s' \<Longrightarrow> Suc depth \<le> max_nesting_depth l"
  by (auto simp: visit_member_def after_read_def Let_def split: if_splits prod.splits sum.splits
      option.splits member_exn.splits)

text \<open>The container is opened and listed; \<open>Inl\<close> is the exception that is let out, \<open>Inr None\<close>
  the early return.\<close>

definition open_archive ::
  "zip_lib \<Rightarrow> archive_limits \<Rightarrow> zip_source \<Rightarrow> nat \<Rightarrow> nat \<Rightarrow> archive_state \<Rightarrow>
   (zip_exn + (zip_archive \<times> zip_info list) option) \<times> archive_state" where
  "open_archive lib l src container_size depth s =
     (let s1 = s\<lparr>z_compressed_bytes_considered := z_compressed_bytes_considered s + container_size\<rparr> in
      if max_compressed_bytes_considered l < z_compressed_bytes_considered s1
      then (Inr None, mark_resource ''compressed_input_limit'' s1)
      else case zl_open lib src of
        Inl e \<Rightarrow>
          if ze_kind e \<in> {Z_OS, Z_BadZip, Z_LargeZip}
          then (Inr None, mark_malformed (if depth \<noteq> 0 then ''malformed_nested_archive'' else ''malformed_archive'')
            (Some e) s1)
          else (Inl e, s1)
      | Inr archive \<Rightarrow>
        let s2 = s1\<lparr>z_archive_count := Suc (z_archive_count s1)\<rparr> in
        (case za_infos archive of
           Inl e \<Rightarrow>
             if ze_kind e \<in> {Z_OS, Z_EOF, Z_BadZip, Z_LargeZip}
             then (Inr None, mark_malformed ''central_directory_error'' (Some e) s2)
             else (Inl e, s2)
         | Inr infos \<Rightarrow>
           let s3 = s2\<lparr>z_entry_count := z_entry_count s2 + length infos\<rparr> in
           if max_zip_entries l < length infos
           then (Inr (Some (archive, take (max_zip_entries l) infos)), mark_resource ''zip_entry_limit'' s3)
           else (Inr (Some (archive, infos)), s3)))"

function inspect_archive ::
  "zip_lib \<Rightarrow> archive_limits \<Rightarrow> zip_source \<Rightarrow> nat \<Rightarrow> nat \<Rightarrow> archive_state \<Rightarrow> (zip_exn + unit) \<times> archive_state"
and inspect_members ::
  "zip_lib \<Rightarrow> archive_limits \<Rightarrow> zip_archive \<Rightarrow> nat \<Rightarrow> zip_info list \<Rightarrow> seen_names \<Rightarrow> archive_state \<Rightarrow>
   (zip_exn + unit) \<times> archive_state" where
  "inspect_archive lib l src container_size depth s =
     (case open_archive lib l src container_size depth s of
        (Inl e, s1) \<Rightarrow> (Inl e, s1)
      | (Inr None, s1) \<Rightarrow> (Inr (), s1)
      | (Inr (Some (archive, infos)), s1) \<Rightarrow> inspect_members lib l archive depth infos [] s1)"
| "inspect_members lib l archive depth [] seen s = (Inr (), s)"
| "inspect_members lib l archive depth (info # infos) seen s =
     (if max_members_inspected l \<le> z_members_inspected s
      then (Inr (), mark_resource ''member_inspection_limit'' s)
      else case inspect_name lib l info depth seen
          (s\<lparr>z_members_inspected := Suc (z_members_inspected s)\<rparr>) of
        (seen', s1) \<Rightarrow>
        (case visit_member lib l archive info depth s1 of
           Go_On s2 \<Rightarrow> inspect_members lib l archive depth infos seen' s2
         | Leave s2 \<Rightarrow> (Inr (), s2)
         | Fail e s2 \<Rightarrow> (Inl e, s2)
         | Descend nested s2 \<Rightarrow>
           (case inspect_archive lib l (Nested_Bytes nested) (length nested) (Suc depth) s2 of
              (Inl e, s3) \<Rightarrow> (Inl e, s3)
            | (Inr _, s3) \<Rightarrow> inspect_members lib l archive depth infos seen' s3)))"
  by pat_completeness auto
termination
  by (relation "measures [
      \<lambda>x. case x of Inl (lib, l, src, n, depth, s) \<Rightarrow> Suc (2 * (Suc (max_nesting_depth l) - depth))
        | Inr (lib, l, archive, depth, infos, seen, s) \<Rightarrow> 2 * (Suc (max_nesting_depth l) - depth),
      \<lambda>x. case x of Inl _ \<Rightarrow> 0 | Inr (lib, l, archive, depth, infos, seen, s) \<Rightarrow> length infos]")
    (auto dest: visit_descends)

declare inspect_archive.simps [simp del] inspect_members.simps(2) [simp del]

section \<open>The result\<close>

datatype archive_parser_status = AP_COMPLETE | AP_PARTIAL | AP_MALFORMED

primrec parser_status_value :: "archive_parser_status \<Rightarrow> string" where
  "parser_status_value AP_COMPLETE = ''COMPLETE''"
| "parser_status_value AP_PARTIAL = ''PARTIAL''"
| "parser_status_value AP_MALFORMED = ''MALFORMED''"

record archive_analysis =
  aa_parser_status :: archive_parser_status
  aa_findings :: "observation list"
  aa_metadata :: json_object

definition counted_finding :: "string \<Rightarrow> nat \<Rightarrow> json_object list \<Rightarrow> observation list" where
  "counted_finding code n records =
     (if n \<noteq> 0 then [(code, obj [(''count'', JInt (int n)), (''members'', JList (map JObj records))])] else [])"

definition jreasons :: "string list \<Rightarrow> json" where
  "jreasons rs = jcodes (sorted_codes rs)"

definition archive_findings :: "archive_limits \<Rightarrow> archive_state \<Rightarrow> observation list" where
  "archive_findings l s =
     counted_finding ''ARCHIVE_PATH_TRAVERSAL'' (z_traversal_count s) (z_traversal_records s) @
     counted_finding ''ARCHIVE_ABSOLUTE_PATH'' (z_absolute_path_count s) (z_absolute_path_records s) @
     counted_finding ''ARCHIVE_SYMLINK'' (z_symlink_count s) (z_symlink_records s) @
     counted_finding ''ARCHIVE_DUPLICATE_MEMBER'' (z_duplicate_count s) (z_duplicate_records s) @
     counted_finding ''ARCHIVE_DANGEROUS_MEMBER'' (z_dangerous_member_count s) (z_dangerous_records s) @
     counted_finding ''ARCHIVE_MEMBER_DOUBLE_EXTENSION'' (z_double_extension_count s)
       (z_double_extension_records s) @
     counted_finding ''ARCHIVE_MEMBER_BIDI_OVERRIDE'' (z_bidi_member_count s) (z_bidi_records s) @
     counted_finding ''ARCHIVE_ENCRYPTED'' (z_encrypted_count s) (z_encrypted_records s) @
     (if ''nesting_depth_limit'' \<in> set (z_partial_reasons s)
      then [(''ARCHIVE_NESTING_LIMIT'', obj [(''maximum_depth'', JInt (int (max_nesting_depth l))),
         (''members'', JList (map JObj (z_nesting_records s)))])] else []) @
     (if z_resource_reasons s \<noteq> []
      then [(''ARCHIVE_RESOURCE_LIMIT'', obj [(''reasons'', jreasons (z_resource_reasons s))])] else []) @
     (if z_malformed_reasons s \<noteq> []
      then [(''ARCHIVE_MALFORMED'', obj [(''reasons'', jreasons (z_malformed_reasons s)),
         (''parser_exception'', jopt (map_option u (z_parser_exception s)))])] else []) @
     (if z_partial_reasons s \<noteq> []
      then [(''ARCHIVE_PARTIAL_ANALYSIS'', obj [(''reasons'', jreasons (z_partial_reasons s))])] else [])"

definition mandatory_codes :: "string list" where
  "mandatory_codes = [''ARCHIVE_MALFORMED'', ''ARCHIVE_NESTING_LIMIT'', ''ARCHIVE_RESOURCE_LIMIT'',
     ''ARCHIVE_PARTIAL_ANALYSIS'']"

definition bounded_findings :: "archive_limits \<Rightarrow> archive_state \<Rightarrow> observation list \<times> archive_state" where
  "bounded_findings l s =
     (if length (archive_findings l s) \<le> max_archive_findings l then (archive_findings l s, s)
      else let s1 = mark_resource ''finding_limit'' s; findings = archive_findings l s1;
             required = filter (\<lambda>f. fst f \<in> set mandatory_codes) findings;
             optional = filter (\<lambda>f. fst f \<notin> set mandatory_codes) findings in
        (take (max_archive_findings l) (take (max_archive_findings l - length required) optional @ required), s1))"

definition parser_status_of :: "archive_state \<Rightarrow> archive_parser_status" where
  "parser_status_of s =
     (if z_malformed_reasons s \<noteq> [] then AP_MALFORMED
      else if z_partial_reasons s \<noteq> [] then AP_PARTIAL else AP_COMPLETE)"

definition jcount :: "nat \<Rightarrow> json" where
  "jcount n = JInt (int n)"

definition archive_metadata :: "zip_lib \<Rightarrow> archive_state \<Rightarrow> json_object" where
  "archive_metadata lib s = obj
     ([(''family'', jtext ''ZIP''), (''parser'', jtext ''python-zipfile''),
       (''python_runtime_version'', jtext (zl_python_version lib)),
       (''zlib_version'', jtext (zl_zlib_version lib)),
       (''parser_status'', jtext (parser_status_value (parser_status_of s))),
       (''supported_compression_methods'', jcodes (map snd (supported_compression_methods lib))),
       (''archive_count'', jcount (z_archive_count s)), (''entry_count'', jcount (z_entry_count s)),
       (''members_inspected'', jcount (z_members_inspected s)),
       (''directory_count'', jcount (z_directories_seen s)),
       (''nested_archive_count'', jcount (z_nested_archives_detected s)),
       (''repeated_nested_archive_count'', jcount (z_repeated_nested_archives s)),
       (''actual_decompressed_bytes'', jcount (z_actual_decompressed_bytes s)),
       (''compressed_bytes_considered'', jcount (z_compressed_bytes_considered s)),
       (''nested_archive_bytes_materialized'', jcount (z_nested_archive_bytes s)),
       (''encrypted_member_count'', jcount (z_encrypted_count s)),
       (''unsupported_compression_member_count'', jcount (z_unsupported_method_count s)),
       (''unsupported_compression_methods'', JList (map jcount (sorted_codes (z_unsupported_methods s)))),
       (''member_names_truncated'', jcount (z_member_names_truncated s)),
       (''partial_reasons'', jreasons (z_partial_reasons s))] @
      (case z_parser_exception s of None \<Rightarrow> [] | Some n \<Rightarrow> [(''parser_exception'', jtext n)]))"

definition archive_result :: "zip_lib \<Rightarrow> archive_limits \<Rightarrow> archive_state \<Rightarrow> archive_analysis" where
  "archive_result lib l s =
     (case bounded_findings l s of (findings, s1) \<Rightarrow>
       \<lparr>aa_parser_status = parser_status_of s1, aa_findings = findings, aa_metadata = archive_metadata lib s1\<rparr>)"

definition archive_complete :: "archive_analysis \<Rightarrow> bool" where
  "archive_complete a \<longleftrightarrow> aa_parser_status a = AP_COMPLETE"

text \<open>\<open>None\<close> as the error is the \<open>ArchiveRoutingError\<close>.\<close>

definition analyze_archive ::
  "zip_lib \<Rightarrow> archive_limits \<Rightarrow> zip_exn + nat \<Rightarrow> file_family \<Rightarrow> zip_exn option + archive_analysis" where
  "analyze_archive lib l sample_size detected_family =
     (if detected_family \<notin> {FF_ZIP, FF_OOXML_CANDIDATE} then Inl None
      else case sample_size of
        Inl e \<Rightarrow> if ze_kind e = Z_OS
          then Inr (archive_result lib l (mark_malformed ''archive_input_unavailable'' (Some e) initial_state))
          else Inl (Some e)
      | Inr n \<Rightarrow>
        (case inspect_archive lib l Sample_Path n 0 initial_state of
           (Inl e, _) \<Rightarrow> Inl (Some e)
         | (Inr _, s) \<Rightarrow> Inr (archive_result lib l s)))"

end
