(* ===== verification/Archive_Properties.thy ===== *)
theory Archive_Properties
  imports Archive
begin

text \<open>
  What the ZIP inspection guarantees: its budgets hold in every state it reaches, a complete
  inspection looked at every entry and met nothing it could not read, and what it saw in a
  name is among its findings. The traversal is proved once, in the locale \<open>inspection\<close>, for
  whatever the single steps keep.
\<close>

section \<open>Single steps\<close>

lemma retain_record_cases:
  obtains (unchanged) "retain_record lib l get upd name depth extra maximum s = s"
  | (retained) r n where "z_retained_name_count s < max_suspicious_member_names l" "length (get s) < maximum"
    "retain_record lib l get upd name depth extra maximum s = upd (\<lambda>rs. rs @ [r])
       (s\<lparr>z_retained_name_count := Suc (z_retained_name_count s), z_member_names_truncated := n\<rparr>)"
proof (cases "length (get s) < maximum \<and> z_retained_name_count s < max_suspicious_member_names l")
  case True
  define s1 where "s1 = s\<lparr>z_retained_name_count := Suc (z_retained_name_count s)\<rparr>"
  obtain shown n where "safe_member_name lib l name s1 = (shown, s1\<lparr>z_member_names_truncated := n\<rparr>)"
    by (auto simp: safe_member_name_def Let_def) (metis archive_state.surjective archive_state.update_convs(19))
  with True show ?thesis
    by (intro retained [of "obj [(''member_name'', JStr shown), (''archive_depth'', JInt (int depth))] @ extra" n])
      (simp_all add: retain_record_def can_retain_name_def s1_def)
next
  case False
  then show ?thesis
    by (intro unchanged) (auto simp: retain_record_def can_retain_name_def split: prod.split)
qed

lemma retain_duplicate_cases:
  obtains (unchanged) "retain_duplicate lib l name previous depth s = s"
  | (retained) r n where "z_retained_name_count s < max_suspicious_member_names l"
    "length (z_duplicate_records s) < max_duplicate_records l"
    "retain_duplicate lib l name previous depth s = s\<lparr>z_retained_name_count := Suc (z_retained_name_count s),
       z_member_names_truncated := n, z_duplicate_records := z_duplicate_records s @ [r]\<rparr>"
proof (cases "length (z_duplicate_records s) < max_duplicate_records l \<and>
    z_retained_name_count s < max_suspicious_member_names l")
  case True
  have safe: "\<exists>shown n. safe_member_name lib l x t = (shown, t\<lparr>z_member_names_truncated := n\<rparr>)" for x t
    by (auto simp: safe_member_name_def Let_def) (metis archive_state.surjective archive_state.update_convs(19))
  define s1 where "s1 = s\<lparr>z_retained_name_count := Suc (z_retained_name_count s)\<rparr>"
  obtain shown n where 1: "safe_member_name lib l name s1 = (shown, s1\<lparr>z_member_names_truncated := n\<rparr>)"
    using safe by blast
  obtain other k where 2: "safe_member_name lib l previous (s1\<lparr>z_member_names_truncated := n\<rparr>) =
      (other, s1\<lparr>z_member_names_truncated := k\<rparr>)"
    using safe [of previous "s1\<lparr>z_member_names_truncated := n\<rparr>"] by auto
  from True 1 2 show ?thesis
    by (intro retained [of "obj [(''member_name'', JStr shown), (''collides_with'', JStr other),
          (''archive_depth'', JInt (int depth)),
          (''collision_kind'', jtext (if name = previous then ''exact'' else ''portable_normalized''))]" k])
      (simp_all add: retain_duplicate_def can_retain_name_def s1_def)
next
  case False
  then show ?thesis
    by (intro unchanged) (auto simp: retain_duplicate_def can_retain_name_def split: prod.split)
qed

lemma append_update:
  "z_duplicate_records_update (\<lambda>rs. rs @ [r]) s = s\<lparr>z_duplicate_records := z_duplicate_records s @ [r]\<rparr>"
  "z_nesting_records_update (\<lambda>rs. rs @ [r]) s = s\<lparr>z_nesting_records := z_nesting_records s @ [r]\<rparr>"
  by (cases s, simp)+

lemma insert_not_Nil [simp]: "List.insert x xs \<noteq> []"
  by (auto simp: List.insert_def)

text \<open>What a single step may do to a state, whatever the step is: the vocabulary of the
  invariants below. \<open>I\<close> is kept by counting, by marking a reason and by retaining a record.\<close>

locale archive_steps =
  fixes l :: archive_limits and I :: "archive_state \<Rightarrow> bool"
  assumes counters: "I s \<Longrightarrow> I (s\<lparr>z_directories_seen := a\<rparr>)" "I s \<Longrightarrow> I (s\<lparr>z_nested_archives_detected := a\<rparr>)"
      "I s \<Longrightarrow> I (s\<lparr>z_repeated_nested_archives := a\<rparr>)" "I s \<Longrightarrow> I (s\<lparr>z_seen_nested_digests := ds\<rparr>)"
      "I s \<Longrightarrow> I (s\<lparr>z_archive_count := a\<rparr>)" "I s \<Longrightarrow> I (s\<lparr>z_compressed_bytes_considered := a\<rparr>)"
      "I s \<Longrightarrow> z_entry_count s \<le> a \<Longrightarrow> I (s\<lparr>z_entry_count := a\<rparr>)"
    and observed: "I s \<Longrightarrow> I (s\<lparr>z_traversal_count := Suc (z_traversal_count s)\<rparr>)"
      "I s \<Longrightarrow> I (s\<lparr>z_absolute_path_count := Suc (z_absolute_path_count s)\<rparr>)"
      "I s \<Longrightarrow> I (s\<lparr>z_duplicate_count := Suc (z_duplicate_count s)\<rparr>)"
      "I s \<Longrightarrow> I (s\<lparr>z_dangerous_member_count := Suc (z_dangerous_member_count s)\<rparr>)"
      "I s \<Longrightarrow> I (s\<lparr>z_double_extension_count := Suc (z_double_extension_count s)\<rparr>)"
      "I s \<Longrightarrow> I (s\<lparr>z_bidi_member_count := Suc (z_bidi_member_count s)\<rparr>)"
      "I s \<Longrightarrow> I (s\<lparr>z_symlink_count := Suc (z_symlink_count s)\<rparr>)"
    and encrypted: "I s \<Longrightarrow> I (mark_partial ''encrypted_member'' (s\<lparr>z_encrypted_count := Suc (z_encrypted_count s)\<rparr>))"
    and unsupported: "I s \<Longrightarrow> I (unsupported_method m s)"
    and marked: "I s \<Longrightarrow> I (mark_partial reason s)" "I s \<Longrightarrow> I (mark_resource reason s)"
      "I s \<Longrightarrow> I (mark_malformed reason e s)"
    and reading: "I s \<Longrightarrow> I (snd (read_member l archive info s))"
    and retained: "I s \<Longrightarrow> z_retained_name_count s < max_suspicious_member_names l \<Longrightarrow>
      upd \<in> {z_traversal_records_update, z_absolute_path_records_update, z_symlink_records_update,
        z_duplicate_records_update, z_dangerous_records_update, z_double_extension_records_update,
        z_bidi_records_update, z_encrypted_records_update} \<Longrightarrow>
      I (upd (\<lambda>rs. rs @ [r]) (s\<lparr>z_retained_name_count := Suc (z_retained_name_count s),
        z_member_names_truncated := n\<rparr>))"
    and nested: "I s \<Longrightarrow> z_retained_name_count s < max_suspicious_member_names l \<Longrightarrow> z_partial_reasons s \<noteq> [] \<Longrightarrow>
      I (s\<lparr>z_retained_name_count := Suc (z_retained_name_count s), z_member_names_truncated := n,
        z_nesting_records := z_nesting_records s @ [r]\<rparr>)"
    and inspected: "I s \<Longrightarrow> z_members_inspected s < max_members_inspected l \<Longrightarrow>
      I (s\<lparr>z_members_inspected := Suc (z_members_inspected s)\<rparr>)"
begin

lemma record_kept:
  assumes "I s" and "upd \<in> {z_traversal_records_update, z_absolute_path_records_update, z_symlink_records_update,
        z_duplicate_records_update, z_dangerous_records_update, z_double_extension_records_update,
        z_bidi_records_update, z_encrypted_records_update}"
  shows "I (retain_record lib l get upd name depth extra maximum s)"
  by (cases rule: retain_record_cases [of lib l get upd name depth extra maximum s])
    (use assms retained in auto)

lemma records_kept:
  assumes "I s"
  shows "I (retain_record lib l get z_traversal_records_update name depth extra maximum s)"
    "I (retain_record lib l get z_absolute_path_records_update name depth extra maximum s)"
    "I (retain_record lib l get z_symlink_records_update name depth extra maximum s)"
    "I (retain_record lib l get z_dangerous_records_update name depth extra maximum s)"
    "I (retain_record lib l get z_double_extension_records_update name depth extra maximum s)"
    "I (retain_record lib l get z_bidi_records_update name depth extra maximum s)"
    "I (retain_record lib l get z_encrypted_records_update name depth extra maximum s)"
  by (rule record_kept [OF assms], simp)+

lemma duplicate_kept: "I s \<Longrightarrow> I (retain_duplicate lib l name previous depth s)"
proof (cases rule: retain_duplicate_cases [of lib l name previous depth s])
  case (retained r n)
  assume "I s"
  with retained(1) archive_steps.retained [OF archive_steps_axioms, of s z_duplicate_records_update r n]
  show ?thesis unfolding retained(3) by (simp add: append_update)
qed simp

lemma name_kept: "I s \<Longrightarrow> I (snd (inspect_name lib l info depth seen s))"
  by (auto simp: inspect_name_def inspect_paths_def inspect_duplicate_def inspect_extensions_def
      inspect_bidi_def Let_def intro!: records_kept duplicate_kept observed split: prod.splits option.splits)

lemma open_kept: "I s \<Longrightarrow> I (snd (open_archive lib l src n depth s))"
  by (auto simp: open_archive_def Let_def intro!: marked counters split: sum.splits)

lemma nesting_kept:
  "I s \<Longrightarrow> I (retain_record lib l z_nesting_records z_nesting_records_update name depth extra maximum
     (mark_partial reason s))"
  by (cases rule: retain_record_cases [of lib l z_nesting_records z_nesting_records_update name depth extra
        maximum "mark_partial reason s"])
    (use marked(1) [of s reason] nested [of "mark_partial reason s"] in
      \<open>auto simp: mark_partial_def append_update\<close>)

lemma visit_kept:
  assumes "I s"
  shows "visit_member lib l archive info depth s = Go_On s' \<Longrightarrow> I s'"
    and "visit_member lib l archive info depth s = Leave s' \<Longrightarrow> I s'"
    and "visit_member lib l archive info depth s = Fail e s' \<Longrightarrow> I s'"
    and "visit_member lib l archive info depth s = Descend b s' \<Longrightarrow> I s'"
proof -
  obtain r s1 where r: "read_member l archive info s = (r, s1)" by fastforce
  with reading [OF assms, of archive info] have s1: "I s1" by simp
  let ?n = "visit_member lib l archive info depth s"
  have "case ?n of Go_On t \<Rightarrow> I t | Leave t \<Rightarrow> I t | Fail e t \<Rightarrow> I t | Descend b t \<Rightarrow> I t"
    unfolding visit_member_def r after_read_def Let_def
    by (auto intro!: counters records_kept observed encrypted unsupported marked(2,3) nesting_kept assms s1
        split: sum.split member_exn.split option.split)
  then show "?n = Go_On s' \<Longrightarrow> I s'" "?n = Leave s' \<Longrightarrow> I s'" "?n = Fail e s' \<Longrightarrow> I s'" "?n = Descend b s' \<Longrightarrow> I s'"
    by simp_all
qed

lemma inspection_kept_gen:
  "l' = l \<Longrightarrow> I s \<Longrightarrow> I (snd (inspect_archive lib l' src n depth s))"
  "l' = l \<Longrightarrow> I s \<Longrightarrow> I (snd (inspect_members lib l' archive depth infos seen s))"
proof (induction lib l' src n depth s and lib l' archive depth infos seen s
    rule: inspect_archive_inspect_members.induct)
  case (1 lib l' src n depth s)
  obtain r s1 where r: "open_archive lib l' src n depth s = (r, s1)" by fastforce
  have "I s1" using open_kept [OF 1(3), of lib src n depth] r 1(2) by simp
  then show ?case
    unfolding inspect_archive.simps [of lib l' src n depth s] r
    using 1(1) [OF r [symmetric]] 1(2) by (auto split: sum.split option.split)
next
  case (2 lib l' archive depth seen s)
  then show ?case by simp
next
  case (3 lib l' archive depth info infos seen s)
  let ?s = "s\<lparr>z_members_inspected := Suc (z_members_inspected s)\<rparr>"
  obtain seen' s1 where n: "inspect_name lib l info depth seen ?s = (seen', s1)" by fastforce
  show ?case
  proof (cases "max_members_inspected l \<le> z_members_inspected s")
    case True
    then show ?thesis using 3(4,5) marked by (simp add: inspect_members.simps(2))
  next
    case False
    then have "I ?s" using inspected [OF 3(5)] by simp
    from name_kept [OF this, of lib info depth seen] n have s1: "I s1" by simp
    note loop = inspect_members.simps(2) [of lib l archive depth info infos seen s]
    show ?thesis
    proof (cases "visit_member lib l archive info depth s1")
      case (Go_On s2)
      with 3(1) False n visit_kept(1) [OF s1 Go_On] 3(4) show ?thesis
        by (simp add: loop)
    next
      case (Descend b s2)
      obtain r s3 where a: "inspect_archive lib l (Nested_Bytes b) (length b) (Suc depth) s2 = (r, s3)" by fastforce
      have "I (snd (inspect_archive lib l (Nested_Bytes b) (length b) (Suc depth) s2))"
        using 3(2) False n visit_kept(4) [OF s1 Descend] Descend 3(4) by simp
      with a have "I s3" by simp
      with 3(3) False n Descend a 3(4) show ?thesis
        by (auto simp: loop split: sum.split)
    qed (use False n visit_kept(2,3) [OF s1] 3(4) in \<open>simp_all add: loop\<close>)
  qed
qed

lemmas inspection_kept = inspection_kept_gen [OF refl]

end

section \<open>What a read does to the state\<close>

text \<open>A read changes nothing but the byte counters, unless it runs into a budget: then it also
  marks the reason.\<close>

definition bytes_changed :: "archive_state \<Rightarrow> archive_state \<Rightarrow> bool" where
  "bytes_changed s t \<longleftrightarrow> (\<exists>a b. t = s\<lparr>z_actual_decompressed_bytes := a, z_nested_archive_bytes := b\<rparr>)"

definition read_effect :: "archive_state \<Rightarrow> (member_exn + 'a) \<times> archive_state \<Rightarrow> bool" where
  "read_effect s r \<longleftrightarrow> (case r of
     (Inl Resource_Stop, t) \<Rightarrow> \<exists>t' reason. bytes_changed s t' \<and> t = mark_resource reason t'
   | (_, t) \<Rightarrow> bytes_changed s t)"

definition reads :: "(archive_state, member_exn, 'a) prog \<Rightarrow> bool" where
  "reads m \<longleftrightarrow> (\<forall>s. read_effect s (m s))"

lemma bytes_changed_refl: "bytes_changed s s"
  unfolding bytes_changed_def
  by (rule exI [of _ "z_actual_decompressed_bytes s"], rule exI [of _ "z_nested_archive_bytes s"]) simp

lemma bytes_changed_trans: "bytes_changed s t \<Longrightarrow> bytes_changed t v \<Longrightarrow> bytes_changed s v"
  unfolding bytes_changed_def by (elim exE) (intro exI, simp)

lemma read_effect_trans:
  "bytes_changed s t \<Longrightarrow> read_effect t r \<Longrightarrow> read_effect s r"
  unfolding read_effect_def
  by (cases r; cases "fst r"; cases "projl (fst r)") (auto, (metis bytes_changed_trans)+)

lemma reads_bind [intro]:
  assumes "reads m" "\<And>x. reads (k x)"
  shows "reads (bindE m k)"
  unfolding reads_def
proof
  fix s
  obtain r t where m: "m s = (r, t)" by fastforce
  with assms(1) have e: "read_effect s (r, t)" unfolding reads_def by metis
  show "read_effect s (bindE m k s)"
  proof (cases r)
    case (Inl x)
    with e m show ?thesis by (cases x) (simp_all add: bindE_def read_effect_def)
  next
    case (Inr x)
    with e have "bytes_changed s t" by (simp add: read_effect_def)
    with m Inr assms(2) [of x] show ?thesis by (simp add: bindE_def reads_def read_effect_trans)
  qed
qed

lemma reads_simple [intro]: "reads (returnE x)" "reads (getE f)" "reads (libraryE r)"
  by (auto simp: reads_def read_effect_def returnE_def getE_def libraryE_def raiseE_def bytes_changed_refl
      split: sum.split)

lemma reads_account [intro]: "reads (account_actual_bytes l chunk mb)" "reads (append_nested l chunk target)"
proof -
  have "bytes_changed s (s\<lparr>z_actual_decompressed_bytes := a\<rparr>)" "bytes_changed s (s\<lparr>z_nested_archive_bytes := b\<rparr>)"
    for s a b
    unfolding bytes_changed_def
    by (rule exI [of _ a], rule exI [of _ "z_nested_archive_bytes s"], simp,
        rule exI [of _ "z_actual_decompressed_bytes s"], rule exI [of _ b], simp)
  then show "reads (account_actual_bytes l chunk mb)" "reads (append_nested l chunk target)"
    using bytes_changed_refl
    by (auto simp: reads_def read_effect_def account_actual_bytes_def append_nested_def Let_def; blast)+
qed

lemma reads_chunk: "reads (take_chunk l chunk mb nested)"
  unfolding take_chunk_def by (cases nested) auto

lemma reads_rest: "read_effect s (read_rest l stream mb nested s)"
proof (induction l stream mb nested s rule: read_rest.induct)
  case (1 l stream mb nested s)
  let ?r = "stream mb (next_read_size l mb s READ_CHUNK_BYTES (nested \<noteq> None))"
  show ?case
  proof (cases ?r)
    case (Inr chunk)
    obtain r s1 where t: "take_chunk l chunk mb nested s = (r, s1)" by fastforce
    with reads_chunk have e: "read_effect s (r, s1)" unfolding reads_def by metis
    show ?thesis
    proof (cases "chunk = [] \<or> (\<exists>x. r = Inl x)")
      case True
      with Inr t e show ?thesis
        by (subst read_rest.simps)
          (auto simp: read_effect_def bytes_changed_refl split: member_exn.splits; blast)
    next
      case False
      then obtain mb' n' where r: "chunk \<noteq> []" "r = Inr (mb', n')" by (cases r) auto
      from 1 [OF Inr r(1) t [symmetric] r(2) refl] have "read_effect s1 (read_rest l stream mb' n' s1)" by simp
      moreover from e r(2) have "bytes_changed s s1" by (simp add: read_effect_def)
      ultimately have "read_effect s (read_rest l stream mb' n' s1)" by (rule read_effect_trans [rotated])
      with Inr t r show ?thesis by (subst read_rest.simps) simp
    qed
  qed (subst read_rest.simps, simp add: read_effect_def bytes_changed_refl)
qed

lemma reads_member: "reads (read_member l archive info)"
proof -
  have "reads (read_rest l stream mb nested)" for stream mb nested
    using reads_rest by (simp add: reads_def)
  then show ?thesis unfolding read_member_def by (intro reads_bind reads_simple reads_account) auto
qed

lemma reading_kept:
  assumes "\<And>t. bytes_changed s t \<Longrightarrow> I t" and "\<And>t reason. I t \<Longrightarrow> I (mark_resource reason t)"
  shows "I (snd (read_member l archive info s))"
proof -
  have "read_effect s (read_member l archive info s)" using reads_member unfolding reads_def by blast
  with assms show ?thesis
    by (cases "read_member l archive info s") (auto simp: read_effect_def split: sum.splits member_exn.splits)
qed

lemmas mark_defs = mark_partial_def mark_resource_def mark_malformed_def unsupported_method_def

section \<open>Nothing that was seen is forgotten\<close>

definition grown :: "archive_state \<Rightarrow> archive_state \<Rightarrow> bool" where
  "grown s t \<longleftrightarrow> z_traversal_count s \<le> z_traversal_count t \<and>
     z_absolute_path_count s \<le> z_absolute_path_count t \<and> z_symlink_count s \<le> z_symlink_count t \<and>
     z_duplicate_count s \<le> z_duplicate_count t \<and>
     z_dangerous_member_count s \<le> z_dangerous_member_count t \<and>
     z_double_extension_count s \<le> z_double_extension_count t \<and>
     z_bidi_member_count s \<le> z_bidi_member_count t \<and> z_encrypted_count s \<le> z_encrypted_count t \<and>
     set (z_partial_reasons s) \<subseteq> set (z_partial_reasons t)"

lemma grown_refl [simp]: "grown s s" and grown_trans: "grown s t \<Longrightarrow> grown t v \<Longrightarrow> grown s v"
  by (auto simp: grown_def)

interpretation growth: archive_steps l "grown s0" for l s0
proof unfold_locales
  show "grown s0 s \<Longrightarrow> grown s0 (snd (read_member l archive info s))" for s archive info
    by (rule reading_kept) (auto simp: grown_def bytes_changed_def mark_defs)
qed (auto simp: grown_def mark_defs Let_def)

section \<open>A complete inspection has read everything\<close>

definition unspoiled :: "archive_state \<Rightarrow> bool" where
  "unspoiled s \<longleftrightarrow> (z_partial_reasons s = [] \<longrightarrow> z_resource_reasons s = [] \<and> z_malformed_reasons s = [] \<and>
     z_parser_exception s = None \<and> z_encrypted_count s = 0 \<and> z_unsupported_method_count s = 0 \<and>
     z_nesting_records s = [])"

interpretation completeness: archive_steps l unspoiled for l
proof unfold_locales
  show "unspoiled s \<Longrightarrow> unspoiled (snd (read_member l archive info s))" for s archive info
    by (rule reading_kept) (auto simp: unspoiled_def bytes_changed_def mark_defs)
qed (auto simp: unspoiled_def mark_defs Let_def)

section \<open>The budgets hold\<close>

definition retained_records :: "archive_state \<Rightarrow> nat" where
  "retained_records s = length (z_traversal_records s) + length (z_absolute_path_records s) +
     length (z_symlink_records s) + length (z_duplicate_records s) + length (z_dangerous_records s) +
     length (z_double_extension_records s) + length (z_bidi_records s) + length (z_encrypted_records s) +
     length (z_nesting_records s)"

definition within_budget :: "archive_limits \<Rightarrow> archive_state \<Rightarrow> bool" where
  "within_budget l s \<longleftrightarrow> z_members_inspected s \<le> max_members_inspected l \<and>
     z_retained_name_count s \<le> max_suspicious_member_names l \<and> retained_records s \<le> z_retained_name_count s"

interpretation budget: archive_steps l "within_budget l" for l
proof unfold_locales
  show "within_budget l s \<Longrightarrow> within_budget l (snd (read_member l archive info s))" for s archive info
    by (rule reading_kept) (auto simp: within_budget_def retained_records_def bytes_changed_def mark_defs)
qed (auto simp: within_budget_def retained_records_def mark_defs Let_def)

section \<open>Entries and bytes\<close>

text \<open>What the bookkeeping of names leaves alone.\<close>

definition tallies :: "archive_state \<Rightarrow> nat \<times> nat \<times> nat \<times> nat \<times> nat" where
  "tallies s = (z_entry_count s, z_members_inspected s, z_actual_decompressed_bytes s, z_nested_archive_bytes s,
     z_archive_count s)"

lemma retain_tallies:
  "tallies (retain_record lib l get z_traversal_records_update name depth extra maximum s) = tallies s"
  "tallies (retain_record lib l get z_absolute_path_records_update name depth extra maximum s) = tallies s"
  "tallies (retain_record lib l get z_symlink_records_update name depth extra maximum s) = tallies s"
  "tallies (retain_record lib l get z_dangerous_records_update name depth extra maximum s) = tallies s"
  "tallies (retain_record lib l get z_double_extension_records_update name depth extra maximum s) = tallies s"
  "tallies (retain_record lib l get z_bidi_records_update name depth extra maximum s) = tallies s"
  "tallies (retain_record lib l get z_encrypted_records_update name depth extra maximum s) = tallies s"
  "tallies (retain_record lib l get z_nesting_records_update name depth extra maximum s) = tallies s"
proof -
  have "tallies (retain_record lib l get upd name depth extra maximum s) = tallies s"
    if "\<And>f t. tallies (upd f t) = tallies t" for upd
    by (cases rule: retain_record_cases [of lib l get upd name depth extra maximum s])
      (simp_all add: that, simp add: tallies_def)
  then show "tallies (retain_record lib l get z_traversal_records_update name depth extra maximum s) = tallies s"
    "tallies (retain_record lib l get z_absolute_path_records_update name depth extra maximum s) = tallies s"
    "tallies (retain_record lib l get z_symlink_records_update name depth extra maximum s) = tallies s"
    "tallies (retain_record lib l get z_dangerous_records_update name depth extra maximum s) = tallies s"
    "tallies (retain_record lib l get z_double_extension_records_update name depth extra maximum s) = tallies s"
    "tallies (retain_record lib l get z_bidi_records_update name depth extra maximum s) = tallies s"
    "tallies (retain_record lib l get z_encrypted_records_update name depth extra maximum s) = tallies s"
    "tallies (retain_record lib l get z_nesting_records_update name depth extra maximum s) = tallies s"
    by (simp_all add: tallies_def)
qed

lemma update_tallies:
  "tallies (s\<lparr>z_traversal_count := a\<rparr>) = tallies s" "tallies (s\<lparr>z_absolute_path_count := a\<rparr>) = tallies s"
  "tallies (s\<lparr>z_duplicate_count := a\<rparr>) = tallies s" "tallies (s\<lparr>z_dangerous_member_count := a\<rparr>) = tallies s"
  "tallies (s\<lparr>z_double_extension_count := a\<rparr>) = tallies s" "tallies (s\<lparr>z_bidi_member_count := a\<rparr>) = tallies s"
  "tallies (s\<lparr>z_symlink_count := a\<rparr>) = tallies s" "tallies (s\<lparr>z_encrypted_count := a\<rparr>) = tallies s"
  "tallies (s\<lparr>z_directories_seen := a\<rparr>) = tallies s" "tallies (s\<lparr>z_nested_archives_detected := a\<rparr>) = tallies s"
  "tallies (s\<lparr>z_repeated_nested_archives := a\<rparr>) = tallies s" "tallies (s\<lparr>z_seen_nested_digests := ds\<rparr>) = tallies s"
  "tallies (mark_partial reason s) = tallies s" "tallies (mark_resource reason s) = tallies s"
  "tallies (mark_malformed reason e s) = tallies s" "tallies (unsupported_method m s) = tallies s"
  by (simp_all add: tallies_def mark_defs Let_def)

lemma name_tallies: "inspect_name lib l info depth seen s = (seen', s') \<Longrightarrow> tallies s' = tallies s"
proof -
  have d: "tallies (retain_duplicate lib l name previous depth s) = tallies s" for name previous s
    by (cases rule: retain_duplicate_cases [of lib l name previous depth s]) (simp_all add: tallies_def)
  show "inspect_name lib l info depth seen s = (seen', s') \<Longrightarrow> tallies s' = tallies s"
    by (auto simp: inspect_name_def inspect_paths_def inspect_duplicate_def inspect_extensions_def
        inspect_bidi_def Let_def d retain_tallies update_tallies split: prod.splits option.splits if_splits)
qed

definition named :: "archive_state \<Rightarrow> archive_state \<Rightarrow> bool" where
  "named s t \<longleftrightarrow> tallies t = tallies s \<and> grown s t"

lemma name_named: "inspect_name lib l info depth seen s = (seen', s') \<Longrightarrow> named s s'"
  using name_tallies growth.name_kept [of s s lib l info depth seen] by (fastforce simp: named_def)

text \<open>A visit: whatever it does, the tallies are those of the read, if there was one.\<close>

primrec step_state :: "next_step \<Rightarrow> archive_state" where
  "step_state (Go_On s) = s" | "step_state (Leave s) = s" | "step_state (Fail e s) = s"
| "step_state (Descend b s) = s"

lemma visit_tallies:
  "tallies (step_state (visit_member lib l archive info depth s)) = tallies s \<and>
     (\<nexists>t. visit_member lib l archive info depth s = Leave t) \<and>
     (\<nexists>b t. visit_member lib l archive info depth s = Descend b t) \<or>
   (\<exists>r t. read_member l archive info s = (r, t) \<and>
     tallies (step_state (visit_member lib l archive info depth s)) = tallies t \<and>
     ((\<exists>t. visit_member lib l archive info depth s = Leave t) \<longleftrightarrow> r = Inl Resource_Stop) \<and>
     ((\<exists>b t. visit_member lib l archive info depth s = Descend b t) \<longrightarrow> (\<exists>x. r = Inr x)))"
proof (cases "is_dir info \<or> is_symlink info \<or> is_encrypted info \<or>
    zi_compress_type info \<notin> fst ` set (supported_compression_methods lib)")
  case True
  then show ?thesis
    by (intro disjI1) (auto simp: visit_member_def retain_tallies update_tallies)
next
  case False
  obtain r t where r: "read_member l archive info s = (r, t)" by fastforce
  from False have v: "visit_member lib l archive info depth s = after_read lib l info depth (r, t)"
    by (simp add: visit_member_def r)
  show ?thesis
    unfolding v
    by (intro disjI2 exI [of _ r] exI [of _ t])
      (auto simp: r after_read_def Let_def retain_tallies update_tallies split: sum.split member_exn.split option.split)
qed

text \<open>One induction over the traversal for statements about where it starts and ends. \<open>J\<close>
  relates the start of an archive to its end, \<open>K\<close> that of the members still to be visited.\<close>

locale traversal =
  fixes lib :: zip_lib and l :: archive_limits and streams :: "zip_archive \<Rightarrow> bool"
    and J :: "nat \<Rightarrow> archive_state \<Rightarrow> archive_state \<Rightarrow> bool"
    and K :: "nat \<Rightarrow> nat \<Rightarrow> archive_state \<Rightarrow> archive_state \<Rightarrow> bool"
  assumes opened: "zl_open lib src = Inr archive \<Longrightarrow> streams archive"
    and not_opened: "open_archive lib l src n depth s = (Inr None, s') \<Longrightarrow> J depth s s'"
    and no_members: "K depth 0 s s"
    and members: "open_archive lib l src n depth s = (Inr (Some (archive, infos)), s1) \<Longrightarrow>
      K depth (length infos) s1 s' \<Longrightarrow> J depth s s'"
    and limit: "K depth (Suc k) s (mark_resource ''member_inspection_limit'' s)"
    and next_member: "streams archive \<Longrightarrow>
      named (s\<lparr>z_members_inspected := Suc (z_members_inspected s)\<rparr>) s1 \<Longrightarrow>
      visit_member lib l archive info depth s1 = Go_On s2 \<Longrightarrow> K depth k s2 s' \<Longrightarrow> K depth (Suc k) s s'"
    and left: "streams archive \<Longrightarrow>
      named (s\<lparr>z_members_inspected := Suc (z_members_inspected s)\<rparr>) s1 \<Longrightarrow>
      visit_member lib l archive info depth s1 = Leave s2 \<Longrightarrow> K depth (Suc k) s s2"
    and descended: "streams archive \<Longrightarrow>
      named (s\<lparr>z_members_inspected := Suc (z_members_inspected s)\<rparr>) s1 \<Longrightarrow>
      visit_member lib l archive info depth s1 = Descend b s2 \<Longrightarrow> J (Suc depth) s2 s3 \<Longrightarrow>
      K depth k s3 s' \<Longrightarrow> K depth (Suc k) s s'"
begin

lemma traversed_gen:
  "lib' = lib \<Longrightarrow> l' = l \<Longrightarrow> inspect_archive lib' l' src n depth s = (Inr (), s') \<Longrightarrow> J depth s s'"
  "lib' = lib \<Longrightarrow> l' = l \<Longrightarrow> streams archive \<Longrightarrow>
     inspect_members lib' l' archive depth infos seen s = (Inr (), s') \<Longrightarrow> K depth (length infos) s s'"
proof (induction lib' l' src n depth s and lib' l' archive depth infos seen s
    arbitrary: s' and s' rule: inspect_archive_inspect_members.induct)
  case (1 lib' l' src n depth s)
  obtain r s1 where r: "open_archive lib l src n depth s = (r, s1)" by fastforce
  show ?case
  proof (cases "\<exists>archive infos. r = Inr (Some (archive, infos))")
    case True
    then obtain archive infos where a: "r = Inr (Some (archive, infos))" by blast
    have "zl_open lib src = Inr archive"
      using r a by (auto simp: open_archive_def Let_def split: if_splits sum.splits)
    with opened have st: "streams archive" by blast
    have "inspect_members lib l archive depth infos [] s1 = (Inr (), s')"
      using 1(4) r a 1(2,3) by (simp add: inspect_archive.simps)
    with 1(1) r a 1(2,3) st have "K depth (length infos) s1 s'" by simp
    with members r a show ?thesis by blast
  next
    case False
    with 1(2-4) r have "r = Inr None" "s' = s1"
      by (auto simp: inspect_archive.simps split: sum.splits option.splits)
    with not_opened r show ?thesis by blast
  qed
next
  case (2 lib' l' archive depth seen s)
  then show ?case using no_members by simp
next
  case (3 lib' l' archive depth info infos seen s)
  note e = 3(4,5) and st = 3(6)
  let ?s = "s\<lparr>z_members_inspected := Suc (z_members_inspected s)\<rparr>"
  note loop = inspect_members.simps(2) [of lib l archive depth info infos seen s]
  obtain seen' s1 where n: "inspect_name lib l info depth seen ?s = (seen', s1)" by fastforce
  note t = name_named [OF n]
  show ?case
  proof (cases "max_members_inspected l \<le> z_members_inspected s")
    case True
    with 3(7) e limit [of depth "length infos" s] show ?thesis by (simp add: loop)
  next
    case False
    show ?thesis
    proof (cases "visit_member lib l archive info depth s1")
      case (Go_On s2)
      with 3(1) 3(7) False n e st have "K depth (length infos) s2 s'" by (simp add: loop)
      with next_member [OF st t Go_On] show ?thesis by simp
    next
      case (Leave s2)
      with 3(7) False n e left [OF st t Leave] show ?thesis by (simp add: loop)
    next
      case (Fail x s2)
      with 3(7) False n e show ?thesis by (simp add: loop)
    next
      case (Descend b s2)
      obtain r s3 where a: "inspect_archive lib l (Nested_Bytes b) (length b) (Suc depth) s2 = (r, s3)" by fastforce
      with 3(7) False n e Descend have r: "r = Inr ()" by (auto simp: loop split: sum.splits)
      with 3(2) False n e Descend a have J: "J (Suc depth) s2 s3" by simp
      from 3(3,7) False n e Descend a r st have "K depth (length infos) s3 s'" by (simp add: loop)
      with descended [OF st t Descend J] show ?thesis by simp
    qed
  qed
qed

lemmas traversed = traversed_gen [OF refl refl]

end

subsection \<open>Every entry was looked at\<close>

definition all_counted :: "archive_state \<Rightarrow> nat \<Rightarrow> archive_state \<Rightarrow> bool" where
  "all_counted s k s' \<longleftrightarrow> set (z_partial_reasons s) \<subseteq> set (z_partial_reasons s') \<and>
     (z_partial_reasons s' = [] \<longrightarrow>
       (\<exists>j. z_entry_count s' = z_entry_count s + j \<and> z_members_inspected s' = z_members_inspected s + j + k))"

lemma visit_grown: "grown s (step_state (visit_member lib l archive info depth s))"
  using growth.visit_kept [OF grown_refl, of lib l archive info depth s]
  by (cases "visit_member lib l archive info depth s") auto

lemma visit_counts:
  "z_entry_count (step_state (visit_member lib l archive info depth s)) = z_entry_count s"
  "z_members_inspected (step_state (visit_member lib l archive info depth s)) = z_members_inspected s"
  "visit_member lib l archive info depth s = Leave t \<Longrightarrow> z_partial_reasons t \<noteq> []"
  "z_archive_count (step_state (visit_member lib l archive info depth s)) = z_archive_count s"
proof -
  obtain r s1 where r: "read_member l archive info s = (r, s1)" by fastforce
  then have e: "read_effect s (r, s1)" using reads_member unfolding reads_def by metis
  then have t: "z_entry_count s1 = z_entry_count s" "z_members_inspected s1 = z_members_inspected s"
    "z_archive_count s1 = z_archive_count s"
    by (auto simp: read_effect_def bytes_changed_def mark_defs split: sum.splits member_exn.splits)
  with visit_tallies [of lib l archive info depth s] r
  show "z_entry_count (step_state (visit_member lib l archive info depth s)) = z_entry_count s"
    "z_members_inspected (step_state (visit_member lib l archive info depth s)) = z_members_inspected s"
    "z_archive_count (step_state (visit_member lib l archive info depth s)) = z_archive_count s"
    by (auto simp: tallies_def)
  show "visit_member lib l archive info depth s = Leave t \<Longrightarrow> z_partial_reasons t \<noteq> []"
    using e r
    by (auto simp: visit_member_def after_read_def read_effect_def mark_defs Let_def
        split: if_splits sum.splits member_exn.splits option.splits)
qed

interpretation counted: traversal lib l "\<lambda>_. True" "\<lambda>_ s s'. all_counted s 0 s'" "\<lambda>_ k s s'. all_counted s k s'"
  for lib l
proof unfold_locales
  show "all_counted s 0 s'" if "open_archive lib l src n depth s = (Inr None, s')" for src n depth s s'
    using that by (auto simp: all_counted_def open_archive_def mark_defs Let_def split: if_splits sum.splits)
  show "all_counted s 0 s'" if "open_archive lib l src n depth s = (Inr (Some (archive, infos)), s1)"
      "all_counted s1 (length infos) s'" for src n depth s archive infos s1 s'
  proof -
    have "set (z_partial_reasons s) \<subseteq> set (z_partial_reasons s1)"
      "z_partial_reasons s1 = [] \<longrightarrow> z_entry_count s1 = z_entry_count s + length infos \<and>
         z_members_inspected s1 = z_members_inspected s"
      using that(1) by (auto simp: open_archive_def mark_defs Let_def split: if_splits sum.splits)
    with that(2) show ?thesis unfolding all_counted_def
      by (cases "z_partial_reasons s1") (auto intro: exI [of _ "length infos + _"])
  qed
  show "all_counted s 0 s" for s by (simp add: all_counted_def)
  show "all_counted s (Suc k) (mark_resource ''member_inspection_limit'' s)" for s k
    by (auto simp: all_counted_def mark_defs)
next
  fix s s1 s2 s3 s' depth k info archive b
  assume n: "named (s\<lparr>z_members_inspected := Suc (z_members_inspected s)\<rparr>) s1"
  let ?v = "visit_member lib l archive info depth s1"
  have c: "set (z_partial_reasons s) \<subseteq> set (z_partial_reasons (step_state ?v))"
    "z_entry_count (step_state ?v) = z_entry_count s" "z_members_inspected (step_state ?v) = Suc (z_members_inspected s)"
    using n visit_grown [of s1 lib l archive info depth] visit_counts(1,2) [of lib l archive info depth s1]
    by (auto simp: named_def grown_def tallies_def)
  show "all_counted s (Suc k) s'" if "?v = Go_On s2" "all_counted s2 k s'"
    using c that by (auto simp: all_counted_def)
  show "all_counted s (Suc k) s2" if "?v = Leave s2"
    using c that visit_counts(3) [OF that] by (auto simp: all_counted_def)
  show "all_counted s (Suc k) s'" if "?v = Descend b s2" "all_counted s2 0 s3" "all_counted s3 k s'"
    using c that by (cases "z_partial_reasons s3") (auto simp: all_counted_def intro: exI [of _ "_ + _"])
qed auto

text \<open>Each archive below the top was read out of a member of its own.\<close>

definition one_per_member :: "nat \<Rightarrow> archive_state \<Rightarrow> archive_state \<Rightarrow> bool" where
  "one_per_member e s s' \<longleftrightarrow>
     z_archive_count s' + z_members_inspected s \<le> z_archive_count s + z_members_inspected s' + e"

interpretation opened: traversal lib l "\<lambda>_. True" "\<lambda>_. one_per_member 1" "\<lambda>_ _. one_per_member 0" for lib l
proof unfold_locales
  show "one_per_member 1 s s'" if "open_archive lib l src n depth s = (Inr None, s')" for src n depth s s'
    using that by (auto simp: one_per_member_def open_archive_def mark_defs Let_def split: if_splits sum.splits)
  show "one_per_member 1 s s'" if "open_archive lib l src n depth s = (Inr (Some (archive, infos)), s1)"
      "one_per_member 0 s1 s'" for src n depth s archive infos s1 s'
    using that by (auto simp: one_per_member_def open_archive_def mark_defs Let_def split: if_splits sum.splits)
  show "one_per_member 0 s s" for s by (simp add: one_per_member_def)
  show "one_per_member 0 s (mark_resource ''member_inspection_limit'' s)" for s
    by (simp add: one_per_member_def mark_defs)
next
  fix s s1 s2 s3 s' depth info archive b
  assume n: "named (s\<lparr>z_members_inspected := Suc (z_members_inspected s)\<rparr>) s1"
  let ?v = "visit_member lib l archive info depth s1"
  have c: "z_archive_count (step_state ?v) = z_archive_count s"
    "z_members_inspected (step_state ?v) = Suc (z_members_inspected s)"
    using n visit_counts(2,4) [of lib l archive info depth s1] by (auto simp: named_def tallies_def)
  show "one_per_member 0 s s'" if "?v = Go_On s2" "one_per_member 0 s2 s'"
    using c that by (simp add: one_per_member_def)
  show "one_per_member 0 s s2" if "?v = Leave s2" using c that by (simp add: one_per_member_def)
  show "one_per_member 0 s s'"
    if "?v = Descend b s2" "one_per_member 1 s2 s3" "one_per_member 0 s3 s'"
    using c that by (simp add: one_per_member_def)
qed auto

end
