(* ===== verification/Archive_Results.thy ===== *)
theory Archive_Results
  imports Archive_Properties
begin

text \<open>
  The results of the ZIP inspection: its byte budgets, what a complete result says about the
  container, and which names it cannot have missed.
\<close>

section \<open>Byte budgets\<close>

text \<open>The documented behaviour of a read: at most as many bytes as were asked for.\<close>

definition streams_ok :: "zip_archive \<Rightarrow> bool" where
  "streams_ok archive \<longleftrightarrow> (\<forall>info stream p n c. za_open archive info = Inr stream \<longrightarrow>
     stream p n = Inr c \<longrightarrow> length c \<le> n)"

definition reads_ok :: "zip_lib \<Rightarrow> bool" where
  "reads_ok lib \<longleftrightarrow> (\<forall>src archive. zl_open lib src = Inr archive \<longrightarrow> streams_ok archive)"

definition spends :: "archive_limits \<Rightarrow> archive_state \<Rightarrow> (member_exn + 'a) \<times> archive_state \<Rightarrow> bool" where
  "spends l s r \<longleftrightarrow> z_nested_archive_bytes (snd r) \<le> max_nested_archive_bytes l \<and>
     (let spent = z_actual_decompressed_bytes (snd r);
          before = max (z_actual_decompressed_bytes s) (max_total_decompressed_bytes l) in
      case fst r of Inl Resource_Stop \<Rightarrow> spent \<le> Suc before
      | Inl (Lib_Error _) \<Rightarrow> spent \<le> before
      | Inr _ \<Rightarrow> spent \<le> max_total_decompressed_bytes l)"

lemma account_spends:
  assumes "account_actual_bytes l chunk mb s = (r, t)"
    and "length chunk \<le> next_read_size l mb s preferred nested"
    and "z_nested_archive_bytes s \<le> max_nested_archive_bytes l"
  shows "spends l s (r, t)"
proof -
  have "z_actual_decompressed_bytes s + length chunk \<le>
      Suc (max (z_actual_decompressed_bytes s) (max_total_decompressed_bytes l))"
    using assms(2) by (auto simp: next_read_size_def Let_def split: if_splits)
  with assms show ?thesis
    by (auto simp: account_actual_bytes_def spends_def mark_defs Let_def split: if_splits)
qed

lemma append_spends:
  assumes "append_nested l chunk target s = (r, t)"
    and "z_nested_archive_bytes s \<le> max_nested_archive_bytes l"
    and "z_actual_decompressed_bytes s \<le> max_total_decompressed_bytes l"
  shows "spends l s (r, t)"
  using assms by (auto simp: append_nested_def spends_def mark_defs split: if_splits)

text \<open>Once a read is accounted for, the total is within its budget, and later steps start there.\<close>

lemma spends_trans:
  assumes "spends l s (Inr x, t)" "spends l t r"
  shows "spends l s r"
proof -
  have "max (z_actual_decompressed_bytes t) (max_total_decompressed_bytes l) = max_total_decompressed_bytes l"
    using assms(1) by (simp add: spends_def)
  with assms show ?thesis
    by (auto simp: spends_def Let_def split: sum.splits member_exn.splits)
qed

lemma take_chunk_spends:
  assumes "length chunk \<le> next_read_size l mb s preferred flag"
    and "z_nested_archive_bytes s \<le> max_nested_archive_bytes l"
  shows "spends l s (take_chunk l chunk mb nested s)"
proof -
  obtain r t where a: "account_actual_bytes l chunk mb s = (r, t)" by fastforce
  note sp = account_spends [OF a assms]
  show ?thesis
  proof (cases r)
    case (Inl e)
    with a sp show ?thesis
      by (cases e) (simp_all add: take_chunk_def bindE_def spends_def)
  next
    case (Inr mb')
    show ?thesis
    proof (cases nested)
      case None
      with a sp Inr show ?thesis by (simp add: take_chunk_def bindE_def returnE_def spends_def)
    next
      case (Some data)
      obtain q v where b: "append_nested l chunk data t = (q, v)" by fastforce
      have "spends l t (q, v)" using sp Inr by (intro append_spends [OF b]) (simp_all add: spends_def)
      with sp Inr have "spends l s (q, v)" by (metis spends_trans)
      with a b Inr Some show ?thesis
        by (cases q) (auto simp: take_chunk_def bindE_def returnE_def spends_def split: member_exn.splits)
    qed
  qed
qed

lemma read_rest_spends:
  assumes "\<And>p n c. stream p n = Inr c \<Longrightarrow> length c \<le> n"
    and "z_nested_archive_bytes s \<le> max_nested_archive_bytes l"
    and "z_actual_decompressed_bytes s \<le> max_total_decompressed_bytes l"
  shows "spends l s (read_rest l stream mb nested s)"
  using assms
proof (induction l stream mb nested s rule: read_rest.induct)
  case (1 l stream mb nested s)
  let ?n = "next_read_size l mb s READ_CHUNK_BYTES (nested \<noteq> None)"
  show ?case
  proof (cases "stream mb ?n")
    case (Inl e)
    then show ?thesis using 1(3,4) by (subst read_rest.simps) (simp add: spends_def)
  next
    case (Inr chunk)
    show ?thesis
    proof (cases "chunk = []")
      case True
      then show ?thesis using 1(3,4) Inr by (subst read_rest.simps) (simp add: spends_def)
    next
      case False
      obtain r t where c: "take_chunk l chunk mb nested s = (r, t)" by fastforce
      have sp: "spends l s (r, t)" using take_chunk_spends [OF 1(2) [OF Inr] 1(3), of nested] c by simp
      show ?thesis
      proof (cases r)
        case (Inl e)
        with c False Inr sp show ?thesis
          by (subst read_rest.simps) (cases e, simp_all add: spends_def)
      next
        case r: (Inr p)
        obtain mb' n' where p: "p = (mb', n')" by fastforce
        have t: "z_nested_archive_bytes t \<le> max_nested_archive_bytes l"
          "z_actual_decompressed_bytes t \<le> max_total_decompressed_bytes l"
          using sp r by (simp_all add: spends_def)
        have "spends l t (read_rest l stream mb' n' t)"
          using 1(1) [OF Inr False c [symmetric] r p [symmetric]] 1(2) t by blast
        from spends_trans [OF sp [unfolded r] this] have "spends l s (read_rest l stream mb' n' t)" .
        with c False Inr r p show ?thesis by (subst read_rest.simps) simp
      qed
    qed
  qed
qed

lemma read_member_spends:
  assumes "streams_ok archive" "z_nested_archive_bytes s \<le> max_nested_archive_bytes l"
  shows "spends l s (read_member l archive info s)"
proof (cases "za_open archive info")
  case (Inl e)
  with assms(2) show ?thesis by (simp add: read_member_def libraryE_def bindE_def raiseE_def spends_def)
next
  case stream: (Inr stream)
  with assms(1) have b: "\<And>p n c. stream p n = Inr c \<Longrightarrow> length c \<le> n" unfolding streams_ok_def by blast
  let ?n = "next_read_size l 0 s 4 False"
  show ?thesis
  proof (cases "stream 0 ?n")
    case (Inl e)
    with assms(2) stream show ?thesis
      by (simp add: read_member_def libraryE_def bindE_def raiseE_def returnE_def getE_def spends_def)
  next
    case first: (Inr first)
    obtain r t where a: "account_actual_bytes l first 0 s = (r, t)" by fastforce
    note sp = account_spends [OF a b [OF first] assms(2)]
    note d = read_member_def libraryE_def bindE_def returnE_def getE_def stream first a
    show ?thesis
    proof (cases r)
      case (Inl e)
      with sp show ?thesis by (cases e) (simp_all add: d spends_def)
    next
      case (Inr mb)
      with sp have t: "z_nested_archive_bytes t \<le> max_nested_archive_bytes l"
        "z_actual_decompressed_bytes t \<le> max_total_decompressed_bytes l"
        by (simp_all add: spends_def)
      have rest: "spends l s (read_rest l stream mb None t)" "spends l s (Inr None :: _ + bytes option, t)"
        using spends_trans [OF sp [unfolded Inr] read_rest_spends [OF b t]] sp Inr by (simp_all add: spends_def)
      obtain q v where n: "append_nested l first [] t = (q, v)" by fastforce
      note sv = spends_trans [OF sp [unfolded Inr] append_spends [OF n t]]
      have "spends l s (read_rest l stream mb (Some data) v)" if "q = Inr data" for data
      proof -
        have "z_nested_archive_bytes v \<le> max_nested_archive_bytes l"
          "z_actual_decompressed_bytes v \<le> max_total_decompressed_bytes l"
          using sv that by (simp_all add: spends_def)
        from spends_trans [OF sv [unfolded that] read_rest_spends [OF b this]] show ?thesis by simp
      qed
      with Inr rest n sv show ?thesis
        by (cases q) (auto simp: d spends_def split: member_exn.splits)
    qed
  qed
qed

text \<open>The traversal: an archive at depth \<open>d\<close> that starts within the budget exceeds it by at most
  one byte for each archive that is still open when the budget runs out.\<close>

definition overdraft :: "archive_limits \<Rightarrow> nat \<Rightarrow> archive_state \<Rightarrow> archive_state \<Rightarrow> bool" where
  "overdraft l d s s' \<longleftrightarrow> (d \<le> max_nesting_depth l \<longrightarrow>
     z_nested_archive_bytes s \<le> max_nested_archive_bytes l \<longrightarrow>
     z_actual_decompressed_bytes s \<le> max_total_decompressed_bytes l \<longrightarrow>
     z_nested_archive_bytes s' \<le> max_nested_archive_bytes l \<and>
     z_actual_decompressed_bytes s' \<le> max_total_decompressed_bytes l + Suc (max_nesting_depth l - d))"

definition overdraft_members :: "archive_limits \<Rightarrow> nat \<Rightarrow> archive_state \<Rightarrow> archive_state \<Rightarrow> bool" where
  "overdraft_members l d s s' \<longleftrightarrow> (d \<le> max_nesting_depth l \<longrightarrow>
     z_nested_archive_bytes s \<le> max_nested_archive_bytes l \<longrightarrow>
     z_actual_decompressed_bytes s \<le> max_total_decompressed_bytes l + (max_nesting_depth l - d) \<longrightarrow>
     z_nested_archive_bytes s' \<le> max_nested_archive_bytes l \<and>
     z_actual_decompressed_bytes s' \<le> max_total_decompressed_bytes l + Suc (max_nesting_depth l - d))"

lemma visit_spends:
  assumes "streams_ok archive" "z_nested_archive_bytes s \<le> max_nested_archive_bytes l"
    and v: "v = visit_member lib l archive info depth s"
  shows "z_nested_archive_bytes (step_state v) \<le> max_nested_archive_bytes l"
    and "z_actual_decompressed_bytes (step_state v) \<le>
      Suc (max (z_actual_decompressed_bytes s) (max_total_decompressed_bytes l))"
    and "v = Go_On t \<Longrightarrow> z_actual_decompressed_bytes t \<le>
      max (z_actual_decompressed_bytes s) (max_total_decompressed_bytes l)"
    and "v = Descend b t \<Longrightarrow> z_actual_decompressed_bytes t \<le> max_total_decompressed_bytes l"
proof -
  note sp = read_member_spends [OF assms(1,2), of info]
  from visit_tallies [of lib l archive info depth s]
  show "z_nested_archive_bytes (step_state v) \<le> max_nested_archive_bytes l"
    "z_actual_decompressed_bytes (step_state v) \<le>
      Suc (max (z_actual_decompressed_bytes s) (max_total_decompressed_bytes l))"
    "v = Go_On t \<Longrightarrow> z_actual_decompressed_bytes t \<le>
      max (z_actual_decompressed_bytes s) (max_total_decompressed_bytes l)"
    "v = Descend b t \<Longrightarrow> z_actual_decompressed_bytes t \<le> max_total_decompressed_bytes l"
    using sp assms(2)
    by (auto simp: v [symmetric] tallies_def spends_def Let_def max_def
        split: sum.splits member_exn.splits if_splits)
qed

definition lib_streams :: "zip_lib \<Rightarrow> zip_archive \<Rightarrow> bool" where
  "lib_streams lib archive \<longleftrightarrow> (reads_ok lib \<longrightarrow> streams_ok archive)"

interpretation spending: traversal lib l "lib_streams lib"
  "\<lambda>d s s'. reads_ok lib \<longrightarrow> overdraft l d s s'" "\<lambda>d k s s'. reads_ok lib \<longrightarrow> overdraft_members l d s s'"
  for lib l
proof unfold_locales
  show "zl_open lib src = Inr archive \<Longrightarrow> lib_streams lib archive" for src archive
    by (auto simp: lib_streams_def reads_ok_def)
  have o: "z_nested_archive_bytes s1 = z_nested_archive_bytes s \<and>
      z_actual_decompressed_bytes s1 = z_actual_decompressed_bytes s"
    if "open_archive lib l src n depth s = (r, s1)" for src n depth s r s1
    using that by (auto simp: open_archive_def mark_defs Let_def split: if_splits sum.splits)
  show "reads_ok lib \<longrightarrow> overdraft l depth s s'" if "open_archive lib l src n depth s = (Inr None, s')"
    for src n depth s s' using o [OF that] by (auto simp: overdraft_def)
  show "reads_ok lib \<longrightarrow> overdraft l depth s s'"
    if "open_archive lib l src n depth s = (Inr (Some (archive, infos)), s1)"
      "reads_ok lib \<longrightarrow> overdraft_members l depth s1 s'" for src n depth s archive infos s1 s'
    using o [OF that(1)] that(2) by (auto simp: overdraft_def overdraft_members_def)
  show "reads_ok lib \<longrightarrow> overdraft_members l depth s s" for depth s by (auto simp: overdraft_members_def)
  show "reads_ok lib \<longrightarrow> overdraft_members l depth s (mark_resource ''member_inspection_limit'' s)" for depth s
    by (auto simp: overdraft_members_def mark_defs)
next
  fix archive depth info s s1 s2 s3 s' b
  assume st: "lib_streams lib archive" and n: "named (s\<lparr>z_members_inspected := Suc (z_members_inspected s)\<rparr>) s1"
  let ?v = "visit_member lib l archive info depth s1"
  have n: "z_nested_archive_bytes s1 = z_nested_archive_bytes s"
    "z_actual_decompressed_bytes s1 = z_actual_decompressed_bytes s"
    using n by (auto simp: named_def tallies_def)
  have v: "z_nested_archive_bytes (step_state ?v) \<le> max_nested_archive_bytes l"
    "z_actual_decompressed_bytes (step_state ?v) \<le>
      Suc (max (z_actual_decompressed_bytes s) (max_total_decompressed_bytes l))"
    "?v = Go_On t \<Longrightarrow> z_actual_decompressed_bytes t \<le>
      max (z_actual_decompressed_bytes s) (max_total_decompressed_bytes l)"
    "?v = Descend b t \<Longrightarrow> z_actual_decompressed_bytes t \<le> max_total_decompressed_bytes l"
    if "reads_ok lib" "z_nested_archive_bytes s \<le> max_nested_archive_bytes l" for t b
    using visit_spends [of archive s1 l ?v lib info depth, OF _ _ refl] st that n by (simp_all add: lib_streams_def)
  show "reads_ok lib \<longrightarrow> overdraft_members l depth s s'"
    if "?v = Go_On s2" "reads_ok lib \<longrightarrow> overdraft_members l depth s2 s'"
    using v(1,3) that by (fastforce simp: overdraft_members_def)
  show "reads_ok lib \<longrightarrow> overdraft_members l depth s s2" if "?v = Leave s2"
    using v(1,2) that by (fastforce simp: overdraft_members_def)
  show "reads_ok lib \<longrightarrow> overdraft_members l depth s s'"
    if "?v = Descend b s2" "reads_ok lib \<longrightarrow> overdraft l (Suc depth) s2 s3"
      "reads_ok lib \<longrightarrow> overdraft_members l depth s3 s'"
    using v(1,4) that visit_descends [OF that(1)] by (fastforce simp: overdraft_members_def overdraft_def)
qed

section \<open>Names that cannot be missed\<close>

definition flagged :: "zip_lib \<Rightarrow> zip_info \<Rightarrow> archive_state \<Rightarrow> bool" where
  "flagged lib info s \<longleftrightarrow> (let name = zi_filename info in
     (traverses name \<longrightarrow> 0 < z_traversal_count s) \<and> (is_absolute name \<longrightarrow> 0 < z_absolute_path_count s) \<and>
     (final_extension (zl_casefold lib) name \<in> Some ` set DANGEROUS_EXTENSIONS \<longrightarrow> 0 < z_dangerous_member_count s) \<and>
     (has_dangerous_double_extension (zl_casefold lib) name \<longrightarrow> 0 < z_double_extension_count s) \<and>
     (bidi_codepoints name \<noteq> [] \<longrightarrow> 0 < z_bidi_member_count s))"

definition link_flagged :: "zip_info \<Rightarrow> archive_state \<Rightarrow> bool" where
  "link_flagged info s \<longleftrightarrow> (\<not> is_dir info \<and> is_symlink info \<longrightarrow> 0 < z_symlink_count s)"

lemma flagged_grown: "flagged lib info s \<Longrightarrow> grown s t \<Longrightarrow> flagged lib info t"
  by (auto simp: flagged_def grown_def Let_def)

lemma link_flagged_grown: "link_flagged info s \<Longrightarrow> grown s t \<Longrightarrow> link_flagged info t"
  by (auto simp: link_flagged_def grown_def)

text \<open>Each of the steps on a name leaves the counters of the earlier steps at least where they were.\<close>

lemma retain_counts:
  "grown s (retain_record lib l get z_traversal_records_update name depth extra maximum s)"
  "grown s (retain_record lib l get z_absolute_path_records_update name depth extra maximum s)"
  "grown s (retain_record lib l get z_symlink_records_update name depth extra maximum s)"
  "grown s (retain_record lib l get z_dangerous_records_update name depth extra maximum s)"
  "grown s (retain_record lib l get z_double_extension_records_update name depth extra maximum s)"
  "grown s (retain_record lib l get z_bidi_records_update name depth extra maximum s)"
  by (rule growth.records_kept [OF grown_refl])+

lemma retained_positive:
  "0 < z_traversal_count (retain_record lib l get z_traversal_records_update name depth extra maximum
     (s\<lparr>z_traversal_count := Suc n\<rparr>))"
  "0 < z_absolute_path_count (retain_record lib l get z_absolute_path_records_update name depth extra maximum
     (s\<lparr>z_absolute_path_count := Suc n\<rparr>))"
  "0 < z_symlink_count (retain_record lib l get z_symlink_records_update name depth extra maximum
     (s\<lparr>z_symlink_count := Suc n\<rparr>))"
  "0 < z_dangerous_member_count (retain_record lib l get z_dangerous_records_update name depth extra maximum
     (s\<lparr>z_dangerous_member_count := Suc n\<rparr>))"
  "0 < z_double_extension_count (retain_record lib l get z_double_extension_records_update name depth extra maximum
     (s\<lparr>z_double_extension_count := Suc n\<rparr>))"
  "0 < z_bidi_member_count (retain_record lib l get z_bidi_records_update name depth extra maximum
     (s\<lparr>z_bidi_member_count := Suc n\<rparr>))"
  using retain_counts(1) [of "s\<lparr>z_traversal_count := Suc n\<rparr>" lib l get name depth extra maximum]
    retain_counts(2) [of "s\<lparr>z_absolute_path_count := Suc n\<rparr>" lib l get name depth extra maximum]
    retain_counts(3) [of "s\<lparr>z_symlink_count := Suc n\<rparr>" lib l get name depth extra maximum]
    retain_counts(4) [of "s\<lparr>z_dangerous_member_count := Suc n\<rparr>" lib l get name depth extra maximum]
    retain_counts(5) [of "s\<lparr>z_double_extension_count := Suc n\<rparr>" lib l get name depth extra maximum]
    retain_counts(6) [of "s\<lparr>z_bidi_member_count := Suc n\<rparr>" lib l get name depth extra maximum]
  by (auto simp: grown_def)

lemma step_grown:
  "grown s (inspect_paths lib l name depth s)" "grown s (snd (inspect_duplicate lib l name depth seen s))"
  "grown s (inspect_extensions lib l name depth s)" "grown s (inspect_bidi lib l name depth s)"
  unfolding inspect_paths_def inspect_duplicate_def inspect_extensions_def inspect_bidi_def Let_def
  by (auto intro!: growth.records_kept growth.duplicate_kept growth.observed split: option.split)

lemma paths_flagged:
  "traverses name \<Longrightarrow> 0 < z_traversal_count (inspect_paths lib l name depth s)"
  "is_absolute name \<Longrightarrow> 0 < z_absolute_path_count (inspect_paths lib l name depth s)"
proof -
  let ?s = "s\<lparr>z_traversal_count := Suc (z_traversal_count s)\<rparr>"
  let ?s1 = "retain_record lib l z_traversal_records z_traversal_records_update name depth [] (max_traversal_records l) ?s"
  assume t: "traverses name"
  have g: "0 < z_traversal_count ?s1" by (rule retained_positive)
  have "grown ?s1 (inspect_paths lib l name depth s)"
    using t growth.records_kept(2) [OF growth.observed(2) [OF grown_refl]]
    by (auto simp: inspect_paths_def Let_def)
  with g show "0 < z_traversal_count (inspect_paths lib l name depth s)" by (auto simp: grown_def)
next
  assume "is_absolute name"
  then show "0 < z_absolute_path_count (inspect_paths lib l name depth s)"
    by (simp add: inspect_paths_def Let_def retained_positive)
qed

lemma extensions_flagged:
  "final_extension (zl_casefold lib) name \<in> Some ` set DANGEROUS_EXTENSIONS \<Longrightarrow>
     0 < z_dangerous_member_count (inspect_extensions lib l name depth s)"
  "has_dangerous_double_extension (zl_casefold lib) name \<Longrightarrow>
     0 < z_double_extension_count (inspect_extensions lib l name depth s)"
proof -
  let ?s = "s\<lparr>z_dangerous_member_count := Suc (z_dangerous_member_count s)\<rparr>"
  let ?s1 = "retain_record lib l z_dangerous_records z_dangerous_records_update name depth
     (obj [(''extension'', jopt (final_extension (zl_casefold lib) name))]) (max_suspicious_member_names l) ?s"
  assume t: "final_extension (zl_casefold lib) name \<in> Some ` set DANGEROUS_EXTENSIONS"
  have g: "0 < z_dangerous_member_count ?s1" by (rule retained_positive)
  have "grown ?s1 (inspect_extensions lib l name depth s)"
    using t growth.records_kept(5) [OF growth.observed(5) [OF grown_refl]]
    by (auto simp: inspect_extensions_def Let_def)
  with g show "0 < z_dangerous_member_count (inspect_extensions lib l name depth s)" by (auto simp: grown_def)
next
  assume "has_dangerous_double_extension (zl_casefold lib) name"
  then show "0 < z_double_extension_count (inspect_extensions lib l name depth s)"
    by (simp add: inspect_extensions_def Let_def retained_positive)
qed

lemma name_flagged:
  assumes "inspect_name lib l info depth seen s = (seen', s')"
  shows "flagged lib info s'"
proof -
  let ?name = "zi_filename info"
  define s1 where "s1 = inspect_paths lib l ?name depth s"
  define s2 where "s2 = snd (inspect_duplicate lib l ?name depth seen s1)"
  define s3 where "s3 = inspect_extensions lib l ?name depth s2"
  have s': "s' = inspect_bidi lib l ?name depth s3"
    using assms by (auto simp: inspect_name_def s1_def s2_def s3_def Let_def split: prod.splits)
  have g: "grown s1 s2" "grown s2 s3" "grown s3 s'"
    using step_grown by (simp_all add: s2_def s3_def s')
  have "bidi_codepoints ?name \<noteq> [] \<Longrightarrow> 0 < z_bidi_member_count s'"
    by (simp add: s' inspect_bidi_def Let_def retained_positive)
  moreover note paths_flagged [of ?name lib l depth s, folded s1_def]
    extensions_flagged [of lib ?name l depth s2, folded s3_def]
  ultimately show ?thesis
    using g by (auto simp: flagged_def grown_def Let_def)
qed

lemma visit_link_flagged: "link_flagged info (step_state (visit_member lib l archive info depth s))"
  by (simp add: link_flagged_def visit_member_def retained_positive)

lemma members_flagged:
  assumes "inspect_members lib l archive depth infos seen s = (Inr (), s')" "info \<in> set infos"
  shows "z_partial_reasons s' \<noteq> [] \<or> flagged lib info s' \<and> link_flagged info s'"
  using assms
proof (induction infos arbitrary: seen s)
  case (Cons i infos)
  note loop = inspect_members.simps(2) [of lib l archive depth i infos seen s]
  let ?s = "s\<lparr>z_members_inspected := Suc (z_members_inspected s)\<rparr>"
  obtain seen' s1 where n: "inspect_name lib l i depth seen ?s = (seen', s1)" by fastforce
  let ?v = "visit_member lib l archive i depth s1"
  show ?case
  proof (cases "max_members_inspected l \<le> z_members_inspected s")
    case True
    with Cons.prems(1) show ?thesis by (auto simp: loop mark_defs)
  next
    case False
    have now: "flagged lib i (step_state ?v)" "link_flagged i (step_state ?v)"
      using flagged_grown [OF name_flagged [OF n] visit_grown] visit_link_flagged by blast+
    have later: "z_partial_reasons s' \<noteq> [] \<or> flagged lib info s' \<and> link_flagged info s'"
      if "inspect_members lib l archive depth infos seen' t = (Inr (), s')" "grown (step_state ?v) t" for t
    proof (cases "info = i")
      case True
      have "grown t s'" using growth.inspection_kept(2) [OF grown_refl, of t lib l archive depth infos seen']
        that(1) by simp
      with that(2) now True show ?thesis by (metis flagged_grown grown_trans link_flagged_grown)
    next
      case False
      with Cons that show ?thesis by simp
    qed
    show ?thesis
    proof (cases ?v)
      case (Go_On t)
      with Cons.prems(1) False n later [of t] show ?thesis by (simp add: loop)
    next
      case (Leave t)
      with Cons.prems(1) False n visit_counts(3) [OF Leave] show ?thesis by (simp add: loop)
    next
      case (Fail e t)
      with Cons.prems(1) False n show ?thesis by (simp add: loop)
    next
      case (Descend b t)
      obtain r t2 where a: "inspect_archive lib l (Nested_Bytes b) (length b) (Suc depth) t = (r, t2)" by fastforce
      then have "grown t t2"
        using growth.inspection_kept(1) [OF grown_refl, of t lib l "Nested_Bytes b" "length b" "Suc depth"] by simp
      with Cons.prems(1) False n Descend a later [of t2] show ?thesis
        by (auto simp: loop split: sum.splits)
    qed
  qed
qed simp

section \<open>The result\<close>

lemma initial_simps [simp]:
  "z_members_inspected initial_state = 0" "z_entry_count initial_state = 0"
  "z_archive_count initial_state = 0" "z_actual_decompressed_bytes initial_state = 0" "z_nested_archive_bytes initial_state = 0"
  by (simp_all add: initial_state_def)

text \<open>Every analysis is the result of a state in which the invariants hold.\<close>

lemma analysis_state:
  assumes "analyze_archive lib l sample_size family = Inr a"
  obtains (unavailable) e where "sample_size = Inl e"
      "a = archive_result lib l (mark_malformed ''archive_input_unavailable'' (Some e) initial_state)"
  | (inspected) n s where "sample_size = Inr n" "inspect_archive lib l Sample_Path n 0 initial_state = (Inr (), s)"
      "a = archive_result lib l s" "within_budget l s" "unspoiled s"
proof (cases sample_size)
  case (Inl e)
  with assms show ?thesis by (intro unavailable [of e]) (auto simp: analyze_archive_def split: if_splits)
next
  case (Inr n)
  with assms obtain s where s: "inspect_archive lib l Sample_Path n 0 initial_state = (Inr (), s)"
    "a = archive_result lib l s"
    by (auto simp: analyze_archive_def split: if_splits sum.splits prod.splits)
  have "within_budget l initial_state" "unspoiled initial_state"
    by (simp_all add: initial_state_def within_budget_def retained_records_def unspoiled_def)
  with budget.inspection_kept(1) [of l initial_state lib Sample_Path n 0]
    completeness.inspection_kept(1) [of initial_state lib l Sample_Path n 0] s Inr
  show ?thesis by (intro inspected [of n s]) simp_all
qed

lemma metadata_counts:
  "jget (archive_metadata lib s) ''members_inspected'' = Some (jcount (z_members_inspected s))"
  "jget (archive_metadata lib s) ''entry_count'' = Some (jcount (z_entry_count s))"
  "jget (archive_metadata lib s) ''actual_decompressed_bytes'' = Some (jcount (z_actual_decompressed_bytes s))"
  "jget (archive_metadata lib s) ''nested_archive_bytes_materialized'' = Some (jcount (z_nested_archive_bytes s))"
  "jget (archive_metadata lib s) ''archive_count'' = Some (jcount (z_archive_count s))"
  "jget (archive_metadata lib s) ''unsupported_compression_member_count'' = Some (jcount (z_unsupported_method_count s))"
  by (simp_all add: archive_metadata_def)

lemma length_mandatory: "length (filter (\<lambda>f. fst f \<in> set mandatory_codes) (archive_findings l s)) \<le> 4"
  by (simp add: archive_findings_def counted_finding_def mandatory_codes_def)

definition final_state :: "archive_limits \<Rightarrow> archive_state \<Rightarrow> archive_state" where
  "final_state l s = snd (bounded_findings l s)"

lemma result_simps:
  "aa_parser_status (archive_result lib l s) = parser_status_of (final_state l s)"
  "aa_findings (archive_result lib l s) = fst (bounded_findings l s)"
  "aa_metadata (archive_result lib l s) = archive_metadata lib (final_state l s)"
  by (simp_all add: archive_result_def final_state_def split: prod.split)

lemma final_state_cases:
  obtains "final_state l s = s" "fst (bounded_findings l s) = archive_findings l s"
  | "final_state l s = mark_resource ''finding_limit'' s"
    "archive_limits_ok l \<Longrightarrow> set (filter (\<lambda>f. fst f \<in> set mandatory_codes) (archive_findings l (final_state l s))) \<subseteq>
       set (fst (bounded_findings l s))"
proof (cases "length (archive_findings l s) \<le> max_archive_findings l")
  case False
  let ?s = "mark_resource ''finding_limit'' s"
  have "length (filter (\<lambda>f. fst f \<in> set mandatory_codes) (archive_findings l ?s)) \<le> max_archive_findings l"
    if "archive_limits_ok l" using length_mandatory [of l ?s] that by (simp add: archive_limits_ok_def)
  with False show ?thesis
    by (intro that(2)) (auto simp: final_state_def bounded_findings_def Let_def)
qed (intro that(1), simp_all add: final_state_def bounded_findings_def)

lemma length_bounded: "length (fst (bounded_findings l s)) \<le> max_archive_findings l"
  by (auto simp: bounded_findings_def Let_def simp del: take_append)

text \<open>C35. The budgets hold whatever the container holds: the members looked at, the bytes kept of
  nested archives and the findings stay within their limits; at most one archive more than
  members is opened (the container itself), each nested one out of a member of its own; and the
  bytes actually decompressed exceed \<open>max_total_decompressed_bytes\<close> by at most one byte for the
  container and one for each level of nesting, provided a read never delivers more bytes than
  were asked for.\<close>

theorem archive_budgets_hold:
  assumes "analyze_archive lib l sample_size family = Inr a" and "reads_ok lib"
  shows "\<exists>m d k c. jget (aa_metadata a) ''members_inspected'' = Some (jcount m) \<and> m \<le> max_members_inspected l \<and>
     jget (aa_metadata a) ''archive_count'' = Some (jcount c) \<and> c \<le> Suc m \<and>
     jget (aa_metadata a) ''actual_decompressed_bytes'' = Some (jcount d) \<and>
     d \<le> max_total_decompressed_bytes l + Suc (max_nesting_depth l) \<and>
     jget (aa_metadata a) ''nested_archive_bytes_materialized'' = Some (jcount k) \<and>
     k \<le> max_nested_archive_bytes l \<and> length (aa_findings a) \<le> max_archive_findings l"
proof -
  have final: "z_members_inspected (final_state l s) = z_members_inspected s"
    "z_actual_decompressed_bytes (final_state l s) = z_actual_decompressed_bytes s"
    "z_nested_archive_bytes (final_state l s) = z_nested_archive_bytes s"
    "z_archive_count (final_state l s) = z_archive_count s" for s
    by (cases rule: final_state_cases [of l s]; simp add: mark_defs)+
  have result: ?thesis if "a = archive_result lib l s" "z_members_inspected s \<le> max_members_inspected l"
      "z_actual_decompressed_bytes s \<le> max_total_decompressed_bytes l + Suc (max_nesting_depth l)"
      "z_nested_archive_bytes s \<le> max_nested_archive_bytes l"
      "z_archive_count s \<le> Suc (z_members_inspected s)" for s
    using that length_bounded [of l s] by (auto simp: result_simps metadata_counts final)
  from assms(1) show ?thesis
  proof (cases rule: analysis_state)
    case (unavailable e)
    show ?thesis
      by (rule result [OF unavailable(2)])
        (use update_tallies(15) [of "''archive_input_unavailable''" "Some e" initial_state] in
          \<open>simp_all add: tallies_def\<close>)
  next
    case (inspected n s)
    with spending.traversed(1) assms(2) have "overdraft l 0 initial_state s" by blast
    moreover have "one_per_member 1 initial_state s" using opened.traversed(1) inspected(2) by blast
    ultimately show ?thesis using inspected(4)
      by (intro result [OF inspected(3)]) (simp_all add: overdraft_def within_budget_def one_per_member_def)
  qed
qed

text \<open>A final state with a reason is reported as such; one without is reported in full.\<close>

lemma partial_result:
  assumes "z_partial_reasons (final_state l s) \<noteq> []" "archive_limits_ok l"
  shows "\<not> archive_complete (archive_result lib l s)"
    and "''ARCHIVE_PARTIAL_ANALYSIS'' \<in> fst ` set (aa_findings (archive_result lib l s))"
proof -
  show "\<not> archive_complete (archive_result lib l s)"
    using assms(1) by (simp add: archive_complete_def result_simps parser_status_of_def)
  have p: "''ARCHIVE_PARTIAL_ANALYSIS'' \<in> fst ` set (filter (\<lambda>f. fst f \<in> set mandatory_codes)
      (archive_findings l (final_state l s)))"
    using assms(1) by (auto simp: archive_findings_def mandatory_codes_def)
  show "''ARCHIVE_PARTIAL_ANALYSIS'' \<in> fst ` set (aa_findings (archive_result lib l s))"
  proof (cases rule: final_state_cases [of l s])
    case 1
    with p show ?thesis by (auto simp: result_simps)
  next
    case 2
    from p 2(2) [OF assms(2)] show ?thesis unfolding result_simps by blast
  qed
qed

lemma full_result:
  assumes "z_partial_reasons (final_state l s) = []"
  shows "final_state l s = s" "aa_findings (archive_result lib l s) = archive_findings l s"
  by (cases rule: final_state_cases [of l s]; use assms in \<open>simp add: mark_defs result_simps\<close>)+

text \<open>Complete means read: the analysis is complete exactly when it reports neither a
  malformed container nor a limit nor a partial analysis, and then every entry that any
  container listed was inspected, none was encrypted and none used an unsupported method.\<close>

theorem complete_archive_was_read:
  assumes "analyze_archive lib l sample_size family = Inr a" and "archive_limits_ok l"
  shows "(archive_complete a \<longleftrightarrow> set mandatory_codes \<inter> fst ` set (aa_findings a) = {}) \<and>
    (archive_complete a \<longrightarrow> ''ARCHIVE_ENCRYPTED'' \<notin> fst ` set (aa_findings a) \<and>
       jget (aa_metadata a) ''unsupported_compression_member_count'' = Some (jcount 0) \<and>
       jget (aa_metadata a) ''entry_count'' = jget (aa_metadata a) ''members_inspected'')"
proof -
  have result: ?thesis if a: "a = archive_result lib l s" and un: "unspoiled s"
      and n: "z_partial_reasons s = [] \<Longrightarrow> z_entry_count s = z_members_inspected s" for s
  proof (cases "z_partial_reasons (final_state l s) = []")
    case True
    note f = full_result [OF True]
    with True un have e: "z_partial_reasons s = []" "z_malformed_reasons s = []" "z_resource_reasons s = []"
      "z_encrypted_count s = 0" "z_unsupported_method_count s = 0"
      by (simp_all add: unspoiled_def)
    have "archive_complete a" using e by (simp add: a archive_complete_def result_simps f parser_status_of_def)
    moreover have "set mandatory_codes \<inter> fst ` set (aa_findings a) = {}"
      "''ARCHIVE_ENCRYPTED'' \<notin> fst ` set (aa_findings a)"
      using e by (auto simp: a f(2) archive_findings_def counted_finding_def mandatory_codes_def)
    ultimately show ?thesis using e n by (simp add: a result_simps f(1) metadata_counts)
  next
    case False
    from partial_result [OF this assms(2), of lib] show ?thesis
      unfolding a mandatory_codes_def by auto
  qed
  from assms(1) show ?thesis
  proof (cases rule: analysis_state)
    case (unavailable e)
    show ?thesis
      by (rule result [OF unavailable(2)])
        (simp_all add: completeness.marked unspoiled_def initial_state_def mark_defs)
  next
    case (inspected n s)
    show ?thesis
      using counted.traversed(1) [OF inspected(2)] by (intro result [OF inspected(3,5)]) (auto simp: all_counted_def)
  qed
qed

text \<open>The codes the name and the attributes of an entry call for.\<close>

definition name_codes :: "zip_lib \<Rightarrow> zip_info \<Rightarrow> string list" where
  "name_codes lib info = (let name = zi_filename info in
     (if traverses name then [''ARCHIVE_PATH_TRAVERSAL''] else []) @
     (if is_absolute name then [''ARCHIVE_ABSOLUTE_PATH''] else []) @
     (if \<not> is_dir info \<and> is_symlink info then [''ARCHIVE_SYMLINK''] else []) @
     (if final_extension (zl_casefold lib) name \<in> Some ` set DANGEROUS_EXTENSIONS
      then [''ARCHIVE_DANGEROUS_MEMBER''] else []) @
     (if has_dangerous_double_extension (zl_casefold lib) name then [''ARCHIVE_MEMBER_DOUBLE_EXTENSION''] else []) @
     (if bidi_codepoints name \<noteq> [] then [''ARCHIVE_MEMBER_BIDI_OVERRIDE''] else []))"

lemma code_if: "set (if b then [c] else []) \<subseteq> C \<longleftrightarrow> (b \<longrightarrow> c \<in> C)"
  by (cases b) simp_all

lemma counted_reported:
  "0 < z_traversal_count s \<Longrightarrow> ''ARCHIVE_PATH_TRAVERSAL'' \<in> fst ` set (archive_findings l s)"
  "0 < z_absolute_path_count s \<Longrightarrow> ''ARCHIVE_ABSOLUTE_PATH'' \<in> fst ` set (archive_findings l s)"
  "0 < z_symlink_count s \<Longrightarrow> ''ARCHIVE_SYMLINK'' \<in> fst ` set (archive_findings l s)"
  "0 < z_dangerous_member_count s \<Longrightarrow> ''ARCHIVE_DANGEROUS_MEMBER'' \<in> fst ` set (archive_findings l s)"
  "0 < z_double_extension_count s \<Longrightarrow> ''ARCHIVE_MEMBER_DOUBLE_EXTENSION'' \<in> fst ` set (archive_findings l s)"
  "0 < z_bidi_member_count s \<Longrightarrow> ''ARCHIVE_MEMBER_BIDI_OVERRIDE'' \<in> fst ` set (archive_findings l s)"
  unfolding archive_findings_def by (simp_all add: counted_finding_def)

text \<open>C36. No dangerous name slips through: for every entry the sample lists, an analysis that is
  complete reports path traversal, absolute paths, symbolic links, dangerous and double
  extensions and bidirectional controls whenever the entry has them.\<close>

theorem archive_names_reported:
  assumes "analyze_archive lib l (Inr n) family = Inr a"
    and "zl_open lib Sample_Path = Inr archive" "za_infos archive = Inr infos"
    and "info \<in> set infos" "archive_complete a"
  shows "set (name_codes lib info) \<subseteq> fst ` set (aa_findings a)"
proof -
  from assms(1) obtain s where s: "inspect_archive lib l Sample_Path n 0 initial_state = (Inr (), s)"
    and a: "a = archive_result lib l s" by (cases rule: analysis_state) auto
  from assms(5) a have "z_partial_reasons (final_state l s) = []"
    by (auto simp: archive_complete_def result_simps parser_status_of_def split: if_splits)
  note f = full_result [OF this]
  with \<open>z_partial_reasons (final_state l s) = []\<close> have p: "z_partial_reasons s = []" by simp
  obtain r s1 where o: "open_archive lib l Sample_Path n 0 initial_state = (r, s1)" by fastforce
  note run = s [unfolded inspect_archive.simps [of lib l Sample_Path n 0 initial_state] o]
  have "r = Inr None \<and> s1 = s \<or> (\<exists>ar is. inspect_members lib l ar 0 is [] s1 = (Inr (), s))"
  proof (cases r)
    case (Inr p)
    with run show ?thesis by (cases p) auto
  qed (use run in simp)
  moreover have "grown s1 s" if "inspect_members lib l ar 0 is [] s1 = (Inr (), s)" for ar "is"
    using growth.inspection_kept(2) [OF grown_refl, of s1 lib l ar 0 "is" "[]"] that by simp
  ultimately have "grown s1 s" by auto
  then have mono: "set (z_partial_reasons s1) \<subseteq> set (z_partial_reasons s)" by (simp add: grown_def)
  with p have "z_partial_reasons s1 = []" by simp
  with o assms(2,3) have "r = Inr (Some (archive, infos))"
    by (auto simp: open_archive_def mark_defs Let_def split: if_splits)
  with run have "inspect_members lib l archive 0 infos [] s1 = (Inr (), s)" by simp
  from members_flagged [OF this assms(4)] p have "flagged lib info s" "link_flagged info s" by simp_all
  then show ?thesis
    unfolding a f(2) name_codes_def flagged_def link_flagged_def Let_def set_append Un_subset_iff code_if
    by (intro conjI impI counted_reported) blast+
qed

section \<open>A concrete container\<close>

text \<open>A single empty entry with a traversing name.\<close>

definition small_limits :: archive_limits where
  "small_limits = \<lparr>max_zip_entries = 9, max_nesting_depth = 1, max_members_inspected = 9,
     max_compressed_bytes_considered = 90, max_member_bytes = 9, max_total_decompressed_bytes = 20,
     max_nested_archive_bytes = 9, max_member_name_length = 20, max_archive_findings = 12,
     max_suspicious_member_names = 5, max_duplicate_records = 5, max_traversal_records = 5,
     max_metadata_string_length = 20\<rparr>"

definition entry_named :: "ustring \<Rightarrow> zip_info" where
  "entry_named name = \<lparr>zi_filename = name, zi_flag_bits = 0, zi_compress_type = 0, zi_create_system = 0,
     zi_external_attr = 0\<rparr>"

definition sample_entry :: zip_info where
  "sample_entry = entry_named [46, 46, 47, 98]"

definition sample_zip :: zip_archive where
  "sample_zip = \<lparr>za_infos = Inr [sample_entry], za_open = (\<lambda>_. Inr (\<lambda>p n. Inr []))\<rparr>"

definition sample_lib :: zip_lib where
  "sample_lib = \<lparr>zl_open = (\<lambda>_. Inr sample_zip), zl_sha256 = (\<lambda>_. []), zl_nfc = (\<lambda>s. s), zl_casefold = (\<lambda>s. s),
     zl_category_C = (\<lambda>_. False), zl_zstandard = None, zl_python_version = ''3'', zl_zlib_version = ''1''\<rparr>"

lemma sample_reads_ok: "reads_ok sample_lib"
  by (auto simp: reads_ok_def streams_ok_def sample_lib_def sample_zip_def)

lemma sample_name_facts:
  "traverses [46, 46, 47, 98]" "\<not> is_absolute [46, 46, 47, 98]" "bidi_codepoints [46, 46, 47, 98] = []"
  "basename_segments (\<lambda>s. s) [46, 46, 47, 98] = [[98]]"
  by (simp_all add: traverses_def is_absolute_def windows_root_def bidi_codepoints_def BIDI_CONTROLS_def
      basename_segments_def path_name_def replace_all_def starts_with_def u_def)

definition sample_final :: archive_state where
  "sample_final = snd (inspect_archive sample_lib small_limits Sample_Path 30 0 initial_state)"

lemma sample_run:
  "inspect_archive sample_lib small_limits Sample_Path 30 0 initial_state = (Inr (), sample_final)"
  "z_partial_reasons sample_final = []" "z_malformed_reasons sample_final = []"
proof -
  have "\<exists>s. inspect_archive sample_lib small_limits Sample_Path 30 0 initial_state = (Inr (), s) \<and>
      z_partial_reasons s = [] \<and> z_malformed_reasons s = []"
    by (simp add: inspect_archive.simps inspect_members.simps(2) open_archive_def sample_lib_def sample_zip_def
        small_limits_def initial_state_def inspect_name_def sample_entry_def entry_named_def sample_name_facts
        inspect_paths_def inspect_duplicate_def inspect_extensions_def inspect_bidi_def final_extension_def
        has_dangerous_double_extension_def retain_record_def can_retain_name_def safe_member_name_def Let_def
        visit_member_def is_dir_def ends_with_def is_symlink_def is_encrypted_def supported_compression_methods_def
        read_member_def libraryE_def bindE_def returnE_def getE_def account_actual_bytes_def after_read_def
        ZIP_SIGNATURES_def starts_with_def next_read_size_def)
  then show "inspect_archive sample_lib small_limits Sample_Path 30 0 initial_state = (Inr (), sample_final)"
    "z_partial_reasons sample_final = []" "z_malformed_reasons sample_final = []"
    by (auto simp: sample_final_def)
qed

lemma sample_analysis:
  "analyze_archive sample_lib small_limits (Inr 30) FF_ZIP = Inr (archive_result sample_lib small_limits sample_final)"
  by (simp add: analyze_archive_def sample_run(1))

lemma sample_complete: "archive_complete (archive_result sample_lib small_limits sample_final)"
proof -
  have one: "length (if b then [x] else []) \<le> 1" for b and x :: observation by simp
  have "length (archive_findings small_limits sample_final) \<le> 12"
    unfolding archive_findings_def counted_finding_def length_append
    by (rule order.trans, (rule add_mono one)+) simp
  then have "final_state small_limits sample_final = sample_final"
    by (simp add: final_state_def bounded_findings_def small_limits_def)
  with sample_run show ?thesis by (simp add: archive_complete_def result_simps parser_status_of_def)
qed

theorem archive_budgets_hold_witness:
  "\<exists>a m. analyze_archive sample_lib small_limits (Inr 30) FF_ZIP = Inr a \<and>
     jget (aa_metadata a) ''members_inspected'' = Some (jcount m) \<and> m \<le> 9"
  using sample_analysis archive_budgets_hold [OF sample_analysis sample_reads_ok]
  by (auto simp: small_limits_def)

theorem complete_archive_was_read_witness:
  "\<exists>a. analyze_archive sample_lib small_limits (Inr 30) FF_ZIP = Inr a \<and>
     jget (aa_metadata a) ''entry_count'' = jget (aa_metadata a) ''members_inspected''"
proof -
  have "archive_limits_ok small_limits" by (simp add: archive_limits_ok_def small_limits_def)
  from complete_archive_was_read [OF sample_analysis this] sample_complete sample_analysis show ?thesis by blast
qed

theorem archive_names_reported_witness:
  "\<exists>a. analyze_archive sample_lib small_limits (Inr 30) FF_ZIP = Inr a \<and>
     ''ARCHIVE_PATH_TRAVERSAL'' \<in> fst ` set (aa_findings a)"
proof -
  have "zl_open sample_lib Sample_Path = Inr sample_zip" "za_infos sample_zip = Inr [sample_entry]"
    by (simp_all add: sample_lib_def sample_zip_def)
  from archive_names_reported [OF sample_analysis this _ sample_complete, of sample_entry] sample_analysis
  show ?thesis
    by (auto simp: name_codes_def sample_entry_def entry_named_def sample_name_facts Let_def)
qed

end
