(* ===== verification/Yara_Engine.thy ===== *)
theory Yara_Engine
  imports Domain Json_Bounds
begin

text \<open>
  The YARA scan of the worker, \<open>worker/yara_engine.py\<close>: the integrity checks of the rule pack,
  the scan of the top-level file with its limits and the report. The \<open>yara\<close> module, the file
  system, SHA-256 and the clock are parameters (\<open>yara_lib\<close>); the two regular expressions over
  the source of the pack are translated.
\<close>

section \<open>Limits\<close>

record yara_limits =
  y_timeout_seconds :: nat
  y_max_matched_rules :: nat
  y_max_match_instances :: nat
  y_max_string_ids :: nat
  y_max_offsets :: nat
  y_max_total_metadata_bytes :: nat
  y_max_match_data_bytes :: nat

definition yara_limits_ok :: "yara_limits \<Rightarrow> bool" where
  "yara_limits_ok l \<longleftrightarrow> 0 < y_timeout_seconds l \<and> 0 < y_max_matched_rules l \<and>
     0 < y_max_match_instances l \<and> 0 < y_max_string_ids l \<and> 0 < y_max_offsets l \<and>
     0 < y_max_total_metadata_bytes l \<and> 0 < y_max_match_data_bytes l \<and>
     y_max_string_ids l \<le> MAX_YARA_STRING_IDS_PER_FINDING \<and>
     y_max_offsets l \<le> MAX_YARA_OFFSETS_PER_FINDING \<and>
     int (y_max_match_instances l) \<le> MAX_YARA_REPORTED_MATCH_COUNT"

definition DEFAULT_YARA_LIMITS :: yara_limits where
  "DEFAULT_YARA_LIMITS = \<lparr>y_timeout_seconds = 3, y_max_matched_rules = 32, y_max_match_instances = 4096,
     y_max_string_ids = MAX_YARA_STRING_IDS_PER_FINDING, y_max_offsets = MAX_YARA_OFFSETS_PER_FINDING,
     y_max_total_metadata_bytes = 12 * 1024, y_max_match_data_bytes = 1\<rparr>"

section \<open>The library\<close>

record string_match =
  sm_identifier :: ustring
  sm_offsets :: "int list"

record rule_match =
  rm_rule :: ustring
  rm_namespace :: ustring
  rm_strings :: "string_match list"

text \<open>\<open>yara.TimeoutError\<close> and any other \<open>yara.Error\<close>; the two kinds of warning the callback
  tells apart.\<close>

datatype yara_exn = Yara_Timeout | Yara_Error

datatype yara_warning = Too_Many_Matches | Other_Warning

text \<open>A match of a file says which warnings the callback saw, in order, and how it ended.\<close>

record 'rules yara_lib =
  yb_read :: "ustring \<Rightarrow> bytes option"
  yb_sha256 :: "bytes \<Rightarrow> string"
  yb_compile :: "ustring \<Rightarrow> 'rules option"
  yb_match_file :: "nat \<Rightarrow> 'rules \<Rightarrow> ustring \<Rightarrow> nat \<Rightarrow> yara_warning list \<times> (yara_exn + rule_match list)"
  yb_match_data :: "'rules \<Rightarrow> bytes \<Rightarrow> nat \<Rightarrow> yara_exn + rule_match list"
  yb_version :: ustring
  yb_runtime_version :: ustring

text \<open>What a scan may raise: a \<open>YaraRulePackError\<close> with its message, the \<open>UnicodeEncodeError\<close> of
  metadata that is not UTF-8, and the \<open>KeyError\<close> of an unknown finding.\<close>

datatype yara_failure = Rule_Pack_Error string | Unencodable_Metadata | Unknown_Finding

section \<open>The rule pack\<close>

record 'rules compiled_pack =
  cp_rules :: 'rules
  cp_rule_ids :: "ustring list"
  cp_sha256 :: string

definition MAX_RULE_PACK_BYTES :: nat where "MAX_RULE_PACK_BYTES = 128 * 1024"

definition YARA_EXPECTED_RULE_IDS :: "ustring list" where
  "YARA_EXPECTED_RULE_IDS = map (u \<circ> yr_rule_id) YARA_RULES"

definition rule_pack_path :: "ustring \<Rightarrow> ustring" where
  "rule_pack_path rules_root = rules_root @ [47] @ u ''docguard_v1.yar''"

definition blank :: "nat \<Rightarrow> bool" where
  "blank c \<longleftrightarrow> c = 32 \<or> c = 9"

definition word_start :: "nat \<Rightarrow> bool" where
  "word_start c \<longleftrightarrow> 65 \<le> c \<and> c \<le> 90 \<or> 97 \<le> c \<and> c \<le> 122 \<or> c = 95"

definition word_char :: "nat \<Rightarrow> bool" where
  "word_char c \<longleftrightarrow> word_start c \<or> 48 \<le> c \<and> c \<le> 57"

text \<open>\<open>keyword[ \t]+\<close> at the start of a line: what follows the blanks.\<close>

definition after_keyword :: "ustring \<Rightarrow> ustring \<Rightarrow> ustring option" where
  "after_keyword keyword line =
     (let rest = drop (length keyword) line in
      if starts_with keyword line \<and> rest \<noteq> [] \<and> blank (hd rest) then Some (dropWhile blank rest) else None)"

definition after_modifier :: "ustring \<Rightarrow> ustring" where
  "after_modifier line = (case after_keyword (u ''private'') line of Some rest \<Rightarrow> rest
     | None \<Rightarrow> (case after_keyword (u ''global'') line of Some rest \<Rightarrow> rest | None \<Rightarrow> line))"

text \<open>\<open>_RULE_DECLARATION\<close> on one line: both expressions are anchored at the start of a line and
  cannot match beyond its end, so \<open>findall\<close> and \<open>search\<close> go through the lines.\<close>

definition declared_rule :: "ustring \<Rightarrow> ustring option" where
  "declared_rule line =
     (case after_keyword (u ''rule'') (after_modifier (dropWhile blank line)) of None \<Rightarrow> None
      | Some rest \<Rightarrow> (case rest of c # _ \<Rightarrow> if word_start c then Some (takeWhile word_char rest) else None
          | [] \<Rightarrow> None))"

definition forbidden_line :: "ustring \<Rightarrow> bool" where
  "forbidden_line line \<longleftrightarrow> (let l = dropWhile blank line in
     after_keyword (u ''include'') l \<noteq> None \<or> after_keyword (u ''import'') l \<noteq> None)"

definition source_lines :: "bytes \<Rightarrow> ustring list" where
  "source_lines source = split_on 10 (map unat source)"

definition declared_rules :: "bytes \<Rightarrow> ustring list" where
  "declared_rules source = List.map_filter declared_rule (source_lines source)"

definition compile_rule_pack ::
  "'r yara_lib \<Rightarrow> ustring \<Rightarrow> string \<Rightarrow> ustring list \<Rightarrow> yara_failure + 'r compiled_pack" where
  "compile_rule_pack lib rules_root expected_sha256 expected_rule_ids =
     (let path = rule_pack_path rules_root in
      case yb_read lib path of None \<Rightarrow> Inl (Rule_Pack_Error ''trusted YARA rule pack is unavailable'')
      | Some source \<Rightarrow>
        let fingerprint = yb_sha256 lib source; declared_ids = declared_rules source in
        if source = [] \<or> MAX_RULE_PACK_BYTES < length source
        then Inl (Rule_Pack_Error ''trusted YARA rule pack size is invalid'')
        else if fingerprint \<noteq> expected_sha256
        then Inl (Rule_Pack_Error ''trusted YARA rule pack fingerprint mismatch'')
        else if list_ex forbidden_line (source_lines source)
        then Inl (Rule_Pack_Error ''trusted YARA rule pack uses a forbidden directive'')
        else if \<not> distinct declared_ids
        then Inl (Rule_Pack_Error ''trusted YARA rule IDs are not unique'')
        else if set declared_ids \<noteq> set expected_rule_ids
        then Inl (Rule_Pack_Error ''trusted YARA manifest does not match rule declarations'')
        else case yb_compile lib path of
          None \<Rightarrow> Inl (Rule_Pack_Error ''trusted YARA rule pack did not compile'')
        | Some rules \<Rightarrow> Inr \<lparr>cp_rules = rules, cp_rule_ids = declared_ids, cp_sha256 = fingerprint\<rparr>)"

definition trusted_pack :: "'r yara_lib \<Rightarrow> ustring \<Rightarrow> yara_failure + 'r compiled_pack" where
  "trusted_pack lib rules_root =
     compile_rule_pack lib rules_root YARA_RULE_PACK_SHA256 YARA_EXPECTED_RULE_IDS"

definition eicar_fixture :: bytes where
  "eicar_fixture = map of_nat (u (''X5O!P%@AP[4'' @ [CHR 92] @
     ''PZX54(P^)7CC)7}$EICAR-STANDARD-ANTIVIRUS-TEST-FILE!$H+H*''))"

definition yara_production_self_test :: "'r yara_lib \<Rightarrow> ustring \<Rightarrow> bool" where
  "yara_production_self_test lib rules_root =
     (case trusted_pack lib rules_root of Inl _ \<Rightarrow> False
      | Inr pack \<Rightarrow>
        (case (yb_match_data lib (cp_rules pack) eicar_fixture 1,
               yb_match_data lib (cp_rules pack)
                 (map of_nat (u ''DocGuard controlled benign YARA readiness fixture.'')) 1) of
           (Inr eicar_matches, Inr benign_matches) \<Rightarrow>
             set (map rm_rule eicar_matches) = {u ''DOCGUARD_EICAR_TEST''} \<and> benign_matches = []
         | _ \<Rightarrow> False))"

section \<open>The scan\<close>

datatype yara_parser_status = YP_COMPLETE | YP_PARTIAL

record yara_analysis =
  ya_parser_status :: yara_parser_status
  ya_findings :: "finding list"
  ya_metadata :: json_object

definition yara_complete :: "yara_analysis \<Rightarrow> bool" where
  "yara_complete a \<longleftrightarrow> ya_parser_status a = YP_COMPLETE"

definition warning_reason :: "yara_warning \<Rightarrow> ustring" where
  "warning_reason w = (case w of Too_Many_Matches \<Rightarrow> u ''engine_match_warning'' | Other_Warning \<Rightarrow> u ''engine_warning'')"

text \<open>The offsets retained of the strings of a match, and how many instances there were.\<close>

definition collect_offsets :: "yara_limits \<Rightarrow> string_match list \<Rightarrow> nat \<times> int list" where
  "collect_offsets l strings = fold (\<lambda>s (n, offsets).
     (n + length (sm_offsets s), offsets @ take (y_max_offsets l - length offsets) (sm_offsets s))) strings (0, [])"

definition match_string_ids :: "rule_match \<Rightarrow> ustring list" where
  "match_string_ids m = sorted_codes (map sm_identifier (rm_strings m))"

definition match_reasons :: "yara_limits \<Rightarrow> rule_match \<Rightarrow> ustring list" where
  "match_reasons l m = (let (n, offsets) = collect_offsets l (rm_strings m) in
     (if y_max_string_ids l < length (match_string_ids m) then [u ''string_identifier_limit''] else []) @
     (if y_max_match_instances l < n then [u ''match_instance_limit''] else []) @
     (if length offsets < n then [u ''offset_limit''] else []))"

definition match_metadata :: "yara_limits \<Rightarrow> string \<Rightarrow> yara_rule_definition \<Rightarrow> rule_match \<Rightarrow> json_object" where
  "match_metadata l sha r m = (let (n, offsets) = collect_offsets l (rm_strings m) in
     obj [(''rule_id'', jtext (yr_rule_id r)), (''rule_title'', jtext (yr_title r)),
       (''rule_explanation'', jtext (yr_explanation r)), (''rule_category'', jtext (yr_category r)),
       (''confidence_class'', jtext (yr_confidence r)),
       (''rule_pack_version'', jtext YARA_RULE_PACK_VERSION), (''rule_pack_sha256'', jtext sha),
       (''scope'', jtext ''TOP_LEVEL''),
       (''match_count'', JInt (int (min n (y_max_match_instances l)))),
       (''string_ids'', JList (map JStr (take (y_max_string_ids l) (match_string_ids m)))),
       (''offsets'', JList (map JInt (take (y_max_offsets l) (sorted_codes offsets))))])"

definition trusted_rule :: "rule_match \<Rightarrow> yara_rule_definition option" where
  "trusted_rule m =
     (if rm_namespace m \<noteq> u YARA_RULE_NAMESPACE then None
      else find (\<lambda>r. u (yr_rule_id r) = rm_rule m) YARA_RULES)"

fun report_matches ::
  "yara_limits \<Rightarrow> string \<Rightarrow> rule_match list \<Rightarrow> nat \<Rightarrow> finding list \<Rightarrow> ustring list \<Rightarrow>
   yara_failure + finding list \<times> ustring list" where
  "report_matches l sha [] metadata_bytes findings reasons = Inr (findings, reasons)"
| "report_matches l sha (m # ms) metadata_bytes findings reasons =
     (case trusted_rule m of
        None \<Rightarrow> Inl (Rule_Pack_Error ''YARA returned a rule outside the trusted manifest'')
      | Some r \<Rightarrow>
        let reasons' = reasons @ match_reasons l m; metadata = match_metadata l sha r m in
        case json_size (JObj metadata) of None \<Rightarrow> Inl Unencodable_Metadata
        | Some n \<Rightarrow>
          if y_max_total_metadata_bytes l < metadata_bytes + n
          then Inr (findings, reasons' @ [u ''metadata_limit''])
          else case yara_finding_payload (yr_rule_id r) metadata of None \<Rightarrow> Inl Unknown_Finding
          | Some f \<Rightarrow> report_matches l sha ms (metadata_bytes + n) (findings @ [f]) reasons')"

definition partial_payload :: "ustring list \<Rightarrow> finding option" where
  "partial_payload reasons = finding_payload ''YARA_PARTIAL_ANALYSIS''
     (obj [(''reasons'', JList (map JStr (sorted_codes reasons))),
       (''rule_pack_version'', jtext YARA_RULE_PACK_VERSION), (''rule_pack_sha256'', jtext YARA_RULE_PACK_SHA256)])"

text \<open>The clock readings are in nanoseconds.\<close>

definition yara_result ::
  "'r yara_lib \<Rightarrow> int \<Rightarrow> int \<Rightarrow> nat \<Rightarrow> finding list \<times> ustring list \<Rightarrow> yara_failure + yara_analysis" where
  "yara_result lib started_ns ended_ns matched_rule_count outcome =
     (let (findings, reasons) = outcome;
          status = (if reasons \<noteq> [] then YP_PARTIAL else YP_COMPLETE);
          all_findings = (if reasons = [] then Some findings
            else map_option (\<lambda>f. findings @ [f]) (partial_payload reasons)) in
      case all_findings of None \<Rightarrow> Inl Unknown_Finding
      | Some fs \<Rightarrow> Inr \<lparr>ya_parser_status = status, ya_findings = fs,
          ya_metadata = obj [(''engine'', jtext ''yara-python''), (''yara_python_version'', JStr (yb_version lib)),
            (''yara_runtime_version'', JStr (yb_runtime_version lib)),
            (''rule_pack_version'', jtext YARA_RULE_PACK_VERSION), (''rule_pack_sha256'', jtext YARA_RULE_PACK_SHA256),
            (''scope'', jtext ''TOP_LEVEL''),
            (''parser_status'', jtext (case status of YP_COMPLETE \<Rightarrow> ''COMPLETE'' | YP_PARTIAL \<Rightarrow> ''PARTIAL'')),
            (''matched_rule_count'', JInt (int matched_rule_count)),
            (''retained_finding_count'', JInt (int (length fs))),
            (''partial_reasons'', JList (map JStr (sorted_codes reasons))),
            (''duration_ms'', JInt (max 0 ((ended_ns - started_ns) div 1000000)))]\<rparr>)"

definition scan_top_level_file ::
  "'r yara_lib \<Rightarrow> yara_limits \<Rightarrow> 'r compiled_pack option \<Rightarrow> ustring \<Rightarrow> ustring \<Rightarrow> int \<Rightarrow> int \<Rightarrow>
   yara_failure + yara_analysis" where
  "scan_top_level_file lib l compiled rules_root sample_path started_ns ended_ns =
     (case (case compiled of Some pack \<Rightarrow> Inr pack | None \<Rightarrow> trusted_pack lib rules_root) of
        Inl e \<Rightarrow> Inl e
      | Inr pack \<Rightarrow>
        (case yb_match_file lib (y_max_match_data_bytes l) (cp_rules pack) sample_path (y_timeout_seconds l) of
           (_, Inl Yara_Timeout) \<Rightarrow> yara_result lib started_ns ended_ns 0 ([], [u ''internal_timeout''])
         | (_, Inl Yara_Error) \<Rightarrow> yara_result lib started_ns ended_ns 0 ([], [u ''scanner_error''])
         | (warnings, Inr matches) \<Rightarrow>
           let ordered = sort_key rm_rule matches;
               reasons = take 1 (map warning_reason warnings) @
                 (if y_max_matched_rules l < length ordered then [u ''matched_rule_limit''] else []) in
           case report_matches l (cp_sha256 pack) (take (y_max_matched_rules l) ordered) 0 [] reasons of
             Inl e \<Rightarrow> Inl e
           | Inr outcome \<Rightarrow> yara_result lib started_ns ended_ns (length ordered) outcome))"

end
