(* ===== verification/Yara_Results.thy ===== *)
theory Yara_Results
  imports Yara_Engine "HOL-Library.Sublist"
begin

text \<open>
  What a YARA scan promises: every finding it reports passes the validation of the trusted
  side, and a complete scan reports every match with all its instances.
\<close>

lemma list_all2_sides:
  assumes "list_all2 P xs ys"
  shows "x \<in> set xs \<Longrightarrow> \<exists>y\<in>set ys. P x y" and "y \<in> set ys \<Longrightarrow> \<exists>x\<in>set xs. P x y"
  using assms by (induction rule: list_all2_induct) auto

section \<open>Offsets\<close>

definition instance_count :: "string_match list \<Rightarrow> nat" where
  "instance_count strings = sum_list (map (length \<circ> sm_offsets) strings)"

lemma collect_offsets_from:
  assumes "fold (\<lambda>s (n, offsets). (n + length (sm_offsets s),
      offsets @ take (y_max_offsets l - length offsets) (sm_offsets s))) strings (n0, o0) = (n, offsets)"
    and "length o0 \<le> n0" "length o0 \<le> y_max_offsets l"
  shows "n = n0 + instance_count strings \<and> length offsets \<le> n \<and> length offsets \<le> y_max_offsets l \<and>
    set offsets \<subseteq> set o0 \<union> set (concat (map sm_offsets strings)) \<and>
    (length offsets = n \<longrightarrow> length o0 = n0 \<and> offsets = o0 @ concat (map sm_offsets strings))"
  using assms
proof (induction strings arbitrary: n0 o0)
  case (Cons s strings)
  let ?o = "o0 @ take (y_max_offsets l - length o0) (sm_offsets s)"
  have "length ?o \<le> n0 + length (sm_offsets s)" "length ?o \<le> y_max_offsets l" using Cons.prems(2,3) by auto
  from Cons.IH [OF _ this] Cons.prems(1)
  have ih: "n = n0 + length (sm_offsets s) + instance_count strings" "length offsets \<le> n"
    "length offsets \<le> y_max_offsets l" "set offsets \<subseteq> set ?o \<union> set (concat (map sm_offsets strings))"
    "length offsets = n \<longrightarrow> length ?o = n0 + length (sm_offsets s) \<and> offsets = ?o @ concat (map sm_offsets strings)"
    by auto
  have "set ?o \<subseteq> set o0 \<union> set (sm_offsets s)" using set_take_subset by fastforce
  then have sub: "set offsets \<subseteq> set o0 \<union> set (concat (map sm_offsets (s # strings)))" using ih(4) by auto
  have all: "length o0 = n0 \<and> offsets = o0 @ concat (map sm_offsets (s # strings))" if "length offsets = n"
  proof -
    from ih(5) that have o: "length ?o = n0 + length (sm_offsets s)"
      "offsets = ?o @ concat (map sm_offsets strings)" by blast+
    then have "length o0 = n0" "length (sm_offsets s) \<le> y_max_offsets l - length o0" using Cons.prems(2) by auto
    with o(2) show ?thesis by simp
  qed
  have "n = n0 + instance_count (s # strings)" using ih(1) by (simp add: instance_count_def)
  with ih(2,3) sub all show ?case by blast
qed (simp add: instance_count_def)

lemma collect_offsets_props:
  assumes "collect_offsets l strings = (n, offsets)"
  shows "n = instance_count strings" "length offsets \<le> y_max_offsets l"
    "set offsets \<subseteq> set (concat (map sm_offsets strings))"
    "length offsets = n \<Longrightarrow> offsets = concat (map sm_offsets strings)" "length offsets \<le> n"
  using collect_offsets_from [of l strings 0 "[]"] assms by (auto simp: collect_offsets_def)

section \<open>Reported matches\<close>

text \<open>The documented behaviour of a match: string identifiers begin with a dollar sign and
  are at most 128 characters long, offsets are not negative, and a rule that matched has at
  least one instance of a string.\<close>

definition match_ok :: "rule_match \<Rightarrow> bool" where
  "match_ok m \<longleftrightarrow> list_all (\<lambda>s. starts_with (u ''$'') (sm_identifier s) \<and> length (sm_identifier s) \<le> 128 \<and>
     list_all (\<lambda>i. 0 \<le> i) (sm_offsets s)) (rm_strings m) \<and> 0 < instance_count (rm_strings m)"

definition match_finding :: "yara_limits \<Rightarrow> string \<Rightarrow> rule_match \<Rightarrow> finding \<Rightarrow> bool" where
  "match_finding l sha m f \<longleftrightarrow> (\<exists>r. trusted_rule m = Some r \<and>
     yara_finding_payload (yr_rule_id r) (match_metadata l sha r m) = Some f \<and>
     (\<exists>n\<le>y_max_total_metadata_bytes l. json_size (JObj (match_metadata l sha r m)) = Some n))"

lemma report_matches_effect:
  assumes "report_matches l sha ms k fs rs = Inr (fs', rs')"
  shows "\<exists>new done. fs' = fs @ new \<and> prefix done ms \<and> list_all2 (match_finding l sha) done new \<and>
    set rs \<subseteq> set rs' \<and> (u ''metadata_limit'' \<notin> set rs' \<longrightarrow> done = ms) \<and>
    set rs' \<subseteq> set rs \<union> (\<Union>m\<in>set ms. set (match_reasons l m)) \<union> {u ''metadata_limit''} \<and>
    (\<forall>m\<in>set done. set (match_reasons l m) \<subseteq> set rs')"
  using assms
proof (induction l sha ms k fs rs rule: report_matches.induct)
  case (2 l sha m ms k fs rs)
  obtain r where r: "trusted_rule m = Some r" using 2(2) by (auto split: option.splits)
  let ?md = "match_metadata l sha r m"
  obtain n where n: "json_size (JObj ?md) = Some n" using 2(2) r by (auto simp: Let_def split: option.splits)
  show ?case
  proof (cases "y_max_total_metadata_bytes l < k + n")
    case True
    with 2(2) r n have "fs' = fs" "rs' = rs @ match_reasons l m @ [u ''metadata_limit'']" by (auto simp: Let_def)
    then show ?thesis by (intro exI [of _ "[]"]) auto
  next
    case False
    with 2(2) r n obtain f where f: "yara_finding_payload (yr_rule_id r) ?md = Some f"
      and rest: "report_matches l sha ms (k + n) (fs @ [f]) (rs @ match_reasons l m) = Inr (fs', rs')"
      by (auto simp: Let_def split: option.splits)
    have m: "match_finding l sha m f" using r n f False by (auto simp: match_finding_def)
    obtain new ok where ih: "fs' = (fs @ [f]) @ new" "prefix ok ms" "list_all2 (match_finding l sha) ok new"
      "set (rs @ match_reasons l m) \<subseteq> set rs'" "u ''metadata_limit'' \<notin> set rs' \<longrightarrow> ok = ms"
      "set rs' \<subseteq> set (rs @ match_reasons l m) \<union> (\<Union>m\<in>set ms. set (match_reasons l m)) \<union> {u ''metadata_limit''}"
      "\<forall>m\<in>set ok. set (match_reasons l m) \<subseteq> set rs'"
      using 2(1) [OF r refl refl n False f rest] by blast
    show ?thesis
      by (intro exI [of _ "f # new"] exI [of _ "m # ok"]) (use ih m in auto)
  qed
qed auto

lemma match_count_positive:
  assumes "match_ok m" "yara_limits_ok l" "collect_offsets l (rm_strings m) = (n, offsets)"
  shows "1 \<le> int (min n (y_max_match_instances l))" "int (min n (y_max_match_instances l)) \<le> MAX_YARA_REPORTED_MATCH_COUNT"
  using assms collect_offsets_props(1) [OF assms(3)] by (auto simp: match_ok_def yara_limits_ok_def)

lemma match_values_ok:
  assumes "match_ok m" "yara_limits_ok l" "collect_offsets l (rm_strings m) = (n, offsets)"
  shows "list_all (\<lambda>i. starts_with (u ''$'') i \<and> length i \<le> 128) (take k (match_string_ids m))"
    and "list_all (\<lambda>i. 0 \<le> i) (take k (sorted_codes offsets))"
proof -
  have "set (take k (match_string_ids m)) \<subseteq> set (map sm_identifier (rm_strings m))"
    using set_take_subset by (fastforce simp: match_string_ids_def)
  with assms(1) show "list_all (\<lambda>i. starts_with (u ''$'') i \<and> length i \<le> 128) (take k (match_string_ids m))"
    by (fastforce simp: list_all_iff match_ok_def)
  have "set (take k (sorted_codes offsets)) \<subseteq> set (concat (map sm_offsets (rm_strings m)))"
    using set_take_subset collect_offsets_props(3) [OF assms(3)] by fastforce
  with assms(1) show "list_all (\<lambda>i. 0 \<le> i) (take k (sorted_codes offsets))"
    by (fastforce simp: list_all_iff match_ok_def)
qed

lemma sorted_codes_take [simp]: "sorted_codes (take k (sorted_codes xs)) = take k (sorted_codes xs)"
  by (simp add: sorted_codes_id sorted_wrt_take)

lemma json_list_values [simp]:
  "json_strings (JList (map JStr xs)) = Some xs" "json_ints (JList (map JInt is)) = Some is"
  by (simp_all add: comp_def)

lemma trusted_rule_registered:
  assumes "trusted_rule m = Some r"
  shows "r \<in> set YARA_RULES" "find (\<lambda>r'. u (yr_rule_id r') = u (yr_rule_id r)) YARA_RULES = Some r"
    "yara_rule_of (yr_rule_id r) = Some r"
proof -
  show r: "r \<in> set YARA_RULES" using assms by (auto simp: trusted_rule_def find_Some_iff split: if_splits)
  then show "yara_rule_of (yr_rule_id r) = Some r" by (simp add: yara_rule_of_def yara_rules.lookup_key)
  then show "find (\<lambda>r'. u (yr_rule_id r') = u (yr_rule_id r)) YARA_RULES = Some r"
    by (simp add: yara_rule_of_def lookup_row_def)
qed

lemma match_finding_accepted:
  assumes "match_finding l YARA_RULE_PACK_SHA256 m f" "match_ok m" "yara_limits_ok l"
    and "y_max_total_metadata_bytes l \<le> MAX_FINDING_METADATA_BYTES"
  shows "finding_ok f"
proof -
  let ?md = "match_metadata l YARA_RULE_PACK_SHA256"
  from assms(1) obtain r n where r: "trusted_rule m = Some r" and f: "yara_finding_payload (yr_rule_id r) (?md r m) = Some f"
    and n: "n \<le> y_max_total_metadata_bytes l" "json_size (JObj (?md r m)) = Some n"
    by (auto simp: match_finding_def)
  note reg = trusted_rule_registered [OF r]
  obtain d where d: "finding_definition_of (yr_finding_code r) = Some d" "fd_default_severity d = yr_severity r"
    and c: "yr_finding_code r \<in> set yara_match_codes" using yara_rules_registered [OF reg(3)] by blast
  obtain k offsets where o: "collect_offsets l (rm_strings m) = (k, offsets)" by fastforce
  have md: "f_metadata f = ?md r m" "f_code f = yr_finding_code r" "f_severity f = yr_severity r"
    using f d finding_definition_of_code [OF d(1)] by (auto simp: yara_finding_payload_def reg(3))
  have counts: "yara_counts_ok (?md r m)"
    using match_count_positive [OF assms(2,3) o] match_values_ok [OF assms(2,3) o] assms(3)
    by (auto simp: yara_counts_ok_def match_metadata_def o match_string_ids_def yara_limits_ok_def
        simp del: json_strings.simps json_ints.simps)
  have named: "same_keys (?md r m) yara_match_keys" "named_rule (?md r m) = Some r"
    "list_all (\<lambda>(k, v). jget (?md r m) k = Some v) (yara_trusted_values r)"
    using reg(2) by (simp_all add: same_keys_def match_metadata_def o yara_match_keys_def named_rule_def jtext_def
        yara_trusted_values_def)
  have "validate_yara_match_metadata f = Some (yr_mitre_techniques r)"
    using named counts md by (simp add: validate_yara_match_metadata_def)
  moreover have "bounded_json (?md r m) MAX_FINDING_METADATA_BYTES" using n assms(4) by (simp add: bounded_json_def)
  ultimately show ?thesis
    using f d c md definitions_fit [OF d(1)] yara_mitre_fit [OF reg(3)] finding_definition_of_code [OF d(1)]
    by (auto simp: finding_ok_def finding_fields_ok_def expected_mitre_def yara_finding_payload_def reg(3))
qed

section \<open>The partial-analysis finding\<close>

lemma match_reasons_known: "set (match_reasons l m) \<subseteq> set (map u yara_partial_reasons)"
  by (auto simp: match_reasons_def yara_partial_reasons_def split: prod.split)

lemma sum_list_bounded: "(\<And>x. x \<in> set xs \<Longrightarrow> f x \<le> k) \<Longrightarrow> sum_list (map f xs) \<le> k * length xs" for k :: nat
  by (induction xs) (auto intro: add_mono)

lemma reasons_bounded:
  assumes "set xs \<subseteq> set (map u yara_partial_reasons)"
  shows "sum_list (map (\<lambda>x. Suc (quoted_bytes x)) xs) \<le> 300 * length xs" "list_all (list_all scalar) xs"
proof -
  have "length s \<le> 25" if "s \<in> set yara_partial_reasons" for s
    using that by (auto simp: yara_partial_reasons_def)
  then have "Suc (quoted_bytes x) \<le> 300" if "x \<in> set xs" for x
    using that assms quoted_bytes_le [of x] by fastforce
  then show "sum_list (map (\<lambda>x. Suc (quoted_bytes x)) xs) \<le> 300 * length xs" by (rule sum_list_bounded)
  show "list_all (list_all scalar) xs" using assms scalar_u by (fastforce simp: list_all_iff subset_iff)
qed

lemma partial_accepted:
  assumes "partial_payload reasons = Some f" "reasons \<noteq> []" "set reasons \<subseteq> set (map u yara_partial_reasons)"
  shows "finding_ok f"
proof -
  let ?md = "obj [(''reasons'', JList (map JStr (sorted_codes reasons))),
    (''rule_pack_version'', jtext YARA_RULE_PACK_VERSION), (''rule_pack_sha256'', jtext YARA_RULE_PACK_SHA256)]"
  have n: "length (sorted_codes reasons) \<le> length yara_partial_reasons"
    using card_mono [OF _ assms(3)] card_length [of "map u yara_partial_reasons"]
    by (simp add: length_sorted_codes)
  then have "validate_yara_partial_metadata ?md"
    using assms(2,3) by (auto simp: validate_yara_partial_metadata_def same_keys_def list_all_iff
        simp del: json_strings.simps)
  moreover have "bounded_json ?md MAX_FINDING_METADATA_BYTES"
  proof -
    have s: "set (sorted_codes reasons) \<subseteq> set (map u yara_partial_reasons)" using assms(3) by simp
    have "json_bound (JObj ?md) \<le> MAX_FINDING_METADATA_BYTES"
      using reasons_bounded(1) [OF s] n quoted_bytes_le [of "u ''reasons''"] quoted_bytes_le [of "u ''rule_pack_version''"]
        quoted_bytes_le [of "u ''rule_pack_sha256''"] quoted_bytes_le [of "u YARA_RULE_PACK_VERSION"]
        quoted_bytes_le [of "u YARA_RULE_PACK_SHA256"]
      by (simp add: obj_def jtext_def comp_def yara_partial_reasons_def YARA_RULE_PACK_VERSION_def
          YARA_RULE_PACK_SHA256_def MAX_FINDING_METADATA_BYTES_def)
    moreover have "scalar_json (JObj ?md)"
      using reasons_bounded(2) [OF s] by (simp add: obj_def jtext_def list.pred_map comp_def)
    ultimately show ?thesis using json_size_bound [of "JObj ?md"] by (auto simp: bounded_json_def)
  qed
  ultimately show ?thesis
    using payload_accepted [OF assms(1) [unfolded partial_payload_def]] by (simp add: yara_match_codes_def)
qed

section \<open>The result\<close>

lemma yara_result_value:
  assumes "yara_result lib t t' k (findings, reasons) = Inr a"
  shows "yara_complete a \<longleftrightarrow> reasons = []"
    and "reasons = [] \<Longrightarrow> ya_findings a = findings"
    and "reasons \<noteq> [] \<Longrightarrow> \<exists>f. partial_payload reasons = Some f \<and> ya_findings a = findings @ [f]"
  using assms by (auto simp: yara_result_def yara_complete_def Let_def split: option.splits if_splits)

definition initial_reasons :: "yara_limits \<Rightarrow> yara_warning list \<Rightarrow> rule_match list \<Rightarrow> ustring list" where
  "initial_reasons l warnings matches = take 1 (map warning_reason warnings) @
     (if y_max_matched_rules l < length matches then [u ''matched_rule_limit''] else [])"

text \<open>A scan that returns either stopped in the library, or the library found matches.\<close>

lemma scan_cases:
  assumes "scan_top_level_file lib l compiled root p t t' = Inr a"
  obtains (stopped) reason where "reason \<in> {u ''internal_timeout'', u ''scanner_error''}"
      "yara_result lib t t' 0 ([], [reason]) = Inr a"
  | (matched) pack warnings matches findings reasons where
      "(case compiled of Some pack \<Rightarrow> Inr pack | None \<Rightarrow> trusted_pack lib root) = Inr pack"
      "yb_match_file lib (y_max_match_data_bytes l) (cp_rules pack) p (y_timeout_seconds l) = (warnings, Inr matches)"
      "report_matches l (cp_sha256 pack) (take (y_max_matched_rules l) (sort_key rm_rule matches)) 0 []
         (initial_reasons l warnings matches) = Inr (findings, reasons)"
      "yara_result lib t t' (length matches) (findings, reasons) = Inr a"
proof -
  obtain pack where pack: "(case compiled of Some pack \<Rightarrow> Inr pack | None \<Rightarrow> trusted_pack lib root) = Inr pack"
    using assms by (auto simp: scan_top_level_file_def split: sum.splits)
  obtain warnings r where m: "yb_match_file lib (y_max_match_data_bytes l) (cp_rules pack) p (y_timeout_seconds l) =
      (warnings, r)" by fastforce
  show ?thesis
  proof (cases r)
    case (Inl e)
    with assms pack m show ?thesis
      by (cases e) (auto simp: scan_top_level_file_def intro: stopped)
  next
    case (Inr matches)
    with assms pack m show ?thesis
      by (auto simp: scan_top_level_file_def Let_def initial_reasons_def split: sum.splits intro: matched)
  qed
qed

lemma trusted_pack_sha256: "trusted_pack lib root = Inr pack \<Longrightarrow> cp_sha256 pack = YARA_RULE_PACK_SHA256"
  by (auto simp: trusted_pack_def compile_rule_pack_def Let_def split: option.splits if_splits)

lemma initial_reasons_known: "set (initial_reasons l warnings matches) \<subseteq> set (map u yara_partial_reasons)"
  by (cases warnings) (auto simp: initial_reasons_def yara_partial_reasons_def warning_reason_def split: yara_warning.splits)

text \<open>Without a reason to call it partial, the finding of a match is exact.\<close>

lemma reported_in_full:
  assumes "match_finding l sha m f" "match_reasons l m = []"
  shows "\<exists>r. trusted_rule m = Some r \<and> f_code f = yr_finding_code r \<and>
    jget (f_metadata f) ''rule_id'' = Some (jtext (yr_rule_id r)) \<and>
    jget (f_metadata f) ''match_count'' = Some (JInt (int (instance_count (rm_strings m)))) \<and>
    jget (f_metadata f) ''offsets'' = Some (JList (map JInt (sorted_codes (concat (map sm_offsets (rm_strings m))))))"
proof -
  obtain n offsets where o: "collect_offsets l (rm_strings m) = (n, offsets)" by fastforce
  with assms(2) have le: "n \<le> y_max_match_instances l" "n \<le> length offsets"
    by (auto simp: match_reasons_def split: if_splits)
  note c = collect_offsets_props [OF o]
  with le have all: "offsets = concat (map sm_offsets (rm_strings m))" "length offsets \<le> y_max_offsets l" by auto
  have short: "length (sorted_codes offsets) \<le> y_max_offsets l"
    using all(2) card_length [of offsets] by (simp add: length_sorted_codes)
  from assms(1) obtain r where r: "trusted_rule m = Some r"
    and f: "yara_finding_payload (yr_rule_id r) (match_metadata l sha r m) = Some f"
    by (auto simp: match_finding_def)
  note reg = trusted_rule_registered(3) [OF r]
  have "f_code f = yr_finding_code r" "f_metadata f = match_metadata l sha r m"
    using f finding_definition_of_code by (auto simp: yara_finding_payload_def reg split: option.splits)
  with r le(1) c(1) all(1) short show ?thesis by (simp add: match_metadata_def o min_absorb1)
qed

text \<open>C33. The two sides of the process boundary agree on YARA evidence: whatever a document
  matches, every finding a scan with the shipped rule pack reports passes the validation of
  the trusted side, so a scan that returns is never thrown away for a malformed finding.\<close>

theorem yara_findings_accepted:
  assumes "scan_top_level_file lib l None root p t t' = Inr a" and "yara_limits_ok l"
    and "y_max_total_metadata_bytes l \<le> MAX_FINDING_METADATA_BYTES"
    and "\<And>k r n ws ms m. yb_match_file lib k r p n = (ws, Inr ms) \<Longrightarrow> m \<in> set ms \<Longrightarrow> match_ok m"
  shows "list_all finding_ok (ya_findings a) \<and> length (ya_findings a) \<le> Suc (y_max_matched_rules l)"
  using assms(1)
proof (cases rule: scan_cases)
  case (stopped reason)
  then have "set [reason] \<subseteq> set (map u yara_partial_reasons)" by (auto simp: yara_partial_reasons_def)
  with partial_accepted [of "[reason]"] yara_result_value(3) [OF stopped(2)] show ?thesis by auto
next
  case (matched pack warnings matches findings reasons)
  let ?ms = "take (y_max_matched_rules l) (sort_key rm_rule matches)"
  have sha: "cp_sha256 pack = YARA_RULE_PACK_SHA256" using matched(1) trusted_pack_sha256 by simp
  obtain ok where ok: "prefix ok ?ms" "list_all2 (match_finding l YARA_RULE_PACK_SHA256) ok findings"
    and reasons: "set reasons \<subseteq> set (initial_reasons l warnings matches) \<union> (\<Union>m\<in>set ?ms. set (match_reasons l m)) \<union>
      {u ''metadata_limit''}" using report_matches_effect [OF matched(3)] sha by auto
  have "match_ok m" if "m \<in> set ok" for m
    using that set_mono_prefix [OF ok(1)] set_take_subset [of _ "sort_key rm_rule matches"] assms(4) [OF matched(2)] by fastforce
  then have "finding_ok f" if "f \<in> set findings" for f
    using list_all2_sides(2) [OF ok(2) that] match_finding_accepted [OF _ _ assms(2,3)] by blast
  then have found: "list_all finding_ok findings" by (simp add: list_all_iff)
  have n: "length findings \<le> y_max_matched_rules l"
    using prefix_length_le [OF ok(1)] list_all2_lengthD [OF ok(2)] by simp
  have known: "set reasons \<subseteq> set (map u yara_partial_reasons)"
    by (rule order_trans [OF reasons])
      (intro Un_least UN_least match_reasons_known initial_reasons_known, simp add: yara_partial_reasons_def)
  show ?thesis
    using found n yara_result_value(2,3) [OF matched(4)] partial_accepted [OF _ _ known] by (cases "reasons = []") auto
qed

text \<open>C29. A complete scan hides no match: the library reported no warning, every match has its
  finding, and that finding carries the exact number of instances and all their offsets.\<close>

theorem complete_scan_reports_all:
  assumes "scan_top_level_file lib l compiled root p t t' = Inr a" and "yara_complete a"
  shows "\<exists>rules matches. yb_match_file lib (y_max_match_data_bytes l) rules p (y_timeout_seconds l) = ([], Inr matches) \<and>
    length (ya_findings a) = length matches \<and>
    (\<forall>m\<in>set matches. \<exists>r f. trusted_rule m = Some r \<and> f \<in> set (ya_findings a) \<and> f_code f = yr_finding_code r \<and>
       jget (f_metadata f) ''rule_id'' = Some (jtext (yr_rule_id r)) \<and>
       jget (f_metadata f) ''match_count'' = Some (JInt (int (instance_count (rm_strings m)))) \<and>
       jget (f_metadata f) ''offsets'' =
         Some (JList (map JInt (sorted_codes (concat (map sm_offsets (rm_strings m)))))))"
  using assms(1)
proof (cases rule: scan_cases)
  case (stopped reason)
  with yara_result_value(1) [OF stopped(2)] assms(2) show ?thesis by simp
next
  case (matched pack warnings matches findings reasons)
  let ?ms = "take (y_max_matched_rules l) (sort_key rm_rule matches)"
  have r: "reasons = []" "ya_findings a = findings"
    using yara_result_value(1,2) [OF matched(4)] assms(2) by simp_all
  with report_matches_effect [OF matched(3)] have ok: "list_all2 (match_finding l (cp_sha256 pack)) ?ms findings"
    and none: "initial_reasons l warnings matches = []" "\<And>m. m \<in> set ?ms \<Longrightarrow> match_reasons l m = []" by auto
  then have w: "warnings = []" and all: "length matches \<le> y_max_matched_rules l"
    by (auto simp: initial_reasons_def split: if_splits)
  have "\<exists>r f. trusted_rule m = Some r \<and> f \<in> set findings \<and> f_code f = yr_finding_code r \<and>
       jget (f_metadata f) ''rule_id'' = Some (jtext (yr_rule_id r)) \<and>
       jget (f_metadata f) ''match_count'' = Some (JInt (int (instance_count (rm_strings m)))) \<and>
       jget (f_metadata f) ''offsets'' =
         Some (JList (map JInt (sorted_codes (concat (map sm_offsets (rm_strings m))))))" if "m \<in> set matches" for m
  proof -
    from that all have m: "m \<in> set ?ms" by simp
    then obtain f where f: "f \<in> set findings" "match_finding l (cp_sha256 pack) m f"
      using list_all2_sides(1) [OF ok] by blast
    then show ?thesis using reported_in_full [OF f(2) none(2) [OF m]] by blast
  qed
  moreover have "length findings = length matches" using list_all2_lengthD [OF ok] all by simp
  ultimately show ?thesis using matched(2) unfolding r(2) w by blast
qed

section \<open>A sample scan\<close>

definition sample_match :: rule_match where
  "sample_match = \<lparr>rm_rule = u ''DOCGUARD_EICAR_TEST'', rm_namespace = u ''docguard'',
     rm_strings = [\<lparr>sm_identifier = u ''$eicar'', sm_offsets = [0]\<rparr>]\<rparr>"

definition sample_source :: bytes where
  "sample_source = concat (map (\<lambda>r. map of_nat (u ''rule '' @ u (yr_rule_id r) @ [10])) YARA_RULES)"

definition sample_yara :: "unit yara_lib" where
  "sample_yara = \<lparr>yb_read = (\<lambda>_. Some sample_source), yb_sha256 = (\<lambda>_. YARA_RULE_PACK_SHA256),
     yb_compile = (\<lambda>_. Some ()), yb_match_file = (\<lambda>_ _ _ _. ([], Inr [sample_match])),
     yb_match_data = (\<lambda>_ _ _. Inl Yara_Error), yb_version = [], yb_runtime_version = []\<rparr>"

lemma sample_source_rules:
  "declared_rules sample_source = YARA_EXPECTED_RULE_IDS" "list_ex forbidden_line (source_lines sample_source) = False"
  "sample_source \<noteq> []" "length sample_source \<le> 300" "distinct YARA_EXPECTED_RULE_IDS"
  by code_simp+

lemma sample_pack:
  "trusted_pack sample_yara root = Inr \<lparr>cp_rules = (), cp_rule_ids = YARA_EXPECTED_RULE_IDS,
     cp_sha256 = YARA_RULE_PACK_SHA256\<rparr>"
  using sample_source_rules by (simp add: trusted_pack_def compile_rule_pack_def sample_yara_def
      MAX_RULE_PACK_BYTES_def)

lemma sample_rule: "trusted_rule sample_match = Some (hd YARA_RULES)"
  by code_simp

text \<open>The metadata of the sample match are plain text, so its size adds up.\<close>

lemma sample_metadata:
  "\<exists>n\<le>4000. json_size (JObj (match_metadata DEFAULT_YARA_LIMITS YARA_RULE_PACK_SHA256 (hd YARA_RULES) sample_match)) = Some n"
proof -
  have "case json_size (JObj (match_metadata DEFAULT_YARA_LIMITS YARA_RULE_PACK_SHA256 (hd YARA_RULES) sample_match)) of
      None \<Rightarrow> False | Some n \<Rightarrow> n \<le> 4000"
    by code_simp
  then show ?thesis by (auto split: option.splits)
qed

lemma sample_scan:
  "\<exists>a. scan_top_level_file sample_yara DEFAULT_YARA_LIMITS None root p 0 0 = Inr a \<and> yara_complete a"
proof -
  let ?md = "match_metadata DEFAULT_YARA_LIMITS YARA_RULE_PACK_SHA256 (hd YARA_RULES) sample_match"
  obtain n where n: "json_size (JObj ?md) = Some n" "n \<le> 4000" using sample_metadata by blast
  have "match_reasons DEFAULT_YARA_LIMITS sample_match = []"
    by (simp add: match_reasons_def collect_offsets_def sample_match_def DEFAULT_YARA_LIMITS_def yara_constants
       match_string_ids_def sorted_codes_def)
  moreover obtain f where "yara_finding_payload (yr_rule_id (hd YARA_RULES)) ?md = Some f"
    using trusted_rule_registered(3) [OF sample_rule] yara_rules_registered [of "yr_rule_id (hd YARA_RULES)" "hd YARA_RULES"]
    by (auto simp: yara_finding_payload_def)
  ultimately show ?thesis
    using n sample_rule
    by (simp add: scan_top_level_file_def sample_pack) (simp add: sample_yara_def DEFAULT_YARA_LIMITS_def yara_result_def yara_complete_def)
qed

theorem yara_findings_accepted_witness:
  "\<exists>a. scan_top_level_file sample_yara DEFAULT_YARA_LIMITS None [] [] 0 0 = Inr a \<and>
     list_all finding_ok (ya_findings a)"
proof -
  obtain a where a: "scan_top_level_file sample_yara DEFAULT_YARA_LIMITS None [] [] 0 0 = Inr a"
    using sample_scan by blast
  have l: "yara_limits_ok DEFAULT_YARA_LIMITS"
    by (simp add: yara_limits_ok_def DEFAULT_YARA_LIMITS_def yara_constants)
  have b: "y_max_total_metadata_bytes DEFAULT_YARA_LIMITS \<le> MAX_FINDING_METADATA_BYTES"
    by (simp add: DEFAULT_YARA_LIMITS_def MAX_FINDING_METADATA_BYTES_def)
  have "match_ok sample_match" by code_simp
  then have m: "match_ok m" if "yb_match_file sample_yara k r [] n = (ws, Inr ms)" "m \<in> set ms" for k r n ws ms m
    using that by (auto simp: sample_yara_def)
  have "list_all finding_ok (ya_findings a) \<and> length (ya_findings a) \<le> Suc (y_max_matched_rules DEFAULT_YARA_LIMITS)"
    by (rule yara_findings_accepted [OF a l b]) (rule m)
  with a show ?thesis by blast
qed

theorem complete_scan_reports_all_witness:
  "\<exists>a. scan_top_level_file sample_yara DEFAULT_YARA_LIMITS None [] [] 0 0 = Inr a \<and> length (ya_findings a) = 1"
proof -
  obtain a where a: "scan_top_level_file sample_yara DEFAULT_YARA_LIMITS None [] [] 0 0 = Inr a" "yara_complete a"
    using sample_scan by blast
  from complete_scan_reports_all [OF a] a(1) show ?thesis by (auto simp: sample_yara_def)
qed

end
