(* ===== verification/Pdf_Objects.thy ===== *)
theory Pdf_Objects
  imports File_Identity
begin

text \<open>
  The data of the PDF analyzer (\<open>worker/analyzers/pdf.py\<close>): its limits, the state of an
  inspection and the view pikepdf gives of a document. pikepdf and the Unicode tables are
  parameters; an object of the document is a number (\<open>handle\<close>), so a document may be a cyclic
  graph, and looking at an object may raise.
\<close>

section \<open>Limits\<close>

record pdf_limits =
  max_pages :: nat
  max_objects :: nat
  max_action_depth :: nat
  max_action_nodes :: nat
  max_action_type_names :: nat
  max_pdf_string_length :: nat
  max_uri_count :: nat
  max_uri_metadata_entries :: nat
  max_embedded_files :: nat
  max_embedded_names :: nat
  max_additional_triggers :: nat
  max_additional_trigger_names :: nat
  max_javascript_scan_bytes :: nat
  max_fallback_scan_bytes :: nat

definition pdf_limits_ok :: "pdf_limits \<Rightarrow> bool" where
  "pdf_limits_ok l \<longleftrightarrow> list_all (\<lambda>v. 0 < v) [max_pages l, max_objects l, max_action_depth l,
     max_action_nodes l, max_action_type_names l, max_pdf_string_length l, max_uri_count l,
     max_uri_metadata_entries l, max_embedded_files l, max_embedded_names l, max_additional_triggers l,
     max_additional_trigger_names l, max_javascript_scan_bytes l, max_fallback_scan_bytes l]"

definition DEFAULT_PDF_LIMITS :: pdf_limits where
  "DEFAULT_PDF_LIMITS = \<lparr>max_pages = 10000, max_objects = 100000, max_action_depth = 32,
     max_action_nodes = 512, max_action_type_names = 32, max_pdf_string_length = 256, max_uri_count = 128,
     max_uri_metadata_entries = 32, max_embedded_files = 128, max_embedded_names = 32,
     max_additional_triggers = 128, max_additional_trigger_names = 32,
     max_javascript_scan_bytes = 64 * 1024, max_fallback_scan_bytes = 8 * 1024 * 1024\<rparr>"

section \<open>The document\<close>

text \<open>The exceptions the analyzer tells apart: the ones of \<open>_PARSER_EXCEPTIONS\<close> (\<open>PasswordError\<close> is
  a \<open>PdfError\<close>), \<open>DependencyError\<close>, \<open>ValueError\<close>, the \<open>RecursionError\<close> of the interpreter, and any
  other, each with the name of its class.\<close>

datatype pdf_exn_kind = X_Pdf | X_Password | X_Decoding | X_Deleted | X_Dependency | X_Value | X_Recursion | X_Other

record pdf_exn =
  px_kind :: pdf_exn_kind
  px_name :: string

definition parser_exception :: "pdf_exn \<Rightarrow> bool" where
  "parser_exception e \<longleftrightarrow> px_kind e \<in> {X_Pdf, X_Password, X_Decoding, X_Deleted}"

definition value_error :: pdf_exn where
  "value_error = \<lparr>px_kind = X_Value, px_name = ''ValueError''\<rparr>"

definition recursion_error :: pdf_exn where
  "recursion_error = \<lparr>px_kind = X_Recursion, px_name = ''RecursionError''\<rparr>"

type_synonym handle = nat

text \<open>A dictionary or stream lists its entries whose value is not null, by name with the slash.\<close>

datatype pdf_view =
    Mapping bool "(ustring \<times> handle) list"
  | Pdf_Array "handle list"
  | Pdf_Name ustring
  | Pdf_Other

text \<open>A sequence that is read lazily yields items and may then raise.\<close>

type_synonym 'a yields = "'a list \<times> pdf_exn option"

record pdf_doc =
  pd_root :: handle
  pd_encrypted :: bool
  pd_pages :: "pdf_exn + handle list"
  pd_objects :: "pdf_exn + handle list"
  pd_attachments :: "(ustring \<times> (pdf_exn + handle)) yields"
  pd_view :: "handle \<Rightarrow> pdf_exn + pdf_view"
  pd_objgen :: "handle \<Rightarrow> (int \<times> int) option"
  pd_text :: "handle \<Rightarrow> pdf_exn + ustring"
  pd_truthy :: "handle \<Rightarrow> pdf_exn + bool"
  pd_stream_bytes :: "handle \<Rightarrow> pdf_exn + bytes"
  pd_name_tree :: "handle \<Rightarrow> pdf_exn + (pdf_exn + handle) yields"
  pd_warnings :: nat

text \<open>\<open>pl_id\<close> is the builtin \<open>id\<close> on the wrapper of a direct object: each access makes a new
  wrapper, so the number depends on the moment, and two wrappers that do not live at the same
  time may have the same number. \<open>pl_read\<close> gives at most the asked number of bytes of the
  sample; \<open>pl_urlsplit\<close> the scheme and host name, unless the URL is invalid.\<close>

record pdf_lib =
  pl_open :: "pdf_exn + pdf_doc"
  pl_version :: string
  pl_qpdf_version :: string
  pl_id :: "nat \<Rightarrow> handle \<Rightarrow> int"
  pl_read :: "nat \<Rightarrow> bytes option"
  pl_control :: "nat \<Rightarrow> bool"
  pl_nfc :: "ustring \<Rightarrow> ustring"
  pl_casefold :: "ustring \<Rightarrow> ustring"
  pl_urlsplit :: "ustring \<Rightarrow> (ustring \<times> ustring option) option"

section \<open>The state of an inspection\<close>

datatype obj_key = Indirect_Key int int | Direct_Key int

text \<open>\<open>i_clock\<close> counts the calls of \<open>id\<close>; it is not a field of the code's state.\<close>

record inspection_state =
  i_page_count :: "nat option"
  i_object_count :: "nat option"
  i_pages_inspected :: nat
  i_objects_inspected :: nat
  i_custom_objects :: nat
  i_catalog_present :: bool
  i_encrypted :: bool
  i_acroform_present :: bool
  i_xfa_present :: bool
  i_form_field_count :: nat
  i_open_action_present :: bool
  i_open_action_kind :: "string option"
  i_open_action_type :: "ustring option"
  i_additional_action_count :: nat
  i_additional_triggers_visited :: nat
  i_additional_triggers :: "ustring list"
  i_trigger_names_capped :: bool
  i_additional_action_types :: "ustring list"
  i_visited_holders :: "obj_key list"
  i_action_nodes_visited :: nat
  i_action_types :: "(ustring \<times> nat) list"
  i_visited_actions :: "obj_key list"
  i_javascript_action_count :: nat
  i_name_tree_entries :: nat
  i_name_tree_present :: bool
  i_javascript_sources :: "string list"
  i_behavior_indicators :: "string list"
  i_launch_action_count :: nat
  i_external_uri_count :: nat
  i_uri_metadata :: "json_object list"
  i_uri_metadata_capped :: bool
  i_external_submission_count :: nat
  i_submit_targets :: "json_object list"
  i_submit_targets_capped :: bool
  i_fallback_counts :: "(string \<times> nat) list"
  i_fallback_truncated :: bool
  i_attachment_names :: "ustring list"
  i_attachment_names_capped :: bool
  i_attachment_specs :: "obj_key list"
  i_embedded_payloads :: "obj_key list"
  i_referenced_payloads :: "obj_key list"
  i_named_attachment_count :: nat
  i_embedded_limit_hit :: bool
  i_warning_count :: nat
  i_malformed :: bool
  i_parser_exception :: "string option"
  i_partial_reasons :: "string list"
  i_clock :: nat

definition initial_inspection :: inspection_state where
  "initial_inspection = \<lparr>i_page_count = None, i_object_count = None, i_pages_inspected = 0,
     i_objects_inspected = 0, i_custom_objects = 0, i_catalog_present = False, i_encrypted = False,
     i_acroform_present = False, i_xfa_present = False, i_form_field_count = 0,
     i_open_action_present = False, i_open_action_kind = None, i_open_action_type = None,
     i_additional_action_count = 0, i_additional_triggers_visited = 0, i_additional_triggers = [],
     i_trigger_names_capped = False, i_additional_action_types = [], i_visited_holders = [],
     i_action_nodes_visited = 0, i_action_types = [], i_visited_actions = [],
     i_javascript_action_count = 0, i_name_tree_entries = 0, i_name_tree_present = False,
     i_javascript_sources = [], i_behavior_indicators = [], i_launch_action_count = 0,
     i_external_uri_count = 0, i_uri_metadata = [], i_uri_metadata_capped = False,
     i_external_submission_count = 0, i_submit_targets = [], i_submit_targets_capped = False,
     i_fallback_counts = [], i_fallback_truncated = False, i_attachment_names = [],
     i_attachment_names_capped = False, i_attachment_specs = [], i_embedded_payloads = [],
     i_referenced_payloads = [], i_named_attachment_count = 0, i_embedded_limit_hit = False,
     i_warning_count = 0, i_malformed = False, i_parser_exception = None, i_partial_reasons = [],
     i_clock = 0\<rparr>"

type_synonym 'a inspection = "(inspection_state, pdf_exn, 'a) prog"

definition partialE :: "string \<Rightarrow> unit inspection" where
  "partialE reason = modifyE (\<lambda>s. s\<lparr>i_partial_reasons := List.insert reason (i_partial_reasons s)\<rparr>)"

definition consume_custom_object :: "pdf_limits \<Rightarrow> bool inspection" where
  "consume_custom_object l =
     bindE (getE i_custom_objects) (\<lambda>n.
     if max_objects l \<le> n then bindE (partialE ''custom_object_limit'') (\<lambda>_. returnE False)
     else bindE (modifyE (\<lambda>s. s\<lparr>i_custom_objects := Suc n\<rparr>)) (\<lambda>_. returnE True))"

section \<open>Access to the document\<close>

definition look :: "pdf_doc \<Rightarrow> handle \<Rightarrow> pdf_view inspection" where
  "look d h = fromE (pd_view d h)"

definition entry :: "(ustring \<times> handle) list \<Rightarrow> string \<Rightarrow> handle option" where
  "entry es k = map_of es (u (CHR ''/'' # k))"

text \<open>\<open>obj.get(Name.K)\<close>, which exists on dictionaries and streams only.\<close>

definition get_entry :: "pdf_doc \<Rightarrow> handle \<Rightarrow> string \<Rightarrow> handle option inspection" where
  "get_entry d h k = bindE (look d h) (\<lambda>v. case v of Mapping _ es \<Rightarrow> returnE (entry es k) | _ \<Rightarrow> raiseE value_error)"

fun is_mapping :: "pdf_view \<Rightarrow> bool" where
  "is_mapping (Mapping _ _) = True"
| "is_mapping _ = False"

fun is_name :: "pdf_view \<Rightarrow> bool" where
  "is_name (Pdf_Name _) = True"
| "is_name _ = False"

definition object_key :: "pdf_lib \<Rightarrow> pdf_doc \<Rightarrow> handle \<Rightarrow> obj_key inspection" where
  "object_key lib d h = (case pd_objgen d h of
     Some (n, g) \<Rightarrow> returnE (Indirect_Key n g)
   | None \<Rightarrow> bindE (getE i_clock) (\<lambda>t. bindE (modifyE (\<lambda>s. s\<lparr>i_clock := Suc t\<rparr>)) (\<lambda>_.
       returnE (Direct_Key (pl_id lib t h)))))"

definition is_action :: "pdf_doc \<Rightarrow> handle \<Rightarrow> bool inspection" where
  "is_action d h = bindE (look d h) (\<lambda>v. case v of
     Mapping _ es \<Rightarrow> (case entry es ''S'' of None \<Rightarrow> returnE False
       | Some s \<Rightarrow> bindE (look d s) (\<lambda>w. returnE (is_name w)))
   | _ \<Rightarrow> returnE False)"

end
