(* ===== verification/Pdf_Analysis.thy ===== *)
theory Pdf_Analysis
  imports Pdf_Objects "HOL-Library.AList"
begin

text \<open>
  The PDF analyzer of the worker, \<open>worker/analyzers/pdf.py\<close> and its lexical fallback
  \<open>worker/analyzers/pdf_fallback.py\<close>: the walk over the actions of a document, the passes over
  catalog, pages, form fields, name trees, attachments and indirect objects, the scan of the raw
  bytes and the report.
\<close>

section \<open>Text\<close>

definition PDF_BIDI_CONTROLS :: "nat list" where
  "PDF_BIDI_CONTROLS = [8206, 8207, 8234, 8235, 8236, 8237, 8238, 8294, 8295, 8296, 8297]"

definition printable :: "pdf_lib \<Rightarrow> ustring \<Rightarrow> ustring" where
  "printable lib v = filter (\<lambda>c. c \<notin> set PDF_BIDI_CONTROLS \<and> \<not> pl_control lib c) v"

definition bounded_text :: "pdf_lib \<Rightarrow> pdf_limits \<Rightarrow> nat \<Rightarrow> ustring \<Rightarrow> ustring" where
  "bounded_text lib l hard_limit v = take (min (max_pdf_string_length l) hard_limit) (printable lib v)"

definition safe_name :: "pdf_lib \<Rightarrow> pdf_limits \<Rightarrow> ustring \<Rightarrow> ustring" where
  "safe_name lib l v = (let n = dropWhile (\<lambda>c. c = 47) v in
     bounded_text lib l 128 (if n = [] then u ''unknown'' else n))"

section \<open>Actions\<close>

definition KNOWN_ACTION_TYPES :: "string list" where
  "KNOWN_ACTION_TYPES = [''GoTo'', ''GoToE'', ''GoToR'', ''ImportData'', ''JavaScript'', ''Launch'',
     ''SubmitForm'', ''URI'']"

definition known_action_type :: "ustring \<Rightarrow> ustring option" where
  "known_action_type raw_name = map_option u (find (\<lambda>k. u (CHR ''/'' # k) = raw_name) KNOWN_ACTION_TYPES)"

definition unknown_prefix :: ustring where "unknown_prefix = u ''Unknown:''"

definition unknown_type :: "pdf_limits \<Rightarrow> ustring \<Rightarrow> ustring inspection" where
  "unknown_type l safe = bindE (getE i_action_types) (\<lambda>types.
     returnE (unknown_prefix @ (if max_action_type_names l \<le> length (filter (\<lambda>(n, _). starts_with unknown_prefix n) types)
       then u ''other'' else safe)))"

definition action_type :: "pdf_lib \<Rightarrow> pdf_limits \<Rightarrow> pdf_doc \<Rightarrow> handle \<Rightarrow> ustring inspection" where
  "action_type lib l d h = bindE (get_entry d h ''S'') (\<lambda>subtype.
     case subtype of None \<Rightarrow> unknown_type l (u ''missing'')
     | Some s \<Rightarrow> bindE (look d s) (\<lambda>v. case v of
         Pdf_Name raw_name \<Rightarrow> (case known_action_type raw_name of Some known \<Rightarrow> returnE known
           | None \<Rightarrow> unknown_type l (safe_name lib l raw_name))
       | _ \<Rightarrow> bindE (fromE (pd_text d s)) (\<lambda>t. unknown_type l (safe_name lib l t))))"

definition JS_BEHAVIOR_KEYWORDS :: "(string \<times> string list) list" where
  "JS_BEHAVIOR_KEYWORDS = [
     (''external_submission_api'', [''submitForm'', [CHR 34] @ ''submitForm'' @ [CHR 34], ''importDataObject'',
        [CHR 34] @ ''importDataObject'' @ [CHR 34]]),
     (''external_url_open_api'', [''getURL'', [CHR 34] @ ''getURL'' @ [CHR 34], ''launchURL'',
        [CHR 34] @ ''launchURL'' @ [CHR 34], ''openDoc'', [CHR 34] @ ''openDoc'' @ [CHR 34]]),
     (''external_network_api'', [''fetch('', ''XMLHttpRequest'', ''WebSocket'', ''SOAP.connect'', ''SOAP.request'',
        ''SOAP.streamDecode'', ''new Image'']),
     (''document_content_access'', [''getField('', ''getPageNumWords('', ''getPageNthWord('', ''getAnnots('',
        ''getOCGs(''])]"

definition javascript_behavior_indicators :: "ustring \<Rightarrow> string list" where
  "javascript_behavior_indicators source =
     map fst (filter (\<lambda>(_, keywords). list_ex (\<lambda>k. contains (u k) source) keywords) JS_BEHAVIOR_KEYWORDS)"

text \<open>\<open>except _PARSER_EXCEPTIONS: return None\<close>.\<close>

definition parser_errors_to :: "'a inspection \<Rightarrow> 'a inspection \<Rightarrow> 'a inspection" where
  "parser_errors_to handler m = catchE m (\<lambda>e. if parser_exception e then Some handler else None)"

definition read_javascript_source :: "pdf_limits \<Rightarrow> pdf_doc \<Rightarrow> handle \<Rightarrow> ustring option inspection" where
  "read_javascript_source l d h = bindE (get_entry d h ''JS'') (\<lambda>js.
     case js of None \<Rightarrow> returnE None
     | Some j \<Rightarrow> parser_errors_to (returnE None) (bindE (look d j) (\<lambda>v. case v of
         Mapping True _ \<Rightarrow> bindE (fromE (pd_stream_bytes d j)) (\<lambda>raw.
           returnE (Some (map unat (take (max_javascript_scan_bytes l) raw))))
       | _ \<Rightarrow> bindE (fromE (pd_text d j)) (\<lambda>t. returnE (Some (take (max_javascript_scan_bytes l) t))))))"

definition parse_target_metadata :: "pdf_lib \<Rightarrow> pdf_limits \<Rightarrow> ustring \<Rightarrow> json_object" where
  "parse_target_metadata lib l raw_value =
     (case pl_urlsplit lib (take (max_pdf_string_length l) raw_value) of
        None \<Rightarrow> obj [(''parse_status'', jtext ''invalid'')]
      | Some (raw_scheme, raw_host) \<Rightarrow>
        let scheme = bounded_text lib l 32 (pl_casefold lib raw_scheme);
            hostname = bounded_text lib l 128 (case raw_host of None \<Rightarrow> [] | Some h \<Rightarrow> h) in
        obj ([(''parse_status'', jtext ''parsed'')] @ (if scheme = [] then [] else [(''scheme'', JStr scheme)]) @
          (if hostname = [] then [] else [(''hostname'', JStr hostname)])))"

definition record_uri :: "pdf_lib \<Rightarrow> pdf_limits \<Rightarrow> pdf_doc \<Rightarrow> handle option \<Rightarrow> unit inspection" where
  "record_uri lib l d uri_object =
     bindE (getE (\<lambda>s. (i_external_uri_count s, length (i_uri_metadata s)))) (\<lambda>(n, k).
     if max_uri_count l < n then partialE ''uri_action_limit''
     else if max_uri_metadata_entries l \<le> k then modifyE (\<lambda>s. s\<lparr>i_uri_metadata_capped := True\<rparr>)
     else case uri_object of
       None \<Rightarrow> modifyE (\<lambda>s. s\<lparr>i_uri_metadata := i_uri_metadata s @ [obj [(''parse_status'', jtext ''missing'')]]\<rparr>)
     | Some h \<Rightarrow> bindE (fromE (pd_text d h)) (\<lambda>t.
         modifyE (\<lambda>s. s\<lparr>i_uri_metadata := i_uri_metadata s @ [parse_target_metadata lib l t]\<rparr>)))"

definition note_submit_target :: "json_object \<Rightarrow> unit inspection" where
  "note_submit_target metadata =
     (if jget metadata ''parse_status'' = Some (jtext ''parsed'') \<and> jget metadata ''scheme'' \<noteq> None
      then modifyE (\<lambda>s. s\<lparr>i_submit_targets := i_submit_targets s @ [metadata],
        i_external_submission_count := Suc (i_external_submission_count s)\<rparr>)
      else returnE ())"

definition record_submit_form_target :: "pdf_lib \<Rightarrow> pdf_limits \<Rightarrow> pdf_doc \<Rightarrow> handle \<Rightarrow> unit inspection" where
  "record_submit_form_target lib l d h =
     bindE (getE (\<lambda>s. length (i_submit_targets s))) (\<lambda>k.
     if max_uri_metadata_entries l \<le> k then modifyE (\<lambda>s. s\<lparr>i_submit_targets_capped := True\<rparr>)
     else bindE (get_entry d h ''F'') (\<lambda>first.
     bindE (case first of None \<Rightarrow> returnE None
       | Some t \<Rightarrow> bindE (look d t) (\<lambda>v. case v of Mapping _ es \<Rightarrow> returnE (entry es ''F'') | _ \<Rightarrow> returnE (Some t))) (\<lambda>target.
     case target of None \<Rightarrow> returnE ()
     | Some t \<Rightarrow> bindE (parser_errors_to (returnE None) (bindE (fromE (pd_text d t)) (\<lambda>v. returnE (Some v)))) (\<lambda>raw.
         case raw of None \<Rightarrow> returnE () | Some v \<Rightarrow> note_submit_target (parse_target_metadata lib l v)))))"

definition count_action_type :: "ustring \<Rightarrow> (ustring \<times> nat) list \<Rightarrow> (ustring \<times> nat) list" where
  "count_action_type t types = AList.update t (case map_of types t of None \<Rightarrow> 1 | Some n \<Rightarrow> Suc n) types"

text \<open>What is recorded of an action of a type, and what a visit of one action records.\<close>

definition note_kind :: "pdf_lib \<Rightarrow> pdf_limits \<Rightarrow> pdf_doc \<Rightarrow> handle \<Rightarrow> string \<Rightarrow> ustring \<Rightarrow> unit inspection" where
  "note_kind lib l d h source t =
     (if t = u ''JavaScript'' then
        bindE (modifyE (\<lambda>s. s\<lparr>i_javascript_action_count := Suc (i_javascript_action_count s),
          i_javascript_sources := List.insert source (i_javascript_sources s)\<rparr>)) (\<lambda>_.
        bindE (read_javascript_source l d h) (\<lambda>js.
        case js of None \<Rightarrow> returnE ()
        | Some text_of_js \<Rightarrow> modifyE (\<lambda>s. s\<lparr>i_behavior_indicators :=
            fold List.insert (javascript_behavior_indicators text_of_js) (i_behavior_indicators s)\<rparr>)))
      else if t = u ''Launch'' then modifyE (\<lambda>s. s\<lparr>i_launch_action_count := Suc (i_launch_action_count s)\<rparr>)
      else if t = u ''URI'' then
        bindE (modifyE (\<lambda>s. s\<lparr>i_external_uri_count := Suc (i_external_uri_count s)\<rparr>)) (\<lambda>_.
        bindE (get_entry d h ''URI'') (record_uri lib l d))
      else if t = u ''SubmitForm'' then record_submit_form_target lib l d h
      else returnE ())"

definition note_action :: "pdf_lib \<Rightarrow> pdf_limits \<Rightarrow> pdf_doc \<Rightarrow> handle \<Rightarrow> string \<Rightarrow> unit inspection" where
  "note_action lib l d h source =
     bindE (action_type lib l d h) (\<lambda>t.
     bindE (modifyE (\<lambda>s. s\<lparr>i_action_types := count_action_type t (i_action_types s)\<rparr>)) (\<lambda>_.
     bindE (if ends_with ''AA'' source
       then modifyE (\<lambda>s. s\<lparr>i_additional_action_types := List.insert t (i_additional_action_types s)\<rparr>) else returnE ()) (\<lambda>_.
     note_kind lib l d h source t)))"

text \<open>Entering an action: \<open>False\<close> when it was visited before or the limit is reached.\<close>

definition enter_action :: "pdf_lib \<Rightarrow> pdf_limits \<Rightarrow> pdf_doc \<Rightarrow> handle \<Rightarrow> bool inspection" where
  "enter_action lib l d h =
     bindE (object_key lib d h) (\<lambda>key.
     bindE (getE (\<lambda>s. (key \<in> set (i_visited_actions s), i_action_nodes_visited s))) (\<lambda>(seen, n).
     if seen then returnE False
     else if max_action_nodes l \<le> n then bindE (partialE ''action_node_limit'') (\<lambda>_. returnE False)
     else bindE (modifyE (\<lambda>s. s\<lparr>i_visited_actions := List.insert key (i_visited_actions s),
       i_action_nodes_visited := Suc n\<rparr>)) (\<lambda>_. returnE True)))"

text \<open>The first argument is what is left of the interpreter's recursion limit.\<close>

primrec walk_action ::
  "nat \<Rightarrow> pdf_lib \<Rightarrow> pdf_limits \<Rightarrow> pdf_doc \<Rightarrow> handle \<Rightarrow> string \<Rightarrow> nat \<Rightarrow> unit inspection" where
  "walk_action 0 lib l d h source depth = raiseE recursion_error"
| "walk_action (Suc frames) lib l d h source depth =
     (if max_action_depth l < depth then partialE ''action_depth_limit''
      else bindE (look d h) (\<lambda>v. case v of
        Pdf_Array children \<Rightarrow> forE (\<lambda>c. walk_action frames lib l d c source depth) children
      | _ \<Rightarrow> bindE (is_action d h) (\<lambda>b.
          if \<not> b then returnE ()
          else bindE (enter_action lib l d h) (\<lambda>entered.
          if \<not> entered then returnE ()
          else bindE (note_action lib l d h source) (\<lambda>_.
          bindE (get_entry d h ''Next'') (\<lambda>next_action.
          case next_action of None \<Rightarrow> returnE ()
          | Some n \<Rightarrow> walk_action frames lib l d n source (Suc depth)))))))"

definition note_trigger :: "pdf_lib \<Rightarrow> pdf_limits \<Rightarrow> ustring \<Rightarrow> unit inspection" where
  "note_trigger lib l trigger = modifyE (\<lambda>s.
     let s1 = s\<lparr>i_additional_triggers_visited := Suc (i_additional_triggers_visited s)\<rparr> in
     if length (i_additional_triggers s) < max_additional_trigger_names l
     then s1\<lparr>i_additional_triggers := List.insert (safe_name lib l trigger) (i_additional_triggers s)\<rparr>
     else s1\<lparr>i_trigger_names_capped := True\<rparr>)"

definition walk_trigger ::
  "nat \<Rightarrow> pdf_lib \<Rightarrow> pdf_limits \<Rightarrow> pdf_doc \<Rightarrow> string \<Rightarrow> ustring \<times> handle \<Rightarrow> bool inspection" where
  "walk_trigger frames lib l d source ta =
     bindE (getE i_additional_triggers_visited) (\<lambda>n.
     if max_additional_triggers l \<le> n
     then bindE (partialE ''additional_action_trigger_limit'') (\<lambda>_. returnE False)
     else bindE (note_trigger lib l (fst ta)) (\<lambda>_.
     bindE (walk_action frames lib l d (snd ta) (source @ ''AA'') 0) (\<lambda>_. returnE True)))"

definition inspect_additional_actions ::
  "nat \<Rightarrow> pdf_lib \<Rightarrow> pdf_limits \<Rightarrow> pdf_doc \<Rightarrow> handle \<Rightarrow> string \<Rightarrow> unit inspection" where
  "inspect_additional_actions frames lib l d holder source =
     bindE (get_entry d holder ''AA'') (\<lambda>additional.
     case additional of None \<Rightarrow> returnE ()
     | Some aa \<Rightarrow> bindE (look d aa) (\<lambda>v. case v of
         Mapping _ es \<Rightarrow>
           bindE (object_key lib d holder) (\<lambda>key.
           bindE (getE (\<lambda>s. key \<in> set (i_visited_holders s))) (\<lambda>seen.
           if seen then returnE ()
           else bindE (modifyE (\<lambda>s. s\<lparr>i_visited_holders := List.insert key (i_visited_holders s),
             i_additional_action_count := Suc (i_additional_action_count s)\<rparr>)) (\<lambda>_.
           bindE (whileE (walk_trigger frames lib l d source) es) (\<lambda>_. returnE ()))))
       | _ \<Rightarrow> returnE ()))"

definition inspect_action_holder ::
  "nat \<Rightarrow> pdf_lib \<Rightarrow> pdf_limits \<Rightarrow> pdf_doc \<Rightarrow> handle \<Rightarrow> string \<Rightarrow> unit inspection" where
  "inspect_action_holder frames lib l d holder source =
     bindE (get_entry d holder ''A'') (\<lambda>action.
     bindE (case action of None \<Rightarrow> returnE () | Some a \<Rightarrow> walk_action frames lib l d a source 0) (\<lambda>_.
     inspect_additional_actions frames lib l d holder source))"

section \<open>What the walk may change\<close>

locale inspection_effects = effects R for R :: "inspection_state \<Rightarrow> inspection_state \<Rightarrow> bool"
begin

lemma leaves_look: "leaves R (look d h)"
  by (simp add: look_def leaves_from)

lemma leaves_get_entry: "leaves R (get_entry d h k)"
  unfolding get_entry_def by (intro leaves_bind leaves_look) (auto simp: leaves_return leaves_raise split: pdf_view.split)

lemma leaves_is_action: "leaves R (is_action d h)"
  unfolding is_action_def
  by (intro leaves_bind leaves_look)
    (auto simp: leaves_return leaves_bind leaves_look split: pdf_view.split option.split)

lemma leaves_unknown_type: "leaves R (unknown_type l safe)"
  unfolding unknown_type_def by (intro leaves_bind leaves_get leaves_return)

lemma leaves_action_type: "leaves R (action_type lib l d h)"
  unfolding action_type_def
  by (intro leaves_bind leaves_get_entry leaves_option leaves_return leaves_look)
    (auto simp: leaves_return leaves_unknown_type leaves_bind leaves_from split: pdf_view.split option.split)

lemma leaves_parser_errors: "leaves R m \<Longrightarrow> leaves R n \<Longrightarrow> leaves R (parser_errors_to n m)"
  unfolding parser_errors_to_def by (rule leaves_catch) (auto split: if_splits)

lemma leaves_read_javascript: "leaves R (read_javascript_source l d h)"
  unfolding read_javascript_source_def
  by (intro leaves_bind leaves_get_entry leaves_option leaves_return leaves_look leaves_parser_errors)
    (auto simp: leaves_return leaves_bind leaves_from split: pdf_view.split bool.split)

end

text \<open>Reading the document leaves the state as it is.\<close>

interpretation reading: inspection_effects "(=)"
  by unfold_locales simp_all

text \<open>The updates that recording one action makes.\<close>

locale note_effects = inspection_effects R for R :: "inspection_state \<Rightarrow> inspection_state \<Rightarrow> bool" +
  fixes l :: pdf_limits
  assumes on_partial: "R s (s\<lparr>i_partial_reasons := List.insert reason (i_partial_reasons s)\<rparr>)"
    and on_type: "R s (s\<lparr>i_action_types := types\<rparr>)"
    and on_additional_type: "R s (s\<lparr>i_additional_action_types := types'\<rparr>)"
    and on_javascript: "R s (s\<lparr>i_javascript_action_count := Suc (i_javascript_action_count s),
       i_javascript_sources := List.insert source (i_javascript_sources s)\<rparr>)"
    and on_behavior: "R s (s\<lparr>i_behavior_indicators := labels\<rparr>)"
    and on_launch: "R s (s\<lparr>i_launch_action_count := Suc (i_launch_action_count s)\<rparr>)"
    and on_uri: "R s (s\<lparr>i_external_uri_count := Suc (i_external_uri_count s)\<rparr>)"
    and on_uri_metadata: "length (i_uri_metadata s) < max_uri_metadata_entries l \<Longrightarrow>
       R s (s\<lparr>i_uri_metadata := i_uri_metadata s @ [m]\<rparr>)"
    and on_uri_capped: "R s (s\<lparr>i_uri_metadata_capped := True\<rparr>)"
    and on_submit: "length (i_submit_targets s) < max_uri_metadata_entries l \<Longrightarrow>
       R s (s\<lparr>i_submit_targets := i_submit_targets s @ [m],
         i_external_submission_count := Suc (i_external_submission_count s)\<rparr>)"
    and on_submit_capped: "R s (s\<lparr>i_submit_targets_capped := True\<rparr>)"
begin

lemma leaves_partial: "leaves R (partialE reason)"
  by (simp add: partialE_def leaves_modify on_partial)

lemma leaves_record_uri: "leaves R (record_uri lib l d uri_object)"
proof -
  have "R w (snd (bindE (fromE r) (\<lambda>t. modifyE (\<lambda>s. s\<lparr>i_uri_metadata := i_uri_metadata s @ [f t]\<rparr>)) w))"
    if "length (i_uri_metadata w) < max_uri_metadata_entries l" for w and r :: "pdf_exn + ustring" and f
    by (rule after_reading [OF reading.leaves_from]) (simp add: modifyE_def on_uri_metadata that)
  then show ?thesis
    unfolding record_uri_def
    by (intro leaves_get_bind)
      (auto simp: partialE_def modifyE_def on_partial on_uri_capped on_uri_metadata not_le split: option.split)
qed

lemma leaves_submit_target: "leaves R (record_submit_form_target lib l d h)"
proof -
  let ?inner = "\<lambda>first. case first of None \<Rightarrow> returnE None
     | Some t \<Rightarrow> bindE (look d t) (\<lambda>v. case v of Mapping _ es \<Rightarrow> returnE (entry es ''F'') | _ \<Rightarrow> returnE (Some t))"
  let ?text = "\<lambda>t. parser_errors_to (returnE None) (bindE (fromE (pd_text d t)) (\<lambda>v. returnE (Some v)))"
  let ?note = "\<lambda>raw. case raw of None \<Rightarrow> returnE () | Some v \<Rightarrow> note_submit_target (parse_target_metadata lib l v)"
  have inner: "leaves (=) (?inner first)" for first
    by (auto simp: reading.leaves_return reading.leaves_look intro!: reading.leaves_bind split: option.split pdf_view.split)
  have read: "leaves (=) (?text t)" for t
    by (intro reading.leaves_parser_errors reading.leaves_bind reading.leaves_from reading.leaves_return)
  have note_it: "R w (snd (?note raw w))" if "length (i_submit_targets w) < max_uri_metadata_entries l" for raw w
    using that by (auto simp: note_submit_target_def returnE_def modifyE_def here on_submit split: option.split)
  have rest: "R w (snd (bindE (get_entry d h ''F'') (\<lambda>first. bindE (?inner first) (\<lambda>target.
      case target of None \<Rightarrow> returnE () | Some t \<Rightarrow> bindE (?text t) ?note)) w))"
    if "length (i_submit_targets w) < max_uri_metadata_entries l" for w
  proof (rule after_reading [OF reading.leaves_get_entry], rule after_reading [OF inner])
    fix target show "R w (snd ((case target of None \<Rightarrow> returnE () | Some t \<Rightarrow> bindE (?text t) ?note) w))"
      by (cases target) (auto simp: returnE_def here intro!: after_reading [OF read] note_it that)
  qed
  show ?thesis
    unfolding record_submit_form_target_def by (intro leaves_get_bind) (auto simp: modifyE_def on_submit_capped rest)
qed

lemma leaves_note_action: "leaves R (note_action lib l d h source)"
  unfolding note_action_def note_kind_def
  by (intro leaves_bind leaves_action_type leaves_modify leaves_if leaves_return leaves_option leaves_read_javascript
      leaves_get_entry leaves_record_uri leaves_submit_target on_type on_additional_type on_javascript on_behavior
      on_launch on_uri)

end

text \<open>Taking the key of a direct object moves the clock of \<open>id\<close>.\<close>

locale key_effects = note_effects R l for R :: "inspection_state \<Rightarrow> inspection_state \<Rightarrow> bool" and l :: pdf_limits +
  assumes on_clock: "R s (s\<lparr>i_clock := t\<rparr>)"
begin

lemma leaves_object_key: "leaves R (object_key lib d h)"
  unfolding object_key_def by (intro leaves_option leaves_pair leaves_bind leaves_get leaves_return leaves_modify on_clock)

end

text \<open>The updates the walk over actions makes. A preorder that allows each of them holds between
  the state before a walk and the state after it.\<close>

locale walk_effects = key_effects R l for R :: "inspection_state \<Rightarrow> inspection_state \<Rightarrow> bool" and l :: pdf_limits +
  assumes on_enter: "i_action_nodes_visited s < max_action_nodes l \<Longrightarrow>
       R s (s\<lparr>i_visited_actions := List.insert key (i_visited_actions s),
         i_action_nodes_visited := Suc (i_action_nodes_visited s)\<rparr>)"
    and on_trigger: "i_additional_triggers_visited s < max_additional_triggers l \<Longrightarrow>
       R s (s\<lparr>i_additional_triggers_visited := Suc (i_additional_triggers_visited s)\<rparr>)"
    and on_trigger_name: "length (i_additional_triggers s) < max_additional_trigger_names l \<Longrightarrow>
       R s (s\<lparr>i_additional_triggers := List.insert v (i_additional_triggers s)\<rparr>)"
    and on_trigger_capped: "R s (s\<lparr>i_trigger_names_capped := True\<rparr>)"
    and on_holder: "R s (s\<lparr>i_visited_holders := List.insert key (i_visited_holders s),
       i_additional_action_count := Suc (i_additional_action_count s)\<rparr>)"
begin

lemma leaves_enter_action: "leaves R (enter_action lib l d h)"
  unfolding enter_action_def
  by (rule leaves_bind [OF leaves_object_key], rule leaves_get_bind)
    (auto simp: returnE_def bindE_def partialE_def modifyE_def here on_partial on_enter not_le
      simp del: not_in_set_insert)

lemma leaves_walk_action: "leaves R (walk_action frames lib l d h source depth)"
proof (induction frames arbitrary: h depth)
  case (Suc frames)
  have "leaves R (case n of None \<Rightarrow> returnE () | Some n \<Rightarrow> walk_action frames lib l d n source (Suc depth))" for n
    using Suc by (intro leaves_option leaves_return)
  then have "leaves R (bindE (is_action d h) (\<lambda>b. if \<not> b then returnE () else
      bindE (enter_action lib l d h) (\<lambda>entered. if \<not> entered then returnE () else
      bindE (note_action lib l d h source) (\<lambda>_. bindE (get_entry d h ''Next'') (\<lambda>n.
      case n of None \<Rightarrow> returnE () | Some n \<Rightarrow> walk_action frames lib l d n source (Suc depth))))))"
    by (intro leaves_bind leaves_is_action leaves_if leaves_return leaves_enter_action leaves_note_action leaves_get_entry)
  with Suc show ?case
    by (auto simp: leaves_partial intro!: leaves_bind [OF leaves_look] leaves_for split: pdf_view.split)
qed (simp add: leaves_raise)

lemma leaves_note_trigger:
  "i_additional_triggers_visited w < max_additional_triggers l \<Longrightarrow> R w (snd (note_trigger lib l trigger w))"
proof -
  let ?s = "w\<lparr>i_additional_triggers_visited := Suc (i_additional_triggers_visited w)\<rparr>"
  assume n: "i_additional_triggers_visited w < max_additional_triggers l"
  from on_trigger [OF n] have s: "R w ?s" .
  show ?thesis
  proof (cases "length (i_additional_triggers w) < max_additional_trigger_names l")
    case True
    with on_trigger_name [of ?s "safe_name lib l trigger"] onward [OF s]
    show ?thesis by (simp add: note_trigger_def modifyE_def Let_def)
  next
    case False
    with on_trigger_capped [of ?s] onward [OF s] show ?thesis by (simp add: note_trigger_def modifyE_def Let_def)
  qed
qed

lemma leaves_walk_trigger: "leaves R (walk_trigger frames lib l d source ta)"
proof -
  have "R w (snd (bindE (note_trigger lib l (fst ta)) (\<lambda>_.
      bindE (walk_action frames lib l d (snd ta) (source @ ''AA'') 0) (\<lambda>_. returnE True)) w))"
    if "i_additional_triggers_visited w < max_additional_triggers l" for w
  proof (rule after_step [where m = "note_trigger lib l (fst ta)"])
    show "R w (snd (note_trigger lib l (fst ta) w))" using that by (rule leaves_note_trigger)
  next
    show "leaves R (bindE (walk_action frames lib l d (snd ta) (source @ ''AA'') 0) (\<lambda>_. returnE True))" for x :: unit
      by (intro leaves_bind leaves_walk_action leaves_return)
  qed
  then show ?thesis
    unfolding walk_trigger_def
    by (intro leaves_get_bind) (auto simp: bindE_def partialE_def modifyE_def returnE_def on_partial not_le)
qed

lemma leaves_additional_actions: "leaves R (inspect_additional_actions frames lib l d holder source)"
  unfolding inspect_additional_actions_def
  by (intro leaves_bind leaves_get_entry leaves_option leaves_return leaves_look)
    (auto simp: leaves_return on_holder
      intro!: leaves_bind leaves_object_key leaves_get leaves_modify leaves_while leaves_walk_trigger split: pdf_view.split)

lemma leaves_action_holder: "leaves R (inspect_action_holder frames lib l d holder source)"
  unfolding inspect_action_holder_def
  by (intro leaves_bind leaves_get_entry leaves_option leaves_return leaves_walk_action leaves_additional_actions)

end

end
