(* ===== verification/Pdf_Passes.thy ===== *)
theory Pdf_Passes
  imports Pdf_Analysis
begin

text \<open>
  The passes of the PDF analyzer over a document and its report (\<open>worker/analyzers/pdf.py\<close>),
  with the lexical scan that stands in when the structure could not be read in full
  (\<open>worker/analyzers/pdf_fallback.py\<close>).
\<close>

section \<open>File specifications\<close>

definition observe_embedded_payload :: "pdf_lib \<Rightarrow> pdf_limits \<Rightarrow> pdf_doc \<Rightarrow> handle \<Rightarrow> unit inspection" where
  "observe_embedded_payload lib l d payload =
     bindE (object_key lib d payload) (\<lambda>key.
     bindE (getE i_embedded_payloads) (\<lambda>payloads.
     if key \<in> set payloads then returnE ()
     else if max_embedded_files l \<le> length payloads then
       bindE (modifyE (\<lambda>s. s\<lparr>i_embedded_limit_hit := True\<rparr>)) (\<lambda>_. partialE ''embedded_file_limit'')
     else modifyE (\<lambda>s. s\<lparr>i_embedded_payloads := List.insert key (i_embedded_payloads s)\<rparr>)))"

definition record_attachment_name :: "pdf_lib \<Rightarrow> pdf_limits \<Rightarrow> ustring \<Rightarrow> unit inspection" where
  "record_attachment_name lib l name =
     (let safe = strip (replace_all 92 95 (replace_all 47 95 (printable lib (pl_nfc lib name))));
          bounded = bounded_text lib l 128 (if safe = [] then u ''unnamed-attachment'' else safe) in
      modifyE (\<lambda>s.
        if bounded \<in> set (i_attachment_names s) then s
        else if max_embedded_names l \<le> length (i_attachment_names s) then s\<lparr>i_attachment_names_capped := True\<rparr>
        else s\<lparr>i_attachment_names := i_attachment_names s @ [bounded]\<rparr>))"

text \<open>\<open>file_spec.get(Name.UF) or file_spec.get(Name.F)\<close>.\<close>

definition display_name :: "pdf_doc \<Rightarrow> (ustring \<times> handle) list \<Rightarrow> handle option inspection" where
  "display_name d es = (case entry es ''UF'' of None \<Rightarrow> returnE (entry es ''F'')
     | Some h \<Rightarrow> bindE (fromE (pd_truthy d h)) (\<lambda>b. returnE (if b then Some h else entry es ''F'')))"

definition note_file_spec :: "pdf_lib \<Rightarrow> pdf_limits \<Rightarrow> pdf_doc \<Rightarrow> (ustring \<times> handle) list \<Rightarrow> obj_key \<Rightarrow> unit inspection" where
  "note_file_spec lib l d es key =
     bindE (modifyE (\<lambda>s. s\<lparr>i_attachment_specs := List.insert key (i_attachment_specs s)\<rparr>)) (\<lambda>_.
     bindE (display_name d es) (\<lambda>name.
     case name of None \<Rightarrow> returnE ()
     | Some h \<Rightarrow> bindE (fromE (pd_text d h)) (record_attachment_name lib l)))"

definition observe_payloads :: "pdf_lib \<Rightarrow> pdf_limits \<Rightarrow> pdf_doc \<Rightarrow> handle \<Rightarrow> unit inspection" where
  "observe_payloads lib l d embedded_files =
     bindE (look d embedded_files) (\<lambda>v. case v of
       Mapping _ es \<Rightarrow> forE (\<lambda>(_, payload). bindE (look d payload) (\<lambda>p. case p of
           Mapping True _ \<Rightarrow> bindE (object_key lib d payload) (\<lambda>key.
             bindE (modifyE (\<lambda>s. s\<lparr>i_referenced_payloads := List.insert key (i_referenced_payloads s)\<rparr>)) (\<lambda>_.
             observe_embedded_payload lib l d payload))
         | _ \<Rightarrow> returnE ())) es
     | _ \<Rightarrow> returnE ())"

definition observe_file_spec :: "pdf_lib \<Rightarrow> pdf_limits \<Rightarrow> pdf_doc \<Rightarrow> handle option \<Rightarrow> unit inspection" where
  "observe_file_spec lib l d file_spec =
     (case file_spec of None \<Rightarrow> returnE ()
      | Some h \<Rightarrow> bindE (look d h) (\<lambda>v. case v of
          Mapping _ es \<Rightarrow> (case entry es ''EF'' of None \<Rightarrow> returnE ()
            | Some embedded_files \<Rightarrow>
              bindE (object_key lib d h) (\<lambda>key.
              bindE (getE i_attachment_specs) (\<lambda>specs.
              if key \<notin> set specs \<and> max_embedded_files l \<le> length specs then
                bindE (modifyE (\<lambda>s. s\<lparr>i_embedded_limit_hit := True\<rparr>)) (\<lambda>_. partialE ''embedded_file_limit'')
              else bindE (if key \<in> set specs then returnE () else note_file_spec lib l d es key) (\<lambda>_.
                observe_payloads lib l d embedded_files))))
        | _ \<Rightarrow> returnE ()))"

section \<open>Form fields\<close>

text \<open>One field that was taken from the stack: its children and the set of fields seen.\<close>

definition visit_field ::
  "nat \<Rightarrow> pdf_lib \<Rightarrow> pdf_limits \<Rightarrow> pdf_doc \<Rightarrow> handle \<Rightarrow> obj_key list \<Rightarrow> (handle list \<times> obj_key list) inspection" where
  "visit_field frames lib l d h visited =
     bindE (look d h) (\<lambda>v.
     if \<not> is_mapping v then returnE ([], visited)
     else bindE (object_key lib d h) (\<lambda>key.
       if key \<in> set visited then returnE ([], visited)
       else bindE (modifyE (\<lambda>s. s\<lparr>i_form_field_count := Suc (i_form_field_count s)\<rparr>)) (\<lambda>_.
         bindE (inspect_action_holder frames lib l d h ''FormField'') (\<lambda>_.
         bindE (get_entry d h ''Kids'') (\<lambda>children.
         case children of None \<Rightarrow> returnE ([], key # visited)
         | Some c \<Rightarrow> bindE (look d c) (\<lambda>w. case w of
             Pdf_Array kids \<Rightarrow> returnE (kids, key # visited)
           | _ \<Rightarrow> returnE ([], key # visited)))))))"

definition same_custom :: "inspection_state \<Rightarrow> inspection_state \<Rightarrow> bool" where
  "same_custom s t \<longleftrightarrow> i_custom_objects t = i_custom_objects s"

interpretation custom: walk_effects same_custom l for l
  by unfold_locales (simp_all add: same_custom_def)

lemma visit_field_custom: "leaves same_custom (visit_field frames lib l d h visited)"
  unfolding visit_field_def
  by (intro custom.leaves_bind custom.leaves_look custom.leaves_if custom.leaves_return custom.leaves_object_key
      custom.leaves_modify custom.leaves_action_holder custom.leaves_get_entry custom.leaves_option)
    (auto simp: same_custom_def custom.leaves_return split: pdf_view.split)

text \<open>The stack has its top first; the code pops the last pushed field. Each round takes a field
  from the stack and either spends one of the custom objects or pushes nothing.\<close>

function form_fields_loop ::
  "nat \<Rightarrow> pdf_lib \<Rightarrow> pdf_limits \<Rightarrow> pdf_doc \<Rightarrow> (handle \<times> nat) list \<Rightarrow> obj_key list \<Rightarrow> unit inspection" where
  "form_fields_loop frames lib l d [] visited s = (Inr (), s)"
| "form_fields_loop frames lib l d ((h, depth) # stack) visited s =
     (if max_action_depth l < depth
      then form_fields_loop frames lib l d stack visited (snd (partialE ''form_tree_depth_limit'' s))
      else case consume_custom_object l s of
        (Inl e, s1) \<Rightarrow> (Inl e, s1)
      | (Inr ok, s1) \<Rightarrow>
        if \<not> ok then (Inr (), s1)
        else case visit_field frames lib l d h visited s1 of
          (Inl e, s2) \<Rightarrow> (Inl e, s2)
        | (Inr (kids, visited'), s2) \<Rightarrow>
          form_fields_loop frames lib l d (map (\<lambda>c. (c, Suc depth)) (rev kids) @ stack) visited' s2)"
  by pat_completeness auto

lemma consume_cases:
  "consume_custom_object l s = (Inr True, s\<lparr>i_custom_objects := Suc (i_custom_objects s)\<rparr>) \<and> i_custom_objects s < max_objects l \<or>
   consume_custom_object l s = (Inr False, snd (partialE ''custom_object_limit'' s))"
  by (auto simp: consume_custom_object_def bindE_def getE_def modifyE_def returnE_def partialE_def)

termination form_fields_loop
proof (relation "measures [\<lambda>(frames, lib, l, d, stack, visited, s). max_objects l - i_custom_objects s,
    \<lambda>(frames, lib, l, d, stack, visited, s). length stack]")
  fix frames lib l d h depth stack visited s r s1 ok q s2 rest kids visited'
  assume c: "(r, s1) = consume_custom_object l s" "r = Inr ok" "\<not> \<not> ok"
    and v: "(q, s2) = visit_field frames lib l d h visited s1" "q = Inr rest" "(kids, visited') = rest"
  have "i_custom_objects s2 = i_custom_objects s1"
    using leavesD [OF visit_field_custom v(1) [symmetric]] by (simp add: same_custom_def)
  with consume_cases [of l s] c
  show "((frames, lib, l, d, map (\<lambda>c. (c, Suc depth)) (rev kids) @ stack, visited', s2),
      frames, lib, l, d, (h, depth) # stack, visited, s) \<in> measures
      [\<lambda>(frames, lib, l, d, stack, visited, s). max_objects l - i_custom_objects s,
       \<lambda>(frames, lib, l, d, stack, visited, s). length stack]" by auto
qed (auto simp: partialE_def modifyE_def)

definition inspect_form_fields :: "nat \<Rightarrow> pdf_lib \<Rightarrow> pdf_limits \<Rightarrow> pdf_doc \<Rightarrow> handle list \<Rightarrow> unit inspection" where
  "inspect_form_fields frames lib l d field_objects = form_fields_loop frames lib l d (map (\<lambda>f. (f, 0)) (rev field_objects)) []"

section \<open>Catalog, name tree, pages\<close>

fun name_tree_loop ::
  "nat \<Rightarrow> pdf_lib \<Rightarrow> pdf_limits \<Rightarrow> pdf_doc \<Rightarrow> nat \<Rightarrow> (pdf_exn + handle) list \<Rightarrow> pdf_exn option \<Rightarrow> unit inspection" where
  "name_tree_loop frames lib l d index [] broken = (case broken of None \<Rightarrow> returnE () | Some e \<Rightarrow> raiseE e)"
| "name_tree_loop frames lib l d index (x # xs) broken =
     (if max_action_nodes l \<le> index then partialE ''javascript_name_tree_limit''
      else bindE (modifyE (\<lambda>s. s\<lparr>i_name_tree_entries := Suc (i_name_tree_entries s)\<rparr>)) (\<lambda>_.
        bindE (fromE x) (\<lambda>h.
        bindE (walk_action frames lib l d h ''NameTree'' 0) (\<lambda>_.
        name_tree_loop frames lib l d (Suc index) xs broken))))"

text \<open>\<open>except (*_PARSER_EXCEPTIONS, ValueError)\<close>.\<close>

definition invalid_tree :: "string \<Rightarrow> unit inspection \<Rightarrow> unit inspection" where
  "invalid_tree reason m =
     catchE m (\<lambda>e. if parser_exception e \<or> px_kind e = X_Value then Some (partialE reason) else None)"

definition inspect_javascript_name_tree :: "nat \<Rightarrow> pdf_lib \<Rightarrow> pdf_limits \<Rightarrow> pdf_doc \<Rightarrow> handle \<Rightarrow> unit inspection" where
  "inspect_javascript_name_tree frames lib l d root =
     bindE (get_entry d root ''Names'') (\<lambda>names.
     case names of None \<Rightarrow> returnE ()
     | Some n \<Rightarrow> bindE (look d n) (\<lambda>v. case v of
         Mapping _ es \<Rightarrow> (case entry es ''JavaScript'' of None \<Rightarrow> returnE ()
           | Some tree_object \<Rightarrow>
             bindE (modifyE (\<lambda>s. s\<lparr>i_name_tree_present := True,
               i_javascript_sources := List.insert ''NameTree'' (i_javascript_sources s)\<rparr>)) (\<lambda>_.
             invalid_tree ''javascript_name_tree_invalid''
               (bindE (fromE (pd_name_tree d tree_object)) (\<lambda>(entries, broken).
                 name_tree_loop frames lib l d 0 entries broken))))
       | _ \<Rightarrow> returnE ()))"

definition inspect_open_action :: "nat \<Rightarrow> pdf_lib \<Rightarrow> pdf_limits \<Rightarrow> pdf_doc \<Rightarrow> handle option \<Rightarrow> unit inspection" where
  "inspect_open_action frames lib l d open_action =
     (case open_action of None \<Rightarrow> returnE ()
      | Some h \<Rightarrow>
        bindE (modifyE (\<lambda>s. s\<lparr>i_open_action_present := True\<rparr>)) (\<lambda>_.
        bindE (is_action d h) (\<lambda>b.
        if b then
          bindE (modifyE (\<lambda>s. s\<lparr>i_open_action_kind := Some ''action''\<rparr>)) (\<lambda>_.
          bindE (action_type lib l d h) (\<lambda>t.
          bindE (modifyE (\<lambda>s. s\<lparr>i_open_action_type := Some t\<rparr>)) (\<lambda>_.
          walk_action frames lib l d h ''OpenAction'' 0)))
        else modifyE (\<lambda>s. s\<lparr>i_open_action_kind := Some ''destination''\<rparr>))))"

definition inspect_acroform :: "nat \<Rightarrow> pdf_lib \<Rightarrow> pdf_limits \<Rightarrow> pdf_doc \<Rightarrow> handle option \<Rightarrow> unit inspection" where
  "inspect_acroform frames lib l d acroform =
     (case acroform of None \<Rightarrow> returnE ()
      | Some h \<Rightarrow> bindE (look d h) (\<lambda>v. case v of
          Mapping _ es \<Rightarrow>
            bindE (modifyE (\<lambda>s. s\<lparr>i_acroform_present := True, i_xfa_present := (entry es ''XFA'' \<noteq> None)\<rparr>)) (\<lambda>_.
            bindE (inspect_additional_actions frames lib l d h ''AcroForm'') (\<lambda>_.
            case entry es ''Fields'' of None \<Rightarrow> returnE ()
            | Some f \<Rightarrow> bindE (look d f) (\<lambda>w. case w of
                Pdf_Array field_objects \<Rightarrow> inspect_form_fields frames lib l d field_objects
              | _ \<Rightarrow> returnE ())))
        | _ \<Rightarrow> returnE ()))"

definition inspect_catalog :: "nat \<Rightarrow> pdf_lib \<Rightarrow> pdf_limits \<Rightarrow> pdf_doc \<Rightarrow> handle \<Rightarrow> unit inspection" where
  "inspect_catalog frames lib l d root =
     bindE (look d root) (\<lambda>v. case v of
       Mapping _ es \<Rightarrow>
         bindE (inspect_open_action frames lib l d (entry es ''OpenAction'')) (\<lambda>_.
         bindE (inspect_additional_actions frames lib l d root ''Catalog'') (\<lambda>_.
         bindE (inspect_javascript_name_tree frames lib l d root) (\<lambda>_.
         inspect_acroform frames lib l d (entry es ''AcroForm''))))
     | _ \<Rightarrow> partialE ''catalog_unavailable'')"

definition inspect_annotation :: "nat \<Rightarrow> pdf_lib \<Rightarrow> pdf_limits \<Rightarrow> pdf_doc \<Rightarrow> handle \<Rightarrow> bool inspection" where
  "inspect_annotation frames lib l d annotation =
     bindE (consume_custom_object l) (\<lambda>ok.
     if \<not> ok then returnE False
     else bindE (look d annotation) (\<lambda>v. case v of
         Mapping _ es \<Rightarrow>
           bindE (inspect_action_holder frames lib l d annotation ''Annotation'') (\<lambda>_.
           bindE (observe_file_spec lib l d (entry es ''FS'')) (\<lambda>_. returnE True))
       | _ \<Rightarrow> returnE True))"

definition inspect_page :: "nat \<Rightarrow> pdf_lib \<Rightarrow> pdf_limits \<Rightarrow> pdf_doc \<Rightarrow> handle \<Rightarrow> bool inspection" where
  "inspect_page frames lib l d page_object =
     bindE (modifyE (\<lambda>s. s\<lparr>i_pages_inspected := Suc (i_pages_inspected s)\<rparr>)) (\<lambda>_.
     bindE (inspect_action_holder frames lib l d page_object ''Page'') (\<lambda>_.
     bindE (get_entry d page_object ''Annots'') (\<lambda>annotations.
     case annotations of None \<Rightarrow> returnE True
     | Some a \<Rightarrow> bindE (look d a) (\<lambda>v. case v of
         Pdf_Array children \<Rightarrow> whileE (inspect_annotation frames lib l d) children
       | _ \<Rightarrow> returnE True))))"

definition inspect_pages :: "nat \<Rightarrow> pdf_lib \<Rightarrow> pdf_limits \<Rightarrow> pdf_doc \<Rightarrow> bool inspection" where
  "inspect_pages frames lib l d = bindE (fromE (pd_pages d)) (\<lambda>pages.
     whileE (inspect_page frames lib l d) (take (max_pages l) pages))"

section \<open>Attachments and indirect objects\<close>

fun attachments_loop ::
  "pdf_lib \<Rightarrow> pdf_limits \<Rightarrow> pdf_doc \<Rightarrow> nat \<Rightarrow> (ustring \<times> (pdf_exn + handle)) list \<Rightarrow> pdf_exn option \<Rightarrow> unit inspection" where
  "attachments_loop lib l d index [] broken = (case broken of None \<Rightarrow> returnE () | Some e \<Rightarrow> raiseE e)"
| "attachments_loop lib l d index ((name, spec) # xs) broken =
     (if max_embedded_files l \<le> index then
        bindE (modifyE (\<lambda>s. s\<lparr>i_embedded_limit_hit := True\<rparr>)) (\<lambda>_. partialE ''embedded_file_limit'')
      else bindE (modifyE (\<lambda>s. s\<lparr>i_named_attachment_count := Suc (i_named_attachment_count s)\<rparr>)) (\<lambda>_.
        bindE (record_attachment_name lib l name) (\<lambda>_.
        bindE (fromE spec) (\<lambda>h.
        bindE (observe_file_spec lib l d (Some h)) (\<lambda>_.
        attachments_loop lib l d (Suc index) xs broken)))))"

definition inspect_named_attachments :: "pdf_lib \<Rightarrow> pdf_limits \<Rightarrow> pdf_doc \<Rightarrow> unit inspection" where
  "inspect_named_attachments lib l d = invalid_tree ''embedded_file_name_tree_invalid''
     (attachments_loop lib l d 0 (fst (pd_attachments d)) (snd (pd_attachments d)))"

definition inspect_object :: "nat \<Rightarrow> pdf_lib \<Rightarrow> pdf_limits \<Rightarrow> pdf_doc \<Rightarrow> handle \<Rightarrow> unit inspection" where
  "inspect_object frames lib l d h =
     bindE (modifyE (\<lambda>s. s\<lparr>i_objects_inspected := Suc (i_objects_inspected s)\<rparr>)) (\<lambda>_.
     bindE (look d h) (\<lambda>v. case v of
       Mapping _ es \<Rightarrow>
         bindE (inspect_action_holder frames lib l d h ''Object'') (\<lambda>_.
         bindE (is_action d h) (\<lambda>b.
         bindE (if b then walk_action frames lib l d h ''Object'' 0 else returnE ()) (\<lambda>_.
         bindE (observe_file_spec lib l d (Some h)) (\<lambda>_.
         bindE (case entry es ''Type'' of None \<Rightarrow> returnE Pdf_Other | Some t \<Rightarrow> look d t) (\<lambda>t.
         bindE (if t = Pdf_Name (u ''/EmbeddedFile'') then observe_embedded_payload lib l d h else returnE ()) (\<lambda>_.
         case entry es ''AF'' of None \<Rightarrow> returnE ()
         | Some af \<Rightarrow> bindE (look d af) (\<lambda>w. case w of
             Pdf_Array specs \<Rightarrow> forE (\<lambda>spec. observe_file_spec lib l d (Some spec)) specs
           | _ \<Rightarrow> returnE ())))))))
     | _ \<Rightarrow> returnE ()))"

definition inspect_indirect_objects :: "nat \<Rightarrow> pdf_lib \<Rightarrow> pdf_limits \<Rightarrow> pdf_doc \<Rightarrow> unit inspection" where
  "inspect_indirect_objects frames lib l d = bindE (fromE (pd_objects d)) (\<lambda>objects.
     forE (inspect_object frames lib l d) (take (max_objects l) objects))"

definition inspect_open_pdf :: "nat \<Rightarrow> pdf_lib \<Rightarrow> pdf_limits \<Rightarrow> pdf_doc \<Rightarrow> unit inspection" where
  "inspect_open_pdf frames lib l d =
     bindE (modifyE (\<lambda>s. s\<lparr>i_encrypted := pd_encrypted d\<rparr>)) (\<lambda>_.
     bindE (look d (pd_root d)) (\<lambda>v.
     bindE (modifyE (\<lambda>s. s\<lparr>i_catalog_present := is_mapping v\<rparr>)) (\<lambda>_.
     bindE (fromE (pd_pages d)) (\<lambda>pages.
     bindE (modifyE (\<lambda>s. s\<lparr>i_page_count := Some (length pages)\<rparr>)) (\<lambda>_.
     bindE (fromE (pd_objects d)) (\<lambda>objects.
     bindE (modifyE (\<lambda>s. s\<lparr>i_object_count := Some (length objects)\<rparr>)) (\<lambda>_.
     bindE (if max_pages l < length pages then partialE ''page_limit'' else returnE ()) (\<lambda>_.
     bindE (if max_objects l < length objects then partialE ''indirect_object_limit'' else returnE ()) (\<lambda>_.
     bindE (inspect_catalog frames lib l d (pd_root d)) (\<lambda>_.
     bindE (inspect_pages frames lib l d) (\<lambda>_.
     bindE (inspect_named_attachments lib l d) (\<lambda>_.
     inspect_indirect_objects frames lib l d))))))))))))"

end
