(* ===== verification/Pdf_Effects.thy ===== *)
theory Pdf_Effects
  imports Pdf_Passes
begin

text \<open>
  What the passes of the PDF analyzer may change in its state: a preorder that allows every
  single update holds between the state before an inspection and the state after it. Its two
  interpretations say that evidence only grows and that the limits are respected.
\<close>

locale spec_effects = key_effects R l for R :: "inspection_state \<Rightarrow> inspection_state \<Rightarrow> bool" and l :: pdf_limits +
  assumes on_custom: "i_custom_objects s < max_objects l \<Longrightarrow> R s (s\<lparr>i_custom_objects := Suc (i_custom_objects s)\<rparr>)"
    and on_field: "R s (s\<lparr>i_form_field_count := Suc (i_form_field_count s)\<rparr>)"
    and on_tree_entry: "R s (s\<lparr>i_name_tree_entries := Suc (i_name_tree_entries s)\<rparr>)"
    and on_tree: "R s (s\<lparr>i_name_tree_present := True,
       i_javascript_sources := List.insert ''NameTree'' (i_javascript_sources s)\<rparr>)"
    and on_open: "R s (s\<lparr>i_open_action_present := True\<rparr>)"
    and on_open_kind: "R s (s\<lparr>i_open_action_kind := k\<rparr>)"
    and on_open_type: "R s (s\<lparr>i_open_action_type := t\<rparr>)"
    and on_acroform: "R s (s\<lparr>i_acroform_present := True, i_xfa_present := b\<rparr>)"
    and on_page: "R s (s\<lparr>i_pages_inspected := Suc (i_pages_inspected s)\<rparr>)"
    and on_object: "R s (s\<lparr>i_objects_inspected := Suc (i_objects_inspected s)\<rparr>)"
    and on_embedded_limit: "R s (s\<lparr>i_embedded_limit_hit := True\<rparr>)"
    and on_named: "R s (s\<lparr>i_named_attachment_count := Suc (i_named_attachment_count s)\<rparr>)"
    and on_name: "length (i_attachment_names s) < max_embedded_names l \<Longrightarrow>
       R s (s\<lparr>i_attachment_names := i_attachment_names s @ [v]\<rparr>)"
    and on_names_capped: "R s (s\<lparr>i_attachment_names_capped := True\<rparr>)"
    and on_spec: "length (i_attachment_specs s) < max_embedded_files l \<Longrightarrow>
       R s (s\<lparr>i_attachment_specs := List.insert key (i_attachment_specs s)\<rparr>)"
    and on_payload: "length (i_embedded_payloads s) < max_embedded_files l \<Longrightarrow>
       R s (s\<lparr>i_embedded_payloads := List.insert key (i_embedded_payloads s)\<rparr>)"
    and on_referenced: "R s (s\<lparr>i_referenced_payloads := List.insert key (i_referenced_payloads s)\<rparr>)"
    and on_encrypted: "R s (s\<lparr>i_encrypted := b\<rparr>)"
    and on_catalog: "R s (s\<lparr>i_catalog_present := b\<rparr>)"
    and on_page_count: "R s (s\<lparr>i_page_count := n\<rparr>)"
    and on_object_count: "R s (s\<lparr>i_object_count := n\<rparr>)"
begin

lemma leaves_consume: "leaves R (consume_custom_object l)"
  unfolding consume_custom_object_def
  by (intro leaves_get_bind) (auto simp: bindE_def partialE_def modifyE_def returnE_def on_partial on_custom not_le)

lemma after_limit: "R w (snd (bindE (modifyE (\<lambda>s. s\<lparr>i_embedded_limit_hit := True\<rparr>)) (\<lambda>_. partialE reason) w))"
  by (rule after_step) (simp_all add: modifyE_def on_embedded_limit leaves_partial)

lemma leaves_payload: "leaves R (observe_embedded_payload lib l d payload)"
  unfolding observe_embedded_payload_def
  by (rule leaves_bind [OF leaves_object_key], rule leaves_get_bind)
    (auto simp: modifyE_def returnE_def here not_le on_payload after_limit simp del: not_in_set_insert)

lemma leaves_attachment_name: "leaves R (record_attachment_name lib l name)"
  unfolding record_attachment_name_def Let_def by (rule leaves_modify) (auto simp: here on_names_capped on_name)

lemma leaves_display_name: "leaves R (display_name d es)"
  unfolding display_name_def by (intro leaves_option leaves_return leaves_bind leaves_from)

lemma after_file_spec:
  "length (i_attachment_specs w) < max_embedded_files l \<Longrightarrow> R w (snd (note_file_spec lib l d es key w))"
  unfolding note_file_spec_def
  by (rule after_step)
    (auto simp: modifyE_def on_spec leaves_return leaves_from leaves_attachment_name leaves_display_name
      intro!: leaves_bind leaves_option simp del: not_in_set_insert)

lemma leaves_payloads: "leaves R (observe_payloads lib l d embedded_files)"
proof -
  have one: "leaves R (bindE (look d payload) (\<lambda>p. case p of
      Mapping True _ \<Rightarrow> bindE (object_key lib d payload) (\<lambda>key.
        bindE (modifyE (\<lambda>s. s\<lparr>i_referenced_payloads := List.insert key (i_referenced_payloads s)\<rparr>)) (\<lambda>_.
        observe_embedded_payload lib l d payload))
    | _ \<Rightarrow> returnE ()))" for payload
    by (rule leaves_bind [OF leaves_look])
      (auto simp: leaves_return on_referenced
        intro!: leaves_bind leaves_object_key leaves_modify leaves_payload split: pdf_view.split bool.split)
  show ?thesis
    unfolding observe_payloads_def
    by (rule leaves_bind [OF leaves_look])
      (auto simp: leaves_return one intro!: leaves_for leaves_pair split: pdf_view.split)
qed

lemma leaves_file_spec: "leaves R (observe_file_spec lib l d file_spec)"
proof -
  have inner: "R w (snd ((bindE (if key \<in> set (i_attachment_specs w) then returnE () else note_file_spec lib l d es key) (\<lambda>_.
      observe_payloads lib l d e)) w))"
    if "key \<notin> set (i_attachment_specs w) \<longrightarrow> length (i_attachment_specs w) < max_embedded_files l" for w key es e
    using that by (intro after_step [where k = "\<lambda>_. observe_payloads lib l d e"])
      (auto simp: returnE_def here after_file_spec leaves_payloads)
  have "leaves R (bindE (getE i_attachment_specs) (\<lambda>specs.
      if key \<notin> set specs \<and> max_embedded_files l \<le> length specs then
        bindE (modifyE (\<lambda>s. s\<lparr>i_embedded_limit_hit := True\<rparr>)) (\<lambda>_. partialE ''embedded_file_limit'')
      else bindE (if key \<in> set specs then returnE () else note_file_spec lib l d es key) (\<lambda>_.
        observe_payloads lib l d e)))" for key es e
  proof (rule leaves_get_bind)
    fix w
    show "R w (snd ((if key \<notin> set (i_attachment_specs w) \<and> max_embedded_files l \<le> length (i_attachment_specs w) then
        bindE (modifyE (\<lambda>s. s\<lparr>i_embedded_limit_hit := True\<rparr>)) (\<lambda>_. partialE ''embedded_file_limit'')
      else bindE (if key \<in> set (i_attachment_specs w) then returnE () else note_file_spec lib l d es key) (\<lambda>_.
        observe_payloads lib l d e)) w))" (is "R w (snd ((if ?b then _ else _) w))")
    proof (cases ?b)
      case True
      then show ?thesis by (simp add: after_limit)
    next
      case False
      then show ?thesis by (simp only: if_False) (rule inner, auto)
    qed
  qed
  then show ?thesis
    unfolding observe_file_spec_def
    by (auto simp: leaves_return intro!: leaves_bind [OF leaves_look] leaves_bind [OF leaves_object_key]
        split: option.split pdf_view.split)
qed

end

text \<open>Both kinds of updates together.\<close>

locale pass_effects = walk_effects R l + spec_effects R l for R :: "inspection_state \<Rightarrow> inspection_state \<Rightarrow> bool" and l :: pdf_limits
begin

lemma leaves_visit_field: "leaves R (visit_field frames lib l d h visited)"
  unfolding visit_field_def
  by (intro leaves_bind leaves_look leaves_if leaves_return leaves_object_key leaves_modify leaves_action_holder
      leaves_get_entry leaves_option)
    (auto simp: on_field leaves_return split: pdf_view.split)

lemma leaves_fields_loop: "leaves R (form_fields_loop frames lib l d stack visited)"
proof -
  have "l' = l \<Longrightarrow> R s (snd (form_fields_loop frames lib l' d stack visited s))" for l' s
  proof (induction frames lib l' d stack visited s rule: form_fields_loop.induct)
    case (2 frames lib l' d h depth stack visited s)
    have p: "R s (snd (partialE ''form_tree_depth_limit'' s))" using leaves_partial by (simp add: leaves_def)
    obtain r s1 where c: "consume_custom_object l s = (r, s1)" by fastforce
    obtain q s2 where v: "visit_field frames lib l d h visited s1 = (q, s2)" by fastforce
    have "R s s1" "R s1 s2" using leavesD [OF leaves_consume c] leavesD [OF leaves_visit_field v] by simp_all
    show ?case
    proof (cases "max_action_depth l < depth")
      case True
      with onward [OF p 2(1) [OF _ 2(3)]] 2(3) show ?thesis by simp
    next
      case deep: False
      show ?thesis
      proof (cases r)
        case (Inl e)
        with deep c v \<open>R s s1\<close> 2(3) show ?thesis by simp
      next
        case ok: (Inr ok)
        show ?thesis
        proof (cases "ok \<and> (\<exists>rest. q = Inr rest)")
          case True
          then obtain kids seen where q: "q = Inr (kids, seen)" and ok': ok by fastforce
          have "R s2 (snd (form_fields_loop frames lib l d (map (\<lambda>c. (c, Suc depth)) (rev kids) @ stack) seen s2))"
            using 2(2) deep c ok ok' v q 2(3) by simp
          with onward [OF onward [OF \<open>R s s1\<close> \<open>R s1 s2\<close>]] deep c ok ok' v q 2(3) show ?thesis by simp
        next
          case False
          with deep c v ok \<open>R s s1\<close> onward [OF \<open>R s s1\<close> \<open>R s1 s2\<close>] 2(3) show ?thesis
            by (cases q) auto
        qed
      qed
    qed
  qed (simp add: here)
  then show ?thesis by (simp add: leaves_def)
qed

lemma leaves_form_fields: "leaves R (inspect_form_fields frames lib l d field_objects)"
  by (simp add: inspect_form_fields_def leaves_fields_loop)

lemma leaves_name_tree_loop: "leaves R (name_tree_loop frames lib l d index xs broken)"
proof (induction xs arbitrary: index)
  case (Cons x xs)
  then show ?case
    by (auto simp: leaves_partial on_tree_entry intro!: leaves_bind leaves_modify leaves_from leaves_walk_action)
qed (simp add: leaves_return leaves_raise split: option.split)

lemma leaves_invalid_tree: "leaves R m \<Longrightarrow> leaves R (invalid_tree reason m)"
  unfolding invalid_tree_def by (rule leaves_catch) (auto simp: leaves_partial split: if_splits)

lemma leaves_name_tree: "leaves R (inspect_javascript_name_tree frames lib l d root)"
  unfolding inspect_javascript_name_tree_def
  by (intro leaves_bind leaves_get_entry leaves_option leaves_return leaves_look)
    (auto simp: leaves_return on_tree
      intro!: leaves_bind leaves_modify leaves_invalid_tree leaves_from leaves_pair leaves_name_tree_loop
      split: pdf_view.split option.split)

lemma leaves_open_action: "leaves R (inspect_open_action frames lib l d open_action)"
  unfolding inspect_open_action_def
  by (intro leaves_option leaves_return leaves_bind leaves_modify leaves_is_action leaves_if leaves_action_type
      leaves_walk_action on_open on_open_kind on_open_type)

lemma leaves_acroform: "leaves R (inspect_acroform frames lib l d acroform)"
  unfolding inspect_acroform_def
  by (auto simp: leaves_return on_acroform leaves_form_fields
      intro!: leaves_bind leaves_look leaves_modify leaves_additional_actions split: option.split pdf_view.split)

lemma leaves_catalog: "leaves R (inspect_catalog frames lib l d root)"
  unfolding inspect_catalog_def
  by (rule leaves_bind [OF leaves_look])
    (auto simp: leaves_partial
      intro!: leaves_bind leaves_open_action leaves_additional_actions leaves_name_tree leaves_acroform split: pdf_view.split)

lemma leaves_annotation: "leaves R (inspect_annotation frames lib l d annotation)"
  unfolding inspect_annotation_def
  by (intro leaves_bind leaves_consume leaves_if leaves_return leaves_look)
    (auto simp: leaves_return intro!: leaves_bind leaves_action_holder leaves_file_spec split: pdf_view.split)

lemma leaves_page: "leaves R (inspect_page frames lib l d page_object)"
  unfolding inspect_page_def
  by (intro leaves_bind leaves_modify leaves_action_holder leaves_get_entry leaves_option leaves_return leaves_look on_page)
    (auto simp: leaves_return intro!: leaves_while leaves_annotation split: pdf_view.split)

lemma leaves_pages: "leaves R (inspect_pages frames lib l d)"
  unfolding inspect_pages_def by (intro leaves_bind leaves_from leaves_while leaves_page)

lemma leaves_attachments_loop: "leaves R (attachments_loop lib l d index xs broken)"
proof (induction xs arbitrary: index)
  case (Cons x xs)
  then show ?case
    by (cases x) (auto simp: leaves_partial on_embedded_limit on_named
        intro!: leaves_bind leaves_modify leaves_from leaves_attachment_name leaves_file_spec)
qed (simp add: leaves_return leaves_raise split: option.split)

lemma leaves_named_attachments: "leaves R (inspect_named_attachments lib l d)"
  by (simp add: inspect_named_attachments_def leaves_invalid_tree leaves_attachments_loop)

lemma leaves_object: "leaves R (inspect_object frames lib l d h)"
  unfolding inspect_object_def
  by (intro leaves_bind leaves_modify leaves_look on_object)
    (auto simp: leaves_return intro!: leaves_bind leaves_action_holder leaves_is_action leaves_if leaves_walk_action
      leaves_file_spec leaves_payload leaves_look leaves_for split: pdf_view.split option.split)

lemma leaves_objects: "leaves R (inspect_indirect_objects frames lib l d)"
  unfolding inspect_indirect_objects_def by (intro leaves_bind leaves_from leaves_for leaves_object)

lemma leaves_open_pdf: "leaves R (inspect_open_pdf frames lib l d)"
  unfolding inspect_open_pdf_def
  by (intro leaves_bind leaves_modify leaves_look leaves_from leaves_if leaves_return leaves_partial leaves_catalog
      leaves_pages leaves_named_attachments leaves_objects on_encrypted on_catalog on_page_count on_object_count)

end

section \<open>Evidence grows\<close>

definition gathered :: "inspection_state \<Rightarrow> inspection_state \<Rightarrow> bool" where
  "gathered s t \<longleftrightarrow> set (i_visited_actions s) \<subseteq> set (i_visited_actions t) \<and>
     set (i_visited_holders s) \<subseteq> set (i_visited_holders t) \<and>
     set (i_partial_reasons s) \<subseteq> set (i_partial_reasons t) \<and>
     i_javascript_action_count s \<le> i_javascript_action_count t \<and> i_launch_action_count s \<le> i_launch_action_count t \<and>
     i_external_uri_count s \<le> i_external_uri_count t \<and> i_additional_action_count s \<le> i_additional_action_count t \<and>
     (i_name_tree_present s \<longrightarrow> i_name_tree_present t) \<and> (i_open_action_present s \<longrightarrow> i_open_action_present t) \<and>
     i_malformed t = i_malformed s"

interpretation gathering: pass_effects gathered l for l
  by unfold_locales (auto simp: gathered_def)

section \<open>Limits are respected\<close>

definition inspection_limits :: "pdf_limits \<Rightarrow> inspection_state \<Rightarrow> bool" where
  "inspection_limits l s \<longleftrightarrow> i_custom_objects s \<le> max_objects l \<and> i_action_nodes_visited s \<le> max_action_nodes l \<and>
     length (i_visited_actions s) \<le> i_action_nodes_visited s \<and>
     i_additional_triggers_visited s \<le> max_additional_triggers l \<and>
     length (i_additional_triggers s) \<le> max_additional_trigger_names l \<and>
     length (i_uri_metadata s) \<le> max_uri_metadata_entries l \<and>
     length (i_submit_targets s) \<le> max_uri_metadata_entries l \<and>
     length (i_attachment_names s) \<le> max_embedded_names l \<and>
     length (i_attachment_specs s) \<le> max_embedded_files l \<and>
     length (i_embedded_payloads s) \<le> max_embedded_files l"

definition within_limits :: "pdf_limits \<Rightarrow> inspection_state \<Rightarrow> inspection_state \<Rightarrow> bool" where
  "within_limits l s t \<longleftrightarrow> (inspection_limits l s \<longrightarrow> inspection_limits l t)"

lemma length_insert_le: "length (List.insert x xs) \<le> Suc (length xs)"
  by (simp add: List.insert_def)

interpretation limiting: pass_effects "within_limits l" l for l
  by unfold_locales
    (auto simp: within_limits_def inspection_limits_def intro: order_trans [OF length_insert_le])

end
