(* ===== verification/Pdf_Report.thy ===== *)
theory Pdf_Report
  imports Pdf_Passes
begin

text \<open>
  The lexical fallback of \<open>worker/analyzers/pdf_fallback.py\<close>, the report of
  \<open>worker/analyzers/pdf.py\<close> and the whole analysis of a PDF.
\<close>

section \<open>The lexical fallback\<close>

definition FALLBACK_INDICATOR_TOKENS :: "string list" where
  "FALLBACK_INDICATOR_TOKENS = [''JavaScript'', ''JS'', ''OpenAction'', ''AA'', ''AcroForm'', ''XFA'', ''Launch'',
     ''EmbeddedFile'', ''EmbeddedFiles'', ''ImportData'', ''SubmitForm'', ''GoToE'', ''URI'']"

record fallback_limits =
  max_scan_bytes :: nat
  max_hit_count :: nat

definition fallback_limits_ok :: "fallback_limits \<Rightarrow> bool" where
  "fallback_limits_ok l \<longleftrightarrow> 0 < max_scan_bytes l \<and> 0 < max_hit_count l"

record fallback_scan =
  indicator_counts :: "(string \<times> nat) list"
  scan_truncated :: bool

definition hex_value :: "byte \<Rightarrow> nat option" where
  "hex_value b = (let c = unat b in
     if 48 \<le> c \<and> c \<le> 57 then Some (c - 48) else if 65 \<le> c \<and> c \<le> 70 then Some (c - 55)
     else if 97 \<le> c \<and> c \<le> 102 then Some (c - 87) else None)"

text \<open>\<open>re.sub\<close> of \<open>#([0-9a-fA-F]{2})\<close>: from left to right, without looking at the result again.\<close>

fun decode_name_hex_escapes :: "bytes \<Rightarrow> bytes" where
  "decode_name_hex_escapes (c # h1 # h2 # rest) =
     (if c = 35 \<and> hex_value h1 \<noteq> None \<and> hex_value h2 \<noteq> None
      then of_nat (16 * the (hex_value h1) + the (hex_value h2)) # decode_name_hex_escapes rest
      else c # decode_name_hex_escapes (h1 # h2 # rest))"
| "decode_name_hex_escapes bs = bs"

text \<open>\<open>bytes.count\<close>: occurrences that do not overlap.\<close>

function count_bytes :: "bytes \<Rightarrow> bytes \<Rightarrow> nat" where
  "count_bytes needle bs =
     (if bs = [] \<or> needle = [] then 0
      else if starts_with needle bs then Suc (count_bytes needle (drop (length needle) bs))
      else count_bytes needle (tl bs))"
  by pat_completeness auto
termination by (relation "measure (length \<circ> snd)") auto

declare count_bytes.simps [simp del]

definition name_token :: "string \<Rightarrow> bytes" where
  "name_token token = map of_nat (u (CHR ''/'' # token))"

definition scan_for_fallback_indicators :: "bytes \<Rightarrow> fallback_limits \<Rightarrow> fallback_scan" where
  "scan_for_fallback_indicators raw_bytes l =
     (let decoded = decode_name_hex_escapes (take (max_scan_bytes l) raw_bytes) in
      \<lparr>indicator_counts = map (\<lambda>t. (t, min (count_bytes (name_token t) decoded) (max_hit_count l)))
         (filter (\<lambda>t. 0 < count_bytes (name_token t) decoded) FALLBACK_INDICATOR_TOKENS),
       scan_truncated = max_scan_bytes l < length raw_bytes\<rparr>)"

definition apply_fallback_scan :: "pdf_lib \<Rightarrow> pdf_limits \<Rightarrow> inspection_state \<Rightarrow> inspection_state" where
  "apply_fallback_scan lib l s =
     (if \<not> (i_malformed s \<or> i_partial_reasons s \<noteq> []) then s
      else case pl_read lib (Suc (max_fallback_scan_bytes l)) of None \<Rightarrow> s
      | Some raw_bytes \<Rightarrow>
        let scan = scan_for_fallback_indicators raw_bytes
              \<lparr>max_scan_bytes = max_fallback_scan_bytes l, max_hit_count = 9999\<rparr> in
        s\<lparr>i_fallback_counts := indicator_counts scan, i_fallback_truncated := scan_truncated scan\<rparr>)"

section \<open>The report\<close>

datatype pdf_parser_status = PS_COMPLETE | PS_PARTIAL | PS_MALFORMED

primrec pdf_status_value :: "pdf_parser_status \<Rightarrow> string" where
  "pdf_status_value PS_COMPLETE = ''COMPLETE''"
| "pdf_status_value PS_PARTIAL = ''PARTIAL''"
| "pdf_status_value PS_MALFORMED = ''MALFORMED''"

record pdf_analysis =
  pa_parser_status :: pdf_parser_status
  pa_findings :: "observation list"
  pa_metadata :: json_object

definition pdf_complete :: "pdf_analysis \<Rightarrow> bool" where
  "pdf_complete a \<longleftrightarrow> pa_parser_status a = PS_COMPLETE"

definition embedded_count :: "pdf_limits \<Rightarrow> inspection_state \<Rightarrow> nat" where
  "embedded_count l s =
     min (max (i_named_attachment_count s) (length (i_attachment_specs s)) +
       length (filter (\<lambda>k. k \<notin> set (i_referenced_payloads s)) (i_embedded_payloads s))) (max_embedded_files l)"

definition pdf_findings :: "pdf_limits \<Rightarrow> inspection_state \<Rightarrow> observation list" where
  "pdf_findings l s =
     when_found (i_name_tree_present s \<or> i_javascript_action_count s \<noteq> 0) ''PDF_JAVASCRIPT''
       (obj [(''action_count'', jnat (i_javascript_action_count s)),
         (''name_tree_entry_count'', jnat (i_name_tree_entries s)), (''sources'', jsorted (i_javascript_sources s)),
         (''behavior_indicators'', jsorted (i_behavior_indicators s))]) @
     when_found (i_open_action_present s) ''PDF_OPEN_ACTION''
       (obj [(''kind'', jmaybe (i_open_action_kind s)), (''action_type'', jopt (i_open_action_type s))]) @
     when_found (i_additional_action_count s \<noteq> 0) ''PDF_ADDITIONAL_ACTION''
       (obj [(''dictionary_count'', jnat (i_additional_action_count s)),
         (''trigger_count'', jnat (i_additional_triggers_visited s)),
         (''triggers'', jnames (i_additional_triggers s)), (''trigger_names_capped'', JBool (i_trigger_names_capped s)),
         (''action_types'', jnames (i_additional_action_types s))]) @
     when_found (i_launch_action_count s \<noteq> 0) ''PDF_LAUNCH_ACTION''
       (obj [(''action_count'', jnat (i_launch_action_count s))]) @
     when_found (embedded_count l s \<noteq> 0) ''PDF_EMBEDDED_FILE''
       (obj [(''count'', jnat (embedded_count l s)), (''count_capped'', JBool (i_embedded_limit_hit s)),
         (''display_names_capped'', JBool (i_attachment_names_capped s)),
         (''display_names'', JList (map JStr (take (max_embedded_names l) (sorted_codes (i_attachment_names s)))))]) @
     when_found (i_acroform_present s) ''PDF_ACROFORM'' (obj [(''field_count'', jnat (i_form_field_count s))]) @
     when_found (i_xfa_present s) ''PDF_XFA'' (obj [(''present'', JBool True)]) @
     when_found (i_external_uri_count s \<noteq> 0) ''PDF_EXTERNAL_URI''
       (obj [(''count'', jnat (i_external_uri_count s)), (''targets_capped'', JBool (i_uri_metadata_capped s)),
         (''targets'', JList (map JObj (i_uri_metadata s)))]) @
     when_found (i_external_submission_count s \<noteq> 0) ''PDF_EXTERNAL_SUBMISSION''
       (obj [(''count'', jnat (i_external_submission_count s)),
         (''targets_capped'', JBool (i_submit_targets_capped s)),
         (''targets'', JList (map JObj (i_submit_targets s)))]) @
     when_found (i_encrypted s) ''PDF_ENCRYPTED''
       (obj [(''password_required'', JBool (''password_required'' \<in> set (i_partial_reasons s)))]) @
     when_found (i_malformed s) ''PDF_MALFORMED''
       (obj [(''parser_exception'', jmaybe (i_parser_exception s)), (''warning_count'', jnat (i_warning_count s))]) @
     when_found (i_partial_reasons s \<noteq> []) ''PDF_PARTIAL_ANALYSIS''
       (obj [(''reasons'', jsorted (i_partial_reasons s))]) @
     when_found (i_fallback_counts s \<noteq> []) ''PDF_FALLBACK_INDICATOR''
       (obj [(''confidence'', jtext ''lexical_only''), (''method'', jtext ''lexical-name-token-scan''),
         (''indicators'', jsorted (map fst (i_fallback_counts s))),
         (''indicator_counts'', JObj (obj (map (\<lambda>(t, n). (t, jnat n)) (sort_key fst (i_fallback_counts s))))),
         (''scan_truncated'', JBool (i_fallback_truncated s))])"

definition pdf_status :: "inspection_state \<Rightarrow> pdf_parser_status" where
  "pdf_status s = (if i_malformed s then PS_MALFORMED else if i_partial_reasons s \<noteq> [] then PS_PARTIAL else PS_COMPLETE)"

definition pdf_metadata :: "pdf_lib \<Rightarrow> pdf_limits \<Rightarrow> inspection_state \<Rightarrow> json_object" where
  "pdf_metadata lib l s = obj [
     (''parser'', jtext ''pikepdf''), (''parser_version'', jtext (pl_version lib)),
     (''qpdf_version'', jtext (pl_qpdf_version lib)), (''parser_status'', jtext (pdf_status_value (pdf_status s))),
     (''parser_exception'', jmaybe (i_parser_exception s)), (''page_count'', jmaybe_nat (i_page_count s)),
     (''pages_inspected'', jnat (i_pages_inspected s)), (''object_count'', jmaybe_nat (i_object_count s)),
     (''objects_inspected'', jnat (i_objects_inspected s)), (''catalog_present'', JBool (i_catalog_present s)),
     (''encrypted'', JBool (i_encrypted s)), (''acroform_present'', JBool (i_acroform_present s)),
     (''xfa_present'', JBool (i_xfa_present s)), (''embedded_file_count'', jnat (embedded_count l s)),
     (''external_uri_count'', jnat (i_external_uri_count s)),
     (''javascript_action_count'', jnat (i_javascript_action_count s)),
     (''launch_action_count'', jnat (i_launch_action_count s)),
     (''action_nodes_visited'', jnat (i_action_nodes_visited s)),
     (''action_types'', JObj (map (\<lambda>(t, n). (t, jnat n)) (sort_key fst (i_action_types s)))),
     (''warning_count'', jnat (i_warning_count s)), (''partial_reasons'', jsorted (i_partial_reasons s))]"

definition pdf_result :: "pdf_lib \<Rightarrow> pdf_limits \<Rightarrow> inspection_state \<Rightarrow> pdf_analysis" where
  "pdf_result lib l s = \<lparr>pa_parser_status = pdf_status s, pa_findings = pdf_findings l s,
     pa_metadata = pdf_metadata lib l s\<rparr>"

section \<open>The analysis\<close>

definition PDF_PARSER_VERSION :: string where "PDF_PARSER_VERSION = ''10.11.0''"

text \<open>\<open>Inl None\<close> is a misrouted or misconfigured call (\<open>PdfRoutingError\<close>, the version check).\<close>

definition rejected_state :: "pdf_exn \<Rightarrow> inspection_state option" where
  "rejected_state e =
     (let base = initial_inspection\<lparr>i_parser_exception := Some (px_name e)\<rparr> in
      case px_kind e of
        X_Password \<Rightarrow> Some (base\<lparr>i_encrypted := True, i_parser_exception := Some ''PasswordError'',
          i_partial_reasons := [''password_required'']\<rparr>)
      | X_Dependency \<Rightarrow> Some (base\<lparr>i_partial_reasons := [''unsupported_pdf_feature'']\<rparr>)
      | X_Pdf \<Rightarrow> Some (base\<lparr>i_malformed := True, i_partial_reasons := [''parser_rejected_pdf'']\<rparr>)
      | _ \<Rightarrow> None)"

text \<open>The body of \<open>with pdf:\<close>; an exception that is not a parser's leaves the analyzer.\<close>

definition traverse :: "nat \<Rightarrow> pdf_lib \<Rightarrow> pdf_limits \<Rightarrow> pdf_doc \<Rightarrow> pdf_exn + inspection_state" where
  "traverse frames lib l d =
     (let note_warnings = (\<lambda>s. let s1 = s\<lparr>i_warning_count := pd_warnings d\<rparr> in
            if pd_warnings d \<noteq> 0
            then snd (partialE ''parser_recovery_warning'' (s1\<lparr>i_malformed := True\<rparr>)) else s1) in
      case inspect_open_pdf frames lib l d initial_inspection of
        (Inr _, s) \<Rightarrow> Inr (note_warnings s)
      | (Inl e, s) \<Rightarrow>
        if px_kind e = X_Dependency then Inr (note_warnings
          (snd (partialE ''unsupported_pdf_feature'' (s\<lparr>i_parser_exception := Some (px_name e)\<rparr>))))
        else if parser_exception e then Inr (note_warnings
          (snd (partialE ''parser_error_during_traversal''
            (s\<lparr>i_malformed := True, i_parser_exception := Some (px_name e)\<rparr>))))
        else Inl e)"

definition analyze_pdf ::
  "nat \<Rightarrow> pdf_lib \<Rightarrow> pdf_limits \<Rightarrow> file_family \<Rightarrow> pdf_exn option + pdf_analysis" where
  "analyze_pdf frames lib l detected_family =
     (if detected_family \<noteq> FF_PDF \<or> pl_version lib \<noteq> PDF_PARSER_VERSION then Inl None
      else case pl_open lib of
        Inl e \<Rightarrow> (case rejected_state e of None \<Rightarrow> Inl (Some e)
          | Some s \<Rightarrow> Inr (pdf_result lib l (apply_fallback_scan lib l s)))
      | Inr d \<Rightarrow> (case traverse frames lib l d of Inl e \<Rightarrow> Inl (Some e)
          | Inr s \<Rightarrow> Inr (pdf_result lib l (apply_fallback_scan lib l s))))"

end
