(* ===== verification/Pdf_Coverage.thy ===== *)
theory Pdf_Coverage
  imports Pdf_Effects Pdf_Report
begin

text \<open>
  The walk over the actions of a PDF against the set of actions a viewer could reach: when no
  reason for an incomplete analysis was recorded, every reachable action was visited, although
  the document may be a cyclic graph, share objects and nest arrays.
\<close>

section \<open>Actions a viewer could reach\<close>

definition child :: "pdf_doc \<Rightarrow> handle \<Rightarrow> string \<Rightarrow> handle option" where
  "child d h k = (case pd_view d h of Inr (Mapping _ es) \<Rightarrow> entry es k | _ \<Rightarrow> None)"

definition action_name :: "pdf_doc \<Rightarrow> handle \<Rightarrow> ustring option" where
  "action_name d h = (case child d h ''S'' of None \<Rightarrow> None
     | Some s \<Rightarrow> (case pd_view d s of Inr (Pdf_Name n) \<Rightarrow> Some n | _ \<Rightarrow> None))"

definition elements :: "pdf_doc \<Rightarrow> handle \<Rightarrow> handle list" where
  "elements d h = (case pd_view d h of Inr (Pdf_Array cs) \<Rightarrow> cs | _ \<Rightarrow> [])"

definition entry_values :: "pdf_doc \<Rightarrow> handle \<Rightarrow> handle list" where
  "entry_values d h = (case pd_view d h of Inr (Mapping _ es) \<Rightarrow> map snd es | _ \<Rightarrow> [])"

text \<open>An action given directly or in nested arrays.\<close>

inductive spread :: "pdf_doc \<Rightarrow> handle \<Rightarrow> handle \<Rightarrow> bool" for d :: pdf_doc where
  spread_here: "action_name d h \<noteq> None \<Longrightarrow> spread d h h"
| spread_item: "c \<in> set (elements d h) \<Longrightarrow> spread d c a \<Longrightarrow> spread d h a"

text \<open>The actions an object carries: its activation action \<open>/A\<close> and its additional actions.\<close>

definition carried :: "pdf_doc \<Rightarrow> handle \<Rightarrow> handle \<Rightarrow> bool" where
  "carried d holder a \<longleftrightarrow> (\<exists>h. (child d holder ''A'' = Some h \<or>
     (\<exists>aa. child d holder ''AA'' = Some aa \<and> h \<in> set (entry_values d aa))) \<and> spread d h a)"

definition annotations :: "pdf_doc \<Rightarrow> handle \<Rightarrow> handle list" where
  "annotations d page = (case child d page ''Annots'' of None \<Rightarrow> [] | Some a \<Rightarrow> elements d a)"

inductive active :: "pdf_doc \<Rightarrow> handle \<Rightarrow> bool" for d :: pdf_doc where
  active_open: "child d (pd_root d) ''OpenAction'' = Some h \<Longrightarrow> action_name d h \<noteq> None \<Longrightarrow> active d h"
| active_object: "pd_objects d = Inr objects \<Longrightarrow> h \<in> set objects \<Longrightarrow> action_name d h \<noteq> None \<Longrightarrow> active d h"
| active_carried: "pd_objects d = Inr objects \<Longrightarrow> h \<in> set objects \<Longrightarrow> carried d h a \<Longrightarrow> active d a"
| active_page: "pd_pages d = Inr pages \<Longrightarrow> p \<in> set pages \<Longrightarrow> carried d p a \<Longrightarrow> active d a"
| active_annotation: "pd_pages d = Inr pages \<Longrightarrow> p \<in> set pages \<Longrightarrow> h \<in> set (annotations d p) \<Longrightarrow>
    carried d h a \<Longrightarrow> active d a"
| active_next: "active d a \<Longrightarrow> child d a ''Next'' = Some n \<Longrightarrow> spread d n b \<Longrightarrow> active d b"

text \<open>Actions no other object can hide: the open action, and an action that is an indirect object.\<close>

definition listed_action :: "pdf_doc \<Rightarrow> handle \<Rightarrow> bool" where
  "listed_action d h \<longleftrightarrow> action_name d h \<noteq> None \<and> (child d (pd_root d) ''OpenAction'' = Some h \<or>
     pd_objgen d h \<noteq> None \<and> (\<exists>objects. pd_objects d = Inr objects \<and> h \<in> set objects))"

text \<open>The scripts of the document itself.\<close>

definition javascript_names :: "pdf_doc \<Rightarrow> bool" where
  "javascript_names d \<longleftrightarrow> (\<exists>n. child d (pd_root d) ''Names'' = Some n \<and> child d n ''JavaScript'' \<noteq> None)"

text \<open>An object number belongs to one object.\<close>

definition numbered :: "pdf_doc \<Rightarrow> bool" where
  "numbered d \<longleftrightarrow> (\<forall>h h'. pd_objgen d h \<noteq> None \<and> pd_objgen d h' = pd_objgen d h \<longrightarrow> h' = h)"

text \<open>At most one action and at most one holder of additional actions is a direct object.\<close>

definition direct_apart :: "pdf_doc \<Rightarrow> bool" where
  "direct_apart d \<longleftrightarrow> (\<forall>h h'. pd_objgen d h = None \<and> pd_objgen d h' = None \<and>
     (action_name d h \<noteq> None \<and> action_name d h' \<noteq> None \<or> child d h ''AA'' \<noteq> None \<and> child d h' ''AA'' \<noteq> None) \<longrightarrow> h = h')"

text \<open>What a complete analysis has seen: a listed action, and where the direct objects cannot be mistaken
  for each other, any action a viewer could reach.\<close>

definition exposed :: "pdf_doc \<Rightarrow> handle \<Rightarrow> bool" where
  "exposed d h \<longleftrightarrow> listed_action d h \<or> direct_apart d \<and> active d h"

inductive_cases spreadE: "spread d h a"

section \<open>Visited objects\<close>

definition keys_of :: "pdf_lib \<Rightarrow> pdf_doc \<Rightarrow> handle \<Rightarrow> obj_key set" where
  "keys_of lib d h = (case pd_objgen d h of Some (n, g) \<Rightarrow> {Indirect_Key n g}
     | None \<Rightarrow> range (\<lambda>t. Direct_Key (pl_id lib t h)))"

text \<open>A key stands for an object: the number of an indirect object does, but the \<open>id\<close> of a direct
  object is free again when its wrapper is gone. \<open>C\<close> is the class of the objects that are followed:
  among the actions, and among the holders of additional actions, nothing else has the key of a
  member of \<open>C\<close>.\<close>

definition keys_identify :: "pdf_lib \<Rightarrow> pdf_doc \<Rightarrow> (handle \<Rightarrow> bool) \<Rightarrow> bool" where
  "keys_identify lib d C \<longleftrightarrow> (\<forall>x h. C x \<and> keys_of lib d x \<inter> keys_of lib d h \<noteq> {} \<and>
     (action_name d x \<noteq> None \<and> action_name d h \<noteq> None \<or> child d x ''AA'' \<noteq> None \<and> child d h ''AA'' \<noteq> None) \<longrightarrow> x = h)"

lemma keys_indirect: "numbered d \<Longrightarrow> keys_identify lib d (\<lambda>h. pd_objgen d h \<noteq> None)"
  by (fastforce simp: keys_identify_def keys_of_def numbered_def split: option.splits)

lemma keys_apart: "numbered d \<Longrightarrow> direct_apart d \<Longrightarrow> keys_identify lib d (\<lambda>_. True)"
  by (fastforce simp: keys_identify_def keys_of_def numbered_def direct_apart_def split: option.splits)

lemma same_action:
  "keys_identify lib d C \<Longrightarrow> C x \<Longrightarrow> action_name d x \<noteq> None \<Longrightarrow> action_name d h \<noteq> None \<Longrightarrow>
   key \<in> keys_of lib d x \<Longrightarrow> key \<in> keys_of lib d h \<Longrightarrow> x = h"
  unfolding keys_identify_def by blast

lemma key_owner:
  "keys_identify lib d C \<Longrightarrow> C x \<Longrightarrow> child d x ''AA'' \<noteq> None \<Longrightarrow> child d h ''AA'' \<noteq> None \<Longrightarrow>
   key \<in> keys_of lib d x \<Longrightarrow> key \<in> keys_of lib d h \<Longrightarrow> x = h"
  unfolding keys_identify_def by blast

definition visited :: "pdf_lib \<Rightarrow> pdf_doc \<Rightarrow> (handle \<Rightarrow> bool) \<Rightarrow> inspection_state \<Rightarrow> handle \<Rightarrow> bool" where
  "visited lib d C s h \<longleftrightarrow> C h \<and> action_name d h \<noteq> None \<and> keys_of lib d h \<inter> set (i_visited_actions s) \<noteq> {}"

definition held :: "pdf_lib \<Rightarrow> pdf_doc \<Rightarrow> (handle \<Rightarrow> bool) \<Rightarrow> inspection_state \<Rightarrow> handle \<Rightarrow> bool" where
  "held lib d C s h \<longleftrightarrow> C h \<and> child d h ''AA'' \<noteq> None \<and> keys_of lib d h \<inter> set (i_visited_holders s) \<noteq> {}"

definition covered :: "pdf_lib \<Rightarrow> pdf_doc \<Rightarrow> (handle \<Rightarrow> bool) \<Rightarrow> inspection_state \<Rightarrow> handle \<Rightarrow> bool" where
  "covered lib d C s h \<longleftrightarrow> (i_partial_reasons s = [] \<longrightarrow> (\<forall>a. spread d h a \<and> C a \<longrightarrow> visited lib d C s a))"

definition evidence :: "pdf_doc \<Rightarrow> inspection_state \<Rightarrow> handle \<Rightarrow> bool" where
  "evidence d s h \<longleftrightarrow> (action_name d h = Some (u ''/JavaScript'') \<longrightarrow> 0 < i_javascript_action_count s) \<and>
     (action_name d h = Some (u ''/Launch'') \<longrightarrow> 0 < i_launch_action_count s) \<and>
     (action_name d h = Some (u ''/URI'') \<longrightarrow> 0 < i_external_uri_count s)"

definition settled :: "pdf_lib \<Rightarrow> pdf_doc \<Rightarrow> (handle \<Rightarrow> bool) \<Rightarrow> inspection_state \<Rightarrow> handle \<Rightarrow> bool" where
  "settled lib d C s h \<longleftrightarrow> evidence d s h \<and> (\<forall>n. child d h ''Next'' = Some n \<longrightarrow> covered lib d C s n)"

definition aa_covered :: "pdf_lib \<Rightarrow> pdf_doc \<Rightarrow> (handle \<Rightarrow> bool) \<Rightarrow> inspection_state \<Rightarrow> handle \<Rightarrow> bool" where
  "aa_covered lib d C s h \<longleftrightarrow>
     (\<forall>aa. child d h ''AA'' = Some aa \<longrightarrow> (\<forall>a\<in>set (entry_values d aa). covered lib d C s a))"

text \<open>Between two states of an analysis without a reason to be incomplete: whatever was visited
  in between is settled.\<close>

definition advances :: "pdf_lib \<Rightarrow> pdf_doc \<Rightarrow> (handle \<Rightarrow> bool) \<Rightarrow> inspection_state \<Rightarrow> inspection_state \<Rightarrow> bool" where
  "advances lib d C s t \<longleftrightarrow> gathered s t \<and> (i_partial_reasons t = [] \<longrightarrow>
     (\<forall>h. visited lib d C t h \<longrightarrow> visited lib d C s h \<or> settled lib d C t h) \<and>
     (\<forall>h. held lib d C t h \<longrightarrow> held lib d C s h \<or> aa_covered lib d C t h))"

lemma gathered_partial: "gathered s t \<Longrightarrow> i_partial_reasons t = [] \<Longrightarrow> i_partial_reasons s = []"
  by (auto simp: gathered_def)

lemma visited_later: "gathered s t \<Longrightarrow> visited lib d C s h \<Longrightarrow> visited lib d C t h"
  by (auto simp: gathered_def visited_def)

lemma held_later: "gathered s t \<Longrightarrow> held lib d C s h \<Longrightarrow> held lib d C t h"
  by (auto simp: gathered_def held_def)

lemma covered_later: "gathered s t \<Longrightarrow> covered lib d C s h \<Longrightarrow> covered lib d C t h"
  using gathered_partial visited_later by (fastforce simp: covered_def)

lemma evidence_later: "gathered s t \<Longrightarrow> evidence d s h \<Longrightarrow> evidence d t h"
  by (auto simp: gathered_def evidence_def)

lemma settled_later: "gathered s t \<Longrightarrow> settled lib d C s h \<Longrightarrow> settled lib d C t h"
  using covered_later evidence_later by (fastforce simp: settled_def)

lemma aa_covered_later: "gathered s t \<Longrightarrow> aa_covered lib d C s h \<Longrightarrow> aa_covered lib d C t h"
  using covered_later by (fastforce simp: aa_covered_def)

lemma advances_refl: "advances lib d C s s"
  by (simp add: advances_def gathering.here)

lemma advances_trans:
  assumes st: "advances lib d C s t" and tv: "advances lib d C t v"
  shows "advances lib d C s v"
proof -
  have g: "gathered s t" "gathered t v" using assms by (simp_all add: advances_def)
  then have "gathered s v" by (rule gathering.onward)
  moreover have "(\<forall>h. visited lib d C v h \<longrightarrow> visited lib d C s h \<or> settled lib d C v h) \<and>
     (\<forall>h. held lib d C v h \<longrightarrow> held lib d C s h \<or> aa_covered lib d C v h)" if p: "i_partial_reasons v = []"
  proof -
    from gathered_partial [OF g(2) p] st tv p
    show ?thesis using settled_later [OF g(2)] aa_covered_later [OF g(2)] by (fastforce simp: advances_def)
  qed
  ultimately show ?thesis by (simp add: advances_def)
qed

text \<open>A step that visits nothing new.\<close>

lemma advances_quiet:
  "gathered s t \<Longrightarrow> set (i_visited_actions t) = set (i_visited_actions s) \<Longrightarrow>
   set (i_visited_holders t) = set (i_visited_holders s) \<Longrightarrow> advances lib d C s t"
  by (simp add: advances_def visited_def held_def)

lemma advances_partial: "gathered s t \<Longrightarrow> i_partial_reasons t \<noteq> [] \<Longrightarrow> advances lib d C s t"
  by (simp add: advances_def)

section \<open>One action\<close>

lemma inserted_not_Nil: "List.insert x xs \<noteq> []"
  by (auto simp: List.insert_def)

lemma look_run: "look d h s = (case pd_view d h of Inl e \<Rightarrow> (Inl e, s) | Inr v \<Rightarrow> (Inr v, s))"
  by (simp add: look_def fromE_def raiseE_def returnE_def split: sum.split)

lemma get_entry_returns: "get_entry d h k s = (Inr v, t) \<Longrightarrow> t = s \<and> v = child d h k"
  by (auto simp: get_entry_def bindE_def look_run child_def returnE_def raiseE_def split: sum.splits pdf_view.splits)

lemma is_action_returns: "is_action d h s = (Inr b, t) \<Longrightarrow> t = s \<and> (b \<longleftrightarrow> action_name d h \<noteq> None)"
  by (auto simp: is_action_def bindE_def look_run returnE_def action_name_def child_def
      split: sum.splits pdf_view.splits option.splits)

lemma object_key_returns:
  assumes "object_key lib d h s = (Inr key, t)"
  shows "key \<in> keys_of lib d h" "i_visited_actions t = i_visited_actions s" "i_visited_holders t = i_visited_holders s"
    "gathered s t" "i_partial_reasons t = i_partial_reasons s" "i_action_nodes_visited t = i_action_nodes_visited s"
  using assms leavesD [OF gathering.leaves_object_key assms]
  by (auto simp: object_key_def keys_of_def returnE_def bindE_def getE_def modifyE_def split: option.splits)

lemma enter_action_returns:
  assumes "enter_action lib l d h s = (Inr entered, t)"
  shows "gathered s t" "i_visited_holders t = i_visited_holders s"
    and "entered \<Longrightarrow> \<exists>key\<in>keys_of lib d h. set (i_visited_actions t) = insert key (set (i_visited_actions s))"
    and "\<not> entered \<Longrightarrow> i_visited_actions t = i_visited_actions s \<and> (i_partial_reasons t = [] \<longrightarrow> C h \<longrightarrow> action_name d h \<noteq> None \<longrightarrow> visited lib d C s h)"
proof -
  show "gathered s t" using leavesD [OF gathering.leaves_enter_action assms] .
  from assms [unfolded enter_action_def] obtain key v where k: "object_key lib d h s = (Inr key, v)"
    and rest: "bindE (getE (\<lambda>s. (key \<in> set (i_visited_actions s), i_action_nodes_visited s))) (\<lambda>(seen, n).
       if seen then returnE False
       else if max_action_nodes l \<le> n then bindE (partialE ''action_node_limit'') (\<lambda>_. returnE False)
       else bindE (modifyE (\<lambda>s. s\<lparr>i_visited_actions := List.insert key (i_visited_actions s),
         i_action_nodes_visited := Suc n\<rparr>)) (\<lambda>_. returnE True)) v = (Inr entered, t)" by (rule bind_returns)
  note key = object_key_returns [OF k]
  show "i_visited_holders t = i_visited_holders s"
    using rest key by (auto simp: bindE_def getE_def returnE_def partialE_def modifyE_def split: if_splits)
  show "\<exists>key\<in>keys_of lib d h. set (i_visited_actions t) = insert key (set (i_visited_actions s))" if entered
    using rest key that by (auto simp: bindE_def getE_def returnE_def partialE_def modifyE_def split: if_splits)
  show "i_visited_actions t = i_visited_actions s \<and> (i_partial_reasons t = [] \<longrightarrow> C h \<longrightarrow> action_name d h \<noteq> None \<longrightarrow> visited lib d C s h)" if "\<not> entered"
    using rest key that
    by (auto simp: bindE_def getE_def returnE_def partialE_def modifyE_def visited_def inserted_not_Nil split: if_splits)
qed

definition same_walk :: "inspection_state \<Rightarrow> inspection_state \<Rightarrow> bool" where
  "same_walk s t \<longleftrightarrow> i_visited_actions t = i_visited_actions s \<and> i_visited_holders t = i_visited_holders s"

interpretation quiet: spec_effects same_walk l for l
  by unfold_locales (simp_all add: same_walk_def)

text \<open>Recording an action counts it under its type.\<close>

lemma action_type_returns:
  assumes "action_type lib l d h s = (Inr t, s')" "action_name d h = Some (u (CHR ''/'' # k))" "k \<in> set KNOWN_ACTION_TYPES"
  shows "t = u k \<and> s' = s"
proof -
  have "find (\<lambda>k'. u (CHR ''/'' # k') = u (CHR ''/'' # k)) KNOWN_ACTION_TYPES = Some k"
    using assms(3) by (auto simp: KNOWN_ACTION_TYPES_def)
  then have "known_action_type (u (CHR ''/'' # k)) = Some (u k)" by (simp add: known_action_type_def del: u_inject)
  with assms(1,2) show ?thesis
    by (auto simp: action_type_def bindE_def look_run returnE_def action_name_def get_entry_def child_def
        split: option.splits sum.splits pdf_view.splits)
qed

lemma modify_bind_gathers:
  assumes "bindE (modifyE f) k s = (Inr x, t)" "\<And>y. leaves gathered (k y)"
  shows "gathered (f s) t"
  using assms(1) leavesD [OF assms(2)] by (simp add: bindE_def modifyE_def)

lemma note_kind_counts:
  assumes "note_kind lib l d h source ty s = (Inr (), t)"
  shows "ty = u ''JavaScript'' \<Longrightarrow> 0 < i_javascript_action_count t"
    and "ty = u ''Launch'' \<Longrightarrow> 0 < i_launch_action_count t"
    and "ty = u ''URI'' \<Longrightarrow> 0 < i_external_uri_count t"
proof -
  assume "ty = u ''JavaScript''"
  with assms have run: "bindE (modifyE (\<lambda>s. s\<lparr>i_javascript_action_count := Suc (i_javascript_action_count s),
        i_javascript_sources := List.insert source (i_javascript_sources s)\<rparr>)) (\<lambda>_.
      bindE (read_javascript_source l d h) (\<lambda>js. case js of None \<Rightarrow> returnE ()
      | Some text_of_js \<Rightarrow> modifyE (\<lambda>s. s\<lparr>i_behavior_indicators :=
          fold List.insert (javascript_behavior_indicators text_of_js) (i_behavior_indicators s)\<rparr>))) s = (Inr (), t)"
    by (simp add: note_kind_def)
  have "gathered (s\<lparr>i_javascript_action_count := Suc (i_javascript_action_count s),
      i_javascript_sources := List.insert source (i_javascript_sources s)\<rparr>) t"
    by (rule modify_bind_gathers [OF run]) (intro gathering.leaves_bind gathering.leaves_read_javascript
      gathering.leaves_option gathering.leaves_return gathering.leaves_modify gathering.on_behavior)
  then show "0 < i_javascript_action_count t" by (simp add: gathered_def)
next
  assume "ty = u ''Launch''"
  with assms show "0 < i_launch_action_count t" by (auto simp: note_kind_def modifyE_def)
next
  assume "ty = u ''URI''"
  with assms have run: "bindE (modifyE (\<lambda>s. s\<lparr>i_external_uri_count := Suc (i_external_uri_count s)\<rparr>)) (\<lambda>_.
      bindE (get_entry d h ''URI'') (record_uri lib l d)) s = (Inr (), t)"
    by (simp add: note_kind_def)
  have "gathered (s\<lparr>i_external_uri_count := Suc (i_external_uri_count s)\<rparr>) t"
    by (rule modify_bind_gathers [OF run])
      (intro gathering.leaves_bind gathering.leaves_get_entry gathering.leaves_record_uri)
  then show "0 < i_external_uri_count t" by (simp add: gathered_def)
qed

lemma note_action_returns:
  assumes "note_action lib l d h source s = (Inr (), t)"
  shows "gathered s t" "same_walk s t" "evidence d t h"
proof -
  show "gathered s t" "same_walk s t"
    using leavesD [OF gathering.leaves_note_action assms] leavesD [OF quiet.leaves_note_action assms] .
  from assms obtain ty s1 s2 where ty: "action_type lib l d h s = (Inr ty, s1)"
    and kind: "note_kind lib l d h source ty s2 = (Inr (), t)"
    unfolding note_action_def by (blast elim: bind_returns)
  have "ty = u k" if "action_name d h = Some (u (CHR ''/'' # k))" "k \<in> set KNOWN_ACTION_TYPES" for k
    using action_type_returns [OF ty that] by simp
  from this [of "''JavaScript''"] this [of "''Launch''"] this [of "''URI''"] note_kind_counts [OF kind]
  show "evidence d t h" by (auto simp: evidence_def KNOWN_ACTION_TYPES_def)
qed

section \<open>The walk\<close>

lemma for_advances:
  assumes body: "\<And>c s x t. c \<in> set cs \<Longrightarrow> f c s = (Inr x, t) \<Longrightarrow> I s \<Longrightarrow> advances lib d C s t \<and> I t \<and> P c t"
    and mono: "\<And>c s t. gathered s t \<Longrightarrow> P c s \<Longrightarrow> P c t"
    and "forE f cs s = (Inr x, t)" "I s"
  shows "advances lib d C s t \<and> I t \<and> (\<forall>c\<in>set cs. P c t)"
  using body assms(3,4)
proof (induction cs arbitrary: s)
  case Nil
  then show ?case by (simp add: returnE_def advances_refl)
next
  case (Cons c cs)
  from Cons.prems(2) obtain v where v: "f c s = (Inr (), v)" "forE f cs v = (Inr x, t)"
    by (auto elim: bind_returns)
  from Cons.prems(1) [OF _ v(1) Cons.prems(3)] have c: "advances lib d C s v" "I v" "P c v" by auto
  from Cons.IH [OF Cons.prems(1) v(2) c(2)] have rest: "advances lib d C v t" "I t" "\<forall>c\<in>set cs. P c t" by auto
  then have "gathered v t" by (simp add: advances_def)
  with mono c rest advances_trans show ?case by fastforce
qed

text \<open>Entering an action, recording it and walking on from it settles it.\<close>

lemma entered_advances:
  assumes keys: "keys_identify lib d C" and act: "action_name d h \<noteq> None"
    and enter: "enter_action lib l d h s = (Inr True, s1)"
    and note_it: "note_action lib l d h source s1 = (Inr (), s2)"
    and onward: "advances lib d C s2 t" "\<And>n. child d h ''Next'' = Some n \<Longrightarrow> covered lib d C t n"
  shows "advances lib d C s t \<and> (C h \<longrightarrow> visited lib d C t h)"
proof -
  note e = enter_action_returns [OF enter] and n = note_action_returns [OF note_it]
  have g: "gathered s s1" "gathered s1 s2" "gathered s2 t" using e(1) n(1) onward(1) by (simp_all add: advances_def)
  then have gs: "gathered s t" by (blast intro: gathering.onward)
  obtain key where k: "key \<in> keys_of lib d h" "set (i_visited_actions s2) = insert key (set (i_visited_actions s))"
    using e(3) n(2) by (auto simp: same_walk_def)
  have h: "C h \<longrightarrow> visited lib d C s2 h" using k act by (auto simp: visited_def)
  have only: "visited lib d C s x \<or> x = h" if "visited lib d C s2 x" for x
    using that k(2) same_action [OF keys _ _ act _ k(1)] by (auto simp: visited_def)
  have "settled lib d C t h" using evidence_later [OF g(3) n(3)] onward(2) by (simp add: settled_def)
  moreover have "held lib d C s2 x \<longleftrightarrow> held lib d C s x" for x using e(2) n(2) by (simp add: held_def same_walk_def)
  ultimately have "advances lib d C s t" using gs onward(1) only by (fastforce simp: advances_def)
  with h visited_later [OF g(3)] show ?thesis by blast
qed

lemma covered_action: "action_name d h \<noteq> None \<Longrightarrow> (C h \<longrightarrow> visited lib d C t h) \<Longrightarrow> covered lib d C t h"
  by (auto simp: covered_def action_name_def child_def elements_def split: sum.splits pdf_view.splits elim: spreadE)

lemma covered_other: "action_name d h = None \<Longrightarrow> elements d h = [] \<Longrightarrow> covered lib d C t h"
  by (auto simp: covered_def elim: spreadE)

lemma covered_array:
  "pd_view d h = Inr (Pdf_Array cs) \<Longrightarrow> \<forall>c\<in>set cs. covered lib d C t c \<Longrightarrow> covered lib d C t h"
  by (auto simp: covered_def action_name_def child_def elements_def elim: spreadE)

lemma partial_advances: "advances lib d C s (snd (partialE reason s))" "i_partial_reasons (snd (partialE reason s)) \<noteq> []"
  by (auto simp: partialE_def modifyE_def inserted_not_Nil gathering.on_partial intro!: advances_partial)

lemma action_advances:
  assumes keys: "keys_identify lib d C" and act: "action_name d h \<noteq> None"
    and run: "bindE (enter_action lib l d h) (\<lambda>entered.
      if \<not> entered then returnE () else bindE (note_action lib l d h source) (\<lambda>_.
      bindE (get_entry d h ''Next'') (\<lambda>n. case n of None \<Rightarrow> returnE () | Some n \<Rightarrow> walk_on n))) s = (Inr (), t)"
    and walk_on: "\<And>n s t. walk_on n s = (Inr (), t) \<Longrightarrow> advances lib d C s t \<and> covered lib d C t n"
  shows "advances lib d C s t \<and> covered lib d C t h"
proof -
  from run obtain entered s1 where e: "enter_action lib l d h s = (Inr entered, s1)"
    and r: "(if \<not> entered then returnE () else bindE (note_action lib l d h source) (\<lambda>_.
      bindE (get_entry d h ''Next'') (\<lambda>n. case n of None \<Rightarrow> returnE () | Some n \<Rightarrow> walk_on n))) s1 = (Inr (), t)"
    by (auto elim: bind_returns)
  note ee = enter_action_returns [OF e]
  show ?thesis
  proof (cases entered)
    case False
    with r have t: "t = s1" by (simp add: returnE_def)
    have "covered lib d C t h" using ee(4) [OF False] visited_later [OF ee(1)] t act
      by (cases "i_partial_reasons t = []") (blast intro: covered_action, simp add: covered_def)
    moreover have "advances lib d C s t" using ee t False by (intro advances_quiet) simp_all
    ultimately show ?thesis by blast
  next
    case True
    with r obtain s2 where n: "note_action lib l d h source s1 = (Inr (), s2)"
      and go: "(case child d h ''Next'' of None \<Rightarrow> returnE () | Some n \<Rightarrow> walk_on n) s2 = (Inr (), t)"
      by (auto elim!: bind_returns dest!: get_entry_returns)
    have "advances lib d C s2 t" "\<And>n. child d h ''Next'' = Some n \<Longrightarrow> covered lib d C t n"
      using go walk_on by (auto simp: returnE_def advances_refl split: option.splits)
    moreover have "enter_action lib l d h s = (Inr True, s1)" using e True by simp
    ultimately show ?thesis using entered_advances [OF keys act _ n] covered_action [OF act] by blast
  qed
qed

lemma walk_advances:
  assumes keys: "keys_identify lib d C" and "walk_action frames lib l d h source depth s = (Inr (), t)"
  shows "advances lib d C s t \<and> covered lib d C t h"
  using assms(2)
proof (induction frames arbitrary: h depth s t)
  case 0
  then show ?case by (simp add: raiseE_def)
next
  case (Suc frames)
  show ?case
  proof (cases "max_action_depth l < depth")
    case True
    with Suc.prems have "t = snd (partialE ''action_depth_limit'' s)" by (auto simp: partialE_def modifyE_def)
    with partial_advances show ?thesis by (auto simp: covered_def)
  next
    case shallow: False
    obtain v where v: "pd_view d h = Inr v" using Suc.prems shallow by (auto simp: bindE_def look_run split: sum.splits)
    show ?thesis
    proof (cases "\<exists>cs. v = Pdf_Array cs")
      case True
      then obtain cs where cs: "v = Pdf_Array cs" by blast
      with Suc.prems shallow v have loop: "forE (\<lambda>c. walk_action frames lib l d c source depth) cs s = (Inr (), t)"
        by (simp add: bindE_def look_run)
      have "advances lib d C s t \<and> True \<and> (\<forall>c\<in>set cs. covered lib d C t c)"
        by (rule for_advances [where I = "\<lambda>_. True" and P = "\<lambda>c t. covered lib d C t c", OF _ _ loop])
          (auto dest: Suc.IH intro: covered_later)
      with covered_array v cs show ?thesis by blast
    next
      case False
      then have el: "elements d h = []" using v by (auto simp: elements_def split: pdf_view.splits)
      let ?go = "\<lambda>b. if \<not> b then returnE () else bindE (enter_action lib l d h) (\<lambda>entered.
          if \<not> entered then returnE () else bindE (note_action lib l d h source) (\<lambda>_.
          bindE (get_entry d h ''Next'') (\<lambda>n. case n of None \<Rightarrow> returnE ()
          | Some n \<Rightarrow> walk_action frames lib l d n source (Suc depth))))"
      from False Suc.prems shallow v have "bindE (is_action d h) ?go s = (Inr (), t)"
        by (cases v) (simp_all add: bindE_def [of "look d h"] look_run)
      then obtain b s0 where b0: "is_action d h s = (Inr b, s0)" "?go b s0 = (Inr (), t)" by (rule bind_returns)
      with is_action_returns have b: "is_action d h s = (Inr b, s)" and rest: "?go b s = (Inr (), t)" by blast+
      show ?thesis
      proof (cases b)
        case False
        with rest b el is_action_returns [OF b] show ?thesis by (simp add: returnE_def advances_refl covered_other)
      next
        case b': True
        with is_action_returns [OF b] have act: "action_name d h \<noteq> None" by simp
        from rest b' have "bindE (enter_action lib l d h) (\<lambda>entered.
          if \<not> entered then returnE () else bindE (note_action lib l d h source) (\<lambda>_.
          bindE (get_entry d h ''Next'') (\<lambda>n. case n of None \<Rightarrow> returnE ()
          | Some n \<Rightarrow> walk_action frames lib l d n source (Suc depth)))) s = (Inr (), t)" by simp
        from action_advances [OF keys act this Suc.IH] show ?thesis .
      qed
    qed
  qed
qed

end
