(* ===== verification/Pdf_Completeness.thy ===== *)
theory Pdf_Completeness
  imports Pdf_Coverage
begin

text \<open>
  From one walk to the whole inspection of a PDF: every pass advances the walk, and together
  they cover every action a viewer could reach.
\<close>

section \<open>Passes advance\<close>

definition stepping :: "pdf_lib \<Rightarrow> pdf_doc \<Rightarrow> (handle \<Rightarrow> bool) \<Rightarrow> 'a inspection \<Rightarrow> bool" where
  "stepping lib d C m \<longleftrightarrow> (\<forall>s x t. m s = (Inr x, t) \<longrightarrow> advances lib d C s t)"

lemma steppingD: "stepping lib d C m \<Longrightarrow> m s = (Inr x, t) \<Longrightarrow> advances lib d C s t"
  by (auto simp: stepping_def)

lemma stepping_bind: "stepping lib d C m \<Longrightarrow> (\<And>x. stepping lib d C (k x)) \<Longrightarrow> stepping lib d C (bindE m k)"
  unfolding stepping_def by (blast elim: bind_returns intro: advances_trans)

lemma stepping_return: "stepping lib d C (returnE x)"
  by (simp add: stepping_def returnE_def advances_refl)

lemma stepping_raise: "stepping lib d C (raiseE e)"
  by (simp add: stepping_def raiseE_def)

lemma stepping_if: "(b \<Longrightarrow> stepping lib d C m) \<Longrightarrow> (\<not> b \<Longrightarrow> stepping lib d C n) \<Longrightarrow> stepping lib d C (if b then m else n)"
  by simp

lemma stepping_option:
  "(x = None \<Longrightarrow> stepping lib d C m) \<Longrightarrow> (\<And>y. x = Some y \<Longrightarrow> stepping lib d C (k y)) \<Longrightarrow>
   stepping lib d C (case x of None \<Rightarrow> m | Some y \<Rightarrow> k y)"
  by (cases x) simp_all

lemma stepping_quiet: "leaves gathered m \<Longrightarrow> leaves same_walk m \<Longrightarrow> stepping lib d C m"
  using leavesD by (fastforce simp: stepping_def same_walk_def intro: advances_quiet)

lemma stepping_reads: "leaves (=) m \<Longrightarrow> stepping lib d C m"
  unfolding stepping_def using leavesD [of "(=)" m] advances_refl by blast

lemma stepping_modify: "(\<And>s. gathered s (f s) \<and> same_walk s (f s)) \<Longrightarrow> stepping lib d C (modifyE f)"
  by (intro stepping_quiet) (simp_all add: leaves_def modifyE_def)

lemma stepping_partial: "stepping lib d C (partialE reason)"
  by (intro stepping_quiet) (rule gathering.leaves_partial quiet.leaves_partial)+

lemma stepping_for: "(\<And>x. x \<in> set xs \<Longrightarrow> stepping lib d C (f x)) \<Longrightarrow> stepping lib d C (forE f xs)"
  by (induction xs) (simp_all add: stepping_return stepping_bind)

lemma stepping_while: "(\<And>x. x \<in> set xs \<Longrightarrow> stepping lib d C (f x)) \<Longrightarrow> stepping lib d C (whileE f xs)"
  by (induction xs) (simp_all add: stepping_return stepping_bind)

lemma stepping_look: "stepping lib d C (look d' h)"
  by (intro stepping_reads reading.leaves_look)

lemma stepping_get_entry: "stepping lib d C (get_entry d' h k)"
  by (intro stepping_reads reading.leaves_get_entry)

lemma stepping_from: "stepping lib d C (fromE r)"
  by (intro stepping_reads reading.leaves_from)

lemma stepping_walk: "keys_identify lib d C \<Longrightarrow> stepping lib d C (walk_action frames lib l d h source depth)"
  using walk_advances unfolding stepping_def by (metis old.unit.exhaust)

lemma stepping_object_key: "stepping lib d C (object_key lib d h)"
  by (intro stepping_quiet gathering.leaves_object_key quiet.leaves_object_key)

text \<open>A loop that may stop early: each item is taken care of, or a reason was recorded.\<close>

lemma while_advances:
  assumes body: "\<And>c s b t. c \<in> set cs \<Longrightarrow> f c s = (Inr b, t) \<Longrightarrow> I s \<Longrightarrow>
      advances lib d C s t \<and> I t \<and> (b \<longrightarrow> P c t) \<and> (\<not> b \<longrightarrow> i_partial_reasons t \<noteq> [])"
    and mono: "\<And>c s t. gathered s t \<Longrightarrow> P c s \<Longrightarrow> P c t"
    and escape: "\<And>c t. i_partial_reasons t \<noteq> [] \<Longrightarrow> P c t"
    and "whileE f cs s = (Inr b, t)" "I s"
  shows "advances lib d C s t \<and> I t \<and> (\<forall>c\<in>set cs. P c t) \<and> (\<not> b \<longrightarrow> i_partial_reasons t \<noteq> [])"
  using body assms(4,5)
proof (induction cs arbitrary: s)
  case Nil
  then show ?case by (simp add: returnE_def advances_refl)
next
  case (Cons c cs)
  from Cons.prems(2) obtain go v where v: "f c s = (Inr go, v)"
    and rest: "(if go then whileE f cs else returnE False) v = (Inr b, t)" by (auto elim: bind_returns)
  from Cons.prems(1) [OF _ v Cons.prems(3)]
  have c: "advances lib d C s v" "I v" "go \<Longrightarrow> P c v" "\<not> go \<Longrightarrow> i_partial_reasons v \<noteq> []" by auto
  show ?case
  proof (cases go)
    case True
    with rest have "whileE f cs v = (Inr b, t)" by simp
    from Cons.IH [OF Cons.prems(1) this c(2)]
    have r: "advances lib d C v t" "I t" "\<forall>c\<in>set cs. P c t" "\<not> b \<longrightarrow> i_partial_reasons t \<noteq> []" by auto
    then have "gathered v t" by (simp add: advances_def)
    with mono c(1,3) True r advances_trans show ?thesis by fastforce
  next
    case False
    with rest c escape show ?thesis by (auto simp: returnE_def)
  qed
qed

section \<open>Holders of actions\<close>

lemma note_trigger_advances: "advances lib d C s (snd (note_trigger lib l trigger s))"
  by (rule advances_quiet) (auto simp: note_trigger_def modifyE_def Let_def gathered_def)

lemma walk_trigger_advances:
  assumes "keys_identify lib d C" "walk_trigger frames lib l d source ta s = (Inr b, t)"
  shows "advances lib d C s t \<and> True \<and> (b \<longrightarrow> covered lib d C t (snd ta)) \<and> (\<not> b \<longrightarrow> i_partial_reasons t \<noteq> [])"
proof (cases "max_additional_triggers l \<le> i_additional_triggers_visited s")
  case True
  with assms(2) have "b = False" "t = snd (partialE ''additional_action_trigger_limit'' s)"
    by (auto simp: walk_trigger_def bindE_def getE_def partialE_def modifyE_def returnE_def)
  then show ?thesis using partial_advances by simp
next
  case False
  let ?s1 = "snd (note_trigger lib l (fst ta) s)"
  from False assms(2) have "b" "walk_action frames lib l d (snd ta) (source @ ''AA'') 0 ?s1 = (Inr (), t)"
    by (auto simp: walk_trigger_def bindE_def getE_def note_trigger_def modifyE_def returnE_def split: prod.splits sum.splits)
  with walk_advances [OF assms(1)] note_trigger_advances [of lib d C s l "fst ta"] show ?thesis
    by (blast intro: advances_trans)
qed

lemma additional_advances:
  assumes keys: "keys_identify lib d C" and run: "inspect_additional_actions frames lib l d holder source s = (Inr x, t)"
  shows "advances lib d C s t \<and> (C holder \<longrightarrow> held lib d C s holder \<or> aa_covered lib d C t holder)"
proof -
  from run [unfolded inspect_additional_actions_def] have r: "(case child d holder ''AA'' of None \<Rightarrow> returnE ()
     | Some aa \<Rightarrow> bindE (look d aa) (\<lambda>v. case v of
         Mapping _ es \<Rightarrow>
           bindE (object_key lib d holder) (\<lambda>key.
           bindE (getE (\<lambda>s. key \<in> set (i_visited_holders s))) (\<lambda>seen.
           if seen then returnE ()
           else bindE (modifyE (\<lambda>s. s\<lparr>i_visited_holders := List.insert key (i_visited_holders s),
             i_additional_action_count := Suc (i_additional_action_count s)\<rparr>)) (\<lambda>_.
           bindE (whileE (walk_trigger frames lib l d source) es) (\<lambda>_. returnE ()))))
       | _ \<Rightarrow> returnE ())) s = (Inr x, t)" by (blast elim: bind_returns dest: get_entry_returns)
  show ?thesis
  proof (cases "\<exists>aa b es. child d holder ''AA'' = Some aa \<and> pd_view d aa = Inr (Mapping b es)")
    case False
    with r have "t = s" "aa_covered lib d C t holder"
      by (auto simp: returnE_def bindE_def look_run aa_covered_def entry_values_def
          split: option.splits sum.splits pdf_view.splits)
    then show ?thesis by (simp add: advances_refl)
  next
    case True
    then obtain aa b es where aa: "child d holder ''AA'' = Some aa" "pd_view d aa = Inr (Mapping b es)" by blast
    with r obtain key v where k: "object_key lib d holder s = (Inr key, v)"
      and r2: "bindE (getE (\<lambda>s. key \<in> set (i_visited_holders s))) (\<lambda>seen.
           if seen then returnE ()
           else bindE (modifyE (\<lambda>s. s\<lparr>i_visited_holders := List.insert key (i_visited_holders s),
             i_additional_action_count := Suc (i_additional_action_count s)\<rparr>)) (\<lambda>_.
           bindE (whileE (walk_trigger frames lib l d source) es) (\<lambda>_. returnE ()))) v = (Inr x, t)"
      by (auto simp: bindE_def [of "look d aa"] look_run elim: bind_returns)
    note key = object_key_returns [OF k]
    have sv: "advances lib d C s v" using key by (intro advances_quiet) simp_all
    show ?thesis
    proof (cases "key \<in> set (i_visited_holders v)")
      case True
      with r2 key sv aa show ?thesis by (auto simp: bindE_def getE_def returnE_def held_def)
    next
      case False
      let ?v = "v\<lparr>i_visited_holders := List.insert key (i_visited_holders v),
        i_additional_action_count := Suc (i_additional_action_count v)\<rparr>"
      from False r2 obtain b where w: "whileE (walk_trigger frames lib l d source) es ?v = (Inr b, t)"
        by (auto simp: bindE_def getE_def modifyE_def returnE_def split: prod.splits sum.splits simp del: not_in_set_insert)
      have "advances lib d C ?v t \<and> True \<and> (\<forall>ta\<in>set es. covered lib d C t (snd ta)) \<and> (\<not> b \<longrightarrow> i_partial_reasons t \<noteq> [])"
      proof (rule while_advances [where I = "\<lambda>_. True" and P = "\<lambda>ta t. covered lib d C t (snd ta)", OF _ _ _ w])
        show "covered lib d C t (snd ta)" if "i_partial_reasons t \<noteq> []" for ta t using that by (simp add: covered_def)
      qed (use walk_trigger_advances [OF keys] covered_later in blast)+
      then have adv: "advances lib d C ?v t" and cov: "aa_covered lib d C t holder"
        using aa by (auto simp: aa_covered_def entry_values_def)
      have "\<And>h. held lib d C ?v h \<Longrightarrow> held lib d C s h \<or> h = holder"
        using key_owner [OF keys _ _ _ _ key(1)] key aa(1) by (auto simp: held_def)
      moreover have "gathered s t"
        using adv sv gathering.on_holder [of v key] unfolding advances_def by (blast intro: gathering.onward)
      moreover have "visited lib d C ?v h \<longleftrightarrow> visited lib d C s h" for h using key by (simp add: visited_def)
      ultimately have "advances lib d C s t" using adv cov unfolding advances_def by blast
      with cov show ?thesis by blast
    qed
  qed
qed

text \<open>Between passes everything visited is settled.\<close>

definition sound_walk :: "pdf_lib \<Rightarrow> pdf_doc \<Rightarrow> (handle \<Rightarrow> bool) \<Rightarrow> inspection_state \<Rightarrow> bool" where
  "sound_walk lib d C s \<longleftrightarrow> (i_partial_reasons s = [] \<longrightarrow>
     (\<forall>h. visited lib d C s h \<longrightarrow> settled lib d C s h) \<and> (\<forall>h. held lib d C s h \<longrightarrow> aa_covered lib d C s h))"

definition attended :: "pdf_lib \<Rightarrow> pdf_doc \<Rightarrow> (handle \<Rightarrow> bool) \<Rightarrow> inspection_state \<Rightarrow> handle \<Rightarrow> bool" where
  "attended lib d C s h \<longleftrightarrow> (i_partial_reasons s = [] \<and> C h \<longrightarrow> (\<forall>a. carried d h a \<and> C a \<longrightarrow> visited lib d C s a))"

lemma sound_later:
  assumes "sound_walk lib d C s" "advances lib d C s t"
  shows "sound_walk lib d C t"
proof -
  have g: "gathered s t" using assms(2) by (simp add: advances_def)
  have "settled lib d C t h" if "i_partial_reasons t = []" "visited lib d C t h" for h
    using that assms settled_later [OF g] gathered_partial [OF g that(1)] unfolding sound_walk_def advances_def by blast
  moreover have "aa_covered lib d C t h" if "i_partial_reasons t = []" "held lib d C t h" for h
    using that assms aa_covered_later [OF g] gathered_partial [OF g that(1)] unfolding sound_walk_def advances_def by blast
  ultimately show ?thesis unfolding sound_walk_def by blast
qed

lemma attended_later: "gathered s t \<Longrightarrow> attended lib d C s h \<Longrightarrow> attended lib d C t h"
  using gathered_partial visited_later unfolding attended_def by blast

lemma attended_partial: "i_partial_reasons t \<noteq> [] \<Longrightarrow> attended lib d C t h"
  by (simp add: attended_def)

lemma advances_gathered: "advances lib d C s t \<Longrightarrow> gathered s t"
  by (simp add: advances_def)

lemma holder_advances:
  assumes keys: "keys_identify lib d C" and run: "inspect_action_holder frames lib l d h source s = (Inr x, t)"
    and sound: "sound_walk lib d C s"
  shows "advances lib d C s t \<and> sound_walk lib d C t \<and> attended lib d C t h"
proof -
  from run [unfolded inspect_action_holder_def] obtain v y where
    a: "(case child d h ''A'' of None \<Rightarrow> returnE () | Some a \<Rightarrow> walk_action frames lib l d a source 0) s = (Inr y, v)"
    and aa: "inspect_additional_actions frames lib l d h source v = (Inr x, t)"
    by (blast elim: bind_returns dest: get_entry_returns)
  have v: "advances lib d C s v" "\<And>a. child d h ''A'' = Some a \<Longrightarrow> covered lib d C v a"
    using a walk_advances [OF keys] by (auto simp: returnE_def advances_refl split: option.splits)
  note t = additional_advances [OF keys aa]
  have st: "advances lib d C s t" using v(1) t advances_trans by blast
  have g: "gathered v t" using t advances_gathered by blast
  have "visited lib d C t b" if none: "i_partial_reasons t = []" and C: "C h" "C b" and b: "carried d h b" for b
  proof -
    from sound_later [OF sound v(1)] gathered_partial [OF g none] have "held lib d C v h \<Longrightarrow> aa_covered lib d C v h"
      by (simp add: sound_walk_def)
    with t C have "aa_covered lib d C t h" using aa_covered_later [OF g] by blast
    moreover obtain h0 where h0: "child d h ''A'' = Some h0 \<or>
        (\<exists>aa. child d h ''AA'' = Some aa \<and> h0 \<in> set (entry_values d aa))" "spread d h0 b"
      using b by (auto simp: carried_def)
    ultimately have "covered lib d C t h0" using v(2) covered_later [OF g] by (auto simp: aa_covered_def)
    with none C(2) h0(2) show ?thesis by (simp add: covered_def)
  qed
  with st sound_later [OF sound st] show ?thesis by (simp add: attended_def)
qed

lemma stepping_file_spec: "stepping lib d C (observe_file_spec lib l d f)"
  by (intro stepping_quiet gathering.leaves_file_spec quiet.leaves_file_spec)

text \<open>What follows a pass only advances.\<close>

lemma attended_step:
  "advances lib d C s v \<and> sound_walk lib d C v \<and> attended lib d C v h \<Longrightarrow> advances lib d C v t \<Longrightarrow>
   advances lib d C s t \<and> sound_walk lib d C t \<and> attended lib d C t h"
  by (meson advances_trans sound_later attended_later advances_gathered)

lemma annotation_advances:
  assumes keys: "keys_identify lib d C" and run: "inspect_annotation frames lib l d h s = (Inr b, t)"
    and sound: "sound_walk lib d C s"
  shows "advances lib d C s t \<and> sound_walk lib d C t \<and> (b \<longrightarrow> attended lib d C t h) \<and> (\<not> b \<longrightarrow> i_partial_reasons t \<noteq> [])"
proof (cases "fst (consume_custom_object l s) = Inr True")
  case False
  with consume_cases [of l s] have "consume_custom_object l s = (Inr False, snd (partialE ''custom_object_limit'' s))" by auto
  with run have "b = False" "t = snd (partialE ''custom_object_limit'' s)"
    by (auto simp: inspect_annotation_def bindE_def returnE_def)
  with partial_advances sound_later [OF sound] show ?thesis by blast
next
  case True
  let ?s1 = "s\<lparr>i_custom_objects := Suc (i_custom_objects s)\<rparr>"
  from True consume_cases [of l s] have c: "consume_custom_object l s = (Inr True, ?s1)" by auto
  have s1: "advances lib d C s ?s1" by (rule advances_quiet) (auto simp: gathered_def)
  note sound1 = sound_later [OF sound s1]
  show ?thesis
  proof (cases "\<exists>m es. pd_view d h = Inr (Mapping m es)")
    case True
    then obtain m es where v: "pd_view d h = Inr (Mapping m es)" by blast
    with run c obtain v y where r: "inspect_action_holder frames lib l d h ''Annotation'' ?s1 = (Inr y, v)"
      and rest: "bindE (observe_file_spec lib l d (entry es ''FS'')) (\<lambda>_. returnE True) v = (Inr b, t)"
      by (auto simp: inspect_annotation_def bindE_def [of "consume_custom_object l"] bindE_def [of "look d h"] look_run
          elim: bind_returns)
    have "b" using rest by (auto simp: returnE_def elim!: bind_returns)
    moreover have "advances lib d C v t" using steppingD [OF stepping_bind [OF stepping_file_spec stepping_return] rest] .
    ultimately show ?thesis using attended_step [OF holder_advances [OF keys r sound1]] s1 advances_trans by blast
  next
    case False
    with run c have "b" "t = ?s1"
      by (auto simp: inspect_annotation_def bindE_def look_run returnE_def split: sum.splits pdf_view.splits)
    moreover have "\<not> carried d h a" for a
      using False by (auto simp: carried_def child_def split: sum.splits pdf_view.splits)
    ultimately show ?thesis using s1 sound1 by (simp add: attended_def)
  qed
qed

section \<open>Pages\<close>

definition page_attended :: "pdf_lib \<Rightarrow> pdf_doc \<Rightarrow> (handle \<Rightarrow> bool) \<Rightarrow> handle \<Rightarrow> inspection_state \<Rightarrow> bool" where
  "page_attended lib d C p s \<longleftrightarrow> attended lib d C s p \<and> (\<forall>h\<in>set (annotations d p). attended lib d C s h)"

lemma page_attended_later: "gathered s t \<Longrightarrow> page_attended lib d C p s \<Longrightarrow> page_attended lib d C p t"
  using attended_later by (simp add: page_attended_def)

lemma page_advances:
  assumes keys: "keys_identify lib d C" and run: "inspect_page frames lib l d p s = (Inr b, t)" and sound: "sound_walk lib d C s"
  shows "advances lib d C s t \<and> sound_walk lib d C t \<and> (b \<longrightarrow> page_attended lib d C p t) \<and>
    (\<not> b \<longrightarrow> i_partial_reasons t \<noteq> [])"
proof -
  let ?s1 = "s\<lparr>i_pages_inspected := Suc (i_pages_inspected s)\<rparr>"
  have s1: "advances lib d C s ?s1" by (rule advances_quiet) (auto simp: gathered_def)
  from run obtain v y where h: "inspect_action_holder frames lib l d p ''Page'' ?s1 = (Inr y, v)"
    and rest: "(case child d p ''Annots'' of None \<Rightarrow> returnE True
     | Some a \<Rightarrow> bindE (look d a) (\<lambda>v. case v of
         Pdf_Array children \<Rightarrow> whileE (inspect_annotation frames lib l d) children | _ \<Rightarrow> returnE True)) v = (Inr b, t)"
    by (auto simp: inspect_page_def bindE_def [of "modifyE _"] modifyE_def elim!: bind_returns dest!: get_entry_returns)
  have v: "advances lib d C s v" "sound_walk lib d C v" "attended lib d C v p"
    using holder_advances [OF keys h sound_later [OF sound s1]] s1 advances_trans by blast+
  have "advances lib d C v t \<and> sound_walk lib d C t \<and> (\<forall>h\<in>set (annotations d p). attended lib d C t h) \<and>
    (\<not> b \<longrightarrow> i_partial_reasons t \<noteq> [])"
  proof (cases "\<exists>a cs. child d p ''Annots'' = Some a \<and> pd_view d a = Inr (Pdf_Array cs)")
    case True
    then obtain a cs where a: "child d p ''Annots'' = Some a" "pd_view d a = Inr (Pdf_Array cs)" by blast
    with rest have w: "whileE (inspect_annotation frames lib l d) cs v = (Inr b, t)" by (simp add: bindE_def look_run)
    have "annotations d p = cs" using a by (simp add: annotations_def elements_def)
    then show ?thesis
      using while_advances [where I = "sound_walk lib d C" and P = "\<lambda>h t. attended lib d C t h",
          OF annotation_advances [OF keys] attended_later attended_partial w v(2)] by simp
  next
    case False
    with rest v(2) show ?thesis
      by (auto simp: returnE_def bindE_def look_run annotations_def elements_def advances_refl
          split: option.splits sum.splits pdf_view.splits)
  qed
  with v attended_later advances_gathered show ?thesis unfolding page_attended_def by (blast intro: advances_trans)
qed

lemma pages_advance:
  assumes keys: "keys_identify lib d C" and run: "inspect_pages frames lib l d s = (Inr b, t)"
    and pages: "pd_pages d = Inr ps" and sound: "sound_walk lib d C s"
  shows "advances lib d C s t \<and> sound_walk lib d C t \<and> (\<forall>p\<in>set (take (max_pages l) ps). page_attended lib d C p t)"
proof -
  have w: "whileE (inspect_page frames lib l d) (take (max_pages l) ps) s = (Inr b, t)"
    using run pages by (simp add: inspect_pages_def bindE_def fromE_def returnE_def)
  have "page_attended lib d C p t" if "i_partial_reasons t \<noteq> []" for p t
    using that by (simp add: page_attended_def attended_partial)
  from while_advances [where I = "sound_walk lib d C" and P = "page_attended lib d C",
      OF page_advances [OF keys] page_attended_later this w sound] show ?thesis by simp
qed

section \<open>The other passes\<close>

lemma stepping_invalid_tree:
  assumes "stepping lib d C m" "leaves gathered m"
  shows "stepping lib d C (invalid_tree reason m)"
  unfolding stepping_def
proof (intro allI impI)
  fix s x t assume run: "invalid_tree reason m s = (Inr x, t)"
  obtain r v where m: "m s = (r, v)" by fastforce
  with assms(2) have g: "gathered s v" by (rule leavesD)
  show "advances lib d C s t"
  proof (cases r)
    case (Inr y)
    with m run steppingD [OF assms(1)] show ?thesis by (auto simp: invalid_tree_def catchE_def)
  next
    case (Inl e)
    with m run have "t = snd (partialE reason v)"
      by (auto simp: invalid_tree_def catchE_def partialE_def modifyE_def split: if_splits)
    with g partial_advances(2) show ?thesis
      by (auto intro!: advances_partial intro: gathering.onward simp: partialE_def modifyE_def gathering.on_partial)
  qed
qed

lemma stepping_additional: "keys_identify lib d C \<Longrightarrow> stepping lib d C (inspect_additional_actions frames lib l d h source)"
  using additional_advances unfolding stepping_def by blast

lemma stepping_holder: "keys_identify lib d C \<Longrightarrow> stepping lib d C (inspect_action_holder frames lib l d h source)"
  unfolding inspect_action_holder_def
  by (intro stepping_bind stepping_get_entry stepping_option stepping_return stepping_walk stepping_additional)

lemma stepping_visit_field: "keys_identify lib d C \<Longrightarrow> stepping lib d C (visit_field frames lib l d h seen)"
  unfolding visit_field_def
  by (intro stepping_bind stepping_look stepping_if stepping_return stepping_object_key stepping_modify stepping_holder
      stepping_get_entry stepping_option)
    (auto simp: gathered_def same_walk_def stepping_return split: pdf_view.split)

lemma stepping_consume: "stepping lib d C (consume_custom_object l)"
  by (intro stepping_quiet gathering.leaves_consume quiet.leaves_consume)

lemma stepping_form_fields:
  assumes "keys_identify lib d C"
  shows "stepping lib d C (form_fields_loop frames lib l d stack seen)"
proof -
  have "keys_identify lib d C \<Longrightarrow> form_fields_loop frames lib l d stack seen s = (Inr x, t) \<Longrightarrow> advances lib d C s t" for s x t
  proof (induction frames lib l d stack seen s rule: form_fields_loop.induct)
    case (1 frames lib l d seen s)
    then show ?case by (simp add: advances_refl)
  next
    case (2 frames lib l d h depth stack seen s)
    show ?case
    proof (cases "max_action_depth l < depth")
      case True
      with 2(1) [OF True 2(3)] 2(4) have "advances lib d C (snd (partialE ''form_tree_depth_limit'' s)) t" by simp
      with partial_advances(1) show ?thesis by (rule advances_trans)
    next
      case deep: False
      obtain r s1 where c: "consume_custom_object l s = (r, s1)" by fastforce
      obtain q s2 where v: "visit_field frames lib l d h seen s1 = (q, s2)" by fastforce
      show ?thesis
      proof (cases "r = Inr True")
        case False
        with 2(4) deep c obtain b where "r = Inr b" "t = s1" by (cases r) (auto split: if_splits)
        with steppingD [OF stepping_consume] c show ?thesis by blast
      next
        case True
        with 2(4) deep c v obtain kids seen' where q: "q = Inr (kids, seen')" by (cases q) auto
        with 2(2) [OF deep c [symmetric] True] True deep c v 2(3,4) have "advances lib d C s2 t" by simp
        moreover have "advances lib d C s s1" "advances lib d C s1 s2"
          using steppingD [OF stepping_consume, of l s True s1] steppingD [OF stepping_visit_field [OF 2(3)], of frames l h seen s1]
            c True v q by simp_all
        ultimately show ?thesis by (blast intro: advances_trans)
      qed
    qed
  qed
  with assms show ?thesis by (simp add: stepping_def)
qed

lemma stepping_name_tree_loop: "keys_identify lib d C \<Longrightarrow> stepping lib d C (name_tree_loop frames lib l d index xs broken)"
proof (induction xs arbitrary: index)
  case (Cons x xs)
  then show ?case
    by (auto simp: stepping_partial gathered_def same_walk_def
        intro!: stepping_bind stepping_modify stepping_from stepping_walk)
qed (simp add: stepping_return stepping_raise split: option.split)

lemma stepping_name_tree: "keys_identify lib d C \<Longrightarrow> stepping lib d C (inspect_javascript_name_tree frames lib l d root)"
  unfolding inspect_javascript_name_tree_def
  by (intro stepping_bind stepping_get_entry stepping_option stepping_return stepping_look)
    (auto simp: stepping_return gathered_def same_walk_def stepping_from stepping_name_tree_loop
      gathering.leaves_from gathering.leaves_name_tree_loop
      intro!: stepping_bind stepping_modify stepping_invalid_tree gathering.leaves_bind
      split: pdf_view.split option.split)

lemma stepping_acroform: "keys_identify lib d C \<Longrightarrow> stepping lib d C (inspect_acroform frames lib l d acroform)"
  unfolding inspect_acroform_def inspect_form_fields_def
  by (auto simp: stepping_return stepping_form_fields gathered_def same_walk_def
      intro!: stepping_bind stepping_look stepping_modify stepping_additional split: option.split pdf_view.split)

lemma stepping_named_attachments: "stepping lib d C (inspect_named_attachments lib l d)"
proof -
  have loop: "leaves gathered (attachments_loop lib l d i xs b) \<and> leaves same_walk (attachments_loop lib l d i xs b)" for i xs b
  proof (induction xs arbitrary: i)
    case (Cons x xs)
    then show ?case
      by (cases x) (auto simp: gathering.leaves_partial quiet.leaves_partial
          intro!: gathering.leaves_bind gathering.leaves_modify gathering.leaves_from gathering.leaves_attachment_name
            gathering.leaves_file_spec gathering.on_embedded_limit gathering.on_named
            quiet.leaves_bind quiet.leaves_modify quiet.leaves_from quiet.leaves_attachment_name quiet.leaves_file_spec
            quiet.on_embedded_limit quiet.on_named)
  qed (simp add: gathering.leaves_return gathering.leaves_raise quiet.leaves_return quiet.leaves_raise split: option.split)
  then show ?thesis
    unfolding inspect_named_attachments_def by (intro stepping_invalid_tree stepping_quiet) blast+
qed

lemma open_action_advances:
  assumes keys: "keys_identify lib d C" and run: "inspect_open_action frames lib l d h s = (Inr x, t)"
  shows "advances lib d C s t \<and> (\<forall>a. h = Some a \<longrightarrow> action_name d a \<noteq> None \<longrightarrow> covered lib d C t a)"
proof (cases h)
  case None
  with run show ?thesis by (simp add: inspect_open_action_def returnE_def advances_refl)
next
  case (Some a)
  let ?s1 = "s\<lparr>i_open_action_present := True\<rparr>"
  have s1: "advances lib d C s ?s1" by (rule advances_quiet) (auto simp: gathered_def)
  let ?go = "\<lambda>b. if b then
          bindE (modifyE (\<lambda>s. s\<lparr>i_open_action_kind := Some ''action''\<rparr>)) (\<lambda>_.
          bindE (action_type lib l d a) (\<lambda>t.
          bindE (modifyE (\<lambda>s. s\<lparr>i_open_action_type := Some t\<rparr>)) (\<lambda>_.
          walk_action frames lib l d a ''OpenAction'' 0)))
        else modifyE (\<lambda>s. s\<lparr>i_open_action_kind := Some ''destination''\<rparr>)"
  from run Some have "bindE (is_action d a) ?go ?s1 = (Inr x, t)"
    by (simp add: inspect_open_action_def bindE_def [of "modifyE _"] modifyE_def)
  then obtain b s2 where "is_action d a ?s1 = (Inr b, s2)" and r0: "?go b s2 = (Inr x, t)" by (rule bind_returns)
  with is_action_returns have b: "b \<longleftrightarrow> action_name d a \<noteq> None" and s2: "s2 = ?s1" by blast+
  from r0 s2 have r: "?go b ?s1 = (Inr x, t)" by simp
  show ?thesis
  proof (cases b)
    case False
    with r have "t = ?s1\<lparr>i_open_action_kind := Some ''destination''\<rparr>" by (simp add: modifyE_def)
    then have "advances lib d C s t" by (intro advances_quiet) (auto simp: gathered_def)
    with False b Some show ?thesis by simp
  next
    case True
    let ?s3 = "?s1\<lparr>i_open_action_kind := Some ''action''\<rparr>"
    from True r have "bindE (action_type lib l d a) (\<lambda>t. bindE (modifyE (\<lambda>s. s\<lparr>i_open_action_type := Some t\<rparr>)) (\<lambda>_.
        walk_action frames lib l d a ''OpenAction'' 0)) ?s3 = (Inr x, t)" by (simp add: bindE_def [of "modifyE _"] modifyE_def)
    then obtain ty s4 where ty: "action_type lib l d a ?s3 = (Inr ty, s4)"
      and w: "bindE (modifyE (\<lambda>s. s\<lparr>i_open_action_type := Some ty\<rparr>)) (\<lambda>_.
        walk_action frames lib l d a ''OpenAction'' 0) s4 = (Inr x, t)" by (rule bind_returns)
    have s4: "s4 = ?s3" using leavesD [OF reading.leaves_action_type ty] by simp
    let ?s5 = "?s3\<lparr>i_open_action_type := Some ty\<rparr>"
    from w s4 have "walk_action frames lib l d a ''OpenAction'' 0 ?s5 = (Inr (), t)"
      by (cases x) (simp add: bindE_def [of "modifyE _"] modifyE_def)
    from walk_advances [OF keys this] have w: "advances lib d C ?s5 t" "covered lib d C t a" by simp_all
    have "advances lib d C s ?s5" by (rule advances_quiet) (auto simp: gathered_def)
    with w Some advances_trans show ?thesis by blast
  qed
qed

definition open_covered :: "pdf_lib \<Rightarrow> pdf_doc \<Rightarrow> (handle \<Rightarrow> bool) \<Rightarrow> inspection_state \<Rightarrow> bool" where
  "open_covered lib d C s \<longleftrightarrow> (\<forall>a. child d (pd_root d) ''OpenAction'' = Some a \<longrightarrow> action_name d a \<noteq> None \<longrightarrow> covered lib d C s a)"

lemma catalog_advances:
  assumes keys: "keys_identify lib d C" and run: "inspect_catalog frames lib l d (pd_root d) s = (Inr x, t)"
  shows "advances lib d C s t \<and> open_covered lib d C t"
proof (cases "\<exists>m es. pd_view d (pd_root d) = Inr (Mapping m es)")
  case False
  with run have "t = snd (partialE ''catalog_unavailable'' s)" "\<And>k. child d (pd_root d) k = None"
    by (auto simp: inspect_catalog_def bindE_def look_run child_def partialE_def modifyE_def split: sum.splits pdf_view.splits)
  with partial_advances show ?thesis by (simp add: open_covered_def)
next
  case True
  then obtain m es where v: "pd_view d (pd_root d) = Inr (Mapping m es)" by blast
  let ?rest = "\<lambda>_ :: unit. bindE (inspect_additional_actions frames lib l d (pd_root d) ''Catalog'') (\<lambda>_.
         bindE (inspect_javascript_name_tree frames lib l d (pd_root d)) (\<lambda>_.
         inspect_acroform frames lib l d (entry es ''AcroForm'')))"
  from run v have "bindE (inspect_open_action frames lib l d (entry es ''OpenAction'')) ?rest s = (Inr x, t)"
    by (simp add: inspect_catalog_def bindE_def [of "look _ _"] look_run)
  then obtain y s1 where o: "inspect_open_action frames lib l d (entry es ''OpenAction'') s = (Inr y, s1)"
    and r: "?rest y s1 = (Inr x, t)" by (rule bind_returns)
  have "stepping lib d C (?rest y)"
    by (intro stepping_bind stepping_additional stepping_name_tree stepping_acroform keys)
  from steppingD [OF this r] open_action_advances [OF keys o] v show ?thesis
    unfolding open_covered_def child_def by (auto intro: advances_trans covered_later advances_gathered)
qed

section \<open>Indirect objects\<close>

definition object_attended :: "pdf_lib \<Rightarrow> pdf_doc \<Rightarrow> (handle \<Rightarrow> bool) \<Rightarrow> handle \<Rightarrow> inspection_state \<Rightarrow> bool" where
  "object_attended lib d C h s \<longleftrightarrow> attended lib d C s h \<and> (action_name d h \<noteq> None \<longrightarrow> covered lib d C s h)"

lemma object_attended_later: "gathered s t \<Longrightarrow> object_attended lib d C h s \<Longrightarrow> object_attended lib d C h t"
  using attended_later covered_later by (simp add: object_attended_def)

lemma stepping_payload: "stepping lib d C (observe_embedded_payload lib l d h)"
  by (intro stepping_quiet gathering.leaves_payload quiet.leaves_payload)

lemma stepping_specs: "stepping lib d C (case v of
    Pdf_Array specs \<Rightarrow> forE (\<lambda>spec. observe_file_spec lib l d (Some spec)) specs | _ \<Rightarrow> returnE ())"
  by (cases v) (simp_all add: stepping_for stepping_file_spec stepping_return)

lemma stepping_object_end: "stepping lib d C (bindE (observe_file_spec lib l d (Some h)) (\<lambda>_.
    bindE (case entry es ''Type'' of None \<Rightarrow> returnE Pdf_Other | Some t \<Rightarrow> look d t) (\<lambda>t.
    bindE (if t = Pdf_Name (u ''/EmbeddedFile'') then observe_embedded_payload lib l d h else returnE ()) (\<lambda>_.
    case entry es ''AF'' of None \<Rightarrow> returnE ()
    | Some af \<Rightarrow> bindE (look d af) (\<lambda>w. case w of
        Pdf_Array specs \<Rightarrow> forE (\<lambda>spec. observe_file_spec lib l d (Some spec)) specs
      | _ \<Rightarrow> returnE ())))))"
  by (intro stepping_bind stepping_file_spec stepping_option stepping_return stepping_look stepping_if stepping_payload
      stepping_specs)

lemma no_mapping: "\<nexists>m es. pd_view d h = Inr (Mapping m es) \<Longrightarrow> child d h k = None"
  by (auto simp: child_def split: sum.splits pdf_view.splits)

lemma bind_look: "pd_view d h = Inr v \<Longrightarrow> bindE (look d h) k s = k v s"
  by (simp add: look_def bind_from)

lemma object_walk_advances:
  assumes keys: "keys_identify lib d C" and rest: "\<And>y. stepping lib d C (k y)"
    and run: "bindE (is_action d h) (\<lambda>b. bindE (if b then walk_action frames lib l d h source 0 else returnE ()) k) s = (Inr x, t)"
  shows "advances lib d C s t \<and> (action_name d h \<noteq> None \<longrightarrow> covered lib d C t h)"
proof -
  from run obtain b s3 where b: "is_action d h s = (Inr b, s3)"
    and r3: "bindE (if b then walk_action frames lib l d h source 0 else returnE ()) k s3 = (Inr x, t)" by (rule bind_returns)
  from r3 obtain z s4 where w: "(if b then walk_action frames lib l d h source 0 else returnE ()) s3 = (Inr z, s4)"
    and e: "k z s4 = (Inr x, t)" by (rule bind_returns)
  note t = steppingD [OF rest e]
  have "s3 = s" "b \<longleftrightarrow> action_name d h \<noteq> None" using is_action_returns [OF b] by simp_all
  with w have w2: "advances lib d C s s4 \<and> (action_name d h \<noteq> None \<longrightarrow> covered lib d C s4 h)"
    using walk_advances [OF keys] by (cases b) (auto simp: returnE_def advances_refl)
  then have "advances lib d C s t" using t by (blast intro: advances_trans)
  with w2 covered_later [OF advances_gathered [OF t]] show ?thesis by blast
qed

lemma object_run:
  assumes "inspect_object frames lib l d h s = (Inr x, t)" "pd_view d h = Inr (Mapping m es)"
  shows "bindE (inspect_action_holder frames lib l d h ''Object'') (\<lambda>_. bindE (is_action d h) (\<lambda>b.
      bindE (if b then walk_action frames lib l d h ''Object'' 0 else returnE ()) (\<lambda>_. bindE (observe_file_spec lib l d (Some h)) (\<lambda>_.
    bindE (case entry es ''Type'' of None \<Rightarrow> returnE Pdf_Other | Some t \<Rightarrow> look d t) (\<lambda>t.
    bindE (if t = Pdf_Name (u ''/EmbeddedFile'') then observe_embedded_payload lib l d h else returnE ()) (\<lambda>_.
    case entry es ''AF'' of None \<Rightarrow> returnE ()
    | Some af \<Rightarrow> bindE (look d af) (\<lambda>w. case w of
        Pdf_Array specs \<Rightarrow> forE (\<lambda>spec. observe_file_spec lib l d (Some spec)) specs
      | _ \<Rightarrow> returnE ()))))))) (s\<lparr>i_objects_inspected := Suc (i_objects_inspected s)\<rparr>) = (Inr x, t)"
  using assms(1) by (simp only: inspect_object_def bind_modify bind_look [OF assms(2)] pdf_view.case)

lemma object_advances:
  assumes keys: "keys_identify lib d C" and run: "inspect_object frames lib l d h s = (Inr x, t)" and sound: "sound_walk lib d C s"
  shows "advances lib d C s t \<and> sound_walk lib d C t \<and> object_attended lib d C h t"
proof -
  let ?s1 = "s\<lparr>i_objects_inspected := Suc (i_objects_inspected s)\<rparr>"
  have s1: "advances lib d C s ?s1" by (rule advances_quiet) (auto simp: gathered_def)
  note sound1 = sound_later [OF sound s1]
  show ?thesis
  proof (cases "\<exists>m es. pd_view d h = Inr (Mapping m es)")
    case False
    then have "\<not> carried d h a" "action_name d h = None" for a
      by (simp_all add: carried_def action_name_def no_mapping)
    moreover have "t = ?s1"
      using run False
      by (cases "pd_view d h"; cases "projr (pd_view d h)")
        (simp_all add: inspect_object_def bind_modify bindE_def [of "look d h"] look_run returnE_def)
    ultimately show ?thesis using s1 sound1 by (simp add: object_attended_def attended_def)
  next
    case True
    then obtain m es where v: "pd_view d h = Inr (Mapping m es)" by blast
    obtain y s2 where hold: "inspect_action_holder frames lib l d h ''Object'' ?s1 = (Inr y, s2)"
      and "advances lib d C s2 t \<and> (action_name d h \<noteq> None \<longrightarrow> covered lib d C t h)"
      by (rule bind_returns [OF object_run [OF run v]])
        (drule object_walk_advances [OF keys stepping_object_end], simp)
    with attended_step [OF holder_advances [OF keys hold sound1]] advances_trans [OF s1] show ?thesis
      by (simp add: object_attended_def)
  qed
qed

lemma objects_advance:
  assumes keys: "keys_identify lib d C" and run: "inspect_indirect_objects frames lib l d s = (Inr x, t)"
    and objects: "pd_objects d = Inr os" and sound: "sound_walk lib d C s"
  shows "advances lib d C s t \<and> (\<forall>h\<in>set (take (max_objects l) os). object_attended lib d C h t)"
proof -
  have "forE (inspect_object frames lib l d) (take (max_objects l) os) s = (Inr x, t)"
    using run objects by (simp add: inspect_indirect_objects_def bindE_def fromE_def returnE_def)
  from for_advances [where I = "sound_walk lib d C" and P = "object_attended lib d C",
      OF object_advances [OF keys] object_attended_later this sound] show ?thesis by simp
qed

section \<open>The whole inspection\<close>

text \<open>When nothing is left out, every place a viewer starts from was taken care of, and the settled
  actions are closed under \<open>/Next\<close>.\<close>

lemma active_visited:
  assumes sound: "sound_walk lib d C s" and none: "i_partial_reasons s = []" and open_one: "open_covered lib d C s"
    and pages: "\<And>ps p. pd_pages d = Inr ps \<Longrightarrow> p \<in> set ps \<Longrightarrow> page_attended lib d C p s"
    and objects: "\<And>os h. pd_objects d = Inr os \<Longrightarrow> h \<in> set os \<Longrightarrow> object_attended lib d C h s"
    and everything: "\<And>h. C h" and "active d h"
  shows "visited lib d C s h"
  using assms(7)
proof induction
  case (active_open h)
  with open_one none everything [of h] spread_here [of d h] show ?case by (simp add: open_covered_def covered_def)
next
  case (active_object os h)
  with objects [of os h] none everything [of h] spread_here [of d h] show ?case by (simp add: object_attended_def covered_def)
next
  case (active_carried os h a)
  with objects none everything [of h] everything [of a] show ?case by (auto simp: object_attended_def attended_def)
next
  case (active_page ps p a)
  with pages none everything [of p] everything [of a] show ?case by (auto simp: page_attended_def attended_def)
next
  case (active_annotation ps p h a)
  with pages none everything [of h] everything [of a] show ?case unfolding page_attended_def attended_def by blast
next
  case (active_next a n b)
  then have "settled lib d C s a" using sound none by (simp add: sound_walk_def)
  with active_next none everything [of b] show ?case by (simp add: settled_def covered_def)
qed

lemma initial_sound: "i_visited_actions s = [] \<Longrightarrow> i_visited_holders s = [] \<Longrightarrow> sound_walk lib d C s"
  by (simp add: sound_walk_def visited_def held_def)

lemma limit_advances:
  "(if n < k then partialE reason else returnE ()) s = (Inr (), t) \<Longrightarrow>
   advances lib d C s t \<and> (i_partial_reasons t = [] \<longrightarrow> k \<le> (n::nat))"
  using partial_advances(1) [of lib d C s reason] partial_advances(2) [of reason s]
  by (cases "n < k") (auto simp: returnE_def advances_refl)

text \<open>What the inspection does before its passes, and the passes.\<close>

lemma inspect_open_pdf_runs:
  assumes "inspect_open_pdf frames lib l d initial_inspection = (Inr (), t)"
  obtains s0 s1 s2 s3 s4 s5 ps os b where
    "pd_pages d = Inr ps" "pd_objects d = Inr os" "sound_walk lib d C s0" "i_visited_actions s0 = []"
    "(if max_pages l < length ps then partialE ''page_limit'' else returnE ()) s0 = (Inr (), s1)"
    "(if max_objects l < length os then partialE ''indirect_object_limit'' else returnE ()) s1 = (Inr (), s2)"
    "inspect_catalog frames lib l d (pd_root d) s2 = (Inr (), s3)"
    "inspect_pages frames lib l d s3 = (Inr b, s4)"
    "inspect_named_attachments lib l d s4 = (Inr (), s5)"
    "inspect_indirect_objects frames lib l d s5 = (Inr (), t)"
proof -
  let ?tail = "\<lambda>ps os. bindE (if max_pages l < length ps then partialE ''page_limit'' else returnE ()) (\<lambda>_.
     bindE (if max_objects l < length os then partialE ''indirect_object_limit'' else returnE ()) (\<lambda>_.
     bindE (inspect_catalog frames lib l d (pd_root d)) (\<lambda>_.
     bindE (inspect_pages frames lib l d) (\<lambda>_.
     bindE (inspect_named_attachments lib l d) (\<lambda>_.
     inspect_indirect_objects frames lib l d)))))"
  obtain v ps os where doc: "pd_view d (pd_root d) = Inr v" "pd_pages d = Inr ps" "pd_objects d = Inr os"
    using assms by (auto simp: inspect_open_pdf_def bindE_def modifyE_def look_run fromE_def raiseE_def returnE_def split: sum.splits)
  let ?s0 = "initial_inspection\<lparr>i_encrypted := pd_encrypted d, i_catalog_present := is_mapping v,
     i_page_count := Some (length ps), i_object_count := Some (length os)\<rparr>"
  have "?tail ps os ?s0 = (Inr (), t)"
    using assms by (simp add: inspect_open_pdf_def bind_modify bind_look [OF doc(1)] doc(2,3) bind_from split del: if_split)
  moreover have "i_visited_actions ?s0 = []" "i_visited_holders ?s0 = []" by (simp_all add: initial_inspection_def)
  moreover from this have "sound_walk lib d C ?s0" by (rule initial_sound)
  ultimately show thesis
    using doc(2,3) that by (auto elim!: bind_returns)
qed

text \<open>The open action comes first, when no key was recorded that could hide it.\<close>

lemma is_action_run: "action_name d h \<noteq> None \<Longrightarrow> is_action d h s = (Inr True, s)"
  by (auto simp: is_action_def bindE_def look_run returnE_def action_name_def child_def
      split: sum.splits pdf_view.splits option.splits)

lemma walk_action_run:
  assumes "action_name d h \<noteq> None"
  shows "walk_action (Suc frames) lib l d h source 0 s = bindE (enter_action lib l d h) (\<lambda>entered.
      if \<not> entered then returnE () else bindE (note_action lib l d h source) (\<lambda>_.
      bindE (get_entry d h ''Next'') (\<lambda>n. case n of None \<Rightarrow> returnE ()
      | Some n \<Rightarrow> walk_action frames lib l d n source (Suc 0)))) s"
proof -
  obtain m es where "pd_view d h = Inr (Mapping m es)"
    using assms by (auto simp: action_name_def child_def split: option.splits sum.splits pdf_view.splits)
  then show ?thesis
    by (simp add: bindE_def [of "look d h"] bindE_def [of "is_action d h"] look_run is_action_run [OF assms])
qed

lemma fresh_walk:
  assumes "walk_action frames lib l d h source 0 s = (Inr (), t)" "action_name d h \<noteq> None"
    and "i_visited_actions s = []" "i_partial_reasons t = []"
  shows "evidence d t h"
proof (cases frames)
  case 0
  with assms(1) show ?thesis by (simp add: raiseE_def)
next
  case (Suc f)
  from assms(1) [unfolded Suc walk_action_run [OF assms(2)]] obtain entered s1 where
    e: "enter_action lib l d h s = (Inr entered, s1)"
    and r: "(if \<not> entered then returnE () else bindE (note_action lib l d h source) (\<lambda>_.
      bindE (get_entry d h ''Next'') (\<lambda>n. case n of None \<Rightarrow> returnE ()
      | Some n \<Rightarrow> walk_action f lib l d n source (Suc 0)))) s1 = (Inr (), t)" by (rule bind_returns)
  have entered
  proof (rule ccontr)
    assume "\<not> entered"
    with r have "t = s1" by (simp add: returnE_def)
    with enter_action_returns(4) [OF e \<open>\<not> entered\<close>, of "\<lambda>_. True"] assms(2-4) show False by (simp add: visited_def)
  qed
  with r obtain s2 y where n: "note_action lib l d h source s1 = (Inr y, s2)"
    and k: "bindE (get_entry d h ''Next'') (\<lambda>n. case n of None \<Rightarrow> returnE ()
      | Some n \<Rightarrow> walk_action f lib l d n source (Suc 0)) s2 = (Inr (), t)" by (auto elim: bind_returns)
  have "leaves gathered (bindE (get_entry d h ''Next'') (\<lambda>n. case n of None \<Rightarrow> returnE ()
      | Some n \<Rightarrow> walk_action f lib l d n source (Suc 0)))"
    by (intro gathering.leaves_bind gathering.leaves_get_entry gathering.leaves_option gathering.leaves_return
        gathering.leaves_walk_action)
  from leavesD [OF this k] note_action_returns(3) n show ?thesis by (cases y) (auto intro: evidence_later)
qed

lemma fresh_open_action:
  assumes "inspect_open_action frames lib l d (Some h) s = (Inr x, t)" "action_name d h \<noteq> None"
    and "i_visited_actions s = []" "i_partial_reasons t = []"
  shows "evidence d t h"
proof -
  from assms(1) obtain ty s4 where
    ty: "action_type lib l d h (s\<lparr>i_open_action_present := True, i_open_action_kind := Some ''action''\<rparr>) = (Inr ty, s4)"
    and "bindE (modifyE (\<lambda>s. s\<lparr>i_open_action_type := Some ty\<rparr>)) (\<lambda>_.
      walk_action frames lib l d h ''OpenAction'' 0) s4 = (Inr x, t)"
    by (auto simp: inspect_open_action_def bind_modify bindE_def [of "is_action d h"] is_action_run [OF assms(2)]
        elim!: bind_returns [where m = "action_type lib l d h"])
  then have "walk_action frames lib l d h ''OpenAction'' 0 (s4\<lparr>i_open_action_type := Some ty\<rparr>) = (Inr x, t)"
    by (simp add: bind_modify)
  moreover have "i_visited_actions s4 = []" using leavesD [OF reading.leaves_action_type ty] assms(3) by auto
  ultimately show ?thesis using fresh_walk [of frames lib l d h] assms(2,4) by (cases x) simp
qed

lemma name_tree_noted:
  assumes "inspect_javascript_name_tree frames lib l d (pd_root d) s = (Inr x, t)" "javascript_names d"
  shows "i_name_tree_present t"
proof -
  obtain n v tr where n: "child d (pd_root d) ''Names'' = Some n" "child d n ''JavaScript'' = Some tr"
    using assms(2) by (auto simp: javascript_names_def)
  then obtain m es where v: "pd_view d n = Inr (Mapping m es)" "entry es ''JavaScript'' = Some tr"
    by (auto simp: child_def split: sum.splits pdf_view.splits)
  let ?rest = "invalid_tree ''javascript_name_tree_invalid''
      (bindE (fromE (pd_name_tree d tr)) (\<lambda>(entries, broken). name_tree_loop frames lib l d 0 entries broken))"
  from assms(1) [unfolded inspect_javascript_name_tree_def] n(1)
  have "bindE (look d n) (\<lambda>v. case v of
         Mapping _ es \<Rightarrow> (case entry es ''JavaScript'' of None \<Rightarrow> returnE ()
           | Some tree_object \<Rightarrow>
             bindE (modifyE (\<lambda>s. s\<lparr>i_name_tree_present := True,
               i_javascript_sources := List.insert ''NameTree'' (i_javascript_sources s)\<rparr>)) (\<lambda>_.
             invalid_tree ''javascript_name_tree_invalid''
               (bindE (fromE (pd_name_tree d tree_object)) (\<lambda>(entries, broken).
                 name_tree_loop frames lib l d 0 entries broken))))
       | _ \<Rightarrow> returnE ()) s = (Inr x, t)" by (auto elim!: bind_returns dest!: get_entry_returns)
  then have r: "?rest (s\<lparr>i_name_tree_present := True,
      i_javascript_sources := List.insert ''NameTree'' (i_javascript_sources s)\<rparr>) = (Inr x, t)"
    by (simp add: bind_look [OF v(1)] v(2) bind_modify)
  have "leaves gathered ?rest"
    by (intro gathering.leaves_invalid_tree gathering.leaves_bind gathering.leaves_from)
      (auto simp: gathering.leaves_name_tree_loop split: prod.split)
  from leavesD [OF this r] have "gathered (s\<lparr>i_name_tree_present := True,
      i_javascript_sources := List.insert ''NameTree'' (i_javascript_sources s)\<rparr>) t" .
  then show ?thesis by (simp add: gathered_def)
qed

text \<open>What the catalog itself shows.\<close>

definition catalog_seen :: "pdf_doc \<Rightarrow> inspection_state \<Rightarrow> bool" where
  "catalog_seen d s \<longleftrightarrow> (javascript_names d \<longrightarrow> i_name_tree_present s) \<and>
     (\<forall>h. child d (pd_root d) ''OpenAction'' = Some h \<and> action_name d h \<noteq> None \<longrightarrow> evidence d s h)"

lemma catalog_seen_later: "gathered s t \<Longrightarrow> catalog_seen d s \<Longrightarrow> catalog_seen d t"
  using evidence_later unfolding catalog_seen_def gathered_def by blast

lemma catalog_shows:
  assumes run: "inspect_catalog frames lib l d (pd_root d) s = (Inr x, t)"
    and fresh: "i_visited_actions s = []" and none: "i_partial_reasons t = []"
  shows "catalog_seen d t"
proof (cases "\<exists>m es. pd_view d (pd_root d) = Inr (Mapping m es)")
  case False
  show ?thesis by (simp add: catalog_seen_def javascript_names_def no_mapping [OF False])
next
  case True
  then obtain m es where v: "pd_view d (pd_root d) = Inr (Mapping m es)" by blast
  then have c: "child d (pd_root d) k = entry es k" for k by (simp add: child_def)
  from run [unfolded inspect_catalog_def bind_look [OF v] pdf_view.case] obtain y1 s1 where
    o: "inspect_open_action frames lib l d (entry es ''OpenAction'') s = (Inr y1, s1)"
    and r1: "bindE (inspect_additional_actions frames lib l d (pd_root d) ''Catalog'') (\<lambda>_.
      bindE (inspect_javascript_name_tree frames lib l d (pd_root d)) (\<lambda>_.
      inspect_acroform frames lib l d (entry es ''AcroForm''))) s1 = (Inr x, t)" by (rule bind_returns)
  from r1 obtain y2 s2 where a: "inspect_additional_actions frames lib l d (pd_root d) ''Catalog'' s1 = (Inr y2, s2)"
    and r2: "bindE (inspect_javascript_name_tree frames lib l d (pd_root d)) (\<lambda>_.
      inspect_acroform frames lib l d (entry es ''AcroForm'')) s2 = (Inr x, t)" by (rule bind_returns)
  from r2 obtain y3 s3 where n: "inspect_javascript_name_tree frames lib l d (pd_root d) s2 = (Inr y3, s3)"
    and f: "inspect_acroform frames lib l d (entry es ''AcroForm'') s3 = (Inr x, t)" by (rule bind_returns)
  have g: "gathered s1 t" "gathered s3 t"
    using leavesD [OF gathering.leaves_additional_actions a] leavesD [OF gathering.leaves_name_tree n]
      leavesD [OF gathering.leaves_acroform f] by (blast intro: gathering.onward)+
  have "evidence d t h" if "entry es ''OpenAction'' = Some h" "action_name d h \<noteq> None" for h
    using fresh_open_action [OF o [unfolded that(1)] that(2) fresh gathered_partial [OF g(1) none]] evidence_later [OF g(1)] by blast
  moreover have "javascript_names d \<Longrightarrow> i_name_tree_present t"
    using name_tree_noted [OF n] g(2) by (auto simp: gathered_def)
  ultimately show ?thesis by (simp add: catalog_seen_def c)
qed

lemma inspection_covers:
  assumes keys: "keys_identify lib d C" and run: "inspect_open_pdf frames lib l d initial_inspection = (Inr (), t)"
    and none: "i_partial_reasons t = []"
  shows "pd_objects d = Inr objects \<and> h \<in> set objects \<and> action_name d h \<noteq> None \<and> C h \<Longrightarrow> evidence d t h"
    and "(\<And>h. C h) \<Longrightarrow> active d h \<Longrightarrow> evidence d t h"
    and "catalog_seen d t"
proof -
  from inspect_open_pdf_runs [OF run] obtain s0 s1 s2 s3 s4 s5 ps os b where doc: "pd_pages d = Inr ps" "pd_objects d = Inr os"
    and s0: "sound_walk lib d C s0" "i_visited_actions s0 = []"
    and p: "(if max_pages l < length ps then partialE ''page_limit'' else returnE ()) s0 = (Inr (), s1)"
    and o: "(if max_objects l < length os then partialE ''indirect_object_limit'' else returnE ()) s1 = (Inr (), s2)"
    and c: "inspect_catalog frames lib l d (pd_root d) s2 = (Inr (), s3)"
    and pp: "inspect_pages frames lib l d s3 = (Inr b, s4)"
    and a: "inspect_named_attachments lib l d s4 = (Inr (), s5)"
    and oo: "inspect_indirect_objects frames lib l d s5 = (Inr (), t)" .
  have fresh: "i_visited_actions s2 = []" using p o s0(2) by (auto simp: partialE_def modifyE_def returnE_def split: if_splits)
  note seen = catalog_shows [OF c fresh]
  note p = limit_advances [OF p, of lib d C] and o = limit_advances [OF o, of lib d C] and c = catalog_advances [OF keys c]
  have s3: "sound_walk lib d C s3" using sound_later s0(1) p o c by blast
  note pp = pages_advance [OF keys pp doc(1) s3]
  note a = steppingD [OF stepping_named_attachments a, of C]
  have s5: "sound_walk lib d C s5" using sound_later a pp by blast
  note oo = objects_advance [OF keys oo doc(2) s5]
  have st: "sound_walk lib d C t" using sound_later s5 oo by blast
  have g: "gathered s1 t" "gathered s2 t" "gathered s3 t" "gathered s4 t"
    using o c pp a oo advances_trans advances_gathered by meson+
  with none p o have len: "length ps \<le> max_pages l" "length os \<le> max_objects l" by (blast dest: gathered_partial)+
  have op: "open_covered lib d C t" using c covered_later [OF g(3)] by (simp add: open_covered_def)
  have pa: "page_attended lib d C q t" if "q \<in> set ps" for q using that pp len page_attended_later [OF g(4)] by simp
  have ob: "object_attended lib d C q t" if "q \<in> set os" for q using that oo len by simp
  have settled: "visited lib d C t q \<Longrightarrow> evidence d t q" for q using st none by (simp add: sound_walk_def settled_def)
  show "evidence d t h" if "pd_objects d = Inr objects \<and> h \<in> set objects \<and> action_name d h \<noteq> None \<and> C h"
    using that ob [of h] doc(2) none spread_here [of d h] by (intro settled) (simp add: object_attended_def covered_def)
  show "evidence d t h" if "\<And>h. C h" "active d h"
    by (rule settled, rule active_visited [OF st none op _ _ that]) (use pa ob doc in auto)
  show "catalog_seen d t" by (rule catalog_seen_later [OF g(3) seen [OF gathered_partial [OF g(3) none]]])
qed

text \<open>What is exposed leaves evidence.\<close>

lemma exposed_evidence:
  assumes "numbered d" "inspect_open_pdf frames lib l d initial_inspection = (Inr (), t)" "i_partial_reasons t = []"
    and "exposed d h"
  shows "evidence d t h"
proof (cases "listed_action d h")
  case False
  with assms(4) have a: "direct_apart d" "active d h" by (simp_all add: exposed_def)
  show ?thesis by (rule inspection_covers(2) [OF keys_apart [OF assms(1) a(1)] assms(2,3) _ a(2)]) simp
next
  case True
  show ?thesis
  proof (cases "child d (pd_root d) ''OpenAction'' = Some h")
    case True
    with \<open>listed_action d h\<close> inspection_covers(3) [OF keys_indirect [OF assms(1)] assms(2,3)]
    show ?thesis by (simp add: catalog_seen_def listed_action_def)
  next
    case False
    with \<open>listed_action d h\<close> inspection_covers(1) [OF keys_indirect [OF assms(1)] assms(2,3)]
    show ?thesis by (auto simp: listed_action_def)
  qed
qed

end
