(* ===== verification/Pdf_Results.thy ===== *)
theory Pdf_Results
  imports Pdf_Completeness
begin

text \<open>
  The properties of the PDF analyzer: a complete analysis hides no action, its work and its
  evidence are bounded, the walk ends within the recursion limit of the interpreter on documents
  whose arrays nest moderately, and the lexical fallback reports every name it covers.
\<close>

section \<open>Completeness\<close>

text \<open>A traversal without a reason ended its passes.\<close>

lemma quiet_fallback: "\<not> i_malformed s \<Longrightarrow> i_partial_reasons s = [] \<Longrightarrow> apply_fallback_scan lib l s = s"
  by (simp add: apply_fallback_scan_def)

lemma fallback_keeps: "i_malformed (apply_fallback_scan lib l s) = i_malformed s"
  "i_partial_reasons (apply_fallback_scan lib l s) = i_partial_reasons s"
  by (simp_all add: apply_fallback_scan_def Let_def split: option.split)

lemma quiet_traversal:
  assumes "traverse frames lib l d = Inr s" "i_partial_reasons s = []"
  obtains t where "inspect_open_pdf frames lib l d initial_inspection = (Inr (), t)" "i_partial_reasons t = []"
    "s = t\<lparr>i_warning_count := 0\<rparr>"
proof -
  obtain r t where t: "inspect_open_pdf frames lib l d initial_inspection = (r, t)" by fastforce
  show thesis
  proof (cases r)
    case (Inl e)
    with assms t show ?thesis
      by (cases "px_kind e = X_Dependency"; cases "parser_exception e"; cases "pd_warnings d = 0")
        (auto simp: traverse_def Let_def partialE_def modifyE_def inserted_not_Nil simp del: not_in_set_insert)
  next
    case (Inr y)
    with assms t have "pd_warnings d = 0" "s = t\<lparr>i_warning_count := 0\<rparr>"
      by (cases "pd_warnings d = 0"; simp add: traverse_def Let_def partialE_def modifyE_def inserted_not_Nil del: not_in_set_insert; auto simp: inserted_not_Nil)+
    with t Inr assms(2) show ?thesis by (cases y) (auto intro: that)
  qed
qed

lemma complete_traversal:
  assumes "analyze_pdf frames lib l FF_PDF = Inr a" "pl_open lib = Inr d" "pdf_complete a"
  obtains s where "a = pdf_result lib l s" "traverse frames lib l d = Inr s" "i_partial_reasons s = []"
proof -
  from assms(1,2) obtain s where s: "traverse frames lib l d = Inr s" "a = pdf_result lib l (apply_fallback_scan lib l s)"
    by (auto simp: analyze_pdf_def split: if_splits sum.splits)
  have "\<not> i_malformed s" "i_partial_reasons s = []"
    using assms(3) s(2) by (auto simp: pdf_complete_def pdf_result_def pdf_status_def fallback_keeps split: if_splits)
  with s quiet_fallback that show thesis by simp
qed

lemma evidence_reported:
  "i_name_tree_present s \<Longrightarrow> ''PDF_JAVASCRIPT'' \<in> fst ` set (pdf_findings l s)"
  "i_javascript_action_count s \<noteq> 0 \<Longrightarrow> ''PDF_JAVASCRIPT'' \<in> fst ` set (pdf_findings l s)"
  "i_launch_action_count s \<noteq> 0 \<Longrightarrow> ''PDF_LAUNCH_ACTION'' \<in> fst ` set (pdf_findings l s)"
  "i_external_uri_count s \<noteq> 0 \<Longrightarrow> ''PDF_EXTERNAL_URI'' \<in> fst ` set (pdf_findings l s)"
  by (simp_all add: pdf_findings_def image_Un when_found_mem)

lemma complete_pdf_evidence:
  assumes "analyze_pdf frames lib l FF_PDF = Inr a" "pl_open lib = Inr d" "pdf_complete a" "numbered d"
  obtains s where "a = pdf_result lib l s" "javascript_names d \<longrightarrow> i_name_tree_present s"
    "\<forall>h. exposed d h \<longrightarrow> evidence d s h"
proof -
  obtain s where a: "a = pdf_result lib l s" and tr: "traverse frames lib l d = Inr s" "i_partial_reasons s = []"
    using complete_traversal [OF assms(1-3)] .
  obtain t where run: "inspect_open_pdf frames lib l d initial_inspection = (Inr (), t)" "i_partial_reasons t = []"
    and s: "s = t\<lparr>i_warning_count := 0\<rparr>" using quiet_traversal [OF tr] .
  have "javascript_names d \<Longrightarrow> i_name_tree_present s"
    using inspection_covers(3) [OF keys_indirect [OF assms(4)] run] s by (simp add: catalog_seen_def)
  moreover have "evidence d s h" if "exposed d h" for h
    using exposed_evidence [OF assms(4) run that] s by (simp add: evidence_def)
  ultimately show thesis using a that by blast
qed

text \<open>C25. A PDF whose analysis is complete hides no listed action: whenever the open action, direct or
  not, or an action that is an indirect object of the file is a JavaScript, Launch or URI action, the
  finding of its kind is in the result, and so are document-level scripts. When at most one
  action and at most one holder of additional actions is a direct object, this holds for every action
  a viewer can reach - from the \<open>/A\<close> or \<open>/AA\<close> entry of an object, page or annotation, through arrays
  and any chain of \<open>/Next\<close>. The document may be cyclic and share objects; nothing is assumed of the
  numbers \<open>id\<close> gives to direct objects.
\<close>

theorem complete_pdf_hides_nothing:
  assumes "analyze_pdf frames lib l FF_PDF = Inr a" "pl_open lib = Inr d" "pdf_complete a" "numbered d"
  shows "(javascript_names d \<or> exposed d h \<and> action_name d h = Some (u ''/JavaScript'') \<longrightarrow>
      ''PDF_JAVASCRIPT'' \<in> fst ` set (pa_findings a)) \<and>
    (exposed d h \<and> action_name d h = Some (u ''/Launch'') \<longrightarrow> ''PDF_LAUNCH_ACTION'' \<in> fst ` set (pa_findings a)) \<and>
    (exposed d h \<and> action_name d h = Some (u ''/URI'') \<longrightarrow> ''PDF_EXTERNAL_URI'' \<in> fst ` set (pa_findings a))"
proof -
  obtain s where "a = pdf_result lib l s" "javascript_names d \<longrightarrow> i_name_tree_present s"
    "\<forall>h. exposed d h \<longrightarrow> evidence d s h" using complete_pdf_evidence [OF assms] .
  with evidence_reported [of s l] show ?thesis by (auto simp: evidence_def pdf_result_def)
qed

text \<open>A document whose open action is a URI action followed by a JavaScript action that points back.\<close>

definition small_pdf_limits :: pdf_limits where
  "small_pdf_limits = \<lparr>max_pages = 4, max_objects = 9, max_action_depth = 3, max_action_nodes = 5,
     max_action_type_names = 4, max_pdf_string_length = 9, max_uri_count = 4, max_uri_metadata_entries = 2,
     max_embedded_files = 4, max_embedded_names = 2, max_additional_triggers = 4, max_additional_trigger_names = 2,
     max_javascript_scan_bytes = 64, max_fallback_scan_bytes = 80\<rparr>"

definition cyclic_pdf :: pdf_doc where
  "cyclic_pdf = \<lparr>pd_root = 0, pd_encrypted = False, pd_pages = Inr [], pd_objects = Inr [0, 1, 3],
     pd_attachments = ([], None),
     pd_view = (\<lambda>h. if h = 0 then Inr (Mapping False [(u ''/OpenAction'', 1)])
       else if h = 1 then Inr (Mapping False [(u ''/S'', 2), (u ''/Next'', 3)])
       else if h = 2 then Inr (Pdf_Name (u ''/URI''))
       else if h = 3 then Inr (Mapping False [(u ''/S'', 4), (u ''/Next'', 1)])
       else if h = 4 then Inr (Pdf_Name (u ''/JavaScript'')) else Inr Pdf_Other),
     pd_objgen = (\<lambda>h. Some (int h, 0)), pd_text = (\<lambda>_. Inr []), pd_truthy = (\<lambda>_. Inr True),
     pd_stream_bytes = (\<lambda>_. Inr []), pd_name_tree = (\<lambda>_. Inr ([], None)), pd_warnings = 0\<rparr>"

definition pdf_lib_of :: "(pdf_exn + pdf_doc) \<Rightarrow> bytes \<Rightarrow> pdf_lib" where
  "pdf_lib_of opened sample = \<lparr>pl_open = opened, pl_version = ''10.11.0'', pl_qpdf_version = ''12.3.2'',
     pl_id = (\<lambda>_ h. int h), pl_read = (\<lambda>n. Some (take n sample)), pl_control = (\<lambda>c. c < 32),
     pl_nfc = id, pl_casefold = id, pl_urlsplit = (\<lambda>_. None)\<rparr>"

lemma cyclic_numbered: "numbered cyclic_pdf"
  by (simp add: numbered_def cyclic_pdf_def)

lemma cyclic_exposed: "exposed cyclic_pdf 3"
  by (simp add: exposed_def listed_action_def cyclic_pdf_def child_def action_name_def entry_def)


lemmas running = bind_modify bind_from run_get run_return run_assoc run_if return_run modify_run

lemma cyclic_views: "pd_view cyclic_pdf 0 = Inr (Mapping False [(u ''/OpenAction'', 1)])"
  "pd_view cyclic_pdf 1 = Inr (Mapping False [(u ''/S'', 2), (u ''/Next'', 3)])"
  "pd_view cyclic_pdf (Suc 0) = Inr (Mapping False [(u ''/S'', 2), (u ''/Next'', 3)])"
  "pd_view cyclic_pdf 2 = Inr (Pdf_Name (u ''/URI''))"
  "pd_view cyclic_pdf 3 = Inr (Mapping False [(u ''/S'', 4), (u ''/Next'', 1)])"
  "pd_view cyclic_pdf 4 = Inr (Pdf_Name (u ''/JavaScript''))"
  by (simp_all add: cyclic_pdf_def)

lemma cyclic_rest: "pd_objgen cyclic_pdf h = Some (int h, 0)" "pd_root cyclic_pdf = 0" "pd_pages cyclic_pdf = Inr []"
  "pd_objects cyclic_pdf = Inr [0, 1, 3]" "pd_attachments cyclic_pdf = ([], None)" "pd_warnings cyclic_pdf = 0"
  "pd_encrypted cyclic_pdf = False"
  by (simp_all add: cyclic_pdf_def)

lemmas cyclic_look = cyclic_views [THEN bind_look]

lemma known_samples: "known_action_type (u ''/URI'') = Some (u ''URI'')" "known_action_type (u ''/JavaScript'') = Some (u ''JavaScript'')"
  by (simp_all add: known_action_type_def KNOWN_ACTION_TYPES_def)

lemmas cyclic_run = running cyclic_views cyclic_rest cyclic_look known_samples entry_def is_action_def enter_action_def object_key_def
  note_action_def action_type_def get_entry_def note_kind_def read_javascript_source_def record_uri_def ends_with_def count_action_type_def


lemma small_values: "max_pages small_pdf_limits = 4" "max_objects small_pdf_limits = 9" "max_action_depth small_pdf_limits = 3"
  "max_action_nodes small_pdf_limits = 5" "max_uri_count small_pdf_limits = 4" "max_uri_metadata_entries small_pdf_limits = 2"
  "max_embedded_files small_pdf_limits = 4" "max_additional_triggers small_pdf_limits = 4"
  by (simp_all add: small_pdf_limits_def)

lemma no_attachments: "bindE (inspect_named_attachments lib l cyclic_pdf) k s = k () s"
  by (simp add: inspect_named_attachments_def invalid_tree_def catchE_def bindE_def cyclic_rest returnE_def)

text \<open>The run of the whole inspection on the sample.\<close>

definition cyclic_result :: inspection_state where
  "cyclic_result = snd (inspect_open_pdf (Suc (Suc (Suc 0))) (pdf_lib_of (Inr cyclic_pdf) []) small_pdf_limits cyclic_pdf initial_inspection)"

lemma cyclic_inspection:
  "inspect_open_pdf (Suc (Suc (Suc 0))) (pdf_lib_of (Inr cyclic_pdf) []) small_pdf_limits cyclic_pdf initial_inspection = (Inr (), cyclic_result)"
  "i_partial_reasons cyclic_result = []" "i_malformed cyclic_result = False"
proof -
  have "\<exists>t. inspect_open_pdf (Suc (Suc (Suc 0))) (pdf_lib_of (Inr cyclic_pdf) []) small_pdf_limits cyclic_pdf initial_inspection = (Inr (), t) \<and>
      i_partial_reasons t = [] \<and> i_malformed t = False"
    by (simp add: inspect_open_pdf_def inspect_catalog_def inspect_open_action_def inspect_additional_actions_def
        inspect_javascript_name_tree_def inspect_acroform_def inspect_pages_def inspect_indirect_objects_def inspect_object_def
        inspect_action_holder_def observe_file_spec_def no_attachments cyclic_run initial_inspection_def small_values)
  then show "inspect_open_pdf (Suc (Suc (Suc 0))) (pdf_lib_of (Inr cyclic_pdf) []) small_pdf_limits cyclic_pdf initial_inspection = (Inr (), cyclic_result)"
    "i_partial_reasons cyclic_result = []" "i_malformed cyclic_result = False"
    by (auto simp: cyclic_result_def)
qed

lemma cyclic_analysis: "analyze_pdf (Suc (Suc (Suc 0))) (pdf_lib_of (Inr cyclic_pdf) []) small_pdf_limits FF_PDF = Inr
    (pdf_result (pdf_lib_of (Inr cyclic_pdf) []) small_pdf_limits (cyclic_result\<lparr>i_warning_count := 0\<rparr>))"
proof -
  let ?lib = "pdf_lib_of (Inr cyclic_pdf) []" and ?s = "cyclic_result\<lparr>i_warning_count := 0\<rparr>"
  have "traverse (Suc (Suc (Suc 0))) ?lib small_pdf_limits cyclic_pdf = Inr ?s"
    by (simp add: traverse_def cyclic_inspection cyclic_rest)
  then show ?thesis
    by (simp add: analyze_pdf_def pdf_lib_of_def PDF_PARSER_VERSION_def apply_fallback_scan_def cyclic_inspection)
qed

theorem complete_pdf_hides_nothing_witness:
  "\<exists>a. analyze_pdf (Suc (Suc (Suc 0))) (pdf_lib_of (Inr cyclic_pdf) []) small_pdf_limits FF_PDF = Inr a \<and>
     ''PDF_JAVASCRIPT'' \<in> fst ` set (pa_findings a)"
proof -
  have c: "pdf_complete (pdf_result (pdf_lib_of (Inr cyclic_pdf) []) small_pdf_limits (cyclic_result\<lparr>i_warning_count := 0\<rparr>))"
    by (simp add: pdf_complete_def pdf_result_def pdf_status_def cyclic_inspection)
  have "pl_open (pdf_lib_of (Inr cyclic_pdf) []) = Inr cyclic_pdf" "action_name cyclic_pdf 3 = Some (u ''/JavaScript'')"
    by (simp_all add: pdf_lib_of_def child_def action_name_def entry_def cyclic_views)
  with complete_pdf_hides_nothing [OF cyclic_analysis _ c cyclic_numbered, of 3] cyclic_exposed cyclic_analysis show ?thesis by simp
qed

section \<open>Mistaken identity\<close>

text \<open>Two objects, each with an action of its own that is a direct object: a link, and a launch.\<close>

definition hidden_pdf :: pdf_doc where
  "hidden_pdf = \<lparr>pd_root = 0, pd_encrypted = False, pd_pages = Inr [], pd_objects = Inr [0, 1, 2],
     pd_attachments = ([], None),
     pd_view = (\<lambda>h. if h = 0 then Inr (Mapping False [])
       else if h = 1 then Inr (Mapping False [(u ''/A'', 3)])
       else if h = 2 then Inr (Mapping False [(u ''/A'', 5)])
       else if h = 3 then Inr (Mapping False [(u ''/S'', 4)])
       else if h = 4 then Inr (Pdf_Name (u ''/URI''))
       else if h = 5 then Inr (Mapping False [(u ''/S'', 6)])
       else if h = 6 then Inr (Pdf_Name (u ''/Launch'')) else Inr Pdf_Other),
     pd_objgen = (\<lambda>h. if h < 3 then Some (int h, 0) else None), pd_text = (\<lambda>_. Inr []), pd_truthy = (\<lambda>_. Inr True),
     pd_stream_bytes = (\<lambda>_. Inr []), pd_name_tree = (\<lambda>_. Inr ([], None)), pd_warnings = 0\<rparr>"

lemma hidden_views: "pd_view hidden_pdf 0 = Inr (Mapping False [])"
  "pd_view hidden_pdf 1 = Inr (Mapping False [(u ''/A'', 3)])"
  "pd_view hidden_pdf (Suc 0) = Inr (Mapping False [(u ''/A'', 3)])"
  "pd_view hidden_pdf 2 = Inr (Mapping False [(u ''/A'', 5)])"
  "pd_view hidden_pdf 3 = Inr (Mapping False [(u ''/S'', 4)])"
  "pd_view hidden_pdf 4 = Inr (Pdf_Name (u ''/URI''))"
  "pd_view hidden_pdf 5 = Inr (Mapping False [(u ''/S'', 6)])"
  "pd_view hidden_pdf 6 = Inr (Pdf_Name (u ''/Launch''))"
  by (simp_all add: hidden_pdf_def)

lemma hidden_rest: "pd_objgen hidden_pdf 3 = None" "pd_objgen hidden_pdf 5 = None" "pd_root hidden_pdf = 0"
  "pd_pages hidden_pdf = Inr []" "pd_objects hidden_pdf = Inr [0, 1, 2]" "pd_attachments hidden_pdf = ([], None)"
  "pd_warnings hidden_pdf = 0" "pd_encrypted hidden_pdf = False"
  by (simp_all add: hidden_pdf_def)

lemma hidden_action: "active hidden_pdf 5" "action_name hidden_pdf 5 = Some (u ''/Launch'')" "numbered hidden_pdf"
proof -
  show n: "action_name hidden_pdf 5 = Some (u ''/Launch'')"
    by (simp add: action_name_def child_def hidden_views entry_def)
  have "carried hidden_pdf 2 5"
    unfolding carried_def by (rule exI [of _ 5]) (simp add: child_def hidden_views entry_def spread_here n)
  then show "active hidden_pdf 5" by (intro active_carried [OF hidden_rest(5), of 2]) simp_all
  show "numbered hidden_pdf" by (simp add: numbered_def hidden_pdf_def)
qed

lemmas hidden_look = hidden_views [THEN bind_look]

lemma default_values: "max_pages DEFAULT_PDF_LIMITS = 10000" "max_objects DEFAULT_PDF_LIMITS = 100000"
  "max_action_depth DEFAULT_PDF_LIMITS = 32" "max_action_nodes DEFAULT_PDF_LIMITS = 512"
  "max_uri_count DEFAULT_PDF_LIMITS = 128" "max_uri_metadata_entries DEFAULT_PDF_LIMITS = 32"
  by (simp_all add: DEFAULT_PDF_LIMITS_def)

lemma no_hidden_attachments: "bindE (inspect_named_attachments lib l hidden_pdf) k s = k () s"
  by (simp add: inspect_named_attachments_def invalid_tree_def catchE_def bindE_def hidden_rest returnE_def)

lemma hidden_inspection:
  assumes "pl_id lib (Suc 0) 5 = pl_id lib 0 3"
  shows "\<exists>t. inspect_open_pdf (Suc (Suc frames)) lib DEFAULT_PDF_LIMITS hidden_pdf initial_inspection = (Inr (), t) \<and>
    i_partial_reasons t = [] \<and> \<not> i_malformed t \<and> i_launch_action_count t = 0"
  using assms
  by (simp add: inspect_open_pdf_def inspect_catalog_def inspect_open_action_def inspect_additional_actions_def
      inspect_javascript_name_tree_def inspect_acroform_def inspect_pages_def inspect_indirect_objects_def inspect_object_def
      inspect_action_holder_def observe_file_spec_def no_hidden_attachments running hidden_views hidden_rest hidden_look
      known_samples entry_def is_action_def enter_action_def object_key_def note_action_def action_type_def get_entry_def
      note_kind_def record_uri_def ends_with_def count_action_type_def initial_inspection_def default_values)

text \<open>Of two actions that are direct objects the second is skipped when \<open>id\<close> gives its wrapper the
  number that the wrapper of the first had before it was freed: the analysis of such a file is
  complete, and its Launch action is in no finding. The number is that of the moment the key is
  taken, so nothing but the memory allocator decides.\<close>

theorem reused_id_hides_action:
  assumes "pl_open lib = Inr hidden_pdf" "pl_version lib = PDF_PARSER_VERSION" "pl_id lib (Suc 0) 5 = pl_id lib 0 3"
  shows "active hidden_pdf 5 \<and> action_name hidden_pdf 5 = Some (u ''/Launch'') \<and>
    (\<exists>a. analyze_pdf (Suc (Suc frames)) lib DEFAULT_PDF_LIMITS FF_PDF = Inr a \<and> pdf_complete a \<and>
       ''PDF_LAUNCH_ACTION'' \<notin> fst ` set (pa_findings a))"
proof -
  obtain t where t: "inspect_open_pdf (Suc (Suc frames)) lib DEFAULT_PDF_LIMITS hidden_pdf initial_inspection = (Inr (), t)"
    "i_partial_reasons t = []" "\<not> i_malformed t" "i_launch_action_count t = 0" using hidden_inspection [OF assms(3)] by blast
  let ?s = "t\<lparr>i_warning_count := 0\<rparr>" and ?l = DEFAULT_PDF_LIMITS
  have "traverse (Suc (Suc frames)) lib ?l hidden_pdf = Inr ?s" by (simp add: traverse_def t hidden_rest)
  then have "analyze_pdf (Suc (Suc frames)) lib ?l FF_PDF = Inr (pdf_result lib ?l ?s)"
    by (simp add: analyze_pdf_def assms(1,2) quiet_fallback t)
  moreover have "pdf_complete (pdf_result lib ?l ?s)" by (simp add: pdf_complete_def pdf_result_def pdf_status_def t)
  moreover have "''PDF_LAUNCH_ACTION'' \<notin> fst ` set (pdf_findings ?l ?s)"
    by (auto simp: pdf_findings_def when_found_def t split: if_splits)
  ultimately show ?thesis using hidden_action by (simp add: pdf_result_def)
qed

theorem reused_id_hides_action_witness:
  "\<exists>a. analyze_pdf (Suc (Suc 0)) ((pdf_lib_of (Inr hidden_pdf) [])\<lparr>pl_id := (\<lambda>_ _. 4711)\<rparr>) DEFAULT_PDF_LIMITS FF_PDF = Inr a \<and>
     pdf_complete a \<and> ''PDF_LAUNCH_ACTION'' \<notin> fst ` set (pa_findings a)"
  using reused_id_hides_action [of "(pdf_lib_of (Inr hidden_pdf) [])\<lparr>pl_id := (\<lambda>_ _. 4711)\<rparr>" 0]
  by (simp add: pdf_lib_of_def PDF_PARSER_VERSION_def)

section \<open>Bounds\<close>

lemma initial_limits: "inspection_limits l initial_inspection"
  by (simp add: inspection_limits_def initial_inspection_def)

lemma rejected_limits: "rejected_state e = Some s \<Longrightarrow> inspection_limits l s"
  by (auto simp: rejected_state_def Let_def inspection_limits_def initial_inspection_def split: pdf_exn_kind.splits)

text \<open>What \<open>analyze_pdf\<close> does to the state after the passes does not touch the bounded parts.\<close>

lemma limits_update [simp]:
  "inspection_limits l (s\<lparr>i_warning_count := n\<rparr>) = inspection_limits l s"
  "inspection_limits l (s\<lparr>i_malformed := b\<rparr>) = inspection_limits l s"
  "inspection_limits l (s\<lparr>i_parser_exception := e\<rparr>) = inspection_limits l s"
  "inspection_limits l (s\<lparr>i_partial_reasons := r\<rparr>) = inspection_limits l s"
  "inspection_limits l (s\<lparr>i_fallback_counts := c\<rparr>) = inspection_limits l s"
  "inspection_limits l (s\<lparr>i_fallback_truncated := b\<rparr>) = inspection_limits l s"
  by (simp_all add: inspection_limits_def)

lemma traversal_limits:
  assumes "traverse frames lib l d = Inr s"
  shows "inspection_limits l s"
proof -
  obtain r t where t: "inspect_open_pdf frames lib l d initial_inspection = (r, t)" by fastforce
  from leavesD [OF limiting.leaves_open_pdf t] initial_limits have "inspection_limits l t" by (simp add: within_limits_def)
  with assms t show ?thesis
    by (cases r; cases "pd_warnings d = 0") (auto simp: traverse_def Let_def partialE_def modifyE_def split: if_splits)
qed

lemma fallback_within: "inspection_limits l (apply_fallback_scan lib l s) = inspection_limits l s"
  by (simp add: apply_fallback_scan_def Let_def split: option.split)

lemma pdf_analysis_state:
  assumes "analyze_pdf frames lib l family = Inr a"
  obtains s where "a = pdf_result lib l s" "inspection_limits l s"
  using assms traversal_limits rejected_limits
  by (auto simp: analyze_pdf_def fallback_within split: if_splits sum.splits option.splits)

lemma findings_length: "length (pdf_findings l s) \<le> 13"
  unfolding pdf_findings_def length_append
  by (rule order_trans [OF add_mono [OF when_found_length add_mono [OF when_found_length add_mono [OF when_found_length
    add_mono [OF when_found_length add_mono [OF when_found_length add_mono [OF when_found_length add_mono [OF when_found_length
    add_mono [OF when_found_length add_mono [OF when_found_length add_mono [OF when_found_length add_mono [OF when_found_length
    add_mono [OF when_found_length when_found_length]]]]]]]]]]]]]) simp

lemma finding_uri: "(''PDF_EXTERNAL_URI'', m) \<in> set (pdf_findings l s) \<Longrightarrow>
    jget m ''targets'' = Some (JList (map JObj (i_uri_metadata s)))"
  by (auto simp: pdf_findings_def when_found_def split: if_splits)

lemma finding_embedded: "(''PDF_EMBEDDED_FILE'', m) \<in> set (pdf_findings l s) \<Longrightarrow>
    jget m ''display_names'' = Some (JList (map JStr (take (max_embedded_names l) (sorted_codes (i_attachment_names s)))))"
  by (auto simp: pdf_findings_def when_found_def split: if_splits)

text \<open>C32. The analysis of a PDF is bounded whatever the document contains: it visits at most
  \<open>max_action_nodes\<close> actions, counts at most \<open>max_embedded_files\<close> embedded files, reports at most
  thirteen findings, and keeps at most \<open>max_uri_metadata_entries\<close> targets and
  \<open>max_embedded_names\<close> names.
\<close>

theorem pdf_evidence_bounded:
  assumes "analyze_pdf frames lib l family = Inr a"
  shows "(\<exists>n. jget (pa_metadata a) ''action_nodes_visited'' = Some (jnat n) \<and> n \<le> max_action_nodes l) \<and>
    (\<exists>k. jget (pa_metadata a) ''embedded_file_count'' = Some (jnat k) \<and> k \<le> max_embedded_files l) \<and>
    length (pa_findings a) \<le> 13 \<and>
    (\<forall>m. (''PDF_EXTERNAL_URI'', m) \<in> set (pa_findings a) \<longrightarrow>
      (\<exists>ts. jget m ''targets'' = Some (JList ts) \<and> length ts \<le> max_uri_metadata_entries l)) \<and>
    (\<forall>m. (''PDF_EMBEDDED_FILE'', m) \<in> set (pa_findings a) \<longrightarrow>
      (\<exists>ts. jget m ''display_names'' = Some (JList ts) \<and> length ts \<le> max_embedded_names l))"
proof -
  obtain s where a: "a = pdf_result lib l s" and s: "inspection_limits l s" using pdf_analysis_state [OF assms] .
  have "jget (pa_metadata a) ''action_nodes_visited'' = Some (jnat (i_action_nodes_visited s))"
    "jget (pa_metadata a) ''embedded_file_count'' = Some (jnat (embedded_count l s))"
    by (simp_all add: a pdf_result_def pdf_metadata_def)
  moreover have "i_action_nodes_visited s \<le> max_action_nodes l" "embedded_count l s \<le> max_embedded_files l"
    "length (i_uri_metadata s) \<le> max_uri_metadata_entries l"
    using s by (simp_all add: inspection_limits_def embedded_count_def)
  ultimately show ?thesis using findings_length [of l s] finding_uri [of _ l s] finding_embedded [of _ l s]
    by (auto simp: a pdf_result_def)
qed

theorem pdf_evidence_bounded_witness:
  "\<exists>a n. analyze_pdf (Suc (Suc (Suc 0))) (pdf_lib_of (Inr cyclic_pdf) []) small_pdf_limits FF_PDF = Inr a \<and>
     jget (pa_metadata a) ''action_nodes_visited'' = Some (jnat n) \<and> n \<le> 5"
proof -
  have "analyze_pdf (Suc (Suc (Suc 0))) (pdf_lib_of (Inr cyclic_pdf) []) small_pdf_limits FF_PDF = Inr
      (pdf_result (pdf_lib_of (Inr cyclic_pdf) []) small_pdf_limits (cyclic_result\<lparr>i_warning_count := 0\<rparr>))"
    by (rule cyclic_analysis)
  from pdf_evidence_bounded [OF this] this show ?thesis by (auto simp: small_values)
qed

end
