(* ===== verification/Pdf_Recursion.thy ===== *)
theory Pdf_Recursion
  imports Pdf_Results
begin

text \<open>
  The recursion of \<open>_walk_action\<close> and the recursion limit of the interpreter: how many frames an
  analysis needs when arrays nest moderately, and the array that contains itself.
\<close>

section \<open>Documents whose arrays nest moderately\<close>

primrec nested_within :: "pdf_doc \<Rightarrow> nat \<Rightarrow> handle \<Rightarrow> bool" where
  "nested_within d 0 h \<longleftrightarrow> (\<nexists>cs. pd_view d h = Inr (Pdf_Array cs))"
| "nested_within d (Suc k) h \<longleftrightarrow> (\<forall>cs. pd_view d h = Inr (Pdf_Array cs) \<longrightarrow> list_all (nested_within d k) cs)"

definition moderate :: "pdf_doc \<Rightarrow> nat \<Rightarrow> bool" where
  "moderate d k \<longleftrightarrow> (\<forall>h. nested_within d k h)"

text \<open>The frames a walk at some depth needs on an object whose arrays nest \<open>n\<close> times.\<close>

definition frames_needed :: "pdf_limits \<Rightarrow> nat \<Rightarrow> nat \<Rightarrow> nat \<Rightarrow> nat" where
  "frames_needed l k depth n = (Suc (max_action_depth l) - depth) * Suc k + n + 1"

lemma for_cong: "(\<And>x. x \<in> set xs \<Longrightarrow> f x = g x) \<Longrightarrow> forE f xs = forE g xs"
  by (induction xs) simp_all

lemma raise_then: "bindE (raiseE e) k s = (Inl e, s)"
  by (simp add: bindE_def raiseE_def)

lemma walk_frames:
  assumes "moderate d k"
  shows "nested_within d n h \<Longrightarrow> frames_needed l k depth n \<le> m \<Longrightarrow> frames_needed l k depth n \<le> m' \<Longrightarrow>
    walk_action m lib l d h source depth s = walk_action m' lib l d h source depth s"
proof (induction m arbitrary: m' h depth n s)
  case 0
  then show ?case by (simp add: frames_needed_def)
next
  case (Suc m)
  from Suc.prems(3) obtain j where m': "m' = Suc j" by (cases m') (simp_all add: frames_needed_def)
  show ?case
  proof (cases "max_action_depth l < depth")
    case True
    then show ?thesis by (simp add: m')
  next
    case shallow: False
    have deeper: "walk_action m lib l d x source (Suc depth) = walk_action j lib l d x source (Suc depth)" for x
    proof
      fix t
      have "frames_needed l k (Suc depth) k \<le> m" "frames_needed l k (Suc depth) k \<le> j"
        using Suc.prems(2,3) m' shallow by (auto simp: frames_needed_def Suc_diff_le)
      with Suc.IH assms show "walk_action m lib l d x source (Suc depth) t = walk_action j lib l d x source (Suc depth) t"
        unfolding moderate_def by blast
    qed
    have "forE (\<lambda>c. walk_action m lib l d c source depth) cs = forE (\<lambda>c. walk_action j lib l d c source depth) cs"
      if "pd_view d h = Inr (Pdf_Array cs)" for cs
    proof (rule for_cong, rule ext)
      fix c t assume c: "c \<in> set cs"
      from Suc.prems(1) that obtain i where i: "n = Suc i" by (cases n) auto
      with Suc.prems(1) that c have "nested_within d i c" by (simp add: list_all_iff)
      moreover have "frames_needed l k depth i \<le> m" "frames_needed l k depth i \<le> j"
        using Suc.prems(2,3) m' i by (auto simp: frames_needed_def)
      ultimately show "walk_action m lib l d c source depth t = walk_action j lib l d c source depth t"
        by (rule Suc.IH)
    qed
    with shallow deeper show ?thesis
      by (cases "pd_view d h"; cases "projr (pd_view d h)") (simp_all add: m' look_def fromE_def run_return raise_then cong: if_cong option.case_cong)
  qed
qed


section \<open>The whole analysis\<close>

text \<open>Every pass starts its walks at depth 0, so two budgets that agree there give the same run.\<close>

definition same_walks :: "nat \<Rightarrow> nat \<Rightarrow> pdf_lib \<Rightarrow> pdf_limits \<Rightarrow> pdf_doc \<Rightarrow> bool" where
  "same_walks m m' lib l d \<longleftrightarrow> (\<forall>h source. walk_action m lib l d h source 0 = walk_action m' lib l d h source 0)"

lemma same_walk0: "same_walks m m' lib l d \<Longrightarrow> walk_action m lib l d h source 0 = walk_action m' lib l d h source 0"
  by (simp add: same_walks_def)

lemma same_trigger: "same_walks m m' lib l d \<Longrightarrow> walk_trigger m lib l d = walk_trigger m' lib l d"
  by (intro ext) (simp add: walk_trigger_def same_walk0 cong: if_cong option.case_cong pdf_view.case_cong)

lemma same_additional: "same_walks m m' lib l d \<Longrightarrow> inspect_additional_actions m lib l d = inspect_additional_actions m' lib l d"
  by (intro ext) (simp add: inspect_additional_actions_def same_trigger cong: if_cong option.case_cong pdf_view.case_cong)

lemma same_holder: "same_walks m m' lib l d \<Longrightarrow> inspect_action_holder m lib l d = inspect_action_holder m' lib l d"
  by (intro ext) (simp add: inspect_action_holder_def same_additional same_walk0 cong: if_cong option.case_cong pdf_view.case_cong)

lemma same_visit: "same_walks m m' lib l d \<Longrightarrow> visit_field m lib l d = visit_field m' lib l d"
  by (intro ext) (simp add: visit_field_def same_holder cong: if_cong option.case_cong pdf_view.case_cong)

lemma same_fields_loop:
  "same_walks m m' lib l d \<Longrightarrow> form_fields_loop m lib l d stack seen s = form_fields_loop m' lib l d stack seen s"
proof (induction m lib l d stack seen s rule: form_fields_loop.induct)
  case (2 m lib l d h depth stack seen s)
  then show ?case by (auto simp: same_visit split: prod.split sum.split)
qed simp

lemma same_fields: "same_walks m m' lib l d \<Longrightarrow> inspect_form_fields m lib l d = inspect_form_fields m' lib l d"
  by (intro ext) (simp add: inspect_form_fields_def same_fields_loop cong: if_cong option.case_cong pdf_view.case_cong)

lemma same_tree_loop:
  "same_walks m m' lib l d \<Longrightarrow> name_tree_loop m lib l d i xs broken = name_tree_loop m' lib l d i xs broken"
  by (induction xs arbitrary: i) (simp_all add: same_walk0 cong: if_cong)

lemma same_tree: "same_walks m m' lib l d \<Longrightarrow> inspect_javascript_name_tree m lib l d = inspect_javascript_name_tree m' lib l d"
  by (intro ext) (simp add: inspect_javascript_name_tree_def same_tree_loop cong: if_cong option.case_cong pdf_view.case_cong)

lemma same_open_action: "same_walks m m' lib l d \<Longrightarrow> inspect_open_action m lib l d = inspect_open_action m' lib l d"
  by (intro ext) (simp add: inspect_open_action_def same_walk0 cong: if_cong option.case_cong pdf_view.case_cong)

lemma same_acroform: "same_walks m m' lib l d \<Longrightarrow> inspect_acroform m lib l d = inspect_acroform m' lib l d"
  by (intro ext) (simp add: inspect_acroform_def same_additional same_fields cong: if_cong option.case_cong pdf_view.case_cong)

lemma same_catalog: "same_walks m m' lib l d \<Longrightarrow> inspect_catalog m lib l d = inspect_catalog m' lib l d"
  by (intro ext) (simp add: inspect_catalog_def same_open_action same_additional same_tree same_acroform cong: if_cong option.case_cong pdf_view.case_cong)

lemma same_annotation: "same_walks m m' lib l d \<Longrightarrow> inspect_annotation m lib l d = inspect_annotation m' lib l d"
  by (intro ext) (simp add: inspect_annotation_def same_holder cong: if_cong option.case_cong pdf_view.case_cong)

lemma same_page: "same_walks m m' lib l d \<Longrightarrow> inspect_page m lib l d = inspect_page m' lib l d"
  by (intro ext) (simp add: inspect_page_def same_holder same_annotation cong: if_cong option.case_cong pdf_view.case_cong)

lemma same_object: "same_walks m m' lib l d \<Longrightarrow> inspect_object m lib l d = inspect_object m' lib l d"
  by (intro ext) (simp add: inspect_object_def same_holder same_walk0 cong: if_cong option.case_cong pdf_view.case_cong)

lemma same_inspection:
  assumes "same_walks m m' lib l d"
  shows "inspect_open_pdf m lib l d = inspect_open_pdf m' lib l d"
  using assms
  by (simp add: inspect_open_pdf_def inspect_pages_def inspect_indirect_objects_def same_catalog same_page same_object)

lemma enough_frames:
  assumes "moderate d k" "frames_needed l k 0 k \<le> m" "frames_needed l k 0 k \<le> m'"
  shows "same_walks m m' lib l d"
  unfolding same_walks_def
proof (intro allI ext)
  fix h source s
  from assms(1) have "nested_within d k h" by (simp add: moderate_def)
  from walk_frames [OF assms(1) this assms(2,3)]
  show "walk_action m lib l d h source 0 s = walk_action m' lib l d h source 0 s" .
qed

text \<open>C31. The recursion of the walk is bounded: on a document whose arrays nest at most \<open>k\<close> deep -
  however cyclic its actions are - \<open>(max_action_depth + 1) * (k + 1) + k + 1\<close> frames of the
  interpreter are enough, and any recursion limit above that gives the same analysis. For the
  shipped depth of 32 and arrays of arrays of arrays that is 136 frames of the default 1000.
\<close>

theorem pdf_recursion_bounded:
  assumes "pl_open lib = Inr d" "moderate d k" "frames_needed l k 0 k \<le> frames" "frames_needed l k 0 k \<le> frames'"
  shows "analyze_pdf frames lib l family = analyze_pdf frames' lib l family"
  using same_inspection [OF enough_frames [OF assms(2-4)]] assms(1)
  by (simp add: analyze_pdf_def traverse_def)

theorem pdf_recursion_bounded_witness:
  "analyze_pdf 5 (pdf_lib_of (Inr cyclic_pdf) []) small_pdf_limits FF_PDF =
   analyze_pdf 1000 (pdf_lib_of (Inr cyclic_pdf) []) small_pdf_limits FF_PDF"
proof (rule pdf_recursion_bounded)
  show "pl_open (pdf_lib_of (Inr cyclic_pdf) []) = Inr cyclic_pdf" by (simp add: pdf_lib_of_def)
  show "moderate cyclic_pdf 0" by (simp add: moderate_def cyclic_pdf_def)
qed (simp_all add: frames_needed_def small_values)

section \<open>The array that contains itself\<close>

lemma for_each: "forE f cs s = (Inr x, t) \<Longrightarrow> c \<in> set cs \<Longrightarrow> \<exists>s' t'. f c s' = (Inr (), t')"
proof (induction cs arbitrary: s)
  case (Cons b cs)
  from Cons.prems(1) obtain y v where "f b s = (Inr y, v)" "forE f cs v = (Inr x, t)" by (auto elim: bind_returns)
  with Cons.IH Cons.prems(2) show ?case by (cases y) auto
qed simp

text \<open>The walk over an array is the loop over its elements.\<close>

lemma walk_array: "pd_view d h = Inr (Pdf_Array cs) \<Longrightarrow>
    walk_action (Suc frames) lib l d h source 0 s = forE (\<lambda>c. walk_action frames lib l d c source 0) cs s"
  by (simp add: bindE_def look_run)

lemma self_array_never_returns:
  assumes "pd_view d h = Inr (Pdf_Array cs)" "h \<in> set cs"
  shows "walk_action frames lib l d h source 0 s \<noteq> (Inr x, t)"
proof (induction frames arbitrary: s x t)
  case (Suc frames)
  show ?case unfolding walk_array [OF assms(1)]
  proof
    assume "forE (\<lambda>c. walk_action frames lib l d c source 0) cs s = (Inr x, t)"
    from for_each [OF this assms(2)] Suc show False by auto
  qed
qed (simp add: raiseE_def)

text \<open>An element the walk passes over: a name, a number, a string.\<close>

definition plain :: "pdf_doc \<Rightarrow> handle \<Rightarrow> bool" where
  "plain d c \<longleftrightarrow> (\<exists>v. pd_view d c = Inr v \<and> \<not> is_mapping v \<and> (\<forall>cs. v \<noteq> Pdf_Array cs))"

lemma walk_plain: "plain d c \<Longrightarrow> walk_action frames lib l d c source 0 s = (Inr (), s) \<or>
    walk_action frames lib l d c source 0 s = (Inl recursion_error, s)"
  by (cases frames) (auto simp: plain_def raiseE_def bindE_def look_run is_action_def returnE_def split: pdf_view.splits)

lemma for_plain:
  assumes "list_all (plain d) cs" "fst (walk_action frames lib l d h source 0 s) = Inl recursion_error"
  shows "fst (forE (\<lambda>c. walk_action frames lib l d c source 0) (cs @ h # rest) s) = Inl recursion_error"
  using assms(1)
proof (induction cs)
  case Nil
  with assms(2) show ?case by (auto simp: bindE_def split: prod.splits)
next
  case (Cons c cs)
  with walk_plain [of d c frames lib l source s] show ?case by (auto simp: bindE_def)
qed

lemma self_array_raises:
  assumes "pd_view d h = Inr (Pdf_Array (before @ h # rest))" "list_all (plain d) before"
  shows "fst (walk_action frames lib l d h source 0 s) = Inl recursion_error"
proof (induction frames arbitrary: s)
  case (Suc frames)
  show ?case unfolding walk_array [OF assms(1)] by (rule for_plain [OF assms(2) Suc])
qed (simp add: raiseE_def)

text \<open>An object that carries such an array cannot be inspected to the end.\<close>

lemma carrier_never_returns:
  assumes "pd_view d h = Inr (Pdf_Array cs)" "h \<in> set cs" "child d q ''A'' = Some h"
  shows "inspect_object frames lib l d q s \<noteq> (Inr x, t)"
proof
  assume run: "inspect_object frames lib l d q s = (Inr x, t)"
  obtain m es where v: "pd_view d q = Inr (Mapping m es)"
    using assms(3) by (auto simp: child_def split: sum.splits pdf_view.splits)
  obtain y s1 where "inspect_action_holder frames lib l d q ''Object'' (s\<lparr>i_objects_inspected := Suc (i_objects_inspected s)\<rparr>) = (Inr y, s1)"
    by (rule bind_returns [OF object_run [OF run v]])
  then obtain z s2 where "walk_action frames lib l d h ''Object'' 0 (s\<lparr>i_objects_inspected := Suc (i_objects_inspected s)\<rparr>) = (Inr z, s2)"
    unfolding inspect_action_holder_def using assms(3) by (auto elim!: bind_returns dest!: get_entry_returns)
  with self_array_never_returns [OF assms(1,2)] show False by blast
qed

text \<open>A complete inspection went through every indirect object.\<close>

lemma objects_run:
  assumes "inspect_open_pdf frames lib l d initial_inspection = (Inr (), t)" "i_partial_reasons t = []"
    and "pd_objects d = Inr objects"
  obtains s where "forE (inspect_object frames lib l d) objects s = (Inr (), t)"
proof -
  let ?C = "\<lambda>_ :: handle. False"
  have keys: "keys_identify lib d ?C" by (simp add: keys_identify_def)
  have sound: "sound_walk lib d ?C s" for s by (simp add: sound_walk_def visited_def held_def)
  from inspect_open_pdf_runs [OF assms(1), of ?C] obtain s1 s2 s3 s4 s5 ps os b where
    doc: "pd_pages d = Inr ps" "pd_objects d = Inr os"
    and o: "(if max_objects l < length os then partialE ''indirect_object_limit'' else returnE ()) s1 = (Inr (), s2)"
    and c: "inspect_catalog frames lib l d (pd_root d) s2 = (Inr (), s3)"
    and pp: "inspect_pages frames lib l d s3 = (Inr b, s4)"
    and a: "inspect_named_attachments lib l d s4 = (Inr (), s5)"
    and oo: "inspect_indirect_objects frames lib l d s5 = (Inr (), t)" .
  have "gathered s2 t"
    using catalog_advances [OF keys c] pages_advance [OF keys pp doc(1) sound]
      steppingD [OF stepping_named_attachments a, of ?C] objects_advance [OF keys oo doc(2) sound]
      advances_gathered gathering.onward by meson
  with assms(2) limit_advances [OF o, of lib d ?C] have "length os \<le> max_objects l" by (blast dest: gathered_partial)
  with oo doc(2) assms(3) show thesis
    by (intro that [of s5]) (simp add: inspect_indirect_objects_def bind_from)
qed

lemma carrier_incomplete:
  assumes "pl_open lib = Inr d" "pd_view d h = Inr (Pdf_Array cs)" "h \<in> set cs" "child d q ''A'' = Some h"
    and "pd_objects d = Inr objects" "q \<in> set objects" "analyze_pdf frames lib l FF_PDF = Inr a"
  shows "\<not> pdf_complete a"
proof
  assume "pdf_complete a"
  obtain s where tr: "traverse frames lib l d = Inr s" "i_partial_reasons s = []"
    using complete_traversal [OF assms(7,1) \<open>pdf_complete a\<close>] .
  obtain t where run: "inspect_open_pdf frames lib l d initial_inspection = (Inr (), t)" "i_partial_reasons t = []"
    using quiet_traversal [OF tr] .
  obtain s0 where "forE (inspect_object frames lib l d) objects s0 = (Inr (), t)" using objects_run [OF run assms(5)] .
  from for_each [OF this assms(6)] carrier_never_returns [OF assms(2-4)] show False by auto
qed

lemma limit_quiet: "\<exists>t. (if b then partialE reason else returnE ()) s = (Inr (), t) \<and>
    i_visited_holders t = i_visited_holders s \<and> i_additional_triggers_visited t = i_additional_triggers_visited s"
  by (simp add: partialE_def modifyE_def returnE_def)

text \<open>A catalog whose first additional action is such an array: the exception leaves the analyzer.\<close>

definition first_catalog_action :: "pdf_doc \<Rightarrow> handle \<Rightarrow> bool" where
  "first_catalog_action d h \<longleftrightarrow> child d (pd_root d) ''OpenAction'' = None \<and>
     (\<exists>aa m trigger more_triggers. child d (pd_root d) ''AA'' = Some aa \<and>
        pd_view d aa = Inr (Mapping m ((trigger, h) # more_triggers)))"

lemma catalog_crashes:
  assumes "pl_open lib = Inr d" "pl_version lib = PDF_PARSER_VERSION" "0 < max_additional_triggers l"
    and "pd_pages d = Inr ps" "pd_objects d = Inr objects" "pd_view d (pd_root d) = Inr (Mapping m es)"
    and "child d (pd_root d) ''OpenAction'' = None" "child d (pd_root d) ''AA'' = Some aa"
    and "pd_view d aa = Inr (Mapping m' ((trigger, h) # more_triggers))"
    and raises: "\<And>source s. fst (walk_action frames lib l d h source 0 s) = Inl recursion_error"
  shows "analyze_pdf frames lib l FF_PDF = Inl (Some recursion_error)"
proof -
  have n: "entry es ''OpenAction'' = None" "entry es ''AA'' = Some aa" using assms(6-8) by (simp_all add: child_def)
  have w: "\<exists>t. walk_trigger frames lib l d source (trigger, h) s = (Inl recursion_error, t)"
    if "i_additional_triggers_visited s = 0" for source s
    using raises [of "source @ ''AA''" "snd (note_trigger lib l trigger s)"] that assms(3)
    by (cases "walk_action frames lib l d h (source @ ''AA'') 0 (snd (note_trigger lib l trigger s))")
      (auto simp: walk_trigger_def bindE_def getE_def note_trigger_def modifyE_def)
  have k: "\<exists>key v. object_key lib d r s = (Inr key, v) \<and> i_visited_holders v = i_visited_holders s \<and>
      i_additional_triggers_visited v = i_additional_triggers_visited s" for r s
    by (auto simp: object_key_def bindE_def getE_def modifyE_def returnE_def split: option.split)
  have additional: "\<exists>t. inspect_additional_actions frames lib l d (pd_root d) ''Catalog'' s = (Inl recursion_error, t)"
    if s: "i_visited_holders s = []" "i_additional_triggers_visited s = 0" for s
  proof -
    from k [of "pd_root d" s] s obtain key v where v: "object_key lib d (pd_root d) s = (Inr key, v)" "i_visited_holders v = []"
      "i_additional_triggers_visited v = 0" by auto
    let ?v = "v\<lparr>i_visited_holders := List.insert key (i_visited_holders v),
        i_additional_action_count := Suc (i_additional_action_count v)\<rparr>"
    from v(3) w [of ?v "''Catalog''"] obtain t where "walk_trigger frames lib l d ''Catalog'' (trigger, h) ?v = (Inl recursion_error, t)" by auto
    with v show ?thesis
      by (simp add: inspect_additional_actions_def bindE_def get_entry_def look_run assms(6,9) n returnE_def getE_def modifyE_def)
  qed
  have catalog: "\<exists>t. inspect_catalog frames lib l d (pd_root d) s = (Inl recursion_error, t)"
    if "i_visited_holders s = []" "i_additional_triggers_visited s = 0" for s
  proof -
    from additional [OF that] obtain t where
      "inspect_additional_actions frames lib l d (pd_root d) ''Catalog'' s = (Inl recursion_error, t)" ..
    then show ?thesis
      by (simp add: inspect_catalog_def bind_look [OF assms(6)] n inspect_open_action_def run_return)
        (simp add: bindE_def)
  qed
  let ?s = "initial_inspection\<lparr>i_encrypted := pd_encrypted d, i_catalog_present := True,
      i_page_count := Some (length ps), i_object_count := Some (length objects)\<rparr>"
  obtain s1 where s1: "(if max_pages l < length ps then partialE ''page_limit'' else returnE ()) ?s = (Inr (), s1)"
    "i_visited_holders s1 = []" "i_additional_triggers_visited s1 = 0"
    using limit_quiet [of "max_pages l < length ps" "''page_limit''" ?s] by (auto simp: initial_inspection_def)
  obtain s2 where s2: "(if max_objects l < length objects then partialE ''indirect_object_limit'' else returnE ()) s1 = (Inr (), s2)"
    "i_visited_holders s2 = []" "i_additional_triggers_visited s2 = 0"
    using limit_quiet [of "max_objects l < length objects" "''indirect_object_limit''" s1] s1(2,3) by auto
  obtain t where t: "inspect_catalog frames lib l d (pd_root d) s2 = (Inl recursion_error, t)" using catalog [OF s2(2,3)] ..
  have "inspect_open_pdf frames lib l d initial_inspection = (Inl recursion_error, t)"
    by (simp add: inspect_open_pdf_def bind_modify bind_look [OF assms(6)] assms(4,5) bind_from split del: if_split)
      (simp add: bindE_def s1(1) s2(1) t split del: if_split)
  then show ?thesis using assms(1,2) by (simp add: analyze_pdf_def traverse_def recursion_error_def parser_exception_def)
qed

text \<open>C34. An array that contains itself is never analysed to the end. When an indirect object carries one
  as its activation action, wherever in it the array occurs, no analysis of the document is complete,
  so nothing is released. When nothing but plain values stands before it and it is the first
  additional action of the catalog, the analysis ends in a \<open>RecursionError\<close> that none of the handlers
  of \<open>analyze_pdf\<close> catches, under every recursion limit: the worker has no result and all evidence is
  lost.\<close>

theorem self_array_recurses:
  assumes "pl_open lib = Inr d" "pl_version lib = PDF_PARSER_VERSION" "0 < max_additional_triggers l"
    and "pd_pages d = Inr ps" "pd_objects d = Inr objects"
    and "pd_view d h = Inr (Pdf_Array (before @ h # rest))"
  shows "(\<forall>q\<in>set objects. child d q ''A'' = Some h \<longrightarrow>
      (\<forall>a. analyze_pdf frames lib l FF_PDF = Inr a \<longrightarrow> \<not> pdf_complete a)) \<and>
    (list_all (plain d) before \<and> first_catalog_action d h \<longrightarrow>
      analyze_pdf frames lib l FF_PDF = Inl (Some recursion_error))"
proof (intro conjI ballI impI allI)
  fix q a assume "q \<in> set objects" "child d q ''A'' = Some h" "analyze_pdf frames lib l FF_PDF = Inr a"
  with assms(6) show "\<not> pdf_complete a" by (intro carrier_incomplete [OF assms(1) assms(6) _ _ assms(5)]) simp_all
next
  assume a: "list_all (plain d) before \<and> first_catalog_action d h"
  then obtain aa m trigger more_triggers where aa: "child d (pd_root d) ''OpenAction'' = None"
    "child d (pd_root d) ''AA'' = Some aa" "pd_view d aa = Inr (Mapping m ((trigger, h) # more_triggers))"
    by (auto simp: first_catalog_action_def)
  then obtain m' es where "pd_view d (pd_root d) = Inr (Mapping m' es)"
    by (auto simp: child_def split: sum.splits pdf_view.splits)
  from catalog_crashes [OF assms(1-5) this aa self_array_raises [OF assms(6)]] a
  show "analyze_pdf frames lib l FF_PDF = Inl (Some recursion_error)" by blast
qed

text \<open>A catalog with a number and the array itself in the array of its only additional action.\<close>

definition self_array :: pdf_doc where
  "self_array = cyclic_pdf\<lparr>pd_view := (\<lambda>h. if h = 0 then Inr (Mapping False [(u ''/AA'', 1), (u ''/A'', 2)])
     else if h = 1 then Inr (Mapping False [(u ''/WC'', 2)])
     else if h = 2 then Inr (Pdf_Array [3, 2]) else Inr Pdf_Other)\<rparr>"

theorem self_array_recurses_witness:
  "analyze_pdf 1000 (pdf_lib_of (Inr self_array) []) DEFAULT_PDF_LIMITS FF_PDF = Inl (Some recursion_error)"
proof -
  have "list_all (plain self_array) [3]" by (simp add: plain_def self_array_def)
  moreover have "first_catalog_action self_array 2"
    by (auto simp: first_catalog_action_def child_def self_array_def cyclic_pdf_def entry_def)
  ultimately show ?thesis
    using self_array_recurses [of "pdf_lib_of (Inr self_array) []" self_array DEFAULT_PDF_LIMITS "[]" "[0, 1, 3]" 2 "[3]" "[]" 1000]
    by (simp add: pdf_lib_of_def PDF_PARSER_VERSION_def DEFAULT_PDF_LIMITS_def) (auto simp: self_array_def cyclic_pdf_def)
qed

end
