(* ===== verification/Pdf_Fallback.thy ===== *)
theory Pdf_Fallback
  imports Pdf_Report
begin

text \<open>
  The lexical fallback of the PDF analyzer: whatever spelling a name has - each character plain
  or as \<open>#XX\<close> - the scan finds it, wherever it stands in the window.
\<close>

section \<open>Spellings of a name\<close>

inductive spelled :: "bytes \<Rightarrow> bytes \<Rightarrow> bool" where
  spelled_end: "spelled [] []"
| spelled_plain: "c \<noteq> 35 \<Longrightarrow> spelled w n \<Longrightarrow> spelled (c # w) (c # n)"
| spelled_hex: "hex_value h1 = Some a \<Longrightarrow> hex_value h2 = Some b \<Longrightarrow> spelled w n \<Longrightarrow>
    spelled (35 # h1 # h2 # w) (of_nat (16 * a + b) # n)"

lemma decode_plain: "c \<noteq> 35 \<Longrightarrow> decode_name_hex_escapes (c # bs) = c # decode_name_hex_escapes bs"
proof (cases bs)
  case (Cons h1 rest)
  then show "c \<noteq> 35 \<Longrightarrow> ?thesis" by (cases rest) simp_all
qed simp

lemma decode_spelled: "spelled w n \<Longrightarrow> decode_name_hex_escapes (w @ rest) = n @ decode_name_hex_escapes rest"
  by (induction rule: spelled.induct) (simp_all add: decode_plain)

text \<open>A byte that is no hexadecimal digit ends every escape that starts before it.\<close>

lemma decode_before:
  "hex_value c = None \<Longrightarrow> \<exists>ds. decode_name_hex_escapes (pre @ c # rest) = ds @ decode_name_hex_escapes (c # rest)"
proof (induction pre rule: decode_name_hex_escapes.induct, goal_cases)
  case (1 x h1 h2 pre)
  show ?case
  proof (cases "x = 35 \<and> hex_value h1 \<noteq> None \<and> hex_value h2 \<noteq> None")
    case True
    from 1(1) [OF True 1(3)] obtain ds where "decode_name_hex_escapes (pre @ c # rest) = ds @ decode_name_hex_escapes (c # rest)" by blast
    with True show ?thesis by auto
  next
    case False
    from 1(2) [OF False 1(3)] obtain ds where "decode_name_hex_escapes ((h1 # h2 # pre) @ c # rest) = ds @ decode_name_hex_escapes (c # rest)" by blast
    with False have "decode_name_hex_escapes ((x # h1 # h2 # pre) @ c # rest) = (x # ds) @ decode_name_hex_escapes (c # rest)" by auto
    then show ?thesis by blast
  qed
next
  case 2
  then show ?case by simp
next
  case (3 x)
  have "decode_name_hex_escapes (x # c # rest) = x # decode_name_hex_escapes (c # rest)"
    using 3 by (cases rest) auto
  then show ?case by auto
next
  case (4 x y)
  have "decode_name_hex_escapes (y # c # rest) = y # decode_name_hex_escapes (c # rest)"
    using 4 by (cases rest) auto
  moreover have "decode_name_hex_escapes (x # y # c # rest) = x # decode_name_hex_escapes (y # c # rest)"
    using 4 by auto
  ultimately show ?case by auto
qed

lemma spelled_found:
  assumes "spelled (c # w) n" "hex_value c = None"
  shows "\<exists>ds es. decode_name_hex_escapes (pre @ (c # w) @ post) = ds @ n @ es"
  using decode_before [OF assms(2), of pre "w @ post"] decode_spelled [OF assms(1), of post] by auto

section \<open>Counting\<close>

lemma count_found: "needle \<noteq> [] \<Longrightarrow> 0 < count_bytes needle (ds @ needle @ es)"
proof (induction ds)
  case Nil
  then show ?case by (subst count_bytes.simps) (simp add: starts_with_def)
next
  case (Cons x ds)
  then show ?case by (subst count_bytes.simps) auto
qed

lemma name_token_starts: "spelled w (name_token t) \<Longrightarrow> \<exists>c v. w = c # v \<and> hex_value c = None"
  by (erule spelled.cases) (auto simp: name_token_def hex_value_def u_def)

lemma scan_finds:
  assumes "spelled w (name_token t)" "t \<in> set FALLBACK_INDICATOR_TOKENS" "take (max_scan_bytes l) raw = pre @ w @ post"
  shows "t \<in> fst ` set (indicator_counts (scan_for_fallback_indicators raw l))"
proof -
  obtain c v where "w = c # v" "hex_value c = None" using name_token_starts [OF assms(1)] by blast
  with spelled_found assms(1) obtain ds es where "decode_name_hex_escapes (pre @ w @ post) = ds @ name_token t @ es" by blast
  moreover have "name_token t \<noteq> []" by (simp add: name_token_def)
  ultimately show ?thesis using assms(2,3) count_found
    by (auto simp: scan_for_fallback_indicators_def Let_def image_image)
qed

text \<open>C30. Evidence survives a document the parser cannot read: when the analysis of a PDF is not
  complete and the sample can be read, every name of the vocabulary that occurs in the scanned
  window is in the indicators of a \<open>PDF_FALLBACK_INDICATOR\<close> finding, in every spelling, each
  character plain or as a hexadecimal escape.
\<close>

theorem incomplete_pdf_keeps_evidence:
  assumes "analyze_pdf frames lib l FF_PDF = Inr a" "\<not> pdf_complete a"
    and "pl_read lib (Suc (max_fallback_scan_bytes l)) = Some raw" "take (max_fallback_scan_bytes l) raw = pre @ w @ post"
    and "spelled w (name_token t)" "t \<in> set FALLBACK_INDICATOR_TOKENS"
  shows "\<exists>m ts. (''PDF_FALLBACK_INDICATOR'', m) \<in> set (pa_findings a) \<and> jget m ''indicators'' = Some (jsorted ts) \<and> t \<in> set ts"
proof -
  from assms(1) obtain s where a: "a = pdf_result lib l (apply_fallback_scan lib l s)"
    by (auto simp: analyze_pdf_def split: if_splits sum.splits option.splits)
  let ?scan = "scan_for_fallback_indicators raw \<lparr>max_scan_bytes = max_fallback_scan_bytes l, max_hit_count = 9999\<rparr>"
  have "i_malformed s \<or> i_partial_reasons s \<noteq> []"
    using assms(2) a by (auto simp: pdf_complete_def pdf_result_def pdf_status_def apply_fallback_scan_def)
  then have f: "i_fallback_counts (apply_fallback_scan lib l s) = indicator_counts ?scan"
    using assms(3) by (auto simp: apply_fallback_scan_def Let_def)
  have t: "t \<in> fst ` set (indicator_counts ?scan)" by (rule scan_finds [OF assms(5,6)]) (simp add: assms(4))
  then have "indicator_counts ?scan \<noteq> []" by auto
  with a f have "(''PDF_FALLBACK_INDICATOR'', obj [(''confidence'', jtext ''lexical_only''), (''method'', jtext ''lexical-name-token-scan''),
         (''indicators'', jsorted (map fst (indicator_counts ?scan))),
         (''indicator_counts'', JObj (obj (map (\<lambda>(t, n). (t, jnat n)) (sort_key fst (indicator_counts ?scan))))),
         (''scan_truncated'', JBool (i_fallback_truncated (apply_fallback_scan lib l s)))]) \<in> set (pa_findings a)"
    by (simp add: pdf_result_def pdf_findings_def when_found_def)
  with t show ?thesis by (intro exI conjI) (assumption, simp, simp)
qed

text \<open>A rejected PDF whose only mark is \<open>/#4AS\<close>.\<close>

definition marked_lib :: pdf_lib where
  "marked_lib = \<lparr>pl_open = Inl \<lparr>px_kind = X_Pdf, px_name = ''PdfError''\<rparr>, pl_version = ''10.11.0'',
     pl_qpdf_version = ''12.3.2'', pl_id = (\<lambda>_ h. int h), pl_read = (\<lambda>n. Some (take n [37, 47, 35, 52, 65, 83, 32])),
     pl_control = (\<lambda>c. c < 32), pl_nfc = id, pl_casefold = id, pl_urlsplit = (\<lambda>_. None)\<rparr>"

theorem incomplete_pdf_keeps_evidence_witness:
  "\<exists>a m ts. analyze_pdf 0 marked_lib DEFAULT_PDF_LIMITS FF_PDF = Inr a \<and>
     (''PDF_FALLBACK_INDICATOR'', m) \<in> set (pa_findings a) \<and> jget m ''indicators'' = Some (jsorted ts) \<and> ''JS'' \<in> set ts"
proof -
  let ?a = "pdf_result marked_lib DEFAULT_PDF_LIMITS (apply_fallback_scan marked_lib DEFAULT_PDF_LIMITS
      (initial_inspection\<lparr>i_parser_exception := Some ''PdfError'', i_malformed := True, i_partial_reasons := [''parser_rejected_pdf'']\<rparr>))"
  have a: "analyze_pdf 0 marked_lib DEFAULT_PDF_LIMITS FF_PDF = Inr ?a"
    by (simp add: analyze_pdf_def marked_lib_def PDF_PARSER_VERSION_def rejected_state_def)
  have p: "\<not> pdf_complete ?a"
    by (simp add: pdf_complete_def pdf_result_def pdf_status_def apply_fallback_scan_def Let_def split: option.split)
  have "spelled [47, 35, 52, 65, 83] (name_token ''JS'')"
    using spelled_plain [OF _ spelled_hex [OF _ _ spelled_plain [OF _ spelled_end]], of 47 52 4 65 10 83]
    by (simp add: hex_value_def name_token_def u_def)
  from incomplete_pdf_keeps_evidence [OF a p _ _ this, of "[37, 47, 35, 52, 65, 83, 32]" "[37]" "[32]"] a
  show ?thesis by (auto simp: marked_lib_def DEFAULT_PDF_LIMITS_def FALLBACK_INDICATOR_TOKENS_def)
qed

end
