(* ===== verification/Office_Vba.thy ===== *)
theory Office_Vba
  imports File_Identity Json_Bounds
begin

text \<open>
  The shared types of the Office analyzers (\<open>worker/analyzers/office_types.py\<close>) and the static
  inspection of VBA projects (\<open>worker/analyzers/vba.py\<close>). oletools, the Unicode tables and the
  decoding of module bytes are the record \<open>vba_lib\<close>; which modules are read, how much of their
  source, what is kept and when an inspection is partial is here.
\<close>

section \<open>Office types\<close>

datatype office_container = OC_OOXML | OC_OLE

datatype office_application = APP_WORD | APP_EXCEL | APP_POWERPOINT | APP_UNKNOWN

datatype office_parser_status = OP_COMPLETE | OP_PARTIAL | OP_MALFORMED

primrec container_value :: "office_container \<Rightarrow> string" where
  "container_value OC_OOXML = ''OOXML''"
| "container_value OC_OLE = ''OLE''"

primrec application_value :: "office_application \<Rightarrow> string" where
  "application_value APP_WORD = ''WORD''"
| "application_value APP_EXCEL = ''EXCEL''"
| "application_value APP_POWERPOINT = ''POWERPOINT''"
| "application_value APP_UNKNOWN = ''UNKNOWN''"

primrec office_status_value :: "office_parser_status \<Rightarrow> string" where
  "office_status_value OP_COMPLETE = ''COMPLETE''"
| "office_status_value OP_PARTIAL = ''PARTIAL''"
| "office_status_value OP_MALFORMED = ''MALFORMED''"

record office_limits =
  ol_zip_entries :: nat
  ol_member_name_length :: nat
  ol_total_bytes_read :: nat
  ol_member_bytes :: nat
  ol_xml_parts :: nat
  ol_xml_bytes :: nat
  ol_relationships :: nat
  ol_external_relationships :: nat
  ol_embedded_objects :: nat
  ol_activex_objects :: nat
  ol_vba_projects :: nat
  ol_vba_project_bytes :: nat
  ol_vba_modules :: nat
  ol_vba_source_bytes :: nat
  ol_metadata_string_length :: nat
  ol_metadata_entries :: nat
  ol_selected_materializations :: nat

definition DEFAULT_OFFICE_LIMITS :: office_limits where
  "DEFAULT_OFFICE_LIMITS = \<lparr>ol_zip_entries = 4096, ol_member_name_length = 512,
     ol_total_bytes_read = 64 * 1024 * 1024, ol_member_bytes = 8 * 1024 * 1024, ol_xml_parts = 256,
     ol_xml_bytes = 4 * 1024 * 1024, ol_relationships = 2048, ol_external_relationships = 256,
     ol_embedded_objects = 256, ol_activex_objects = 256, ol_vba_projects = 8,
     ol_vba_project_bytes = 8 * 1024 * 1024, ol_vba_modules = 128, ol_vba_source_bytes = 4 * 1024 * 1024,
     ol_metadata_string_length = 256, ol_metadata_entries = 64, ol_selected_materializations = 8\<rparr>"

definition office_limits_ok :: "office_limits \<Rightarrow> bool" where
  "office_limits_ok l \<longleftrightarrow> list_all (\<lambda>v. 0 < v) [ol_zip_entries l, ol_member_name_length l, ol_total_bytes_read l,
     ol_member_bytes l, ol_xml_parts l, ol_xml_bytes l, ol_relationships l, ol_external_relationships l,
     ol_embedded_objects l, ol_activex_objects l, ol_vba_projects l, ol_vba_project_bytes l, ol_vba_modules l,
     ol_vba_source_bytes l, ol_metadata_string_length l, ol_metadata_entries l, ol_selected_materializations l]"

record office_analysis =
  oa_container :: office_container
  oa_application :: office_application
  oa_parser_status :: office_parser_status
  oa_findings :: "observation list"
  oa_metadata :: json_object

definition office_complete :: "office_analysis \<Rightarrow> bool" where
  "office_complete a \<longleftrightarrow> oa_parser_status a = OP_COMPLETE"

definition office_detected_type :: "office_analysis \<Rightarrow> string" where
  "office_detected_type a =
     ''OFFICE_'' @ application_value (oa_application a) @ ''_'' @ container_value (oa_container a)"

section \<open>Text\<close>

definition OFFICE_BIDI_CONTROLS :: "nat list" where
  "OFFICE_BIDI_CONTROLS = [8206, 8207, 8234, 8235, 8236, 8237, 8238, 8294, 8295, 8296, 8297]"

definition clean_text ::
  "(ustring \<Rightarrow> ustring) \<Rightarrow> (nat \<Rightarrow> bool) \<Rightarrow> office_limits \<Rightarrow> nat \<Rightarrow> string \<Rightarrow> ustring \<Rightarrow> ustring" where
  "clean_text nfc control l hard_limit otherwise v =
     (let cut = take (min hard_limit (ol_metadata_string_length l))
        (filter (\<lambda>c. c \<notin> set OFFICE_BIDI_CONTROLS \<and> \<not> control c) (nfc v)) in
      if cut = [] then u otherwise else cut)"

section \<open>VBA projects\<close>

definition AUTOEXEC_NAMES :: "string list" where
  "AUTOEXEC_NAMES = [''auto_close'', ''auto_open'', ''autoclose'', ''autoexec'', ''autoexit'', ''autonew'',
     ''autoopen'', ''document_beforeclose'', ''document_close'', ''document_new'', ''document_open'',
     ''presentation_open'', ''presentation_slideshowbegin'', ''workbook_activate'', ''workbook_beforeclose'',
     ''workbook_close'', ''workbook_open'', ''worksheet_calculate'']"

definition EXECUTION_INDICATORS :: "(string \<times> string) list" where
  "EXECUTION_INDICATORS = [(''cmd.exe'', ''command_shell''), (''create'', ''process_creation''),
     (''createobject'', ''com_object_creation''), (''encodedcommand'', ''powershell''),
     (''invoke-command'', ''powershell''), (''invoke-expression'', ''powershell''),
     (''powershell'', ''powershell''), (''run'', ''process_launch''),
     (''scripting.filesystemobject'', ''scripting_host''), (''shell'', ''process_launch''),
     (''shell.application'', ''process_launch''), (''shellexecute'', ''process_launch''),
     (''start-process'', ''powershell''), (''wscript.shell'', ''scripting_host'')]"

definition OFFICE_VBA_PARSER_VERSION :: string where "OFFICE_VBA_PARSER_VERSION = ''0.60.2''"
definition OFFICE_OLE_PARSER_VERSION :: string where "OFFICE_OLE_PARSER_VERSION = ''0.47''"

text \<open>\<open>ve_expected\<close> says whether the class is one of \<open>_EXPECTED_ERRORS\<close>.\<close>

record vba_exn =
  ve_expected :: bool
  ve_name :: string

datatype module_source = Source_Text ustring | Source_Bytes bytes | Source_Other

text \<open>A parser that was opened: whether it detects macros, the length of \<open>vba_projects\<close> where that
  is a list, the modules \<open>extract_macros\<close> yields with the exception it may end in.\<close>

record vba_parser =
  vp_detect :: "vba_exn + bool"
  vp_projects :: "nat option"
  vp_modules :: "(ustring \<times> module_source) list"
  vp_broken :: "vba_exn option"

record vba_lib =
  vl_parser_version :: string
  vl_olefile_version :: string
  vl_open :: "bytes \<Rightarrow> vba_exn + vba_parser"
  vl_scan :: "ustring \<Rightarrow> vba_exn + (ustring option \<times> ustring option) list"
  vl_decode :: "bytes \<Rightarrow> ustring"
  vl_nfc :: "ustring \<Rightarrow> ustring"
  vl_casefold :: "ustring \<Rightarrow> ustring"
  vl_control :: "nat \<Rightarrow> bool"

record vba_analysis =
  va_macro_detected :: bool
  va_project_count :: nat
  va_module_count :: nat
  va_source_bytes_inspected :: nat
  va_module_names :: "ustring list"
  va_autoexec_triggers :: "ustring list"
  va_indicator_classes :: "string list"
  va_indicator_names :: "ustring list"
  va_partial_reasons :: "string list"
  va_parser_exception :: "string option"

definition empty_vba :: vba_analysis where
  "empty_vba = \<lparr>va_macro_detected = False, va_project_count = 0, va_module_count = 0,
     va_source_bytes_inspected = 0, va_module_names = [], va_autoexec_triggers = [],
     va_indicator_classes = [], va_indicator_names = [], va_partial_reasons = [], va_parser_exception = None\<rparr>"

type_synonym 'a vba_run = "(vba_analysis, vba_exn, 'a) prog"

definition vba_partial :: "string \<Rightarrow> vba_analysis \<Rightarrow> vba_analysis" where
  "vba_partial reason r = r\<lparr>va_partial_reasons := List.insert reason (va_partial_reasons r)\<rparr>"

definition vba_text :: "vba_lib \<Rightarrow> office_limits \<Rightarrow> ustring \<Rightarrow> ustring" where
  "vba_text lib l v = clean_text (vl_nfc lib) (vl_control lib) l 128 ''unnamed'' v"

text \<open>One keyword the scanner reports; a kind or keyword that is no text is passed over.\<close>

definition note_keyword ::
  "vba_lib \<Rightarrow> office_limits \<Rightarrow> ustring option \<times> ustring option \<Rightarrow> vba_analysis \<Rightarrow> vba_analysis" where
  "note_keyword lib l entry r =
     (case entry of
        (Some kind, Some keyword) \<Rightarrow>
          let normalized = strip (vl_casefold lib keyword);
              r1 = (if kind = u ''AutoExec'' \<and> normalized \<in> u ` set AUTOEXEC_NAMES \<and>
                  length (va_autoexec_triggers r) < ol_metadata_entries l
                then r\<lparr>va_autoexec_triggers := List.insert (vba_text lib l keyword) (va_autoexec_triggers r)\<rparr> else r) in
          if kind \<noteq> u ''Suspicious'' then r1
          else (case map_of (map (\<lambda>(k, c). (u k, c)) EXECUTION_INDICATORS) normalized of
              None \<Rightarrow> r1
            | Some indicator_class \<Rightarrow>
              if length (va_indicator_names r1) < ol_metadata_entries l
              then r1\<lparr>va_indicator_names := List.insert (vba_text lib l keyword) (va_indicator_names r1),
                va_indicator_classes := List.insert indicator_class (va_indicator_classes r1)\<rparr> else r1)
      | _ \<Rightarrow> r)"

definition scan_source :: "vba_lib \<Rightarrow> office_limits \<Rightarrow> ustring \<Rightarrow> unit vba_run" where
  "scan_source lib l source = bindE (fromE (vl_scan lib source)) (\<lambda>entries.
     modifyE (\<lambda>r. fold (note_keyword lib l) entries r))"

definition source_text :: "vba_lib \<Rightarrow> module_source \<Rightarrow> vba_exn + ustring" where
  "source_text lib v = (case v of Source_Text t \<Rightarrow> Inr t | Source_Bytes b \<Rightarrow> Inr (vl_decode lib b)
     | Source_Other \<Rightarrow> Inl \<lparr>ve_expected = True, ve_name = ''TypeError''\<rparr>)"

text \<open>UTF-8 with \<open>errors="replace"\<close>: what cannot be encoded becomes a question mark; decoding a
  prefix of such bytes with \<open>errors="ignore"\<close> drops the character that was cut.\<close>

definition encodable :: "ustring \<Rightarrow> ustring" where
  "encodable s = map (\<lambda>c. if utf8_length c = None then 63 else c) s"

definition encoded_length :: "ustring \<Rightarrow> nat" where
  "encoded_length s = sum_list (map (\<lambda>c. the (utf8_length c)) (encodable s))"

fun fitting :: "nat \<Rightarrow> ustring \<Rightarrow> ustring" where
  "fitting n [] = []"
| "fitting n (c # s) = (let k = the (utf8_length c) in if k \<le> n then c # fitting (n - k) s else [])"

definition count_module :: "office_limits \<Rightarrow> ustring \<Rightarrow> nat \<Rightarrow> nat \<Rightarrow> vba_analysis \<Rightarrow> vba_analysis" where
  "count_module l shown remaining length_of_source r =
     (let r1 = (if remaining < length_of_source then vba_partial ''vba_source_size_limit'' r else r) in
      r1\<lparr>va_source_bytes_inspected := va_source_bytes_inspected r + min remaining length_of_source,
        va_module_count := Suc (va_module_count r),
        va_module_names := (if length (va_module_names r) < ol_metadata_entries l
          then va_module_names r @ [shown] else va_module_names r)\<rparr>)"

fun inspect_modules ::
  "vba_lib \<Rightarrow> office_limits \<Rightarrow> nat \<Rightarrow> (ustring \<times> module_source) list \<Rightarrow> vba_exn option \<Rightarrow> unit vba_run" where
  "inspect_modules lib l index [] broken = (case broken of None \<Rightarrow> returnE () | Some e \<Rightarrow> raiseE e)"
| "inspect_modules lib l index ((name, source) # ms) broken =
     (if ol_vba_modules l \<le> index then modifyE (vba_partial ''vba_module_limit'')
      else bindE (fromE (source_text lib source)) (\<lambda>t.
        bindE (getE (\<lambda>r. ol_vba_source_bytes l - va_source_bytes_inspected r)) (\<lambda>remaining.
        if remaining = 0 then modifyE (vba_partial ''vba_source_size_limit'')
        else let cut = remaining < encoded_length t;
                 t' = (if cut then fitting remaining (encodable t) else t) in
          bindE (modifyE (count_module l (vba_text lib l name) remaining (encoded_length t))) (\<lambda>_.
          bindE (scan_source lib l t') (\<lambda>_.
          inspect_modules lib l (Suc index) ms broken)))))"

text \<open>What runs inside the \<open>try\<close>.\<close>

definition inspect_project :: "vba_lib \<Rightarrow> office_limits \<Rightarrow> bytes \<Rightarrow> unit vba_run" where
  "inspect_project lib l data =
     bindE (fromE (vl_open lib data)) (\<lambda>parser.
     bindE (fromE (vp_detect parser)) (\<lambda>detected.
     bindE (modifyE (\<lambda>r. r\<lparr>va_macro_detected := detected\<rparr>)) (\<lambda>_.
     if \<not> detected then returnE ()
     else bindE (case vp_projects parser of None \<Rightarrow> returnE ()
         | Some n \<Rightarrow> modifyE (\<lambda>r. let r1 = r\<lparr>va_project_count := max 1 n\<rparr> in
             if n = 0 then vba_partial ''orphan_vba_stream'' r1 else r1)) (\<lambda>_.
       inspect_modules lib l 0 (vp_modules parser) (vp_broken parser)))))"

definition version_error :: vba_exn where
  "version_error = \<lparr>ve_expected = False, ve_name = ''RuntimeError''\<rparr>"

definition analyze_vba_blob :: "vba_lib \<Rightarrow> office_limits \<Rightarrow> bytes \<Rightarrow> vba_exn + vba_analysis" where
  "analyze_vba_blob lib l data =
     (let start = empty_vba\<lparr>va_project_count := 1\<rparr> in
      if ol_vba_project_bytes l < length data then Inr (vba_partial ''vba_project_size_limit'' start)
      else if vl_parser_version lib \<noteq> OFFICE_VBA_PARSER_VERSION \<or> vl_olefile_version lib \<noteq> OFFICE_OLE_PARSER_VERSION
      then Inl version_error
      else let finish = (\<lambda>r. if va_macro_detected r \<and> va_module_count r = 0
             then vba_partial ''vba_source_unavailable'' r else r) in
        case inspect_project lib l data start of
          (Inr _, r) \<Rightarrow> Inr (finish r)
        | (Inl e, r) \<Rightarrow> if ve_expected e
            then Inr (finish (vba_partial ''vba_parser_error'' (r\<lparr>va_parser_exception := Some (ve_name e)\<rparr>)))
            else Inl e)"

end
