(* ===== verification/Office_Report.thy ===== *)
theory Office_Report
  imports Office_Vba
begin

text \<open>
  The findings that the OOXML and the OLE analyzer report in the same way.
\<close>

section \<open>Findings both analyzers report\<close>

definition macro_findings ::
  "office_limits \<Rightarrow> office_application \<Rightarrow> bool \<Rightarrow> nat \<Rightarrow> vba_analysis \<Rightarrow> observation list" where
  "macro_findings l app macro_enabled projects vba =
     when_found macro_enabled ''OFFICE_MACRO_ENABLED''
       (obj [(''application'', jtext (application_value app)), (''vba_project_count'', jnat projects)]) @
     when_found (projects \<noteq> 0 \<or> va_macro_detected vba) ''OFFICE_VBA_MACRO''
       (obj [(''application'', jtext (application_value app)), (''project_count'', jnat projects),
         (''module_count'', jnat (va_module_count vba)),
         (''module_names'', JList (map JStr (take (ol_metadata_entries l) (sorted_codes (va_module_names vba)))))]) @
     when_found (va_autoexec_triggers vba \<noteq> []) ''OFFICE_VBA_AUTOEXEC''
       (obj [(''triggers'', jnames (va_autoexec_triggers vba))]) @
     when_found (va_indicator_classes vba \<noteq> []) ''OFFICE_VBA_EXECUTION_INDICATOR''
       (obj [(''indicator_classes'', jsorted (va_indicator_classes vba)),
         (''indicators'', jnames (va_indicator_names vba))])"

definition container_findings ::
  "office_container \<Rightarrow> nat \<Rightarrow> nat \<Rightarrow> bool \<Rightarrow> bool \<Rightarrow> string option \<Rightarrow> string list \<Rightarrow> observation list" where
  "container_findings container embedded activex encrypted malformed parser_error reasons =
     when_found (embedded \<noteq> 0) ''OFFICE_EMBEDDED_OBJECT'' (obj [(''count'', jnat embedded)]) @
     when_found (activex \<noteq> 0) ''OFFICE_ACTIVEX'' (obj [(''count'', jnat activex)]) @
     when_found encrypted ''OFFICE_ENCRYPTED'' (obj [(''container'', jtext (container_value container))]) @
     when_found malformed ''OFFICE_MALFORMED'' (obj [(''parser_exception'', jmaybe parser_error)]) @
     when_found (reasons \<noteq> []) ''OFFICE_PARTIAL_ANALYSIS'' (obj [(''reasons'', jsorted reasons)])"

definition office_status :: "bool \<Rightarrow> string list \<Rightarrow> office_parser_status" where
  "office_status malformed reasons =
     (if malformed then OP_MALFORMED else if reasons \<noteq> [] then OP_PARTIAL else OP_COMPLETE)"

end
