(* ===== verification/Ooxml.thy ===== *)
theory Ooxml
  imports Office_Report Archive "HOL-Library.AList"
begin

text \<open>
  The bounded OOXML inspection of \<open>worker/analyzers/ooxml.py\<close>. The \<open>zipfile\<close> library is the
  record \<open>zip_lib\<close> of the archive analyzer; the safe XML parser and \<open>urlsplit\<close> are fields of
  \<open>ooxml_lib\<close>.
\<close>

section \<open>Names\<close>

definition CONTENT_TYPES_PART :: ustring where "CONTENT_TYPES_PART = u ''[Content_Types].xml''"
definition ROOT_RELATIONSHIPS_PART :: ustring where "ROOT_RELATIONSHIPS_PART = u ''_rels/.rels''"

definition CONTENT_TYPES_NAMESPACE :: string where
  "CONTENT_TYPES_NAMESPACE = ''http://schemas.openxmlformats.org/package/2006/content-types''"

definition RELATIONSHIPS_NAMESPACE :: string where
  "RELATIONSHIPS_NAMESPACE = ''http://schemas.openxmlformats.org/package/2006/relationships''"

definition qname :: "string \<Rightarrow> string \<Rightarrow> ustring" where
  "qname space local_name = u (CHR ''{'' # space @ CHR ''}'' # local_name)"

primrec application_path :: "office_application \<Rightarrow> ustring option" where
  "application_path APP_WORD = Some (u ''word/document.xml'')"
| "application_path APP_EXCEL = Some (u ''xl/workbook.xml'')"
| "application_path APP_POWERPOINT = Some (u ''ppt/presentation.xml'')"
| "application_path APP_UNKNOWN = None"

primrec application_markers :: "office_application \<Rightarrow> string list" where
  "application_markers APP_WORD = [''wordprocessingml'', ''vnd.ms-word'']"
| "application_markers APP_EXCEL = [''spreadsheetml'', ''vnd.ms-excel'']"
| "application_markers APP_POWERPOINT = [''presentationml'', ''vnd.ms-powerpoint'']"
| "application_markers APP_UNKNOWN = []"

primrec vba_path :: "office_application \<Rightarrow> ustring option" where
  "vba_path APP_WORD = Some (u ''word/vbaProject.bin'')"
| "vba_path APP_EXCEL = Some (u ''xl/vbaProject.bin'')"
| "vba_path APP_POWERPOINT = Some (u ''ppt/vbaProject.bin'')"
| "vba_path APP_UNKNOWN = None"

definition EMBEDDING_PREFIXES :: "string list" where
  "EMBEDDING_PREFIXES = [''word/embeddings/'', ''xl/embeddings/'', ''ppt/embeddings/'']"

definition ACTIVEX_PREFIXES :: "string list" where
  "ACTIVEX_PREFIXES = [''word/activeX/'', ''xl/activeX/'', ''ppt/activeX/'']"

definition has_prefix :: "string list \<Rightarrow> ustring \<Rightarrow> bool" where
  "has_prefix prefixes name \<longleftrightarrow> list_ex (\<lambda>p. starts_with (u p) name) prefixes"

text \<open>\<open>str(PurePosixPath(target))\<close>: empty segments and dots vanish, exactly two leading slashes stay.\<close>

definition pure_posix :: "ustring \<Rightarrow> ustring" where
  "pure_posix p =
     (let leading = length (takeWhile (\<lambda>c. c = 47) p);
          root = (if leading = 0 then [] else if leading = 2 then [47, 47] else [47]);
          shown = root @ join [47] (filter (\<lambda>s. s \<noteq> [] \<and> s \<noteq> [46]) (split_on 47 p)) in
      if shown = [] then [46] else shown)"

section \<open>Libraries, exceptions, state\<close>

record xml_element =
  el_tag :: ustring
  el_attrib :: "(ustring \<times> ustring) list"

record xml_root =
  xr_tag :: ustring
  xr_children :: "xml_element list"

text \<open>The exceptions: \<open>OfficeLimitError\<close>, those of \<open>zipfile\<close>, \<open>ValueError\<close> with its subclasses and
  \<open>ParseError\<close> by the name of the class, and any other.\<close>

datatype office_exn = O_Limit string | O_Zip zip_exn | O_Xml string | O_Other string

record ooxml_lib =
  ox_zip :: zip_lib
  ox_vba :: vba_lib
  ox_parse :: "bytes \<Rightarrow> office_exn + xml_root"
  ox_urlsplit :: "ustring \<Rightarrow> (ustring \<times> ustring option) option"
  ox_xml_version :: string

record ooxml_state =
  os_application :: office_application
  os_entry_count :: nat
  os_bytes_read :: nat
  os_xml_parts_parsed :: nat
  os_xml_bytes_parsed :: nat
  os_relationship_count :: nat
  os_external_count :: nat
  os_external_summaries :: "json_object list"
  os_external_capped :: bool
  os_template_count :: nat
  os_template_summaries :: "json_object list"
  os_embedded_count :: nat
  os_activex_count :: nat
  os_macro_enabled :: bool
  os_vba_project_count :: nat
  os_encrypted :: bool
  os_malformed :: bool
  os_parser_exception :: "string option"
  os_partial_reasons :: "string list"
  os_vba :: vba_analysis

definition initial_ooxml :: ooxml_state where
  "initial_ooxml = \<lparr>os_application = APP_UNKNOWN, os_entry_count = 0, os_bytes_read = 0,
     os_xml_parts_parsed = 0, os_xml_bytes_parsed = 0, os_relationship_count = 0, os_external_count = 0,
     os_external_summaries = [], os_external_capped = False, os_template_count = 0, os_template_summaries = [],
     os_embedded_count = 0, os_activex_count = 0, os_macro_enabled = False, os_vba_project_count = 0,
     os_encrypted = False, os_malformed = False, os_parser_exception = None, os_partial_reasons = [],
     os_vba = empty_vba\<rparr>"

type_synonym 'a ooxml_run = "(ooxml_state, office_exn, 'a) prog"
type_synonym members = "(ustring \<times> zip_info) list"

definition ooxml_partial :: "string \<Rightarrow> ooxml_state \<Rightarrow> ooxml_state" where
  "ooxml_partial reason s = s\<lparr>os_partial_reasons := List.insert reason (os_partial_reasons s)\<rparr>"

definition malformed_part :: "string \<Rightarrow> string option \<Rightarrow> ooxml_state \<Rightarrow> ooxml_state" where
  "malformed_part reason name s =
     (let s1 = ooxml_partial reason (s\<lparr>os_malformed := True\<rparr>) in
      case name of None \<Rightarrow> s1 | Some n \<Rightarrow> s1\<lparr>os_parser_exception := Some n\<rparr>)"

section \<open>Reading members\<close>

text \<open>One chunk: the bytes are kept and counted before the limits are compared.\<close>

definition account_chunk :: "office_limits \<Rightarrow> nat \<Rightarrow> bytes \<Rightarrow> bytes \<Rightarrow> bytes ooxml_run" where
  "account_chunk l member_limit data chunk =
     bindE (modifyE (\<lambda>s. s\<lparr>os_bytes_read := os_bytes_read s + length chunk\<rparr>)) (\<lambda>_.
     if member_limit < length (data @ chunk) then raiseE (O_Limit ''member_actual_byte_limit'')
     else bindE (getE os_bytes_read) (\<lambda>n.
       if ol_total_bytes_read l < n then raiseE (O_Limit ''total_actual_byte_limit'')
       else returnE (data @ chunk)))"

lemma account_chunk_grows:
  "account_chunk l m data chunk s = (Inr data', s1) \<Longrightarrow> data' = data @ chunk \<and> length data' \<le> m"
  by (auto simp: account_chunk_def bindE_def modifyE_def getE_def raiseE_def returnE_def split: if_splits)

function read_chunks :: "office_limits \<Rightarrow> zip_stream \<Rightarrow> nat \<Rightarrow> bytes \<Rightarrow> bytes ooxml_run" where
  "read_chunks l stream member_limit data s =
     (case stream (length data) (min 65536 (member_limit + 1 - length data)) of
        Inl e \<Rightarrow> (Inl (O_Zip e), s)
      | Inr chunk \<Rightarrow>
        if chunk = [] then (Inr data, s)
        else (case account_chunk l member_limit data chunk s of
            (Inl e, s1) \<Rightarrow> (Inl e, s1)
          | (Inr data', s1) \<Rightarrow> read_chunks l stream member_limit data' s1))"
  by pat_completeness auto
termination
  by (relation "measure (\<lambda>(l, stream, m, data, s). Suc m - length data)")
    (auto dest!: sym [THEN account_chunk_grows] simp: neq_Nil_conv)

declare read_chunks.simps [simp del]

text \<open>\<open>OfficeLimitError\<close> and \<open>NotImplementedError\<close> are \<open>RuntimeError\<close>s, so they are caught here too.\<close>

definition is_runtime :: "office_exn \<Rightarrow> bool" where
  "is_runtime e \<longleftrightarrow> (case e of O_Limit _ \<Rightarrow> True | O_Zip z \<Rightarrow> ze_kind z \<in> {Z_Runtime, Z_NotImplemented} | _ \<Rightarrow> False)"

definition read_part :: "office_limits \<Rightarrow> zip_archive \<Rightarrow> members \<Rightarrow> ustring \<Rightarrow> nat \<Rightarrow> bytes ooxml_run" where
  "read_part l archive ms name maximum_bytes =
     (case map_of ms name of None \<Rightarrow> raiseE (O_Xml ''ValueError'')
      | Some info \<Rightarrow>
        let member_limit = min (if maximum_bytes = 0 then ol_member_bytes l else maximum_bytes) (ol_member_bytes l) in
        catchE (case za_open archive info of Inl e \<Rightarrow> raiseE (O_Zip e)
            | Inr stream \<Rightarrow> read_chunks l stream member_limit [])
          (\<lambda>e. if is_runtime e \<and> is_encrypted info
            then Some (bindE (modifyE (\<lambda>s. s\<lparr>os_encrypted := True\<rparr>)) (\<lambda>_. raiseE (O_Limit ''encrypted_zip_member'')))
            else None))"

definition read_xml :: "ooxml_lib \<Rightarrow> office_limits \<Rightarrow> zip_archive \<Rightarrow> members \<Rightarrow> ustring \<Rightarrow> bool \<Rightarrow> xml_root option ooxml_run" where
  "read_xml lib l archive ms name required =
     (if map_of ms name = None then
        bindE (if required then modifyE (malformed_part ''required_xml_part_missing'' None) else returnE ()) (\<lambda>_. returnE None)
      else bindE (getE (\<lambda>s. (os_xml_parts_parsed s, ol_xml_bytes l - os_xml_bytes_parsed s))) (\<lambda>(parts, remaining).
        if ol_xml_parts l \<le> parts then raiseE (O_Limit ''xml_part_limit'')
        else if remaining = 0 then raiseE (O_Limit ''xml_actual_byte_limit'')
        else bindE (read_part l archive ms name (min remaining (ol_member_bytes l))) (\<lambda>data.
          bindE (modifyE (\<lambda>s. s\<lparr>os_xml_parts_parsed := Suc (os_xml_parts_parsed s),
            os_xml_bytes_parsed := os_xml_bytes_parsed s + length data\<rparr>)) (\<lambda>_.
          bindE (fromE (ox_parse lib data)) (\<lambda>root. returnE (Some root))))))"

section \<open>Content types\<close>

definition attribute :: "xml_element \<Rightarrow> string \<Rightarrow> ustring" where
  "attribute e k = (case map_of (el_attrib e) (u k) of None \<Rightarrow> [] | Some v \<Rightarrow> v)"

fun note_overrides :: "xml_element list \<Rightarrow> (ustring \<times> ustring) list \<Rightarrow> (ustring \<times> ustring) list ooxml_run" where
  "note_overrides [] overrides = returnE overrides"
| "note_overrides (e # es) overrides =
     (if el_tag e \<noteq> qname CONTENT_TYPES_NAMESPACE ''Override'' then note_overrides es overrides
      else let part_name = dropWhile (\<lambda>c. c = 47) (attribute e ''PartName''); content_type = attribute e ''ContentType'' in
        if part_name = [] \<or> content_type = [] then raiseE (O_Xml ''ValueError'')
        else bindE (if map_of overrides part_name \<notin> {None, Some content_type}
            then modifyE (malformed_part ''ambiguous_content_type'' None) else returnE ()) (\<lambda>_.
          note_overrides es (AList.update part_name content_type overrides)))"

definition content_type_overrides :: "xml_root \<Rightarrow> (ustring \<times> ustring) list ooxml_run" where
  "content_type_overrides root =
     (if xr_tag root \<noteq> qname CONTENT_TYPES_NAMESPACE ''Types'' then raiseE (O_Xml ''ValueError'')
      else note_overrides (xr_children root) [])"

definition fits_application ::
  "ooxml_lib \<Rightarrow> (ustring \<times> ustring) list \<Rightarrow> members \<Rightarrow> office_application \<Rightarrow> bool" where
  "fits_application lib overrides ms app =
     (case application_path app of None \<Rightarrow> False
      | Some p \<Rightarrow> map_of ms p \<noteq> None \<and> list_ex (\<lambda>marker. contains (u marker)
          (zl_casefold (ox_zip lib) (case map_of overrides p of None \<Rightarrow> [] | Some t \<Rightarrow> t))) (application_markers app))"

definition classify_package :: "ooxml_lib \<Rightarrow> (ustring \<times> ustring) list \<Rightarrow> members \<Rightarrow> unit ooxml_run" where
  "classify_package lib overrides ms =
     (case filter (fits_application lib overrides ms) [APP_WORD, APP_EXCEL, APP_POWERPOINT] of
        [app] \<Rightarrow> modifyE (\<lambda>s. s\<lparr>os_application := app,
          os_macro_enabled := contains (u ''macroenabled'') (zl_casefold (ox_zip lib)
            (case map_of overrides (the (application_path app)) of None \<Rightarrow> [] | Some t \<Rightarrow> t))\<rparr>)
      | _ \<Rightarrow> returnE ())"

section \<open>Relationships\<close>

definition ooxml_text :: "ooxml_lib \<Rightarrow> office_limits \<Rightarrow> nat \<Rightarrow> ustring \<Rightarrow> ustring" where
  "ooxml_text lib l hard_limit v = clean_text (zl_nfc (ox_zip lib)) (zl_category_C (ox_zip lib)) l hard_limit ''unknown'' v"

definition external_summary :: "ooxml_lib \<Rightarrow> office_limits \<Rightarrow> ustring \<Rightarrow> ustring \<Rightarrow> json_object" where
  "external_summary lib l relationship_type target =
     (let safe_target = take 2048 target;
          tail = last (split_on 47 (drop (length relationship_type - 2048) relationship_type)) in
      obj ([(''relationship_type'', JStr (ooxml_text lib l 128 (if tail = [] then u ''unknown'' else tail))),
        (''target_length'', JInt (int (length target))),
        (''target_truncated'', JBool (length safe_target < length target))] @
       (if starts_with [92, 92] safe_target \<or> starts_with [47, 47] safe_target
        then let host = takeWhile (\<lambda>c. c \<noteq> 47) (dropWhile (\<lambda>c. c = 47) (replace_all 92 47 safe_target)) in
          [(''scheme'', jtext ''unc'')] @
          (if host = [] then [] else [(''hostname'', JStr (ooxml_text lib l 128 host))])
        else (case ox_urlsplit lib safe_target of None \<Rightarrow> [(''parse_status'', jtext ''invalid'')]
          | Some (scheme, host) \<Rightarrow>
            (if scheme = [] then [] else [(''scheme'', JStr (ooxml_text lib l 32 (zl_casefold (ox_zip lib) scheme)))]) @
            (case host of None \<Rightarrow> [] | Some h \<Rightarrow> if h = [] then [] else [(''hostname'', JStr (ooxml_text lib l 128 h))])))))"

definition is_external :: "ooxml_lib \<Rightarrow> xml_element \<Rightarrow> bool" where
  "is_external lib e \<longleftrightarrow> zl_casefold (ox_zip lib) (attribute e ''TargetMode'') = u ''external''"

definition is_template :: "ooxml_lib \<Rightarrow> xml_element \<Rightarrow> bool" where
  "is_template lib e \<longleftrightarrow> ends_with (u ''/attachedtemplate'') (zl_casefold (ox_zip lib) (attribute e ''Type''))"

definition note_summary :: "office_limits \<Rightarrow> json_object \<Rightarrow> ooxml_state \<Rightarrow> ooxml_state" where
  "note_summary l summary s =
     (if length (os_external_summaries s) < ol_metadata_entries l
      then s\<lparr>os_external_summaries := os_external_summaries s @ [summary]\<rparr> else s\<lparr>os_external_capped := True\<rparr>)"

definition note_template :: "office_limits \<Rightarrow> json_object \<Rightarrow> ooxml_state \<Rightarrow> ooxml_state" where
  "note_template l summary s =
     (let s1 = s\<lparr>os_template_count := Suc (os_template_count s)\<rparr> in
      if length (os_template_summaries s1) < ol_metadata_entries l
      then s1\<lparr>os_template_summaries := os_template_summaries s1 @ [summary]\<rparr> else s1)"

definition note_external :: "ooxml_lib \<Rightarrow> office_limits \<Rightarrow> xml_element \<Rightarrow> unit ooxml_run" where
  "note_external lib l e =
     bindE (getE os_external_count) (\<lambda>n.
     if ol_external_relationships l \<le> n then raiseE (O_Limit ''external_relationship_limit'')
     else bindE (modifyE (\<lambda>s. s\<lparr>os_external_count := Suc n\<rparr>)) (\<lambda>_.
       let summary = external_summary lib l (attribute e ''Type'') (attribute e ''Target'') in
       bindE (modifyE (note_summary l summary)) (\<lambda>_.
       if is_template lib e then modifyE (note_template l summary) else returnE ())))"

definition office_target :: "ooxml_lib \<Rightarrow> xml_element \<Rightarrow> ustring list" where
  "office_target lib e =
     (if ends_with (u ''/officedocument'') (zl_casefold (ox_zip lib) (attribute e ''Type'')) \<and> attribute e ''Target'' \<noteq> []
      then [pure_posix (attribute e ''Target'')] else [])"

fun note_relationships ::
  "ooxml_lib \<Rightarrow> office_limits \<Rightarrow> bool \<Rightarrow> xml_element list \<Rightarrow> ustring list \<Rightarrow> ustring list ooxml_run" where
  "note_relationships lib l collect_external [] targets = returnE targets"
| "note_relationships lib l collect_external (e # es) targets =
     (if el_tag e \<noteq> qname RELATIONSHIPS_NAMESPACE ''Relationship''
      then note_relationships lib l collect_external es targets
      else bindE (getE os_relationship_count) (\<lambda>n.
        if ol_relationships l \<le> n then raiseE (O_Limit ''relationship_limit'')
        else bindE (modifyE (\<lambda>s. s\<lparr>os_relationship_count := Suc n\<rparr>)) (\<lambda>_.
          bindE (if collect_external \<and> is_external lib e then note_external lib l e else returnE ()) (\<lambda>_.
          note_relationships lib l collect_external es (targets @ office_target lib e)))))"

definition relationship_targets :: "ooxml_lib \<Rightarrow> office_limits \<Rightarrow> xml_root \<Rightarrow> bool \<Rightarrow> ustring list ooxml_run" where
  "relationship_targets lib l root collect_external =
     (if xr_tag root \<noteq> qname RELATIONSHIPS_NAMESPACE ''Relationships'' then raiseE (O_Xml ''ValueError'')
      else note_relationships lib l collect_external (xr_children root) [])"

definition inspect_part_relationships ::
  "ooxml_lib \<Rightarrow> office_limits \<Rightarrow> zip_archive \<Rightarrow> members \<Rightarrow> ustring \<Rightarrow> unit ooxml_run" where
  "inspect_part_relationships lib l archive ms name =
     bindE (read_xml lib l archive ms name False) (\<lambda>root.
     case root of None \<Rightarrow> returnE ()
     | Some r \<Rightarrow> bindE (relationship_targets lib l r True) (\<lambda>_. returnE ()))"

definition relationship_parts :: "members \<Rightarrow> ustring list" where
  "relationship_parts ms =
     sorted_codes (filter (\<lambda>n. ends_with (u ''.rels'') n \<and> n \<noteq> ROOT_RELATIONSHIPS_PART) (map fst ms))"

definition inspect_relationships :: "ooxml_lib \<Rightarrow> office_limits \<Rightarrow> zip_archive \<Rightarrow> members \<Rightarrow> unit ooxml_run" where
  "inspect_relationships lib l archive ms =
     bindE (read_xml lib l archive ms ROOT_RELATIONSHIPS_PART True) (\<lambda>root.
     case root of None \<Rightarrow> returnE ()
     | Some r \<Rightarrow>
       bindE (relationship_targets lib l r False) (\<lambda>targets.
       bindE (getE (\<lambda>s. application_path (os_application s))) (\<lambda>expected.
       bindE (case expected of None \<Rightarrow> returnE ()
         | Some p \<Rightarrow> if p \<in> set targets then returnE ()
             else modifyE (malformed_part ''office_document_relationship_missing'' None)) (\<lambda>_.
       forE (inspect_part_relationships lib l archive ms) (relationship_parts ms)))))"

section \<open>Capabilities\<close>

definition merge_vba :: "office_limits \<Rightarrow> vba_analysis \<Rightarrow> vba_analysis \<Rightarrow> vba_analysis" where
  "merge_vba l target source = \<lparr>
     va_macro_detected = (va_macro_detected target \<or> va_macro_detected source),
     va_project_count = min (va_project_count target + 1) (ol_vba_projects l),
     va_module_count = min (va_module_count target + va_module_count source) (ol_vba_modules l),
     va_source_bytes_inspected =
       min (va_source_bytes_inspected target + va_source_bytes_inspected source) (ol_vba_source_bytes l),
     va_module_names = va_module_names target @
       take (ol_metadata_entries l - length (va_module_names target)) (va_module_names source),
     va_autoexec_triggers = fold List.insert (va_autoexec_triggers source) (va_autoexec_triggers target),
     va_indicator_classes = fold List.insert (va_indicator_classes source) (va_indicator_classes target),
     va_indicator_names = fold List.insert (va_indicator_names source) (va_indicator_names target),
     va_partial_reasons = fold List.insert (va_partial_reasons source) (va_partial_reasons target),
     va_parser_exception = (case va_parser_exception target of None \<Rightarrow> va_parser_exception source | Some e \<Rightarrow> Some e)\<rparr>"

definition note_vba :: "office_limits \<Rightarrow> vba_analysis \<Rightarrow> ooxml_state \<Rightarrow> ooxml_state" where
  "note_vba l analysis s = s\<lparr>os_vba := merge_vba l (os_vba s) analysis,
     os_partial_reasons := fold List.insert (va_partial_reasons analysis) (os_partial_reasons s)\<rparr>"

definition inspect_vba_member ::
  "ooxml_lib \<Rightarrow> office_limits \<Rightarrow> zip_archive \<Rightarrow> members \<Rightarrow> ustring \<Rightarrow> unit ooxml_run" where
  "inspect_vba_member lib l archive ms name =
     bindE (catchE (bindE (read_part l archive ms name (ol_vba_project_bytes l)) (\<lambda>data. returnE (Some data)))
       (\<lambda>e. case e of O_Limit reason \<Rightarrow> Some (bindE (modifyE (ooxml_partial reason)) (\<lambda>_. returnE None)) | _ \<Rightarrow> None)) (\<lambda>data.
     case data of None \<Rightarrow> returnE ()
     | Some bs \<Rightarrow> (case analyze_vba_blob (ox_vba lib) l bs of Inl e \<Rightarrow> raiseE (O_Other (ve_name e))
         | Inr analysis \<Rightarrow> modifyE (note_vba l analysis)))"

definition vba_members ::
  "ooxml_lib \<Rightarrow> members \<Rightarrow> (ustring \<times> ustring) list \<Rightarrow> office_application \<Rightarrow> ustring list" where
  "vba_members lib ms overrides app =
     (let typed = sorted_codes (map fst (filter (\<lambda>(name, content_type).
            contains (u ''vbaproject'') (zl_casefold (ox_zip lib) content_type) \<and> map_of ms name \<noteq> None) overrides)) in
      case vba_path app of None \<Rightarrow> typed
      | Some p \<Rightarrow> if map_of ms p \<noteq> None \<and> p \<notin> set typed then typed @ [p] else typed)"

definition count_objects :: "office_limits \<Rightarrow> members \<Rightarrow> ooxml_state \<Rightarrow> ooxml_state" where
  "count_objects l ms s =
     (let embedded = length (filter (has_prefix EMBEDDING_PREFIXES) (map fst ms));
          activex = length (filter (has_prefix ACTIVEX_PREFIXES) (map fst ms));
          s1 = s\<lparr>os_embedded_count := min embedded (ol_embedded_objects l),
            os_activex_count := min activex (ol_activex_objects l)\<rparr>;
          s2 = (if ol_embedded_objects l < embedded then ooxml_partial ''embedded_object_limit'' s1 else s1) in
      if ol_activex_objects l < activex then ooxml_partial ''activex_object_limit'' s2 else s2)"

definition count_projects :: "office_limits \<Rightarrow> ustring list \<Rightarrow> ooxml_state \<Rightarrow> ooxml_state" where
  "count_projects l projects s =
     (let s1 = s\<lparr>os_vba_project_count := length projects, os_macro_enabled := (os_macro_enabled s \<or> projects \<noteq> [])\<rparr> in
      if ol_vba_projects l < length projects then ooxml_partial ''vba_project_count_limit'' s1 else s1)"

definition inspect_capabilities ::
  "ooxml_lib \<Rightarrow> office_limits \<Rightarrow> members \<Rightarrow> (ustring \<times> ustring) list \<Rightarrow> zip_archive \<Rightarrow> unit ooxml_run" where
  "inspect_capabilities lib l ms overrides archive =
     bindE (modifyE (count_objects l ms)) (\<lambda>_.
     bindE (getE (\<lambda>s. vba_members lib ms overrides (os_application s))) (\<lambda>projects.
     bindE (modifyE (count_projects l projects)) (\<lambda>_.
     forE (inspect_vba_member lib l archive ms) (take (ol_vba_projects l) projects))))"

section \<open>The report and the whole analysis\<close>

definition ooxml_findings :: "office_limits \<Rightarrow> ooxml_state \<Rightarrow> observation list" where
  "ooxml_findings l s =
     macro_findings l (os_application s) (os_macro_enabled s) (os_vba_project_count s) (os_vba s) @
     when_found (os_external_count s \<noteq> 0) ''OFFICE_EXTERNAL_RELATIONSHIP''
       (obj [(''count'', jnat (os_external_count s)), (''targets'', JList (map JObj (os_external_summaries s))),
         (''targets_capped'', JBool (os_external_capped s))]) @
     when_found (os_template_count s \<noteq> 0) ''OFFICE_EXTERNAL_TEMPLATE''
       (obj [(''count'', jnat (os_template_count s)), (''targets'', JList (map JObj (os_template_summaries s)))]) @
     container_findings OC_OOXML (os_embedded_count s) (os_activex_count s) (os_encrypted s) (os_malformed s)
       (os_parser_exception s) (os_partial_reasons s)"

definition OFFICE_XML_PARSER_VERSION :: string where "OFFICE_XML_PARSER_VERSION = ''0.7.1''"

definition ooxml_metadata :: "ooxml_lib \<Rightarrow> ooxml_state \<Rightarrow> json_object" where
  "ooxml_metadata lib s = obj [
     (''container'', jtext (container_value OC_OOXML)), (''application'', jtext (application_value (os_application s))),
     (''parser_status'', jtext (office_status_value (office_status (os_malformed s) (os_partial_reasons s)))),
     (''xml_parser'', jtext ''defusedxml''), (''xml_parser_version'', jtext (ox_xml_version lib)),
     (''entry_count'', jnat (os_entry_count s)), (''actual_bytes_read'', jnat (os_bytes_read s)),
     (''xml_parts_parsed'', jnat (os_xml_parts_parsed s)), (''xml_bytes_parsed'', jnat (os_xml_bytes_parsed s)),
     (''relationship_count'', jnat (os_relationship_count s)),
     (''external_relationship_count'', jnat (os_external_count s)),
     (''embedded_object_count'', jnat (os_embedded_count s)), (''activex_count'', jnat (os_activex_count s)),
     (''macro_enabled'', JBool (os_macro_enabled s)), (''vba_project_count'', jnat (os_vba_project_count s)),
     (''vba_module_count'', jnat (va_module_count (os_vba s))), (''encrypted'', JBool (os_encrypted s)),
     (''partial_reasons'', jsorted (os_partial_reasons s))]"

text \<open>The version of the XML parser is compared only after the inspection.\<close>

definition ooxml_result :: "ooxml_lib \<Rightarrow> office_limits \<Rightarrow> ooxml_state \<Rightarrow> office_exn + office_analysis" where
  "ooxml_result lib l s =
     (if ox_xml_version lib \<noteq> OFFICE_XML_PARSER_VERSION then Inl (O_Other ''RuntimeError'')
      else Inr \<lparr>oa_container = OC_OOXML, oa_application = os_application s,
        oa_parser_status = office_status (os_malformed s) (os_partial_reasons s),
        oa_findings = ooxml_findings l s, oa_metadata = ooxml_metadata lib s\<rparr>)"

definition mark_package :: "office_limits \<Rightarrow> zip_info list \<Rightarrow> ooxml_state \<Rightarrow> ooxml_state" where
  "mark_package l infos s =
     (if list_ex is_encrypted infos then ooxml_partial ''encrypted_zip_member'' (s\<lparr>os_encrypted := True\<rparr>) else s)"

text \<open>The body of the \<open>try\<close>; the missing content types end it without an exception.\<close>

definition inspect_package :: "ooxml_lib \<Rightarrow> office_limits \<Rightarrow> zip_archive \<Rightarrow> members \<Rightarrow> unit ooxml_run" where
  "inspect_package lib l archive ms =
     bindE (read_xml lib l archive ms CONTENT_TYPES_PART True) (\<lambda>root.
     case root of None \<Rightarrow> returnE ()
     | Some r \<Rightarrow>
       bindE (content_type_overrides r) (\<lambda>overrides.
       bindE (classify_package lib overrides ms) (\<lambda>_.
       bindE (modifyE (\<lambda>s. if os_application s = APP_UNKNOWN
         then malformed_part ''inconsistent_package_structure'' None s else s)) (\<lambda>_.
       bindE (inspect_relationships lib l archive ms) (\<lambda>_.
       inspect_capabilities lib l ms overrides archive)))))"

definition caught :: "office_exn \<Rightarrow> (ooxml_state \<Rightarrow> ooxml_state) option" where
  "caught e = (case e of
     O_Limit reason \<Rightarrow> Some (ooxml_partial reason)
   | O_Xml name \<Rightarrow> Some (malformed_part ''unsafe_or_malformed_xml'' (Some name))
   | O_Zip z \<Rightarrow> if ze_kind z \<in> {Z_OS, Z_EOF, Z_BadZip, Z_Zlib}
       then Some (malformed_part ''zip_member_read_error'' (Some (ze_name z))) else None
   | O_Other _ \<Rightarrow> None)"

definition inspect_entries ::
  "ooxml_lib \<Rightarrow> office_limits \<Rightarrow> zip_archive \<Rightarrow> zip_info list \<Rightarrow> office_exn + office_analysis" where
  "inspect_entries lib l archive infos =
     (let names = map zi_filename infos;
          s0 = initial_ooxml\<lparr>os_entry_count := length infos\<rparr>;
          s1 = (if list_ex (\<lambda>n. ol_member_name_length l < length n) names
            then ooxml_partial ''zip_member_name_limit'' s0 else s0) in
      if ol_zip_entries l < length infos then ooxml_result lib l (ooxml_partial ''zip_entry_limit'' s0)
      else if \<not> distinct names then ooxml_result lib l (malformed_part ''duplicate_zip_member'' None s1)
      else case inspect_package lib l archive (zip names infos) (mark_package l infos s1) of
        (Inr _, s) \<Rightarrow> ooxml_result lib l s
      | (Inl e, s) \<Rightarrow> (case caught e of None \<Rightarrow> Inl e | Some note_it \<Rightarrow> ooxml_result lib l (note_it s)))"

definition analyze_ooxml :: "ooxml_lib \<Rightarrow> office_limits \<Rightarrow> office_exn + office_analysis option" where
  "analyze_ooxml lib l =
     (case zl_open (ox_zip lib) Sample_Path of
        Inl e \<Rightarrow> if ze_kind e \<in> {Z_OS, Z_BadZip, Z_LargeZip} then Inr None else Inl (O_Zip e)
      | Inr archive \<Rightarrow>
        (case za_infos archive of Inl e \<Rightarrow> Inl (O_Zip e)
         | Inr infos \<Rightarrow>
           if CONTENT_TYPES_PART \<notin> zi_filename ` set infos then Inr None
           else map_sum id Some (inspect_entries lib l archive infos)))"

end
