(* ===== verification/Ole_Office.thy ===== *)
theory Ole_Office
  imports Office_Report
begin

text \<open>
  The inspection of classic OLE documents, \<open>worker/analyzers/ole_office.py\<close>. olefile and the file
  of the sample are the record \<open>ole_lib\<close>.
\<close>

text \<open>\<open>oe_expected\<close>: the class is one of \<open>_EXPECTED_ERRORS\<close>.\<close>

record ole_exn =
  oe_expected :: bool
  oe_name :: string

record ole_lib =
  il_version :: string
  il_is_ole :: "ole_exn + bool"
  il_open :: "ole_exn + unit"
  il_listdir :: "ole_exn + ustring list list"
  il_read :: "nat \<Rightarrow> nat \<Rightarrow> ole_exn + bytes"
  il_casefold :: "ustring \<Rightarrow> ustring"
  il_vba :: vba_lib

record ole_state =
  le_application :: office_application
  le_stream_count :: nat
  le_macro_enabled :: bool
  le_vba_project_count :: nat
  le_embedded_count :: nat
  le_activex_count :: nat
  le_encrypted :: bool
  le_malformed :: bool
  le_parser_exception :: "string option"
  le_partial_reasons :: "string list"
  le_vba :: vba_analysis

definition initial_ole :: ole_state where
  "initial_ole = \<lparr>le_application = APP_UNKNOWN, le_stream_count = 0, le_macro_enabled = False,
     le_vba_project_count = 0, le_embedded_count = 0, le_activex_count = 0, le_encrypted = False,
     le_malformed = False, le_parser_exception = None, le_partial_reasons = [], le_vba = empty_vba\<rparr>"

type_synonym 'a ole_run = "(ole_state, ole_exn, 'a) prog"

definition ole_partial :: "string \<Rightarrow> ole_state \<Rightarrow> ole_state" where
  "ole_partial reason s = s\<lparr>le_partial_reasons := List.insert reason (le_partial_reasons s)\<rparr>"

definition classify_application :: "ustring list \<Rightarrow> office_application" where
  "classify_application entries =
     (if u ''worddocument'' \<in> set entries then APP_WORD
      else if u ''workbook'' \<in> set entries \<or> u ''book'' \<in> set entries then APP_EXCEL
      else if u ''powerpoint document'' \<in> set entries then APP_POWERPOINT else APP_UNKNOWN)"

text \<open>The bytes of the sample up to a maximum; \<open>None\<close> when it is longer.\<close>

function read_path_bounded :: "(nat \<Rightarrow> nat \<Rightarrow> ole_exn + bytes) \<Rightarrow> nat \<Rightarrow> bytes \<Rightarrow> ole_exn + bytes option" where
  "read_path_bounded read maximum_bytes data =
     (case read (length data) (min 65536 (maximum_bytes + 1 - length data)) of
        Inl e \<Rightarrow> Inl e
      | Inr chunk \<Rightarrow> if chunk = [] then Inr (Some data)
        else if maximum_bytes < length (data @ chunk) then Inr None
        else read_path_bounded read maximum_bytes (data @ chunk))"
  by pat_completeness auto
termination by (relation "measure (\<lambda>(read, m, data). Suc m - length data)") (auto simp: neq_Nil_conv)

declare read_path_bounded.simps [simp del]

definition normalized_entries :: "ole_lib \<Rightarrow> ustring list list \<Rightarrow> ustring list" where
  "normalized_entries lib entries = remdups (map (\<lambda>parts. join [47] (map (il_casefold lib) parts)) entries)"

definition leaf :: "ustring \<Rightarrow> ustring" where
  "leaf entry = last (split_on 47 entry)"

definition embeds_object :: "ustring \<Rightarrow> bool" where
  "embeds_object entry \<longleftrightarrow> leaf entry \<in> {1 # u ''ole10native'', u ''ole10native'', u ''package''} \<or>
     starts_with (u ''objectpool/'') entry"

definition is_activex :: "ustring \<Rightarrow> bool" where
  "is_activex entry \<longleftrightarrow> starts_with (u ''ctls/'') entry \<or> starts_with (u ''activex/'') entry \<or>
     contains (u ''/activex/'') entry"

definition is_vba_dir :: "ustring \<Rightarrow> bool" where
  "is_vba_dir entry \<longleftrightarrow> ends_with (u ''/dir'') entry \<and> (starts_with (u ''vba/'') entry \<or> contains (u ''/vba/'') entry)"

definition parent :: "ustring \<Rightarrow> ustring" where
  "parent entry = take (length entry - length (leaf entry) - 1) entry"

definition note_entries :: "ole_lib \<Rightarrow> office_limits \<Rightarrow> ustring list list \<Rightarrow> ole_state \<Rightarrow> ole_state" where
  "note_entries lib l listed s =
     (let normalized = normalized_entries lib (take (ol_zip_entries l) listed);
          leaves_of = map leaf normalized;
          embedded = length (filter embeds_object normalized);
          activex = length (filter is_activex normalized);
          s1 = s\<lparr>le_stream_count := length listed\<rparr>;
          s2 = (if ol_zip_entries l < length listed then ole_partial ''ole_entry_limit'' s1 else s1);
          s3 = s2\<lparr>le_application := classify_application normalized,
            le_encrypted := (u ''encryptioninfo'' \<in> set leaves_of \<and> u ''encryptedpackage'' \<in> set leaves_of),
            le_embedded_count := min embedded (ol_embedded_objects l)\<rparr>;
          s4 = (if ol_embedded_objects l < embedded then ole_partial ''embedded_object_limit'' s3 else s3);
          s5 = s4\<lparr>le_activex_count := min activex (ol_activex_objects l)\<rparr>;
          s6 = (if ol_activex_objects l < activex then ole_partial ''activex_object_limit'' s5 else s5) in
      s6\<lparr>le_vba_project_count := length (remdups (map parent (filter is_vba_dir normalized)))\<rparr>)"

definition note_ole_vba :: "vba_analysis \<Rightarrow> ole_state \<Rightarrow> ole_state" where
  "note_ole_vba vba s =
     (let s1 = s\<lparr>le_vba := vba, le_partial_reasons := fold List.insert (va_partial_reasons vba) (le_partial_reasons s)\<rparr> in
      if va_macro_detected vba then s1\<lparr>le_vba_project_count := max 1 (le_vba_project_count s1)\<rparr> else s1)"

definition inspect_ole_vba :: "ole_lib \<Rightarrow> office_limits \<Rightarrow> unit ole_run" where
  "inspect_ole_vba lib l =
     bindE (fromE (read_path_bounded (il_read lib) (ol_vba_project_bytes l) [])) (\<lambda>data.
     case data of None \<Rightarrow> modifyE (ole_partial ''vba_project_size_limit'')
     | Some bs \<Rightarrow> (case analyze_vba_blob (il_vba lib) l bs of
         Inl e \<Rightarrow> raiseE \<lparr>oe_expected = False, oe_name = ve_name e\<rparr>
       | Inr vba \<Rightarrow> modifyE (note_ole_vba vba)))"

text \<open>The body of the \<open>try\<close>; \<open>False\<close> when the container is no Office document.\<close>

definition inspect_ole :: "ole_lib \<Rightarrow> office_limits \<Rightarrow> bool ole_run" where
  "inspect_ole lib l =
     bindE (fromE (il_listdir lib)) (\<lambda>listed.
     bindE (modifyE (note_entries lib l listed)) (\<lambda>_.
     bindE (getE (\<lambda>s. le_application s \<noteq> APP_UNKNOWN \<and> \<not> le_encrypted s)) (\<lambda>readable.
     bindE (if readable then inspect_ole_vba lib l else returnE ()) (\<lambda>_.
     bindE (modifyE (\<lambda>s. s\<lparr>le_macro_enabled := (le_vba_project_count s \<noteq> 0 \<or> va_macro_detected (le_vba s))\<rparr>)) (\<lambda>_.
     bindE (getE (\<lambda>s. le_application s = APP_UNKNOWN \<and> \<not> (le_encrypted s \<or> le_macro_enabled s))) (\<lambda>foreign_container.
     if foreign_container then returnE False
     else bindE (modifyE (\<lambda>s.
         let s1 = (if le_application s = APP_UNKNOWN then ole_partial ''ole_application_unclassified'' s else s) in
         if le_encrypted s1 then ole_partial ''office_encryption_prevents_inspection'' s1 else s1)) (\<lambda>_. returnE True)))))))"

definition ole_findings :: "office_limits \<Rightarrow> ole_state \<Rightarrow> observation list" where
  "ole_findings l s =
     macro_findings l (le_application s) (le_macro_enabled s) (le_vba_project_count s) (le_vba s) @
     container_findings OC_OLE (le_embedded_count s) (le_activex_count s) (le_encrypted s) (le_malformed s)
       (le_parser_exception s) (le_partial_reasons s)"

definition ole_metadata :: "ole_lib \<Rightarrow> ole_state \<Rightarrow> json_object" where
  "ole_metadata lib s = obj [
     (''container'', jtext (container_value OC_OLE)), (''application'', jtext (application_value (le_application s))),
     (''parser_status'', jtext (office_status_value (office_status (le_malformed s) (le_partial_reasons s)))),
     (''ole_parser'', jtext ''olefile''), (''ole_parser_version'', jtext (il_version lib)),
     (''entry_count'', jnat (le_stream_count s)), (''macro_enabled'', JBool (le_macro_enabled s)),
     (''vba_project_count'', jnat (le_vba_project_count s)), (''vba_module_count'', jnat (va_module_count (le_vba s))),
     (''embedded_object_count'', jnat (le_embedded_count s)), (''activex_count'', jnat (le_activex_count s)),
     (''encrypted'', JBool (le_encrypted s)), (''partial_reasons'', jsorted (le_partial_reasons s))]"

definition ole_result :: "ole_lib \<Rightarrow> office_limits \<Rightarrow> ole_state \<Rightarrow> office_analysis" where
  "ole_result lib l s = \<lparr>oa_container = OC_OLE, oa_application = le_application s,
     oa_parser_status = office_status (le_malformed s) (le_partial_reasons s),
     oa_findings = ole_findings l s, oa_metadata = ole_metadata lib s\<rparr>"

definition ole_error :: "string \<Rightarrow> ole_exn \<Rightarrow> ole_state \<Rightarrow> ole_state" where
  "ole_error reason e s = ole_partial reason (s\<lparr>le_malformed := True, le_parser_exception := Some (oe_name e)\<rparr>)"

definition analyze_ole_office :: "ole_lib \<Rightarrow> office_limits \<Rightarrow> ole_exn + office_analysis option" where
  "analyze_ole_office lib l =
     (if il_version lib \<noteq> OFFICE_OLE_PARSER_VERSION then Inl \<lparr>oe_expected = False, oe_name = ''RuntimeError''\<rparr>
      else case il_is_ole lib of
        Inl e \<Rightarrow> if oe_expected e then Inr None else Inl e
      | Inr is_ole \<Rightarrow>
        if \<not> is_ole then Inr None
        else (case il_open lib of
          Inl e \<Rightarrow> if oe_expected e
            then Inr (Some (ole_result lib l (ole_error ''ole_parser_rejected_container'' e initial_ole))) else Inl e
        | Inr _ \<Rightarrow> (case inspect_ole lib l initial_ole of
            (Inr office, s) \<Rightarrow> Inr (if office then Some (ole_result lib l s) else None)
          | (Inl e, s) \<Rightarrow> if oe_expected e
              then Inr (Some (ole_result lib l (ole_error ''ole_parser_error'' e s))) else Inl e)))"

end
