(* ===== verification/Worker_Main.thy ===== *)
theory Worker_Main
  imports Yara_Engine Pdf_Report Ooxml Ole_Office
begin

text \<open>
  The worker entry point, \<open>worker/main.py\<close>, and the Office routing of
  \<open>worker/analyzers/office.py\<close>: a request is read, the sample is identified, the analyzers of its
  family and the YARA engine run one after the other, and one report is printed. The sample, the
  libraries, the clock and the class hierarchy of Python's exceptions are the record \<open>worker_lib\<close>.
\<close>

section \<open>The world of one worker\<close>

text \<open>An exception is the name of its class; \<open>wl_refused\<close> says of a name whether the class is an
  \<open>OSError\<close>, a \<open>UnicodeError\<close> or a \<open>ValueError\<close>.\<close>

record 'r worker_lib =
  wl_parse :: "ustring \<Rightarrow> string + json"
  wl_refused :: "string \<Rightarrow> bool"
  wl_size :: "ustring \<Rightarrow> string + nat"
  wl_size_later :: "ustring \<Rightarrow> string + nat"
  wl_file :: "ustring list \<Rightarrow> run_result"
  wl_decode :: "bytes \<Rightarrow> ustring"
  wl_casefold :: "ustring \<Rightarrow> ustring"
  wl_frames :: nat
  wl_pdf :: pdf_lib
  wl_ooxml :: ooxml_lib
  wl_ole :: ole_lib
  wl_yara :: "'r yara_lib"
  wl_rules_root :: ustring
  wl_started :: instant
  wl_completed :: instant
  wl_started_ns :: int
  wl_ended_ns :: int
  wl_yara_started_ns :: int
  wl_yara_ended_ns :: int
  wl_isoformat :: "instant \<Rightarrow> ustring"

record worker_report =
  wo_status :: analysis_status
  wo_detected_type :: "string option"
  wo_size_bytes :: nat
  wo_findings :: "finding list"
  wo_metadata :: json_object
  wo_started_at :: instant
  wo_completed_at :: instant
  wo_duration_ms :: int

text \<open>What the process does: it prints a report or the answer of the sanitizer and exits with 0,
  it exits with 2, or an exception leaves \<open>main\<close>.\<close>

datatype main_outcome = Reported worker_report | Sanitized json_object | Exit_Two string | Traceback string

text \<open>Steps that may raise.\<close>

definition attempt :: "string + 'a \<Rightarrow> ('a \<Rightarrow> string + 'b) \<Rightarrow> string + 'b" where
  "attempt m k = (case m of Inl e \<Rightarrow> Inl e | Inr x \<Rightarrow> k x)"

lemma attempt_simps [simp]: "attempt (Inl e) k = Inl e" "attempt (Inr x) k = k x"
  by (simp_all add: attempt_def)

lemma attempt_returns: "attempt m k = Inr y \<Longrightarrow> (\<And>x. m = Inr x \<Longrightarrow> k x = Inr y \<Longrightarrow> P) \<Longrightarrow> P"
  by (cases m) auto

section \<open>The request\<close>

definition get_or :: "json_object \<Rightarrow> string \<Rightarrow> json \<Rightarrow> json" where
  "get_or m k otherwise = (case jget m k of None \<Rightarrow> otherwise | Some v \<Rightarrow> v)"

definition parse_request :: "(ustring \<Rightarrow> string + json) \<Rightarrow> ustring \<Rightarrow> string + json_object \<times> ustring" where
  "parse_request loads raw =
     (case loads raw of
        Inl e \<Rightarrow> Inl e
      | Inr (JObj value) \<Rightarrow>
          if jget value ''schema_version'' \<noteq> Some (jtext ANALYSIS_SCHEMA_VERSION) then Inl ''ValueError''
          else (case jget value ''sample_path'' of
              Some (JStr sample_path) \<Rightarrow> if starts_with [47] sample_path then Inr (value, sample_path) else Inl ''ValueError''
            | _ \<Rightarrow> Inl ''ValueError'')
      | Inr _ \<Rightarrow> Inl ''ValueError'')"

section \<open>The analyzers\<close>

type_synonym analyzer_section = "finding list \<times> json_object \<times> bool"

text \<open>The findings of an analyzer; an unknown code is a \<open>KeyError\<close>.\<close>

definition built :: "observation list \<Rightarrow> string + finding list" where
  "built observed = (case payloads observed of None \<Rightarrow> Inl ''KeyError'' | Some fs \<Rightarrow> Inr fs)"

definition run_pdf_analysis :: "'r worker_lib \<Rightarrow> file_family \<Rightarrow> string + analyzer_section" where
  "run_pdf_analysis lib detected_family =
     (case analyze_pdf (wl_frames lib) (wl_pdf lib) DEFAULT_PDF_LIMITS detected_family of
        Inl None \<Rightarrow> Inl ''RuntimeError''
      | Inl (Some e) \<Rightarrow> Inl (px_name e)
      | Inr a \<Rightarrow> attempt (built (pa_findings a)) (\<lambda>fs. Inr (fs, pa_metadata a, pdf_complete a)))"

definition office_exn_name :: "office_exn \<Rightarrow> string" where
  "office_exn_name e = (case e of O_Limit _ \<Rightarrow> ''OfficeLimitError'' | O_Zip z \<Rightarrow> ze_name z | O_Xml n \<Rightarrow> n | O_Other n \<Rightarrow> n)"

definition analyze_office :: "'r worker_lib \<Rightarrow> file_family \<Rightarrow> string + office_analysis option" where
  "analyze_office lib detected_family =
     (if detected_family \<in> {FF_ZIP, FF_OOXML_CANDIDATE}
      then map_sum office_exn_name id (analyze_ooxml (wl_ooxml lib) DEFAULT_OFFICE_LIMITS)
      else if detected_family = FF_OLE_COMPOUND
      then map_sum oe_name id (analyze_ole_office (wl_ole lib) DEFAULT_OFFICE_LIMITS)
      else Inl ''OfficeRoutingError'')"

definition run_office_analysis ::
  "'r worker_lib \<Rightarrow> file_family \<Rightarrow> string + (analyzer_section \<times> string) option" where
  "run_office_analysis lib detected_family =
     attempt (analyze_office lib detected_family) (\<lambda>analysis. case analysis of None \<Rightarrow> Inr None
       | Some a \<Rightarrow> attempt (built (oa_findings a)) (\<lambda>fs.
           Inr (Some ((fs, oa_metadata a, office_complete a), office_detected_type a))))"

text \<open>A generic ZIP is always reported as \<open>ZIP\<close>.\<close>

definition run_archive_analysis ::
  "'r worker_lib \<Rightarrow> ustring \<Rightarrow> file_family \<Rightarrow> string + analyzer_section \<times> string" where
  "run_archive_analysis lib sample_path detected_family =
     (case analyze_archive (ox_zip (wl_ooxml lib)) DEFAULT_ARCHIVE_LIMITS
         (map_sum (\<lambda>n. \<lparr>ze_kind = Z_OS, ze_name = n\<rparr>) id (wl_size lib sample_path)) detected_family of
        Inl None \<Rightarrow> Inl ''ArchiveRoutingError''
      | Inl (Some e) \<Rightarrow> Inl (ze_name e)
      | Inr a \<Rightarrow> attempt (built (aa_findings a)) (\<lambda>fs. Inr ((fs, aa_metadata a, archive_complete a), ''ZIP'')))"

definition run_yara_analysis :: "'r worker_lib \<Rightarrow> ustring \<Rightarrow> string + analyzer_section" where
  "run_yara_analysis lib sample_path =
     (case scan_top_level_file (wl_yara lib) DEFAULT_YARA_LIMITS None (wl_rules_root lib) sample_path
         (wl_yara_started_ns lib) (wl_yara_ended_ns lib) of
        Inl (Rule_Pack_Error _) \<Rightarrow> Inl ''YaraRulePackError''
      | Inl Unencodable_Metadata \<Rightarrow> Inl ''UnicodeEncodeError''
      | Inl Unknown_Finding \<Rightarrow> Inl ''KeyError''
      | Inr a \<Rightarrow> Inr (ya_findings a, ya_metadata a, yara_complete a))"

section \<open>One analysis\<close>

definition uses_office :: "file_family \<Rightarrow> bool" where
  "uses_office fam \<longleftrightarrow> fam \<in> {FF_ZIP, FF_OOXML_CANDIDATE, FF_OLE_COMPOUND}"

definition uses_archive :: "file_family \<Rightarrow> bool" where
  "uses_archive fam \<longleftrightarrow> fam \<in> {FF_ZIP, FF_OOXML_CANDIDATE}"

definition when_family :: "bool \<Rightarrow> string + 'a option \<Rightarrow> string + 'a option" where
  "when_family b m = (if b then m else Inr None)"

text \<open>The sections of a report: the analyzer of the family, and the type it detects.\<close>

record sections =
  sc_pdf :: "analyzer_section option"
  sc_office :: "analyzer_section option"
  sc_archive :: "analyzer_section option"
  sc_yara :: analyzer_section
  sc_type :: string

definition run_analyzers :: "'r worker_lib \<Rightarrow> ustring \<Rightarrow> file_family \<Rightarrow> string + sections" where
  "run_analyzers lib sample_path fam =
     attempt (when_family (fam = FF_PDF) (map_sum id Some (run_pdf_analysis lib fam))) (\<lambda>pdf.
     attempt (when_family (uses_office fam) (run_office_analysis lib fam)) (\<lambda>office.
     attempt (when_family (office = None \<and> uses_archive fam)
       (map_sum id Some (run_archive_analysis lib sample_path fam))) (\<lambda>archive.
     attempt (run_yara_analysis lib sample_path) (\<lambda>yara.
     Inr \<lparr>sc_pdf = pdf, sc_office = map_option fst office, sc_archive = map_option fst archive, sc_yara = yara,
       sc_type = (case office of Some (_, t) \<Rightarrow> t
         | None \<Rightarrow> (case archive of Some (_, t) \<Rightarrow> t | None \<Rightarrow> family_value fam))\<rparr>))))"

definition section_findings :: "analyzer_section option \<Rightarrow> finding list" where
  "section_findings s = (case s of None \<Rightarrow> [] | Some (fs, _, _) \<Rightarrow> fs)"

definition section_complete :: "analyzer_section option \<Rightarrow> bool" where
  "section_complete s \<longleftrightarrow> (case s of None \<Rightarrow> True | Some (_, _, complete) \<Rightarrow> complete)"

definition section_metadata :: "string \<Rightarrow> analyzer_section option \<Rightarrow> (string \<times> json) list" where
  "section_metadata k s = (case s of None \<Rightarrow> [] | Some (_, m, _) \<Rightarrow> [(k, JObj m)])"

definition report_status :: "file_identification \<Rightarrow> sections \<Rightarrow> analysis_status" where
  "report_status identification s =
     (if list_all section_complete [sc_pdf s, sc_office s, sc_archive s, Some (sc_yara s)]
      then if identified_supported identification then AS_SUCCESS else AS_UNSUPPORTED
      else AS_FAILED)"

definition duration_ms :: "'r worker_lib \<Rightarrow> int" where
  "duration_ms lib = max 0 ((wl_ended_ns lib - wl_started_ns lib) div 1000000)"

definition success_report ::
  "'r worker_lib \<Rightarrow> ustring \<Rightarrow> nat \<Rightarrow> file_identification \<Rightarrow> finding list \<Rightarrow> sections \<Rightarrow> worker_report" where
  "success_report lib filename size_bytes identification named s = \<lparr>
     wo_status = report_status identification s, wo_detected_type = Some (sc_type s), wo_size_bytes = size_bytes,
     wo_findings = named @ section_findings (sc_pdf s) @ section_findings (sc_office s) @
       section_findings (sc_archive s) @ section_findings (Some (sc_yara s)),
     wo_metadata = obj ([(''analyzer'', jtext ''libmagic-file''), (''detected_mime'', JStr (fi_mime identification)),
         (''signature_description'', JStr (fi_description identification)),
         (''claimed_extension'', jopt (final_extension (wl_casefold lib) filename))] @
       section_metadata ''pdf'' (sc_pdf s) @ section_metadata ''office'' (sc_office s) @
       section_metadata ''archive'' (sc_archive s) @ section_metadata ''yara'' (Some (sc_yara s))),
     wo_started_at = wl_started lib, wo_completed_at = wl_completed lib, wo_duration_ms = duration_ms lib\<rparr>"

definition unidentified_report :: "'r worker_lib \<Rightarrow> nat \<Rightarrow> worker_report" where
  "unidentified_report lib size_bytes = \<lparr>wo_status = AS_FAILED, wo_detected_type = None, wo_size_bytes = size_bytes,
     wo_findings = [], wo_metadata = obj [(''analyzer'', jtext ''libmagic-file''),
       (''error_code'', jtext ''file_identification_failed'')],
     wo_started_at = wl_started lib, wo_completed_at = wl_completed lib, wo_duration_ms = duration_ms lib\<rparr>"

text \<open>The names a request may claim.\<close>

definition claimed_names :: "json_object \<Rightarrow> string + ustring \<times> ustring option" where
  "claimed_names request =
     (case (get_or request ''original_filename'' (jtext ''unnamed-document''), get_or request ''claimed_content_type'' JNull) of
        (JStr filename, JStr content_type) \<Rightarrow> Inr (filename, Some content_type)
      | (JStr filename, JNull) \<Rightarrow> Inr (filename, None)
      | _ \<Rightarrow> Inl ''ValueError'')"

definition analyze_identified ::
  "'r worker_lib \<Rightarrow> json_object \<Rightarrow> ustring \<Rightarrow> nat \<Rightarrow> file_identification \<Rightarrow> string + worker_report" where
  "analyze_identified lib request sample_path size_bytes identification =
     attempt (claimed_names request) (\<lambda>(filename, content_type).
     attempt (built (security_findings (wl_casefold lib) filename identification content_type)) (\<lambda>named.
     attempt (run_analyzers lib sample_path (fi_family identification)) (\<lambda>s.
     Inr (success_report lib filename size_bytes identification named s))))"

text \<open>What is raised inside the \<open>try\<close> ends in exit code 2 or leaves \<open>main\<close>.\<close>

definition refused :: "'r worker_lib \<Rightarrow> string + main_outcome \<Rightarrow> main_outcome" where
  "refused lib r = (case r of Inr outcome \<Rightarrow> outcome | Inl e \<Rightarrow> if wl_refused lib e then Exit_Two e else Traceback e)"

text \<open>\<open>main\<close>; the sanitizer of \<open>worker/cdr.py\<close> is the argument \<open>sanitize\<close>.\<close>

definition main ::
  "'r worker_lib \<Rightarrow> (ustring \<Rightarrow> json_object \<Rightarrow> string + json_object) \<Rightarrow> ustring \<Rightarrow> main_outcome" where
  "main lib sanitize raw = refused lib (
     attempt (parse_request (wl_parse lib) raw) (\<lambda>(request, sample_path).
     let operation = get_or request ''operation'' (jtext ''ANALYZE'') in
     if operation = jtext ''SANITIZE_PDF'' then map_sum id Sanitized (sanitize sample_path request)
     else if operation \<noteq> jtext ''ANALYZE'' then Inl ''ValueError''
     else attempt (wl_size lib sample_path) (\<lambda>size_bytes.
       case identify_file (wl_file lib) (wl_decode lib) (wl_casefold lib) sample_path of
         None \<Rightarrow> Inr (case wl_size_later lib sample_path of Inl e \<Rightarrow> Traceback e
           | Inr n \<Rightarrow> Reported (unidentified_report lib n))
       | Some identification \<Rightarrow>
           map_sum id Reported (analyze_identified lib request sample_path size_bytes identification))))"

section \<open>The report on the wire\<close>

primrec severity_value :: "severity \<Rightarrow> string" where
  "severity_value INFO = ''INFO''"
| "severity_value LOW = ''LOW''"
| "severity_value MEDIUM = ''MEDIUM''"
| "severity_value HIGH = ''HIGH''"
| "severity_value CRITICAL = ''CRITICAL''"

definition finding_json :: "finding \<Rightarrow> json" where
  "finding_json f = JObj (obj [(''code'', jtext (f_code f)), (''title'', jtext (f_title f)),
     (''description'', jtext (f_description f)), (''category'', jtext (f_category f)),
     (''severity'', jtext (severity_value (f_severity f))), (''score_delta'', JInt (f_score_delta f)),
     (''mitre_techniques'', jcodes (f_mitre_techniques f)), (''metadata'', JObj (f_metadata f))])"

definition report_json :: "'r worker_lib \<Rightarrow> worker_report \<Rightarrow> json" where
  "report_json lib r = JObj (obj [(''schema_version'', jtext ANALYSIS_SCHEMA_VERSION), (''worker_version'', jtext WORKER_VERSION),
     (''status'', jtext (status_value (wo_status r))),
     (''detected_type'', case wo_detected_type r of None \<Rightarrow> JNull | Some t \<Rightarrow> jtext t),
     (''size_bytes'', JInt (int (wo_size_bytes r))), (''findings'', JList (map finding_json (wo_findings r))),
     (''analyzer_metadata'', JObj (wo_metadata r)), (''started_at'', JStr (wl_isoformat lib (wo_started_at r))),
     (''completed_at'', JStr (wl_isoformat lib (wo_completed_at r))), (''duration_ms'', JInt (wo_duration_ms r))])"

end
