(* ===== verification/Office_Effects.thy ===== *)
theory Office_Effects
  imports Ooxml
begin

text \<open>
  What the steps of the OOXML analyzer may change in its state: a preorder that allows every
  update holds between the state before a step and the state after it. Its two interpretations
  say that evidence only grows and that the limits are respected.
\<close>

locale part_effects = effects R for R :: "ooxml_state \<Rightarrow> ooxml_state \<Rightarrow> bool" +
  assumes on_bytes: "R s (s\<lparr>os_bytes_read := os_bytes_read s + k\<rparr>)"
    and on_encrypted: "R s (s\<lparr>os_encrypted := True\<rparr>)"
begin

lemma leaves_account: "leaves R (account_chunk l m data chunk)"
  unfolding account_chunk_def
  by (intro leaves_bind leaves_modify leaves_if leaves_raise leaves_get leaves_return on_bytes)

lemma leaves_chunks: "leaves R (read_chunks l stream m data)"
proof -
  have "l' = l \<Longrightarrow> R s (snd (read_chunks l' stream m data s))" for l' s
  proof (induction l' stream m data s rule: read_chunks.induct)
    case (1 l' stream m data s)
    have step: "R s s1" if "account_chunk l m data chunk s = (r, s1)" for chunk r s1
      using leavesD [OF leaves_account that] .
    have "R s (snd (read_chunks l stream m d' s1))" if "stream (length data) (min 65536 (m + 1 - length data)) = Inr chunk"
      "chunk \<noteq> []" "account_chunk l m data chunk s = (Inr d', s1)" for chunk d' s1
      using onward [OF step [OF that(3)]] 1(1) [OF that(1,2), of "Inr d'" s1 d'] that(3) 1(2) by simp
    then show ?case
      using 1(2) step by (subst read_chunks.simps) (auto simp: here split: sum.split prod.split)
  qed
  then show ?thesis by (simp add: leaves_def)
qed

lemma leaves_part: "leaves R (read_part l archive ms name n)"
  unfolding read_part_def Let_def
  by (auto simp: leaves_raise leaves_chunks on_encrypted split: option.split sum.split if_splits
      intro!: leaves_catch leaves_bind leaves_modify)

end

text \<open>What a part delivers is within the bytes it may have.\<close>

lemma read_chunks_length: "read_chunks l stream m data s = (Inr d, t) \<Longrightarrow> length data \<le> m \<Longrightarrow> length d \<le> m"
proof (induction l stream m data s rule: read_chunks.induct)
  case (1 l stream m data s)
  have run: "(case stream (length data) (min 65536 (m + 1 - length data)) of Inl e \<Rightarrow> (Inl (O_Zip e), s)
      | Inr chunk \<Rightarrow> if chunk = [] then (Inr data, s)
        else (case account_chunk l m data chunk s of (Inl e, s1) \<Rightarrow> (Inl e, s1)
          | (Inr data', s1) \<Rightarrow> read_chunks l stream m data' s1)) = (Inr d, t)"
    using 1(2) by (subst (asm) read_chunks.simps)
  show ?case
  proof (cases "stream (length data) (min 65536 (m + 1 - length data)) = Inr [] \<or> isl (stream (length data) (min 65536 (m + 1 - length data)))")
    case True
    with run 1(3) show ?thesis by (auto split: sum.splits)
  next
    case False
    then obtain chunk where c: "stream (length data) (min 65536 (m + 1 - length data)) = Inr chunk" "chunk \<noteq> []"
      by (cases "stream (length data) (min 65536 (m + 1 - length data))") auto
    obtain r s1 where a: "account_chunk l m data chunk s = (r, s1)" by fastforce
    with run c obtain d' where r: "r = Inr d'" and rest: "read_chunks l stream m d' s1 = (Inr d, t)" by (cases r) auto
    from account_chunk_grows a r have "length d' \<le> m" by blast
    with 1(1) [OF c _ r rest] a show ?thesis by simp
  qed
qed

lemma read_part_length:
  assumes "read_part l archive ms name n s = (Inr d, t)"
  shows "length d \<le> ol_member_bytes l" "n \<noteq> 0 \<Longrightarrow> length d \<le> n"
proof -
  from assms obtain stream where
    "read_chunks l stream (min (if n = 0 then ol_member_bytes l else n) (ol_member_bytes l)) [] s = (Inr d, t)"
    by (auto simp: read_part_def Let_def catchE_def raiseE_def bindE_def modifyE_def
        split: option.splits sum.splits prod.splits if_splits)
  from read_chunks_length [OF this] show "length d \<le> ol_member_bytes l" "n \<noteq> 0 \<Longrightarrow> length d \<le> n" by auto
qed

text \<open>Reading a part leaves the counters of XML alone.\<close>

definition same_xml :: "ooxml_state \<Rightarrow> ooxml_state \<Rightarrow> bool" where
  "same_xml s t \<longleftrightarrow> os_xml_parts_parsed t = os_xml_parts_parsed s \<and> os_xml_bytes_parsed t = os_xml_bytes_parsed s"

interpretation xml_free: part_effects same_xml
  by unfold_locales (simp_all add: same_xml_def)

lemma read_part_xml: "read_part l archive ms name n s = (r, t) \<Longrightarrow>
    os_xml_parts_parsed t = os_xml_parts_parsed s \<and> os_xml_bytes_parsed t = os_xml_bytes_parsed s"
  using leavesD [OF xml_free.leaves_part] by (simp add: same_xml_def)

text \<open>Reading macro projects also records reasons and what the macro parser found.\<close>

locale vba_effects = part_effects R for R :: "ooxml_state \<Rightarrow> ooxml_state \<Rightarrow> bool" +
  fixes l :: office_limits
  assumes on_partial: "R s (ooxml_partial reason s)"
    and on_vba: "R s (note_vba l v s)"
begin

lemma leaves_vba_member: "leaves R (inspect_vba_member lib l archive ms name)"
  unfolding inspect_vba_member_def
  by (intro leaves_bind leaves_catch leaves_part leaves_option)
    (auto simp: leaves_return leaves_raise on_partial on_vba intro!: leaves_bind leaves_modify split: office_exn.splits sum.split)

end

text \<open>All the updates of an inspection.\<close>

locale ooxml_effects = vba_effects R l for R :: "ooxml_state \<Rightarrow> ooxml_state \<Rightarrow> bool" and l :: office_limits +
  assumes on_malformed: "R s (malformed_part reason name s)"
    and on_xml: "os_xml_parts_parsed s < ol_xml_parts l \<Longrightarrow> k \<le> ol_xml_bytes l - os_xml_bytes_parsed s \<Longrightarrow>
       R s (s\<lparr>os_xml_parts_parsed := Suc (os_xml_parts_parsed s), os_xml_bytes_parsed := os_xml_bytes_parsed s + k\<rparr>)"
    and on_application: "R s (s\<lparr>os_application := app, os_macro_enabled := b\<rparr>)"
    and on_relationship: "os_relationship_count s < ol_relationships l \<Longrightarrow>
       R s (s\<lparr>os_relationship_count := Suc (os_relationship_count s)\<rparr>)"
    and on_external: "os_external_count s < ol_external_relationships l \<Longrightarrow>
       R s (s\<lparr>os_external_count := Suc (os_external_count s)\<rparr>)"
    and on_summary: "R s (note_summary l m s)"
    and on_template: "R s (note_template l m s)"
    and on_objects: "R s (count_objects l ms s)"
    and on_projects: "R s (count_projects l projects s)"
begin

lemma leaves_xml: "leaves R (read_xml lib l archive ms name required)"
proof -
  let ?k = "\<lambda>w. read_part l archive ms name (min (ol_xml_bytes l - os_xml_bytes_parsed w) (ol_member_bytes l))"
  let ?finish = "\<lambda>data. bindE (modifyE (\<lambda>s. s\<lparr>os_xml_parts_parsed := Suc (os_xml_parts_parsed s),
            os_xml_bytes_parsed := os_xml_bytes_parsed s + length data\<rparr>)) (\<lambda>_.
          bindE (fromE (ox_parse lib data)) (\<lambda>root. returnE (Some root)))"
  have after: "R w (snd (bindE (?k w) ?finish w))" if n: "os_xml_parts_parsed w < ol_xml_parts l" "os_xml_bytes_parsed w < ol_xml_bytes l" for w
  proof -
    obtain r s1 where run: "?k w w = (r, s1)" by fastforce
    have w1: "R w s1" using leavesD [OF leaves_part run] .
    show ?thesis
    proof (cases r)
      case (Inl e)
      with run w1 show ?thesis by (simp add: bindE_def)
    next
      case (Inr data)
      with run have run': "?k w w = (Inr data, s1)" by simp
      have same: "os_xml_parts_parsed s1 = os_xml_parts_parsed w" "os_xml_bytes_parsed s1 = os_xml_bytes_parsed w"
        using read_part_xml [OF run'] by simp_all
      have "length data \<le> ol_xml_bytes l - os_xml_bytes_parsed w" using read_part_length [OF run'] n by (cases "ol_member_bytes l = 0") auto
      with on_xml [of s1 "length data"] same n have "R s1 (s1\<lparr>os_xml_parts_parsed := Suc (os_xml_parts_parsed s1),
            os_xml_bytes_parsed := os_xml_bytes_parsed s1 + length data\<rparr>)" by simp
      with w1 have "R w (s1\<lparr>os_xml_parts_parsed := Suc (os_xml_parts_parsed s1),
            os_xml_bytes_parsed := os_xml_bytes_parsed s1 + length data\<rparr>)" by (rule onward)
      moreover have "snd (bindE (?k w) ?finish w) = s1\<lparr>os_xml_parts_parsed := Suc (os_xml_parts_parsed s1),
            os_xml_bytes_parsed := os_xml_bytes_parsed s1 + length data\<rparr>"
        using run' by (cases "ox_parse lib data") (simp_all add: bindE_def modifyE_def fromE_def raiseE_def returnE_def)
      ultimately show ?thesis by simp
    qed
  qed
  have rest: "leaves R (bindE (getE (\<lambda>s. (os_xml_parts_parsed s, ol_xml_bytes l - os_xml_bytes_parsed s))) (\<lambda>(parts, remaining).
        if ol_xml_parts l \<le> parts then raiseE (O_Limit ''xml_part_limit'')
        else if remaining = 0 then raiseE (O_Limit ''xml_actual_byte_limit'')
        else bindE (read_part l archive ms name (min remaining (ol_member_bytes l))) ?finish))"
    by (rule leaves_get_bind) (auto simp: raiseE_def here not_le after)
  show ?thesis
    unfolding read_xml_def
    by (rule leaves_if) (auto simp: on_malformed leaves_return intro!: leaves_bind leaves_modify rest)
qed

lemma leaves_overrides: "leaves R (note_overrides es overrides)"
  by (induction es overrides rule: note_overrides.induct)
    (auto simp: Let_def leaves_return leaves_raise on_malformed intro!: leaves_bind leaves_modify)

lemma leaves_content_types: "leaves R (content_type_overrides root)"
  by (simp add: content_type_overrides_def leaves_raise leaves_overrides)

lemma leaves_classify: "leaves R (classify_package lib overrides ms)"
  unfolding classify_package_def
  by (auto simp: leaves_return on_application intro!: leaves_modify split: list.split)

lemma snd_modify: "snd (modifyE f w) = f w"
  by (simp add: modifyE_def)

lemma leaves_note_external: "leaves R (note_external lib l e)"
proof -
  let ?m = "external_summary lib l (attribute e ''Type'') (attribute e ''Target'')"
  have "R w (snd (bindE (modifyE (\<lambda>s. s\<lparr>os_external_count := Suc (os_external_count w)\<rparr>)) (\<lambda>_.
      bindE (modifyE (note_summary l ?m)) (\<lambda>_.
      if is_template lib e then modifyE (note_template l ?m) else returnE ())) w))"
    if "os_external_count w < ol_external_relationships l" for w
    by (rule after_step) (auto simp: snd_modify on_external that on_summary on_template leaves_return
        intro!: leaves_bind leaves_modify)
  then show ?thesis
    unfolding note_external_def Let_def by (intro leaves_get_bind) (auto simp: raiseE_def here not_le)
qed

lemma leaves_relationships: "leaves R (note_relationships lib l collect es targets)"
proof (induction es arbitrary: collect targets)
  case (Cons e es)
  have "R w (snd (bindE (modifyE (\<lambda>s. s\<lparr>os_relationship_count := Suc (os_relationship_count w)\<rparr>)) (\<lambda>_.
      bindE (if collect \<and> is_external lib e then note_external lib l e else returnE ()) (\<lambda>_.
      note_relationships lib l collect es (targets @ office_target lib e))) w))"
    if "os_relationship_count w < ol_relationships l" for w
    by (rule after_step) (auto simp: snd_modify on_relationship that leaves_note_external leaves_return Cons intro!: leaves_bind)
  then show ?case
    by (auto simp: Cons raiseE_def here not_le intro!: leaves_get_bind)
qed (simp add: leaves_return)

lemma leaves_targets: "leaves R (relationship_targets lib l root collect)"
  by (simp add: relationship_targets_def leaves_raise leaves_relationships)

lemma leaves_part_relationships: "leaves R (inspect_part_relationships lib l archive ms name)"
  unfolding inspect_part_relationships_def
  by (intro leaves_bind leaves_xml leaves_option leaves_return leaves_targets)

lemma leaves_inspect_relationships: "leaves R (inspect_relationships lib l archive ms)"
  unfolding inspect_relationships_def
  by (intro leaves_bind leaves_xml leaves_option leaves_return leaves_targets leaves_get leaves_if leaves_modify on_malformed
      leaves_for leaves_part_relationships)

lemma leaves_capabilities: "leaves R (inspect_capabilities lib l ms overrides archive)"
  unfolding inspect_capabilities_def
  by (intro leaves_bind leaves_modify leaves_get leaves_for leaves_vba_member on_objects on_projects)

lemma leaves_package: "leaves R (inspect_package lib l archive ms)"
  unfolding inspect_package_def
  by (intro leaves_bind leaves_xml leaves_option leaves_return leaves_content_types leaves_classify leaves_modify
      leaves_inspect_relationships leaves_capabilities) (simp add: here on_malformed)

end

end
