(* ===== verification/Vba_Results.thy ===== *)
theory Vba_Results
  imports Office_Report
begin

text \<open>
  What a macro inspection without a reason to be partial has read: every module, in full, and
  every keyword the scanner reported for it.
\<close>

definition vba_grows :: "vba_analysis \<Rightarrow> vba_analysis \<Rightarrow> bool" where
  "vba_grows r r' \<longleftrightarrow> set (va_partial_reasons r) \<subseteq> set (va_partial_reasons r') \<and>
     set (va_autoexec_triggers r) \<subseteq> set (va_autoexec_triggers r') \<and>
     set (va_indicator_classes r) \<subseteq> set (va_indicator_classes r')"

interpretation vba: effects vba_grows
  by unfold_locales (auto simp: vba_grows_def)

lemma note_keyword_grows: "vba_grows r (note_keyword lib l entry r)"
  by (cases entry) (auto simp: note_keyword_def Let_def vba_grows_def split: option.splits)

lemma fold_keywords_grows: "vba_grows r (fold (note_keyword lib l) entries r)"
proof (induction entries arbitrary: r)
  case (Cons e entries)
  from vba.onward [OF note_keyword_grows Cons] show ?case by simp
qed (simp add: vba.here)

definition autoexec_keyword :: "vba_lib \<Rightarrow> ustring option \<times> ustring option \<Rightarrow> bool" where
  "autoexec_keyword lib entry \<longleftrightarrow> (case entry of (Some kind, Some keyword) \<Rightarrow>
     kind = u ''AutoExec'' \<and> strip (vl_casefold lib keyword) \<in> u ` set AUTOEXEC_NAMES | _ \<Rightarrow> False)"

definition execution_keyword :: "vba_lib \<Rightarrow> ustring option \<times> ustring option \<Rightarrow> bool" where
  "execution_keyword lib entry \<longleftrightarrow> (case entry of (Some kind, Some keyword) \<Rightarrow>
     kind = u ''Suspicious'' \<and> strip (vl_casefold lib keyword) \<in> u ` fst ` set EXECUTION_INDICATORS | _ \<Rightarrow> False)"

text \<open>Triggers, names and classes: a name is recorded with its class.\<close>

definition classed :: "vba_analysis \<Rightarrow> bool" where
  "classed r \<longleftrightarrow> (va_indicator_names r \<noteq> [] \<longrightarrow> va_indicator_classes r \<noteq> [])"

lemma insert_filled: "List.insert x xs \<noteq> []"
  by (auto simp: List.insert_def)

lemma note_keyword_classed: "classed r \<Longrightarrow> classed (note_keyword lib l entry r)"
  by (cases entry) (auto simp: note_keyword_def Let_def classed_def insert_filled split: option.splits)

lemma fold_keywords_classed: "classed r \<Longrightarrow> classed (fold (note_keyword lib l) entries r)"
  by (induction entries arbitrary: r) (simp_all add: note_keyword_classed)

lemma note_autoexec:
  "autoexec_keyword lib entry \<Longrightarrow> 0 < ol_metadata_entries l \<Longrightarrow> va_autoexec_triggers (note_keyword lib l entry r) \<noteq> []"
  by (auto simp: autoexec_keyword_def note_keyword_def Let_def insert_filled split: option.splits if_splits)

lemma note_execution:
  assumes "execution_keyword lib entry" "0 < ol_metadata_entries l" "classed r"
  shows "va_indicator_classes (note_keyword lib l entry r) \<noteq> []"
proof -
  from assms(1) obtain keyword where e: "entry = (Some (u ''Suspicious''), Some keyword)"
    and k: "strip (vl_casefold lib keyword) \<in> u ` fst ` set EXECUTION_INDICATORS"
    using assms(1) unfolding execution_keyword_def by (cases entry; cases "fst entry"; cases "snd entry") simp_all
  have "map_of (map (\<lambda>(k, c). (u k, c)) EXECUTION_INDICATORS) (strip (vl_casefold lib keyword)) \<noteq> None"
    using k by (simp add: map_of_eq_None_iff image_image case_prod_beta)
  then obtain c where c: "map_of (map (\<lambda>(k, c). (u k, c)) EXECUTION_INDICATORS) (strip (vl_casefold lib keyword)) = Some c" by blast
  have "note_keyword lib l entry r = (if length (va_indicator_names r) < ol_metadata_entries l
      then r\<lparr>va_indicator_names := List.insert (vba_text lib l keyword) (va_indicator_names r),
        va_indicator_classes := List.insert c (va_indicator_classes r)\<rparr> else r)"
    by (simp add: e note_keyword_def Let_def c)
  moreover have "va_indicator_names r \<noteq> []" if "\<not> length (va_indicator_names r) < ol_metadata_entries l" using that assms(2) by auto
  ultimately show ?thesis using assms(3) by (simp add: classed_def insert_filled)
qed

lemma fold_keywords_found:
  assumes "entry \<in> set entries" "0 < ol_metadata_entries l" "classed r"
  shows "(autoexec_keyword lib entry \<longrightarrow> va_autoexec_triggers (fold (note_keyword lib l) entries r) \<noteq> []) \<and>
    (execution_keyword lib entry \<longrightarrow> va_indicator_classes (fold (note_keyword lib l) entries r) \<noteq> [])"
  using assms
proof (induction entries arbitrary: r)
  case (Cons e entries)
  let ?r = "note_keyword lib l e r"
  have c: "classed ?r" using Cons.prems(3) by (rule note_keyword_classed)
  show ?case
  proof (cases "entry = e")
    case True
    with note_autoexec note_execution [OF _ Cons.prems(2,3)] Cons.prems(2)
    have "(autoexec_keyword lib entry \<longrightarrow> va_autoexec_triggers ?r \<noteq> []) \<and>
        (execution_keyword lib entry \<longrightarrow> va_indicator_classes ?r \<noteq> [])" by blast
    with fold_keywords_grows [of ?r lib l entries] show ?thesis by (auto simp: vba_grows_def)
  next
    case False
    with Cons c show ?thesis by simp
  qed
qed simp

section \<open>Modules\<close>

lemma leaves_scan: "leaves vba_grows (scan_source lib l t)"
  unfolding scan_source_def by (intro vba.leaves_bind vba.leaves_from vba.leaves_modify fold_keywords_grows)

lemma partial_grows: "vba_grows r (vba_partial reason r)"
  by (auto simp: vba_grows_def vba_partial_def)

lemma count_grows: "vba_grows r (count_module l shown remaining n r)"
  by (auto simp: count_module_def Let_def vba_grows_def vba_partial_def)

lemma count_cut: "remaining < n \<Longrightarrow> va_partial_reasons (count_module l shown remaining n r) \<noteq> []"
  by (simp add: count_module_def Let_def vba_partial_def insert_filled)

lemma count_classed: "classed (count_module l shown remaining n r) = classed r"
  by (simp add: count_module_def Let_def vba_partial_def classed_def)

text \<open>Nothing in the loop changes whether macros were detected.\<close>

definition same_detected :: "vba_analysis \<Rightarrow> vba_analysis \<Rightarrow> bool" where
  "same_detected r r' \<longleftrightarrow> va_macro_detected r' = va_macro_detected r"

interpretation detecting: effects same_detected
  by unfold_locales (auto simp: same_detected_def)

lemma fold_keywords_detected: "same_detected r (fold (note_keyword lib l) entries r)"
proof (induction entries arbitrary: r)
  case (Cons e entries)
  have "same_detected r (note_keyword lib l e r)"
    by (cases e) (auto simp: note_keyword_def Let_def same_detected_def split: option.splits)
  from detecting.onward [OF this Cons] show ?case by simp
qed (simp add: detecting.here)

lemma detected_updates: "same_detected r (vba_partial reason r)" "same_detected r (count_module l shown remaining n r)"
  by (simp_all add: same_detected_def vba_partial_def count_module_def Let_def)

lemma leaves_detected: "leaves same_detected (inspect_modules lib l index ms broken)"
proof (induction ms arbitrary: index)
  case (Cons m ms)
  then show ?case
    by (cases m) (auto simp: Let_def detected_updates scan_source_def fold_keywords_detected
        detecting.leaves_get detecting.leaves_from intro!: detecting.leaves_bind detecting.leaves_modify)
qed (simp add: detecting.leaves_return detecting.leaves_raise split: option.split)

lemma leaves_modules: "leaves vba_grows (inspect_modules lib l index ms broken)"
proof (induction ms arbitrary: index)
  case (Cons m ms)
  with Cons show ?case
    by (cases m) (auto simp: Let_def partial_grows count_grows leaves_scan vba.leaves_get vba.leaves_from
        intro!: vba.leaves_bind vba.leaves_modify)
qed (simp add: vba.leaves_return vba.leaves_raise split: option.split)

definition module_seen :: "vba_lib \<Rightarrow> vba_analysis \<Rightarrow> module_source \<Rightarrow> bool" where
  "module_seen lib r source \<longleftrightarrow> (\<exists>t entries. source_text lib source = Inr t \<and> vl_scan lib t = Inr entries \<and>
     (\<forall>entry\<in>set entries. (autoexec_keyword lib entry \<longrightarrow> va_autoexec_triggers r \<noteq> []) \<and>
       (execution_keyword lib entry \<longrightarrow> va_indicator_classes r \<noteq> [])))"

lemma module_seen_later: "vba_grows r r' \<Longrightarrow> module_seen lib r s \<Longrightarrow> module_seen lib r' s"
  unfolding module_seen_def vba_grows_def by (metis subset_empty set_empty)

lemma modules_seen:
  assumes "inspect_modules lib l index ms broken r = (Inr x, r')" "va_partial_reasons r' = []" "0 < ol_metadata_entries l"
    and "classed r"
  shows "\<forall>(name, source)\<in>set ms. module_seen lib r' source"
  using assms(1,4)
proof (induction ms arbitrary: index r)
  case (Cons m ms)
  obtain name source where m: "m = (name, source)" by fastforce
  have no_partial: "(modifyE (vba_partial reason) :: unit vba_run) v \<noteq> (Inr x, r')" for reason v
    using assms(2) by (auto simp: modifyE_def vba_partial_def insert_filled)
  have "\<not> ol_vba_modules l \<le> index"
  proof
    assume "ol_vba_modules l \<le> index"
    with Cons.prems(1) have "(modifyE (vba_partial ''vba_module_limit'') :: unit vba_run) r = (Inr x, r')" by (simp add: m)
    with no_partial show False by blast
  qed
  with Cons.prems(1) have run: "bindE (fromE (source_text lib source)) (\<lambda>t.
      bindE (getE (\<lambda>r. ol_vba_source_bytes l - va_source_bytes_inspected r)) (\<lambda>remaining.
        if remaining = 0 then modifyE (vba_partial ''vba_source_size_limit'')
        else let cut = remaining < encoded_length t;
                 t' = (if cut then fitting remaining (encodable t) else t) in
          bindE (modifyE (count_module l (vba_text lib l name) remaining (encoded_length t))) (\<lambda>_.
          bindE (scan_source lib l t') (\<lambda>_.
          inspect_modules lib l (Suc index) ms broken)))) r = (Inr x, r')" by (simp add: m)
  obtain t where t: "source_text lib source = Inr t"
    using run by (cases "source_text lib source") (simp_all add: fromE_def raiseE_def bindE_def)
  let ?n = "ol_vba_source_bytes l - va_source_bytes_inspected r"
  let ?cut = "?n < encoded_length t"
  let ?r1 = "count_module l (vba_text lib l name) ?n (encoded_length t) r"
  from run t no_partial obtain y w where scan: "scan_source lib l (if ?cut then fitting ?n (encodable t) else t) ?r1 = (Inr y, w)"
    and ms: "inspect_modules lib l (Suc index) ms broken w = (Inr x, r')"
    by (auto simp: fromE_def returnE_def getE_def Let_def bindE_def [of "returnE _"] bindE_def [of "getE _"] bindE_def [of "modifyE _"]
        modifyE_def elim!: bind_returns split: if_splits)
  have g: "vba_grows ?r1 w" "vba_grows w r'"
    using leavesD [OF leaves_scan scan] leavesD [OF leaves_modules ms] .
  have "\<not> ?cut"
  proof
    assume ?cut
    then have "va_partial_reasons ?r1 \<noteq> []" by (rule count_cut)
    with vba.onward [OF g] assms(2) show False by (auto simp: vba_grows_def)
  qed
  with scan obtain entries where e: "vl_scan lib t = Inr entries" "w = fold (note_keyword lib l) entries ?r1"
    by (auto simp: scan_source_def fromE_def raiseE_def returnE_def modifyE_def elim!: bind_returns split: sum.splits)
  have c: "classed ?r1" using Cons.prems(2) by (simp add: count_classed)
  have "module_seen lib w source"
    using t e fold_keywords_found [OF _ assms(3) c] unfolding module_seen_def by blast
  then have "module_seen lib r' source" by (rule module_seen_later [OF g(2)])
  moreover have "classed w" using fold_keywords_classed [OF c] e(2) by simp
  ultimately show ?case using Cons.IH [OF ms] m by auto
qed simp

text \<open>The whole project.\<close>

lemma complete_vba_run:
  assumes "analyze_vba_blob lib l data = Inr vba" "va_partial_reasons vba = []"
    and "vl_open lib data = Inr p" "vp_detect p = Inr True"
  obtains x w where "inspect_modules lib l 0 (vp_modules p) (vp_broken p) w = (Inr x, vba)" "classed w" "va_macro_detected w"
proof -
  let ?start = "empty_vba\<lparr>va_project_count := 1\<rparr>"
  obtain r v where run: "inspect_project lib l data ?start = (r, v)" by fastforce
  have "length data \<le> ol_vba_project_bytes l" using assms(1,2)
    by (auto simp: analyze_vba_blob_def Let_def vba_partial_def insert_filled not_less split: if_splits)
  with assms(1,2) run obtain x where r: "r = Inr x" and vba: "vba = v" "va_partial_reasons v = []"
    by (cases r) (auto simp: analyze_vba_blob_def Let_def vba_partial_def insert_filled split: if_splits)
  from run r assms(3,4) obtain w where "inspect_modules lib l 0 (vp_modules p) (vp_broken p) w = (Inr x, v)"
    "classed w" "va_macro_detected w"
    by (auto simp: inspect_project_def bind_from bind_modify returnE_def
        classed_def empty_vba_def vba_partial_def Let_def elim!: bind_returns split: option.splits if_splits)
  with that vba show thesis by simp
qed

lemma complete_vba_detected:
  assumes "analyze_vba_blob lib l data = Inr vba" "va_partial_reasons vba = []"
    and "vl_open lib data = Inr p" "vp_detect p = Inr True"
  shows "va_macro_detected vba"
proof -
  obtain x w where w: "inspect_modules lib l 0 (vp_modules p) (vp_broken p) w = (Inr x, vba)" "va_macro_detected w"
    using complete_vba_run [OF assms] .
  with leavesD [OF leaves_detected w(1)] show ?thesis by (simp add: same_detected_def)
qed

lemma complete_vba_seen:
  assumes "analyze_vba_blob lib l data = Inr vba" "va_partial_reasons vba = []" "0 < ol_metadata_entries l"
    and "vl_open lib data = Inr p" "vp_detect p = Inr True"
  shows "\<forall>(name, source)\<in>set (vp_modules p). module_seen lib vba source"
proof -
  obtain x w where w: "inspect_modules lib l 0 (vp_modules p) (vp_broken p) w = (Inr x, vba)" "classed w"
    using complete_vba_run [OF assms(1,2,4,5)] .
  show ?thesis by (rule modules_seen [OF w(1) assms(2,3) w(2)])
qed

end
