(* ===== verification/Ole_Results.thy ===== *)
theory Ole_Results
  imports Vba_Results Ole_Office
begin

text \<open>
  The properties of the OLE analyzer: it reads the sample in full or says that it did not, and a
  complete analysis has given every byte to the macro parser and reports what is in the entries and
  in the macros.
\<close>

section \<open>Reading the sample\<close>

lemma read_path_from:
  assumes "data = take (length data) sample" "length data \<le> maximum_bytes"
  shows "read_path_bounded (\<lambda>k n. Inr (take n (drop k sample))) maximum_bytes data =
    Inr (if length sample \<le> maximum_bytes then Some sample else None)"
  using assms
proof (induction "\<lambda>k n. Inr (take n (drop k sample)) :: ole_exn + bytes" maximum_bytes data
    rule: read_path_bounded.induct)
  case (1 m data)
  define chunk where "chunk = take (min 65536 (m + 1 - length data)) (drop (length data) sample)"
  have rec: "read_path_bounded (\<lambda>k n. Inr (take n (drop k sample))) m data =
      (if chunk = [] then Inr (Some data) else if m < length (data @ chunk) then Inr None
       else read_path_bounded (\<lambda>k n. Inr (take n (drop k sample))) m (data @ chunk))"
    by (subst read_path_bounded.simps) (simp only: chunk_def sum.case)
  consider "chunk = []" | "chunk \<noteq> []" "m < length (data @ chunk)" | "chunk \<noteq> []" "\<not> m < length (data @ chunk)" by blast
  then show ?case
  proof cases
    case 1
    with \<open>length data \<le> m\<close> have "length sample \<le> length data" by (auto simp: chunk_def)
    then have "data = sample" using \<open>data = take (length data) sample\<close> by simp
    with rec 1 \<open>length data \<le> m\<close> show ?thesis by simp
  next
    case 2
    then have "m < length sample" by (auto simp: chunk_def)
    with rec 2 show ?thesis by simp
  next
    case 3
    have "take (length data + length chunk) sample = take (length data) sample @ take (length chunk) (drop (length data) sample)"
      by (simp add: take_add)
    also have "take (length chunk) (drop (length data) sample) = chunk" unfolding chunk_def by (simp add: min_def)
    finally have "data @ chunk = take (length (data @ chunk)) sample" using \<open>data = take (length data) sample\<close> by simp
    from "1.hyps" [OF refl, folded chunk_def, OF 3 this] 3 rec show ?thesis by simp
  qed
qed

text \<open>C28. The bounded read of the OLE analyzer ends, and returns the whole sample exactly when it is
  within the limit, whatever the chunks it was read in; a longer sample is never cut.\<close>

theorem read_path_whole:
  "read_path_bounded (\<lambda>k n. Inr (take n (drop k sample))) maximum_bytes [] =
     Inr (if length sample \<le> maximum_bytes then Some sample else None)"
  by (rule read_path_from) simp_all

section \<open>Complete analyses\<close>

lemma ole_result_complete: "office_complete (ole_result lib l s) \<Longrightarrow> le_partial_reasons s = []"
  by (auto simp: ole_result_def office_complete_def office_status_def split: if_splits)

lemma complete_ole:
  assumes "analyze_ole_office lib l = Inr (Some a)" "office_complete a"
  obtains s where "inspect_ole lib l initial_ole = (Inr True, s)" "le_partial_reasons s = []"
    "oa_findings a = ole_findings l s" "oa_application a = le_application s"
proof -
  have error: "\<not> office_complete (ole_result lib l (ole_error reason e s))" for reason e s
    using ole_result_complete [of lib l "ole_error reason e s"] by (auto simp: ole_error_def ole_partial_def List.insert_def split: if_splits)
  obtain r s where run: "inspect_ole lib l initial_ole = (r, s)" by fastforce
  from assms error run have "r = Inr True" and a: "a = ole_result lib l s"
    by (auto simp: analyze_ole_office_def split: if_splits sum.splits)
  with run that ole_result_complete assms(2) show ?thesis by (simp add: ole_result_def)
qed

definition finish_ole :: "ole_state \<Rightarrow> ole_state" where
  "finish_ole s = s\<lparr>le_macro_enabled := (le_vba_project_count s \<noteq> 0 \<or> va_macro_detected (le_vba s))\<rparr>"

definition mark_ole :: "ole_state \<Rightarrow> ole_state" where
  "mark_ole s = (let s1 = (if le_application s = APP_UNKNOWN then ole_partial ''ole_application_unclassified'' s else s) in
     if le_encrypted s1 then ole_partial ''office_encryption_prevents_inspection'' s1 else s1)"

definition conclude_ole :: "bool ole_run" where
  "conclude_ole = bindE (modifyE finish_ole) (\<lambda>_.
     bindE (getE (\<lambda>s. le_application s = APP_UNKNOWN \<and> \<not> (le_encrypted s \<or> le_macro_enabled s))) (\<lambda>foreign_container.
     if foreign_container then returnE False else bindE (modifyE mark_ole) (\<lambda>_. returnE True)))"

lemma inspect_ole_steps:
  "inspect_ole lib l = bindE (fromE (il_listdir lib)) (\<lambda>listed.
     bindE (modifyE (note_entries lib l listed)) (\<lambda>_.
     bindE (getE (\<lambda>s. le_application s \<noteq> APP_UNKNOWN \<and> \<not> le_encrypted s)) (\<lambda>readable.
     bindE (if readable then inspect_ole_vba lib l else returnE ()) (\<lambda>_. conclude_ole))))"
  unfolding inspect_ole_def conclude_ole_def finish_ole_def mark_ole_def ..

lemma conclude_run: "conclude_ole s2 = (Inr True, s) \<Longrightarrow> s = mark_ole (finish_ole s2)"
  by (simp add: conclude_ole_def bindE_def modifyE_def getE_def returnE_def split: if_splits)

lemma inspect_ole_run:
  assumes "inspect_ole lib l s0 = (Inr True, s)" "le_partial_reasons s = []"
  obtains listed s2 where "il_listdir lib = Inr listed"
    "inspect_ole_vba lib l (note_entries lib l listed s0) = (Inr (), s2)" "s = finish_ole s2"
    "le_application s \<noteq> APP_UNKNOWN" "\<not> le_encrypted s"
proof -
  obtain listed where listed: "il_listdir lib = Inr listed"
    using assms(1) by (cases "il_listdir lib") (simp_all add: inspect_ole_steps fromE_def raiseE_def bindE_def)
  let ?s1 = "note_entries lib l listed s0"
  let ?readable = "le_application ?s1 \<noteq> APP_UNKNOWN \<and> \<not> le_encrypted ?s1"
  have "bindE (if ?readable then inspect_ole_vba lib l else returnE ()) (\<lambda>_. conclude_ole) ?s1 = (Inr True, s)"
    using assms(1) by (simp add: inspect_ole_steps listed bind_from bind_modify run_get)
  then obtain s2 where vba: "(if ?readable then inspect_ole_vba lib l else returnE ()) ?s1 = (Inr (), s2)"
    and s: "s = mark_ole (finish_ole s2)" by (auto elim!: bind_returns dest: conclude_run)
  have known: "le_application (finish_ole s2) \<noteq> APP_UNKNOWN \<and> \<not> le_encrypted (finish_ole s2)"
    using assms(2) s by (auto simp: mark_ole_def ole_partial_def insert_filled Let_def split: if_splits)
  then have same: "s = finish_ole s2" using s by (simp add: mark_ole_def)
  have "inspect_ole_vba lib l ?s1 = (Inr (), s2)"
    using vba known by (auto simp: returnE_def finish_ole_def split: if_splits)
  with listed same known that show thesis by simp
qed

lemma ole_evidence:
  "le_embedded_count s \<noteq> 0 \<Longrightarrow> ''OFFICE_EMBEDDED_OBJECT'' \<in> fst ` set (ole_findings l s)"
  "le_activex_count s \<noteq> 0 \<Longrightarrow> ''OFFICE_ACTIVEX'' \<in> fst ` set (ole_findings l s)"
  "le_macro_enabled s \<Longrightarrow> ''OFFICE_MACRO_ENABLED'' \<in> fst ` set (ole_findings l s)"
  "va_macro_detected (le_vba s) \<Longrightarrow> ''OFFICE_VBA_MACRO'' \<in> fst ` set (ole_findings l s)"
  "va_autoexec_triggers (le_vba s) \<noteq> [] \<Longrightarrow> ''OFFICE_VBA_AUTOEXEC'' \<in> fst ` set (ole_findings l s)"
  "va_indicator_classes (le_vba s) \<noteq> [] \<Longrightarrow> ''OFFICE_VBA_EXECUTION_INDICATOR'' \<in> fst ` set (ole_findings l s)"
  by (simp_all add: ole_findings_def macro_findings_def container_findings_def image_Un when_found_mem)

text \<open>What is noted of the entries.\<close>

lemma ole_partial_more: "set (le_partial_reasons s) \<subseteq> set (le_partial_reasons (ole_partial r s))"
  by (auto simp: ole_partial_def)

lemma note_entries_simps:
  "le_embedded_count (note_entries lib l listed s) =
     min (length (filter embeds_object (normalized_entries lib (take (ol_zip_entries l) listed)))) (ol_embedded_objects l)"
  "le_activex_count (note_entries lib l listed s) =
     min (length (filter is_activex (normalized_entries lib (take (ol_zip_entries l) listed)))) (ol_activex_objects l)"
  "ol_zip_entries l < length listed \<Longrightarrow> le_partial_reasons (note_entries lib l listed s) \<noteq> []"
  by (simp_all add: note_entries_def Let_def ole_partial_def insert_filled)

lemma note_vba_keeps:
  "le_embedded_count (note_ole_vba vba s) = le_embedded_count s" "le_activex_count (note_ole_vba vba s) = le_activex_count s"
  "set (le_partial_reasons s) \<union> set (va_partial_reasons vba) \<subseteq> set (le_partial_reasons (note_ole_vba vba s))"
  "le_vba (note_ole_vba vba s) = vba"
proof -
  have "set (fold List.insert xs ys) = set xs \<union> set ys" for xs ys :: "string list"
    by (induction xs arbitrary: ys) auto
  then show "le_embedded_count (note_ole_vba vba s) = le_embedded_count s" "le_activex_count (note_ole_vba vba s) = le_activex_count s"
    "set (le_partial_reasons s) \<union> set (va_partial_reasons vba) \<subseteq> set (le_partial_reasons (note_ole_vba vba s))"
    "le_vba (note_ole_vba vba s) = vba" by (auto simp: note_ole_vba_def Let_def)
qed

lemma inspect_ole_vba_run:
  assumes "inspect_ole_vba lib l s = (Inr (), t)" "le_partial_reasons t = []"
    and "il_read lib = (\<lambda>k n. Inr (take n (drop k sample)))"
  obtains vba where "length sample \<le> ol_vba_project_bytes l" "analyze_vba_blob (il_vba lib) l sample = Inr vba"
    "t = note_ole_vba vba s"
proof -
  let ?data = "if length sample \<le> ol_vba_project_bytes l then Some sample else None"
  have run: "(case ?data of None \<Rightarrow> modifyE (ole_partial ''vba_project_size_limit'')
     | Some bs \<Rightarrow> (case analyze_vba_blob (il_vba lib) l bs of
         Inl e \<Rightarrow> raiseE \<lparr>oe_expected = False, oe_name = ve_name e\<rparr>
       | Inr vba \<Rightarrow> modifyE (note_ole_vba vba))) s = (Inr (), t)"
    using assms(1) unfolding inspect_ole_vba_def assms(3) read_path_from [of "[]" sample, simplified] bind_from .
  have "length sample \<le> ol_vba_project_bytes l"
    using run assms(2) by (auto simp: modifyE_def ole_partial_def insert_filled split: if_splits)
  with run that show thesis
    by (cases "analyze_vba_blob (il_vba lib) l sample") (simp_all add: raiseE_def modifyE_def)
qed

lemma ole_document_evidence:
  assumes "analyze_ole_office lib l = Inr (Some a)" "office_complete a" "office_limits_ok l"
    and "il_read lib = (\<lambda>k n. Inr (take n (drop k sample)))"
  shows "oa_application a \<noteq> APP_UNKNOWN \<and> (\<exists>listed. il_listdir lib = Inr listed \<and>
      (\<forall>entry\<in>set (normalized_entries lib listed).
        (embeds_object entry \<longrightarrow> ''OFFICE_EMBEDDED_OBJECT'' \<in> fst ` set (oa_findings a)) \<and>
        (is_activex entry \<longrightarrow> ''OFFICE_ACTIVEX'' \<in> fst ` set (oa_findings a)))) \<and>
    (\<forall>p. vl_open (il_vba lib) sample = Inr p \<and> vp_detect p = Inr True \<longrightarrow>
      {''OFFICE_MACRO_ENABLED'', ''OFFICE_VBA_MACRO''} \<subseteq> fst ` set (oa_findings a) \<and>
      (\<forall>(name, source)\<in>set (vp_modules p). \<exists>t entries. source_text (il_vba lib) source = Inr t \<and>
        vl_scan (il_vba lib) t = Inr entries \<and> (\<forall>entry\<in>set entries.
          (autoexec_keyword (il_vba lib) entry \<longrightarrow> ''OFFICE_VBA_AUTOEXEC'' \<in> fst ` set (oa_findings a)) \<and>
          (execution_keyword (il_vba lib) entry \<longrightarrow> ''OFFICE_VBA_EXECUTION_INDICATOR'' \<in> fst ` set (oa_findings a)))))"
proof -
  obtain s where run: "inspect_ole lib l initial_ole = (Inr True, s)" and none: "le_partial_reasons s = []"
    and a: "oa_findings a = ole_findings l s" "oa_application a = le_application s"
    using complete_ole [OF assms(1,2)] .
  obtain listed s2 where listed: "il_listdir lib = Inr listed" and known: "le_application s \<noteq> APP_UNKNOWN"
    and vba_run: "inspect_ole_vba lib l (note_entries lib l listed initial_ole) = (Inr (), s2)" and s: "s = finish_ole s2"
    using inspect_ole_run [OF run none] .
  have none2: "le_partial_reasons s2 = []" using none s by (simp add: finish_ole_def)
  obtain vba where vba: "analyze_vba_blob (il_vba lib) l sample = Inr vba"
    and s2: "s2 = note_ole_vba vba (note_entries lib l listed initial_ole)"
    using inspect_ole_vba_run [OF vba_run none2 assms(4)] .
  have vnone: "va_partial_reasons vba = []" and enone: "le_partial_reasons (note_entries lib l listed initial_ole) = []"
    using note_vba_keeps(3) [of "note_entries lib l listed initial_ole" vba] none2 s2 by auto
  have few: "take (ol_zip_entries l) listed = listed" using note_entries_simps(3) enone by (metis not_le take_all)
  have lim: "0 < ol_embedded_objects l" "0 < ol_activex_objects l" "0 < ol_metadata_entries l"
    using assms(3) by (simp_all add: office_limits_ok_def)
  have counts: "le_embedded_count s = min (length (filter embeds_object (normalized_entries lib listed))) (ol_embedded_objects l)"
    "le_activex_count s = min (length (filter is_activex (normalized_entries lib listed))) (ol_activex_objects l)" "le_vba s = vba"
    using s s2 few by (simp_all add: finish_ole_def note_vba_keeps note_entries_simps)
  have "(embeds_object entry \<longrightarrow> ''OFFICE_EMBEDDED_OBJECT'' \<in> fst ` set (oa_findings a)) \<and>
      (is_activex entry \<longrightarrow> ''OFFICE_ACTIVEX'' \<in> fst ` set (oa_findings a))" if "entry \<in> set (normalized_entries lib listed)" for entry
  proof -
    have "filter P (normalized_entries lib listed) \<noteq> []" if "P entry" for P
      using \<open>entry \<in> set _\<close> that by (auto simp: filter_empty_conv)
    with ole_evidence(1,2) [of s l] counts(1,2) lim a(1) show ?thesis by simp
  qed
  moreover have "{''OFFICE_MACRO_ENABLED'', ''OFFICE_VBA_MACRO''} \<subseteq> fst ` set (oa_findings a) \<and>
      (\<forall>(name, source)\<in>set (vp_modules p). \<exists>t entries. source_text (il_vba lib) source = Inr t \<and>
        vl_scan (il_vba lib) t = Inr entries \<and> (\<forall>entry\<in>set entries.
          (autoexec_keyword (il_vba lib) entry \<longrightarrow> ''OFFICE_VBA_AUTOEXEC'' \<in> fst ` set (oa_findings a)) \<and>
          (execution_keyword (il_vba lib) entry \<longrightarrow> ''OFFICE_VBA_EXECUTION_INDICATOR'' \<in> fst ` set (oa_findings a))))"
    if p: "vl_open (il_vba lib) sample = Inr p" "vp_detect p = Inr True" for p
  proof -
    have m: "va_macro_detected (le_vba s)" using complete_vba_detected [OF vba vnone p] counts(3) by simp
    then have "le_macro_enabled s" using s by (simp add: finish_ole_def)
    with m ole_evidence(3,4) [of s l] have "{''OFFICE_MACRO_ENABLED'', ''OFFICE_VBA_MACRO''} \<subseteq> fst ` set (oa_findings a)"
      unfolding a(1) by simp
    moreover have "\<exists>t entries. source_text (il_vba lib) source = Inr t \<and> vl_scan (il_vba lib) t = Inr entries \<and>
        (\<forall>entry\<in>set entries. (autoexec_keyword (il_vba lib) entry \<longrightarrow> ''OFFICE_VBA_AUTOEXEC'' \<in> fst ` set (oa_findings a)) \<and>
          (execution_keyword (il_vba lib) entry \<longrightarrow> ''OFFICE_VBA_EXECUTION_INDICATOR'' \<in> fst ` set (oa_findings a)))"
      if "(name, source) \<in> set (vp_modules p)" for name source
    proof -
      have "module_seen (il_vba lib) vba source" using complete_vba_seen [OF vba vnone lim(3) p] that by blast
      with ole_evidence(5,6) [of s l] show ?thesis unfolding module_seen_def counts(3) a(1) by blast
    qed
    ultimately show ?thesis by blast
  qed
  ultimately show ?thesis using known listed a(2)
    by (intro conjI exI [of _ listed] allI impI ballI; (elim conjE)?; (assumption | simp only: | blast)?)
qed

text \<open>C27. A complete analysis of an OLE document knows the application, has found no encryption, has
  looked at every entry and given the macro parser every byte of the sample: embedded objects,
  controls and macros are reported, and every module was decoded and scanned in full, so that an
  autoexec trigger or an execution indicator of the table in any module is reported.\<close>

theorem complete_ole_hides_nothing:
  assumes "analyze_ole_office lib l = Inr (Some a)" "office_complete a" "office_limits_ok l"
    and "il_read lib = (\<lambda>k n. Inr (take n (drop k sample)))"
  shows "oa_application a \<noteq> APP_UNKNOWN \<and> (\<exists>listed. il_listdir lib = Inr listed \<and>
      (\<forall>entry\<in>set (normalized_entries lib listed).
        (embeds_object entry \<longrightarrow> ''OFFICE_EMBEDDED_OBJECT'' \<in> fst ` set (oa_findings a)) \<and>
        (is_activex entry \<longrightarrow> ''OFFICE_ACTIVEX'' \<in> fst ` set (oa_findings a)))) \<and>
    (\<forall>p. vl_open (il_vba lib) sample = Inr p \<and> vp_detect p = Inr True \<longrightarrow>
      {''OFFICE_MACRO_ENABLED'', ''OFFICE_VBA_MACRO''} \<subseteq> fst ` set (oa_findings a) \<and>
      (\<forall>(name, source)\<in>set (vp_modules p). \<exists>t entries. source_text (il_vba lib) source = Inr t \<and>
        vl_scan (il_vba lib) t = Inr entries \<and> (\<forall>entry\<in>set entries.
          (autoexec_keyword (il_vba lib) entry \<longrightarrow> ''OFFICE_VBA_AUTOEXEC'' \<in> fst ` set (oa_findings a)) \<and>
          (execution_keyword (il_vba lib) entry \<longrightarrow> ''OFFICE_VBA_EXECUTION_INDICATOR'' \<in> fst ` set (oa_findings a)))))"
  by (rule ole_document_evidence [OF assms])

text \<open>A Word document with one module that starts itself.\<close>

definition small_office_limits :: office_limits where
  "small_office_limits = \<lparr>ol_zip_entries = 9, ol_member_name_length = 99, ol_total_bytes_read = 99, ol_member_bytes = 99,
     ol_xml_parts = 9, ol_xml_bytes = 99, ol_relationships = 9, ol_external_relationships = 9, ol_embedded_objects = 9,
     ol_activex_objects = 9, ol_vba_projects = 9, ol_vba_project_bytes = 99, ol_vba_modules = 9, ol_vba_source_bytes = 99,
     ol_metadata_string_length = 99, ol_metadata_entries = 9, ol_selected_materializations = 9\<rparr>"

lemma small_office_limits_ok: "office_limits_ok small_office_limits"
  by (simp add: office_limits_ok_def small_office_limits_def)

definition self_starting_parser :: vba_parser where
  "self_starting_parser = \<lparr>vp_detect = Inr True, vp_projects = None,
     vp_modules = [(u ''m'', Source_Text (u ''x''))], vp_broken = None\<rparr>"

definition self_starting_vba :: vba_lib where
  "self_starting_vba = \<lparr>vl_parser_version = OFFICE_VBA_PARSER_VERSION, vl_olefile_version = OFFICE_OLE_PARSER_VERSION,
     vl_open = (\<lambda>_. Inr self_starting_parser), vl_scan = (\<lambda>_. Inr [(Some (u ''AutoExec''), Some (u ''autoopen''))]),
     vl_decode = map unat, vl_nfc = id, vl_casefold = id, vl_control = (\<lambda>c. c < 32)\<rparr>"

definition self_starting_ole :: ole_lib where
  "self_starting_ole = \<lparr>il_version = OFFICE_OLE_PARSER_VERSION, il_is_ole = Inr True, il_open = Inr (),
     il_listdir = Inr [[u ''worddocument'']], il_read = (\<lambda>k n. Inr (take n (drop k [208, 207]))), il_casefold = id,
     il_vba = self_starting_vba\<rparr>"

lemma autoopen_autoexec: "strip (u ''autoopen'') \<in> u ` set AUTOEXEC_NAMES"
proof -
  have "strip (u ''autoopen'') = u ''autoopen''" by (simp add: strip_def u_def is_space_def)
  moreover have "u ''autoopen'' \<in> u ` set AUTOEXEC_NAMES" by (rule imageI) (simp add: AUTOEXEC_NAMES_def)
  ultimately show ?thesis by simp
qed

lemma self_starting_vba_run:
  "\<exists>vba. analyze_vba_blob self_starting_vba small_office_limits [208, 207] = Inr vba \<and> va_partial_reasons vba = []"
proof -
  have e: "encoded_length (u ''x'') = 1" by (simp add: encoded_length_def encodable_def u_def utf8_length_def)
  have kinds: "u ''AutoExec'' \<noteq> u ''Suspicious''" by simp
  have k: "note_keyword self_starting_vba l (Some (u ''AutoExec''), Some (u ''autoopen'')) r =
      r\<lparr>va_autoexec_triggers := List.insert (vba_text self_starting_vba l (u ''autoopen'')) (va_autoexec_triggers r)\<rparr>"
    if "length (va_autoexec_triggers r) < ol_metadata_entries l" for l r
    using that by (simp add: note_keyword_def self_starting_vba_def autoopen_autoexec kinds del: image_iff)
  have parser: "vl_parser_version self_starting_vba = OFFICE_VBA_PARSER_VERSION"
    "vl_olefile_version self_starting_vba = OFFICE_OLE_PARSER_VERSION" "vl_open self_starting_vba bs = Inr self_starting_parser"
    "vl_scan self_starting_vba t = Inr [(Some (u ''AutoExec''), Some (u ''autoopen''))]" for bs t
    by (simp_all add: self_starting_vba_def)
  have limits: "ol_vba_project_bytes small_office_limits = 99" "ol_vba_source_bytes small_office_limits = 99"
    "ol_vba_modules small_office_limits = 9" "ol_metadata_entries small_office_limits = 9"
    by (simp_all add: small_office_limits_def)
  show ?thesis
    by (simp add: analyze_vba_blob_def inspect_project_def Let_def bind_from bind_modify run_get run_return run_assoc parser limits
        self_starting_parser_def source_text_def e scan_source_def k return_run modify_run empty_vba_def count_module_def)
qed

lemma self_starting_run:
  "\<exists>a. analyze_ole_office self_starting_ole small_office_limits = Inr (Some a) \<and> office_complete a"
proof -
  obtain vba where vba: "analyze_vba_blob self_starting_vba small_office_limits [208, 207] = Inr vba" "va_partial_reasons vba = []"
    using self_starting_vba_run by blast
  have read: "read_path_bounded (il_read self_starting_ole) (ol_vba_project_bytes small_office_limits) [] = Inr (Some [208, 207])"
    using read_path_from [of "[]" "[208, 207]" 99] by (simp add: self_starting_ole_def small_office_limits_def)
  have fields: "il_listdir self_starting_ole = Inr [[u ''worddocument'']]" "il_vba self_starting_ole = self_starting_vba"
    "il_casefold self_starting_ole = id" "il_version self_starting_ole = OFFICE_OLE_PARSER_VERSION"
    "il_is_ole self_starting_ole = Inr True" "il_open self_starting_ole = Inr ()" by (simp_all add: self_starting_ole_def)
  have limits: "ol_zip_entries small_office_limits = 9" "ol_embedded_objects small_office_limits = 9"
    "ol_activex_objects small_office_limits = 9" by (simp_all add: small_office_limits_def)
  let ?noted = "note_entries self_starting_ole small_office_limits [[u ''worddocument'']] initial_ole"
  have entries: "normalized_entries self_starting_ole [[u ''worddocument'']] = [u ''worddocument'']"
    by (simp add: normalized_entries_def fields)
  have noted: "le_application ?noted = APP_WORD \<and> \<not> le_encrypted ?noted \<and> le_partial_reasons ?noted = [] \<and> \<not> le_malformed ?noted"
    by (simp add: note_entries_def Let_def limits entries classify_application_def initial_ole_def leaf_def
        embeds_object_def is_activex_def) (simp add: u_def)
  have "le_application (finish_ole (note_ole_vba vba ?noted)) = APP_WORD" "\<not> le_encrypted (finish_ole (note_ole_vba vba ?noted))"
    using noted by (simp_all add: finish_ole_def note_ole_vba_def Let_def)
  then have "inspect_ole self_starting_ole small_office_limits initial_ole = (Inr True, finish_ole (note_ole_vba vba ?noted))"
    using noted by (simp add: inspect_ole_steps fields bind_from bind_modify run_get inspect_ole_vba_def read vba(1)
        run_assoc modify_run conclude_ole_def return_run mark_ole_def)
  then show ?thesis using noted vba(2)
    by (auto simp: analyze_ole_office_def fields ole_result_def office_complete_def office_status_def finish_ole_def
        note_ole_vba_def Let_def)
qed

theorem complete_ole_hides_nothing_witness:
  "\<exists>a. analyze_ole_office self_starting_ole small_office_limits = Inr (Some a) \<and> oa_application a \<noteq> APP_UNKNOWN \<and>
     {''OFFICE_MACRO_ENABLED'', ''OFFICE_VBA_MACRO'', ''OFFICE_VBA_AUTOEXEC''} \<subseteq> fst ` set (oa_findings a)"
proof -
  obtain a where a: "analyze_ole_office self_starting_ole small_office_limits = Inr (Some a)" "office_complete a"
    using self_starting_run by blast
  have read: "il_read self_starting_ole = (\<lambda>k n. Inr (take n (drop k [208, 207])))" by (simp add: self_starting_ole_def)
  have autoexec: "autoexec_keyword self_starting_vba (Some (u ''AutoExec''), Some (u ''autoopen''))"
    using autoopen_autoexec by (simp add: autoexec_keyword_def self_starting_vba_def)
  have fields: "vl_open self_starting_vba [208, 207] = Inr self_starting_parser" "vp_detect self_starting_parser = Inr True"
    "vp_modules self_starting_parser = [(u ''m'', Source_Text (u ''x''))]" "il_vba self_starting_ole = self_starting_vba"
    "vl_scan self_starting_vba t = Inr [(Some (u ''AutoExec''), Some (u ''autoopen''))]" for t
    by (simp_all add: self_starting_vba_def self_starting_parser_def self_starting_ole_def)
  from complete_ole_hides_nothing [OF a small_office_limits_ok read] autoexec a(1) show ?thesis
    by (auto simp: fields source_text_def simp del: image_iff)
qed

end
