(* ===== verification/Office_Results.thy ===== *)
theory Office_Results
  imports Office_Effects Ole_Results
begin

text \<open>
  The properties of the Office analyzers: a complete analysis of a package hides no external
  relationship, embedded object, control or macro project, its work is bounded, and a complete
  analysis of an OLE document has given the whole sample to the macro parser.
\<close>

section \<open>Evidence grows and limits are respected\<close>

lemma set_fold_insert: "set (fold List.insert xs ys) = set xs \<union> set ys"
  by (induction xs arbitrary: ys) auto

definition ooxml_grows :: "ooxml_state \<Rightarrow> ooxml_state \<Rightarrow> bool" where
  "ooxml_grows s t \<longleftrightarrow> set (os_partial_reasons s) \<subseteq> set (os_partial_reasons t) \<and>
     os_external_count s \<le> os_external_count t \<and> os_template_count s \<le> os_template_count t"

lemma count_objects_simps [simp]:
  "set (os_partial_reasons s) \<subseteq> set (os_partial_reasons (count_objects l ms s))"
  "os_external_count (count_objects l ms s) = os_external_count s"
  "os_template_count (count_objects l ms s) = os_template_count s"
  "os_embedded_count (count_objects l ms s) = min (length (filter (has_prefix EMBEDDING_PREFIXES) (map fst ms))) (ol_embedded_objects l)"
  "os_activex_count (count_objects l ms s) = min (length (filter (has_prefix ACTIVEX_PREFIXES) (map fst ms))) (ol_activex_objects l)"
  by (auto simp: count_objects_def Let_def ooxml_partial_def)

interpretation growing: ooxml_effects ooxml_grows l for l
  by unfold_locales
    (auto simp: ooxml_grows_def ooxml_partial_def malformed_part_def Let_def note_summary_def note_template_def
      count_projects_def note_vba_def set_fold_insert split: option.split)

definition ooxml_limits :: "office_limits \<Rightarrow> ooxml_state \<Rightarrow> bool" where
  "ooxml_limits l s \<longleftrightarrow> os_xml_parts_parsed s \<le> ol_xml_parts l \<and> os_xml_bytes_parsed s \<le> ol_xml_bytes l \<and>
     os_relationship_count s \<le> ol_relationships l \<and> os_external_count s \<le> ol_external_relationships l \<and>
     length (os_external_summaries s) \<le> ol_metadata_entries l \<and>
     length (os_template_summaries s) \<le> ol_metadata_entries l \<and>
     os_embedded_count s \<le> ol_embedded_objects l \<and> os_activex_count s \<le> ol_activex_objects l \<and>
     va_module_count (os_vba s) \<le> ol_vba_modules l"

definition ooxml_within :: "office_limits \<Rightarrow> ooxml_state \<Rightarrow> ooxml_state \<Rightarrow> bool" where
  "ooxml_within l s t \<longleftrightarrow> (ooxml_limits l s \<longrightarrow> ooxml_limits l t)"

interpretation bounding: ooxml_effects "ooxml_within l" l for l
  by unfold_locales
    (auto simp: ooxml_within_def ooxml_limits_def ooxml_partial_def malformed_part_def Let_def note_summary_def
      note_template_def count_objects_def count_projects_def note_vba_def merge_vba_def split: option.split)

section \<open>What a complete analysis has read\<close>

text \<open>A member whose stream delivers these bytes.\<close>

definition content :: "bytes \<Rightarrow> zip_stream" where
  "content data = (\<lambda>k n. Inr (take n (drop k data)))"

lemma read_chunks_content:
  "read_chunks l (content data) m acc s = (Inr d, t) \<Longrightarrow> acc = take (length acc) data \<Longrightarrow> length acc \<le> m \<Longrightarrow> d = data"
proof (induction l "content data" m acc s rule: read_chunks.induct)
  case (1 l m acc s)
  define chunk where "chunk = take (min 65536 (m + 1 - length acc)) (drop (length acc) data)"
  have c: "content data (length acc) (min 65536 (m + 1 - length acc)) = Inr chunk" by (simp add: content_def chunk_def)
  have run: "(if chunk = [] then (Inr acc, s) else (case account_chunk l m acc chunk s of (Inl e, s1) \<Rightarrow> (Inl e, s1)
      | (Inr acc', s1) \<Rightarrow> read_chunks l (content data) m acc' s1)) = (Inr d, t)"
    using 1(2) by (subst (asm) read_chunks.simps) (simp only: c sum.case)
  show ?case
  proof (cases "chunk = []")
    case True
    with 1(4) have "length data \<le> length acc" by (auto simp: chunk_def)
    with 1(3) run True show ?thesis by simp
  next
    case False
    obtain r s1 where a: "account_chunk l m acc chunk s = (r, s1)" by fastforce
    with run False obtain acc' where r: "r = Inr acc'" and rest: "read_chunks l (content data) m acc' s1 = (Inr d, t)" by (cases r) auto
    from account_chunk_grows a r have acc': "acc' = acc @ chunk" "length acc' \<le> m" by blast+
    have "take (length (acc @ chunk)) data = take (length acc) data @ take (length chunk) (drop (length acc) data)"
      by (simp add: take_add)
    also have "take (length chunk) (drop (length acc) data) = chunk" unfolding chunk_def by (simp add: min_def)
    finally have "acc' = take (length acc') data" using 1(3) acc'(1) by simp
    from 1(1) [OF c False _ r rest this acc'(2)] a show ?thesis by simp
  qed
qed

lemma catch_returns: "catchE m h s = (Inr x, t) \<Longrightarrow> (\<And>e k v w. h e = Some k \<Longrightarrow> k v \<noteq> (Inr x, w)) \<Longrightarrow> m s = (Inr x, t)"
  by (auto simp: catchE_def split: prod.splits sum.splits option.splits)

lemma read_part_content:
  assumes "read_part l archive ms name n s = (Inr d, t)" "map_of ms name = Some info" "za_open archive info = Inr (content data)"
  shows "d = data"
proof -
  from assms have "read_chunks l (content data) (min (if n = 0 then ol_member_bytes l else n) (ol_member_bytes l)) [] s = (Inr d, t)"
    by (auto simp: read_part_def Let_def bindE_def raiseE_def modifyE_def split: if_splits dest!: catch_returns)
  then show ?thesis using read_chunks_content by fastforce
qed

lemma read_xml_content:
  assumes "read_xml lib l archive ms name required s = (Inr r, t)" "map_of ms name = Some info"
    and "za_open archive info = Inr (content data)"
  shows "\<exists>root. r = Some root \<and> ox_parse lib data = Inr root"
proof -
  from assms(1,2) obtain v d w where "read_part l archive ms name v s = (Inr d, w)" "\<exists>root. r = Some root \<and> ox_parse lib d = Inr root"
    by (auto simp: read_xml_def getE_def raiseE_def fromE_def returnE_def elim!: bind_returns split: if_splits sum.splits)
  with read_part_content assms(2,3) show ?thesis by blast
qed

lemma read_xml_required:
  "read_xml lib l archive ms name True s = (Inr None, t) \<Longrightarrow> os_partial_reasons t \<noteq> []"
  by (auto simp: read_xml_def getE_def raiseE_def fromE_def returnE_def modifyE_def malformed_part_def ooxml_partial_def Let_def
      List.insert_def elim!: bind_returns split: if_splits sum.splits)

section \<open>Relationships\<close>

lemma note_external_counts:
  assumes "note_external lib l e s = (Inr x, t)"
  shows "0 < os_external_count t \<and> (is_template lib e \<longrightarrow> 0 < os_template_count t)"
  using assms
  by (auto simp: note_external_def getE_def raiseE_def returnE_def modifyE_def Let_def note_summary_def note_template_def
      elim!: bind_returns split: if_splits)

lemma counts_grow: "ooxml_grows s t \<Longrightarrow> 0 < os_external_count s \<and> (b \<longrightarrow> 0 < os_template_count s) \<Longrightarrow>
    0 < os_external_count t \<and> (b \<longrightarrow> 0 < os_template_count t)"
  by (auto simp: ooxml_grows_def)

lemma note_relationships_counts:
  "note_relationships lib l True es targets s = (Inr x, t) \<Longrightarrow> e \<in> set es \<Longrightarrow>
   el_tag e = qname RELATIONSHIPS_NAMESPACE ''Relationship'' \<Longrightarrow> is_external lib e \<Longrightarrow>
   0 < os_external_count t \<and> (is_template lib e \<longrightarrow> 0 < os_template_count t)"
proof (induction es arbitrary: targets s)
  case (Cons e' es)
  show ?case
  proof (cases "el_tag e' = qname RELATIONSHIPS_NAMESPACE ''Relationship''")
    case False
    with Cons show ?thesis by auto
  next
    case True
    with Cons.prems(1) obtain v y w where n: "(if is_external lib e' then note_external lib l e' else returnE ()) v = (Inr y, w)"
      and rest: "note_relationships lib l True es (targets @ office_target lib e') w = (Inr x, t)"
      by (auto simp: getE_def raiseE_def elim!: bind_returns split: if_splits)
    have g: "ooxml_grows w t" using leavesD [OF growing.leaves_relationships rest] .
    show ?thesis
    proof (cases "e = e'")
      case True
      with n Cons.prems(4) note_external_counts have "0 < os_external_count w \<and> (is_template lib e \<longrightarrow> 0 < os_template_count w)" by auto
      with counts_grow [OF g] show ?thesis by blast
    next
      case False
      with Cons.IH [OF rest _ Cons.prems(3,4)] Cons.prems(2) show ?thesis by auto
    qed
  qed
qed simp

lemma for_visits:
  "forE f xs s = (Inr x, t) \<Longrightarrow> y \<in> set xs \<Longrightarrow> (\<And>z. leaves ooxml_grows (f z)) \<Longrightarrow>
   \<exists>v w. f y v = (Inr (), w) \<and> ooxml_grows w t"
proof (induction xs arbitrary: s)
  case (Cons z xs)
  from Cons.prems(1) obtain w where w: "f z s = (Inr (), w)" and rest: "forE f xs w = (Inr x, t)" by (auto elim: bind_returns)
  have "ooxml_grows w t" using leavesD [OF growing.leaves_for rest] Cons.prems(3) by blast
  with w Cons.IH [OF rest _ Cons.prems(3)] Cons.prems(2) show ?case by auto
qed simp

lemma inspect_relationships_counts:
  assumes run: "inspect_relationships lib l archive ms s = (Inr x, t)" and none: "os_partial_reasons t = []"
    and part: "map_of ms name = Some info" "ends_with (u ''.rels'') name" "name \<noteq> ROOT_RELATIONSHIPS_PART"
    and data: "za_open archive info = Inr (content data)"
  shows "\<exists>root. ox_parse lib data = Inr root \<and> (\<forall>e\<in>set (xr_children root).
    el_tag e = qname RELATIONSHIPS_NAMESPACE ''Relationship'' \<and> is_external lib e \<longrightarrow>
    0 < os_external_count t \<and> (is_template lib e \<longrightarrow> 0 < os_template_count t))"
proof -
  from run obtain r v where r: "read_xml lib l archive ms ROOT_RELATIONSHIPS_PART True s = (Inr r, v)"
    and rest: "(case r of None \<Rightarrow> returnE ()
     | Some r \<Rightarrow>
       bindE (relationship_targets lib l r False) (\<lambda>targets.
       bindE (getE (\<lambda>s. application_path (os_application s))) (\<lambda>expected.
       bindE (case expected of None \<Rightarrow> returnE ()
         | Some p \<Rightarrow> if p \<in> set targets then returnE ()
             else modifyE (malformed_part ''office_document_relationship_missing'' None)) (\<lambda>_.
       forE (inspect_part_relationships lib l archive ms) (relationship_parts ms))))) v = (Inr x, t)"
    unfolding inspect_relationships_def by (rule bind_returns)
  have "r \<noteq> None"
  proof
    assume "r = None"
    with rest r read_xml_required none show False by (auto simp: returnE_def)
  qed
  with rest obtain w where loop: "forE (inspect_part_relationships lib l archive ms) (relationship_parts ms) w = (Inr x, t)"
    by (auto elim!: bind_returns)
  have "name \<in> set (relationship_parts ms)" using part by (auto simp: relationship_parts_def dest: map_of_SomeD intro: rev_image_eqI)
  from for_visits [OF loop this growing.leaves_part_relationships] obtain v w where
    p: "inspect_part_relationships lib l archive ms name v = (Inr (), w)" and g: "ooxml_grows w t" by blast
  from p obtain q z where q: "read_xml lib l archive ms name False v = (Inr q, z)"
    and qq: "(case q of None \<Rightarrow> returnE () | Some r \<Rightarrow> bindE (relationship_targets lib l r True) (\<lambda>_. returnE ())) z = (Inr (), w)"
    unfolding inspect_part_relationships_def by (rule bind_returns)
  from read_xml_content [OF q part(1) data] obtain root where root: "q = Some root" "ox_parse lib data = Inr root" by blast
  with qq obtain ts where "note_relationships lib l True (xr_children root) [] z = (Inr ts, w)"
    by (auto simp: relationship_targets_def raiseE_def returnE_def elim!: bind_returns split: if_splits)
  from note_relationships_counts [OF this] counts_grow [OF g] root(2) show ?thesis by blast
qed

section \<open>Capabilities\<close>

definition same_capabilities :: "ooxml_state \<Rightarrow> ooxml_state \<Rightarrow> bool" where
  "same_capabilities s t \<longleftrightarrow> os_embedded_count t = os_embedded_count s \<and> os_activex_count t = os_activex_count s \<and>
     os_vba_project_count t = os_vba_project_count s \<and> os_macro_enabled t = os_macro_enabled s \<and>
     os_application t = os_application s"

interpretation reading_vba: vba_effects same_capabilities l for l
  by unfold_locales (simp_all add: same_capabilities_def ooxml_partial_def note_vba_def)

lemma capabilities_counted:
  assumes "inspect_capabilities lib l ms overrides archive s = (Inr x, t)"
  shows "os_embedded_count t = min (length (filter (has_prefix EMBEDDING_PREFIXES) (map fst ms))) (ol_embedded_objects l)"
    and "os_activex_count t = min (length (filter (has_prefix ACTIVEX_PREFIXES) (map fst ms))) (ol_activex_objects l)"
    and "os_vba_project_count t = length (vba_members lib ms overrides (os_application t))"
    and "vba_members lib ms overrides (os_application t) \<noteq> [] \<Longrightarrow> os_macro_enabled t"
proof -
  let ?s1 = "count_objects l ms s"
  let ?ps = "vba_members lib ms overrides (os_application ?s1)"
  have "forE (inspect_vba_member lib l archive ms) (take (ol_vba_projects l) ?ps) (count_projects l ?ps ?s1) = (Inr x, t)"
    using assms by (simp add: inspect_capabilities_def bindE_def modifyE_def getE_def)
  from leavesD [OF reading_vba.leaves_for this] reading_vba.leaves_vba_member
  have "same_capabilities (count_projects l ?ps ?s1) t" by blast
  then show "os_embedded_count t = min (length (filter (has_prefix EMBEDDING_PREFIXES) (map fst ms))) (ol_embedded_objects l)"
    "os_activex_count t = min (length (filter (has_prefix ACTIVEX_PREFIXES) (map fst ms))) (ol_activex_objects l)"
    "os_vba_project_count t = length (vba_members lib ms overrides (os_application t))"
    "vba_members lib ms overrides (os_application t) \<noteq> [] \<Longrightarrow> os_macro_enabled t"
    by (auto simp: same_capabilities_def count_projects_def Let_def ooxml_partial_def split: if_splits)
qed

section \<open>Complete analyses\<close>

lemma caught_reason: "caught e = Some f \<Longrightarrow> os_partial_reasons (f s) \<noteq> []"
  by (auto simp: caught_def ooxml_partial_def malformed_part_def Let_def List.insert_def split: office_exn.splits if_splits)

lemma result_complete: "ooxml_result lib l s = Inr a \<Longrightarrow> office_complete a \<Longrightarrow>
    os_partial_reasons s = [] \<and> oa_findings a = ooxml_findings l s \<and> oa_application a = os_application s"
  by (auto simp: ooxml_result_def office_complete_def office_status_def split: if_splits)

lemma complete_package:
  assumes "analyze_ooxml lib l = Inr (Some a)" "office_complete a"
    and "zl_open (ox_zip lib) Sample_Path = Inr archive" "za_infos archive = Inr infos"
  obtains s t where "distinct (map zi_filename infos)"
    "inspect_package lib l archive (zip (map zi_filename infos) infos) s = (Inr (), t)" "os_partial_reasons t = []"
    "oa_findings a = ooxml_findings l t" "oa_application a = os_application t"
proof -
  let ?s0 = "initial_ooxml\<lparr>os_entry_count := length infos\<rparr>"
  let ?s1 = "if list_ex (\<lambda>n. ol_member_name_length l < length n) (map zi_filename infos)
    then ooxml_partial ''zip_member_name_limit'' ?s0 else ?s0"
  let ?run = "inspect_package lib l archive (zip (map zi_filename infos) infos) (mark_package l infos ?s1)"
  have e: "inspect_entries lib l archive infos = Inr a"
    using assms by (cases "inspect_entries lib l archive infos") (auto simp: analyze_ooxml_def split: if_splits)
  have many: "\<not> ol_zip_entries l < length infos"
  proof
    assume "ol_zip_entries l < length infos"
    with e have "ooxml_result lib l (ooxml_partial ''zip_entry_limit'' ?s0) = Inr a" by (simp add: inspect_entries_def Let_def)
    with result_complete [OF this assms(2)] show False by (simp add: ooxml_partial_def List.insert_def split: if_splits)
  qed
  have d: "distinct (map zi_filename infos)"
  proof (rule ccontr)
    assume "\<not> distinct (map zi_filename infos)"
    with e many have "ooxml_result lib l (malformed_part ''duplicate_zip_member'' None ?s1) = Inr a" by (simp add: inspect_entries_def Let_def)
    with result_complete [OF this assms(2)] show False
      by (simp add: malformed_part_def ooxml_partial_def List.insert_def Let_def split: if_splits)
  qed
  obtain r t where run: "?run = (r, t)" by fastforce
  show thesis
  proof (cases r)
    case (Inr x)
    with e many d run have "ooxml_result lib l t = Inr a" by (simp add: inspect_entries_def Let_def)
    with result_complete [OF this assms(2)] d run Inr that show ?thesis by simp
  next
    case (Inl e')
    with e many d run obtain f where "caught e' = Some f" "ooxml_result lib l (f t) = Inr a"
      by (auto simp: inspect_entries_def Let_def split: option.splits)
    with result_complete [OF _ assms(2)] caught_reason show ?thesis by blast
  qed
qed

lemma package_runs:
  assumes "inspect_package lib l archive ms s = (Inr (), t)" "os_partial_reasons t = []"
  obtains overrides v w where "inspect_relationships lib l archive ms v = (Inr (), w)" "os_partial_reasons w = []"
    "ooxml_grows w t" "inspect_capabilities lib l ms overrides archive w = (Inr (), t)"
proof -
  from assms(1) obtain r v where r: "read_xml lib l archive ms CONTENT_TYPES_PART True s = (Inr r, v)"
    and rest: "(case r of None \<Rightarrow> returnE ()
     | Some r \<Rightarrow>
       bindE (content_type_overrides r) (\<lambda>overrides.
       bindE (classify_package lib overrides ms) (\<lambda>_.
       bindE (modifyE (\<lambda>s. if os_application s = APP_UNKNOWN
         then malformed_part ''inconsistent_package_structure'' None s else s)) (\<lambda>_.
       bindE (inspect_relationships lib l archive ms) (\<lambda>_.
       inspect_capabilities lib l ms overrides archive))))) v = (Inr (), t)"
    unfolding inspect_package_def by (rule bind_returns)
  have "r \<noteq> None"
  proof
    assume "r = None"
    with rest r read_xml_required assms(2) show False by (auto simp: returnE_def)
  qed
  with rest obtain overrides v w where rel: "inspect_relationships lib l archive ms v = (Inr (), w)"
    and cap: "inspect_capabilities lib l ms overrides archive w = (Inr (), t)" by (auto elim!: bind_returns)
  have "ooxml_grows w t" using leavesD [OF growing.leaves_capabilities cap] .
  with assms(2) have "os_partial_reasons w = []" by (auto simp: ooxml_grows_def)
  with rel cap \<open>ooxml_grows w t\<close> that show thesis by blast
qed

lemma office_evidence:
  "os_external_count s \<noteq> 0 \<Longrightarrow> ''OFFICE_EXTERNAL_RELATIONSHIP'' \<in> fst ` set (ooxml_findings l s)"
  "os_template_count s \<noteq> 0 \<Longrightarrow> ''OFFICE_EXTERNAL_TEMPLATE'' \<in> fst ` set (ooxml_findings l s)"
  "os_embedded_count s \<noteq> 0 \<Longrightarrow> ''OFFICE_EMBEDDED_OBJECT'' \<in> fst ` set (ooxml_findings l s)"
  "os_activex_count s \<noteq> 0 \<Longrightarrow> ''OFFICE_ACTIVEX'' \<in> fst ` set (ooxml_findings l s)"
  "os_vba_project_count s \<noteq> 0 \<Longrightarrow> ''OFFICE_VBA_MACRO'' \<in> fst ` set (ooxml_findings l s)"
  "os_macro_enabled s \<Longrightarrow> ''OFFICE_MACRO_ENABLED'' \<in> fst ` set (ooxml_findings l s)"
  by (simp_all add: ooxml_findings_def macro_findings_def container_findings_def image_Un when_found_mem)

lemma map_of_infos: "distinct (map zi_filename infos) \<Longrightarrow> i \<in> set infos \<Longrightarrow>
    map_of (zip (map zi_filename infos) infos) (zi_filename i) = Some i"
proof (induction infos)
  case (Cons j infos)
  show ?case
  proof (cases "i = j")
    case False
    with Cons.prems have i: "i \<in> set infos" by simp
    then have "zi_filename i \<in> zi_filename ` set infos" by (rule imageI)
    with Cons.prems have "zi_filename i \<noteq> zi_filename j" by auto
    with Cons i show ?thesis by simp
  qed simp
qed simp

lemma filter_nonempty: "x \<in> set xs \<Longrightarrow> P x \<Longrightarrow> 0 < length (filter P xs)"
  by (auto simp: filter_empty_conv)

lemma expected_project:
  assumes "vba_path app = Some p" "map_of ms p \<noteq> None"
  shows "vba_members lib ms overrides app \<noteq> []"
proof -
  have "p \<in> set (vba_members lib ms overrides app)" using assms by (auto simp: vba_members_def Let_def)
  then show ?thesis by auto
qed

lemma package_evidence:
  assumes "analyze_ooxml lib l = Inr (Some a)" "office_complete a" "office_limits_ok l"
    and "zl_open (ox_zip lib) Sample_Path = Inr archive" "za_infos archive = Inr infos" "i \<in> set infos"
  shows "(has_prefix EMBEDDING_PREFIXES (zi_filename i) \<longrightarrow> ''OFFICE_EMBEDDED_OBJECT'' \<in> fst ` set (oa_findings a)) \<and>
    (has_prefix ACTIVEX_PREFIXES (zi_filename i) \<longrightarrow> ''OFFICE_ACTIVEX'' \<in> fst ` set (oa_findings a)) \<and>
    (vba_path (oa_application a) = Some (zi_filename i) \<longrightarrow>
      {''OFFICE_MACRO_ENABLED'', ''OFFICE_VBA_MACRO''} \<subseteq> fst ` set (oa_findings a)) \<and>
    (\<forall>data. za_open archive i = Inr (content data) \<and> ends_with (u ''.rels'') (zi_filename i) \<and>
        zi_filename i \<noteq> ROOT_RELATIONSHIPS_PART \<longrightarrow>
      (\<exists>root. ox_parse lib data = Inr root \<and> (\<forall>e\<in>set (xr_children root).
        el_tag e = qname RELATIONSHIPS_NAMESPACE ''Relationship'' \<and> is_external lib e \<longrightarrow>
        ''OFFICE_EXTERNAL_RELATIONSHIP'' \<in> fst ` set (oa_findings a) \<and>
        (is_template lib e \<longrightarrow> ''OFFICE_EXTERNAL_TEMPLATE'' \<in> fst ` set (oa_findings a)))))"
proof -
  let ?ms = "zip (map zi_filename infos) infos"
  obtain s t where d: "distinct (map zi_filename infos)" and run: "inspect_package lib l archive ?ms s = (Inr (), t)"
    and none: "os_partial_reasons t = []" and a: "oa_findings a = ooxml_findings l t" "oa_application a = os_application t"
    using complete_package [OF assms(1,2,4,5)] .
  obtain overrides v w where rel: "inspect_relationships lib l archive ?ms v = (Inr (), w)" "os_partial_reasons w = []"
    and g: "ooxml_grows w t" and cap: "inspect_capabilities lib l ?ms overrides archive w = (Inr (), t)"
    using package_runs [OF run none] .
  note m = map_of_infos [OF d assms(6)] and counted = capabilities_counted [OF cap]
  have names: "zi_filename i \<in> set (map fst ?ms)" using assms(6) by simp
  have lim: "0 < ol_embedded_objects l" "0 < ol_activex_objects l" using assms(3) by (simp_all add: office_limits_ok_def)
  have "''OFFICE_EXTERNAL_RELATIONSHIP'' \<in> fst ` set (oa_findings a) \<and>
      (b \<longrightarrow> ''OFFICE_EXTERNAL_TEMPLATE'' \<in> fst ` set (oa_findings a))"
    if "0 < os_external_count w \<and> (b \<longrightarrow> 0 < os_template_count w)" for b
    using counts_grow [OF g that] office_evidence [of t l] a by auto
  then have "\<exists>root. ox_parse lib data = Inr root \<and> (\<forall>e\<in>set (xr_children root).
        el_tag e = qname RELATIONSHIPS_NAMESPACE ''Relationship'' \<and> is_external lib e \<longrightarrow>
        ''OFFICE_EXTERNAL_RELATIONSHIP'' \<in> fst ` set (oa_findings a) \<and>
        (is_template lib e \<longrightarrow> ''OFFICE_EXTERNAL_TEMPLATE'' \<in> fst ` set (oa_findings a)))"
    if "za_open archive i = Inr (content data)" "ends_with (u ''.rels'') (zi_filename i)" "zi_filename i \<noteq> ROOT_RELATIONSHIPS_PART" for data
    using inspect_relationships_counts [OF rel m that(2,3,1)] by blast
  moreover have "{''OFFICE_MACRO_ENABLED'', ''OFFICE_VBA_MACRO''} \<subseteq> fst ` set (oa_findings a)"
    if "vba_path (oa_application a) = Some (zi_filename i)"
    using expected_project [of "os_application t" "zi_filename i" ?ms lib overrides] that m counted(3,4) office_evidence(5,6) [of t l] a by simp
  moreover have "os_embedded_count t \<noteq> 0" if "has_prefix EMBEDDING_PREFIXES (zi_filename i)"
    using filter_nonempty [OF names, of "has_prefix EMBEDDING_PREFIXES", OF that] lim counted(1) by simp
  moreover have "os_activex_count t \<noteq> 0" if "has_prefix ACTIVEX_PREFIXES (zi_filename i)"
    using filter_nonempty [OF names, of "has_prefix ACTIVEX_PREFIXES", OF that] lim counted(2) by simp
  ultimately show ?thesis using a office_evidence(3,4) [of t l] by auto
qed

text \<open>The part \<open>_rels/.rels\<close> is read without collecting: whatever external relationships and remote
  templates it declares, none is counted.\<close>

lemma note_relationships_unreported:
  "note_relationships lib l False es ts s = (r, t) \<Longrightarrow>
     os_external_count t = os_external_count s \<and> os_template_count t = os_template_count s"
proof (induction es arbitrary: ts s)
  case (Cons e es)
  then show ?case
    by (cases "el_tag e \<noteq> qname RELATIONSHIPS_NAMESPACE ''Relationship''")
      (fastforce simp: bindE_def getE_def modifyE_def raiseE_def returnE_def split: if_splits)+
qed (simp add: returnE_def)

lemma root_relationships_unreported:
  "relationship_targets lib l root False s = (r, t) \<Longrightarrow>
     os_external_count t = os_external_count s \<and> os_template_count t = os_template_count s"
  using note_relationships_unreported
  by (fastforce simp: relationship_targets_def raiseE_def split: if_splits)

text \<open>C26. An OOXML package whose analysis is complete hides none of these: for every part of the
  package, an embedded object and an ActiveX control are reported by its path, the macro project
  is reported when it lies at the path expected for the recognised application, and every
  external relationship of every relationship part other than \<open>_rels/.rels\<close> is reported, as a
  remote template too where it is one. Relationships declared in \<open>_rels/.rels\<close> are not covered:
  the code never reports them (\<open>root_relationships_unreported\<close>); nor are macro projects that only
  a content type announces.\<close>

theorem complete_package_hides_nothing:
  assumes "analyze_ooxml lib l = Inr (Some a)" "office_complete a" "office_limits_ok l"
    and "zl_open (ox_zip lib) Sample_Path = Inr archive" "za_infos archive = Inr infos" "i \<in> set infos"
  shows "(has_prefix EMBEDDING_PREFIXES (zi_filename i) \<longrightarrow> ''OFFICE_EMBEDDED_OBJECT'' \<in> fst ` set (oa_findings a)) \<and>
    (has_prefix ACTIVEX_PREFIXES (zi_filename i) \<longrightarrow> ''OFFICE_ACTIVEX'' \<in> fst ` set (oa_findings a)) \<and>
    (vba_path (oa_application a) = Some (zi_filename i) \<longrightarrow>
      {''OFFICE_MACRO_ENABLED'', ''OFFICE_VBA_MACRO''} \<subseteq> fst ` set (oa_findings a)) \<and>
    (\<forall>data. za_open archive i = Inr (content data) \<and> ends_with (u ''.rels'') (zi_filename i) \<and>
        zi_filename i \<noteq> ROOT_RELATIONSHIPS_PART \<longrightarrow>
      (\<exists>root. ox_parse lib data = Inr root \<and> (\<forall>e\<in>set (xr_children root).
        el_tag e = qname RELATIONSHIPS_NAMESPACE ''Relationship'' \<and> is_external lib e \<longrightarrow>
        ''OFFICE_EXTERNAL_RELATIONSHIP'' \<in> fst ` set (oa_findings a) \<and>
        (is_template lib e \<longrightarrow> ''OFFICE_EXTERNAL_TEMPLATE'' \<in> fst ` set (oa_findings a)))))"
  by (rule package_evidence [OF assms])

section \<open>A package with a remote template\<close>

lemma read_chunks_byte:
  assumes "0 < m" "os_bytes_read s < ol_total_bytes_read l"
  shows "read_chunks l (content [b]) m [] s = (Inr [b], s\<lparr>os_bytes_read := Suc (os_bytes_read s)\<rparr>)"
proof -
  have "min 65536 (Suc m) = Suc (min 65535 m)" by simp
  then have first: "content [b] 0 (min 65536 (m + 1)) = Inr [b]" by (simp add: content_def)
  have rest: "content [b] (Suc 0) k = Inr []" for k by (simp add: content_def)
  have "account_chunk l m [] [b] s = (Inr [b], s\<lparr>os_bytes_read := Suc (os_bytes_read s)\<rparr>)"
    using assms by (simp add: account_chunk_def bind_modify run_get return_run not_less)
  then show ?thesis using first
    by (subst read_chunks.simps) (simp add: read_chunks.simps [of l _ m "[b]"] rest)
qed

lemma read_part_byte:
  assumes "map_of ms name = Some info" "za_open archive info = Inr (content [b])" "0 < n" "0 < ol_member_bytes l"
    "os_bytes_read s < ol_total_bytes_read l"
  shows "read_part l archive ms name n s = (Inr [b], s\<lparr>os_bytes_read := Suc (os_bytes_read s)\<rparr>)"
  using assms read_chunks_byte [of "min n (ol_member_bytes l)" s l b] by (simp add: read_part_def catchE_def)

lemma read_xml_byte:
  assumes "map_of ms name = Some info" "za_open archive info = Inr (content [b])" "ox_parse lib [b] = Inr root"
    "os_xml_parts_parsed s < ol_xml_parts l" "os_xml_bytes_parsed s < ol_xml_bytes l"
    "os_bytes_read s < ol_total_bytes_read l" "0 < ol_member_bytes l"
  shows "read_xml lib l archive ms name required s = (Inr (Some root),
    s\<lparr>os_bytes_read := Suc (os_bytes_read s), os_xml_parts_parsed := Suc (os_xml_parts_parsed s),
      os_xml_bytes_parsed := Suc (os_xml_bytes_parsed s)\<rparr>)"
proof -
  let ?n = "min (ol_xml_bytes l - os_xml_bytes_parsed s) (ol_member_bytes l)"
  have "read_part l archive ms name ?n s = (Inr [b], s\<lparr>os_bytes_read := Suc (os_bytes_read s)\<rparr>)"
    using assms by (intro read_part_byte) simp_all
  then show ?thesis using assms(1,3-5)
    by (simp add: read_xml_def run_get bind_modify bind_from return_run not_le bindE_def [of "read_part _ _ _ _ _"])
qed

definition part_named :: "ustring \<Rightarrow> zip_info" where
  "part_named name = \<lparr>zi_filename = name, zi_flag_bits = 0, zi_compress_type = 8, zi_create_system = 3, zi_external_attr = 0\<rparr>"

definition WORD_PART :: ustring where "WORD_PART = u ''word/document.xml''"
definition WORD_RELS :: ustring where "WORD_RELS = u ''word/_rels/document.xml.rels''"

definition template_parts :: "ustring list" where
  "template_parts = [CONTENT_TYPES_PART, ROOT_RELATIONSHIPS_PART, WORD_PART, WORD_RELS]"

definition template_archive :: zip_archive where
  "template_archive = \<lparr>za_infos = Inr (map part_named template_parts),
     za_open = (\<lambda>i. Inr (content (if zi_filename i = CONTENT_TYPES_PART then [1]
       else if zi_filename i = ROOT_RELATIONSHIPS_PART then [2] else [3])))\<rparr>"

definition word_override :: xml_element where
  "word_override = \<lparr>el_tag = qname CONTENT_TYPES_NAMESPACE ''Override'',
     el_attrib = [(u ''PartName'', u ''/word/document.xml''), (u ''ContentType'', u ''wordprocessingml'')]\<rparr>"

definition word_relationship :: xml_element where
  "word_relationship = \<lparr>el_tag = qname RELATIONSHIPS_NAMESPACE ''Relationship'',
     el_attrib = [(u ''Type'', u ''/officedocument''), (u ''Target'', u ''word/document.xml'')]\<rparr>"

definition template_relationship :: xml_element where
  "template_relationship = \<lparr>el_tag = qname RELATIONSHIPS_NAMESPACE ''Relationship'',
     el_attrib = [(u ''Type'', u ''/attachedtemplate''), (u ''Target'', u ''http://x''), (u ''TargetMode'', u ''external'')]\<rparr>"

definition template_root :: "bytes \<Rightarrow> xml_root" where
  "template_root bs = (if bs = [1] then \<lparr>xr_tag = qname CONTENT_TYPES_NAMESPACE ''Types'', xr_children = [word_override]\<rparr>
     else if bs = [2] then \<lparr>xr_tag = qname RELATIONSHIPS_NAMESPACE ''Relationships'', xr_children = [word_relationship]\<rparr>
     else \<lparr>xr_tag = qname RELATIONSHIPS_NAMESPACE ''Relationships'', xr_children = [template_relationship]\<rparr>)"

definition template_package :: ooxml_lib where
  "template_package = \<lparr>
     ox_zip = \<lparr>zl_open = (\<lambda>_. Inr template_archive), zl_sha256 = (\<lambda>_. []), zl_nfc = id, zl_casefold = id,
       zl_category_C = (\<lambda>c. c < 32), zl_zstandard = None, zl_python_version = ''3'', zl_zlib_version = ''1''\<rparr>,
     ox_vba = self_starting_vba, ox_parse = (\<lambda>bs. Inr (template_root bs)),
     ox_urlsplit = (\<lambda>_. None), ox_xml_version = OFFICE_XML_PARSER_VERSION\<rparr>"

lemma part_names: "CONTENT_TYPES_PART \<noteq> ROOT_RELATIONSHIPS_PART" "CONTENT_TYPES_PART \<noteq> WORD_PART" "CONTENT_TYPES_PART \<noteq> WORD_RELS"
  "ROOT_RELATIONSHIPS_PART \<noteq> WORD_PART" "ROOT_RELATIONSHIPS_PART \<noteq> WORD_RELS" "WORD_PART \<noteq> WORD_RELS"
  by (simp_all add: CONTENT_TYPES_PART_def ROOT_RELATIONSHIPS_PART_def WORD_PART_def WORD_RELS_def u_def)

lemma part_suffixes: "\<not> ends_with (u ''.rels'') CONTENT_TYPES_PART" "\<not> ends_with (u ''.rels'') WORD_PART"
  "ends_with (u ''.rels'') WORD_RELS"
  by (simp_all add: CONTENT_TYPES_PART_def WORD_PART_def WORD_RELS_def u_def ends_with_def)

lemma part_prefixes: "n \<in> set template_parts \<Longrightarrow> \<not> has_prefix EMBEDDING_PREFIXES n \<and> \<not> has_prefix ACTIVEX_PREFIXES n"
  by (auto simp: CONTENT_TYPES_PART_def ROOT_RELATIONSHIPS_PART_def WORD_PART_def WORD_RELS_def u_def
      template_parts_def has_prefix_def starts_with_def EMBEDDING_PREFIXES_def ACTIVEX_PREFIXES_def)

abbreviation template_members :: members where
  "template_members \<equiv> zip template_parts (map part_named template_parts)"

lemma template_override: "note_overrides [word_override] [] s = (Inr [(WORD_PART, u ''wordprocessingml'')], s)"
  by (simp add: word_override_def attribute_def WORD_PART_def) (simp add: u_def run_return return_run)

lemma word_target: "office_target template_package word_relationship = [WORD_PART]"
  by (simp add: office_target_def word_relationship_def attribute_def template_package_def WORD_PART_def)
    (simp add: u_def ends_with_def pure_posix_def Let_def)

lemma template_member: "n \<in> set template_parts \<Longrightarrow> map_of template_members n = Some (part_named n)"
  by (auto simp: template_parts_def)

lemma template_opens: "za_open template_archive (part_named n) =
    Inr (content [if n = CONTENT_TYPES_PART then 1 else if n = ROOT_RELATIONSHIPS_PART then 2 else 3])"
  by (simp add: template_archive_def part_named_def)

lemma template_lists: "set template_parts = {CONTENT_TYPES_PART, ROOT_RELATIONSHIPS_PART, WORD_PART, WORD_RELS}"
  by (simp add: template_parts_def)

lemma template_read:
  assumes "n \<in> set template_parts" "os_xml_parts_parsed s < 9" "os_xml_bytes_parsed s < 99" "os_bytes_read s < 99"
  shows "read_xml template_package small_office_limits template_archive template_members n required s =
    (Inr (Some (template_root [if n = CONTENT_TYPES_PART then 1 else if n = ROOT_RELATIONSHIPS_PART then 2 else 3])),
     s\<lparr>os_bytes_read := Suc (os_bytes_read s), os_xml_parts_parsed := Suc (os_xml_parts_parsed s),
      os_xml_bytes_parsed := Suc (os_xml_bytes_parsed s)\<rparr>)"
  by (rule read_xml_byte [OF template_member template_opens]) (use assms in \<open>simp_all add: template_package_def small_office_limits_def\<close>)

lemma template_classified:
  "classify_package template_package [(WORD_PART, u ''wordprocessingml'')] template_members s =
     (Inr (), s\<lparr>os_application := APP_WORD, os_macro_enabled := False\<rparr>)"
proof -
  have m: "map_of template_members (u ''xl/workbook.xml'') = None" "map_of template_members (u ''ppt/presentation.xml'') = None"
    "application_path APP_WORD = Some WORD_PART"
    by (simp_all add: map_of_eq_None_iff template_parts_def CONTENT_TYPES_PART_def ROOT_RELATIONSHIPS_PART_def WORD_PART_def WORD_RELS_def u_def)
  have "contains (u ''wordprocessingml'') (u ''wordprocessingml'')" by (simp add: contains_def u_def starts_with_def)
  moreover have "\<not> contains (u ''macroenabled'') (u ''wordprocessingml'')" by (simp add: contains_def u_def starts_with_def)
  moreover have "zl_casefold (ox_zip template_package) = id" by (simp add: template_package_def)
  ultimately show ?thesis using template_member [of WORD_PART] template_lists m
    by (simp add: classify_package_def fits_application_def modify_run)
qed

lemma template_vba: "vba_members template_package template_members [(WORD_PART, u ''wordprocessingml'')] APP_WORD = []"
proof -
  have "\<not> contains (u ''vbaproject'') (u ''wordprocessingml'')" by (simp add: contains_def u_def starts_with_def)
  moreover have "map_of template_members (u ''word/vbaProject.bin'') = None"
    by (simp add: map_of_eq_None_iff template_parts_def CONTENT_TYPES_PART_def ROOT_RELATIONSHIPS_PART_def WORD_PART_def WORD_RELS_def u_def)
  ultimately show ?thesis by (simp add: vba_members_def Let_def template_package_def sorted_codes_def)
qed

lemma template_external: "is_external template_package template_relationship" "is_template template_package template_relationship"
  by (simp_all add: is_external_def is_template_def template_package_def template_relationship_def attribute_def)
    (simp add: u_def ends_with_def)

lemma template_capabilities:
  "os_application s = APP_WORD \<Longrightarrow> \<exists>t. inspect_capabilities template_package small_office_limits template_members
      [(WORD_PART, u ''wordprocessingml'')] template_archive s = (Inr (), t) \<and>
    os_partial_reasons t = os_partial_reasons s \<and> os_malformed t = os_malformed s"
proof -
  assume app: "os_application s = APP_WORD"
  have "filter (has_prefix EMBEDDING_PREFIXES) template_parts = []" "filter (has_prefix ACTIVEX_PREFIXES) template_parts = []"
    using part_prefixes by (simp_all add: filter_empty_conv)
  then have "os_partial_reasons (count_objects small_office_limits template_members s) = os_partial_reasons s \<and>
      os_malformed (count_objects small_office_limits template_members s) = os_malformed s \<and>
      os_application (count_objects small_office_limits template_members s) = os_application s"
    by (simp add: count_objects_def Let_def template_parts_def)
  with app show ?thesis
    by (simp add: inspect_capabilities_def bind_modify run_get template_vba return_run count_projects_def Let_def)
qed

lemma template_relationships:
  assumes "os_application s = APP_WORD" "os_xml_parts_parsed s = 1" "os_xml_bytes_parsed s = 1" "os_bytes_read s = 1"
    "os_relationship_count s = 0" "os_external_count s = 0" "os_external_summaries s = []" "os_template_summaries s = []"
  shows "\<exists>t. inspect_relationships template_package small_office_limits template_archive template_members s = (Inr (), t) \<and>
    os_partial_reasons t = os_partial_reasons s \<and> os_malformed t = os_malformed s \<and> os_application t = APP_WORD"
proof -
  have parts: "relationship_parts template_members = [WORD_RELS]"
    using part_suffixes part_names
    by (simp add: relationship_parts_def template_parts_def sorted_codes_def)
  have limits: "ol_relationships small_office_limits = 9" "ol_external_relationships small_office_limits = 9"
    "ol_metadata_entries small_office_limits = 9" by (simp_all add: small_office_limits_def)
  have rels: "el_tag word_relationship = qname RELATIONSHIPS_NAMESPACE ''Relationship''"
    "el_tag template_relationship = qname RELATIONSHIPS_NAMESPACE ''Relationship''"
    by (simp_all add: word_relationship_def template_relationship_def)
  show ?thesis using assms part_names
    by (simp add: inspect_relationships_def bindE_def [of "read_xml _ _ _ _ _ _"] template_read template_lists template_root_def
        relationship_targets_def rels limits run_get bind_modify run_return run_assoc return_run word_target parts
        inspect_part_relationships_def template_external note_external_def note_summary_def note_template_def Let_def modify_run WORD_PART_def [symmetric])
qed

lemma template_run:
  "\<exists>a. analyze_ooxml template_package small_office_limits = Inr (Some a) \<and> office_complete a"
proof -
  let ?infos = "map part_named template_parts"
  let ?s = "initial_ooxml\<lparr>os_entry_count := 4\<rparr>"
  let ?s1 = "?s\<lparr>os_bytes_read := 1, os_xml_parts_parsed := 1, os_xml_bytes_parsed := 1, os_application := APP_WORD,
    os_macro_enabled := False\<rparr>"
  have names: "map (zi_filename \<circ> part_named) template_parts = template_parts" by (simp add: part_named_def comp_def)
  have many: "\<not> ol_zip_entries small_office_limits < 4" by (simp add: small_office_limits_def)
  obtain t where rel: "inspect_relationships template_package small_office_limits template_archive template_members ?s1 = (Inr (), t)"
    "os_partial_reasons t = []" "\<not> os_malformed t" "os_application t = APP_WORD"
    using template_relationships [of ?s1] by (auto simp: initial_ooxml_def)
  obtain v where cap: "inspect_capabilities template_package small_office_limits template_members
      [(WORD_PART, u ''wordprocessingml'')] template_archive t = (Inr (), v)" "os_partial_reasons v = []" "\<not> os_malformed v"
    using template_capabilities [OF rel(4)] rel by auto
  have read: "read_xml template_package small_office_limits template_archive template_members CONTENT_TYPES_PART True ?s =
      (Inr (Some (template_root [1])), ?s\<lparr>os_bytes_read := 1, os_xml_parts_parsed := 1, os_xml_bytes_parsed := 1\<rparr>)"
    using template_read [of CONTENT_TYPES_PART ?s True] by (simp add: template_lists initial_ooxml_def)
  have "inspect_package template_package small_office_limits template_archive template_members ?s = (Inr (), v)"
    using rel(1) cap(1)
    by (simp add: inspect_package_def bindE_def [of "read_xml _ _ _ _ _ _"] read template_root_def content_type_overrides_def
        bindE_def [of "note_overrides _ _"] template_override bindE_def [of "classify_package _ _ _"] template_classified
        bind_modify bindE_def [of "inspect_relationships _ _ _ _"] del: note_overrides.simps)
  moreover have "\<not> list_ex (\<lambda>n. ol_member_name_length small_office_limits < length n) template_parts"
    by (simp add: template_parts_def small_office_limits_def CONTENT_TYPES_PART_def ROOT_RELATIONSHIPS_PART_def WORD_PART_def
        WORD_RELS_def)
  moreover have "mark_package small_office_limits ?infos ?s = ?s"
    by (simp add: mark_package_def is_encrypted_def part_named_def list_ex_iff template_parts_def)
  moreover have "distinct template_parts" "length template_parts = 4" using part_names by (simp_all add: template_parts_def)
  ultimately have "inspect_entries template_package small_office_limits template_archive ?infos =
      ooxml_result template_package small_office_limits v"
    using many by (simp add: inspect_entries_def Let_def names)
  moreover have "CONTENT_TYPES_PART \<in> zi_filename ` set ?infos"
    by (simp add: template_lists part_named_def)
  ultimately show ?thesis using cap(2,3)
    by (simp add: analyze_ooxml_def ooxml_result_def office_complete_def office_status_def template_package_def template_archive_def)
qed

theorem complete_package_hides_nothing_witness:
  "\<exists>a. analyze_ooxml template_package small_office_limits = Inr (Some a) \<and>
     {''OFFICE_EXTERNAL_RELATIONSHIP'', ''OFFICE_EXTERNAL_TEMPLATE''} \<subseteq> fst ` set (oa_findings a)"
proof -
  obtain a where a: "analyze_ooxml template_package small_office_limits = Inr (Some a)" "office_complete a"
    using template_run by blast
  have opened: "zl_open (ox_zip template_package) Sample_Path = Inr template_archive"
    "za_infos template_archive = Inr (map part_named template_parts)" "part_named WORD_RELS \<in> set (map part_named template_parts)"
    "za_open template_archive (part_named WORD_RELS) = Inr (content [3])"
    using part_names by (simp_all add: template_package_def template_archive_def template_parts_def part_named_def)
  have parsed: "ox_parse template_package [3] = Inr (template_root [3])" "xr_children (template_root [3]) = [template_relationship]"
    "zi_filename (part_named WORD_RELS) = WORD_RELS" "el_tag template_relationship = qname RELATIONSHIPS_NAMESPACE ''Relationship''"
    by (simp_all add: template_package_def template_root_def part_named_def template_relationship_def)
  note all = complete_package_hides_nothing [OF a small_office_limits_ok opened(1-3), THEN conjunct2, THEN conjunct2,
      THEN conjunct2, THEN spec, of "[3]"]
  obtain root where "ox_parse template_package [3] = Inr root" "\<forall>e\<in>set (xr_children root).
      el_tag e = qname RELATIONSHIPS_NAMESPACE ''Relationship'' \<and> is_external template_package e \<longrightarrow>
        ''OFFICE_EXTERNAL_RELATIONSHIP'' \<in> fst ` set (oa_findings a) \<and>
        (is_template template_package e \<longrightarrow> ''OFFICE_EXTERNAL_TEMPLATE'' \<in> fst ` set (oa_findings a))"
    using all opened(4) part_suffixes(3) part_names(5) parsed(3) by auto
  with parsed template_external a(1) show ?thesis by simp
qed

end
