(* ===== verification/Worker_Results.thy ===== *)
theory Worker_Results
  imports Worker_Main Pdf_Results Office_Results Yara_Results Orchestrator Policy_Properties
begin

text \<open>
  The way of a report from the worker to the verdict: what the worker prints, what the trusted
  parent makes of it and what the policy decides. The theorems start in the sample and end in the
  evaluation that would release it.
\<close>

section \<open>What the parent receives\<close>

text \<open>The typed fields of the printed report.\<close>

definition received :: "worker_report \<Rightarrow> analysis_result" where
  "received r = \<lparr>ar_schema_version = ANALYSIS_SCHEMA_VERSION, ar_worker_version = WORKER_VERSION,
     ar_status = wo_status r, ar_detected_type = wo_detected_type r, ar_size_bytes = int (wo_size_bytes r),
     ar_findings = wo_findings r, ar_analyzer_metadata = wo_metadata r, ar_started_at = Some (wo_started_at r),
     ar_completed_at = Some (wo_completed_at r), ar_duration_ms = wo_duration_ms r\<rparr>"

definition judged_release ::
  "(ustring \<Rightarrow> string) \<Rightarrow> (ustring \<Rightarrow> analysis_result option) \<Rightarrow> string \<Rightarrow> worker_execution \<Rightarrow> scan_state \<Rightarrow> instant \<Rightarrow> bool" where
  "judged_release sha256 decode job_id x st t =
     (let oc = judge_execution decode job_id (Some x) in
      case evaluate_policy sha256 (ao_result oc) (map_option failure_value (ao_failure_code oc)) st t of
        Inl _ \<Rightarrow> False | Inr e \<Rightarrow> pe_release_eligible e)"

text \<open>\<open>printed\<close>: the execution carries the text of the report, and decoding that text gives back its fields.\<close>

definition printed :: "'r worker_lib \<Rightarrow> (ustring \<Rightarrow> analysis_result option) \<Rightarrow> worker_report \<Rightarrow> worker_execution \<Rightarrow> bool" where
  "printed lib decode r x \<longleftrightarrow> json_text (report_json lib r) = Some (ex_stdout x) \<and> decode (ex_stdout x) = Some (received r)"

lemma released_report:
  assumes "judged_release sha256 decode job_id x st t" "printed lib decode r x"
  shows "wo_status r = AS_SUCCESS" "wo_detected_type r \<in> Some ` set SUPPORTED_RELEASE_TYPES"
    and "accumulated_score (f_code ` set (wo_findings r)) < 20"
    and "p \<in> set (present_policies (f_code ` set (wo_findings r))) \<Longrightarrow> fp_minimum_decision p = None"
proof -
  let ?oc = "judge_execution decode job_id (Some x)"
  obtain e where e: "evaluate_policy sha256 (ao_result ?oc) (map_option failure_value (ao_failure_code ?oc)) st t = Inr e"
    "pe_release_eligible e" using assms(1) by (auto simp: judged_release_def Let_def split: sum.splits)
  have r: "r' = received r" if "ao_result ?oc = Some r'" for r'
    using that assms(2) by (auto simp: judge_execution_def quarantined_def printed_def split: if_splits)
  from e(2) r show "wo_status r = AS_SUCCESS" "wo_detected_type r \<in> Some ` set SUPPORTED_RELEASE_TYPES"
    "accumulated_score (f_code ` set (wo_findings r)) < 20"
    "p \<in> set (present_policies (f_code ` set (wo_findings r))) \<Longrightarrow> fp_minimum_decision p = None"
    unfolding release_iff [OF e(1)] by (auto simp: received_def finding_codes_def)
qed

lemma released_score:
  assumes "judged_release sha256 decode job_id x st t" "printed lib decode r x"
    and "C \<subseteq> f_code ` set (wo_findings r)"
  shows "accumulated_score C < 20"
  using accumulated_score_mono [OF assms(3)] released_report(3) [OF assms(1,2)] by simp

section \<open>What the worker reports\<close>

lemma built_codes: "built observed = Inr fs \<Longrightarrow> f_code ` set fs = fst ` set observed"
proof -
  have code: "f_code f = c" if "finding_payload c m = Some f" for c m f
  proof -
    from that obtain d where d: "finding_definition_of c = Some d" "f = \<lparr>f_code = fd_code d, f_title = fd_title d,
        f_description = fd_description d, f_category = fd_category d, f_severity = fd_default_severity d, f_score_delta = 0,
        f_mitre_techniques = fd_mitre_techniques d, f_metadata = m\<rparr>" by (auto simp: finding_payload_def split: option.splits)
    then show ?thesis using finding_definition_of_code by simp
  qed
  have "payloads observed = Some fs \<Longrightarrow> f_code ` set fs = fst ` set observed"
  proof (induction observed arbitrary: fs)
    case (Cons o' observed)
    obtain c m where o: "o' = (c, m)" by fastforce
    with Cons.prems obtain f where f: "finding_payload c m = Some f"
      by (cases "finding_payload c m") (simp_all add: payloads_def)
    with Cons.prems o obtain fs' where "payloads observed = Some fs'" "fs = f # fs'" by (auto simp: payloads_def)
    with Cons.IH code [OF f] o show ?case by simp
  qed (simp add: payloads_def)
  then show "built observed = Inr fs \<Longrightarrow> f_code ` set fs = fst ` set observed"
    by (auto simp: built_def split: option.splits)
qed

lemma reported_run: "map_sum id Reported m = Inr (Reported r) \<Longrightarrow> m = Inr r"
  by (cases m) auto

lemma main_reported:
  assumes "main lib sanitize raw = Reported r" "wo_status r = AS_SUCCESS"
  obtains request p i size_bytes filename named s where "parse_request (wl_parse lib) raw = Inr (request, p)"
    "identify_file (wl_file lib) (wl_decode lib) (wl_casefold lib) p = Some i"
    "run_analyzers lib p (fi_family i) = Inr s" "r = success_report lib filename size_bytes i named s"
    "identified_supported i" "section_complete (sc_pdf s)" "section_complete (sc_office s)" "section_complete (sc_archive s)"
    "section_complete (Some (sc_yara s))"
proof -
  from assms(1) obtain request p where q: "parse_request (wl_parse lib) raw = Inr (request, p)"
    by (cases "parse_request (wl_parse lib) raw") (auto simp: main_def refused_def split: if_splits)
  from assms(1) obtain n where n: "wl_size lib p = Inr n"
    and rest: "(case identify_file (wl_file lib) (wl_decode lib) (wl_casefold lib) p of
         None \<Rightarrow> Inr (case wl_size_later lib p of Inl e \<Rightarrow> Traceback e | Inr n \<Rightarrow> Reported (unidentified_report lib n))
       | Some i \<Rightarrow> map_sum id Reported (analyze_identified lib request p n i)) = Inr (Reported r)"
    by (cases "wl_size lib p"; cases "sanitize p request")
      (auto simp: main_def q refused_def Let_def split: if_splits sum.splits)
  from rest assms(2) obtain i where i: "identify_file (wl_file lib) (wl_decode lib) (wl_casefold lib) p = Some i"
    and a: "analyze_identified lib request p n i = Inr r"
    by (cases "identify_file (wl_file lib) (wl_decode lib) (wl_casefold lib) p")
      (auto simp: unidentified_report_def dest: reported_run split: sum.splits)
  from a obtain filename named s where s: "run_analyzers lib p (fi_family i) = Inr s"
    "r = success_report lib filename n i named s"
    by (auto simp: analyze_identified_def elim!: attempt_returns)
  with assms(2) have "identified_supported i" "section_complete (sc_pdf s)" "section_complete (sc_office s)"
    "section_complete (sc_archive s)" "section_complete (Some (sc_yara s))"
    by (auto simp: success_report_def report_status_def split: if_splits)
  with q i s that show thesis by blast
qed

lemma run_split:
  assumes "run_analyzers lib p fam = Inr s"
  obtains pdf office archive where
    "when_family (fam = FF_PDF) (map_sum id Some (run_pdf_analysis lib fam)) = Inr pdf"
    "when_family (uses_office fam) (run_office_analysis lib fam) = Inr office"
    "when_family (office = None \<and> uses_archive fam) (map_sum id Some (run_archive_analysis lib p fam)) = Inr archive"
    "run_yara_analysis lib p = Inr (sc_yara s)"
    "sc_pdf s = pdf" "sc_office s = map_option fst office" "sc_archive s = map_option fst archive"
    "sc_type s = (case office of Some (_, t) \<Rightarrow> t | None \<Rightarrow> (case archive of Some (_, t) \<Rightarrow> t | None \<Rightarrow> family_value fam))"
  using assms unfolding run_analyzers_def by (elim attempt_returns) auto

lemma run_analyzers_sections:
  assumes "run_analyzers lib p fam = Inr s"
  shows "fam = FF_PDF \<Longrightarrow> \<exists>sec. run_pdf_analysis lib fam = Inr sec \<and> sc_pdf s = Some sec"
    and "uses_office fam \<Longrightarrow> \<exists>office. run_office_analysis lib fam = Inr office \<and> sc_office s = map_option fst office"
    and "uses_archive fam \<Longrightarrow> sc_office s = None \<Longrightarrow>
      \<exists>sec t. run_archive_analysis lib p fam = Inr (sec, t) \<and> sc_archive s = Some sec"
    and "run_yara_analysis lib p = Inr (sc_yara s)"
proof -
  obtain pdf office archive where pdf: "when_family (fam = FF_PDF) (map_sum id Some (run_pdf_analysis lib fam)) = Inr pdf"
    and office: "when_family (uses_office fam) (run_office_analysis lib fam) = Inr office"
    and archive: "when_family (office = None \<and> uses_archive fam) (map_sum id Some (run_archive_analysis lib p fam)) = Inr archive"
    and yara: "run_yara_analysis lib p = Inr (sc_yara s)"
    and s: "sc_pdf s = pdf" "sc_office s = map_option fst office" "sc_archive s = map_option fst archive"
    using run_split [OF assms] .
  show "fam = FF_PDF \<Longrightarrow> \<exists>sec. run_pdf_analysis lib fam = Inr sec \<and> sc_pdf s = Some sec"
    using pdf s(1) by (cases "run_pdf_analysis lib fam") (auto simp: when_family_def)
  show "uses_office fam \<Longrightarrow> \<exists>office. run_office_analysis lib fam = Inr office \<and> sc_office s = map_option fst office"
    using office s(2) by (auto simp: when_family_def)
  show "uses_archive fam \<Longrightarrow> sc_office s = None \<Longrightarrow>
      \<exists>sec t. run_archive_analysis lib p fam = Inr (sec, t) \<and> sc_archive s = Some sec"
    using archive s(2,3) by (cases "run_archive_analysis lib p fam") (auto simp: when_family_def)
  show "run_yara_analysis lib p = Inr (sc_yara s)" using yara .
qed

section \<open>From the sample to the verdict\<close>

lemma released_run:
  assumes "main lib sanitize raw = Reported r" "printed lib decode r x" "judged_release sha256 decode job_id x st t"
    and "parse_request (wl_parse lib) raw = Inr (request, p)"
    and "identify_file (wl_file lib) (wl_decode lib) (wl_casefold lib) p = Some i"
  obtains s where "run_analyzers lib p (fi_family i) = Inr s" "section_complete (sc_pdf s)" "section_complete (sc_office s)"
    "section_complete (sc_archive s)" "wo_detected_type r = Some (sc_type s)" "sc_type s \<in> set SUPPORTED_RELEASE_TYPES"
    "set (section_findings (sc_pdf s)) \<union> set (section_findings (sc_office s)) \<union> set (section_findings (sc_archive s)) \<subseteq>
      set (wo_findings r)"
proof -
  note r = released_report [OF assms(3,2)]
  from main_reported [OF assms(1) r(1)] assms(4,5) obtain size_bytes filename named s where s: "run_analyzers lib p (fi_family i) = Inr s"
    "r = success_report lib filename size_bytes i named s" "section_complete (sc_pdf s)" "section_complete (sc_office s)"
    "section_complete (sc_archive s)" by (metis Pair_inject option.inject sum.inject(2))
  have "wo_detected_type r = Some (sc_type s)" using s(2) by (simp add: success_report_def)
  moreover have "sc_type s \<in> set SUPPORTED_RELEASE_TYPES" using r(2) calculation by auto
  moreover have "set (section_findings (sc_pdf s)) \<union> set (section_findings (sc_office s)) \<union> set (section_findings (sc_archive s)) \<subseteq>
      set (wo_findings r)" using s(2) by (auto simp: success_report_def)
  ultimately show thesis using that s(1,3-5) by blast
qed

lemma run_types:
  assumes "run_analyzers lib p fam = Inr s"
  shows "sc_office s = None \<Longrightarrow> sc_archive s = None \<Longrightarrow> sc_type s = family_value fam"
    and "sc_pdf s \<noteq> None \<longleftrightarrow> fam = FF_PDF" "sc_office s \<noteq> None \<Longrightarrow> uses_office fam" "sc_archive s \<noteq> None \<Longrightarrow> uses_archive fam"
proof -
  obtain pdf office archive where run: "when_family (fam = FF_PDF) (map_sum id Some (run_pdf_analysis lib fam)) = Inr pdf"
    "when_family (uses_office fam) (run_office_analysis lib fam) = Inr office"
    "when_family (office = None \<and> uses_archive fam) (map_sum id Some (run_archive_analysis lib p fam)) = Inr archive"
    and s: "sc_pdf s = pdf" "sc_office s = map_option fst office" "sc_archive s = map_option fst archive"
    "sc_type s = (case office of Some (_, t) \<Rightarrow> t | None \<Rightarrow> (case archive of Some (_, t) \<Rightarrow> t | None \<Rightarrow> family_value fam))"
    using run_split [OF assms] .
  show "sc_office s = None \<Longrightarrow> sc_archive s = None \<Longrightarrow> sc_type s = family_value fam" using s by simp
  show "sc_pdf s \<noteq> None \<longleftrightarrow> fam = FF_PDF" using run(1) s(1)
    by (cases "run_pdf_analysis lib fam"; cases pdf) (auto simp: when_family_def split: if_splits)
  show "sc_office s \<noteq> None \<Longrightarrow> uses_office fam" using run(2) s(2) by (auto simp: when_family_def split: if_splits)
  show "sc_archive s \<noteq> None \<Longrightarrow> uses_archive fam" using run(3) s(3) by (auto simp: when_family_def split: if_splits)
qed

lemma unsupported_families:
  "family_value fam \<in> set SUPPORTED_RELEASE_TYPES \<longleftrightarrow> fam \<in> {FF_PDF, FF_ZIP, FF_TEXT}"
  by (cases fam) (simp_all add: SUPPORTED_RELEASE_TYPES_def)

text \<open>C3. A document is released only after a complete analysis by the analyzers of its family: the
  parent releases on the report of the worker only when the sample was identified as a PDF, a ZIP
  container, an OLE document or a text, the PDF analyzer ran to the end on a PDF, the Office analyzer
  on an OLE document, the Office or the archive analyzer on a ZIP container, and YARA scanned it all.\<close>

theorem released_was_analyzed:
  assumes "main lib sanitize raw = Reported r" "printed lib decode r x" "judged_release sha256 decode job_id x st t"
  shows "\<exists>request p i s. parse_request (wl_parse lib) raw = Inr (request, p) \<and>
    identify_file (wl_file lib) (wl_decode lib) (wl_casefold lib) p = Some i \<and>
    run_analyzers lib p (fi_family i) = Inr s \<and> wo_detected_type r = Some (sc_type s) \<and>
    fi_family i \<notin> {FF_UNKNOWN, FF_WINDOWS_EXECUTABLE} \<and>
    list_all section_complete [sc_pdf s, sc_office s, sc_archive s, Some (sc_yara s)] \<and>
    (fi_family i = FF_PDF \<longrightarrow> sc_pdf s \<noteq> None) \<and> (fi_family i = FF_OLE_COMPOUND \<longrightarrow> sc_office s \<noteq> None) \<and>
    (uses_archive (fi_family i) \<longrightarrow> sc_office s \<noteq> None \<or> sc_archive s \<noteq> None)"
proof -
  note r = released_report [OF assms(3,2)]
  obtain request p i size_bytes filename named s where q: "parse_request (wl_parse lib) raw = Inr (request, p)"
    "identify_file (wl_file lib) (wl_decode lib) (wl_casefold lib) p = Some i"
    and s: "run_analyzers lib p (fi_family i) = Inr s" "r = success_report lib filename size_bytes i named s"
    and c: "identified_supported i" "section_complete (sc_pdf s)" "section_complete (sc_office s)" "section_complete (sc_archive s)"
    "section_complete (Some (sc_yara s))" using main_reported [OF assms(1) r(1)] .
  have ty: "wo_detected_type r = Some (sc_type s)" "sc_type s \<in> set SUPPORTED_RELEASE_TYPES"
    using s(2) r(2) by (auto simp: success_report_def)
  note types = run_types [OF s(1)]
  have fam: "fi_family i \<in> {FF_PDF, FF_ZIP, FF_TEXT}" if "sc_office s = None" "sc_archive s = None"
    using types(1) [OF that] ty(2) unsupported_families by simp
  have "fi_family i \<notin> {FF_UNKNOWN, FF_WINDOWS_EXECUTABLE}" "fi_family i = FF_OLE_COMPOUND \<Longrightarrow> sc_office s \<noteq> None"
    using fam types(3,4) c(1)
    by (cases "sc_office s"; cases "sc_archive s"; auto simp: identified_supported_def uses_office_def uses_archive_def)+
  moreover have "sc_office s \<noteq> None \<or> sc_archive s \<noteq> None" if "uses_archive (fi_family i)"
    using run_analyzers_sections(3) [OF s(1) that] by (cases "sc_office s") auto
  ultimately show ?thesis using q s(1) ty(1) c types(2) by (intro exI conjI) auto
qed

lemma blocking_scores:
  "\<not> accumulated_score {''PDF_JAVASCRIPT''} < 20" "\<not> accumulated_score {''PDF_LAUNCH_ACTION''} < 20"
  "\<not> accumulated_score {''OFFICE_EXTERNAL_TEMPLATE''} < 20" "\<not> accumulated_score {''OFFICE_EMBEDDED_OBJECT''} < 20"
  "\<not> accumulated_score {''OFFICE_ACTIVEX''} < 20" "\<not> accumulated_score {''OFFICE_MACRO_ENABLED'', ''OFFICE_VBA_MACRO''} < 20"
  by code_simp+

text \<open>C2. No PDF with document-level scripts, and no PDF whose open action or one of whose indirect objects
  is a JavaScript or Launch action, is ever released; and when at most one action and at most one
  holder of additional actions is a direct object, none in which a viewer can reach such an action. The walk of
  the worker, its report on the wire, the validation by the parent and the policy are those of the
  code; the document may be cyclic, shared, deep or broken, and the numbers \<open>id\<close> gives to direct
  objects are arbitrary.\<close>

theorem active_pdf_never_released:
  assumes "main lib sanitize raw = Reported r" "printed lib decode r x"
    and "parse_request (wl_parse lib) raw = Inr (request, p)"
    and "identify_file (wl_file lib) (wl_decode lib) (wl_casefold lib) p = Some i" "fi_family i = FF_PDF"
    and "pl_open (wl_pdf lib) = Inr d" "numbered d"
    and "javascript_names d \<or> exposed d h \<and> action_name d h \<in> {Some (u ''/JavaScript''), Some (u ''/Launch'')}"
  shows "\<not> judged_release sha256 decode job_id x st t"
proof
  assume released: "judged_release sha256 decode job_id x st t"
  obtain s where s: "run_analyzers lib p (fi_family i) = Inr s" "section_complete (sc_pdf s)"
    "set (section_findings (sc_pdf s)) \<subseteq> set (wo_findings r)"
    by (rule released_run [OF assms(1,2) released assms(3,4)]) blast
  obtain sec where sec: "run_pdf_analysis lib FF_PDF = Inr sec" "sc_pdf s = Some sec"
    using run_analyzers_sections(1) [OF s(1) assms(5)] assms(5) by auto
  obtain a fs where a: "analyze_pdf (wl_frames lib) (wl_pdf lib) DEFAULT_PDF_LIMITS FF_PDF = Inr a"
    "built (pa_findings a) = Inr fs" "sec = (fs, pa_metadata a, pdf_complete a)"
    using sec(1) by (auto simp: run_pdf_analysis_def elim!: attempt_returns split: sum.splits option.splits)
  have "pdf_complete a" using s(2) sec(2) a(3) by (simp add: section_complete_def)
  obtain w where w: "a = pdf_result (wl_pdf lib) DEFAULT_PDF_LIMITS w" "javascript_names d \<longrightarrow> i_name_tree_present w"
    "\<forall>h. exposed d h \<longrightarrow> evidence d w h"
    using complete_pdf_evidence [OF a(1) assms(6) \<open>pdf_complete a\<close> assms(7)] .
  have "''PDF_JAVASCRIPT'' \<in> fst ` set (pa_findings a) \<or> ''PDF_LAUNCH_ACTION'' \<in> fst ` set (pa_findings a)"
    using w assms(8) evidence_reported [of w DEFAULT_PDF_LIMITS] by (auto simp: evidence_def pdf_result_def)
  moreover have "fst ` set (pa_findings a) \<subseteq> f_code ` set (wo_findings r)"
    using built_codes [OF a(2)] s(3) sec(2) a(3) by (auto simp: section_findings_def)
  ultimately have "{''PDF_JAVASCRIPT''} \<subseteq> f_code ` set (wo_findings r) \<or> {''PDF_LAUNCH_ACTION''} \<subseteq> f_code ` set (wo_findings r)"
    by blast
  with released_score [OF released assms(2)] blocking_scores(1,2) show False by blast
qed

section \<open>Office documents\<close>

lemma default_office_limits_ok: "office_limits_ok DEFAULT_OFFICE_LIMITS"
  by (simp add: office_limits_ok_def DEFAULT_OFFICE_LIMITS_def)

text \<open>A released Office document was analysed to the end, and its findings are in the report.\<close>

lemma released_office:
  assumes "main lib sanitize raw = Reported r" "printed lib decode r x" "judged_release sha256 decode job_id x st t"
    and "parse_request (wl_parse lib) raw = Inr (request, p)"
    and "identify_file (wl_file lib) (wl_decode lib) (wl_casefold lib) p = Some i" "uses_office (fi_family i)"
  obtains analysis where "analyze_office lib (fi_family i) = Inr analysis"
    "\<And>a. analysis = Some a \<Longrightarrow> office_complete a \<and> fst ` set (oa_findings a) \<subseteq> f_code ` set (wo_findings r)"
proof -
  obtain s where s: "run_analyzers lib p (fi_family i) = Inr s" "section_complete (sc_office s)"
    "set (section_findings (sc_office s)) \<subseteq> set (wo_findings r)"
    by (rule released_run [OF assms(1-5)]) blast
  obtain office where office: "run_office_analysis lib (fi_family i) = Inr office" "sc_office s = map_option fst office"
    using run_analyzers_sections(2) [OF s(1) assms(6)] by blast
  obtain analysis where an: "analyze_office lib (fi_family i) = Inr analysis"
    using office(1) by (auto simp: run_office_analysis_def elim: attempt_returns)
  have "office_complete a \<and> fst ` set (oa_findings a) \<subseteq> f_code ` set (wo_findings r)" if some: "analysis = Some a" for a
  proof -
    obtain fs where fs: "built (oa_findings a) = Inr fs"
      "office = Some ((fs, oa_metadata a, office_complete a), office_detected_type a)"
      using office(1) by (auto simp: run_office_analysis_def an some elim: attempt_returns)
    with office(2) s(2,3) have "office_complete a" "set fs \<subseteq> set (wo_findings r)"
      by (simp_all add: section_complete_def section_findings_def)
    with built_codes [OF fs(1)] show ?thesis by (metis image_mono)
  qed
  with an that show thesis by blast
qed

text \<open>A relationship part that attaches a template from outside the package.\<close>

definition attaches_template :: "ooxml_lib \<Rightarrow> zip_archive \<Rightarrow> zip_info \<Rightarrow> bool" where
  "attaches_template lib archive i \<longleftrightarrow> ends_with (u ''.rels'') (zi_filename i) \<and>
     (\<exists>data root. za_open archive i = Inr (content data) \<and> ox_parse lib data = Inr root \<and> (\<exists>e\<in>set (xr_children root).
       el_tag e = qname RELATIONSHIPS_NAMESPACE ''Relationship'' \<and> is_external lib e \<and> is_template lib e))"

text \<open>C4. No OOXML package with an embedded object, an ActiveX control or, in any relationship part
  other than \<open>_rels/.rels\<close>, a remote template is ever released, whatever the claimed name and type
  of the upload. The template declared in \<open>_rels/.rels\<close> itself is excluded because the analyzer reads
  that part with \<open>collect_external=False\<close> and never reports it (\<open>root_relationships_unreported\<close> of
  \<open>Office_Results\<close>).\<close>

theorem active_package_never_released:
  assumes "main lib sanitize raw = Reported r" "printed lib decode r x"
    and "parse_request (wl_parse lib) raw = Inr (request, p)"
    and "identify_file (wl_file lib) (wl_decode lib) (wl_casefold lib) p = Some k" "uses_archive (fi_family k)"
    and "zl_open (ox_zip (wl_ooxml lib)) Sample_Path = Inr archive" "za_infos archive = Inr infos"
    and "CONTENT_TYPES_PART \<in> zi_filename ` set infos" "i \<in> set infos"
    and "has_prefix EMBEDDING_PREFIXES (zi_filename i) \<or> has_prefix ACTIVEX_PREFIXES (zi_filename i) \<or>
      zi_filename i \<noteq> ROOT_RELATIONSHIPS_PART \<and> attaches_template (wl_ooxml lib) archive i"
  shows "\<not> judged_release sha256 decode job_id x st t"
proof
  assume released: "judged_release sha256 decode job_id x st t"
  have fam: "uses_office (fi_family k)" using assms(5) by (auto simp: uses_office_def uses_archive_def)
  obtain analysis where an: "analyze_office lib (fi_family k) = Inr analysis"
    and report: "\<And>a. analysis = Some a \<Longrightarrow> office_complete a \<and> fst ` set (oa_findings a) \<subseteq> f_code ` set (wo_findings r)"
    by (rule released_office [OF assms(1,2) released assms(3,4) fam]) blast
  have ox: "analyze_ooxml (wl_ooxml lib) DEFAULT_OFFICE_LIMITS = Inr analysis"
    using an assms(5) by (cases "analyze_ooxml (wl_ooxml lib) DEFAULT_OFFICE_LIMITS") (auto simp: analyze_office_def uses_archive_def)
  then obtain a where a: "analyze_ooxml (wl_ooxml lib) DEFAULT_OFFICE_LIMITS = Inr (Some a)" "analysis = Some a"
    using assms(6-8) by (cases "inspect_entries (wl_ooxml lib) DEFAULT_OFFICE_LIMITS archive infos") (auto simp: analyze_ooxml_def)
  note complete = conjunct1 [OF report [OF a(2)]] and codes = conjunct2 [OF report [OF a(2)]]
  note evidence = package_evidence [OF a(1) complete default_office_limits_ok assms(6,7,9)]
  have "''OFFICE_EXTERNAL_TEMPLATE'' \<in> fst ` set (oa_findings a)" if attached: "zi_filename i \<noteq> ROOT_RELATIONSHIPS_PART" "attaches_template (wl_ooxml lib) archive i"
  proof -
    from attached(2) obtain data root e where d: "za_open archive i = Inr (content data)" "ends_with (u ''.rels'') (zi_filename i)"
      "ox_parse (wl_ooxml lib) data = Inr root" "e \<in> set (xr_children root)"
      "el_tag e = qname RELATIONSHIPS_NAMESPACE ''Relationship''" "is_external (wl_ooxml lib) e" "is_template (wl_ooxml lib) e"
      unfolding attaches_template_def by blast
    from conjunct2 [OF conjunct2 [OF conjunct2 [OF evidence]], THEN spec, of data] d attached(1) show ?thesis by auto
  qed
  then have "''OFFICE_EXTERNAL_TEMPLATE'' \<in> fst ` set (oa_findings a) \<or> ''OFFICE_EMBEDDED_OBJECT'' \<in> fst ` set (oa_findings a) \<or>
      ''OFFICE_ACTIVEX'' \<in> fst ` set (oa_findings a)" using evidence assms(10) by blast
  then obtain code where "code \<in> {''OFFICE_EXTERNAL_TEMPLATE'', ''OFFICE_EMBEDDED_OBJECT'', ''OFFICE_ACTIVEX''}"
    "{code} \<subseteq> f_code ` set (wo_findings r)" using codes by blast
  with released_score [OF released assms(2) this(2)] blocking_scores show False by auto
qed

text \<open>C5. No OLE document in which the macro parser detects macros is ever released: the parser is
  given every byte of the sample, and the findings of a macro project alone are above the threshold.\<close>

theorem macro_document_never_released:
  assumes "main lib sanitize raw = Reported r" "printed lib decode r x"
    and "parse_request (wl_parse lib) raw = Inr (request, p)"
    and "identify_file (wl_file lib) (wl_decode lib) (wl_casefold lib) p = Some k" "fi_family k = FF_OLE_COMPOUND"
    and "il_read (wl_ole lib) = (\<lambda>k n. Inr (take n (drop k sample)))"
    and "vl_open (il_vba (wl_ole lib)) sample = Inr parser" "vp_detect parser = Inr True"
  shows "\<not> judged_release sha256 decode job_id x st t"
proof
  assume released: "judged_release sha256 decode job_id x st t"
  have fam: "uses_office (fi_family k)" using assms(5) by (simp add: uses_office_def)
  obtain analysis where an: "analyze_office lib (fi_family k) = Inr analysis"
    and report: "\<And>a. analysis = Some a \<Longrightarrow> office_complete a \<and> fst ` set (oa_findings a) \<subseteq> f_code ` set (wo_findings r)"
    by (rule released_office [OF assms(1,2) released assms(3,4) fam]) blast
  have ole: "analyze_ole_office (wl_ole lib) DEFAULT_OFFICE_LIMITS = Inr analysis"
    using an assms(5) by (cases "analyze_ole_office (wl_ole lib) DEFAULT_OFFICE_LIMITS") (auto simp: analyze_office_def)
  obtain s where "run_analyzers lib p (fi_family k) = Inr s" "sc_type s \<in> set SUPPORTED_RELEASE_TYPES"
    by (rule released_run [OF assms(1,2) released assms(3,4)]) blast
  moreover have "sc_office s = None \<Longrightarrow> sc_type s = family_value FF_OLE_COMPOUND"
    using run_types(1,4) [OF calculation(1)] assms(5) by (cases "sc_archive s") (auto simp: uses_archive_def)
  ultimately have type: "sc_office s = None \<Longrightarrow> family_value FF_OLE_COMPOUND \<in> set SUPPORTED_RELEASE_TYPES" by metis
  have "sc_office s \<noteq> None"
  proof
    assume "sc_office s = None"
    with type unsupported_families [of FF_OLE_COMPOUND] show False by (simp del: family_value.simps)
  qed
  then obtain a where a: "analysis = Some a"
    using run_analyzers_sections(2) [OF \<open>run_analyzers lib p (fi_family k) = Inr s\<close> fam] an
    by (cases analysis) (auto simp: run_office_analysis_def)
  note complete = conjunct1 [OF report [OF a]] and codes = conjunct2 [OF report [OF a]]
  have "{''OFFICE_MACRO_ENABLED'', ''OFFICE_VBA_MACRO''} \<subseteq> fst ` set (oa_findings a)"
    by (rule conjunct1 [OF mp [OF spec [OF conjunct2 [OF conjunct2 [OF ole_document_evidence
      [OF ole [unfolded a] complete default_office_limits_ok assms(6)]]]] conjI [OF assms(7,8)]]])
  then have "{''OFFICE_MACRO_ENABLED'', ''OFFICE_VBA_MACRO''} \<subseteq> f_code ` set (wo_findings r)" using codes by (rule subset_trans)
  from blocking_scores(6) released_score [OF released assms(2) this] show False by (rule notE)
qed

section \<open>Reports can be built and printed\<close>

lemma built_registered: "fst ` set observed \<subseteq> set FINDING_CODES \<Longrightarrow> \<exists>fs. built observed = Inr fs"
proof -
  have "fst ` set observed \<subseteq> set FINDING_CODES \<Longrightarrow> \<exists>fs. payloads observed = Some fs"
  proof (induction observed)
    case (Cons o' observed)
    obtain c m where o: "o' = (c, m)" by fastforce
    with Cons.prems obtain d where "finding_definition_of c = Some d" using registered_iff [of c] by auto
    with Cons o show ?case by (auto simp: payloads_def finding_payload_def)
  qed (simp add: payloads_def)
  then show "fst ` set observed \<subseteq> set FINDING_CODES \<Longrightarrow> \<exists>fs. built observed = Inr fs" by (auto simp: built_def)
qed

definition REPORTED_CODES :: "string list" where
  "REPORTED_CODES = [''FILE_DOUBLE_EXTENSION'', ''FILE_BIDI_OVERRIDE'', ''FILE_TYPE_MISMATCH'', ''FILE_EXECUTABLE_MASQUERADE'',
     ''FILE_CLIENT_MIME_MISMATCH'', ''PDF_JAVASCRIPT'', ''PDF_OPEN_ACTION'', ''PDF_ADDITIONAL_ACTION'', ''PDF_LAUNCH_ACTION'',
     ''PDF_EMBEDDED_FILE'', ''PDF_ACROFORM'', ''PDF_XFA'', ''PDF_EXTERNAL_URI'', ''PDF_EXTERNAL_SUBMISSION'', ''PDF_ENCRYPTED'',
     ''PDF_MALFORMED'', ''PDF_PARTIAL_ANALYSIS'', ''PDF_FALLBACK_INDICATOR'', ''OFFICE_MACRO_ENABLED'', ''OFFICE_VBA_MACRO'',
     ''OFFICE_VBA_AUTOEXEC'', ''OFFICE_VBA_EXECUTION_INDICATOR'', ''OFFICE_EXTERNAL_RELATIONSHIP'', ''OFFICE_EXTERNAL_TEMPLATE'',
     ''OFFICE_EMBEDDED_OBJECT'', ''OFFICE_ACTIVEX'', ''OFFICE_ENCRYPTED'', ''OFFICE_MALFORMED'', ''OFFICE_PARTIAL_ANALYSIS'']"

lemma reported_registered: "set REPORTED_CODES \<subseteq> set FINDING_CODES"
proof -
  have "list_all (\<lambda>c. c \<in> set FINDING_CODES) REPORTED_CODES" by code_simp
  then show ?thesis by (auto simp: list_all_iff)
qed

lemma found_codes: "fst ` set (when_found b c m) \<subseteq> {c}"
  by (auto simp: when_found_def)

lemma pdf_codes: "fst ` set (pdf_findings l s) \<subseteq> set REPORTED_CODES"
  unfolding pdf_findings_def set_append image_Un
  by (intro Un_least; rule subset_trans [OF found_codes]; simp add: REPORTED_CODES_def)

lemma office_codes:
  "fst ` set (macro_findings l app enabled projects vba) \<subseteq> set REPORTED_CODES"
  "fst ` set (container_findings container embedded activex encrypted malformed e reasons) \<subseteq> set REPORTED_CODES"
  unfolding macro_findings_def container_findings_def set_append image_Un
  by (intro Un_least; rule subset_trans [OF found_codes]; simp add: REPORTED_CODES_def)+

lemma ooxml_codes: "fst ` set (ooxml_findings l s) \<subseteq> set REPORTED_CODES"
  unfolding ooxml_findings_def set_append image_Un
  by (intro Un_least office_codes; rule subset_trans [OF found_codes]; simp add: REPORTED_CODES_def)

lemma ole_codes: "fst ` set (ole_findings l s) \<subseteq> set REPORTED_CODES"
  unfolding ole_findings_def set_append image_Un by (intro Un_least office_codes)

lemma security_codes: "fst ` set (security_findings casefold filename identification claim) \<subseteq> set REPORTED_CODES"
  by (auto simp: security_findings_def Let_def REPORTED_CODES_def split: option.splits)

text \<open>JSON values without a float have a text.\<close>

definition finite_fields :: "json_object \<Rightarrow> bool" where
  "finite_fields m \<longleftrightarrow> list_all (\<lambda>(k, v). finite_json v) m"

lemma finite_JObj [simp]: "finite_json (JObj m) = finite_fields m"
  by (induction m) (auto simp: finite_fields_def)

lemma finite_fields_Nil [simp]: "finite_fields []"
  by (simp add: finite_fields_def)

declare finite_json.simps(7) [simp del]

lemma finite_obj: "finite_fields (obj kvs) \<longleftrightarrow> list_all (\<lambda>(k, v). finite_json v) kvs"
  by (induction kvs) (auto simp: obj_def finite_fields_def)

lemma finite_values [simp]:
  "finite_json (jtext s)" "finite_json (jcodes ss)" "finite_json (jnat n)" "finite_json (jnames ns)" "finite_json (jsorted ss)"
  "finite_json (jmaybe v)" "finite_json (jmaybe_nat w)" "finite_json (jopt x)" "finite_json (JList (map JStr ts))"
  by (simp_all add: jtext_def jcodes_def jnat_def jnames_def jsorted_def jmaybe_def jmaybe_nat_def jopt_def list_all_iff
      split: option.split)

definition finite_observations :: "observation list \<Rightarrow> bool" where
  "finite_observations observed \<longleftrightarrow> list_all (\<lambda>(c, m). finite_json (JObj m)) observed"

lemma built_finite: "built observed = Inr fs \<Longrightarrow> finite_observations observed \<Longrightarrow> (\<forall>f\<in>set fs. finite_json (finding_json f))"
proof -
  have one: "finite_json (finding_json f)" if "finding_payload c m = Some f" "finite_json (JObj m)" for c m f
    using that by (auto simp: finding_payload_def finding_json_def finite_obj split: option.splits)
  have "payloads observed = Some fs \<Longrightarrow> finite_observations observed \<Longrightarrow> (\<forall>f\<in>set fs. finite_json (finding_json f))"
  proof (induction observed arbitrary: fs)
    case (Cons o' observed)
    obtain c m where o: "o' = (c, m)" by fastforce
    with Cons.prems obtain f where f: "finding_payload c m = Some f"
      by (cases "finding_payload c m") (simp_all add: payloads_def)
    with Cons.prems o obtain fs' where "payloads observed = Some fs'" "fs = f # fs'" by (auto simp: payloads_def)
    with Cons o one [OF f] show ?case by (simp add: finite_observations_def)
  qed (simp add: payloads_def)
  then show "built observed = Inr fs \<Longrightarrow> finite_observations observed \<Longrightarrow> (\<forall>f\<in>set fs. finite_json (finding_json f))"
    by (auto simp: built_def split: option.splits)
qed

lemma finite_found: "finite_observations (when_found b c m) \<longleftrightarrow> (b \<longrightarrow> finite_json (JObj m))"
  "finite_observations (xs @ ys) \<longleftrightarrow> finite_observations xs \<and> finite_observations ys"
  by (simp_all add: finite_observations_def when_found_def)

lemma security_finite: "finite_observations (security_findings casefold filename identification claim)"
  unfolding security_findings_def Let_def finite_found(2)
  by (intro conjI; auto simp: finite_observations_def finite_obj list_all_iff split: option.split)

definition section_finite :: "analyzer_section option \<Rightarrow> bool" where
  "section_finite sec \<longleftrightarrow> (case sec of None \<Rightarrow> True
     | Some (fs, m, _) \<Rightarrow> (\<forall>f\<in>set fs. finite_json (finding_json f)) \<and> finite_fields m)"

definition sections_finite :: "sections \<Rightarrow> bool" where
  "sections_finite s \<longleftrightarrow> section_finite (sc_pdf s) \<and> section_finite (sc_office s) \<and> section_finite (sc_archive s) \<and>
     section_finite (Some (sc_yara s))"

lemma section_finite_findings: "section_finite sec \<Longrightarrow> f \<in> set (section_findings sec) \<Longrightarrow> finite_json (finding_json f)"
  by (auto simp: section_finite_def section_findings_def split: option.splits)

lemma section_finite_metadata: "section_finite sec \<Longrightarrow> list_all (\<lambda>(k, v). finite_json v) (section_metadata k sec)"
  by (auto simp: section_finite_def section_metadata_def split: option.splits)

lemma report_printable:
  assumes "sections_finite s" "\<And>f. f \<in> set named \<Longrightarrow> finite_json (finding_json f)"
  shows "\<exists>text. json_text (report_json lib (success_report lib filename size_bytes i named s)) = Some text"
proof -
  have "list_all finite_json (map finding_json (wo_findings (success_report lib filename size_bytes i named s)))"
    using assms section_finite_findings by (fastforce simp: success_report_def sections_finite_def list_all_iff)
  moreover have "finite_fields (wo_metadata (success_report lib filename size_bytes i named s))"
    using assms(1) section_finite_metadata by (simp add: success_report_def finite_obj sections_finite_def)
  ultimately have "finite_json (report_json lib (success_report lib filename size_bytes i named s))"
    by (simp add: report_json_def finite_obj list_all_iff split: option.split)
  from json_text_finite [OF this] show ?thesis by blast
qed

section \<open>Sample workers\<close>

definition quiet_yara :: "unit yara_lib" where
  "quiet_yara = sample_yara\<lparr>yb_match_file := (\<lambda>_ _ _ _. ([], Inr []))\<rparr>"

definition SAMPLE_PATH :: ustring where "SAMPLE_PATH = u ''/s''"

definition sample_request :: json_object where
  "sample_request = obj [(''schema_version'', jtext ANALYSIS_SCHEMA_VERSION), (''sample_path'', JStr SAMPLE_PATH)]"

definition sample_worker :: "ustring \<Rightarrow> pdf_lib \<Rightarrow> ooxml_lib \<Rightarrow> ole_lib \<Rightarrow> unit worker_lib" where
  "sample_worker mime pdf ooxml ole = \<lparr>wl_parse = (\<lambda>_. Inr (JObj sample_request)), wl_refused = (\<lambda>_. False),
     wl_size = (\<lambda>_. Inr 2), wl_size_later = (\<lambda>_. Inr 2), wl_file = (\<lambda>_. Run_Exited 0 []), wl_decode = (\<lambda>_. mime),
     wl_casefold = id, wl_frames = 9, wl_pdf = pdf, wl_ooxml = ooxml, wl_ole = ole, wl_yara = quiet_yara,
     wl_rules_root = [], wl_started = 1, wl_completed = 2, wl_started_ns = 0, wl_ended_ns = 0,
     wl_yara_started_ns = 0, wl_yara_ended_ns = 0, wl_isoformat = (\<lambda>_. [])\<rparr>"

lemma sample_worker_fields [simp]:
  "wl_pdf (sample_worker mime pdf ooxml ole) = pdf" "wl_ooxml (sample_worker mime pdf ooxml ole) = ooxml"
  "wl_ole (sample_worker mime pdf ooxml ole) = ole" "wl_yara (sample_worker mime pdf ooxml ole) = quiet_yara"
  by (simp_all add: sample_worker_def)

lemma sample_parse: "parse_request (wl_parse (sample_worker mime pdf ooxml ole)) raw = Inr (sample_request, SAMPLE_PATH)"
  by (simp add: parse_request_def sample_worker_def sample_request_def SAMPLE_PATH_def starts_with_def) (simp add: u_def)

lemma sample_identified:
  assumes "strip mime = mime" "mime \<noteq> []"
  shows "identify_file (wl_file (sample_worker mime pdf ooxml ole)) (wl_decode (sample_worker mime pdf ooxml ole))
      (wl_casefold (sample_worker mime pdf ooxml ole)) SAMPLE_PATH =
    Some \<lparr>fi_mime = mime, fi_family = classify id mime mime, fi_description = mime\<rparr>"
  using assms by (simp add: identify_file_def run_file_def sample_worker_def Let_def)

definition quiet_section :: analyzer_section where
  "quiet_section = ([], obj [(''engine'', jtext ''yara-python''), (''yara_python_version'', JStr (yb_version sample_yara)),
     (''yara_runtime_version'', JStr (yb_runtime_version sample_yara)),
     (''rule_pack_version'', jtext YARA_RULE_PACK_VERSION), (''rule_pack_sha256'', jtext YARA_RULE_PACK_SHA256),
     (''scope'', jtext ''TOP_LEVEL''), (''parser_status'', jtext ''COMPLETE''), (''matched_rule_count'', JInt 0),
     (''retained_finding_count'', JInt 0), (''partial_reasons'', JList []), (''duration_ms'', JInt 0)], True)"

lemma quiet_run: "run_yara_analysis (sample_worker mime pdf ooxml ole) p = Inr quiet_section"
proof -
  have same: "yb_read quiet_yara = yb_read sample_yara" "yb_sha256 quiet_yara = yb_sha256 sample_yara"
    "yb_compile quiet_yara = yb_compile sample_yara" by (simp_all add: quiet_yara_def)
  have "trusted_pack quiet_yara root = trusted_pack sample_yara root" for root
    unfolding trusted_pack_def compile_rule_pack_def same ..
  then show ?thesis
    by (simp add: run_yara_analysis_def scan_top_level_file_def sample_pack quiet_section_def sorted_codes_def)
      (simp add: quiet_yara_def yara_result_def sample_worker_def yara_complete_def Let_def sorted_codes_def)
qed

lemma sample_main:
  fixes sanitize :: "ustring \<Rightarrow> json_object \<Rightarrow> string + json_object"
  assumes "strip mime = mime" "mime \<noteq> []"
    and "run_analyzers (sample_worker mime pdf ooxml ole) SAMPLE_PATH (classify id mime mime) = Inr s" "sections_finite s"
  shows "\<exists>named x. let r = success_report (sample_worker mime pdf ooxml ole) (u ''unnamed-document'') 2
      \<lparr>fi_mime = mime, fi_family = classify id mime mime, fi_description = mime\<rparr> named s in
    main (sample_worker mime pdf ooxml ole) sanitize raw = Reported r \<and>
    printed (sample_worker mime pdf ooxml ole) (\<lambda>_. Some (received r)) r x \<and>
    ex_exit_code x = Some 0 \<and> \<not> ex_timed_out x \<and> \<not> ex_output_limit_exceeded x \<and>
    built (security_findings id (u ''unnamed-document'') \<lparr>fi_mime = mime, fi_family = classify id mime mime, fi_description = mime\<rparr> None) = Inr named"
proof -
  let ?lib = "sample_worker mime pdf ooxml ole"
  let ?i = "\<lparr>fi_mime = mime, fi_family = classify id mime mime, fi_description = mime\<rparr>"
  obtain named where named: "built (security_findings id (u ''unnamed-document'') ?i None) = Inr named"
    using built_registered [OF subset_trans [OF security_codes reported_registered]] by blast
  from built_finite [OF named security_finite] obtain wire where
    wire: "json_text (report_json ?lib (success_report ?lib (u ''unnamed-document'') 2 ?i named s)) = Some wire"
    using report_printable [OF assms(4)] by blast
  have claims: "claimed_names sample_request = Inr (u ''unnamed-document'', None)"
    by (simp add: claimed_names_def get_or_def sample_request_def jtext_def)
  have operation: "get_or sample_request ''operation'' (jtext ''ANALYZE'') = jtext ''ANALYZE''"
    by (simp add: get_or_def sample_request_def)
  have casefold: "wl_casefold ?lib = id" "wl_size ?lib p = Inr 2" for p by (simp_all add: sample_worker_def)
  note identified = sample_identified [OF assms(1,2), of pdf ooxml ole, unfolded casefold]
  have "main ?lib sanitize raw = Reported (success_report ?lib (u ''unnamed-document'') 2 ?i named s)"
    using named assms(3) by (simp add: main_def sample_parse casefold identified
        analyze_identified_def claims refused_def operation)
  with wire named show ?thesis
    by (intro exI [of _ named] exI [of _ "\<lparr>ex_stdout = wire, ex_stderr = [], ex_exit_code = Some 0, ex_timed_out = False,
      ex_output_limit_exceeded = False\<rparr>"]) (simp add: printed_def Let_def)
qed

text \<open>A PDF whose catalog cannot be read, with a JavaScript action among its objects.\<close>

definition broken_pdf :: pdf_doc where
  "broken_pdf = cyclic_pdf\<lparr>pd_view := (\<lambda>h. if h = 0 then Inl \<lparr>px_kind = X_Pdf, px_name = ''PdfError''\<rparr>
     else pd_view cyclic_pdf h)\<rparr>"

definition broken_pdf_lib :: pdf_lib where
  "broken_pdf_lib = (pdf_lib_of (Inr broken_pdf) [])\<lparr>pl_read := (\<lambda>_. None)\<rparr>"

lemma broken_active: "exposed broken_pdf 3" "action_name broken_pdf 3 = Some (u ''/JavaScript'')" "numbered broken_pdf"
proof -
  show n: "action_name broken_pdf 3 = Some (u ''/JavaScript'')"
    by (simp add: action_name_def child_def broken_pdf_def cyclic_pdf_def entry_def)
  show "exposed broken_pdf 3" by (simp add: exposed_def listed_action_def n) (simp add: broken_pdf_def cyclic_pdf_def)
  show "numbered broken_pdf" using cyclic_numbered by (simp add: numbered_def broken_pdf_def)
qed

lemma broken_run: "\<exists>s. run_analyzers (sample_worker mime broken_pdf_lib ooxml ole) SAMPLE_PATH FF_PDF = Inr s \<and> sections_finite s"
proof -
  let ?w = "initial_inspection\<lparr>i_encrypted := False, i_malformed := True, i_parser_exception := Some ''PdfError'',
    i_partial_reasons := [''parser_error_during_traversal''], i_warning_count := 0\<rparr>"
  have "traverse 9 broken_pdf_lib DEFAULT_PDF_LIMITS broken_pdf = Inr ?w"
    by (simp add: traverse_def inspect_open_pdf_def bind_modify look_def fromE_def bindE_def [of "raiseE _"] raiseE_def
        broken_pdf_def cyclic_pdf_def parser_exception_def partialE_def modifyE_def Let_def initial_inspection_def)
  then have "analyze_pdf 9 broken_pdf_lib DEFAULT_PDF_LIMITS FF_PDF = Inr (pdf_result broken_pdf_lib DEFAULT_PDF_LIMITS ?w)"
    by (simp add: analyze_pdf_def broken_pdf_lib_def pdf_lib_of_def PDF_PARSER_VERSION_def apply_fallback_scan_def)
  moreover obtain fs where fs: "built (pdf_findings DEFAULT_PDF_LIMITS ?w) = Inr fs"
    using built_registered [OF subset_trans [OF pdf_codes reported_registered]] by blast
  ultimately have run: "run_pdf_analysis (sample_worker mime broken_pdf_lib ooxml ole) FF_PDF =
      Inr (fs, pdf_metadata broken_pdf_lib DEFAULT_PDF_LIMITS ?w, False)"
    by (simp add: run_pdf_analysis_def pdf_result_def pdf_complete_def pdf_status_def) (simp add: sample_worker_def pdf_complete_def)
  have "finite_observations (pdf_findings DEFAULT_PDF_LIMITS ?w)"
    by (simp add: pdf_findings_def finite_found finite_obj initial_inspection_def embedded_count_def)
  note findings = built_finite [OF fs this]
  have "finite_fields (pdf_metadata broken_pdf_lib DEFAULT_PDF_LIMITS ?w)"
    by (simp add: pdf_metadata_def finite_obj initial_inspection_def)
  with findings have "section_finite (Some (fs, pdf_metadata broken_pdf_lib DEFAULT_PDF_LIMITS ?w, False))"
    by (simp add: section_finite_def)
  moreover have "section_finite (Some quiet_section)" by (simp add: section_finite_def quiet_section_def finite_obj)
  ultimately show ?thesis using run quiet_run [of mime broken_pdf_lib ooxml ole SAMPLE_PATH]
    by (simp add: run_analyzers_def when_family_def uses_office_def uses_archive_def sections_finite_def section_finite_def)
qed

lemma pdf_mime: "strip (u ''application/pdf'') = u ''application/pdf''" "u ''application/pdf'' \<noteq> []"
  "classify id (u ''application/pdf'') (u ''application/pdf'') = FF_PDF"
  by (simp add: strip_def u_def is_space_def, simp add: u_def, simp add: classify_def)

theorem active_pdf_never_released_witness:
  "\<exists>r x. main (sample_worker (u ''application/pdf'') broken_pdf_lib template_package self_starting_ole) (\<lambda>_ _. Inl []) [] = Reported r \<and>
     \<not> judged_release (\<lambda>_. POLICY_FINGERPRINT) (\<lambda>_. Some (received r)) [] x ANALYZING 7"
proof -
  let ?lib = "sample_worker (u ''application/pdf'') broken_pdf_lib template_package self_starting_ole"
  obtain s where s: "run_analyzers ?lib SAMPLE_PATH FF_PDF = Inr s" "sections_finite s" using broken_run by blast
  from sample_main [OF pdf_mime(1,2), unfolded pdf_mime(3), OF s] obtain r x where
    r: "main ?lib (\<lambda>_ _. Inl []) [] = Reported r" "printed ?lib (\<lambda>_. Some (received r)) r x" unfolding Let_def by blast
  have "pl_open (wl_pdf ?lib) = Inr broken_pdf" by (simp add: broken_pdf_lib_def pdf_lib_of_def)
  from active_pdf_never_released [OF r sample_parse sample_identified [OF pdf_mime(1,2)] _ this broken_active(3), of 3]
  have "\<not> judged_release (\<lambda>_. POLICY_FINGERPRINT) (\<lambda>_. Some (received r)) [] x ANALYZING 7"
    using pdf_mime(3) broken_active(1,2) by simp
  with r(1) show ?thesis by blast
qed

text \<open>An Office section made of an analysis.\<close>

lemma office_run:
  assumes "analyze_office (sample_worker mime pdf ooxml ole) fam = Inr (Some a)" "uses_office fam" "fam \<noteq> FF_PDF"
    and "fst ` set (oa_findings a) \<subseteq> set REPORTED_CODES" "finite_observations (oa_findings a)" "finite_fields (oa_metadata a)"
  shows "\<exists>s. run_analyzers (sample_worker mime pdf ooxml ole) SAMPLE_PATH fam = Inr s \<and> sections_finite s"
proof -
  obtain fs where fs: "built (oa_findings a) = Inr fs"
    using built_registered [OF subset_trans [OF assms(4) reported_registered]] by blast
  have "section_finite (Some (fs, oa_metadata a, c))" for c
    using built_finite [OF fs assms(5)] assms(6) by (simp add: section_finite_def)
  moreover have "section_finite (Some quiet_section)" by (simp add: section_finite_def quiet_section_def finite_obj)
  ultimately show ?thesis using assms(1-3) fs quiet_run [of mime pdf ooxml ole SAMPLE_PATH]
    by (simp add: run_analyzers_def when_family_def run_office_analysis_def sections_finite_def section_finite_def)
qed

lemma container_finite: "finite_observations (container_findings c n m enc malf e reasons)"
  by (simp add: container_findings_def finite_found finite_obj)

lemma macro_finite: "finite_observations (macro_findings l app b n vba)"
  by (auto simp: macro_findings_def finite_found finite_obj list_all_iff)

text \<open>A package whose parts cannot be read, with an embedded object.\<close>

definition embedding_archive :: zip_archive where
  "embedding_archive = \<lparr>za_infos = Inr [part_named CONTENT_TYPES_PART, part_named (u ''word/embeddings/x'')],
     za_open = (\<lambda>_. Inl \<lparr>ze_kind = Z_BadZip, ze_name = ''BadZipFile''\<rparr>)\<rparr>"

definition embedding_package :: ooxml_lib where
  "embedding_package = template_package\<lparr>ox_zip := (ox_zip template_package)\<lparr>zl_open := (\<lambda>_. Inr embedding_archive)\<rparr>\<rparr>"

lemma embedding_run: "\<exists>a. analyze_ooxml embedding_package DEFAULT_OFFICE_LIMITS = Inr (Some a) \<and>
    fst ` set (oa_findings a) \<subseteq> set REPORTED_CODES \<and> finite_observations (oa_findings a) \<and> finite_fields (oa_metadata a)"
proof -
  let ?infos = "[part_named CONTENT_TYPES_PART, part_named (u ''word/embeddings/x'')]"
  let ?s = "initial_ooxml\<lparr>os_entry_count := 2\<rparr>"
  let ?t = "malformed_part ''zip_member_read_error'' (Some ''BadZipFile'') ?s"
  have names: "zi_filename (part_named n) = n" "\<not> is_encrypted (part_named n)" for n
    by (simp_all add: part_named_def is_encrypted_def)
  have short: "\<not> ol_member_name_length DEFAULT_OFFICE_LIMITS < length CONTENT_TYPES_PART"
    "\<not> ol_member_name_length DEFAULT_OFFICE_LIMITS < length (u ''word/embeddings/x'')"
    "\<not> ol_zip_entries DEFAULT_OFFICE_LIMITS < 2" "\<not> ol_xml_parts DEFAULT_OFFICE_LIMITS = 0"
    "\<not> ol_xml_bytes DEFAULT_OFFICE_LIMITS = 0" "CONTENT_TYPES_PART \<noteq> u ''word/embeddings/x''"
    by (simp_all add: DEFAULT_OFFICE_LIMITS_def CONTENT_TYPES_PART_def)
  have "read_part DEFAULT_OFFICE_LIMITS embedding_archive (zip (map zi_filename ?infos) ?infos) CONTENT_TYPES_PART n ?s =
      (Inl (O_Zip \<lparr>ze_kind = Z_BadZip, ze_name = ''BadZipFile''\<rparr>), ?s)" for n
    by (simp add: read_part_def names embedding_archive_def catchE_def raiseE_def is_runtime_def Let_def)
  then have "inspect_package embedding_package DEFAULT_OFFICE_LIMITS embedding_archive (zip (map zi_filename ?infos) ?infos) ?s =
      (Inl (O_Zip \<lparr>ze_kind = Z_BadZip, ze_name = ''BadZipFile''\<rparr>), ?s)"
    using short by (simp add: inspect_package_def read_xml_def names run_assoc run_get bindE_def [of "read_part _ _ _ _ _"] initial_ooxml_def)
  then have "inspect_entries embedding_package DEFAULT_OFFICE_LIMITS embedding_archive ?infos =
      ooxml_result embedding_package DEFAULT_OFFICE_LIMITS ?t"
    using short by (simp add: inspect_entries_def Let_def names mark_package_def caught_def numeral_2_eq_2)
  then have "analyze_ooxml embedding_package DEFAULT_OFFICE_LIMITS = map_sum id Some (ooxml_result embedding_package DEFAULT_OFFICE_LIMITS ?t)"
    by (simp add: analyze_ooxml_def embedding_package_def names) (simp add: embedding_archive_def names)
  moreover have "ox_xml_version embedding_package = OFFICE_XML_PARSER_VERSION"
    by (simp add: embedding_package_def template_package_def)
  moreover have "finite_observations (ooxml_findings DEFAULT_OFFICE_LIMITS ?t)"
    by (simp add: ooxml_findings_def finite_found container_finite macro_finite malformed_part_def Let_def ooxml_partial_def initial_ooxml_def)
  moreover have "finite_fields (ooxml_metadata embedding_package ?t)" by (simp add: ooxml_metadata_def finite_obj)
  ultimately show ?thesis using ooxml_codes by (simp add: ooxml_result_def)
qed

lemma zip_mime: "strip (u ''application/zip'') = u ''application/zip''" "u ''application/zip'' \<noteq> []"
  "classify id (u ''application/zip'') (u ''application/zip'') = FF_ZIP"
  by (simp add: strip_def u_def is_space_def, simp add: u_def, simp add: classify_def contains_def starts_with_def u_def)

theorem active_package_never_released_witness:
  "\<exists>r x. main (sample_worker (u ''application/zip'') broken_pdf_lib embedding_package self_starting_ole) (\<lambda>_ _. Inl []) [] = Reported r \<and>
     \<not> judged_release (\<lambda>_. POLICY_FINGERPRINT) (\<lambda>_. Some (received r)) [] x ANALYZING 7"
proof -
  let ?lib = "sample_worker (u ''application/zip'') broken_pdf_lib embedding_package self_starting_ole"
  obtain a where a: "analyze_ooxml embedding_package DEFAULT_OFFICE_LIMITS = Inr (Some a)"
    "fst ` set (oa_findings a) \<subseteq> set REPORTED_CODES" "finite_observations (oa_findings a)" "finite_fields (oa_metadata a)"
    using embedding_run by blast
  have "analyze_office ?lib FF_ZIP = Inr (Some a)" using a(1) by (simp add: analyze_office_def)
  from office_run [OF this _ _ a(2-4)] obtain s where s: "run_analyzers ?lib SAMPLE_PATH FF_ZIP = Inr s" "sections_finite s"
    by (auto simp: uses_office_def)
  from sample_main [OF zip_mime(1,2), unfolded zip_mime(3), OF s] obtain r x where
    r: "main ?lib (\<lambda>_ _. Inl []) [] = Reported r" "printed ?lib (\<lambda>_. Some (received r)) r x" unfolding Let_def by blast
  have opened: "zl_open (ox_zip (wl_ooxml ?lib)) Sample_Path = Inr embedding_archive"
    "za_infos embedding_archive = Inr [part_named CONTENT_TYPES_PART, part_named (u ''word/embeddings/x'')]"
    by (simp_all add: embedding_package_def embedding_archive_def)
  have "has_prefix EMBEDDING_PREFIXES (u ''word/embeddings/x'')" by (simp add: has_prefix_def EMBEDDING_PREFIXES_def starts_with_def u_def)
  then have "\<not> judged_release (\<lambda>_. POLICY_FINGERPRINT) (\<lambda>_. Some (received r)) [] x ANALYZING 7"
    by (intro active_package_never_released [OF r sample_parse sample_identified [OF zip_mime(1,2)] _ opened,
        where i = "part_named (u ''word/embeddings/x'')"]) (simp_all add: zip_mime(3) uses_archive_def part_named_def)
  with r(1) show ?thesis by blast
qed

text \<open>An OLE container that the library rejects, with macros in its bytes.\<close>

definition rejected_ole :: ole_lib where
  "rejected_ole = self_starting_ole\<lparr>il_open := Inl \<lparr>oe_expected = True, oe_name = ''OSError''\<rparr>\<rparr>"

lemma ole_mime: "strip (u ''application/msword'') = u ''application/msword''" "u ''application/msword'' \<noteq> []"
  "classify id (u ''application/msword'') (u ''application/msword'') = FF_OLE_COMPOUND"
  by (simp add: strip_def u_def is_space_def, simp add: u_def, simp add: classify_def contains_def starts_with_def u_def)

theorem macro_document_never_released_witness:
  "\<exists>r x. main (sample_worker (u ''application/msword'') broken_pdf_lib embedding_package rejected_ole) (\<lambda>_ _. Inl []) [] = Reported r \<and>
     \<not> judged_release (\<lambda>_. POLICY_FINGERPRINT) (\<lambda>_. Some (received r)) [] x ANALYZING 7"
proof -
  let ?lib = "sample_worker (u ''application/msword'') broken_pdf_lib embedding_package rejected_ole"
  let ?a = "ole_result rejected_ole DEFAULT_OFFICE_LIMITS
    (ole_error ''ole_parser_rejected_container'' \<lparr>oe_expected = True, oe_name = ''OSError''\<rparr> initial_ole)"
  have "analyze_ole_office rejected_ole DEFAULT_OFFICE_LIMITS = Inr (Some ?a)"
    by (simp add: analyze_ole_office_def rejected_ole_def self_starting_ole_def)
  then have run: "analyze_office ?lib FF_OLE_COMPOUND = Inr (Some ?a)" by (simp add: analyze_office_def)
  have "fst ` set (oa_findings ?a) \<subseteq> set REPORTED_CODES" using ole_codes by (simp add: ole_result_def)
  moreover have "finite_observations (oa_findings ?a)"
    by (simp add: ole_result_def ole_findings_def finite_found container_finite macro_finite)
  moreover have "finite_fields (oa_metadata ?a)" by (simp add: ole_result_def ole_metadata_def finite_obj)
  ultimately obtain s where s: "run_analyzers ?lib SAMPLE_PATH FF_OLE_COMPOUND = Inr s" "sections_finite s"
    using office_run [OF run] by (auto simp: uses_office_def)
  from sample_main [OF ole_mime(1,2), unfolded ole_mime(3), OF s] obtain r x where
    r: "main ?lib (\<lambda>_ _. Inl []) [] = Reported r" "printed ?lib (\<lambda>_. Some (received r)) r x" unfolding Let_def by blast
  have ole: "il_read (wl_ole ?lib) = (\<lambda>k n. Inr (take n (drop k [208, 207])))"
    "vl_open (il_vba (wl_ole ?lib)) [208, 207] = Inr self_starting_parser" "vp_detect self_starting_parser = Inr True"
    by (simp_all add: rejected_ole_def self_starting_ole_def self_starting_vba_def self_starting_parser_def)
  have "\<not> judged_release (\<lambda>_. POLICY_FINGERPRINT) (\<lambda>_. Some (received r)) [] x ANALYZING 7"
    by (rule macro_document_never_released [OF r sample_parse sample_identified [OF ole_mime(1,2)] _ ole]) (simp add: ole_mime(3))
  with r(1) show ?thesis by blast
qed

text \<open>A plain text without a finding is released.\<close>

lemma text_mime: "strip (u ''text/plain'') = u ''text/plain''" "u ''text/plain'' \<noteq> []"
  "classify id (u ''text/plain'') (u ''text/plain'') = FF_TEXT"
  by (simp add: strip_def u_def is_space_def, simp add: u_def, simp add: classify_def contains_def starts_with_def u_def)

definition text_sections :: sections where
  "text_sections = \<lparr>sc_pdf = None, sc_office = None, sc_archive = None, sc_yara = quiet_section, sc_type = ''TEXT''\<rparr>"

definition text_identification :: file_identification where
  "text_identification = \<lparr>fi_mime = u ''text/plain'', fi_family = FF_TEXT, fi_description = u ''text/plain''\<rparr>"

lemma text_extension: "final_extension id (u ''unnamed-document'') = None"
  and text_named: "security_findings id (u ''unnamed-document'') text_identification None = []"
proof -
  have "basename_segments id (u ''unnamed-document'') = [u ''unnamed-document'']"
    by (simp add: basename_segments_def path_name_def replace_all_def u_def)
  then have s: "final_extension id (u ''unnamed-document'') = None" "\<not> has_dangerous_double_extension id (u ''unnamed-document'')"
    by (simp_all add: final_extension_def has_dangerous_double_extension_def)
  have b: "bidi_codepoints (u ''unnamed-document'') = []" by (simp add: bidi_codepoints_def Name_Security.BIDI_CONTROLS_def u_def)
  have e: "expected_families None = None" by (simp add: expected_families_def EXPECTED_FAMILIES_def u_def)
  show "final_extension id (u ''unnamed-document'') = None" by (rule s)
  show "security_findings id (u ''unnamed-document'') text_identification None = []"
    using s b e by (simp add: security_findings_def Let_def normalized_mime_def text_identification_def)
qed

definition text_fields :: json_object where
  "text_fields = obj [(''analyzer'', jtext ''libmagic-file''), (''detected_mime'', jtext ''text/plain''),
     (''signature_description'', jtext ''text/plain''), (''claimed_extension'', JNull),
     (''yara'', JObj (fst (snd quiet_section)))]"

lemma text_size: "case json_size (JObj text_fields) of None \<Rightarrow> False | Some n \<Rightarrow> n \<le> 3000"
  by code_simp

lemma empty_scores: "present_compounds {} = []" "present_policies {} = []"
  by code_simp+

theorem released_was_analyzed_witness:
  "\<exists>r x. main (sample_worker (u ''text/plain'') broken_pdf_lib embedding_package rejected_ole) (\<lambda>_ _. Inl []) [] = Reported r \<and>
     judged_release (\<lambda>_. POLICY_FINGERPRINT) (\<lambda>_. Some (received r)) [] x ANALYZING 7 \<and> wo_detected_type r = Some ''TEXT''"
proof -
  let ?lib = "sample_worker (u ''text/plain'') broken_pdf_lib embedding_package rejected_ole"
  let ?rep = "\<lambda>named. success_report ?lib (u ''unnamed-document'') 2 text_identification named text_sections"
  have "run_analyzers ?lib SAMPLE_PATH FF_TEXT = Inr text_sections"
    by (simp add: run_analyzers_def when_family_def uses_office_def uses_archive_def quiet_run text_sections_def)
  moreover have "sections_finite text_sections"
    by (simp add: sections_finite_def text_sections_def section_finite_def quiet_section_def finite_obj)
  ultimately obtain named x where main: "main ?lib (\<lambda>_ _. Inl []) [] = Reported (?rep named)"
    and p: "printed ?lib (\<lambda>_. Some (received (?rep named))) (?rep named) x" "ex_exit_code x = Some 0" "\<not> ex_timed_out x"
      "\<not> ex_output_limit_exceeded x"
    and named: "built (security_findings id (u ''unnamed-document'') text_identification None) = Inr named"
    using sample_main [OF text_mime(1,2), unfolded text_mime(3)] unfolding Let_def text_identification_def by blast
  let ?r = "?rep named"
  have none: "named = []" using named by (simp add: text_named built_def payloads_def)
  have "wo_metadata ?r = text_fields"
    by (simp add: success_report_def text_fields_def text_sections_def section_metadata_def text_identification_def jopt_def jtext_def
        quiet_section_def) (simp add: sample_worker_def text_extension)
  moreover have "wo_findings ?r = []"
    by (simp add: success_report_def none text_sections_def section_findings_def quiet_section_def)
  moreover have ty: "wo_status ?r = AS_SUCCESS" "wo_detected_type ?r = Some ''TEXT''" "wo_started_at ?r = 1" "wo_completed_at ?r = 2"
    "wo_duration_ms ?r = 0"
    by (simp_all add: success_report_def report_status_def text_sections_def section_complete_def quiet_section_def
        identified_supported_def text_identification_def duration_ms_def sample_worker_def)
  ultimately have ok: "analysis_result_ok (received ?r)" using text_size
    by (auto simp: analysis_result_ok_def received_def bounded_json_def WORKER_VERSION_def MAX_ANALYZER_METADATA_BYTES_def
        split: option.splits)
  let ?oc = "judge_execution (\<lambda>_. Some (received ?r)) [] (Some x)"
  have oc: "ao_result ?oc = Some (received ?r)" "ao_failure_code ?oc = None"
    using p(2-4) ok ty(1) by (simp_all add: judge_execution_def received_def)
  have "evaluate_policy (\<lambda>_. POLICY_FINGERPRINT) (Some (received ?r)) None ANALYZING 7 = Inr
      (evaluation_of (result_codes (Some (received ?r))) (completeness_reasons (Some (received ?r)) None ANALYZING
        (result_codes (Some (received ?r)))) 7)" (is "_ = Inr ?e")
    using ok by (intro evaluate_policy_validated fingerprint_witness) simp
  moreover have "pe_release_eligible ?e"
    unfolding release_iff [OF calculation]
    using ty \<open>wo_findings ?r = []\<close> empty_scores
    by (simp add: received_def finding_codes_def accumulated_score_def SUPPORTED_RELEASE_TYPES_def)
  ultimately have released: "judged_release (\<lambda>_. POLICY_FINGERPRINT) (\<lambda>_. Some (received ?r)) [] x ANALYZING 7"
    unfolding judged_release_def oc Let_def by simp
  from released_was_analyzed [OF main p(1) released] main released ty(2) show ?thesis by blast
qed

end
