(* ===== verification/Worker_Cdr.thy ===== *)
theory Worker_Cdr
  imports Cdr_Contract
begin

text \<open>
  The renderer inside the worker, \<open>worker/cdr.py\<close>: the configuration is checked against its
  fingerprint, every page is accounted before it is rasterised, and the saved document is copied
  over the prepared output file. PyMuPDF, the files and IEEE arithmetic are the record \<open>cdr_lib\<close>.
\<close>

section \<open>Libraries and state\<close>

text \<open>\<open>Controlled\<close> is \<open>ControlledCdrFailure\<close>, \<open>Expected\<close> one of the classes \<open>sanitize_pdf\<close> turns into
  \<open>malformed\<close>, \<open>Escaped\<close> any other class.\<close>

datatype cdr_exn = Controlled string | Expected | Escaped string

record pixmap =
  px_width :: int
  px_height :: int
  px_samples :: bytes

text \<open>A side of a page that is not finite is \<open>None\<close>.\<close>

record pdf_page =
  pg_width :: "rat option"
  pg_height :: "rat option"
  pg_pixmap :: "int \<Rightarrow> cdr_exn + pixmap"

record pdf_source =
  ps_needs_pass :: bool
  ps_page_count :: nat
  ps_load :: "nat \<Rightarrow> cdr_exn + pdf_page"

type_synonym rendered = "(rat \<times> rat \<times> pixmap) list"

text \<open>\<open>wc_pixels\<close> is \<open>math.ceil(points * dpi / 72)\<close>, which raises when the product overflows; \<open>wc_number\<close>
  is the value of a float with that \<open>repr\<close>, \<open>wc_of_int\<close> the conversion \<open>float(i)\<close>, \<open>wc_insert\<close> the new
  page and its image, \<open>wc_reopen\<close> the opening of the saved document and of the output, \<open>wc_read\<close> a read of
  the saved document at a position, \<open>wc_truncate\<close> \<open>truncate\<close> and \<open>flush\<close>.\<close>

record cdr_lib =
  wc_sha256 :: "ustring \<Rightarrow> string"
  wc_number :: "string \<Rightarrow> rat"
  wc_of_int :: "int \<Rightarrow> string + py_float"
  wc_pixels :: "rat \<Rightarrow> int \<Rightarrow> cdr_exn + int"
  wc_output_ready :: bool
  wc_open :: "cdr_exn + pdf_source"
  wc_new :: "cdr_exn + unit"
  wc_insert :: "rendered \<Rightarrow> cdr_exn + unit"
  wc_save :: "rendered \<Rightarrow> cdr_exn + bytes"
  wc_close :: "cdr_exn + unit"
  wc_size :: "bytes \<Rightarrow> cdr_exn + nat"
  wc_reopen :: "cdr_exn + unit"
  wc_read :: "bytes \<Rightarrow> nat \<Rightarrow> nat \<Rightarrow> cdr_exn + bytes"
  wc_write :: "nat \<Rightarrow> cdr_exn + unit"
  wc_truncate :: "cdr_exn + unit"
  wc_output_size :: "bytes \<Rightarrow> nat option"
  wc_version_bind :: string
  wc_version_fitz :: string
  wc_started_ns :: int
  wc_ended_ns :: int

text \<open>The counters of \<open>sanitize_pdf\<close> and the content of the output file.\<close>

record cdr_state =
  cd_page_count :: nat
  cd_total_pixels :: int
  cd_output :: bytes

type_synonym 'a cdr_run = "(cdr_state, cdr_exn, 'a) prog"

section \<open>The configuration\<close>

definition CONFIG_KEYS :: "string list" where
  "CONFIG_KEYS = [''sanitizer_version'', ''sanitizer_fingerprint'', ''dpi'', ''max_pages'', ''max_width_points'',
     ''max_height_points'', ''max_width_pixels'', ''max_height_pixels'', ''max_pixels_per_page'', ''max_total_pixels'',
     ''max_raster_bytes'', ''max_output_bytes'']"

definition tried :: "string + 'a \<Rightarrow> ('a \<Rightarrow> string + 'b) \<Rightarrow> string + 'b" where
  "tried m k = (case m of Inl e \<Rightarrow> Inl e | Inr x \<Rightarrow> k x)"

lemma tried_simps [simp]: "tried (Inl e) k = Inl e" "tried (Inr x) k = k x"
  by (simp_all add: tried_def)

lemma tried_returns: "tried m k = Inr y \<Longrightarrow> (\<And>x. m = Inr x \<Longrightarrow> k x = Inr y \<Longrightarrow> P) \<Longrightarrow> P"
  by (cases m) auto

definition integer_of :: "json_object \<Rightarrow> string \<Rightarrow> string + int" where
  "integer_of config k = (case jget config k of Some (JInt i) \<Rightarrow> Inr i | _ \<Rightarrow> Inl ''ValueError'')"

text \<open>A float without a text is not finite. The gateway's request model refuses such limits, so they are
  outside the model: they are answered with a \<open>ValueError\<close>.\<close>

definition number_of :: "cdr_lib \<Rightarrow> json_object \<Rightarrow> string \<Rightarrow> string + py_float option" where
  "number_of lib config k = (case jget config k of
       Some (JInt i) \<Rightarrow> map_sum id Some (wc_of_int lib i)
     | Some (JFloat None) \<Rightarrow> Inr None
     | Some (JFloat (Some r)) \<Rightarrow> Inr (Some \<lparr>pf_value = wc_number lib r, pf_repr = r\<rparr>)
     | _ \<Rightarrow> Inl ''ValueError'')"

record cdr_config =
  ck_fingerprint :: string
  ck_dpi :: int
  ck_max_pages :: int
  ck_max_width_points :: py_float
  ck_max_height_points :: py_float
  ck_max_width_pixels :: int
  ck_max_height_pixels :: int
  ck_max_pixels_per_page :: int
  ck_max_total_pixels :: int
  ck_max_raster_bytes :: int
  ck_max_output_bytes :: int

definition worker_definition :: "cdr_config \<Rightarrow> json" where
  "worker_definition c = JObj (obj [
     (''colorspace'', jtext PDF_CDR_COLORSPACE), (''dpi'', JInt (ck_dpi c)),
     (''engine_version'', jtext PDF_CDR_ENGINE_VERSION), (''max_height_pixels'', JInt (ck_max_height_pixels c)),
     (''max_height_points'', jfloat (ck_max_height_points c)), (''max_output_bytes'', JInt (ck_max_output_bytes c)),
     (''max_pages'', JInt (ck_max_pages c)), (''max_pixels_per_page'', JInt (ck_max_pixels_per_page c)),
     (''max_raster_bytes'', JInt (ck_max_raster_bytes c)), (''max_total_pixels'', JInt (ck_max_total_pixels c)),
     (''max_width_pixels'', JInt (ck_max_width_pixels c)), (''max_width_points'', jfloat (ck_max_width_points c)),
     (''metadata_policy'', jtext PDF_CDR_METADATA_POLICY), (''output_mode'', jtext PDF_CDR_OUTPUT_MODE),
     (''renderer'', jtext PDF_CDR_RENDERER), (''renderer_version'', jtext PDF_CDR_RENDERER_VERSION),
     (''sanitizer_version'', jtext PDF_CDR_VERSION)])"

definition read_config :: "cdr_lib \<Rightarrow> json_object \<Rightarrow> string + cdr_config option" where
  "read_config lib config =
     tried (integer_of config ''dpi'') (\<lambda>dpi.
     tried (integer_of config ''max_height_pixels'') (\<lambda>height_pixels.
     tried (number_of lib config ''max_height_points'') (\<lambda>height_points.
     tried (integer_of config ''max_output_bytes'') (\<lambda>output_bytes.
     tried (integer_of config ''max_pages'') (\<lambda>pages.
     tried (integer_of config ''max_pixels_per_page'') (\<lambda>page_pixels.
     tried (integer_of config ''max_raster_bytes'') (\<lambda>raster_bytes.
     tried (integer_of config ''max_total_pixels'') (\<lambda>total_pixels.
     tried (integer_of config ''max_width_pixels'') (\<lambda>width_pixels.
     tried (number_of lib config ''max_width_points'') (\<lambda>width_points.
     Inr (case (width_points, height_points) of
        (Some w, Some h) \<Rightarrow> Some \<lparr>ck_fingerprint = [], ck_dpi = dpi, ck_max_pages = pages, ck_max_width_points = w,
          ck_max_height_points = h, ck_max_width_pixels = width_pixels, ck_max_height_pixels = height_pixels,
          ck_max_pixels_per_page = page_pixels, ck_max_total_pixels = total_pixels, ck_max_raster_bytes = raster_bytes,
          ck_max_output_bytes = output_bytes\<rparr>
      | _ \<Rightarrow> None)))))))))))"

definition validated_config :: "cdr_lib \<Rightarrow> json option \<Rightarrow> string + cdr_config" where
  "validated_config lib v =
     (case v of
        Some (JObj config) \<Rightarrow>
          if set (map fst config) \<noteq> u ` set CONFIG_KEYS then Inl ''ValueError''
          else if jget config ''sanitizer_version'' \<noteq> Some (jtext PDF_CDR_VERSION) then Inl ''ValueError''
          else tried (read_config lib config) (\<lambda>c. case c of None \<Rightarrow> Inl ''ValueError''
            | Some c \<Rightarrow> (case json_text (worker_definition c) of None \<Rightarrow> Inl ''ValueError''
              | Some payload \<Rightarrow>
                let fingerprint = wc_sha256 lib payload in
                if jget config ''sanitizer_fingerprint'' \<noteq> Some (jtext fingerprint) then Inl ''ValueError''
                else Inr (c\<lparr>ck_fingerprint := fingerprint\<rparr>)))
      | _ \<Rightarrow> Inl ''ValueError'')"

section \<open>Rendering\<close>

definition oversized_page :: "cdr_config \<Rightarrow> rat option \<Rightarrow> rat option \<Rightarrow> bool" where
  "oversized_page c width height \<longleftrightarrow> (case (width, height) of
     (Some w, Some h) \<Rightarrow> w \<le> 0 \<or> h \<le> 0 \<or> pf_value (ck_max_width_points c) < w \<or> pf_value (ck_max_height_points c) < h
   | _ \<Rightarrow> True)"

definition over_budget :: "cdr_config \<Rightarrow> int \<Rightarrow> int \<Rightarrow> int \<Rightarrow> bool" where
  "over_budget c width_pixels height_pixels all_pixels \<longleftrightarrow>
     ck_max_width_pixels c < width_pixels \<or> ck_max_height_pixels c < height_pixels \<or>
     ck_max_pixels_per_page c < width_pixels * height_pixels \<or> ck_max_total_pixels c < all_pixels \<or>
     ck_max_raster_bytes c < all_pixels * 3"

definition pixmap_rejected :: "cdr_config \<Rightarrow> int \<Rightarrow> int \<Rightarrow> pixmap \<Rightarrow> bool" where
  "pixmap_rejected c width_pixels height_pixels p \<longleftrightarrow>
     (px_width p \<noteq> width_pixels \<or> px_height p \<noteq> height_pixels) \<and>
     (ck_max_width_pixels c < px_width p \<or> ck_max_height_pixels c < px_height p)"

definition render_page :: "cdr_lib \<Rightarrow> cdr_config \<Rightarrow> pdf_page \<Rightarrow> rendered \<Rightarrow> rendered cdr_run" where
  "render_page lib c page pages =
     (if oversized_page c (pg_width page) (pg_height page) then raiseE (Controlled ''pixel_limit'')
      else let w = the (pg_width page); h = the (pg_height page) in
        bindE (fromE (wc_pixels lib w (ck_dpi c))) (\<lambda>width_pixels.
        bindE (fromE (wc_pixels lib h (ck_dpi c))) (\<lambda>height_pixels.
        bindE (modifyE (\<lambda>s. s\<lparr>cd_total_pixels := cd_total_pixels s + width_pixels * height_pixels\<rparr>)) (\<lambda>_.
        bindE (getE cd_total_pixels) (\<lambda>all_pixels.
        if over_budget c width_pixels height_pixels all_pixels then raiseE (Controlled ''pixel_limit'')
        else bindE (fromE (pg_pixmap page (ck_dpi c))) (\<lambda>p.
          if pixmap_rejected c width_pixels height_pixels p then raiseE (Controlled ''pixel_limit'')
          else bindE (fromE (wc_insert lib (pages @ [(w, h, p)]))) (\<lambda>_. returnE (pages @ [(w, h, p)]))))))))"

fun render_pages :: "cdr_lib \<Rightarrow> cdr_config \<Rightarrow> pdf_source \<Rightarrow> nat list \<Rightarrow> rendered \<Rightarrow> rendered cdr_run" where
  "render_pages lib c src [] pages = returnE pages"
| "render_pages lib c src (i # is) pages =
     bindE (fromE (ps_load src i)) (\<lambda>page.
     bindE (render_page lib c page pages) (\<lambda>pages'. render_pages lib c src is pages'))"

text \<open>The pages and the saved document; \<open>output.close()\<close> runs on every path.\<close>

definition render_document :: "cdr_lib \<Rightarrow> cdr_config \<Rightarrow> bytes cdr_run" where
  "render_document lib c =
     bindE (fromE (wc_open lib)) (\<lambda>src.
     if ps_needs_pass src then raiseE (Controlled ''encrypted'')
     else bindE (modifyE (\<lambda>s. s\<lparr>cd_page_count := ps_page_count src\<rparr>)) (\<lambda>_.
     if ps_page_count src < 1 \<or> ck_max_pages c < int (ps_page_count src) then raiseE (Controlled ''page_limit'')
     else bindE (fromE (wc_new lib)) (\<lambda>_.
       finallyE (bindE (render_pages lib c src [0..<ps_page_count src] []) (\<lambda>pages. fromE (wc_save lib pages)))
         (fromE (wc_close lib)))))"

section \<open>The output\<close>

definition write_chunk :: "nat \<Rightarrow> bytes \<Rightarrow> cdr_state \<Rightarrow> cdr_state" where
  "write_chunk pos chunk s = s\<lparr>cd_output := take pos (cd_output s) @ chunk @ drop (pos + length chunk) (cd_output s)\<rparr>"

text \<open>The loop returns the number of bytes it copied. A write that fails is taken to write nothing; what the
  failed run leaves is only measured by \<open>wc_output_size\<close>.\<close>

function copy_chunks :: "cdr_lib \<Rightarrow> int \<Rightarrow> bytes \<Rightarrow> nat \<Rightarrow> nat cdr_run" where
  "copy_chunks lib maximum saved done_bytes s =
     (case wc_read lib saved done_bytes (64 * 1024) of
        Inl e \<Rightarrow> (Inl e, s)
      | Inr chunk \<Rightarrow>
        if chunk = [] then (Inr done_bytes, s)
        else if maximum < int (done_bytes + length chunk) then (Inl (Controlled ''output_limit''), s)
        else (case wc_write lib done_bytes of Inl e \<Rightarrow> (Inl e, s)
          | Inr _ \<Rightarrow> copy_chunks lib maximum saved (done_bytes + length chunk) (write_chunk done_bytes chunk s)))"
  by pat_completeness auto
termination
  by (relation "measure (\<lambda>(lib, m, saved, done_bytes, s). nat (m + 1) - done_bytes)") (auto simp: neq_Nil_conv)

declare copy_chunks.simps [simp del]

definition deliver :: "cdr_lib \<Rightarrow> cdr_config \<Rightarrow> bytes \<Rightarrow> nat cdr_run" where
  "deliver lib c saved =
     bindE (fromE (wc_size lib saved)) (\<lambda>output_bytes.
     if output_bytes < 1 \<or> ck_max_output_bytes c < int output_bytes then raiseE (Controlled ''output_limit'')
     else bindE (fromE (wc_reopen lib)) (\<lambda>_.
       bindE (copy_chunks lib (ck_max_output_bytes c) saved 0) (\<lambda>done_bytes.
       bindE (fromE (wc_truncate lib)) (\<lambda>_.
       bindE (modifyE (\<lambda>s. s\<lparr>cd_output := take done_bytes (cd_output s)\<rparr>)) (\<lambda>_.
       if done_bytes \<noteq> output_bytes then raiseE (Controlled ''render_failed'') else returnE output_bytes)))))"

definition reconstruct :: "cdr_lib \<Rightarrow> cdr_config \<Rightarrow> nat cdr_run" where
  "reconstruct lib c =
     (if \<not> wc_output_ready lib then raiseE (Controlled ''render_failed'')
      else bindE (render_document lib c) (\<lambda>saved. deliver lib c saved))"

section \<open>The answer\<close>

record cdr_answer =
  ca_status :: cdr_status
  ca_fingerprint :: string
  ca_renderer_version :: string
  ca_engine_version :: string
  ca_page_count :: nat
  ca_total_pixels :: int
  ca_output_bytes :: int
  ca_duration_ms :: int
  ca_failure_code :: "string option"

definition cdr_answer_of ::
  "cdr_lib \<Rightarrow> cdr_config \<Rightarrow> cdr_state \<Rightarrow> cdr_status \<Rightarrow> int \<Rightarrow> string option \<Rightarrow> cdr_answer" where
  "cdr_answer_of lib c s status output_bytes failure_code = \<lparr>ca_status = status, ca_fingerprint = ck_fingerprint c,
     ca_renderer_version = wc_version_bind lib, ca_engine_version = wc_version_fitz lib,
     ca_page_count = cd_page_count s, ca_total_pixels = cd_total_pixels s, ca_output_bytes = output_bytes,
     ca_duration_ms = max 0 ((wc_ended_ns lib - wc_started_ns lib) div 1000000), ca_failure_code = failure_code\<rparr>"

definition bounded_output_size :: "cdr_lib \<Rightarrow> cdr_config \<Rightarrow> cdr_state \<Rightarrow> int" where
  "bounded_output_size lib c s =
     (case wc_output_size lib (cd_output s) of None \<Rightarrow> 0 | Some n \<Rightarrow> min (int n) (ck_max_output_bytes c))"

text \<open>\<open>sanitize_pdf\<close>: the answer, or the class of the exception that leaves it, and the output file.\<close>

definition worker_sanitize :: "cdr_lib \<Rightarrow> bytes \<Rightarrow> json_object \<Rightarrow> (string + cdr_answer) \<times> bytes" where
  "worker_sanitize lib prepared request =
     (case validated_config lib (jget request ''cdr'') of
        Inl e \<Rightarrow> (Inl e, prepared)
      | Inr c \<Rightarrow>
        (case reconstruct lib c \<lparr>cd_page_count = 0, cd_total_pixels = 0, cd_output = prepared\<rparr> of
           (Inr n, s) \<Rightarrow> (Inr (cdr_answer_of lib c s CDR_SUCCESS (int n) None), cd_output s)
         | (Inl (Controlled code), s) \<Rightarrow>
             (Inr (cdr_answer_of lib c s CDR_FAILED (bounded_output_size lib c s) (Some code)), cd_output s)
         | (Inl Expected, s) \<Rightarrow>
             (Inr (cdr_answer_of lib c s CDR_FAILED (bounded_output_size lib c s) (Some ''malformed'')), cd_output s)
         | (Inl (Escaped e), s) \<Rightarrow> (Inl e, cd_output s)))"

definition cdr_answer_json :: "cdr_answer \<Rightarrow> json_object" where
  "cdr_answer_json a = obj [(''schema_version'', jtext ANALYSIS_SCHEMA_VERSION), (''operation'', jtext ''SANITIZE_PDF''),
     (''status'', jtext (case ca_status a of CDR_SUCCESS \<Rightarrow> ''SUCCESS'' | CDR_FAILED \<Rightarrow> ''FAILED'')),
     (''sanitizer_version'', jtext PDF_CDR_VERSION), (''sanitizer_fingerprint'', jtext (ca_fingerprint a)),
     (''renderer_version'', jtext (ca_renderer_version a)), (''engine_version'', jtext (ca_engine_version a)),
     (''page_count'', JInt (int (ca_page_count a))), (''total_pixels'', JInt (ca_total_pixels a)),
     (''output_bytes'', JInt (ca_output_bytes a)), (''duration_ms'', JInt (ca_duration_ms a)),
     (''failure_code'', case ca_failure_code a of None \<Rightarrow> JNull | Some code \<Rightarrow> jtext code)]"

end
