(* ===== verification/Worker_Cdr_Results.thy ===== *)
theory Worker_Cdr_Results
  imports Worker_Results Worker_Cdr Cdr_Results
begin

text \<open>
  What a reconstruction by the worker guarantees: the pages of the source that were rasterised, the
  budgets they keep, the bytes of the output file, and what the trusted parent makes of the answer.
\<close>

section \<open>Copying\<close>

text \<open>The documented behaviour of the file calls: the size is the length, and a read at a position
  returns a prefix of what follows it.\<close>

definition reads_saved :: "cdr_lib \<Rightarrow> bool" where
  "reads_saved lib \<longleftrightarrow> (\<forall>saved n. wc_size lib saved = Inr n \<longrightarrow> n = length saved) \<and>
     (\<forall>saved pos n chunk. wc_read lib saved pos n = Inr chunk \<longrightarrow> (\<exists>k. chunk = take k (drop pos saved)))"

lemma reads_saved_chunk: "reads_saved lib \<Longrightarrow> wc_read lib saved pos n = Inr chunk \<Longrightarrow> \<exists>k. chunk = take k (drop pos saved)"
  unfolding reads_saved_def by blast

lemma write_chunk_fields [simp]:
  "cd_page_count (write_chunk pos chunk s) = cd_page_count s"
  "cd_total_pixels (write_chunk pos chunk s) = cd_total_pixels s"
  by (simp_all add: write_chunk_def)

lemma take_write_chunk:
  "pos \<le> length (cd_output s) \<Longrightarrow>
    take (pos + length chunk) (cd_output (write_chunk pos chunk s)) = take pos (cd_output s) @ chunk"
  by (simp add: write_chunk_def)

lemma length_write_chunk: "pos \<le> length (cd_output s) \<Longrightarrow>
    pos + length chunk \<le> length (cd_output (write_chunk pos chunk s))"
  by (simp add: write_chunk_def)

lemma copy_chunks_copies:
  assumes "reads_saved lib" "copy_chunks lib m saved n s = (Inr d, t)"
    and "take n (cd_output s) = take n saved" "n \<le> length (cd_output s)"
  shows "take d (cd_output t) = take d saved \<and> d \<le> length (cd_output t) \<and>
    cd_page_count t = cd_page_count s \<and> cd_total_pixels t = cd_total_pixels s"
  using assms
proof (induction lib m saved n s rule: copy_chunks.induct)
  case (1 lib m saved n s)
  from "1.prems"(2) obtain chunk where c: "wc_read lib saved n (64 * 1024) = Inr chunk"
    by (subst (asm) copy_chunks.simps) (auto split: sum.splits)
  show ?case
  proof (cases "chunk = []")
    case True
    with "1.prems"(2) c have "d = n" "t = s" by (simp_all add: copy_chunks.simps [of lib m saved n s])
    with "1.prems"(3,4) show ?thesis by simp
  next
    case False
    with "1.prems"(2) c have m: "\<not> m < int (n + length chunk)" and w: "\<exists>v. wc_write lib n = Inr v"
      and step: "copy_chunks lib m saved (n + length chunk) (write_chunk n chunk s) = (Inr d, t)"
      by (subst (asm) copy_chunks.simps, auto split: if_splits sum.splits)+
    obtain k where k: "chunk = take k (drop n saved)" using reads_saved_chunk [OF "1.prems"(1) c] ..
    have "take (length chunk) (drop n saved) = chunk" using k by (simp add: min_def)
    then have "take (n + length chunk) saved = take n saved @ chunk" by (simp add: take_add)
    then have "take (n + length chunk) (cd_output (write_chunk n chunk s)) = take (n + length chunk) saved"
      using take_write_chunk [OF "1.prems"(4)] "1.prems"(3) by simp
    with 1(1) [OF c False m] w step "1.prems"(1,4) show ?thesis by (auto simp: length_write_chunk)
  qed
qed

lemma deliver_copies:
  assumes "reads_saved lib" "deliver lib c saved s = (Inr n, t)"
  shows "cd_output t = saved \<and> n = length saved \<and> 1 \<le> n \<and> int n \<le> ck_max_output_bytes c \<and>
    cd_page_count t = cd_page_count s \<and> cd_total_pixels t = cd_total_pixels s"
proof -
  from assms(2) obtain v where n: "wc_size lib saved = Inr n" "1 \<le> n" "int n \<le> ck_max_output_bytes c"
    and v: "copy_chunks lib (ck_max_output_bytes c) saved 0 s = (Inr n, v)"
    and t: "t = v\<lparr>cd_output := take n (cd_output v)\<rparr>"
    unfolding deliver_def
    by (auto elim!: bind_returns simp: fromE_def return_run raiseE_def modify_run split: sum.splits if_splits)
  have "take n (cd_output v) = take n saved \<and> n \<le> length (cd_output v) \<and>
      cd_page_count v = cd_page_count s \<and> cd_total_pixels v = cd_total_pixels s"
    using copy_chunks_copies [OF assms(1) v] by simp
  moreover have "n = length saved" using assms(1) n(1) by (simp add: reads_saved_def)
  ultimately show ?thesis using n t by simp
qed

section \<open>Rendering\<close>

text \<open>\<open>rendered_from lib c page x\<close>: the image \<open>x\<close> was made of the page, inside the limits of one page: of its
  points, of the width, height and number of the pixels computed from them, and of the width and
  height of the pixmap itself. \<open>page_pixels\<close> is the number the code adds to its total, computed from the
  points.\<close>

definition page_pixels :: "cdr_lib \<Rightarrow> cdr_config \<Rightarrow> rat \<times> rat \<times> pixmap \<Rightarrow> int" where
  "page_pixels lib c x = (case (wc_pixels lib (fst x) (ck_dpi c), wc_pixels lib (fst (snd x)) (ck_dpi c)) of
     (Inr a, Inr b) \<Rightarrow> a * b | _ \<Rightarrow> 0)"

definition rendered_from :: "cdr_lib \<Rightarrow> cdr_config \<Rightarrow> pdf_page \<Rightarrow> rat \<times> rat \<times> pixmap \<Rightarrow> bool" where
  "rendered_from lib c page x \<longleftrightarrow> pg_width page = Some (fst x) \<and> pg_height page = Some (fst (snd x)) \<and>
     0 < fst x \<and> fst x \<le> pf_value (ck_max_width_points c) \<and>
     0 < fst (snd x) \<and> fst (snd x) \<le> pf_value (ck_max_height_points c) \<and>
     (\<exists>width_pixels height_pixels. wc_pixels lib (fst x) (ck_dpi c) = Inr width_pixels \<and>
        wc_pixels lib (fst (snd x)) (ck_dpi c) = Inr height_pixels \<and>
        width_pixels \<le> ck_max_width_pixels c \<and> height_pixels \<le> ck_max_height_pixels c \<and>
        width_pixels * height_pixels \<le> ck_max_pixels_per_page c) \<and>
     pg_pixmap page (ck_dpi c) = Inr (snd (snd x)) \<and>
     px_width (snd (snd x)) \<le> ck_max_width_pixels c \<and> px_height (snd (snd x)) \<le> ck_max_height_pixels c"

definition budgets_hold :: "cdr_config \<Rightarrow> int \<Rightarrow> bool" where
  "budgets_hold c pixels \<longleftrightarrow> pixels \<le> ck_max_total_pixels c \<and> pixels * 3 \<le> ck_max_raster_bytes c"

lemma render_page_renders:
  assumes "render_page lib c page pages s = (Inr pages', t)"
  shows "\<exists>x. pages' = pages @ [x] \<and> rendered_from lib c page x \<and> budgets_hold c (cd_total_pixels t) \<and>
    t = s\<lparr>cd_total_pixels := cd_total_pixels s + page_pixels lib c x\<rparr>"
proof -
  let ?w = "the (pg_width page)" and ?h = "the (pg_height page)"
  have ok: "\<not> oversized_page c (pg_width page) (pg_height page)"
    using assms by (auto simp: render_page_def raiseE_def)
  from assms ok obtain wp hp p where w: "wc_pixels lib ?w (ck_dpi c) = Inr wp" and h: "wc_pixels lib ?h (ck_dpi c) = Inr hp"
    and p: "pg_pixmap page (ck_dpi c) = Inr p" and x: "pages' = pages @ [(?w, ?h, p)]"
    and t: "t = s\<lparr>cd_total_pixels := cd_total_pixels s + wp * hp\<rparr>"
    and b: "\<not> over_budget c wp hp (cd_total_pixels s + wp * hp)" "\<not> pixmap_rejected c wp hp p"
    unfolding render_page_def Let_def
    by (auto elim!: bind_returns simp: fromE_def return_run raiseE_def modify_run getE_def split: sum.splits if_splits)
  have px: "page_pixels lib c (?w, ?h, p) = wp * hp" using w h by (simp add: page_pixels_def)
  have "rendered_from lib c page (?w, ?h, p)"
    using ok p b w h by (auto simp: oversized_page_def rendered_from_def over_budget_def pixmap_rejected_def split: option.splits)
  with x t b px show ?thesis by (auto simp: over_budget_def budgets_hold_def)
qed

text \<open>Each index of the loop contributes the image of its page.\<close>

definition page_image :: "cdr_lib \<Rightarrow> cdr_config \<Rightarrow> pdf_source \<Rightarrow> nat \<Rightarrow> rat \<times> rat \<times> pixmap \<Rightarrow> bool" where
  "page_image lib c src i x \<longleftrightarrow> (\<exists>page. ps_load src i = Inr page \<and> rendered_from lib c page x)"

lemma render_pages_renders:
  assumes "render_pages lib c src is pages s = (Inr pages', t)"
  shows "\<exists>xs. pages' = pages @ xs \<and> list_all2 (page_image lib c src) is xs \<and>
    t = s\<lparr>cd_total_pixels := cd_total_pixels s + sum_list (map (page_pixels lib c) xs)\<rparr> \<and>
    (is \<noteq> [] \<longrightarrow> budgets_hold c (cd_total_pixels t))"
  using assms
proof (induction "is" arbitrary: pages s)
  case (Cons i "is")
  from Cons.prems obtain page mid v where l: "ps_load src i = Inr page"
    and r: "render_page lib c page pages s = (Inr mid, v)" and rest: "render_pages lib c src is mid v = (Inr pages', t)"
    by (auto elim!: bind_returns simp: fromE_def return_run raiseE_def split: sum.splits)
  obtain x where x: "mid = pages @ [x]" "rendered_from lib c page x" "budgets_hold c (cd_total_pixels v)"
    "v = s\<lparr>cd_total_pixels := cd_total_pixels s + page_pixels lib c x\<rparr>" using render_page_renders [OF r] by auto
  obtain xs where xs: "pages' = mid @ xs" "list_all2 (page_image lib c src) is xs"
    "t = v\<lparr>cd_total_pixels := cd_total_pixels v + sum_list (map (page_pixels lib c) xs)\<rparr>"
    "is \<noteq> [] \<longrightarrow> budgets_hold c (cd_total_pixels t)" using Cons.IH [OF rest] by auto
  have "is = [] \<Longrightarrow> cd_total_pixels t = cd_total_pixels v" using xs(2,3) by simp
  moreover have "page_image lib c src i x" using l x(2) by (simp add: page_image_def)
  ultimately show ?case using x xs by (intro exI [of _ "x # xs"]) (auto simp: algebra_simps)
qed (simp add: return_run)

lemma render_document_renders:
  assumes "render_document lib c s = (Inr saved, t)" "cd_total_pixels s = 0"
  shows "\<exists>src xs. wc_open lib = Inr src \<and> \<not> ps_needs_pass src \<and> 1 \<le> ps_page_count src \<and>
    int (ps_page_count src) \<le> ck_max_pages c \<and> list_all2 (page_image lib c src) [0..<ps_page_count src] xs \<and>
    wc_save lib xs = Inr saved \<and> budgets_hold c (cd_total_pixels t) \<and>
    cd_total_pixels t = sum_list (map (page_pixels lib c) xs) \<and> cd_page_count t = ps_page_count src"
proof -
  from assms(1) obtain src pages where src: "wc_open lib = Inr src" "\<not> ps_needs_pass src" "1 \<le> ps_page_count src"
      "int (ps_page_count src) \<le> ck_max_pages c"
    and r: "render_pages lib c src [0..<ps_page_count src] [] (s\<lparr>cd_page_count := ps_page_count src\<rparr>) = (Inr pages, t)"
    and s: "wc_save lib pages = Inr saved"
    unfolding render_document_def
    by (auto elim!: bind_returns simp: finallyE_def fromE_def return_run raiseE_def modify_run
        split: sum.splits if_splits prod.splits)
  show ?thesis using render_pages_renders [OF r] src s assms(2) by (auto intro!: exI [of _ src])
qed

section \<open>The reconstruction\<close>

lemma worker_sanitize_success:
  assumes "reads_saved lib" "validated_config lib (jget request ''cdr'') = Inr c"
    and "worker_sanitize lib prepared request = (Inr a, out)" "ca_status a = CDR_SUCCESS"
  shows "\<exists>src xs. wc_open lib = Inr src \<and> \<not> ps_needs_pass src \<and> 1 \<le> ps_page_count src \<and>
    int (ps_page_count src) \<le> ck_max_pages c \<and> list_all2 (page_image lib c src) [0..<ps_page_count src] xs \<and>
    wc_save lib xs = Inr out \<and> budgets_hold c (ca_total_pixels a) \<and>
    ca_total_pixels a = sum_list (map (page_pixels lib c) xs) \<and> ca_page_count a = ps_page_count src \<and>
    ca_output_bytes a = int (length out) \<and> 1 \<le> length out \<and> int (length out) \<le> ck_max_output_bytes c \<and>
    ca_failure_code a = None \<and> ca_fingerprint a = ck_fingerprint c"
proof -
  let ?s = "\<lparr>cd_page_count = 0, cd_total_pixels = 0, cd_output = prepared\<rparr>"
  from assms(2-) obtain n t where r: "reconstruct lib c ?s = (Inr n, t)" and out: "out = cd_output t"
    and a: "a = cdr_answer_of lib c t CDR_SUCCESS (int n) None"
    by (auto simp: worker_sanitize_def cdr_answer_of_def split: prod.splits sum.splits cdr_exn.splits)
  from r obtain saved v where d: "render_document lib c ?s = (Inr saved, v)" and e: "deliver lib c saved v = (Inr n, t)"
    by (auto simp: reconstruct_def raiseE_def elim!: bind_returns split: if_splits)
  show ?thesis using render_document_renders [OF d] deliver_copies [OF assms(1) e] out a
    by (auto simp: cdr_answer_of_def)
qed

lemma worker_answer_fields:
  assumes "worker_sanitize lib prepared request = (Inr a, out)"
  shows "0 \<le> ca_duration_ms a \<and> ca_renderer_version a = wc_version_bind lib \<and> ca_engine_version a = wc_version_fitz lib"
  using assms by (auto simp: worker_sanitize_def cdr_answer_of_def split: prod.splits sum.splits cdr_exn.splits)

section \<open>The configuration of the gateway\<close>

text \<open>The JSON of the request's \<open>PdfCdrRequestConfig\<close>, and what the worker reads in it.\<close>

definition cdr_config_json :: "env \<Rightarrow> settings \<Rightarrow> json_object" where
  "cdr_config_json env s = obj [(''sanitizer_version'', jtext PDF_CDR_VERSION),
     (''sanitizer_fingerprint'', jtext (sanitizer_fingerprint env s)), (''dpi'', JInt PDF_CDR_DPI),
     (''max_pages'', JInt (st_cdr_max_pages s)), (''max_width_points'', jfloat (st_cdr_max_width_points s)),
     (''max_height_points'', jfloat (st_cdr_max_height_points s)), (''max_width_pixels'', JInt (st_cdr_max_width_pixels s)),
     (''max_height_pixels'', JInt (st_cdr_max_height_pixels s)),
     (''max_pixels_per_page'', JInt (st_cdr_max_pixels_per_page s)),
     (''max_total_pixels'', JInt (st_cdr_max_total_pixels s)), (''max_raster_bytes'', JInt (st_cdr_max_raster_bytes s)),
     (''max_output_bytes'', JInt (int (st_cdr_max_output_bytes s)))]"

definition configured :: "env \<Rightarrow> settings \<Rightarrow> cdr_config" where
  "configured env s = \<lparr>ck_fingerprint = sanitizer_fingerprint env s, ck_dpi = PDF_CDR_DPI,
     ck_max_pages = st_cdr_max_pages s, ck_max_width_points = st_cdr_max_width_points s,
     ck_max_height_points = st_cdr_max_height_points s, ck_max_width_pixels = st_cdr_max_width_pixels s,
     ck_max_height_pixels = st_cdr_max_height_pixels s, ck_max_pixels_per_page = st_cdr_max_pixels_per_page s,
     ck_max_total_pixels = st_cdr_max_total_pixels s, ck_max_raster_bytes = st_cdr_max_raster_bytes s,
     ck_max_output_bytes = int (st_cdr_max_output_bytes s)\<rparr>"

lemma configured_limits [simp]:
  "ck_fingerprint (configured env s) = sanitizer_fingerprint env s"
  "ck_max_pages (configured env s) = st_cdr_max_pages s"
  "ck_max_total_pixels (configured env s) = st_cdr_max_total_pixels s"
  "ck_max_output_bytes (configured env s) = int (st_cdr_max_output_bytes s)"
  "ck_dpi (configured env s) = PDF_CDR_DPI"
  by (simp_all add: configured_def)

text \<open>Both sides hash with the same function, and a float printed by its \<open>repr\<close> is read back unchanged.\<close>

definition same_platform :: "cdr_lib \<Rightarrow> env \<Rightarrow> settings \<Rightarrow> bool" where
  "same_platform lib env s \<longleftrightarrow> wc_sha256 lib = sha256_text env \<and>
     wc_number lib (pf_repr (st_cdr_max_width_points s)) = pf_value (st_cdr_max_width_points s) \<and>
     wc_number lib (pf_repr (st_cdr_max_height_points s)) = pf_value (st_cdr_max_height_points s)"

lemma configured_definition [simp]: "worker_definition (configured env s) = sanitizer_definition s"
  by (simp add: worker_definition_def sanitizer_definition_def configured_def)

lemma worker_definition_fingerprint [simp]: "worker_definition (c\<lparr>ck_fingerprint := f\<rparr>) = worker_definition c"
  by (simp add: worker_definition_def)

lemma config_keys: "set (map fst (cdr_config_json env s)) = u ` set CONFIG_KEYS"
  unfolding cdr_config_json_def CONFIG_KEYS_def by (simp add: image_image insert_commute)

lemma read_config_json:
  assumes "same_platform lib env s"
  shows "read_config lib (cdr_config_json env s) = Inr (Some ((configured env s)\<lparr>ck_fingerprint := []\<rparr>))"
proof -
  have f: "\<lparr>pf_value = wc_number lib (pf_repr x), pf_repr = pf_repr x\<rparr> = x"
    if "x = st_cdr_max_width_points s \<or> x = st_cdr_max_height_points s" for x
    using assms that by (intro py_float.equality) (auto simp: same_platform_def)
  show ?thesis by (simp add: read_config_def integer_of_def number_of_def cdr_config_json_def configured_def jfloat_def f)
qed

lemma configuration_accepted:
  assumes "same_platform lib env s"
  shows "validated_config lib (Some (JObj (cdr_config_json env s))) = Inr (configured env s)"
proof -
  have "finite_json (sanitizer_definition s)" by (simp add: sanitizer_definition_def obj_def jfloat_def jtext_def finite_fields_def)
  then obtain t where t: "json_text (sanitizer_definition s) = Some t" using json_text_finite by auto
  have v: "jget (cdr_config_json env s) ''sanitizer_version'' = Some (jtext PDF_CDR_VERSION)"
    "jget (cdr_config_json env s) ''sanitizer_fingerprint'' = Some (jtext (sanitizer_fingerprint env s))"
    by (simp_all add: cdr_config_json_def)
  have f: "sanitizer_fingerprint env s = wc_sha256 lib t"
    using assms t by (simp add: sanitizer_fingerprint_def same_platform_def)
  have "(configured env s)\<lparr>ck_fingerprint := wc_sha256 lib t\<rparr> = configured env s" by (simp add: configured_def f)
  with config_keys t v f show ?thesis
    by (simp add: validated_config_def read_config_json [OF assms] Let_def del: set_map)
qed

section \<open>The answer on the wire\<close>

text \<open>\<open>main\<close> with this sanitizer over a prepared output file, and the JSON of a \<open>PdfCdrResult\<close>.\<close>

definition sanitizer :: "cdr_lib \<Rightarrow> bytes \<Rightarrow> ustring \<Rightarrow> json_object \<Rightarrow> string + json_object" where
  "sanitizer cdr prepared sample_path request = map_sum id cdr_answer_json (fst (worker_sanitize cdr prepared request))"

definition result_json :: "pdf_cdr_result \<Rightarrow> json_object" where
  "result_json r = obj [(''schema_version'', jtext (cr_schema_version r)), (''operation'', jtext (cr_operation r)),
     (''status'', jtext (case cr_status r of CDR_SUCCESS \<Rightarrow> ''SUCCESS'' | CDR_FAILED \<Rightarrow> ''FAILED'')),
     (''sanitizer_version'', jtext (cr_sanitizer_version r)), (''sanitizer_fingerprint'', jtext (cr_sanitizer_fingerprint r)),
     (''renderer_version'', jtext (cr_renderer_version r)), (''engine_version'', jtext (cr_engine_version r)),
     (''page_count'', JInt (cr_page_count r)), (''total_pixels'', JInt (cr_total_pixels r)),
     (''output_bytes'', JInt (cr_output_bytes r)), (''duration_ms'', JInt (cr_duration_ms r)),
     (''failure_code'', case cr_failure_code r of None \<Rightarrow> JNull | Some code \<Rightarrow> jtext (cdr_failure_value code))]"

lemma decoded_answer:
  assumes "result_json r = cdr_answer_json a"
  shows "cr_schema_version r = ANALYSIS_SCHEMA_VERSION" "cr_operation r = ''SANITIZE_PDF''" "cr_status r = ca_status a"
    "cr_sanitizer_version r = PDF_CDR_VERSION" "cr_sanitizer_fingerprint r = ca_fingerprint a"
    "cr_renderer_version r = ca_renderer_version a" "cr_engine_version r = ca_engine_version a"
    "cr_page_count r = int (ca_page_count a)" "cr_total_pixels r = ca_total_pixels a"
    "cr_output_bytes r = ca_output_bytes a" "cr_duration_ms r = ca_duration_ms a"
    "map_option cdr_failure_value (cr_failure_code r) = ca_failure_code a"
proof -
  note j = assms [unfolded result_json_def cdr_answer_json_def]
  show "cr_schema_version r = ANALYSIS_SCHEMA_VERSION" "cr_operation r = ''SANITIZE_PDF''"
    "cr_sanitizer_version r = PDF_CDR_VERSION" "cr_sanitizer_fingerprint r = ca_fingerprint a"
    "cr_renderer_version r = ca_renderer_version a" "cr_engine_version r = ca_engine_version a"
    "cr_page_count r = int (ca_page_count a)" "cr_total_pixels r = ca_total_pixels a"
    "cr_output_bytes r = ca_output_bytes a" "cr_duration_ms r = ca_duration_ms a"
    using j by (simp_all add: obj_def)
  show "cr_status r = ca_status a"
    using j by (cases "cr_status r"; cases "ca_status a") (simp_all add: obj_def)
  show "map_option cdr_failure_value (cr_failure_code r) = ca_failure_code a"
    using j by (cases "cr_failure_code r"; cases "ca_failure_code a") (simp_all add: obj_def jtext_def)
qed

text \<open>A request of the gateway as \<open>main\<close> reads it.\<close>

definition requested :: "'r worker_lib \<Rightarrow> env \<Rightarrow> settings \<Rightarrow> ustring \<Rightarrow> json_object \<Rightarrow> bool" where
  "requested lib env s raw request \<longleftrightarrow> (\<exists>p. parse_request (wl_parse lib) raw = Inr (request, p)) \<and>
     jget request ''operation'' = Some (jtext ''SANITIZE_PDF'') \<and> jget request ''cdr'' = Some (JObj (cdr_config_json env s))"

lemma main_sanitizes:
  assumes "requested lib env s raw request"
  shows "main lib (sanitizer cdr prepared) raw = Sanitized answer \<longleftrightarrow>
    (\<exists>a out. worker_sanitize cdr prepared request = (Inr a, out) \<and> answer = cdr_answer_json a)"
  using assms by (cases "worker_sanitize cdr prepared request"; cases "fst (worker_sanitize cdr prepared request)")
    (auto simp: main_def requested_def sanitizer_def refused_def Let_def get_or_def split: if_splits)

section \<open>The judgement of the gateway\<close>

text \<open>C10. What the gateway accepts as a reconstruction is one. When the gateway judges the answer of the
  renderer a success, the source opened without a password and has between one page and the
  configured number; every page, in order, was loaded and rasterised at the configured resolution
  inside the limits of its points and of the width, height and number of the pixels computed from
  them, into a pixmap inside the limits of width and height; the computed pixels of all pages keep
  the total and the raster budget (those of the pixmaps are not counted by the code); and the output
  file is, byte for byte, the document saved from these images and nothing else, with the size the
  answer claims.\<close>

theorem accepted_reconstruction:
  assumes "requested lib env s raw request" "same_platform cdr env s" "reads_saved cdr"
    and "main lib (sanitizer cdr prepared) raw = Sanitized (result_json r)" "decode (ex_stdout x) = Some r"
    and "cdr_succeeded (judge_sanitization decode (worker_cdr_config env s) (Some x))"
  shows "\<exists>src xs. wc_open cdr = Inr src \<and> \<not> ps_needs_pass src \<and> cr_page_count r = int (ps_page_count src) \<and>
    1 \<le> ps_page_count src \<and> int (ps_page_count src) \<le> st_cdr_max_pages s \<and>
    list_all2 (page_image cdr (configured env s) src) [0..<ps_page_count src] xs \<and>
    wc_save cdr xs = Inr (snd (worker_sanitize cdr prepared request)) \<and>
    cr_total_pixels r = sum_list (map (page_pixels cdr (configured env s)) xs) \<and>
    budgets_hold (configured env s) (cr_total_pixels r) \<and>
    cr_output_bytes r = int (length (snd (worker_sanitize cdr prepared request))) \<and>
    1 \<le> cr_output_bytes r \<and> cr_output_bytes r \<le> int (st_cdr_max_output_bytes s)"
proof -
  obtain a out where a: "worker_sanitize cdr prepared request = (Inr a, out)" "result_json r = cdr_answer_json a"
    using assms(1,4) main_sanitizes by metis
  have "cr_status r = CDR_SUCCESS" using assms(5,6)
    by (auto simp: judge_sanitization_def cdr_succeeded_def cdr_failure_def split: if_splits)
  then have "ca_status a = CDR_SUCCESS" using decoded_answer(3) [OF a(2)] by simp
  moreover have "validated_config cdr (jget request ''cdr'') = Inr (configured env s)"
    using assms(1) configuration_accepted [OF assms(2)] by (simp add: requested_def)
  ultimately have "\<exists>src xs. wc_open cdr = Inr src \<and> \<not> ps_needs_pass src \<and> 1 \<le> ps_page_count src \<and>
      int (ps_page_count src) \<le> ck_max_pages (configured env s) \<and>
      list_all2 (page_image cdr (configured env s) src) [0..<ps_page_count src] xs \<and>
      wc_save cdr xs = Inr out \<and> budgets_hold (configured env s) (ca_total_pixels a) \<and>
      ca_total_pixels a = sum_list (map (page_pixels cdr (configured env s)) xs) \<and> ca_page_count a = ps_page_count src \<and>
      ca_output_bytes a = int (length out) \<and> 1 \<le> length out \<and>
      int (length out) \<le> ck_max_output_bytes (configured env s) \<and> ca_failure_code a = None \<and>
      ca_fingerprint a = ck_fingerprint (configured env s)"
    using worker_sanitize_success [OF assms(3) _ a(1)] by simp
  then show ?thesis using decoded_answer(8,9,10) [OF a(2)] a(1) by auto
qed

text \<open>C37. No success is lost on the way: when the renderer, started with the configuration of the gateway,
  claims a success, its fingerprint agrees with the one the gateway computes, its numbers are inside
  the contract, and a gateway that received the answer from a clean exit accepts it.\<close>

theorem reconstruction_accepted:
  assumes "requested lib env s raw request" "same_platform cdr env s" "reads_saved cdr" "cdr_settings_ok s"
    and "main lib (sanitizer cdr prepared) raw = Sanitized (result_json r)" "decode (ex_stdout x) = Some r"
    and "cr_status r = CDR_SUCCESS"
    and "ex_exit_code x = Some 0" "\<not> ex_timed_out x" "\<not> ex_output_limit_exceeded x"
    and "hex_digits 64 (sanitizer_fingerprint env s)"
    and "wc_version_bind cdr \<noteq> []" "length (wc_version_bind cdr) \<le> 64"
    and "wc_version_fitz cdr \<noteq> []" "length (wc_version_fitz cdr) \<le> 64"
    and "\<And>points n. 0 < points \<Longrightarrow> wc_pixels cdr points PDF_CDR_DPI = Inr n \<Longrightarrow> 0 \<le> n"
  shows "judge_sanitization decode (worker_cdr_config env s) (Some x) = \<lparr>co_result = Some r, co_failure_code = None\<rparr>"
proof -
  let ?c = "configured env s"
  obtain a out where a: "worker_sanitize cdr prepared request = (Inr a, out)" "result_json r = cdr_answer_json a"
    using assms(1,5) main_sanitizes by metis
  note d = decoded_answer [OF a(2)]
  have v: "validated_config cdr (jget request ''cdr'') = Inr ?c"
    using assms(1) configuration_accepted [OF assms(2)] by (simp add: requested_def)
  obtain src xs where w: "1 \<le> ps_page_count src" "int (ps_page_count src) \<le> st_cdr_max_pages s"
    "list_all2 (page_image cdr ?c src) [0..<ps_page_count src] xs" "budgets_hold ?c (ca_total_pixels a)"
    "ca_total_pixels a = sum_list (map (page_pixels cdr ?c) xs)" "ca_page_count a = ps_page_count src"
    "ca_output_bytes a = int (length out)" "1 \<le> length out" "length out \<le> st_cdr_max_output_bytes s"
    "ca_failure_code a = None" "ca_fingerprint a = sanitizer_fingerprint env s"
    using worker_sanitize_success [OF assms(3) v a(1)] d(3) assms(7) by auto
  have "0 \<le> page_pixels cdr ?c y" if "y \<in> set xs" for y
  proof -
    from that w(3) have "0 < fst y" "0 < fst (snd y)"
      by (auto simp: list_all2_conv_all_nth in_set_conv_nth page_image_def rendered_from_def)
    with assms(16) show ?thesis by (auto simp: page_pixels_def split: sum.splits)
  qed
  then have "0 \<le> cr_total_pixels r" using w(5) d(9) by (auto intro!: sum_list_nonneg)
  moreover have "cr_total_pixels r \<le> 1000000000" using w(4) d(9) assms(4) by (simp add: budgets_hold_def cdr_settings_ok_def)
  moreover have "1 \<le> cr_page_count r" "cr_page_count r \<le> 1000" using w(1,2,6) d(8) assms(4) by (simp_all add: cdr_settings_ok_def)
  moreover have "1 \<le> cr_output_bytes r" "cr_output_bytes r \<le> 1000000000"
    using w(7-9) d(10) assms(4) by (simp_all add: cdr_settings_ok_def)
  moreover have "0 \<le> cr_duration_ms r" "cr_renderer_version r = wc_version_bind cdr" "cr_engine_version r = wc_version_fitz cdr"
    using worker_answer_fields [OF a(1)] d(6,7,11) by simp_all
  moreover have "cr_failure_code r = None" using d(12) w(10) by simp
  ultimately have "pdf_cdr_result_ok r" using d(1,2,4,5) w(11) assms(7,11-15)
    by (simp add: pdf_cdr_result_ok_def PDF_CDR_VERSION_def Suc_le_eq)
  then show ?thesis using d(4,5) w(11) assms(6-10)
    by (simp add: judge_sanitization_def worker_cdr_config_def)
qed

text \<open>C38. The bounded failure of a long document is lost: for a source of more than 1000 pages the renderer
  answers with \<open>page_limit\<close>, but its page count violates the contract of the answer, so the gateway
  reports an invalid output instead.\<close>

theorem long_source_misreported:
  assumes "requested lib env s raw request" "same_platform cdr env s"
    and "wc_output_ready cdr" "wc_open cdr = Inr src" "\<not> ps_needs_pass src" "cdr_settings_ok s" "1000 < ps_page_count src"
    and "main lib (sanitizer cdr prepared) raw = Sanitized (result_json r)" "decode (ex_stdout x) = Some r"
    and "ex_exit_code x = Some 0" "\<not> ex_timed_out x" "\<not> ex_output_limit_exceeded x"
  shows "cr_failure_code r = Some PAGE_LIMIT \<and>
    judge_sanitization decode (worker_cdr_config env s) (Some x) = cdr_failure OUTPUT_INVALID"
proof -
  let ?c = "configured env s" and ?s = "\<lparr>cd_page_count = 0, cd_total_pixels = 0, cd_output = prepared\<rparr>"
  obtain a out where a: "worker_sanitize cdr prepared request = (Inr a, out)" "result_json r = cdr_answer_json a"
    using assms(1,8) main_sanitizes by metis
  have v: "validated_config cdr (jget request ''cdr'') = Inr ?c"
    using assms(1) configuration_accepted [OF assms(2)] by (simp add: requested_def)
  have "st_cdr_max_pages s < int (ps_page_count src)" using assms(6,7) by (simp add: cdr_settings_ok_def)
  then have "reconstruct cdr ?c ?s = (Inl (Controlled ''page_limit''), ?s\<lparr>cd_page_count := ps_page_count src\<rparr>)"
    using assms(3-5) by (simp add: reconstruct_def render_document_def bindE_def fromE_def returnE_def raiseE_def modifyE_def)
  then have "ca_page_count a = ps_page_count src" "ca_failure_code a = Some ''page_limit''"
    using a(1) v by (auto simp: worker_sanitize_def cdr_answer_of_def)
  then have p: "1000 < cr_page_count r" and f: "map_option cdr_failure_value (cr_failure_code r) = Some ''page_limit''"
    using decoded_answer(8,12) [OF a(2)] assms(7) by simp_all
  from f obtain code where code: "cr_failure_code r = Some code" "cdr_failure_value code = ''page_limit''" by auto
  from code(2) have "code = PAGE_LIMIT" by (cases code) simp_all
  moreover from p have "\<not> pdf_cdr_result_ok r" by (simp add: pdf_cdr_result_ok_def)
  ultimately show ?thesis using code(1) assms(9-12) by (simp add: judge_sanitization_def)
qed

section \<open>Witnesses\<close>

definition sample_page :: pdf_page where
  "sample_page = \<lparr>pg_width = Some 72, pg_height = Some 72,
     pg_pixmap = (\<lambda>dpi. Inr \<lparr>px_width = dpi, px_height = dpi, px_samples = [255]\<rparr>)\<rparr>"

definition sample_pages :: "nat \<Rightarrow> pdf_source" where
  "sample_pages n = \<lparr>ps_needs_pass = False, ps_page_count = n, ps_load = (\<lambda>_. Inr sample_page)\<rparr>"

definition sample_cdr :: "nat \<Rightarrow> cdr_lib" where
  "sample_cdr n = \<lparr>wc_sha256 = sha256_text quiet_env, wc_number = (\<lambda>_. 2000), wc_of_int = (\<lambda>_. Inl ''OverflowError''),
     wc_pixels = (\<lambda>points dpi. Inr \<lceil>points * of_int dpi / 72\<rceil>), wc_output_ready = True, wc_open = Inr (sample_pages n),
     wc_new = Inr (), wc_insert = (\<lambda>_. Inr ()), wc_save = (\<lambda>_. Inr [37, 80]), wc_close = Inr (),
     wc_size = (\<lambda>saved. Inr (length saved)), wc_reopen = Inr (), wc_read = (\<lambda>saved pos n. Inr (take n (drop pos saved))),
     wc_write = (\<lambda>_. Inr ()), wc_truncate = Inr (), wc_output_size = (\<lambda>out. Some (length out)),
     wc_version_bind = ''1.28.2'', wc_version_fitz = ''1.28.2'', wc_started_ns = 0, wc_ended_ns = 0\<rparr>"

definition sample_cdr_request :: json_object where
  "sample_cdr_request = obj [(''schema_version'', jtext ANALYSIS_SCHEMA_VERSION), (''sample_path'', JStr SAMPLE_PATH),
     (''operation'', jtext ''SANITIZE_PDF''), (''cdr'', JObj (cdr_config_json quiet_env sample_settings))]"

definition cdr_worker :: "unit worker_lib" where
  "cdr_worker = (sample_worker [] broken_pdf_lib embedding_package rejected_ole)
     \<lparr>wl_parse := (\<lambda>_. Inr (JObj sample_cdr_request))\<rparr>"

definition clean_exit :: worker_execution where
  "clean_exit = \<lparr>ex_stdout = [], ex_stderr = [], ex_exit_code = Some 0, ex_timed_out = False,
     ex_output_limit_exceeded = False\<rparr>"

lemma clean_exit_fields [simp]:
  "ex_exit_code clean_exit = Some 0" "\<not> ex_timed_out clean_exit" "\<not> ex_output_limit_exceeded clean_exit"
  by (simp_all add: clean_exit_def)

lemma sample_requested: "requested cdr_worker quiet_env sample_settings raw sample_cdr_request"
proof -
  have "starts_with [47] SAMPLE_PATH" by (simp add: SAMPLE_PATH_def starts_with_def u_def)
  then have "parse_request (wl_parse cdr_worker) raw = Inr (sample_cdr_request, SAMPLE_PATH)"
    by (simp add: parse_request_def cdr_worker_def sample_cdr_request_def)
  then show ?thesis by (simp add: requested_def sample_cdr_request_def)
qed

lemma sample_platform: "same_platform (sample_cdr n) quiet_env sample_settings"
  by (simp add: same_platform_def sample_cdr_def sample_settings_def)

lemma sample_reads: "reads_saved (sample_cdr n)"
  by (auto simp: reads_saved_def sample_cdr_def)

lemma sample_settings_ok: "cdr_settings_ok sample_settings"
  by (simp add: cdr_settings_ok_def sample_settings_def)

lemma sample_validated:
  "validated_config (sample_cdr n) (jget sample_cdr_request ''cdr'') = Inr (configured quiet_env sample_settings)"
  using configuration_accepted [OF sample_platform] by (simp add: sample_cdr_request_def)

definition sample_answer :: "nat \<Rightarrow> int \<Rightarrow> int \<Rightarrow> cdr_failure_code option \<Rightarrow> pdf_cdr_result" where
  "sample_answer pages pixels output_bytes code = \<lparr>cr_schema_version = ANALYSIS_SCHEMA_VERSION,
     cr_operation = ''SANITIZE_PDF'', cr_status = (if code = None then CDR_SUCCESS else CDR_FAILED),
     cr_sanitizer_version = PDF_CDR_VERSION, cr_sanitizer_fingerprint = sanitizer_fingerprint quiet_env sample_settings,
     cr_renderer_version = ''1.28.2'', cr_engine_version = ''1.28.2'', cr_page_count = int pages,
     cr_total_pixels = pixels, cr_output_bytes = output_bytes, cr_duration_ms = 0, cr_failure_code = code\<rparr>"

lemma sample_cdr_file [simp]:
  "wc_size (sample_cdr n) saved = Inr (length saved)" "wc_reopen (sample_cdr n) = Inr ()"
  "wc_read (sample_cdr n) saved pos k = Inr (take k (drop pos saved))" "wc_write (sample_cdr n) pos = Inr ()"
  "wc_truncate (sample_cdr n) = Inr ()"
  by (simp_all add: sample_cdr_def)

lemma sample_copied:
  assumes "2 \<le> m"
  shows "copy_chunks (sample_cdr n) m [37, 80] 0 s = (Inr 2, write_chunk 0 [37, 80] s)"
proof -
  have "copy_chunks (sample_cdr n) m [37, 80] (Suc (Suc 0)) v = (Inr 2, v)" for v
    by (simp add: copy_chunks.simps [of _ _ _ "Suc (Suc 0)"])
  with assms show ?thesis by (simp add: copy_chunks.simps [of _ _ _ 0])
qed

lemma sample_delivered: "deliver (sample_cdr n) (configured quiet_env sample_settings) [37, 80] s =
    (Inr 2, s\<lparr>cd_output := [37, 80]\<rparr>)"
proof -
  have "(2::int) \<le> int (st_cdr_max_output_bytes sample_settings)" by (simp add: sample_settings_def)
  from sample_copied [OF this] this show ?thesis
    by (simp add: deliver_def bindE_def fromE_def return_run modify_run write_chunk_def)
qed

lemma sample_reconstruct:
  "reconstruct (sample_cdr 1) (configured quiet_env sample_settings)
     \<lparr>cd_page_count = 0, cd_total_pixels = 0, cd_output = [7, 8, 9]\<rparr> =
   (Inr 2, \<lparr>cd_page_count = 1, cd_total_pixels = 22500, cd_output = [37, 80]\<rparr>)"
proof -
  let ?s = "\<lparr>cd_page_count = 0, cd_total_pixels = 0, cd_output = [7, 8, 9]\<rparr>"
  have "render_document (sample_cdr 1) (configured quiet_env sample_settings) ?s =
      (Inr [37, 80], \<lparr>cd_page_count = 1, cd_total_pixels = 22500, cd_output = [7, 8, 9]\<rparr>)"
    by (simp add: render_document_def render_page_def sample_cdr_def sample_pages_def sample_page_def configured_def
        sample_settings_def PDF_CDR_DPI_def oversized_page_def over_budget_def pixmap_rejected_def Let_def bindE_def fromE_def
        returnE_def modifyE_def getE_def finallyE_def)
  moreover have "wc_output_ready (sample_cdr 1)" by (simp add: sample_cdr_def)
  ultimately show ?thesis by (simp add: reconstruct_def bindE_def sample_delivered)
qed

lemma sample_sanitized:
  "worker_sanitize (sample_cdr 1) [7, 8, 9] sample_cdr_request = (Inr \<lparr>ca_status = CDR_SUCCESS,
     ca_fingerprint = sanitizer_fingerprint quiet_env sample_settings, ca_renderer_version = ''1.28.2'',
     ca_engine_version = ''1.28.2'', ca_page_count = 1, ca_total_pixels = 22500, ca_output_bytes = 2, ca_duration_ms = 0,
     ca_failure_code = None\<rparr>, [37, 80])"
  unfolding worker_sanitize_def sample_validated sum.case sample_reconstruct
  by (simp add: cdr_answer_of_def sample_cdr_def)

lemma sample_printed:
  "main cdr_worker (sanitizer (sample_cdr 1) [7, 8, 9]) [] = Sanitized (result_json (sample_answer 1 22500 2 None))"
  unfolding main_sanitizes [OF sample_requested] sample_sanitized
  by (simp add: result_json_def sample_answer_def cdr_answer_json_def)

lemma sample_hex: "hex_digits 64 (sanitizer_fingerprint quiet_env sample_settings)"
  using sample_config by (simp add: cdr_config_ok_def worker_cdr_config_def)

lemma sample_judged:
  "cdr_succeeded (judge_sanitization (\<lambda>_. Some (sample_answer 1 22500 2 None)) (worker_cdr_config quiet_env sample_settings)
     (Some clean_exit))"
  using sample_hex by (simp add: judge_sanitization_def cdr_succeeded_def pdf_cdr_result_ok_def sample_answer_def
      worker_cdr_config_def PDF_CDR_VERSION_def)

theorem accepted_reconstruction_witness:
  "\<exists>src xs. wc_open (sample_cdr 1) = Inr src \<and> ps_page_count src = 1 \<and>
    list_all2 (page_image (sample_cdr 1) (configured quiet_env sample_settings) src) [0..<ps_page_count src] xs \<and>
    wc_save (sample_cdr 1) xs = Inr [37, 80]"
proof -
  have "snd (worker_sanitize (sample_cdr 1) [7, 8, 9] sample_cdr_request) = [37, 80]" by (simp only: sample_sanitized snd_conv)
  moreover have "cr_page_count (sample_answer 1 22500 2 None) = 1" by (simp add: sample_answer_def)
  ultimately show ?thesis
    using accepted_reconstruction [where x = clean_exit, OF sample_requested sample_platform sample_reads sample_printed refl
      sample_judged] by auto
qed

theorem reconstruction_accepted_witness:
  "judge_sanitization (\<lambda>_. Some (sample_answer 1 22500 2 None)) (worker_cdr_config quiet_env sample_settings) (Some clean_exit) =
     \<lparr>co_result = Some (sample_answer 1 22500 2 None), co_failure_code = None\<rparr>"
proof -
  have "0 \<le> n" if "0 < points" "wc_pixels (sample_cdr 1) points PDF_CDR_DPI = Inr n" for points n
  proof -
    have "n = \<lceil>points * 150 / 72\<rceil>" using that(2) by (simp add: sample_cdr_def PDF_CDR_DPI_def)
    moreover have "- 1 < points * 150 / 72" using that(1) by simp
    ultimately show ?thesis by simp
  qed
  moreover have "cr_status (sample_answer 1 22500 2 None) = CDR_SUCCESS" by (simp add: sample_answer_def)
  moreover have "wc_version_bind (sample_cdr 1) = ''1.28.2''" "wc_version_fitz (sample_cdr 1) = ''1.28.2''"
    by (simp_all add: sample_cdr_def)
  ultimately show ?thesis
    using reconstruction_accepted [where x = clean_exit, OF sample_requested sample_platform sample_reads sample_settings_ok
      sample_printed refl] sample_hex by simp
qed

lemma long_printed:
  "main cdr_worker (sanitizer (sample_cdr 1001) [7, 8, 9]) [] =
     Sanitized (result_json (sample_answer 1001 0 3 (Some PAGE_LIMIT)))"
proof -
  let ?s = "\<lparr>cd_page_count = 0, cd_total_pixels = 0, cd_output = [7, 8, 9]\<rparr>"
  have "reconstruct (sample_cdr 1001) (configured quiet_env sample_settings) ?s =
      (Inl (Controlled ''page_limit''), ?s\<lparr>cd_page_count := 1001\<rparr>)"
    by (simp add: reconstruct_def render_document_def sample_cdr_def sample_pages_def sample_settings_def bindE_def fromE_def
        returnE_def raiseE_def modifyE_def)
  then have "worker_sanitize (sample_cdr 1001) [7, 8, 9] sample_cdr_request = (Inr \<lparr>ca_status = CDR_FAILED,
     ca_fingerprint = sanitizer_fingerprint quiet_env sample_settings, ca_renderer_version = ''1.28.2'',
     ca_engine_version = ''1.28.2'', ca_page_count = 1001, ca_total_pixels = 0, ca_output_bytes = 3, ca_duration_ms = 0,
     ca_failure_code = Some ''page_limit''\<rparr>, [7, 8, 9])"
    unfolding worker_sanitize_def sample_validated sum.case
    by (simp add: cdr_answer_of_def bounded_output_size_def sample_cdr_def sample_settings_def)
  then show ?thesis unfolding main_sanitizes [OF sample_requested]
    by (simp add: result_json_def sample_answer_def cdr_answer_json_def)
qed

theorem long_source_misreported_witness:
  "judge_sanitization (\<lambda>_. Some (sample_answer 1001 0 3 (Some PAGE_LIMIT))) (worker_cdr_config quiet_env sample_settings)
     (Some clean_exit) = cdr_failure OUTPUT_INVALID"
proof -
  have "wc_output_ready (sample_cdr 1001)" "wc_open (sample_cdr 1001) = Inr (sample_pages 1001)"
    "\<not> ps_needs_pass (sample_pages 1001)" "1000 < ps_page_count (sample_pages 1001)"
    by (simp_all add: sample_cdr_def sample_pages_def)
  then show ?thesis
    using long_source_misreported [where x = clean_exit, OF sample_requested sample_platform _ _ _ sample_settings_ok _
      long_printed refl] by simp
qed

end
