(* ===== verification/Http_Guards.thy ===== *)
theory Http_Guards
  imports Auth
begin

text \<open>
  What stands before a handler: the host check and the client address of \<open>app/core/proxy.py\<close>, the
  limits of \<open>app/core/request_limits.py\<close>, and capabilities, origin, CSRF token and form of
  \<open>app/auth/http.py\<close>. \<open>urlsplit\<close>, \<open>ipaddress\<close>, \<open>parse_qs\<close>, \<open>int\<close> and case folding are the record
  \<open>http_lib\<close>.
\<close>

section \<open>Requests\<close>

text \<open>The names of headers are in lower case; \<open>hq_items\<close> is the body as it arrives.\<close>

record http_request =
  hq_client :: "ustring option"
  hq_headers :: "(string \<times> ustring) list"
  hq_cookie :: "ustring option"
  hq_path :: ustring
  hq_items :: "stream_item list"

definition header_values :: "http_request \<Rightarrow> string \<Rightarrow> ustring list" where
  "header_values q k = map snd (filter (\<lambda>(n, v). n = k) (hq_headers q))"

definition header_value :: "http_request \<Rightarrow> string \<Rightarrow> ustring option" where
  "header_value q k = map_of (hq_headers q) k"

text \<open>The parts of a split URL; a \<open>None\<close> of \<open>up_port\<close> is the \<open>ValueError\<close> of a bad port.\<close>

record url_parts =
  up_username :: "ustring option"
  up_password :: "ustring option"
  up_path :: ustring
  up_hostname :: "ustring option"
  up_port :: "int option option"

text \<open>\<open>hl_address\<close> is \<open>str(ipaddress.ip_address(s))\<close>, \<open>hl_form\<close> the decoding and the strict \<open>parse_qs\<close>;
  their \<open>None\<close> is the exception the code catches.\<close>

record http_lib =
  hl_split :: "ustring \<Rightarrow> url_parts option"
  hl_address :: "ustring \<Rightarrow> ustring option"
  hl_form :: "bytes \<Rightarrow> (ustring \<times> ustring list) list option"
  hl_int :: "ustring \<Rightarrow> int option"
  hl_casefold :: "ustring \<Rightarrow> ustring"

text \<open>The origin of the configuration is split once, when the settings are validated.\<close>

record http_settings =
  hs_production :: bool
  hs_application_origin :: ustring
  hs_origin_scheme :: ustring
  hs_origin_hostname :: "ustring option"
  hs_origin_port :: "int option"
  hs_csrf_required :: bool
  hs_require_origin_header :: bool
  hs_trusted_proxies :: "ustring list"
  hs_uploads_per_hour :: int
  hs_cdr_requests_per_hour :: int
  hs_downloads_per_hour :: int

text \<open>An \<open>HTTPException\<close> by its status, an exception of a service, any other exception by its class.\<close>

datatype http_exn = Http_Error nat | Service exn | Unhandled string

text \<open>\<open>hmac.compare_digest\<close> on strings: both must be ASCII.\<close>

definition compare_digest :: "ustring \<Rightarrow> ustring \<Rightarrow> http_exn + bool" where
  "compare_digest a b = (if list_all (\<lambda>c. c < 128) a \<and> list_all (\<lambda>c. c < 128) b then Inr (a = b)
     else Inl (Unhandled ''TypeError''))"

section \<open>The host and the peer\<close>

definition default_port :: "http_settings \<Rightarrow> int" where
  "default_port s = (if hs_origin_scheme s = u ''https'' then 443 else 80)"

definition port_matches :: "http_settings \<Rightarrow> int option \<Rightarrow> bool" where
  "port_matches s observed_port =
     (if hs_origin_port s \<noteq> None \<and> hs_origin_port s \<noteq> Some (default_port s)
      then observed_port = Some (case hs_origin_port s of None \<Rightarrow> default_port s
        | Some p \<Rightarrow> if p = 0 then default_port s else p)
      else observed_port = None \<or> observed_port = Some (default_port s))"

definition host_is_allowed :: "http_lib \<Rightarrow> http_settings \<Rightarrow> ustring option \<Rightarrow> http_exn + bool" where
  "host_is_allowed lib s raw_host =
     (case raw_host of None \<Rightarrow> Inr False
      | Some h \<Rightarrow>
        if h = [] \<or> 255 < length h \<or> list_ex (\<lambda>c. c < 32 \<or> c = 127) h then Inr False
        else (case hl_split lib ([47, 47] @ h) of None \<Rightarrow> Inr False
          | Some parts \<Rightarrow>
            if up_username parts \<noteq> None \<or> up_password parts \<noteq> None \<or> up_path parts \<noteq> [] then Inr False
            else (case (up_port parts, up_hostname parts) of
                (Some port, Some host) \<Rightarrow>
                  if \<not> hs_production s \<and> hl_casefold lib host = u ''test'' then Inr True
                  else (case compare_digest (hl_casefold lib host)
                      (hl_casefold lib (case hs_origin_hostname s of None \<Rightarrow> [] | Some n \<Rightarrow> n)) of
                    Inl e \<Rightarrow> Inl e | Inr same \<Rightarrow> Inr (same \<and> port_matches s port))
              | _ \<Rightarrow> Inr False)))"

definition MAX_CLIENT_ADDRESS_BYTES :: nat where "MAX_CLIENT_ADDRESS_BYTES = 64"

definition resolve_client_address :: "http_lib \<Rightarrow> http_settings \<Rightarrow> http_request \<Rightarrow> ustring" where
  "resolve_client_address lib s q =
     (let direct = (case hq_client q of None \<Rightarrow> u ''unknown'' | Some h \<Rightarrow> h) in
      case hl_address lib direct of None \<Rightarrow> take MAX_CLIENT_ADDRESS_BYTES direct
      | Some direct_ip \<Rightarrow>
        if direct_ip \<notin> set (hs_trusted_proxies s) then direct_ip
        else (case header_values q ''x-real-ip'' of
            [supplied] \<Rightarrow> if 44 \<in> set supplied \<or> supplied \<noteq> strip supplied then direct_ip
              else (case hl_address lib supplied of None \<Rightarrow> direct_ip | Some a \<Rightarrow> a)
          | _ \<Rightarrow> direct_ip))"

section \<open>Origin, form and token\<close>

definition rstrip_slash :: "ustring \<Rightarrow> ustring" where
  "rstrip_slash s = rev (dropWhile (\<lambda>c. c = 47) (rev s))"

definition enforce_origin :: "http_settings \<Rightarrow> http_request \<Rightarrow> http_exn + unit" where
  "enforce_origin s q =
     (case header_value q ''origin'' of
        None \<Rightarrow> if hs_require_origin_header s then Inl (Http_Error 403) else Inr ()
      | Some origin \<Rightarrow> (case compare_digest (rstrip_slash origin) (rstrip_slash (hs_application_origin s)) of
          Inl e \<Rightarrow> Inl e | Inr same \<Rightarrow> if same then Inr () else Inl (Http_Error 403)))"

definition MAX_FORM_BYTES :: int where "MAX_FORM_BYTES = 4096"
definition MAX_CSRF_TOKEN_LENGTH :: nat where "MAX_CSRF_TOKEN_LENGTH = 128"

definition FORM_TYPE :: ustring where "FORM_TYPE = u ''application/x-www-form-urlencoded''"

text \<open>\<open>value.partition(";")[0]\<close>.\<close>

definition before_semicolon :: "ustring \<Rightarrow> ustring" where
  "before_semicolon s = takeWhile (\<lambda>c. c \<noteq> 59) s"

fun collect_body :: "stream_item list \<Rightarrow> bytes \<Rightarrow> http_exn + bytes" where
  "collect_body [] collected = Inr collected"
| "collect_body (Disconnect # items) collected = Inl (Unhandled ''ClientDisconnect'')"
| "collect_body (Chunk chunk # items) collected =
     (if MAX_FORM_BYTES < int (length collected + length chunk) then Inl (Http_Error 413)
      else collect_body items (collected @ chunk))"

definition content_type_of :: "http_request \<Rightarrow> ustring" where
  "content_type_of q = (case header_value q ''content-type'' of None \<Rightarrow> [] | Some t \<Rightarrow> t)"

definition declared_form_ok :: "http_lib \<Rightarrow> http_request \<Rightarrow> http_exn + unit" where
  "declared_form_ok lib q =
     (case header_value q ''content-length'' of None \<Rightarrow> Inr ()
      | Some declared \<Rightarrow> (case hl_int lib declared of None \<Rightarrow> Inl (Http_Error 400)
          | Some n \<Rightarrow> if MAX_FORM_BYTES < n then Inl (Http_Error 413) else Inr ()))"

definition parse_urlencoded_form :: "http_lib \<Rightarrow> http_request \<Rightarrow> http_exn + (ustring \<times> ustring) list" where
  "parse_urlencoded_form lib q =
     (if hl_casefold lib (strip (before_semicolon (content_type_of q))) \<noteq> FORM_TYPE then Inl (Http_Error 415)
      else (case declared_form_ok lib q of Inl e \<Rightarrow> Inl e
        | Inr _ \<Rightarrow> (case collect_body (hq_items q) [] of Inl e \<Rightarrow> Inl e
          | Inr body \<Rightarrow> (case hl_form lib body of None \<Rightarrow> Inl (Http_Error 400)
            | Some parsed \<Rightarrow> if list_ex (\<lambda>(k, vs). length vs \<noteq> 1) parsed then Inl (Http_Error 400)
                else Inr (map (\<lambda>(k, vs). (k, hd vs)) parsed)))))"

text \<open>The token a request supplies, and whether its body was read for it.\<close>

definition supplied_token :: "http_lib \<Rightarrow> http_request \<Rightarrow> http_exn + ustring option \<times> bool" where
  "supplied_token lib q =
     (case header_value q ''x-csrf-token'' of Some t \<Rightarrow> Inr (Some t, False)
      | None \<Rightarrow> if starts_with FORM_TYPE (hl_casefold lib (content_type_of q))
          then (case parse_urlencoded_form lib q of Inl e \<Rightarrow> Inl e
            | Inr form \<Rightarrow> Inr (map_of form (u ''csrf_token''), True))
          else Inr (None, False))"

definition check_token :: "ustring option \<Rightarrow> ustring \<Rightarrow> http_exn + unit" where
  "check_token supplied expected =
     (case supplied of None \<Rightarrow> Inl (Http_Error 403)
      | Some t \<Rightarrow> if MAX_CSRF_TOKEN_LENGTH < length t then Inl (Http_Error 403)
          else (case compare_digest t expected of Inl e \<Rightarrow> Inl e
            | Inr same \<Rightarrow> if same then Inr () else Inl (Http_Error 403)))"

text \<open>\<open>enforce_csrf\<close>; the value says whether the body was read.\<close>

definition enforce_csrf ::
  "http_lib \<Rightarrow> http_settings \<Rightarrow> authenticated_principal option \<Rightarrow> http_request \<Rightarrow> http_exn + bool" where
  "enforce_csrf lib s who q =
     (if \<not> hs_csrf_required s then Inr False
      else (case who of None \<Rightarrow> Inl (Http_Error 401)
        | Some p \<Rightarrow> (case enforce_origin s q of Inl e \<Rightarrow> Inl e
          | Inr _ \<Rightarrow> (case supplied_token lib q of Inl e \<Rightarrow> Inl e
            | Inr (supplied, consumed) \<Rightarrow> (case check_token supplied (pr_csrf_token p) of Inl e \<Rightarrow> Inl e
                | Inr _ \<Rightarrow> Inr consumed)))))"

definition require_capability ::
  "capability \<Rightarrow> authenticated_principal option \<Rightarrow> http_exn + authenticated_principal" where
  "require_capability c who = (case who of None \<Rightarrow> Inl (Http_Error 401)
     | Some p \<Rightarrow> if has_capability p c then Inr p else Inl (Http_Error 403))"

definition require_html_authenticated ::
  "authenticated_principal option \<Rightarrow> http_exn + authenticated_principal" where
  "require_html_authenticated who = (case who of None \<Rightarrow> Inl (Http_Error 303) | Some p \<Rightarrow> Inr p)"

section \<open>What the guards let through\<close>

text \<open>A request of the same origin with the token of the session.\<close>

definition same_site :: "http_lib \<Rightarrow> http_settings \<Rightarrow> ustring \<Rightarrow> http_request \<Rightarrow> bool" where
  "same_site lib s csrf q \<longleftrightarrow>
     (case header_value q ''origin'' of None \<Rightarrow> \<not> hs_require_origin_header s
      | Some origin \<Rightarrow> rstrip_slash origin = rstrip_slash (hs_application_origin s)) \<and>
     (\<exists>consumed. supplied_token lib q = Inr (Some csrf, consumed))"

lemma compare_digest_same: "compare_digest a b = Inr same \<Longrightarrow> same \<longleftrightarrow> a = b"
  by (auto simp: compare_digest_def split: if_splits)

lemma enforce_origin_passes: "enforce_origin s q = Inr x \<Longrightarrow>
    (case header_value q ''origin'' of None \<Rightarrow> \<not> hs_require_origin_header s
      | Some origin \<Rightarrow> rstrip_slash origin = rstrip_slash (hs_application_origin s))"
  by (auto simp: enforce_origin_def dest!: compare_digest_same split: option.splits if_splits sum.splits)

lemma check_token_passes: "check_token supplied expected = Inr x \<Longrightarrow> supplied = Some expected"
  by (auto simp: check_token_def dest!: compare_digest_same split: option.splits if_splits sum.splits)

lemma csrf_passes:
  assumes "enforce_csrf lib s who q = Inr consumed" "hs_csrf_required s"
  obtains p where "who = Some p" "same_site lib s (pr_csrf_token p) q"
  using assms by (auto simp: enforce_csrf_def same_site_def dest!: check_token_passes enforce_origin_passes
      split: option.splits sum.splits)

end
