(* ===== verification/Http_Api.thy ===== *)
theory Http_Api
  imports Http_Guards
begin

text \<open>
  The operations a client can ask for: the session middleware of \<open>app/main.py\<close>, upload
  (\<open>create_scan\<close> of \<open>app/api/scans.py\<close>), sanitisation (\<open>app/api/cdr.py\<close>), download
  (\<open>app/api/artifacts.py\<close>), login and logout (\<open>app/auth/routes.py\<close>). A response is its status and what it
  delivers; templates, headers and logging are left out. A validation error of the framework is the
  status 422; it comes after the dependencies of the route have passed.
\<close>

section \<open>State and steps\<close>

record api_world =
  ap_auth :: auth_world
  ap_buckets :: event_table

type_synonym 'a api = "(api_world, http_exn, 'a) prog"

record site =
  si_lib :: http_lib
  si_settings :: http_settings
  si_document_settings :: settings
  si_auth_settings :: auth_settings
  si_auth_env :: auth_env
  si_backend :: "pdf_cdr_result backend"
  si_nfc :: "ustring \<Rightarrow> ustring"

definition on_auth :: "(auth_world, exn, 'a) prog \<Rightarrow> 'a api" where
  "on_auth m w = (case m (ap_auth w) of
     (Inl e, v) \<Rightarrow> (Inl (Service e), w\<lparr>ap_auth := v\<rparr>) | (Inr x, v) \<Rightarrow> (Inr x, w\<lparr>ap_auth := v\<rparr>))"

definition on_store :: "(world, exn, 'a) prog \<Rightarrow> 'a api" where
  "on_store m = on_auth (on_world m)"

text \<open>An \<open>except\<close> clause for the service errors it names.\<close>

definition excepting :: "'a api \<Rightarrow> (exn \<Rightarrow> 'a option) \<Rightarrow> 'a api" where
  "excepting m h = catchE m (\<lambda>e. case e of Service x \<Rightarrow> map_option returnE (h x) | _ \<Rightarrow> None)"

datatype delivery = Nothing_Delivered | Scan_Delivered scan | Cdr_Delivered cdr_service_result
  | Document_Delivered prepared_download | Session_Opened ustring | Session_Closed

type_synonym response = "nat \<times> delivery"

definition enforce_operator_limit ::
  "site \<Rightarrow> authenticated_principal \<Rightarrow> string \<Rightarrow> int \<Rightarrow> moment \<Rightarrow> unit api" where
  "enforce_operator_limit si p action limit window_seconds =
     bindE (on_auth (auth_tick (ae_monotonic (si_auth_env si)))) (\<lambda>t. \<lambda>w.
       case consume (u action) (u (pr_user_id p)) limit window_seconds t (ap_buckets w) of
         (allowed, buckets) \<Rightarrow> (if allowed then Inr () else Inl (Http_Error 429), w\<lparr>ap_buckets := buckets\<rparr>))"

section \<open>Handlers\<close>

definition bounded_content_type :: "ustring option \<Rightarrow> ustring option" where
  "bounded_content_type v = (case v of None \<Rightarrow> None
     | Some t \<Rightarrow> let bounded = take 255 (strip t) in if bounded = [] then None else Some bounded)"

definition content_length :: "http_lib \<Rightarrow> ustring option \<Rightarrow> int option" where
  "content_length lib v = (case v of None \<Rightarrow> None
     | Some s \<Rightarrow> (case hl_int lib s of None \<Rightarrow> None | Some n \<Rightarrow> if 0 \<le> n then Some n else None))"

text \<open>A body that a dependency has read cannot be streamed again: the first item is a \<open>RuntimeError\<close>.\<close>

definition receive_upload :: "site \<Rightarrow> http_request \<Rightarrow> bool \<Rightarrow> stored_document api" where
  "receive_upload si q consumed =
     (let store = (\<lambda>items. on_store (stream_document_to_quarantine (ae_env (si_auth_env si))
          (st_maximum_upload_bytes (si_document_settings si)) items)) in
      if consumed then catchE (store [Disconnect])
        (\<lambda>e. if e = Service ClientDisconnect then Some (raiseE (Unhandled ''RuntimeError'')) else None)
      else store (hq_items q))"

definition upload_failure :: "exn \<Rightarrow> nat option" where
  "upload_failure e = (if e = UploadTooLarge then Some 413 else if e = EmptyUpload then Some 400
     else if e = ClientDisconnect then Some 400 else None)"

definition register_upload ::
  "site \<Rightarrow> authenticated_principal \<Rightarrow> ustring \<Rightarrow> ustring option \<Rightarrow> stored_document \<Rightarrow> response api" where
  "register_upload si p filename claimed document =
     (let env = ae_env (si_auth_env si) in
      bindE (on_store (register_and_analyze env (si_backend si) (hl_casefold (si_lib si)) document
          \<lparr>sq_original_filename = filename, sq_display_filename = normalize_display_filename (si_nfc si) filename,
           sq_claimed_content_type = claimed, sq_origin = UPLOAD, sq_parent_scan_id = None\<rparr>)) (\<lambda>s.
      bindE (on_store (audit_append env (audit_request_of SCAN_UPLOAD_REQUESTED (Some (sc_id s)) AO_SUCCESS
          \<lparr>aq_actor_type := OPERATOR, aq_actor_id := Some (pr_user_id p),
           aq_details := obj [(''size_bytes'', JInt (int (sc_size_bytes s)))]\<rparr>))) (\<lambda>_.
      returnE (201, Scan_Delivered s))))"

definition create_scan :: "site \<Rightarrow> authenticated_principal option \<Rightarrow> ustring \<Rightarrow> http_request \<Rightarrow> response api" where
  "create_scan si who filename q =
     bindE (fromE (require_capability SCAN_UPLOAD who)) (\<lambda>p.
     bindE (fromE (enforce_csrf (si_lib si) (si_settings si) who q)) (\<lambda>consumed.
     if filename = [] \<or> 255 < length filename then raiseE (Http_Error 422)
     else bindE (enforce_operator_limit si p ''scan_upload'' (hs_uploads_per_hour (si_settings si)) 3600) (\<lambda>_.
       let claimed = bounded_content_type (header_value q ''content-type'') in
       if claimed \<noteq> None \<and> starts_with (u ''multipart/form-data'') (hl_casefold (si_lib si) (the claimed))
       then returnE (415, Nothing_Delivered)
       else if (case content_length (si_lib si) (header_value q ''content-length'') of None \<Rightarrow> False
           | Some n \<Rightarrow> int (st_maximum_upload_bytes (si_document_settings si)) < n)
       then returnE (413, Nothing_Delivered)
       else bindE (excepting (bindE (receive_upload si q consumed) (\<lambda>d. returnE (Inr d)))
            (\<lambda>e. map_option Inl (upload_failure e))) (\<lambda>received.
          case received of Inl st \<Rightarrow> returnE (st, Nothing_Delivered)
          | Inr document \<Rightarrow> register_upload si p filename claimed document))))"

definition sanitize_scan :: "site \<Rightarrow> authenticated_principal option \<Rightarrow> string \<Rightarrow> http_request \<Rightarrow> response api" where
  "sanitize_scan si who scan_id q =
     (let env = ae_env (si_auth_env si) in
      bindE (fromE (require_capability CDR_REQUEST who)) (\<lambda>p.
      bindE (fromE (enforce_csrf (si_lib si) (si_settings si) who q)) (\<lambda>_.
      if \<not> hex_digits 32 scan_id then raiseE (Http_Error 422)
      else bindE (enforce_operator_limit si p ''cdr_request'' (hs_cdr_requests_per_hour (si_settings si)) 3600) (\<lambda>_.
       bindE (excepting (bindE (on_store (get_scan env scan_id)) (\<lambda>_. returnE True))
           (\<lambda>e. if e = ScanNotFound then Some False else None)) (\<lambda>known.
       if \<not> known then returnE (404, Nothing_Delivered)
       else bindE (on_store (audit_append env (audit_request_of CDR_REQUESTED (Some scan_id) AO_SUCCESS
            \<lparr>aq_actor_type := OPERATOR, aq_actor_id := Some (pr_user_id p)\<rparr>))) (\<lambda>_.
         bindE (on_store (sanitize_pdf env (si_backend si) (hl_casefold (si_lib si)) (si_document_settings si) scan_id)) (\<lambda>r.
         returnE (if cs_approved r then 200 else 409, Cdr_Delivered r))))))))"

definition download_artifact :: "site \<Rightarrow> authenticated_principal option \<Rightarrow> string \<Rightarrow> response api" where
  "download_artifact si who artifact_id =
     bindE (fromE (require_capability ARTIFACT_READ who)) (\<lambda>p.
     if \<not> hex_digits 32 artifact_id then raiseE (Http_Error 422)
     else bindE (enforce_operator_limit si p ''artifact_download'' (hs_downloads_per_hour (si_settings si)) 3600) (\<lambda>_.
       excepting (bindE (on_store (prepare (ae_env (si_auth_env si)) (si_document_settings si) artifact_id p))
           (\<lambda>d. returnE (200, Document_Delivered d)))
         (\<lambda>e. if e = ArtifactNotFound then Some (404, Nothing_Delivered)
              else if e = ArtifactUnavailable \<or> e = ArtifactAuditUnavailable then Some (409, Nothing_Delivered) else None)))"

definition logout_session :: "site \<Rightarrow> authenticated_principal option \<Rightarrow> http_request \<Rightarrow> response api" where
  "logout_session si who q =
     bindE (fromE (require_html_authenticated who)) (\<lambda>p.
     bindE (fromE (enforce_csrf (si_lib si) (si_settings si) who q)) (\<lambda>_.
     bindE (on_auth (logout (si_auth_env si) (hq_cookie q) (Some p))) (\<lambda>_.
     returnE (303, Session_Closed))))"

definition login_session :: "site \<Rightarrow> http_request \<Rightarrow> response api" where
  "login_session si q =
     bindE (fromE (enforce_origin (si_settings si) q)) (\<lambda>_.
     bindE (fromE (parse_urlencoded_form (si_lib si) q)) (\<lambda>form.
     let field = (\<lambda>k. case map_of form (u k) of None \<Rightarrow> [] | Some v \<Rightarrow> v) in
     bindE (on_auth (login (si_auth_env si) (si_auth_settings si) (field ''username'') (field ''password'')
         (resolve_client_address (si_lib si) (si_settings si) q) (hq_cookie q))) (\<lambda>r.
     returnE (case lr_session_token r of
         Some token \<Rightarrow> if lr_authenticated r then (303, Session_Opened token)
           else (if lr_rate_limited r then 429 else 401, Nothing_Delivered)
       | None \<Rightarrow> (if lr_rate_limited r then 429 else 401, Nothing_Delivered)))))"

section \<open>The middleware\<close>

datatype route = Create_Scan ustring | Sanitize_Scan string | Download_Artifact string | Logout | Login

fun handle :: "site \<Rightarrow> authenticated_principal option \<Rightarrow> route \<Rightarrow> http_request \<Rightarrow> response api" where
  "handle si who (Create_Scan filename) q = create_scan si who filename q"
| "handle si who (Sanitize_Scan scan_id) q = sanitize_scan si who scan_id q"
| "handle si who (Download_Artifact artifact_id) q = download_artifact si who artifact_id"
| "handle si who Logout q = logout_session si who q"
| "handle si who Login q = login_session si q"

text \<open>The principal of the request; a failing session store means nobody.\<close>

definition session_principal :: "site \<Rightarrow> http_request \<Rightarrow> authenticated_principal option api" where
  "session_principal si q =
     (if starts_with (u ''/static/'') (hq_path q) then returnE None
      else excepting (on_auth (authenticate (si_auth_env si) (si_auth_settings si) (hq_cookie q)))
        (\<lambda>e. if e = AuthenticationPersistenceError then Some None else None))"

definition status_of :: "http_exn \<Rightarrow> nat" where
  "status_of e = (case e of Http_Error st \<Rightarrow> st | Service _ \<Rightarrow> 500 | Unhandled _ \<Rightarrow> 500)"

definition checked_host :: "site \<Rightarrow> http_request \<Rightarrow> http_exn + bool" where
  "checked_host si q = (case header_values q ''host'' of
     [h] \<Rightarrow> host_is_allowed (si_lib si) (si_settings si) (Some h) | _ \<Rightarrow> Inr False)"

definition serve :: "site \<Rightarrow> route \<Rightarrow> http_request \<Rightarrow> api_world \<Rightarrow> response \<times> api_world" where
  "serve si r q w =
     (case bindE (fromE (checked_host si q)) (\<lambda>allowed.
         if \<not> allowed then returnE (400, Nothing_Delivered)
         else bindE (session_principal si q) (\<lambda>who. handle si who r q)) w of
        (Inl e, w') \<Rightarrow> ((status_of e, Nothing_Delivered), w') | (Inr x, w') \<Rightarrow> (x, w'))"

end
