(* ===== verification/Http_Results.thy ===== *)
theory Http_Results
  imports Http_Api Auth_Properties Reconciliation
begin

text \<open>
  What the gateway guarantees to the outside: nothing happens and nothing is delivered without a live
  session and, for the operations that change something, the token of that session; and whatever
  requests arrive in whatever order, the database stays in order and only approved documents leave.
\<close>

section \<open>Guards\<close>

lemma guard_refuses: "bindE (fromE (Inl e)) k w = (Inl e, w)"
  by (simp add: bindE_def fromE_def raiseE_def)

lemma capability_passes: "require_capability c who = Inr p \<Longrightarrow> who = Some p"
  and authenticated_passes: "require_html_authenticated who = Inr p \<Longrightarrow> who = Some p"
  by (auto simp: require_capability_def require_html_authenticated_def split: option.splits if_splits)

definition authorised :: "site \<Rightarrow> authenticated_principal option \<Rightarrow> route \<Rightarrow> http_request \<Rightarrow> bool" where
  "authorised si who r q \<longleftrightarrow> (\<exists>p. who = Some p \<and>
     (hs_csrf_required (si_settings si) \<and> (\<forall>i. r \<noteq> Download_Artifact i) \<longrightarrow>
        same_site (si_lib si) (si_settings si) (pr_csrf_token p) q))"

lemma guarded_run:
  assumes "\<And>p. g = Inr p \<Longrightarrow> who = Some p"
  shows "authorised si who r q \<or> (\<exists>e. bindE (fromE g)
      (\<lambda>p. bindE (fromE (enforce_csrf (si_lib si) (si_settings si) who q)) (k p)) w = (Inl e, w))"
proof (cases g)
  case (Inr p)
  show ?thesis
  proof (cases "enforce_csrf (si_lib si) (si_settings si) who q")
    case (Inl e)
    then show ?thesis using Inr by (simp add: bind_from guard_refuses)
  next
    case csrf: (Inr c)
    then have "hs_csrf_required (si_settings si) \<Longrightarrow> same_site (si_lib si) (si_settings si) (pr_csrf_token p) q"
      using csrf_passes [OF csrf] assms [OF Inr] by blast
    with assms [OF Inr] show ?thesis by (simp add: authorised_def)
  qed
qed (simp add: guard_refuses)

lemma handle_guarded:
  assumes "r \<noteq> Login"
  shows "authorised si who r q \<or> (\<exists>e. handle si who r q w = (Inl e, w))"
proof (cases r)
  case (Create_Scan filename)
  then show ?thesis by (simp only: handle.simps create_scan_def) (rule guarded_run, erule capability_passes)
next
  case (Sanitize_Scan scan_id)
  then show ?thesis by (simp only: handle.simps sanitize_scan_def Let_def) (rule guarded_run, erule capability_passes)
next
  case (Download_Artifact i)
  show ?thesis
  proof (cases "require_capability ARTIFACT_READ who")
    case (Inl e)
    with Download_Artifact show ?thesis by (simp add: download_artifact_def guard_refuses)
  next
    case (Inr p)
    with capability_passes [OF Inr] Download_Artifact show ?thesis by (simp add: authorised_def)
  qed
next
  case Logout
  then show ?thesis by (simp only: handle.simps logout_session_def) (rule guarded_run, erule authenticated_passes)
qed (use assms in simp)

lemma serve_split:
  assumes "serve si r q w = (resp, w')"
  obtains (refused) "w' = w" "snd resp = Nothing_Delivered"
  | (nobody) e where "session_principal si q w = (Inl e, w')" "snd resp = Nothing_Delivered"
  | (handled) who v where "session_principal si q w = (Inr who, v)" "snd (handle si who r q v) = w'"
      "resp = (case fst (handle si who r q v) of Inl e \<Rightarrow> (status_of e, Nothing_Delivered) | Inr x \<Rightarrow> x)"
proof (cases "checked_host si q")
  case (Inl e)
  then show ?thesis using assms refused by (auto simp: serve_def guard_refuses)
next
  case (Inr allowed)
  show ?thesis
  proof (cases allowed)
    case False
    then show ?thesis using assms refused Inr by (auto simp: serve_def bind_from return_run)
  next
    case True
    obtain x v where p: "session_principal si q w = (x, v)" by fastforce
    have s: "(case bindE (session_principal si q) (\<lambda>who. handle si who r q) w of
        (Inl e, w') \<Rightarrow> ((status_of e, Nothing_Delivered), w') | (Inr x, w') \<Rightarrow> (x, w')) = (resp, w')"
      using assms Inr True by (simp add: serve_def bind_from)
    show ?thesis
    proof (cases x)
      case (Inl e)
      then show ?thesis using nobody s p by (auto simp: bindE_def)
    next
      case (Inr who)
      then have "bindE (session_principal si q) (\<lambda>who. handle si who r q) w = handle si who r q v"
        using p by (simp add: bindE_def)
      with s show ?thesis using handled [of who v] p Inr by (cases "handle si who r q v") (auto split: sum.splits)
    qed
  qed
qed

lemma session_principal_live:
  assumes "session_principal si q w = (Inr (Some p), v)"
  obtains u where "authenticate (si_auth_env si) (si_auth_settings si) (hq_cookie q) (ap_auth w) = (Inr (Some p), u)"
  using assms
  by (auto simp: session_principal_def excepting_def catchE_def on_auth_def returnE_def
      split: if_splits prod.splits sum.splits option.splits http_exn.splits)

text \<open>C7. Nothing happens for a stranger: apart from a login, a request that delivers anything or leaves any
  trace beyond the check of its session comes with the token of a stored session that is live and
  whose operator is active; and where the configuration requires it, a request to change something
  comes from the configured origin and repeats the CSRF token of that very session.\<close>

theorem effects_are_authorised:
  assumes "serve si r q w = (resp, w')" "r \<noteq> Login"
    and "snd resp \<noteq> Nothing_Delivered \<or> w' \<notin> {w, snd (session_principal si q w)}"
  shows "\<exists>raw_token. \<exists>s\<in>set (aw_sessions (ap_auth w)). \<exists>op\<in>set (aw_operators (ap_auth w)).
     hq_cookie q = Some raw_token \<and> valid_token raw_token \<and>
     ss_token_hash s = ae_sha256 (si_auth_env si) raw_token \<and> ss_revoked_at s = None \<and>
     env_clock (ae_env (si_auth_env si)) (w_tick (aw_world (ap_auth w))) < ss_expires_at s \<and>
     ss_user_id s = op_id op \<and> op_is_active op \<and>
     (hs_csrf_required (si_settings si) \<and> (\<forall>i. r \<noteq> Download_Artifact i) \<longrightarrow>
        same_site (si_lib si) (si_settings si) (ae_hmac (si_auth_env si) raw_token) q)"
  using assms(1)
proof (cases rule: serve_split)
  case (handled who v)
  have "authorised si who r q"
    using handle_guarded [OF assms(2), of si who q v] handled assms(3) by auto
  then obtain p where p: "who = Some p" "hs_csrf_required (si_settings si) \<and> (\<forall>i. r \<noteq> Download_Artifact i) \<longrightarrow>
      same_site (si_lib si) (si_settings si) (pr_csrf_token p) q" by (auto simp: authorised_def)
  with handled(1) obtain y where
    "authenticate (si_auth_env si) (si_auth_settings si) (hq_cookie q) (ap_auth w) = (Inr (Some p), y)"
    by (auto elim: session_principal_live)
  from authenticated_session [OF this] p(2) show ?thesis unfolding Let_def by metis
qed (use assms(3) in simp_all)

section \<open>The database under requests\<close>

definition auth_db_ok :: "auth_world \<Rightarrow> bool" where
  "auth_db_ok w \<longleftrightarrow> db_ok (w_db (aw_world w))"

definition api_db_ok :: "api_world \<Rightarrow> bool" where
  "api_db_ok w \<longleftrightarrow> auth_db_ok (ap_auth w)"

lemma on_world_db: "keeps (\<lambda>w. db_ok (w_db w)) m \<Longrightarrow> keeps auth_db_ok (on_world m)"
  by (auto simp: keeps_def on_world_def auth_db_ok_def split: prod.split)

lemma on_auth_db: "keeps auth_db_ok m \<Longrightarrow> keeps api_db_ok (on_auth m)"
  by (auto simp: keeps_def on_auth_def api_db_ok_def split: prod.split sum.split)

lemma auth_transaction_db:
  assumes "keeps (\<lambda>d. db_ok (ab_db d)) m"
  shows "keeps auth_db_ok (auth_transaction env m)"
  unfolding keeps_def
proof (intro allI impI)
  fix w assume "auth_db_ok w"
  then have "db_ok (ab_db (snd (m (joined_db w))))"
    using keepsD [OF assms, of "joined_db w"] by (simp add: auth_db_ok_def joined_db_def)
  with \<open>auth_db_ok w\<close> show "auth_db_ok (snd (auth_transaction env m w))"
    by (auto simp: auth_transaction_def auth_db_ok_def committed_def Let_def split: prod.split sum.split)
qed

lemma auth_calls_db [keeps_intro]:
  "keeps auth_db_ok (auth_tick f)" "keeps auth_db_ok (on_world (new_id env))" "keeps auth_db_ok (on_world (now env))"
  "keeps auth_db_ok (on_world (audit_append env a))" "keeps auth_db_ok (auth_query env g)"
  "keeps auth_db_ok (limiter_check ae st b c)" "keeps auth_db_ok (limiter_failure ae b c)" "keeps auth_db_ok (limiter_clear ae c)"
proof -
  show "keeps auth_db_ok (on_world (new_id env))" "keeps auth_db_ok (on_world (now env))"
    "keeps auth_db_ok (on_world (audit_append env a))"
    by (intro on_world_db keeps_new_id keeps_now append_db_ok; simp)+
  show "keeps auth_db_ok (auth_tick f)" by (simp add: keeps_def auth_tick_run auth_db_ok_def)
  show "keeps auth_db_ok (auth_query env g)" by (simp add: keeps_def auth_query_def Let_def auth_db_ok_def)
  show "keeps auth_db_ok (limiter_check ae st b c)"
    by (auto simp: keeps_def limiter_check_def bindE_def auth_tick_run auth_db_ok_def split: prod.split)
  show "keeps auth_db_ok (limiter_failure ae b c)" "keeps auth_db_ok (limiter_clear ae c)"
    by (auto simp: keeps_def limiter_failure_def limiter_clear_def bindE_def auth_tick_run modifyE_def auth_db_ok_def)
qed

text \<open>Sessions and operators are other tables; the one event of a login keeps the database in order.\<close>

lemma session_steps_db [keeps_intro]:
  "keeps (\<lambda>d. db_ok (ab_db d)) (update_session i f)" "keeps (\<lambda>d. db_ok (ab_db d)) (update_operator i g)"
  "keeps (\<lambda>d. db_ok (ab_db d)) (insert_session r)" "keeps (\<lambda>d. db_ok (ab_db d)) (on_db (add_to_transaction e t a))"
proof -
  show "keeps (\<lambda>d. db_ok (ab_db d)) (on_db (add_to_transaction e t a))"
    using update_event_ok [of e t a] by (auto simp: keeps_def on_db_def split: prod.split)
  show "keeps (\<lambda>d. db_ok (ab_db d)) (insert_session r)"
    unfolding insert_session_def by (intro keeps_intro keeps_modify) simp
qed (simp_all add: keeps_def)

lemma session_bodies_db:
  "keeps (\<lambda>d. db_ok (ab_db d)) (check_session ae st raw_token t)"
  "keeps (\<lambda>d. db_ok (ab_db d)) (revoke_session ae raw_token t a)"
  "keeps (\<lambda>d. db_ok (ab_db d)) (open_session ae st i p previous raw_token t s e ea nh)"
proof -
  show "keeps (\<lambda>d. db_ok (ab_db d)) (check_session ae st raw_token t)"
    unfolding check_session_def Let_def by (auto intro!: keeps_intro split: option.split prod.split)
  show "keeps (\<lambda>d. db_ok (ab_db d)) (revoke_session ae raw_token t a)"
    unfolding revoke_session_def by (auto intro!: keeps_intro split: option.split)
  have "keeps (\<lambda>d. db_ok (ab_db d)) (revoke_previous ae t previous)"
    unfolding revoke_previous_def by (auto intro!: keeps_intro split: option.split)
  then show "keeps (\<lambda>d. db_ok (ab_db d)) (open_session ae st i p previous raw_token t s e ea nh)"
    unfolding open_session_def refresh_hash_def by (auto intro!: keeps_intro split: option.split)
qed

lemma auth_operations_db [keeps_intro]:
  "keeps auth_db_ok (authenticate ae st supplied)" "keeps auth_db_ok (logout ae supplied who)"
  "keeps auth_db_ok (login ae st name p a previous)"
proof -
  have guard: "keeps auth_db_ok (catchE m guard_auth)" if "keeps auth_db_ok m" for m :: "(auth_world, exn, 'a) prog"
    by (rule keeps_catch [OF that]) (auto simp: guard_auth_def intro: keeps_intro split: if_splits)
  have audit: "keeps auth_db_ok (catchE (on_world (audit_append env x)) (\<lambda>e. if e = AuditPersistenceError then Some (returnE ()) else None))"
    for env x by (rule keeps_catch [OF auth_calls_db(4)]) (auto intro: keeps_intro split: if_splits)
  show "keeps auth_db_ok (authenticate ae st supplied)"
    unfolding authenticate_def
    by (auto intro!: keeps_intro auth_transaction_db session_bodies_db split: option.split if_splits)
  show "keeps auth_db_ok (logout ae supplied who)"
    unfolding logout_def by (auto intro!: keeps_intro guard auth_transaction_db session_bodies_db audit split: option.split)
  have start: "keeps auth_db_ok (start_session ae st op c p previous)" for op c
    unfolding start_session_def by (auto intro!: keeps_intro guard auth_transaction_db session_bodies_db)
  have failed: "keeps auth_db_ok (record_failed_login ae r)" for r unfolding record_failed_login_def by (rule audit)
  then have "keeps auth_db_ok (reject_credentials ae b c)" for b c
    unfolding reject_credentials_def by (auto intro!: keeps_intro)
  with start have "keeps auth_db_ok (finish_login ae st c p b previous candidate)" for b c candidate
    unfolding finish_login_def by (auto intro!: keeps_intro split: option.split)
  moreover have "keeps auth_db_ok (find_login ae v c)" for v c
    unfolding find_login_def by (auto intro!: keeps_intro guard)
  ultimately show "keeps auth_db_ok (login ae st name p a previous)"
    unfolding login_def Let_def using failed by (auto intro!: keeps_intro split: prod.split)
qed

lemma store_operations_db:
  "keeps (\<lambda>w. db_ok (w_db w)) (stream_document_to_quarantine env m items)"
  "keeps (\<lambda>w. db_ok (w_db w)) (get_scan env i)"
  "keeps (\<lambda>w. db_ok (w_db w)) (sanitize_pdf env be casefold st i)"
  "keeps (\<lambda>w. db_ok (w_db w)) (prepare env st i who)"
proof -
  show "keeps (\<lambda>w. db_ok (w_db w)) (stream_document_to_quarantine env m items)"
    using storage_keeps_db(7) [of _ env m items] by (auto simp: keeps_def)
  show "keeps (\<lambda>w. db_ok (w_db w)) (get_scan env i)"
    unfolding get_scan_def by (intro keeps_catch query_keeps) (auto intro: keeps_intro split: if_splits)
  show "keeps (\<lambda>w. db_ok (w_db w)) (sanitize_pdf env be casefold st i)"
    unfolding keeps_triple by (rule triple_weaken [OF sanitize_pdf_triple]) (auto simp: approved_post_def)
  have calls: "keeps (\<lambda>w. db_ok (w_db w)) (os_call env)" "keeps (\<lambda>w. db_ok (w_db w)) (resolve env a key)"
    "keeps (\<lambda>w. db_ok (w_db w)) (query env (select_joined i))" for a key
    using storage_keeps_db(8) [of _ env a key] by (auto simp: keeps_def intro: keeps_os_call [unfolded keeps_def, rule_format] query_keeps [unfolded keeps_def, rule_format])
  have deny: "keeps (\<lambda>w. db_ok (w_db w)) (deny env i who code)" for code
    unfolding deny_def by (rule keeps_catch [OF append_db_ok]) (auto intro: keeps_intro split: if_splits)
  have "keeps (\<lambda>w. db_ok (w_db w)) (read_artifact env n cs got h)" for n cs got h
    by (induction env n cs got h rule: read_artifact.induct) (auto intro!: keeps_intro keeps_os_call simp: Let_def)
  then have "keeps (\<lambda>w. db_ok (w_db w)) (open_verified_artifact env p n h b)" for p n h b
    unfolding open_verified_artifact_def by (auto intro!: keeps_intro calls split: option.split prod.split)
  with calls deny show "keeps (\<lambda>w. db_ok (w_db w)) (prepare env st i who)"
    unfolding prepare_def by (auto intro!: keeps_intro append_db_ok split: prod.split if_splits)
qed

lemma on_store_db: "keeps (\<lambda>w. db_ok (w_db w)) m \<Longrightarrow> keeps api_db_ok (on_store m)"
  unfolding on_store_def by (intro on_auth_db on_world_db)

lemma from_db [keeps_intro]: "keeps I (fromE r)"
  by (cases r) (simp_all add: fromE_def keeps_intro)

lemma api_calls_db [keeps_intro]:
  "keeps api_db_ok (enforce_operator_limit si p action limit window)"
  "keeps api_db_ok (receive_upload si q consumed)" "keeps api_db_ok (register_upload si p filename claimed document)"
proof -
  show "keeps api_db_ok (enforce_operator_limit si p action limit window)"
    unfolding enforce_operator_limit_def
    by (intro keeps_bind on_auth_db auth_calls_db) (auto simp: keeps_def api_db_ok_def split: prod.split)
  show "keeps api_db_ok (receive_upload si q consumed)"
    unfolding receive_upload_def Let_def
    by (auto intro!: keeps_intro on_store_db store_operations_db split: if_splits)
  show "keeps api_db_ok (register_upload si p filename claimed document)"
    unfolding register_upload_def Let_def by (intro keeps_intro on_store_db register_db_ok append_db_ok)
qed

lemma excepting_db [keeps_intro]: "keeps api_db_ok m \<Longrightarrow> keeps api_db_ok (excepting m h)"
  unfolding excepting_def by (rule keeps_catch) (auto intro: keeps_intro split: http_exn.splits)

lemma handle_db: "keeps api_db_ok (handle si who r q)"
proof (cases r)
  case (Create_Scan filename)
  then show ?thesis unfolding handle.simps create_scan_def
    by (auto simp: Let_def create_scan_def intro!: keeps_intro split: sum.split)
next
  case (Sanitize_Scan scan_id)
  then show ?thesis
    by (auto simp: Let_def sanitize_scan_def intro!: keeps_intro on_store_db store_operations_db append_db_ok)
next
  case (Download_Artifact i)
  then show ?thesis
    by (auto simp: download_artifact_def intro!: keeps_intro on_store_db store_operations_db)
next
  case Logout
  then show ?thesis by (auto simp: logout_session_def intro!: keeps_intro on_auth_db)
next
  case Login
  then show ?thesis by (auto simp: login_session_def Let_def intro!: keeps_intro on_auth_db)
qed

lemma serve_db: "api_db_ok w \<Longrightarrow> api_db_ok (snd (serve si r q w))"
proof -
  assume w: "api_db_ok w"
  have "keeps api_db_ok (session_principal si q)"
    unfolding session_principal_def by (auto intro!: keeps_intro on_auth_db)
  then have "keeps api_db_ok (bindE (fromE (checked_host si q)) (\<lambda>allowed. if \<not> allowed then returnE (400, Nothing_Delivered)
      else bindE (session_principal si q) (\<lambda>who. handle si who r q)))"
    by (auto intro!: keeps_intro handle_db)
  from keepsD [OF this w] show ?thesis by (auto simp: serve_def split: prod.split sum.split)
qed

section \<open>Histories\<close>

text \<open>What happens to a gateway: requests of any clients, and recoveries of its operators.\<close>

inductive gateway_history :: "site \<Rightarrow> api_world \<Rightarrow> api_world \<Rightarrow> bool" for si :: site where
  opened: "gateway_history si w w"
| requested: "gateway_history si w v \<Longrightarrow> gateway_history si w (snd (serve si r q v))"
| recovered: "gateway_history si w v \<Longrightarrow> gateway_history si w (v\<lparr>ap_auth := (ap_auth v)\<lparr>aw_world :=
    snd (inspect (ae_env (si_auth_env si)) lock listing stale_seconds b apply_changes cleanup supplied (aw_world (ap_auth v)))\<rparr>\<rparr>)"

lemma inspect_db: "keeps (\<lambda>w. db_ok (w_db w)) (inspect env lock listing stale_seconds b apply_changes cleanup supplied)"
  by (rule inspect_keeps) unfold_locales

lemma history_db: "gateway_history si w v \<Longrightarrow> api_db_ok w \<Longrightarrow> api_db_ok v"
proof (induction rule: gateway_history.induct)
  case (recovered w v lock listing stale_seconds b apply_changes cleanup supplied)
  then show ?case using keepsD [OF inspect_db] by (simp add: api_db_ok_def auth_db_ok_def)
qed (simp_all add: serve_db)

text \<open>C8. The gateway never corrupts its records: after any history of requests, valid or not, of clients
  with or without a session, and of recoveries, with whatever the worker, the disk and the database
  do meanwhile, every scan row obeys the release rule and every artifact has a valid lineage.\<close>

theorem gateway_keeps_database:
  assumes "gateway_history si w v" "db_ok (w_db (aw_world (ap_auth w)))"
  shows "db_ok (w_db (aw_world (ap_auth v)))"
  using history_db [OF assms(1)] assms(2) by (simp add: api_db_ok_def auth_db_ok_def)

section \<open>Deliveries\<close>

lemma limited_run:
  assumes "enforce_operator_limit si p action limit window w = (Inr x, v)"
  shows "w_db (aw_world (ap_auth v)) = w_db (aw_world (ap_auth w)) \<and>
    w_files (aw_world (ap_auth v)) = w_files (aw_world (ap_auth w))"
  using assms by (auto simp: enforce_operator_limit_def bindE_def on_auth_def auth_tick_run split: prod.splits if_splits)

lemma on_store_value:
  assumes "on_store m w = (Inr x, v)"
  shows "m (aw_world (ap_auth w)) = (Inr x, aw_world (ap_auth v))"
  using assms by (auto simp: on_store_def on_auth_def on_world_def split: prod.splits sum.splits)

lemma download_value:
  assumes "download_artifact si who i w = (Inr (st, Document_Delivered d), v)"
  obtains p and y :: api_world where "who = Some p" "st = 200" "w_db (aw_world (ap_auth y)) = w_db (aw_world (ap_auth w))"
    "prepare (ae_env (si_auth_env si)) (si_document_settings si) i p (aw_world (ap_auth y)) = (Inr d, aw_world (ap_auth v))"
proof -
  obtain p where p: "require_capability ARTIFACT_READ who = Inr p"
    using assms by (cases "require_capability ARTIFACT_READ who") (auto simp: download_artifact_def guard_refuses)
  from assms obtain u where "enforce_operator_limit si p ''artifact_download'' (hs_downloads_per_hour (si_settings si)) 3600 w = (Inr (), u)"
    and e: "excepting (bindE (on_store (prepare (ae_env (si_auth_env si)) (si_document_settings si) i p))
           (\<lambda>d. returnE (200, Document_Delivered d)))
         (\<lambda>e. if e = ArtifactNotFound then Some (404, Nothing_Delivered)
              else if e = ArtifactUnavailable \<or> e = ArtifactAuditUnavailable then Some (409, Nothing_Delivered) else None) u =
       (Inr (st, Document_Delivered d), v)"
    by (auto simp: download_artifact_def p bind_from raiseE_def elim!: bind_returns split: if_splits)
  from this(1) have u: "w_db (aw_world (ap_auth u)) = w_db (aw_world (ap_auth w))" by (simp add: limited_run)
  from e have s: "on_store (prepare (ae_env (si_auth_env si)) (si_document_settings si) i p) u = (Inr d, v)" "st = 200"
    by (auto simp: excepting_def catchE_def bindE_def returnE_def split: prod.splits sum.splits option.splits http_exn.splits if_splits)
  show thesis by (rule that [OF capability_passes [OF p] s(2) u on_store_value [OF s(1)]])
qed

text \<open>Only a download delivers a document.\<close>

lemma document_route:
  assumes "handle si who r q w = (Inr (st, Document_Delivered d), v)"
  obtains i where "r = Download_Artifact i" "download_artifact si who i w = (Inr (st, Document_Delivered d), v)"
proof (cases r)
  case (Create_Scan filename)
  then show ?thesis using assms
    by (auto simp: create_scan_def register_upload_def Let_def raiseE_def returnE_def elim!: bind_returns
        split: if_splits sum.splits)
next
  case (Sanitize_Scan scan_id)
  then show ?thesis using assms
    by (auto simp: sanitize_scan_def Let_def raiseE_def returnE_def elim!: bind_returns split: if_splits)
next
  case Logout
  then show ?thesis using assms by (auto simp: logout_session_def returnE_def elim!: bind_returns)
next
  case Login
  then show ?thesis using assms
    by (auto simp: login_session_def Let_def returnE_def elim!: bind_returns split: if_splits option.splits)
qed (use assms that in simp)

text \<open>C6. Nothing unapproved ever leaves the gateway: in any history of requests and recoveries, the chunks
  of a document that a response delivers are, byte for byte, the content of the private object of a stored
  artifact; this content has the hash and the size of a released derived scan whose lineage is valid;
  the request came with the token of a session that at its moment was not revoked, not expired and
  not idle for too long, of an active operator; and the download is in the audit trail under that
  operator.\<close>

theorem delivered_document_is_safe:
  assumes "gateway_history si w v" "db_ok (w_db (aw_world (ap_auth w)))"
    and "serve si r q v = ((st, Document_Delivered d), v')"
  shows "\<exists>i. r = Download_Artifact i \<and> st = 200 \<and>
     (\<exists>a\<in>set (db_artifacts (w_db (aw_world (ap_auth v')))). \<exists>source derived stored.
        af_id a = i \<and> find_scan (af_scan_id a) (w_db (aw_world (ap_auth v'))) = Some source \<and>
        find_scan (af_derived_scan_id a) (w_db (aw_world (ap_auth v'))) = Some derived \<and>
        valid_lineage a source derived \<and> released_row derived \<and>
        w_files (aw_world (ap_auth v')) (SANITIZED, af_storage_key a) = Some stored \<and>
        fl_regular stored \<and> fl_owned stored \<and> fl_mode stored = 256 \<and> fl_links stored = 1 \<and>
        concat (iter_download d) = fl_bytes stored \<and>
        env_sha256 (ae_env (si_auth_env si)) (fl_bytes stored) = sc_sha256 derived \<and>
        length (fl_bytes stored) = sc_size_bytes derived) \<and>
     (\<exists>raw_token. \<exists>s\<in>set (aw_sessions (ap_auth v)). \<exists>op\<in>set (aw_operators (ap_auth v)).
        let t = env_clock (ae_env (si_auth_env si)) (w_tick (aw_world (ap_auth v))) in
        hq_cookie q = Some raw_token \<and> ss_token_hash s = ae_sha256 (si_auth_env si) raw_token \<and>
        ss_revoked_at s = None \<and> t < ss_expires_at s \<and>
        t - ss_last_seen_at s < as_inactivity_seconds (si_auth_settings si) * 1000000 \<and>
        ss_user_id s = op_id op \<and> op_is_active op \<and> op_role op = ''OPERATOR'' \<and>
        (\<exists>ev\<in>set (db_events (w_db (aw_world (ap_auth v')))). ev_event_type ev = ARTIFACT_DOWNLOADED \<and>
           ev_artifact_id ev = Some i \<and> ev_actor_id ev = Some (op_id op)))"
  using assms(3)
proof (cases rule: serve_split)
  case (handled who y)
  have h: "handle si who r q y = (Inr (st, Document_Delivered d), v')"
    using handled(2,3) by (cases "handle si who r q y") (auto split: sum.splits)
  obtain i where i: "r = Download_Artifact i" "download_artifact si who i y = (Inr (st, Document_Delivered d), v')"
    by (rule document_route [OF h])
  obtain p and z :: api_world where p: "who = Some p" "st = 200" "w_db (aw_world (ap_auth z)) = w_db (aw_world (ap_auth y))"
    "prepare (ae_env (si_auth_env si)) (si_document_settings si) i p (aw_world (ap_auth z)) = (Inr d, aw_world (ap_auth v'))"
    by (rule download_value [OF i(2)])
  have "api_db_ok v" using history_db [OF assms(1)] assms(2) by (simp add: api_db_ok_def auth_db_ok_def)
  moreover have "keeps api_db_ok (session_principal si q)"
    unfolding session_principal_def by (auto intro!: keeps_intro on_auth_db)
  ultimately have "api_db_ok y" using keepsD handled(1) by (metis snd_conv)
  then have ok: "db_ok (w_db (aw_world (ap_auth z)))" using p(3) by (simp add: api_db_ok_def auth_db_ok_def)
  obtain n where n: "authenticate (si_auth_env si) (si_auth_settings si) (hq_cookie q) (ap_auth v) = (Inr (Some p), n)"
    using handled(1) unfolding p(1) by (rule session_principal_live)
  from download_is_approved [OF ok p(4)] obtain a source derived stored where
    "a \<in> set (db_artifacts (w_db (aw_world (ap_auth v'))))" "af_id a = i"
    "find_scan (af_scan_id a) (w_db (aw_world (ap_auth v'))) = Some source"
    "find_scan (af_derived_scan_id a) (w_db (aw_world (ap_auth v'))) = Some derived"
    "valid_lineage a source derived" "released_row derived"
    "w_files (aw_world (ap_auth v')) (SANITIZED, af_storage_key a) = Some stored"
    "fl_regular stored" "fl_owned stored" "fl_mode stored = 256" "fl_links stored = 1"
    and content: "fl_bytes stored = concat (iter_download d)"
    "env_sha256 (ae_env (si_auth_env si)) (concat (iter_download d)) = sc_sha256 derived"
    "length (concat (iter_download d)) = pd_size_bytes d" "pd_size_bytes d = sc_size_bytes derived"
    and ev: "\<exists>ev\<in>set (db_events (w_db (aw_world (ap_auth v')))). ev_event_type ev = ARTIFACT_DOWNLOADED \<and>
        ev_artifact_id ev = Some i \<and> ev_actor_id ev = Some (pr_user_id p)"
    by blast
  moreover from content have "concat (iter_download d) = fl_bytes stored"
    "env_sha256 (ae_env (si_auth_env si)) (fl_bytes stored) = sc_sha256 derived"
    "length (fl_bytes stored) = sc_size_bytes derived" by simp_all
  moreover from authenticated_session [OF n] ev have "\<exists>raw_token. \<exists>s\<in>set (aw_sessions (ap_auth v)). \<exists>op\<in>set (aw_operators (ap_auth v)).
        let t = env_clock (ae_env (si_auth_env si)) (w_tick (aw_world (ap_auth v))) in
        hq_cookie q = Some raw_token \<and> ss_token_hash s = ae_sha256 (si_auth_env si) raw_token \<and>
        ss_revoked_at s = None \<and> t < ss_expires_at s \<and>
        t - ss_last_seen_at s < as_inactivity_seconds (si_auth_settings si) * 1000000 \<and>
        ss_user_id s = op_id op \<and> op_is_active op \<and> op_role op = ''OPERATOR'' \<and>
        (\<exists>ev\<in>set (db_events (w_db (aw_world (ap_auth v')))). ev_event_type ev = ARTIFACT_DOWNLOADED \<and>
           ev_artifact_id ev = Some i \<and> ev_actor_id ev = Some (op_id op))" unfolding Let_def by metis
  ultimately show ?thesis using i(1) p(2) by blast
qed simp_all

section \<open>A sample gateway\<close>

definition sample_token :: ustring where "sample_token = replicate 43 66"

definition sample_http_lib :: http_lib where
  "sample_http_lib = \<lparr>hl_split = (\<lambda>s. Some \<lparr>up_username = None, up_password = None, up_path = [], up_hostname = Some (drop 2 s),
       up_port = Some None\<rparr>), hl_address = Some, hl_form = (\<lambda>_. None), hl_int = (\<lambda>_. None), hl_casefold = (\<lambda>s. s)\<rparr>"

definition sample_http_settings :: http_settings where
  "sample_http_settings = \<lparr>hs_production = True, hs_application_origin = [111], hs_origin_scheme = u ''https'',
     hs_origin_hostname = Some [104], hs_origin_port = None, hs_csrf_required = True, hs_require_origin_header = True,
     hs_trusted_proxies = [], hs_uploads_per_hour = 60, hs_cdr_requests_per_hour = 20, hs_downloads_per_hour = 200\<rparr>"

definition sample_site :: site where
  "sample_site = \<lparr>si_lib = sample_http_lib, si_settings = sample_http_settings, si_document_settings = sample_settings,
     si_auth_settings = sample_auth_settings, si_auth_env = sample_auth_env, si_backend = sample_backend,
     si_nfc = (\<lambda>s. s)\<rparr>"

definition sample_http :: http_request where
  "sample_http = \<lparr>hq_client = None, hq_headers = [(''host'', [104]), (''origin'', [111]), (''x-csrf-token'', sample_token)],
     hq_cookie = Some sample_token, hq_path = [], hq_items = []\<rparr>"

definition sample_gateway :: "world \<Rightarrow> api_world" where
  "sample_gateway w = \<lparr>ap_auth = sample_auth_world\<lparr>aw_world := w\<rparr>, ap_buckets = []\<rparr>"

definition sample_principal :: authenticated_principal where
  "sample_principal = \<lparr>pr_user_id = ''1'', pr_username = [97], pr_role = OPERATOR_ROLE, pr_session_id = ''2'',
     pr_csrf_token = sample_token\<rparr>"

lemma sample_host: "checked_host sample_site sample_http = Inr True"
  by (simp add: checked_host_def sample_site_def sample_http_def header_values_def host_is_allowed_def sample_http_lib_def
      sample_http_settings_def compare_digest_def port_matches_def)

lemma sample_guard: "enforce_csrf sample_http_lib sample_http_settings (Some sample_principal) sample_http = Inr False"
  by (simp add: enforce_csrf_def sample_http_settings_def enforce_origin_def header_value_def sample_http_def rstrip_slash_def
      compare_digest_def supplied_token_def check_token_def sample_principal_def sample_token_def MAX_CSRF_TOKEN_LENGTH_def list_all_iff)

lemma sample_authenticated:
  assumes "w_tick w = 0"
  shows "authenticate sample_auth_env sample_auth_settings (Some sample_token) (sample_auth_world\<lparr>aw_world := w\<rparr>) =
    (Inr (Some sample_principal), sample_auth_world\<lparr>aw_world := w\<lparr>w_tick := 2\<rparr>\<rparr>)"
  using assms
  by (simp add: authenticate_def sample_token_def valid_token_def list_all_iff on_world_def now_run sample_auth_env_def quiet_env_def
      bindE_def catchE_def auth_transaction_def check_session_def Let_def getE_def joined_session_def find_session_def
      operator_of_def lookup_row_def joined_db_def sample_auth_world_def sample_session_def sample_user_def
      session_invalid_def sample_auth_settings_def returnE_def committed_def sample_principal_def)

lemma sample_session_principal:
  assumes "w_tick w = 0"
  shows "session_principal sample_site sample_http (sample_gateway w) =
    (Inr (Some sample_principal), sample_gateway (w\<lparr>w_tick := 2\<rparr>))"
  using sample_authenticated [OF assms]
  by (simp add: session_principal_def sample_http_def starts_with_def u_def excepting_def catchE_def on_auth_def
      sample_site_def sample_gateway_def)

lemma sample_download_served:
  "\<exists>d v. serve sample_site (Download_Artifact artifact_key) sample_http (sample_gateway approved_world) =
     ((200, Document_Delivered d), v)"
proof -
  let ?w = "approved_world\<lparr>w_tick := 3\<rparr>"
  obtain buckets where l: "enforce_operator_limit sample_site sample_principal ''artifact_download'' 200 3600
      (sample_gateway (approved_world\<lparr>w_tick := 2\<rparr>)) = (Inr (), (sample_gateway ?w)\<lparr>ap_buckets := buckets\<rparr>)"
    by (auto simp: enforce_operator_limit_def bindE_def on_auth_def auth_tick_run sample_gateway_def consume_def Let_def
        lookup_events_def consume_bucket_def expire_def MAX_BUCKETS_def sample_auth_world_def split: option.splits)
  obtain d y where p: "prepare quiet_env sample_settings artifact_key sample_principal ?w = (Inr d, y)"
    using sample_prepared by blast
  have t: "w_tick approved_world = 0" by (simp add: approved_world_def)
  have c: "require_capability ARTIFACT_READ (Some sample_principal) = Inr sample_principal"
    by (simp add: require_capability_def)
  have s: "si_settings sample_site = sample_http_settings" "hs_downloads_per_hour sample_http_settings = 200"
    "si_document_settings sample_site = sample_settings" "ae_env (si_auth_env sample_site) = quiet_env"
    by (simp_all add: sample_site_def sample_http_settings_def sample_auth_env_def)
  have x: "excepting (bindE (on_store (prepare quiet_env sample_settings artifact_key sample_principal))
      (\<lambda>d. returnE (200, Document_Delivered d))) f ((sample_gateway ?w)\<lparr>ap_buckets := buckets\<rparr>) =
      (Inr (200, Document_Delivered d), (sample_gateway y)\<lparr>ap_buckets := buckets\<rparr>)" for f
    by (simp add: excepting_def catchE_def bindE_def on_store_def on_auth_def on_world_def sample_gateway_def p returnE_def)
  have h: "hex_digits 32 artifact_key" using sample_ids by simp
  have "handle sample_site (Some sample_principal) (Download_Artifact artifact_key) sample_http
      (sample_gateway (approved_world\<lparr>w_tick := 2\<rparr>)) = (Inr (200, Document_Delivered d),
        (sample_gateway y)\<lparr>ap_buckets := buckets\<rparr>)"
    by (simp only: handle.simps download_artifact_def c bind_from s h simp_thms if_False)
      (simp only: bindE_def l x prod.case sum.case)
  then show ?thesis
    by (simp add: serve_def sample_host bind_from) (simp add: bindE_def sample_session_principal [OF t])
qed

lemma sample_logout:
  "\<exists>v. serve sample_site Logout sample_http (sample_gateway empty_world) = ((303, Session_Closed), v)"
proof -
  let ?w = "sample_auth_world\<lparr>aw_world := empty_world\<lparr>w_tick := 2\<rparr>\<rparr>"
  have t: "w_tick empty_world = 0" by (simp add: empty_world_def)
  have s: "si_auth_env sample_site = sample_auth_env" "hq_cookie sample_http = Some (replicate 43 66)"
    "si_lib sample_site = sample_http_lib" "si_settings sample_site = sample_http_settings"
    by (simp_all add: sample_site_def sample_http_def sample_token_def)
  have "value_where (\<lambda>_. True) (logout sample_auth_env (Some (replicate 43 66)) (Some sample_principal) ?w)"
    by code_simp
  from value_where_run [OF this] obtain y where
    l: "logout sample_auth_env (Some (replicate 43 66)) (Some sample_principal) ?w = (Inr (), y)" by auto
  have "handle sample_site (Some sample_principal) Logout sample_http (sample_gateway (empty_world\<lparr>w_tick := 2\<rparr>)) =
      (Inr (303, Session_Closed), (sample_gateway empty_world)\<lparr>ap_auth := y\<rparr>)"
    by (simp add: logout_session_def require_html_authenticated_def bind_from s sample_guard)
      (simp add: bindE_def on_auth_def sample_gateway_def l returnE_def)
  then show ?thesis
    by (simp add: serve_def sample_host bind_from) (simp add: bindE_def sample_session_principal [OF t])
qed

lemma effects_are_authorised_witness:
  "\<exists>v. serve sample_site Logout sample_http (sample_gateway empty_world) = ((303, Session_Closed), v) \<and>
     same_site sample_http_lib sample_http_settings (ae_hmac sample_auth_env sample_token) sample_http"
proof -
  obtain v where s: "serve sample_site Logout sample_http (sample_gateway empty_world) = ((303, Session_Closed), v)"
    using sample_logout by blast
  have c: "hs_csrf_required (si_settings sample_site)" "hq_cookie sample_http = Some sample_token"
    "si_lib sample_site = sample_http_lib" "si_settings sample_site = sample_http_settings"
    "si_auth_env sample_site = sample_auth_env"
    by (simp_all add: sample_site_def sample_http_settings_def sample_http_def)
  from effects_are_authorised [OF s] c s show ?thesis by auto
qed

lemma gateway_keeps_database_witness:
  "db_ok (w_db (aw_world (ap_auth (snd (serve sample_site (Download_Artifact artifact_key) sample_http
     (sample_gateway approved_world))))))"
  by (rule gateway_keeps_database [OF gateway_history.requested [OF gateway_history.opened]])
    (simp add: sample_gateway_def approved_world_ok)

lemma delivered_document_is_safe_witness:
  "\<exists>d v. serve sample_site (Download_Artifact artifact_key) sample_http (sample_gateway approved_world) =
     ((200, Document_Delivered d), v) \<and>
     (\<exists>a\<in>set (db_artifacts (w_db (aw_world (ap_auth v)))). \<exists>stored. af_id a = artifact_key \<and>
        w_files (aw_world (ap_auth v)) (SANITIZED, af_storage_key a) = Some stored \<and>
        concat (iter_download d) = fl_bytes stored)"
proof -
  obtain d v where s: "serve sample_site (Download_Artifact artifact_key) sample_http (sample_gateway approved_world) =
     ((200, Document_Delivered d), v)" using sample_download_served by blast
  have "db_ok (w_db (aw_world (ap_auth (sample_gateway approved_world))))"
    by (simp add: sample_gateway_def approved_world_ok)
  from delivered_document_is_safe [OF gateway_history.opened this s] s show ?thesis by auto
qed

end
