(* ===== verification/Operator_Queries.thy ===== *)
theory Operator_Queries
  imports Auth "HOL-Library.Product_Lexorder"
begin

text \<open>
  The bounded queries of the operator pages, \<open>app/operator/service.py\<close>. A query reads one state of
  the database; rows are ordered by creation time and identifier, newest first.
\<close>

section \<open>Pages\<close>

definition MAX_LIST_PAGE_SIZE :: int where "MAX_LIST_PAGE_SIZE = 100"

datatype query_error = Page_Out_Of_Bounds | Operator_Query_Error

record 'a page_of =
  pp_items :: "'a list"
  pp_page :: int
  pp_page_size :: int
  pp_total :: nat

definition validated_page :: "int \<Rightarrow> int \<Rightarrow> bool" where
  "validated_page page page_size \<longleftrightarrow> \<not> (page < 1 \<or> \<not> (1 \<le> page_size \<and> page_size \<le> MAX_LIST_PAGE_SIZE))"

text \<open>\<open>ORDER BY created_at DESC, id DESC\<close>, and \<open>OFFSET\<close> with \<open>LIMIT\<close>.\<close>

definition newest :: "('r \<Rightarrow> instant) \<Rightarrow> ('r \<Rightarrow> string) \<Rightarrow> 'r list \<Rightarrow> 'r list" where
  "newest created key rows = rev (sort_key (\<lambda>r. (created r, key r)) rows)"

definition page_slice :: "int \<Rightarrow> int \<Rightarrow> 'r list \<Rightarrow> 'r list" where
  "page_slice page page_size rows = take (nat page_size) (drop (nat ((page - 1) * page_size)) rows)"

definition paged :: "int \<Rightarrow> int \<Rightarrow> 'r list \<Rightarrow> 'r page_of" where
  "paged page page_size rows = \<lparr>pp_items = page_slice page page_size rows, pp_page = page,
     pp_page_size = page_size, pp_total = length rows\<rparr>"

text \<open>A session that only reads; its failures are reported as one error.\<close>

definition queried :: "env \<Rightarrow> (auth_db \<Rightarrow> 'a) \<Rightarrow> (auth_world, query_error, 'a) prog" where
  "queried env f w = (case auth_query env f w of
     (Inl _, w') \<Rightarrow> (Inl Operator_Query_Error, w') | (Inr x, w') \<Rightarrow> (Inr x, w'))"

definition query_page :: "env \<Rightarrow> int \<Rightarrow> int \<Rightarrow> (auth_db \<Rightarrow> 'r list) \<Rightarrow> (auth_world, query_error, 'r page_of) prog" where
  "query_page env page page_size rows =
     (if \<not> validated_page page page_size then raiseE Page_Out_Of_Bounds
      else queried env (\<lambda>d. paged page page_size (rows d)))"

section \<open>The queries\<close>

definition contained_decision :: "decision option \<Rightarrow> bool" where
  "contained_decision v \<longleftrightarrow> v \<in> {Some REVIEW, Some QUARANTINE, Some BLOCK}"

definition scan_matches :: "decision option \<Rightarrow> scan_state option \<Rightarrow> string option \<Rightarrow> bool \<Rightarrow> scan \<Rightarrow> bool" where
  "scan_matches decision st detected_type contained_only s \<longleftrightarrow>
     (if contained_only then contained_decision (sc_decision s) else decision = None \<or> sc_decision s = decision) \<and>
     (st = None \<or> Some (sc_state s) = st) \<and> (detected_type = None \<or> sc_detected_type s = detected_type)"

definition newest_scans :: "(scan \<Rightarrow> bool) \<Rightarrow> auth_db \<Rightarrow> scan list" where
  "newest_scans P d = newest sc_created_at sc_id (filter P (db_scans (ab_db d)))"

definition list_scans ::
  "env \<Rightarrow> int \<Rightarrow> int \<Rightarrow> decision option \<Rightarrow> scan_state option \<Rightarrow> string option \<Rightarrow> bool \<Rightarrow>
     (auth_world, query_error, scan page_of) prog" where
  "list_scans env page page_size decision st detected_type contained_only =
     query_page env page page_size (newest_scans (scan_matches decision st detected_type contained_only))"

definition approved_artifact :: "auth_db \<Rightarrow> artifact \<Rightarrow> bool" where
  "approved_artifact d a \<longleftrightarrow> (case find_scan (af_derived_scan_id a) (ab_db d) of None \<Rightarrow> False
     | Some derived \<Rightarrow> af_artifact_type a = PDF_CDR \<and> sc_decision derived = Some ALLOW \<and> sc_release_eligible derived)"

definition approved_artifacts :: "auth_db \<Rightarrow> artifact list" where
  "approved_artifacts d = filter (approved_artifact d) (db_artifacts (ab_db d))"

definition list_artifacts :: "env \<Rightarrow> int \<Rightarrow> int \<Rightarrow> (auth_world, query_error, artifact page_of) prog" where
  "list_artifacts env page page_size =
     query_page env page page_size (\<lambda>d. newest af_created_at af_id (approved_artifacts d))"

definition get_artifact :: "env \<Rightarrow> string \<Rightarrow> (auth_world, query_error, artifact option) prog" where
  "get_artifact env artifact_id = queried env (\<lambda>d. find (\<lambda>a. af_id a = artifact_id) (approved_artifacts d))"

text \<open>An event with the name of its actor, an outer join.\<close>

definition audit_row :: "auth_db \<Rightarrow> audit_event \<Rightarrow> audit_event \<times> ustring option" where
  "audit_row d e = (e, case ev_actor_id e of None \<Rightarrow> None
     | Some i \<Rightarrow> map_option op_username (find (\<lambda>r. op_id r = i) (ab_operators d)))"

definition list_audit_events ::
  "env \<Rightarrow> int \<Rightarrow> int \<Rightarrow> (auth_world, query_error, (audit_event \<times> ustring option) page_of) prog" where
  "list_audit_events env page page_size =
     query_page env page page_size (\<lambda>d. map (audit_row d) (newest ev_created_at ev_id (db_events (ab_db d))))"

record dashboard_data =
  dd_decision_counts :: "(decision \<times> nat) list"
  dd_recent_scans :: "scan list"
  dd_contained_scans :: "scan list"
  dd_approved_artifact_count :: nat

text \<open>\<open>GROUP BY decision\<close>: one group for each decision that occurs.\<close>

definition decision_counts :: "scan list \<Rightarrow> (decision \<times> nat) list" where
  "decision_counts rows = filter (\<lambda>(v, n). n \<noteq> 0)
     (map (\<lambda>v. (v, length (filter (\<lambda>s. sc_decision s = Some v) rows))) [ALLOW, REVIEW, QUARANTINE, BLOCK])"

definition dashboard :: "env \<Rightarrow> (auth_world, query_error, dashboard_data) prog" where
  "dashboard env = queried env (\<lambda>d. \<lparr>dd_decision_counts = decision_counts (db_scans (ab_db d)),
     dd_recent_scans = take 5 (newest_scans (\<lambda>_. True) d),
     dd_contained_scans = take 5 (newest_scans (\<lambda>s. contained_decision (sc_decision s)) d),
     dd_approved_artifact_count = length (approved_artifacts d)\<rparr>)"

section \<open>Details of an event\<close>

definition SAFE_AUDIT_KEYS :: "string list" where
  "SAFE_AUDIT_KEYS = [''decision'', ''derived_decision'', ''derived_scan_id'', ''duration_ms'', ''output_bytes'',
     ''page_count'', ''policy_version'', ''reason_codes'', ''requested_scan_id'', ''requested_artifact_id'', ''role'',
     ''sanitizer_version'', ''source_decision'', ''source_scan_id'']"

definition safe_audit_details :: "audit_event \<Rightarrow> json_object" where
  "safe_audit_details e = filter (\<lambda>(k, v). k \<in> u ` set SAFE_AUDIT_KEYS) (ev_details e)"

section \<open>Lemmas\<close>

lemma set_newest [simp]: "set (newest created key rows) = set rows"
  and length_newest [simp]: "length (newest created key rows) = length rows"
  and distinct_newest [simp]: "distinct (newest created key rows) = distinct rows"
  by (simp_all add: newest_def)

lemma slices_take: "concat (map (\<lambda>k. page_slice (int k) (int m) rows) [1..<Suc n]) = take (n * m) rows"
proof (induction n)
  case (Suc n)
  have "page_slice (int (Suc n)) (int m) rows = take m (drop (n * m) rows)"
    by (simp add: page_slice_def nat_mult_distrib)
  moreover have "take (Suc n * m) rows = take (n * m) rows @ take m (drop (n * m) rows)"
    using take_add [of "n * m" m rows] by (simp add: add.commute)
  ultimately show ?case using Suc by simp
qed simp

lemma query_page_run:
  assumes "\<forall>k. env_db env k = DbOk" "validated_page page page_size"
  shows "fst (query_page env page page_size rows w) = Inr (paged page page_size (rows (joined_db w)))"
  using assms by (simp add: query_page_def queried_def auth_query_def Let_def)

lemma artifacts_approved: "db_ok (ab_db d) \<Longrightarrow> approved_artifacts d = db_artifacts (ab_db d)"
  by (force simp: approved_artifacts_def approved_artifact_def db_ok_def artifact_ok_def valid_lineage_def
      intro!: filter_True)

lemma decision_counts_iff:
  "(v, n) \<in> set (decision_counts rows) \<longleftrightarrow> 0 < n \<and> n = length (filter (\<lambda>s. sc_decision s = Some v) rows)"
  by (cases v) (auto simp: decision_counts_def)

text \<open>C39. Paging loses and repeats nothing: in a database in order, going through the pages of any
  permitted size delivers every artifact exactly once, newest first, and every artifact delivered
  comes from a released derived scan with a valid lineage.\<close>

theorem artifact_pages_cover:
  assumes "db_ok (w_db (aw_world w))" "\<forall>k. env_db env k = DbOk"
    and "1 \<le> m" "int m \<le> MAX_LIST_PAGE_SIZE" "length (db_artifacts (w_db (aw_world w))) \<le> n * m"
  shows "\<exists>pages. map (\<lambda>k. fst (list_artifacts env (int k) (int m) w)) [1..<Suc n] = map Inr pages \<and>
    concat (map pp_items pages) = newest af_created_at af_id (db_artifacts (w_db (aw_world w))) \<and>
    distinct (concat (map pp_items pages)) \<and>
    (\<forall>p\<in>set pages. pp_total p = length (db_artifacts (w_db (aw_world w))) \<and>
       (\<forall>a\<in>set (pp_items p). artifact_ok (w_db (aw_world w)) a))"
proof -
  let ?rows = "newest af_created_at af_id (db_artifacts (w_db (aw_world w)))"
  let ?pages = "map (\<lambda>k. paged (int k) (int m) ?rows) [1..<Suc n]"
  have d: "ab_db (joined_db w) = w_db (aw_world w)" by (simp add: joined_db_def)
  have "fst (list_artifacts env (int k) (int m) w) = Inr (paged (int k) (int m) ?rows)" if "k \<in> set [1..<Suc n]" for k
  proof -
    have "1 \<le> k" using that by (auto split: if_splits)
    then have "validated_page (int k) (int m)" using assms(3,4) by (simp add: validated_page_def)
    from query_page_run [OF assms(2) this, of "\<lambda>d. newest af_created_at af_id (approved_artifacts d)" w]
    show ?thesis using artifacts_approved [of "joined_db w"] assms(1) by (simp add: list_artifacts_def d)
  qed
  then have "map (\<lambda>k. fst (list_artifacts env (int k) (int m) w)) [1..<Suc n] = map Inr ?pages" by simp
  moreover have c: "concat (map pp_items ?pages) = ?rows"
    using slices_take [of m ?rows n] assms(5) by (simp add: paged_def comp_def)
  moreover have "distinct ?rows" using db_ok_schema [OF assms(1)] by (simp add: schema_ok_def distinct_map)
  moreover have "\<forall>p\<in>set ?pages. pp_total p = length (db_artifacts (w_db (aw_world w)))" by (simp add: paged_def)
  moreover have "artifact_ok (w_db (aw_world w)) a" if "p \<in> set ?pages" "a \<in> set (pp_items p)" for p a
  proof -
    have "a \<in> set (concat (map pp_items ?pages))" using that by auto
    then show ?thesis using assms(1) by (simp only: c set_newest) (simp add: db_ok_def)
  qed
  ultimately show ?thesis by metis
qed

text \<open>The dashboard agrees with the lists behind it: its recent and its contained scans are the first
  page of five of the list of scans without and with the filter, its decision counts are the totals of
  the lists of each decision, and in a database in order it counts every artifact.\<close>

theorem dashboard_agrees:
  assumes "db_ok (w_db (aw_world w))" "\<forall>k. env_db env k = DbOk" "fst (dashboard env w) = Inr d"
  shows "map_sum id pp_items (fst (list_scans env 1 5 None None None False w)) = Inr (dd_recent_scans d) \<and>
    map_sum id pp_items (fst (list_scans env 1 5 None None None True w)) = Inr (dd_contained_scans d) \<and>
    (\<forall>v n. (v, n) \<in> set (dd_decision_counts d) \<longleftrightarrow>
       0 < n \<and> map_sum id pp_total (fst (list_scans env 1 5 (Some v) None None False w)) = Inr n) \<and>
    dd_approved_artifact_count d = length (db_artifacts (w_db (aw_world w)))"
proof -
  have v: "validated_page 1 5" by (simp add: validated_page_def MAX_LIST_PAGE_SIZE_def)
  have b: "ab_db (joined_db w) = w_db (aw_world w)" by (simp add: joined_db_def)
  note run = query_page_run [OF assms(2) v]
  have d: "d = \<lparr>dd_decision_counts = decision_counts (db_scans (w_db (aw_world w))),
     dd_recent_scans = take 5 (newest_scans (\<lambda>_. True) (joined_db w)),
     dd_contained_scans = take 5 (newest_scans (\<lambda>s. contained_decision (sc_decision s)) (joined_db w)),
     dd_approved_artifact_count = length (approved_artifacts (joined_db w))\<rparr>"
    using assms(2,3) by (simp add: dashboard_def queried_def auth_query_def Let_def b)
  have "(v, n) \<in> set (dd_decision_counts d) \<longleftrightarrow>
      0 < n \<and> map_sum id pp_total (fst (list_scans env 1 5 (Some v) None None False w)) = Inr n" for v n
  proof -
    have "map_sum id pp_total (fst (list_scans env 1 5 (Some v) None None False w)) =
        Inr (length (filter (\<lambda>s. sc_decision s = Some v) (db_scans (w_db (aw_world w)))))"
      by (simp add: list_scans_def run paged_def newest_scans_def scan_matches_def [abs_def] b)
    then show ?thesis by (auto simp: d decision_counts_iff)
  qed
  moreover have "dd_approved_artifact_count d = length (db_artifacts (w_db (aw_world w)))"
    using artifacts_approved [of "joined_db w"] assms(1) by (simp add: d b)
  ultimately show ?thesis
    by (simp add: d list_scans_def run paged_def page_slice_def scan_matches_def [abs_def])
qed

section \<open>Witnesses\<close>

definition listed_world :: auth_world where
  "listed_world = \<lparr>aw_world = approved_world, aw_operators = [], aw_sessions = [], aw_attempts = []\<rparr>"

lemma listed_world_facts:
  "db_ok (w_db (aw_world listed_world))" "\<forall>k. env_db quiet_env k = DbOk"
  "db_artifacts (w_db (aw_world listed_world)) = [sample_artifact]"
  using approved_world_ok by (simp_all add: listed_world_def quiet_env_def approved_world_def)

theorem artifact_pages_cover_witness:
  "\<exists>p. fst (list_artifacts quiet_env 1 1 listed_world) = Inr p \<and> pp_items p = [sample_artifact] \<and> pp_total p = 1"
proof -
  have "newest af_created_at af_id [sample_artifact] = [sample_artifact]" by (simp add: newest_def)
  then show ?thesis
    using artifact_pages_cover [of listed_world quiet_env 1 1] listed_world_facts
    by (auto simp: MAX_LIST_PAGE_SIZE_def map_eq_Cons_conv)
qed

theorem dashboard_agrees_witness:
  "\<exists>d. fst (dashboard quiet_env listed_world) = Inr d \<and> dd_approved_artifact_count d = 1"
proof -
  obtain d where d: "fst (dashboard quiet_env listed_world) = Inr d"
    using listed_world_facts(2) by (simp add: dashboard_def queried_def auth_query_def Let_def)
  from dashboard_agrees [OF listed_world_facts(1,2) this] have "dd_approved_artifact_count d = 1"
    using listed_world_facts(3) by simp
  with d show ?thesis by blast
qed

end
