(* ===== verification/Spec2Isabelle.thy ===== *)
theory Spec2Isabelle
  imports Storage_Integrity Auth_Properties Archive_Results Yara_Results Pdf_Recursion Pdf_Fallback Worker_Results
    Worker_Cdr_Results Http_Results Operator_Queries
begin

text \<open>
  A verification library for DocGuard, a fail-closed document gateway. An upload is stored privately,
  analysed by a worker that handles hostile bytes and is not trusted, judged by a deterministic
  policy, and perhaps rebuilt (content disarm and reconstruction, CDR) before an operator may
  download the result. All paths below are relative to \<open>src/\<close>.

  \<^bold>\<open>The life of a document.\<close> \<open>stream_document_to_quarantine\<close> (\<open>Storage\<close>) writes the object;
  \<open>register_and_analyze\<close> (\<open>Scan_Service\<close>) stores a row, has it analysed by the orchestrator and stores
  the verdict; the orchestrator (\<open>Orchestrator\<close>) sends a request to the worker and accepts its answer
  only when it satisfies the contract of \<open>Domain\<close>; the worker (\<open>Worker_Main\<close>) identifies the sample, runs
  the analyzers of its family and YARA and prints one report; \<open>evaluate_policy\<close> (\<open>Policy_Engine\<close>) turns
  the report into a verdict. \<open>sanitize_pdf\<close> (\<open>Cdr\<close>) has a document rendered by the worker (\<open>Worker_Cdr\<close>),
  re-analyses the output as a derived scan and promotes it to an artifact; \<open>prepare\<close> (\<open>Artifacts\<close>)
  checks the lineage of an artifact and delivers it. \<open>Auth\<close> says who may ask for this, \<open>serve\<close> (\<open>Http_Api\<close>)
  lets a request through the guards to these operations, \<open>Operator_Queries\<close> lists rows, \<open>Reconciliation\<close>
  and \<open>Storage_Integrity\<close> repair and inspect what a crash leaves.

  \<^bold>\<open>How code is modelled.\<close> A service operation is a state-passing program that returns a value or an
  exception (\<open>Prelude\<close>: \<open>bindE\<close>, \<open>catchE\<close>, \<open>finallyE\<close>). The state of the trusted side is \<open>world\<close> (\<open>World\<close>): the
  rows of \<open>app/models/database.py\<close> and the files of the store. Transactions and calls of the operating
  system fail as an argument (\<open>env\<close>) says, each call at a tick of its own, so a theorem about an
  operation covers every combination of faults. The state of an analyzer is a record of its counters
  and its evidence (\<open>archive_state\<close>, \<open>inspection_state\<close>, \<open>ooxml_state\<close>, \<open>ole_state\<close>, \<open>cdr_state\<close>), a library
  it calls (zipfile, pikepdf, olefile, oletools, the XML parser, yara, PyMuPDF) is a record of functions
  that may return or raise anything; laws of a library are hypotheses of the theorems that need them.
  Text is a list of code points, a JSON value is \<open>json\<close> and its size is the size of the text
  \<open>json.dumps\<close> prints, byte by byte.

  \<^bold>\<open>The theories\<close>, with the code they translate:
    \<^item> \<open>Prelude\<close>, \<open>Json_Text\<close>, \<open>Json_Bounds\<close>: strings, programs with Hoare triples and the locale of
      their effects, JSON text and additive bounds of its size.
    \<^item> \<open>Contract_Findings\<close> (\<open>docguard_contract/\<close>), \<open>Domain\<close> (\<open>app/models/domain.py\<close>, \<open>worker/findings.py\<close>):
      the catalogue of findings, the YARA manifest and the validated messages.
    \<^item> \<open>Policy_Registry\<close>, \<open>Policy_Engine\<close>, \<open>Policy_Properties\<close> (\<open>app/policies/\<close>): the tables, the engine and
      its specification over sets of codes: the decision is the most restrictive floor. \<open>Policy_Json\<close>
      dumps an evaluation to the JSON of its column and parses it back as the strict model does.
    \<^item> \<open>World\<close> (\<open>app/models/database.py\<close>), \<open>Audit_Trail\<close> (\<open>app/audit/service.py\<close>), \<open>Storage\<close> (\<open>app/storage/\<close>):
      rows with their constraints, the append-only log and the private object store.
    \<^item> \<open>Orchestrator\<close>, \<open>Scan_Service\<close> (\<open>app/orchestrator/service.py\<close>, \<open>contract.py\<close>, \<open>scan_service.py\<close>): one
      analysis, and the life of a scan row.
    \<^item> \<open>Cdr_Contract\<close>, \<open>Lineage\<close>, \<open>Cdr\<close>, \<open>Cdr_Properties\<close>, \<open>Cdr_Results\<close> (\<open>app/cdr/\<close>,
      \<open>docguard_contract/cdr.py\<close>): eligibility, sanitisation, promotion and the invariant of the database.
    \<^item> \<open>Artifacts\<close> (\<open>app/artifacts/service.py\<close>), \<open>Reconciliation\<close>, \<open>Storage_Integrity\<close> (\<open>app/operations/\<close>).
    \<^item> \<open>Auth_Models\<close>, \<open>Auth\<close>, \<open>Auth_Properties\<close> (\<open>app/auth/\<close>), \<open>Rate_Limit\<close> (\<open>app/auth/rate_limit.py\<close>,
      \<open>app/core/abuse.py\<close>): sessions and throttles.
    \<^item> \<open>Http_Guards\<close> (\<open>app/core/proxy.py\<close>, \<open>app/auth/http.py\<close>), \<open>Http_Api\<close> (\<open>app/main.py\<close>, \<open>app/api/\<close>,
      \<open>app/auth/routes.py\<close>, \<open>app/core/request_limits.py\<close>), \<open>Http_Results\<close>: the gateway as one transition of its
      state for each request, and what holds after any history of requests.
    \<^item> \<open>Operator_Queries\<close> (\<open>app/operator/service.py\<close>): the bounded queries.
    \<^item> \<open>Name_Security\<close>, \<open>File_Identity\<close> (\<open>worker/analyzers/name_security.py\<close>, \<open>filename.py\<close>, \<open>file_type.py\<close>).
    \<^item> \<open>Archive\<close>, \<open>Archive_Properties\<close>, \<open>Archive_Results\<close> (\<open>worker/analyzers/archive.py\<close>): nested containers.
    \<^item> \<open>Pdf_Objects\<close>, \<open>Pdf_Analysis\<close>, \<open>Pdf_Passes\<close>, \<open>Pdf_Report\<close> (\<open>worker/analyzers/pdf.py\<close>,
      \<open>pdf_fallback.py\<close>), with \<open>Pdf_Effects\<close>, \<open>Pdf_Coverage\<close>, \<open>Pdf_Completeness\<close>, \<open>Pdf_Results\<close>,
      \<open>Pdf_Recursion\<close>, \<open>Pdf_Fallback\<close>: the walk over a possibly cyclic object graph.
    \<^item> \<open>Office_Vba\<close>, \<open>Office_Report\<close>, \<open>Ooxml\<close>, \<open>Ole_Office\<close> (\<open>worker/analyzers/vba.py\<close>, \<open>office_types.py\<close>,
      \<open>ooxml.py\<close>, \<open>ole_office.py\<close>), with \<open>Office_Effects\<close>, \<open>Vba_Results\<close>, \<open>Ole_Results\<close>, \<open>Office_Results\<close>.
    \<^item> \<open>Yara_Engine\<close>, \<open>Yara_Results\<close> (\<open>worker/yara_engine.py\<close>).
    \<^item> \<open>Worker_Main\<close>, \<open>Worker_Results\<close> (\<open>worker/main.py\<close>, \<open>worker/analyzers/office.py\<close>): the entry point, and
      the theorems that lead from the bytes of a sample to the verdict.
    \<^item> \<open>Worker_Cdr\<close>, \<open>Worker_Cdr_Results\<close> (\<open>worker/cdr.py\<close>): the renderer, and the theorems that lead from
      its pages to the judgement of the gateway.

  \<^bold>\<open>What is shown.\<close> The policy releases only what was completely analysed and found harmless, and more
  findings never relax it. Every service keeps the invariants of rows and artifacts under every fault,
  and an approved or downloaded artifact is an intact stored object with a released derived scan. A
  complete analysis hides nothing of what its theorem names: each analyzer reports these constructs
  wherever they occur, or says that it was partial, which the policy quarantines. Composed, this gives
  the end-to-end theorems of \<open>Worker_Results\<close>: active PDFs, packages with embedded objects and documents
  with macros are never released. Where the code does miss something, the theorems exclude it and say
  so: direct PDF actions that a reused \<open>id\<close> can confuse (\<open>reused_id_hides_action\<close>) and relationships
  declared in \<open>_rels/.rels\<close> (\<open>root_relationships_unreported\<close>). At the boundary (\<open>Http_Results\<close>) nothing
  happens without a live session and the token of that session, and a delivered document is the
  content of an approved, private object and in the audit trail. Counters, evidence and recursion are
  bounded whatever the document contains.

  \<^bold>\<open>Bounds and fuel.\<close> Nothing is cut off by fuel. Loops over chunks end by a measure: the bytes left of a
  limit. The traversal of nested archives and of the PDF graph recurse as the code does; the PDF walk
  counts the frames of the interpreter (\<open>wl_frames\<close>), because the code does end in a \<open>RecursionError\<close> on
  self-containing arrays, and \<open>pdf_recursion_bounded\<close> gives the number of frames that suffices
  otherwise. Limits are the defaults of the code (\<open>DEFAULT_PDF_LIMITS\<close> and its like) or arbitrary.
  Python integers are unbounded and so are \<open>int\<close> and \<open>nat\<close>; bytes are \<open>8 word\<close>.

  \<^bold>\<open>Not modelled.\<close> The operating-system sandbox (\<open>app/orchestrator/isolation.py\<close>) is the arbitrary function
  \<open>backend\<close>. The read-only routes, web pages and response schemas (\<open>app/api/\<close>, \<open>app/web/\<close>), settings and
  start-up checks (\<open>app/core/\<close>), logging, the qualification probe of the worker, the evaluation harness,
  scripts and migrations hold no state of their own that the properties speak of. Locks are not part of
  the state: an operation runs alone, and the rows another process changed meanwhile appear as a
  recovered scan.
\<close>

end
